(* ===== verification/Prelude.thy ===== *)
theory Prelude
  imports Main "HOL-Library.List_Lexorder" "HOL-Library.Product_Lexorder" "HOL-Library.Char_ord"
begin

text \<open>
  The vocabulary every component shares.

  \<^item> Python text: \<open>pystr\<close> is a list of characters, each a code point below 256; ordering is
    by code point (what \<open>sorted\<close> and SQLite's BINARY collation both use), and
    \<open>py_lower\<close>, \<open>py_strip\<close>, \<open>py_join\<close>, \<open>contains\<close> and \<open>show_int\<close> are the string
    methods the source calls.
  \<^item> Exceptions: \<open>exn\<close> has one constructor per exception class the source raises or catches.
  \<^item> Effects: a \<open>proc\<close> passes a state and either returns a value or raises. The state is
    returned in both cases, because an exception in Python does not undo the writes that
    were committed before it.
  \<^item> Effect orders: the locale \<open>effect_order\<close> lifts a reflexive, transitive relation between
    the state before and the state after through sequencing, exception handling and loops.
    Invariants, frame conditions, the append-only ledger and the life-cycle of a record are
    all instances of it.
\<close>

named_theorems proc_simps \<open>equations that run a proc\<close>
named_theorems model_defs \<open>definitions of small accessors that proofs unfold\<close>

section \<open>Python text\<close>

type_synonym pystr = string

definition path_separators :: "char list" where
  "path_separators = [CHR ''/'', CHR 0x5C, CHR 0x0A, CHR 0x0D, CHR 0x09]"

definition control_separators :: "char list" where
  "control_separators = [CHR 0x0A, CHR 0x0D, CHR 0x09]"

definition has_any :: "char list \<Rightarrow> pystr \<Rightarrow> bool" where
  "has_any seps s = list_ex (\<lambda>sep. sep \<in> set s) seps"

definition safe_identifier :: "pystr \<Rightarrow> bool" where
  "safe_identifier s = (\<not> has_any path_separators s)"

definition safe_text :: "pystr \<Rightarrow> bool" where
  "safe_text s = (\<not> has_any control_separators s)"

definition bounded :: "nat \<Rightarrow> nat \<Rightarrow> pystr \<Rightarrow> bool" where
  "bounded lo hi s = (lo \<le> length s \<and> length s \<le> hi)"

fun opt_all :: "('a \<Rightarrow> bool) \<Rightarrow> 'a option \<Rightarrow> bool" where
  "opt_all P None = True"
| "opt_all P (Some x) = P x"

definition is_lower_hex :: "char \<Rightarrow> bool" where
  "is_lower_hex c = (c \<in> set ''0123456789abcdef'')"

definition is_digest :: "pystr \<Rightarrow> bool" where
  "is_digest s = (length s = 64 \<and> list_all is_lower_hex s)"

definition py_lower_char :: "char \<Rightarrow> char" where
  "py_lower_char c =
     (let n = of_char c :: nat in
      if (65 \<le> n \<and> n \<le> 90) \<or> (192 \<le> n \<and> n \<le> 222 \<and> n \<noteq> 215) then char_of (n + 32) else c)"

definition py_lower :: "pystr \<Rightarrow> pystr" where
  "py_lower s = map py_lower_char s"

definition py_isspace :: "char \<Rightarrow> bool" where
  "py_isspace c =
     (let n = of_char c :: nat in
      (9 \<le> n \<and> n \<le> 13) \<or> (28 \<le> n \<and> n \<le> 32) \<or> n = 133 \<or> n = 160)"

definition py_strip :: "pystr \<Rightarrow> pystr" where
  "py_strip s = rev (dropWhile py_isspace (rev (dropWhile py_isspace s)))"

fun is_prefix_of :: "'a list \<Rightarrow> 'a list \<Rightarrow> bool" where
  "is_prefix_of [] ys = True"
| "is_prefix_of (x # xs) [] = False"
| "is_prefix_of (x # xs) (y # ys) = (x = y \<and> is_prefix_of xs ys)"

fun contains :: "'a list \<Rightarrow> 'a list \<Rightarrow> bool" where
  "contains sub [] = (sub = [])"
| "contains sub (x # xs) = (is_prefix_of sub (x # xs) \<or> contains sub xs)"

fun py_join :: "pystr \<Rightarrow> pystr list \<Rightarrow> pystr" where
  "py_join sep [] = []"
| "py_join sep [x] = x"
| "py_join sep (x # y # ys) = x @ sep @ py_join sep (y # ys)"

fun show_nat :: "nat \<Rightarrow> pystr" where
  "show_nat n =
     (if n < 10 then [char_of (48 + n)] else show_nat (n div 10) @ [char_of (48 + n mod 10)])"

declare show_nat.simps [simp del]

definition show_int :: "int \<Rightarrow> pystr" where
  "show_int i = (if i < 0 then CHR ''-'' # show_nat (nat (- i)) else show_nat (nat i))"

text \<open>The decimal text of a number determines it.\<close>

definition value_of_digits :: "pystr \<Rightarrow> nat" where
  "value_of_digits s = foldl (\<lambda>a c. 10 * a + (of_char c - 48)) 0 s"

lemma value_of_show_nat: "value_of_digits (show_nat n) = n"
proof (induction n rule: show_nat.induct)
  case (1 n)
  have digit: "of_char (char_of (48 + d) :: char) - 48 = d" if "d < 10" for d :: nat
  proof -
    have "(48 + d) mod 256 = 48 + d" using that by simp
    then show ?thesis by (simp only: of_char_of diff_add_inverse)
  qed
  show ?case
  proof (cases "n < 10")
    case True
    then show ?thesis by (subst show_nat.simps) (simp add: value_of_digits_def digit del: of_char_of)
  next
    case False
    with 1 have IH: "foldl (\<lambda>a c. 10 * a + (of_char c - 48)) 0 (show_nat (n div 10)) = n div 10"
      by (simp add: value_of_digits_def)
    show ?thesis using False
      by (subst show_nat.simps) (simp add: value_of_digits_def IH digit del: of_char_of)
  qed
qed

lemma show_nat_inject [simp]: "show_nat m = show_nat n \<longleftrightarrow> m = n"
  by (metis value_of_show_nat)

text \<open>\<open>s.split(sep)\<close> on one character, and \<open>s.replace("\\", "/")\<close>.\<close>

fun py_split :: "char \<Rightarrow> pystr \<Rightarrow> pystr list" where
  "py_split sep [] = [[]]"
| "py_split sep (c # cs) =
     (if c = sep then [] # py_split sep cs
      else (case py_split sep cs of [] \<Rightarrow> [[c]] | w # ws \<Rightarrow> (c # w) # ws))"

definition forward_slashes :: "pystr \<Rightarrow> pystr" where
  "forward_slashes s = map (\<lambda>c. if c = CHR 0x5C then CHR ''/'' else c) s"

text \<open>\<open>sorted(set(xs))\<close>.\<close>

definition sorted_set :: "'a::linorder list \<Rightarrow> 'a list" where
  "sorted_set xs = sort (remdups xs)"

text \<open>\<open>int(s)\<close>: surrounding space, a sign, digits with single underscores between them.\<close>

definition digit_value :: "char \<Rightarrow> nat option" where
  "digit_value c =
     (let n = of_char c :: nat in if 48 \<le> n \<and> n \<le> 57 then Some (n - 48) else None)"

fun digits_from :: "nat \<Rightarrow> pystr \<Rightarrow> nat option" where
  "digits_from acc [] = Some acc"
| "digits_from acc (c # cs) =
     (case digit_value c of
        Some d \<Rightarrow> digits_from (10 * acc + d) cs
      | None \<Rightarrow> (if c \<noteq> CHR ''_'' then None
                 else case cs of
                        [] \<Rightarrow> None
                      | d # ds \<Rightarrow> (case digit_value d of None \<Rightarrow> None
                                   | Some k \<Rightarrow> digits_from (10 * acc + k) ds)))"

definition py_digits :: "pystr \<Rightarrow> nat option" where
  "py_digits s =
     (case s of [] \<Rightarrow> None
      | c # cs \<Rightarrow> (case digit_value c of None \<Rightarrow> None | Some d \<Rightarrow> digits_from d cs))"

definition py_int :: "pystr \<Rightarrow> int option" where
  "py_int s =
     (case py_strip s of
        [] \<Rightarrow> None
      | c # cs \<Rightarrow>
          (if c = CHR ''-'' then map_option (\<lambda>n. - int n) (py_digits cs)
           else if c = CHR ''+'' then map_option int (py_digits cs)
           else map_option int (py_digits (c # cs))))"

text \<open>\<open>s.isdigit()\<close>: the superscripts count, although \<open>int\<close> rejects them.\<close>

definition py_isdigit :: "pystr \<Rightarrow> bool" where
  "py_isdigit s = (s \<noteq> [] \<and> list_all (\<lambda>c. (48 \<le> (of_char c :: nat) \<and> (of_char c :: nat) \<le> 57) \<or> (of_char c :: nat) \<in> {178, 179, 185}) s)"

section \<open>Exceptions and effects\<close>

datatype exn =
    KeyError pystr
  | ValueError pystr
  | ValidationError pystr
  | PermissionError pystr
  | IntegrityError pystr
  | RuntimeError pystr
  | TypeError pystr
  | FileNotFoundError pystr
  | AttributeError pystr
  | OSError pystr

text \<open>\<open>str(exc)\<close>.\<close>

fun exn_text :: "exn \<Rightarrow> pystr" where
  "exn_text (KeyError k) = CHR 0x27 # k @ [CHR 0x27]"
| "exn_text (ValueError m) = m"
| "exn_text (ValidationError m) = m"
| "exn_text (PermissionError m) = m"
| "exn_text (IntegrityError m) = m"
| "exn_text (RuntimeError m) = m"
| "exn_text (TypeError m) = m"
| "exn_text (FileNotFoundError m) = m"
| "exn_text (AttributeError m) = m"
| "exn_text (OSError m) = m"

text \<open>pydantic's \<open>ValidationError\<close> is a subclass of \<open>ValueError\<close>.\<close>

fun is_value_error :: "exn \<Rightarrow> bool" where
  "is_value_error (ValueError _) = True"
| "is_value_error (ValidationError _) = True"
| "is_value_error _ = False"

type_synonym ('s, 'a) proc = "'s \<Rightarrow> (exn + 'a) \<times> 's"

definition ret :: "'a \<Rightarrow> ('s, 'a) proc" where
  "ret x s = (Inr x, s)"

definition throw :: "exn \<Rightarrow> ('s, 'a) proc" where
  "throw e s = (Inl e, s)"

definition andthen :: "('s, 'a) proc \<Rightarrow> ('a \<Rightarrow> ('s, 'b) proc) \<Rightarrow> ('s, 'b) proc" where
  "andthen m k s = (case m s of (Inl e, s') \<Rightarrow> (Inl e, s') | (Inr x, s') \<Rightarrow> k x s')"

definition reads :: "('s \<Rightarrow> 'a) \<Rightarrow> ('s, 'a) proc" where
  "reads f s = (Inr (f s), s)"

definition writes :: "('s \<Rightarrow> 's) \<Rightarrow> ('s, unit) proc" where
  "writes f s = (Inr (), f s)"

text \<open>\<open>try: m; except KeyError: h\<close>.\<close>

definition on_key_error :: "('s, 'a) proc \<Rightarrow> ('s, 'a) proc \<Rightarrow> ('s, 'a) proc" where
  "on_key_error m h s = (case m s of (Inl (KeyError k), s') \<Rightarrow> h s' | r \<Rightarrow> r)"

definition lift_result :: "exn + 'a \<Rightarrow> ('s, 'a) proc" where
  "lift_result r s = (r, s)"

primrec each_proc :: "('x \<Rightarrow> ('s, 'a) proc) \<Rightarrow> 'x list \<Rightarrow> ('s, 'a list) proc" where
  "each_proc f [] = ret []"
| "each_proc f (x # xs) =
     andthen (f x) (\<lambda>y. andthen (each_proc f xs) (\<lambda>ys. ret (y # ys)))"

text \<open>Reading a list of stored payloads stops at the first one that fails to validate.\<close>

fun parse_all :: "('r \<Rightarrow> exn + 'a) \<Rightarrow> 'r list \<Rightarrow> exn + 'a list" where
  "parse_all p [] = Inr []"
| "parse_all p (r # rs) =
     (case p r of Inl e \<Rightarrow> Inl e
      | Inr x \<Rightarrow> (case parse_all p rs of Inl e \<Rightarrow> Inl e | Inr xs \<Rightarrow> Inr (x # xs)))"

lemma ret_run [proc_simps, simp]: "ret x s = (Inr x, s)"
  by (simp add: ret_def)

lemma throw_run [proc_simps, simp]: "throw e s = (Inl e, s)"
  by (simp add: throw_def)

lemma reads_run [proc_simps, simp]: "reads f s = (Inr (f s), s)"
  by (simp add: reads_def)

lemma writes_run [proc_simps, simp]: "writes f s = (Inr (), f s)"
  by (simp add: writes_def)

lemma lift_result_run [proc_simps, simp]: "lift_result r s = (r, s)"
  by (simp add: lift_result_def)

lemma andthen_Inr [proc_simps]: "m s = (Inr x, s') \<Longrightarrow> andthen m k s = k x s'"
  by (simp add: andthen_def)

lemma andthen_Inl [proc_simps]: "m s = (Inl e, s') \<Longrightarrow> andthen m k s = (Inl e, s')"
  by (simp add: andthen_def)

lemma andthen_ret [simp]: "andthen (ret x) k = k x"
  by (simp add: andthen_def fun_eq_iff)

lemma andthen_throw [simp]: "andthen (throw e) k = throw e"
  by (simp add: andthen_def fun_eq_iff)

lemma andthen_reads [simp]: "andthen (reads f) k s = k (f s) s"
  by (simp add: andthen_def)

lemma andthen_writes [simp]: "andthen (writes f) k s = k () (f s)"
  by (simp add: andthen_def)

lemma andthen_lift [simp]: "andthen (lift_result r) k s = (case r of Inl e \<Rightarrow> (Inl e, s) | Inr x \<Rightarrow> k x s)"
  by (simp add: andthen_def split: sum.splits)

lemma andthen_assoc: "andthen (andthen m k) l = andthen m (\<lambda>x. andthen (k x) l)"
  by (rule ext) (simp add: andthen_def split: prod.splits sum.splits)

lemma andthen_InrE:
  assumes "andthen m k s = (Inr y, s'')"
  obtains x s' where "m s = (Inr x, s')" "k x s' = (Inr y, s'')"
  using assms by (auto simp: andthen_def split: prod.splits sum.splits)

lemma parse_all_Inr:
  "(\<And>r. r \<in> set rs \<Longrightarrow> p r = Inr (f r)) \<Longrightarrow> parse_all p rs = Inr (map f rs)"
  by (induction rs) auto

lemma parse_all_id: "(\<And>r. r \<in> set rs \<Longrightarrow> p r = Inr r) \<Longrightarrow> parse_all p rs = Inr rs"
  using parse_all_Inr [of rs p "\<lambda>r. r"] by simp

lemma parse_all_error:
  "r \<in> set rs \<Longrightarrow> p r = Inl e \<Longrightarrow> \<exists>e'. parse_all p rs = Inl e'"
  by (induction rs) (auto split: sum.splits)

lemma parse_all_length: "parse_all p rs = Inr xs \<Longrightarrow> length xs = length rs"
  by (induction rs arbitrary: xs) (auto split: sum.splits)

lemma parse_all_nth:
  "parse_all p rs = Inr xs \<Longrightarrow> list_all2 (\<lambda>r x. p r = Inr x) rs xs"
  by (induction rs arbitrary: xs) (auto split: sum.splits)

section \<open>Relations between the state before and after\<close>

definition obeys :: "('s \<Rightarrow> 's \<Rightarrow> bool) \<Rightarrow> ('s, 'a) proc \<Rightarrow> bool" where
  "obeys R m = (\<forall>s. R s (snd (m s)))"

lemma obeysI: "(\<And>s. R s (snd (m s))) \<Longrightarrow> obeys R m"
  by (simp add: obeys_def)

lemma obeysD: "obeys R m \<Longrightarrow> R s (snd (m s))"
  by (simp add: obeys_def)

locale effect_order =
  fixes R :: "'s \<Rightarrow> 's \<Rightarrow> bool"
  assumes R_refl: "R s s"
    and R_trans: "R s t \<Longrightarrow> R t u \<Longrightarrow> R s u"
begin

lemma ret: "obeys R (ret x)"
  by (simp add: obeys_def R_refl)

lemma throw: "obeys R (throw e)"
  by (simp add: obeys_def R_refl)

lemma reads: "obeys R (reads f)"
  by (simp add: obeys_def R_refl)

lemma pure_result: "obeys R (Pair r)"
  by (simp add: obeys_def R_refl)

lemma lift_result: "obeys R (lift_result r)"
  by (simp add: obeys_def R_refl)

lemma andthen:
  assumes m: "obeys R m" and k: "\<And>x. obeys R (k x)"
  shows "obeys R (andthen m k)"
proof (rule obeysI)
  fix s
  obtain r s' where ms: "m s = (r, s')" by fastforce
  with obeysD [OF m, of s] have 1: "R s s'" by simp
  show "R s (snd (andthen m k s))"
  proof (cases r)
    case (Inl e)
    with ms 1 show ?thesis by (simp add: andthen_def)
  next
    case (Inr x)
    with obeysD [OF k, of s' x] have "R s' (snd (k x s'))" by simp
    with 1 have "R s (snd (k x s'))" by (rule R_trans)
    with ms Inr show ?thesis by (simp add: andthen_def)
  qed
qed

lemma andthen_when:
  assumes m: "obeys R m" and k: "\<And>x s s'. m s = (Inr x, s') \<Longrightarrow> obeys R (k x)"
  shows "obeys R (andthen m k)"
proof (rule obeysI)
  fix s
  obtain r s' where ms: "m s = (r, s')" by fastforce
  with obeysD [OF m, of s] have 1: "R s s'" by simp
  show "R s (snd (andthen m k s))"
  proof (cases r)
    case (Inl e)
    with ms 1 show ?thesis by (simp add: andthen_def)
  next
    case (Inr x)
    with ms have "obeys R (k x)" by (intro k) simp
    then have "R s' (snd (k x s'))" by (rule obeysD)
    with 1 have "R s (snd (k x s'))" by (rule R_trans)
    with ms Inr show ?thesis by (simp add: andthen_def)
  qed
qed

lemma lift_bind:
  "(\<And>x. r = Inr x \<Longrightarrow> obeys R (k x)) \<Longrightarrow> obeys R (andthen (lift_result r) k)"
  by (rule obeysI) (auto simp: obeys_def R_refl split: sum.splits)

lemma on_key_error:
  assumes m: "obeys R m" and h: "obeys R h"
  shows "obeys R (on_key_error m h)"
proof (rule obeysI)
  fix s
  obtain r s' where ms: "m s = (r, s')" by fastforce
  with obeysD [OF m, of s] have 1: "R s s'" by simp
  with obeysD [OF h, of s'] have "R s (snd (h s'))" using R_trans by blast
  with ms 1 show "R s (snd (on_key_error m h s))"
    by (simp add: on_key_error_def split: sum.splits exn.splits)
qed

lemma each_proc:
  assumes "\<And>x. obeys R (f x)"
  shows "obeys R (each_proc f xs)"
proof (induction xs)
  case Nil
  show ?case by (simp add: pure_result)
next
  case (Cons x xs)
  then show ?case unfolding each_proc.simps by (intro andthen ret assms)
qed

lemma let_proc: "obeys R (f x) \<Longrightarrow> obeys R (let y = x in f y)"
  by simp

lemma case_prod_proc: "(\<And>x y. obeys R (f x y)) \<Longrightarrow> obeys R (case p of (x, y) \<Rightarrow> f x y)"
  by (cases p) simp

lemma if_proc: "obeys R m \<Longrightarrow> obeys R n \<Longrightarrow> obeys R (if b then m else n)"
  by simp

lemma case_option_proc:
  "obeys R m \<Longrightarrow> (\<And>x. obeys R (n x)) \<Longrightarrow> obeys R (case v of None \<Rightarrow> m | Some x \<Rightarrow> n x)"
  by (cases v) simp_all

lemmas effect_intros =
  ret throw reads pure_result lift_result andthen on_key_error each_proc if_proc case_option_proc

end

text \<open>The two instances every component uses: an invariant, and a part of the state left alone.\<close>

definition keeping :: "('s \<Rightarrow> bool) \<Rightarrow> 's \<Rightarrow> 's \<Rightarrow> bool" where
  "keeping P s s' = (P s \<longrightarrow> P s')"

definition same_on :: "('s \<Rightarrow> 'f) \<Rightarrow> 's \<Rightarrow> 's \<Rightarrow> bool" where
  "same_on f s s' = (f s' = f s)"

interpretation invariant: effect_order "keeping P" for P :: "'s \<Rightarrow> bool"
  by unfold_locales (auto simp: keeping_def)

interpretation frame: effect_order "same_on f" for f :: "'s \<Rightarrow> 'f"
  by unfold_locales (auto simp: same_on_def)

lemma keepingI: "(\<And>s. P s \<Longrightarrow> P (snd (m s))) \<Longrightarrow> obeys (keeping P) m"
  by (simp add: obeys_def keeping_def)

lemma keepingD: "obeys (keeping P) m \<Longrightarrow> P s \<Longrightarrow> m s = (r, s') \<Longrightarrow> P s'"
  by (auto simp: obeys_def keeping_def dest: spec [of _ s])

lemma sameI: "(\<And>s. f (snd (m s)) = f s) \<Longrightarrow> obeys (same_on f) m"
  by (simp add: obeys_def same_on_def)

lemma sameD: "obeys (same_on f) m \<Longrightarrow> m s = (r, s') \<Longrightarrow> f s' = f s"
  by (auto simp: obeys_def same_on_def dest: spec [of _ s])

section \<open>Lists\<close>

lemma is_prefix_iff: "is_prefix_of p s \<longleftrightarrow> (\<exists>t. s = p @ t)"
  by (induction p s rule: is_prefix_of.induct) auto

lemma set_sorted_set [simp]: "set (sorted_set xs) = set xs"
  by (simp add: sorted_set_def)

lemma sorted_sorted_set [simp]: "sorted (sorted_set xs)" "distinct (sorted_set xs)"
  by (simp_all add: sorted_set_def)

lemma sorted_set_idem [simp]: "sorted_set (sorted_set xs) = sorted_set xs"
  by (simp add: sorted_set_def distinct_remdups_id sorted_sort_id)

lemma hd_sort_key_least:
  assumes "xs \<noteq> []" "y \<in> set xs"
  shows "f (hd (sort_key f xs)) \<le> f y"
proof -
  have "sort_key f xs \<noteq> []" using assms(1)
    by (metis length_sort length_greater_0_conv)
  then obtain z zs where zs: "sort_key f xs = z # zs" by (cases "sort_key f xs") auto
  have "sorted (map f (z # zs))" using sorted_sort_key [of f xs] zs by simp
  moreover have "y \<in> set (z # zs)" using assms(2) zs by (metis set_sort)
  ultimately show ?thesis using zs by auto
qed

lemma hd_sort_key_in: "xs \<noteq> [] \<Longrightarrow> hd (sort_key f xs) \<in> set xs"
  by (metis hd_in_set length_greater_0_conv length_sort set_sort)

lemma filter_sort_key_eq:
  "filter P (sort_key f xs) = sort_key f (filter P xs)"
  by (simp add: filter_sort)

end
