(* ===== verification/Schema.thy ===== *)
theory Schema
  imports Prelude
begin

text \<open>
  The SQLite schema of \<open>vad/server/db/store.py\<close> and its ten migrations, as data: one script
  of \<open>CREATE TABLE IF NOT EXISTS\<close> and \<open>CREATE INDEX IF NOT EXISTS\<close> statements per
  \<open>_migrate_00x\<close> method. \<open>run_migrations\<close> is the chain of version tests in
  \<open>ServerStore.migrate\<close>.
\<close>

datatype col_type = Text_Column | Integer_Column

datatype fk_action = No_Action | Cascade | Set_Null

record column =
  col_name :: pystr
  col_type :: col_type
  col_not_null :: bool
  col_default :: "pystr option"

record foreign_key =
  fk_column :: pystr
  fk_table :: pystr
  fk_ref_column :: pystr
  fk_on_delete :: fk_action

record table_schema =
  tab_name :: pystr
  tab_columns :: "column list"
  tab_primary_key :: "pystr list"
  tab_foreign_keys :: "foreign_key list"

record index_schema =
  idx_name :: pystr
  idx_table :: pystr
  idx_columns :: "pystr list"

datatype ddl = Create_Table table_schema | Create_Index index_schema

record sql_schema =
  sch_tables :: "table_schema list"
  sch_indexes :: "index_schema list"

definition empty_schema :: sql_schema where
  "empty_schema = \<lparr>sch_tables = [], sch_indexes = []\<rparr>"

definition required_text :: "pystr \<Rightarrow> column" where
  "required_text n = \<lparr>col_name = n, col_type = Text_Column, col_not_null = True, col_default = None\<rparr>"

definition optional_text :: "pystr \<Rightarrow> column" where
  "optional_text n = \<lparr>col_name = n, col_type = Text_Column, col_not_null = False, col_default = None\<rparr>"

definition required_int :: "pystr \<Rightarrow> column" where
  "required_int n = \<lparr>col_name = n, col_type = Integer_Column, col_not_null = True, col_default = None\<rparr>"

definition defaulted_text :: "pystr \<Rightarrow> pystr \<Rightarrow> column" where
  "defaulted_text n d = \<lparr>col_name = n, col_type = Text_Column, col_not_null = True, col_default = Some d\<rparr>"

definition references :: "pystr \<Rightarrow> pystr \<Rightarrow> pystr \<Rightarrow> fk_action \<Rightarrow> foreign_key" where
  "references c t rc act = \<lparr>fk_column = c, fk_table = t, fk_ref_column = rc, fk_on_delete = act\<rparr>"

definition create_table :: "pystr \<Rightarrow> column list \<Rightarrow> pystr list \<Rightarrow> foreign_key list \<Rightarrow> ddl" where
  "create_table n cols pk fks = Create_Table
     \<lparr>tab_name = n, tab_columns = cols, tab_primary_key = pk, tab_foreign_keys = fks\<rparr>"

definition create_index :: "pystr \<Rightarrow> pystr \<Rightarrow> pystr list \<Rightarrow> ddl" where
  "create_index n t cols = Create_Index \<lparr>idx_name = n, idx_table = t, idx_columns = cols\<rparr>"

text \<open>\<open>IF NOT EXISTS\<close>: a name that is taken makes the statement do nothing.\<close>

definition table_names :: "sql_schema \<Rightarrow> pystr list" where
  "table_names s = map tab_name (sch_tables s)"

definition index_names :: "sql_schema \<Rightarrow> pystr list" where
  "index_names s = map idx_name (sch_indexes s)"

fun exec_ddl :: "ddl \<Rightarrow> sql_schema \<Rightarrow> sql_schema" where
  "exec_ddl (Create_Table t) s =
     (if tab_name t \<in> set (table_names s) then s else s\<lparr>sch_tables := sch_tables s @ [t]\<rparr>)"
| "exec_ddl (Create_Index i) s =
     (if idx_name i \<in> set (index_names s) then s else s\<lparr>sch_indexes := sch_indexes s @ [i]\<rparr>)"

definition executescript :: "ddl list \<Rightarrow> sql_schema \<Rightarrow> sql_schema" where
  "executescript script s = fold exec_ddl script s"

definition migrate_001 :: "ddl list" where
  "migrate_001 =
     [create_table ''run_evidence''
         [optional_text ''run_id'', required_text ''evidence_digest'',
          required_text ''payload_json'', required_text ''created_at'',
          required_text ''final_decision'']
         [''run_id'']
         [],
      create_table ''approval_events''
         [optional_text ''approval_id'', required_text ''run_id'', required_text ''actor'',
          required_text ''action'', required_text ''created_at'',
          required_text ''decision_json'', optional_text ''evidence_digest'']
         [''approval_id'']
         [references ''run_id'' ''run_evidence'' ''run_id'' No_Action]]"

definition migrate_002 :: "ddl list" where
  "migrate_002 =
     [create_table ''dashboard_activity''
         [optional_text ''activity_id'', required_text ''run_id'', required_text ''kind'',
          required_text ''status'', required_text ''client'', required_text ''actor'',
          required_text ''role'', required_text ''summary'', required_text ''created_at'',
          optional_text ''task_id'', optional_text ''evidence_digest'',
          required_text ''payload_json'']
         [''activity_id'']
         [references ''run_id'' ''run_evidence'' ''run_id'' No_Action]]"

definition migrate_003 :: "ddl list" where
  "migrate_003 =
     [create_table ''control_plane_events''
         [optional_text ''event_id'', required_int ''sequence'',
          required_text ''created_at'', required_text ''client_id'',
          optional_text ''run_id'', optional_text ''task_id'', required_text ''kind'',
          required_text ''status'', required_text ''actor'', required_text ''role'',
          optional_text ''evidence_digest'', required_text ''payload_json'']
         [''event_id'']
         [],
      create_index ''idx_control_plane_events_order'' ''control_plane_events'' [''sequence'', ''created_at'', ''event_id''],
      create_index ''idx_control_plane_events_run'' ''control_plane_events'' [''run_id'', ''sequence''],
      create_index ''idx_control_plane_events_client'' ''control_plane_events'' [''client_id'', ''sequence'']]"

definition migrate_004 :: "ddl list" where
  "migrate_004 =
     [create_table ''client_manifests''
         [optional_text ''client_id'', required_text ''display_name'',
          required_text ''client_type'', required_text ''connection_mode'',
          required_text ''trust_state'', required_text ''workspace_root'',
          required_text ''payload_json'', required_text ''registered_at'']
         [''client_id'']
         [],
      create_index ''idx_client_manifests_type'' ''client_manifests'' [''client_type'', ''display_name''],
      create_index ''idx_client_manifests_trust'' ''client_manifests'' [''trust_state'', ''display_name'']]"

definition migrate_005 :: "ddl list" where
  "migrate_005 =
     [create_table ''client_heartbeats''
         [optional_text ''client_id'', required_text ''status'',
          optional_text ''last_heartbeat_at'', optional_text ''last_run_id'',
          optional_text ''last_task_id'', defaulted_text ''lost_task_leases_json'' ''[]'',
          required_text ''payload_json'']
         [''client_id'']
         [references ''client_id'' ''client_manifests'' ''client_id'' Cascade],
      create_index ''idx_client_heartbeats_status'' ''client_heartbeats'' [''status'', ''last_heartbeat_at'']]"

definition migrate_006 :: "ddl list" where
  "migrate_006 =
     [create_table ''task_leases''
         [optional_text ''task_id'', required_text ''run_id'', required_text ''client_id'',
          required_text ''role'', required_text ''actor'', required_text ''acquired_at'',
          required_text ''expires_at'', required_text ''status'',
          required_text ''payload_json'']
         [''task_id'']
         [references ''client_id'' ''client_manifests'' ''client_id'' Cascade],
      create_index ''idx_task_leases_client_status'' ''task_leases'' [''client_id'', ''status'', ''expires_at''],
      create_index ''idx_task_leases_run'' ''task_leases'' [''run_id'', ''status'', ''task_id'']]"

definition migrate_007 :: "ddl list" where
  "migrate_007 =
     [create_table ''work_items''
         [optional_text ''work_item_id'', required_text ''run_id'', required_text ''title'',
          required_text ''role'', optional_text ''requested_capability'',
          required_int ''priority'', required_text ''status'', required_text ''created_at'',
          required_text ''updated_at'', optional_text ''assigned_client_id'',
          optional_text ''lease_id'', optional_text ''evidence_digest'',
          required_text ''payload_json'']
         [''work_item_id'']
         [references ''assigned_client_id'' ''client_manifests'' ''client_id'' Set_Null,
          references ''lease_id'' ''task_leases'' ''task_id'' Set_Null],
      create_index ''idx_work_items_run_status'' ''work_items'' [''run_id'', ''status'', ''priority'', ''created_at''],
      create_index ''idx_work_items_status_priority'' ''work_items'' [''status'', ''priority'', ''created_at''],
      create_index ''idx_work_items_assigned_client'' ''work_items'' [''assigned_client_id'', ''status'', ''priority'']]"

definition migrate_008 :: "ddl list" where
  "migrate_008 =
     [create_table ''plugin_inventory''
         [optional_text ''plugin_id'', required_text ''target_client'',
          required_text ''version'', required_text ''review_state'',
          required_text ''dashboard_status'', required_text ''uninstall_status'',
          required_text ''rollback_status'', required_text ''payload_json'']
         [''plugin_id'']
         [],
      create_index ''idx_plugin_inventory_target'' ''plugin_inventory'' [''target_client'', ''review_state'', ''plugin_id''],
      create_index ''idx_plugin_inventory_dashboard'' ''plugin_inventory'' [''dashboard_status'', ''plugin_id'']]"

definition migrate_009 :: "ddl list" where
  "migrate_009 =
     [create_table ''proof_stream_records''
         [optional_text ''record_id'', required_text ''run_id'', required_text ''task_id'',
          required_text ''status'', required_text ''created_at'',
          optional_text ''evidence_digest'', required_text ''payload_json'']
         [''record_id'']
         [],
      create_index ''idx_proof_stream_run'' ''proof_stream_records'' [''run_id'', ''task_id'', ''created_at'', ''record_id''],
      create_index ''idx_proof_stream_status'' ''proof_stream_records'' [''status'', ''created_at'', ''record_id''],
      create_table ''terminal_stream_records''
         [optional_text ''record_id'', required_text ''run_id'', required_text ''task_id'',
          required_text ''kind'', required_text ''status'', required_text ''created_at'',
          optional_text ''evidence_digest'', required_text ''payload_json'']
         [''record_id'']
         [],
      create_index ''idx_terminal_stream_run'' ''terminal_stream_records'' [''run_id'', ''task_id'', ''created_at'', ''record_id''],
      create_index ''idx_terminal_stream_kind'' ''terminal_stream_records'' [''kind'', ''status'', ''created_at'', ''record_id'']]"

definition migrate_010 :: "ddl list" where
  "migrate_010 =
     [create_table ''diff_proposals''
         [optional_text ''proposal_id'', required_text ''run_id'', required_text ''task_id'',
          required_text ''status'', required_text ''created_at'',
          required_text ''payload_json'']
         [''proposal_id'']
         [],
      create_index ''idx_diff_proposals_run_task'' ''diff_proposals'' [''run_id'', ''task_id'', ''created_at'', ''proposal_id''],
      create_table ''diff_apply_records''
         [optional_text ''record_id'', required_text ''proposal_id'',
          required_text ''created_at'', required_text ''payload_json'']
         [''record_id'']
         [references ''proposal_id'' ''diff_proposals'' ''proposal_id'' Cascade],
      create_index ''idx_diff_apply_records_proposal'' ''diff_apply_records'' [''proposal_id'', ''created_at'', ''record_id''],
      create_table ''run_task_states''
         [required_text ''run_id'', required_text ''task_id'', required_text ''status'',
          optional_text ''work_item_id'', required_text ''updated_at'',
          required_text ''payload_json'']
         [''run_id'', ''task_id'']
         [],
      create_index ''idx_run_task_states_status'' ''run_task_states'' [''status'', ''updated_at'', ''run_id'', ''task_id''],
      create_table ''operator_intent_records''
         [optional_text ''intent_ref'', required_text ''actor'', required_text ''role'',
          required_text ''scope'', required_text ''created_at'',
          required_text ''payload_json'']
         [''intent_ref'']
         [],
      create_index ''idx_operator_intent_scope'' ''operator_intent_records'' [''scope'', ''created_at'', ''intent_ref'']]"


definition schema_version :: nat where
  "schema_version = 10"

text \<open>The version tests of \<open>migrate\<close>: each applied migration advances \<open>current\<close>.\<close>

definition when_below :: "nat \<Rightarrow> ddl list \<Rightarrow> nat \<times> sql_schema \<Rightarrow> nat \<times> sql_schema" where
  "when_below n script cs =
     (case cs of (current, s) \<Rightarrow> if current < n then (n, executescript script s) else (current, s))"

definition run_migrations :: "nat \<Rightarrow> sql_schema \<Rightarrow> sql_schema" where
  "run_migrations current s =
     snd (when_below 10 migrate_010 (when_below 9 migrate_009 (when_below 8 migrate_008
         (when_below 7 migrate_007 (when_below 6 migrate_006 (when_below 5 migrate_005
         (when_below 4 migrate_004 (when_below 3 migrate_003 (when_below 2 migrate_002
         (if current = 0 then (1, executescript migrate_001 s) else (current, s)))))))))))"

text \<open>The schema a database has once the first \<open>v\<close> migrations ran on an empty file.\<close>

definition migrations :: "ddl list list" where
  "migrations = [migrate_001, migrate_002, migrate_003, migrate_004, migrate_005,
     migrate_006, migrate_007, migrate_008, migrate_009, migrate_010]"

definition schema_at :: "nat \<Rightarrow> sql_schema" where
  "schema_at v = fold executescript (take v migrations) empty_schema"

section \<open>Scripts that have run before change nothing\<close>

fun ddl_done :: "sql_schema \<Rightarrow> ddl \<Rightarrow> bool" where
  "ddl_done s (Create_Table t) = (tab_name t \<in> set (table_names s))"
| "ddl_done s (Create_Index i) = (idx_name i \<in> set (index_names s))"

lemma exec_ddl_done: "ddl_done s d \<Longrightarrow> exec_ddl d s = s"
  by (cases d) simp_all

lemma ddl_done_exec: "ddl_done (exec_ddl d s) d"
  by (cases d) (auto simp: table_names_def index_names_def)

lemma ddl_done_mono: "ddl_done s d \<Longrightarrow> ddl_done (exec_ddl d' s) d"
  by (cases d; cases d') (auto simp: table_names_def index_names_def)

lemma executescript_mono: "ddl_done s d \<Longrightarrow> ddl_done (executescript script s) d"
  by (induction script arbitrary: s) (auto simp: executescript_def ddl_done_mono)

lemma executescript_done: "d \<in> set script \<Longrightarrow> ddl_done (executescript script s) d"
proof (induction script arbitrary: s)
  case (Cons c script)
  then show ?case
    using executescript_mono [OF ddl_done_exec [of c s], of script]
    by (auto simp: executescript_def)
qed simp

lemma executescript_noop: "(\<And>d. d \<in> set script \<Longrightarrow> ddl_done s d) \<Longrightarrow> executescript script s = s"
  by (induction script) (simp_all add: executescript_def exec_ddl_done)

lemma scripts_mono: "ddl_done s d \<Longrightarrow> ddl_done (fold executescript scripts s) d"
  by (induction scripts arbitrary: s) (simp_all add: executescript_mono)

lemma scripts_done:
  "script \<in> set scripts \<Longrightarrow> d \<in> set script \<Longrightarrow> ddl_done (fold executescript scripts s) d"
proof (induction scripts arbitrary: s)
  case (Cons c scripts)
  then show ?case
    using scripts_mono [OF executescript_done [of d c s], of scripts] by auto
qed simp

lemma scripts_noop:
  "(\<And>script d. script \<in> set scripts \<Longrightarrow> d \<in> set script \<Longrightarrow> ddl_done s d) \<Longrightarrow>
   fold executescript scripts s = s"
proof (induction scripts)
  case (Cons c scripts)
  then have "executescript c s = s" by (intro executescript_noop) auto
  with Cons show ?case by auto
qed simp

lemma run_migrations_drop:
  assumes "v \<le> 10"
  shows "run_migrations v s = fold executescript (drop v migrations) s"
proof -
  from assms have "v = 0 \<or> v = 1 \<or> v = 2 \<or> v = 3 \<or> v = 4 \<or> v = 5 \<or> v = 6 \<or> v = 7 \<or> v = 8 \<or> v = 9 \<or> v = 10"
    by presburger
  then show ?thesis
    by (elim disjE) (simp_all add: run_migrations_def when_below_def migrations_def)
qed

lemma resume:
  assumes "v \<le> u"
  shows "fold executescript (drop v scripts) (fold executescript (take u scripts) s)
       = fold executescript scripts s"
proof -
  let ?mid = "fold executescript (take u scripts) s"
  have split: "drop v scripts = drop v (take u scripts) @ drop u scripts"
    using assms by (metis append_take_drop_id drop_append drop_take length_take
        min.absorb2 nat_le_linear take_all_iff diff_is_0_eq' drop0 append_Nil2 drop_all)
  have "fold executescript (drop v (take u scripts)) ?mid = ?mid"
    by (rule scripts_noop) (meson in_set_dropD scripts_done)
  then have "fold executescript (drop v scripts) ?mid = fold executescript (drop u scripts) ?mid"
    unfolding split by simp
  also have "\<dots> = fold executescript scripts s"
    by (metis append_take_drop_id comp_apply fold_append)
  finally show ?thesis .
qed

section \<open>Referential well-formedness\<close>

definition fk_well_formed :: "table_schema list \<Rightarrow> table_schema \<Rightarrow> foreign_key \<Rightarrow> bool" where
  "fk_well_formed tables t f =
     (list_ex (\<lambda>c. col_name c = fk_column f \<and> (fk_on_delete f = Set_Null \<longrightarrow> \<not> col_not_null c)) (tab_columns t)
      \<and> list_ex (\<lambda>p. tab_name p = fk_table f \<and> tab_primary_key p = [fk_ref_column f]) tables)"

definition table_well_formed :: "table_schema list \<Rightarrow> table_schema \<Rightarrow> bool" where
  "table_well_formed tables t =
     (distinct (map col_name (tab_columns t))
      \<and> list_all (\<lambda>k. k \<in> set (map col_name (tab_columns t))) (tab_primary_key t)
      \<and> list_all (fk_well_formed tables t) (tab_foreign_keys t))"

definition index_well_formed :: "table_schema list \<Rightarrow> index_schema \<Rightarrow> bool" where
  "index_well_formed tables i =
     list_ex (\<lambda>t. tab_name t = idx_table i
        \<and> list_all (\<lambda>c. c \<in> set (map col_name (tab_columns t))) (idx_columns i)) tables"

definition schema_well_formed :: "sql_schema \<Rightarrow> bool" where
  "schema_well_formed s =
     (distinct (table_names s) \<and> distinct (index_names s)
      \<and> list_all (table_well_formed (sch_tables s)) (sch_tables s)
      \<and> list_all (index_well_formed (sch_tables s)) (sch_indexes s))"

text \<open>A table only refers to tables created before it, so statements can be checked one by one.\<close>

fun script_well_formed :: "table_schema list \<Rightarrow> ddl list \<Rightarrow> bool" where
  "script_well_formed tables [] = True"
| "script_well_formed tables (Create_Table t # ds) =
     (table_well_formed tables t \<and> script_well_formed (tables @ [t]) ds)"
| "script_well_formed tables (Create_Index i # ds) =
     (index_well_formed tables i \<and> script_well_formed tables ds)"


fun script_tables :: "ddl list \<Rightarrow> table_schema list" where
  "script_tables [] = []"
| "script_tables (Create_Table t # ds) = t # script_tables ds"
| "script_tables (Create_Index i # ds) = script_tables ds"

fun script_indexes :: "ddl list \<Rightarrow> index_schema list" where
  "script_indexes [] = []"
| "script_indexes (Create_Table t # ds) = script_indexes ds"
| "script_indexes (Create_Index i # ds) = i # script_indexes ds"

lemma table_well_formed_append: "table_well_formed ts t \<Longrightarrow> table_well_formed (ts @ us) t"
  by (auto simp: table_well_formed_def fk_well_formed_def list_all_iff)

lemma index_well_formed_append: "index_well_formed ts i \<Longrightarrow> index_well_formed (ts @ us) i"
  by (simp add: index_well_formed_def)

lemma executescript_well_formed:
  assumes "script_well_formed (sch_tables s) ds" "schema_well_formed s"
    "distinct (table_names s @ map tab_name (script_tables ds))"
    "distinct (index_names s @ map idx_name (script_indexes ds))"
  shows "schema_well_formed (executescript ds s)
    \<and> sch_tables (executescript ds s) = sch_tables s @ script_tables ds
    \<and> sch_indexes (executescript ds s) = sch_indexes s @ script_indexes ds"
  using assms
proof (induction ds arbitrary: s)
  case Nil
  then show ?case by (simp add: executescript_def)
next
  case (Cons d ds)
  show ?case
  proof (cases d)
    case (Create_Table t)
    let ?s = "s\<lparr>sch_tables := sch_tables s @ [t]\<rparr>"
    have wf: "schema_well_formed ?s"
      using Cons.prems Create_Table
      by (auto simp: schema_well_formed_def table_names_def index_names_def list_all_iff
          intro: table_well_formed_append index_well_formed_append)
    have "schema_well_formed (executescript ds ?s)
      \<and> sch_tables (executescript ds ?s) = sch_tables ?s @ script_tables ds
      \<and> sch_indexes (executescript ds ?s) = sch_indexes ?s @ script_indexes ds"
      using Cons.prems Create_Table wf
      by (intro Cons.IH) (auto simp: table_names_def index_names_def)
    moreover have "executescript (d # ds) s = executescript ds ?s"
      using Cons.prems Create_Table by (simp add: executescript_def table_names_def)
    ultimately show ?thesis using Create_Table by simp
  next
    case (Create_Index i)
    let ?s = "s\<lparr>sch_indexes := sch_indexes s @ [i]\<rparr>"
    have wf: "schema_well_formed ?s"
      using Cons.prems Create_Index
      by (auto simp: schema_well_formed_def table_names_def index_names_def)
    have "schema_well_formed (executescript ds ?s)
      \<and> sch_tables (executescript ds ?s) = sch_tables ?s @ script_tables ds
      \<and> sch_indexes (executescript ds ?s) = sch_indexes ?s @ script_indexes ds"
      using Cons.prems Create_Index wf
      by (intro Cons.IH) (auto simp: table_names_def index_names_def)
    moreover have "executescript (d # ds) s = executescript ds ?s"
      using Cons.prems Create_Index by (simp add: executescript_def index_names_def)
    ultimately show ?thesis using Create_Index by simp
  qed
qed

lemma script_well_formed_append:
  "script_well_formed ts (ds @ es) \<longleftrightarrow>
   script_well_formed ts ds \<and> script_well_formed (ts @ script_tables ds) es"
  by (induction ts ds rule: script_well_formed.induct) auto

lemma script_tables_append: "script_tables (ds @ es) = script_tables ds @ script_tables es"
  by (induction ds rule: script_tables.induct) auto

lemma script_indexes_append: "script_indexes (ds @ es) = script_indexes ds @ script_indexes es"
  by (induction ds rule: script_indexes.induct) auto

lemma fold_executescript: "fold executescript scripts s = executescript (concat scripts) s"
  by (induction scripts arbitrary: s) (simp_all add: executescript_def fold_append)

lemmas migration_defs =
  migrations_def migrate_001_def migrate_002_def migrate_003_def migrate_004_def migrate_005_def
  migrate_006_def migrate_007_def migrate_008_def migrate_009_def migrate_010_def

lemmas ddl_defs =
  create_table_def create_index_def required_text_def optional_text_def required_int_def
  defaulted_text_def references_def

lemma all_table_names_distinct: "distinct (map tab_name (script_tables (concat migrations)))"
  by (simp add: migration_defs ddl_defs)

lemma all_index_names_distinct: "distinct (map idx_name (script_indexes (concat migrations)))"
  by (simp add: migration_defs ddl_defs)

text \<open>A parent table with the given primary key has been created.\<close>

definition has_key :: "table_schema list \<Rightarrow> pystr \<Rightarrow> pystr \<Rightarrow> bool" where
  "has_key tables n k = list_ex (\<lambda>p. tab_name p = n \<and> tab_primary_key p = [k]) tables"

lemma has_key_append [simp]: "has_key (ts @ us) n k \<longleftrightarrow> has_key ts n k \<or> has_key us n k"
  by (simp add: has_key_def)

lemma fk_well_formed_key:
  "fk_well_formed tables t f \<longleftrightarrow>
   list_ex (\<lambda>c. col_name c = fk_column f \<and> (fk_on_delete f = Set_Null \<longrightarrow> \<not> col_not_null c)) (tab_columns t)
   \<and> has_key tables (fk_table f) (fk_ref_column f)"
  by (simp add: fk_well_formed_def has_key_def)

lemma index_well_formed_last:
  "index_well_formed (ts @ us) i \<longleftrightarrow> index_well_formed ts i \<or> index_well_formed us i"
  by (simp add: index_well_formed_def)

lemmas wf_eval =
  ddl_defs table_well_formed_def fk_well_formed_key index_well_formed_last

lemma index_well_formed_Cons:
  "index_well_formed (t # ts) i \<longleftrightarrow> (tab_name t = idx_table i
     \<and> list_all (\<lambda>c. c \<in> set (map col_name (tab_columns t))) (idx_columns i)) \<or> index_well_formed ts i"
  by (simp add: index_well_formed_def)

lemma index_well_formed_Nil [simp]: "\<not> index_well_formed [] i"
  by (simp add: index_well_formed_def)

lemma script_001_well_formed: "script_well_formed ts migrate_001"
  by (simp add: migrate_001_def wf_eval index_well_formed_Cons has_key_def)

lemma script_002_well_formed: "has_key ts ''run_evidence'' ''run_id'' \<Longrightarrow> script_well_formed ts migrate_002"
  by (simp add: migrate_002_def wf_eval index_well_formed_Cons has_key_def)

lemma script_003_well_formed: "script_well_formed ts migrate_003"
  by (simp add: migrate_003_def wf_eval index_well_formed_Cons has_key_def)

lemma script_004_well_formed: "script_well_formed ts migrate_004"
  by (simp add: migrate_004_def wf_eval index_well_formed_Cons has_key_def)

lemma script_005_well_formed: "has_key ts ''client_manifests'' ''client_id'' \<Longrightarrow> script_well_formed ts migrate_005"
  by (simp add: migrate_005_def wf_eval index_well_formed_Cons has_key_def)

lemma script_006_well_formed: "has_key ts ''client_manifests'' ''client_id'' \<Longrightarrow> script_well_formed ts migrate_006"
  by (simp add: migrate_006_def wf_eval index_well_formed_Cons has_key_def)

lemma script_007_well_formed: "has_key ts ''client_manifests'' ''client_id'' \<Longrightarrow> has_key ts ''task_leases'' ''task_id'' \<Longrightarrow> script_well_formed ts migrate_007"
  by (simp add: migrate_007_def wf_eval index_well_formed_Cons has_key_def)

lemma script_008_well_formed: "script_well_formed ts migrate_008"
  by (simp add: migrate_008_def wf_eval index_well_formed_Cons has_key_def)

lemma script_009_well_formed: "script_well_formed ts migrate_009"
  by (simp add: migrate_009_def wf_eval index_well_formed_Cons has_key_def)

lemma script_010_well_formed: "script_well_formed ts migrate_010"
  by (simp add: migrate_010_def wf_eval index_well_formed_Cons has_key_def)

lemma created_keys:
  "has_key (script_tables migrate_001) ''run_evidence'' ''run_id''"
  "has_key (script_tables migrate_004) ''client_manifests'' ''client_id''"
  "has_key (script_tables migrate_006) ''task_leases'' ''task_id''"
  by (simp_all add: migrate_001_def migrate_004_def migrate_006_def ddl_defs has_key_def)

lemma all_scripts_well_formed: "script_well_formed [] (concat migrations)"
  by (simp add: migrations_def script_well_formed_append created_keys
      script_001_well_formed script_002_well_formed script_003_well_formed script_004_well_formed
      script_005_well_formed script_006_well_formed script_007_well_formed script_008_well_formed
      script_009_well_formed script_010_well_formed)

lemma schema_at_shape:
  "schema_well_formed (schema_at v)
   \<and> sch_tables (schema_at v) = script_tables (concat (take v migrations))
   \<and> sch_indexes (schema_at v) = script_indexes (concat (take v migrations))"
proof -
  have split: "concat migrations = concat (take v migrations) @ concat (drop v migrations)"
    by (metis append_take_drop_id concat_append)
  have wf: "script_well_formed [] (concat (take v migrations))"
    using all_scripts_well_formed unfolding split script_well_formed_append by blast
  have tn: "distinct (map tab_name (script_tables (concat (take v migrations))))"
    using all_table_names_distinct unfolding split script_tables_append by simp
  have ind: "distinct (map idx_name (script_indexes (concat (take v migrations))))"
    using all_index_names_distinct unfolding split script_indexes_append by simp
  have empty: "schema_well_formed empty_schema" "sch_tables empty_schema = []" "sch_indexes empty_schema = []"
    by (simp_all add: schema_well_formed_def empty_schema_def table_names_def index_names_def)
  have "schema_at v = executescript (concat (take v migrations)) empty_schema"
    by (simp add: schema_at_def fold_executescript)
  with executescript_well_formed [of empty_schema "concat (take v migrations)"] wf tn ind empty
  show ?thesis by (simp add: table_names_def index_names_def)
qed

text \<open>
  C7: an upgrade that was interrupted resumes correctly. Each migration script commits on its
  own while \<open>user_version\<close> is only written at the end, so a database can hold the tables of
  the first \<open>u\<close> migrations and still claim version \<open>v\<close>; from every such file, the version
  tests lead to exactly the full version-10 schema.
\<close>

theorem migrations_resume:
  assumes "v \<le> u" and "u \<le> schema_version"
  shows "run_migrations v (schema_at u) = schema_at schema_version"
proof -
  have "v \<le> 10" using assms by (simp add: schema_version_def)
  moreover have "take schema_version migrations = migrations"
    by (simp add: schema_version_def migrations_def)
  ultimately show ?thesis
    using resume [OF assms(1), of migrations empty_schema]
    by (simp add: run_migrations_drop schema_at_def)
qed

theorem migrations_resume_witness:
  "(3::nat) \<le> 5 \<and> 5 \<le> schema_version \<and> run_migrations 3 (schema_at 5) = schema_at schema_version"
  using migrations_resume [of 3 5] by (simp add: schema_version_def)

text \<open>
  The schema of every version is referentially well formed: table and index names are
  unique, keys and index columns exist, each foreign key points at the whole primary key of a
  table that exists in that version, and a column that \<open>ON DELETE SET NULL\<close> clears may be null.
\<close>

theorem schema_at_well_formed: "schema_well_formed (schema_at v)"
  using schema_at_shape [of v] by blast

end
