(* ===== verification/Sql_Table.thy ===== *)
theory Sql_Table
  imports Prelude
begin

text \<open>
  A SQLite table as the list of its rows. The statements the store issues on one table are
  \<open>SELECT .. WHERE pk = ?\<close> (\<open>tbl_find\<close>), \<open>INSERT\<close> (\<open>tbl_insert\<close>: \<open>None\<close> is the
  primary key conflict, an \<open>IntegrityError\<close>), \<open>INSERT .. ON CONFLICT(pk) DO UPDATE\<close>
  (\<open>tbl_upsert\<close>, with the columns the \<open>SET\<close> list keeps decided by \<open>merge\<close>),
  \<open>UPDATE .. WHERE pk = ?\<close> and \<open>DELETE .. WHERE pk = ?\<close>. The locale \<open>entity_table\<close>
  states what a store built on such a table relies on.
\<close>

definition tbl_find :: "('r \<Rightarrow> 'k) \<Rightarrow> 'k \<Rightarrow> 'r list \<Rightarrow> 'r option" where
  "tbl_find key k rows = List.find (\<lambda>r. key r = k) rows"

definition tbl_insert :: "('r \<Rightarrow> 'k) \<Rightarrow> 'r \<Rightarrow> 'r list \<Rightarrow> 'r list option" where
  "tbl_insert key r rows = (if tbl_find key (key r) rows = None then Some (rows @ [r]) else None)"

definition tbl_upsert :: "('r \<Rightarrow> 'k) \<Rightarrow> ('r \<Rightarrow> 'r \<Rightarrow> 'r) \<Rightarrow> 'r \<Rightarrow> 'r list \<Rightarrow> 'r list" where
  "tbl_upsert key merge r rows =
     (if tbl_find key (key r) rows = None then rows @ [r]
      else map (\<lambda>old. if key old = key r then merge old r else old) rows)"

definition tbl_update :: "('r \<Rightarrow> 'k) \<Rightarrow> 'k \<Rightarrow> ('r \<Rightarrow> 'r) \<Rightarrow> 'r list \<Rightarrow> 'r list" where
  "tbl_update key k f rows = map (\<lambda>r. if key r = k then f r else r) rows"

definition tbl_delete :: "('r \<Rightarrow> 'k) \<Rightarrow> 'k \<Rightarrow> 'r list \<Rightarrow> 'r list" where
  "tbl_delete key k rows = filter (\<lambda>r. key r \<noteq> k) rows"

definition keyed :: "('r \<Rightarrow> 'k) \<Rightarrow> 'r list \<Rightarrow> bool" where
  "keyed key rows = distinct (map key rows)"

text \<open>\<open>DO UPDATE SET\<close> of every column but the key: the new row replaces the old one.\<close>

definition take_new :: "'r \<Rightarrow> 'r \<Rightarrow> 'r" where
  "take_new old new = new"

lemma take_new_simp [simp]: "take_new old new = new"
  by (simp add: take_new_def)

section \<open>Lookups after a statement\<close>

lemma tbl_find_Nil [simp]: "tbl_find key k [] = None"
  by (simp add: tbl_find_def)

lemma tbl_find_Cons: "tbl_find key k (r # rows) = (if key r = k then Some r else tbl_find key k rows)"
  by (simp add: tbl_find_def)

lemma tbl_find_append:
  "tbl_find key k (xs @ ys) = (case tbl_find key k xs of None \<Rightarrow> tbl_find key k ys | Some r \<Rightarrow> Some r)"
  by (induction xs) (auto simp: tbl_find_Cons)

lemma tbl_find_None: "tbl_find key k rows = None \<longleftrightarrow> k \<notin> key ` set rows"
  by (induction rows) (auto simp: tbl_find_Cons)

lemma tbl_find_SomeD: "tbl_find key k rows = Some r \<Longrightarrow> r \<in> set rows \<and> key r = k"
  by (induction rows) (auto simp: tbl_find_Cons split: if_splits)

lemma tbl_find_keyed:
  "keyed key rows \<Longrightarrow> tbl_find key k rows = Some r \<longleftrightarrow> r \<in> set rows \<and> key r = k"
  by (induction rows) (auto simp: tbl_find_Cons keyed_def image_iff)

lemma tbl_find_insert:
  "tbl_insert key r rows = Some rows' \<Longrightarrow>
   tbl_find key k rows' = (if k = key r then Some r else tbl_find key k rows)"
  by (auto simp: tbl_insert_def tbl_find_append tbl_find_Cons split: if_splits option.splits)

lemma tbl_find_upsert:
  assumes "\<And>old. key old = key r \<Longrightarrow> key (merge old r) = key r"
  shows "tbl_find key k (tbl_upsert key merge r rows) =
    (if k = key r then Some (case tbl_find key k rows of None \<Rightarrow> r | Some old \<Rightarrow> merge old r)
     else tbl_find key k rows)"
proof -
  have "tbl_find key k (map (\<lambda>old. if key old = key r then merge old r else old) xs) =
    (if k = key r then map_option (\<lambda>old. merge old r) (tbl_find key k xs) else tbl_find key k xs)" for xs
    using assms by (induction xs) (auto simp: tbl_find_Cons)
  then show ?thesis
    by (auto simp: tbl_upsert_def tbl_find_append tbl_find_Cons split: option.splits)
qed

lemma tbl_find_update:
  assumes "\<And>r. key r = k \<Longrightarrow> key (f r) = k"
  shows "tbl_find key k' (tbl_update key k f rows) =
    (if k' = k then map_option f (tbl_find key k rows) else tbl_find key k' rows)"
  using assms by (induction rows) (auto simp: tbl_find_Cons tbl_update_def)

lemma tbl_find_delete:
  "tbl_find key k' (tbl_delete key k rows) = (if k' = k then None else tbl_find key k' rows)"
  by (induction rows) (auto simp: tbl_find_Cons tbl_delete_def)

lemma tbl_find_map:
  assumes "\<And>r. key (f r) = key r"
  shows "tbl_find key k (map f rows) = map_option f (tbl_find key k rows)"
  using assms by (induction rows) (auto simp: tbl_find_Cons)

lemma tbl_find_filter:
  assumes "keyed key rows"
  shows "tbl_find key k (filter P rows) =
    (case tbl_find key k rows of None \<Rightarrow> None | Some r \<Rightarrow> if P r then Some r else None)"
  using assms by (induction rows) (auto simp: tbl_find_Cons keyed_def tbl_find_None image_iff split: option.splits dest!: tbl_find_SomeD)

section \<open>The rows after a statement\<close>

lemma keyed_Nil [simp]: "keyed key []"
  by (simp add: keyed_def)

lemma keyed_insert: "tbl_insert key r rows = Some rows' \<Longrightarrow> keyed key rows \<Longrightarrow> keyed key rows'"
  by (auto simp: tbl_insert_def keyed_def tbl_find_None split: if_splits)

lemma map_key_upsert:
  assumes "\<And>old. key old = key r \<Longrightarrow> key (merge old r) = key r"
  shows "map key (map (\<lambda>old. if key old = key r then merge old r else old) rows) = map key rows"
  using assms by auto

lemma keyed_upsert:
  assumes "\<And>old. key old = key r \<Longrightarrow> key (merge old r) = key r" and "keyed key rows"
  shows "keyed key (tbl_upsert key merge r rows)"
  using assms by (auto simp: tbl_upsert_def keyed_def map_key_upsert tbl_find_None simp del: map_map)

lemma keyed_update:
  assumes "\<And>r. key r = k \<Longrightarrow> key (f r) = k" and "keyed key rows"
  shows "keyed key (tbl_update key k f rows)"
proof -
  have "map key (tbl_update key k f rows) = map key rows"
    using assms(1) by (auto simp: tbl_update_def)
  with assms(2) show ?thesis by (simp add: keyed_def)
qed

lemma keyed_filter: "keyed key rows \<Longrightarrow> keyed key (filter P rows)"
  by (simp add: keyed_def distinct_map_filter)

lemma keyed_delete: "keyed key rows \<Longrightarrow> keyed key (tbl_delete key k rows)"
  by (simp add: tbl_delete_def keyed_filter)

lemma keyed_map: "(\<And>r. key (f r) = key r) \<Longrightarrow> keyed key (map f rows) = keyed key rows"
  by (simp add: keyed_def comp_def)

lemma set_insert_rows: "tbl_insert key r rows = Some rows' \<Longrightarrow> set rows' = insert r (set rows)"
  by (auto simp: tbl_insert_def split: if_splits)

lemma set_upsert_subset:
  "x \<in> set (tbl_upsert key take_new r rows) \<Longrightarrow> x = r \<or> (x \<in> set rows \<and> key x \<noteq> key r)"
proof (cases "key r \<in> key ` set rows")
  case True
  assume "x \<in> set (tbl_upsert key take_new r rows)"
  with True show ?thesis by (auto simp: tbl_upsert_def tbl_find_None split: if_splits)
next
  case False
  assume "x \<in> set (tbl_upsert key take_new r rows)"
  then have "x = r \<or> x \<in> set rows" using False by (auto simp: tbl_upsert_def tbl_find_None)
  moreover have "x \<in> set rows \<Longrightarrow> key x \<noteq> key r" using False by (metis imageI)
  ultimately show ?thesis by blast
qed

lemma mem_upsert: "r \<in> set (tbl_upsert key take_new r rows)"
  by (force simp: tbl_upsert_def tbl_find_None)

lemma keys_upsert:
  assumes "\<And>old. key old = key r \<Longrightarrow> key (merge old r) = key r"
  shows "key ` set (tbl_upsert key merge r rows) = insert (key r) (key ` set rows)"
proof (cases "key r \<in> key ` set rows")
  case True
  then have eq: "tbl_upsert key merge r rows = map (\<lambda>old. if key old = key r then merge old r else old) rows"
    by (simp add: tbl_upsert_def tbl_find_None)
  have "map key (tbl_upsert key merge r rows) = map key rows"
    unfolding eq by (rule map_key_upsert) (rule assms)
  then have "key ` set (tbl_upsert key merge r rows) = key ` set rows"
    by (metis set_map)
  then show ?thesis using True by (simp add: insert_absorb)
next
  case False
  then show ?thesis by (simp add: tbl_upsert_def tbl_find_None)
qed

lemma set_update_cases:
  "x \<in> set (tbl_update key k f rows) \<Longrightarrow>
   (\<exists>r \<in> set rows. key r = k \<and> x = f r) \<or> (x \<in> set rows \<and> key x \<noteq> k)"
  by (auto simp: tbl_update_def)

lemma set_delete: "set (tbl_delete key k rows) = {r \<in> set rows. key r \<noteq> k}"
  by (simp add: tbl_delete_def)

section \<open>The interface of a table with a primary key\<close>

locale entity_table =
  fixes key :: "'r \<Rightarrow> 'k"
    and lookup :: "'k \<Rightarrow> 't \<Rightarrow> 'r option"
    and insert_new :: "'r \<Rightarrow> 't \<Rightarrow> 't option"
    and save :: "'r \<Rightarrow> 't \<Rightarrow> 't"
    and remove :: "'k \<Rightarrow> 't \<Rightarrow> 't"
  assumes lookup_key: "lookup k t = Some r \<Longrightarrow> key r = k"
    and insert_new_None: "insert_new r t = None \<longleftrightarrow> lookup (key r) t \<noteq> None"
    and lookup_insert_new:
      "insert_new r t = Some t' \<Longrightarrow> lookup k t' = (if k = key r then Some r else lookup k t)"
    and lookup_save: "lookup k (save r t) = (if k = key r then Some r else lookup k t)"
    and lookup_remove: "lookup k' (remove k t) = (if k' = k then None else lookup k' t)"
begin

definition same_rows :: "'t \<Rightarrow> 't \<Rightarrow> bool" where
  "same_rows t u = (\<forall>k. lookup k t = lookup k u)"

lemma load_after_insert: "insert_new r t = Some t' \<Longrightarrow> lookup (key r) t' = Some r"
  by (simp add: lookup_insert_new)

lemma insert_absent: "lookup (key r) t = None \<Longrightarrow> \<exists>t'. insert_new r t = Some t'"
  using insert_new_None [of r t] by (cases "insert_new r t") auto

lemma insert_twice: "insert_new r t = Some t' \<Longrightarrow> key r' = key r \<Longrightarrow> insert_new r' t' = None"
  by (simp add: insert_new_None load_after_insert)

lemma save_insert: "insert_new r t = Some t' \<Longrightarrow> same_rows t' (save r t)"
  by (simp add: same_rows_def lookup_insert_new lookup_save)

lemma save_save: "key r' = key r \<Longrightarrow> same_rows (save r (save r' t)) (save r t)"
  by (simp add: same_rows_def lookup_save)

lemma save_commute:
  "key r' \<noteq> key r \<Longrightarrow> same_rows (save r (save r' t)) (save r' (save r t))"
  by (auto simp: same_rows_def lookup_save)

lemma remove_insert: "insert_new r t = Some t' \<Longrightarrow> same_rows (remove (key r) t') (remove (key r) t)"
  by (simp add: same_rows_def lookup_insert_new lookup_remove)

lemma save_keeps_others: "k \<noteq> key r \<Longrightarrow> lookup k (save r t) = lookup k t"
  by (simp add: lookup_save)

end

interpretation list_table: entity_table key "tbl_find key" "tbl_insert key"
    "tbl_upsert key take_new" "tbl_delete key" for key :: "'r \<Rightarrow> 'k"
proof unfold_locales
  fix k and t :: "'r list" and r
  assume "tbl_find key k t = Some r"
  then show "key r = k" by (auto dest: tbl_find_SomeD)
next
  fix r and t :: "'r list"
  show "(tbl_insert key r t = None) = (tbl_find key (key r) t \<noteq> None)"
    by (simp add: tbl_insert_def)
next
  fix r k and t t' :: "'r list"
  assume "tbl_insert key r t = Some t'"
  then show "tbl_find key k t' = (if k = key r then Some r else tbl_find key k t)"
    by (rule tbl_find_insert)
next
  fix k r and t :: "'r list"
  show "tbl_find key k (tbl_upsert key take_new r t) = (if k = key r then Some r else tbl_find key k t)"
    by (subst tbl_find_upsert) (auto split: option.splits)
next
  fix k' k and t :: "'r list"
  show "tbl_find key k' (tbl_delete key k t) = (if k' = k then None else tbl_find key k' t)"
    by (rule tbl_find_delete)
qed

end
