(* ===== verification/Py_Time.thy ===== *)
theory Py_Time
  imports Prelude
begin

text \<open>
  Python's \<open>datetime\<close>, as far as the control plane uses it.

  A value is a wall-clock reading in microseconds since 1970-01-01T00:00:00, without a zone
  (\<open>Naive\<close>) or with an offset from UTC in microseconds (\<open>Aware\<close>). The source normalises
  every time it compares (\<open>_normalize_time\<close>): a naive value is read as UTC, an aware one is
  shifted to UTC. \<open>isoformat\<close> is the text SQLite columns hold and \<open>ORDER BY\<close> compares; it
  is injective on the values Python can represent, so a column that stores it is modelled by
  the value and sorted by its text. Python's range check (years 1 to 9999) is not modelled.
\<close>

datatype datetime = Naive int | Aware int int

definition usec :: int where
  "usec = 1000000"

definition day_usec :: int where
  "day_usec = 86400000000"

fun normalize_time :: "datetime \<Rightarrow> datetime" where
  "normalize_time (Naive t) = Aware t 0"
| "normalize_time (Aware t off) = Aware (t - off) 0"

fun wall_clock :: "datetime \<Rightarrow> int" where
  "wall_clock (Naive t) = t"
| "wall_clock (Aware t off) = t"

text \<open>The instant a normalised value denotes, in microseconds.\<close>

definition instant :: "datetime \<Rightarrow> int" where
  "instant d = wall_clock (normalize_time d)"

text \<open>\<open>d + timedelta(seconds=n)\<close>.\<close>

fun plus_seconds :: "datetime \<Rightarrow> int \<Rightarrow> datetime" where
  "plus_seconds (Naive t) n = Naive (t + n * usec)"
| "plus_seconds (Aware t off) n = Aware (t + n * usec) off"

text \<open>\<open>a - b\<close> in microseconds; mixing naive and aware values is a \<open>TypeError\<close>.\<close>

fun time_sub :: "datetime \<Rightarrow> datetime \<Rightarrow> exn + int" where
  "time_sub (Naive a) (Naive b) = Inr (a - b)"
| "time_sub (Aware a ao) (Aware b bo) = Inr ((a - ao) - (b - bo))"
| "time_sub _ _ = Inl (TypeError ''can't subtract offset-naive and offset-aware datetimes'')"

lemma instant_simps [simp]:
  "instant (Naive t) = t" "instant (Aware t off) = t - off"
  by (simp_all add: instant_def)

lemma normalize_time_idem [simp]: "normalize_time (normalize_time d) = normalize_time d"
  by (cases d) auto

lemma instant_normalize [simp]: "instant (normalize_time d) = instant d"
  by (cases d) auto

lemma instant_plus_seconds [simp]: "instant (plus_seconds d n) = instant d + n * usec"
  by (cases d) auto

lemma time_sub_normalized:
  "time_sub (normalize_time a) (normalize_time b) = Inr (instant a - instant b)"
  by (cases a; cases b) auto

section \<open>The text of a time\<close>

text \<open>Year, month and day of a day count, in the proleptic Gregorian calendar.\<close>

definition civil_from_days :: "int \<Rightarrow> int \<times> int \<times> int" where
  "civil_from_days days =
     (let z = days + 719468;
          era = z div 146097;
          doe = z - era * 146097;
          yoe = (doe - doe div 1460 + doe div 36524 - doe div 146096) div 365;
          doy = doe - (365 * yoe + yoe div 4 - yoe div 100);
          mp = (5 * doy + 2) div 153;
          d = doy - (153 * mp + 2) div 5 + 1;
          m = (if mp < 10 then mp + 3 else mp - 9);
          y = yoe + era * 400 + (if m \<le> 2 then 1 else 0)
      in (y, m, d))"

definition zero_pad :: "nat \<Rightarrow> int \<Rightarrow> pystr" where
  "zero_pad w n = (let s = show_int n in replicate (w - length s) (CHR ''0'') @ s)"

definition clock_text :: "int \<Rightarrow> pystr" where
  "clock_text us =
     (let secs = us div usec; frac = us mod usec
      in zero_pad 2 (secs div 3600) @ '':'' @ zero_pad 2 (secs div 60 mod 60) @ '':''
         @ zero_pad 2 (secs mod 60) @ (if frac = 0 then [] else ''.'' @ zero_pad 6 frac))"

definition offset_text :: "int \<Rightarrow> pystr" where
  "offset_text off =
     (let a = \<bar>off\<bar>; secs = a div usec; frac = a mod usec
      in (if off < 0 then ''-'' else ''+'')
         @ zero_pad 2 (secs div 3600) @ '':'' @ zero_pad 2 (secs div 60 mod 60)
         @ (if secs mod 60 = 0 \<and> frac = 0 then []
            else '':'' @ zero_pad 2 (secs mod 60) @ (if frac = 0 then [] else ''.'' @ zero_pad 6 frac)))"

definition wall_text :: "int \<Rightarrow> pystr" where
  "wall_text t =
     (case civil_from_days (t div day_usec) of (y, m, d) \<Rightarrow>
        zero_pad 4 y @ ''-'' @ zero_pad 2 m @ ''-'' @ zero_pad 2 d @ ''T'' @ clock_text (t mod day_usec))"

fun isoformat :: "datetime \<Rightarrow> pystr" where
  "isoformat (Naive t) = wall_text t"
| "isoformat (Aware t off) = wall_text t @ offset_text off"

lemma isoformat_examples:
  "isoformat (Aware 1782864000000000 0) = ''2026-07-01T00:00:00+00:00''"
  "isoformat (Naive 1782864000000005) = ''2026-07-01T00:00:00.000005''"
  "isoformat (Aware 951782399000000 7200000000) = ''2000-02-28T23:59:59+02:00''"
  by code_simp+

end
