(* ===== verification/Cp_Events.thy ===== *)
theory Cp_Events
  imports Py_Time
begin

text \<open>
  The event envelope (\<open>vad/control_plane/events.py\<close>) and the policy decision
  (\<open>vad/policy/decisions.py\<close>). A pydantic model is a record of its fields; constructing it
  checks the field constraints and validators (\<open>valid_event\<close>) and raises
  \<open>ValidationError\<close> otherwise (\<open>mk_event\<close>).
\<close>

record policy_decision =
  allow :: bool
  reasons :: "pystr list"
  denials :: "pystr list"
  requires_human :: bool

definition allowed :: "pystr \<Rightarrow> policy_decision" where
  "allowed r = \<lparr>allow = True, reasons = [r], denials = [], requires_human = False\<rparr>"

definition denied :: "pystr list \<Rightarrow> bool \<Rightarrow> policy_decision" where
  "denied ds human = \<lparr>allow = False, reasons = [], denials = ds, requires_human = human\<rparr>"

lemma decision_simps [simp]:
  "allow (allowed r)" "\<not> allow (denied ds h)" "denials (allowed r) = []" "denials (denied ds h) = ds"
  "requires_human (allowed r) = False" "requires_human (denied ds h) = h"
  "reasons (allowed r) = [r]" "reasons (denied ds h) = []"
  by (simp_all add: allowed_def denied_def)

datatype event_kind =
    Heartbeat | Tool_Call_Started | Tool_Call_Finished | File_Change_Proposed
  | File_Change_Applied | Proof_Started | Proof_Finished | Policy_Denied
  | Approval_Requested | Approval_Recorded | Signer_Event | Deployment_Event
  | Message | Blocker | Recovery_Action | Swarm | Provider | Signing | Deployment
  | Work_Item | Task_Lease

fun event_kind_value :: "event_kind \<Rightarrow> pystr" where
  "event_kind_value Heartbeat = ''heartbeat''"
| "event_kind_value Tool_Call_Started = ''tool_call_started''"
| "event_kind_value Tool_Call_Finished = ''tool_call_finished''"
| "event_kind_value File_Change_Proposed = ''file_change_proposed''"
| "event_kind_value File_Change_Applied = ''file_change_applied''"
| "event_kind_value Proof_Started = ''proof_started''"
| "event_kind_value Proof_Finished = ''proof_finished''"
| "event_kind_value Policy_Denied = ''policy_denied''"
| "event_kind_value Approval_Requested = ''approval_requested''"
| "event_kind_value Approval_Recorded = ''approval_recorded''"
| "event_kind_value Signer_Event = ''signer_event''"
| "event_kind_value Deployment_Event = ''deployment_event''"
| "event_kind_value Message = ''message''"
| "event_kind_value Blocker = ''blocker''"
| "event_kind_value Recovery_Action = ''recovery_action''"
| "event_kind_value Swarm = ''swarm''"
| "event_kind_value Provider = ''provider''"
| "event_kind_value Signing = ''signing''"
| "event_kind_value Deployment = ''deployment''"
| "event_kind_value Work_Item = ''work_item''"
| "event_kind_value Task_Lease = ''task_lease''"

datatype event_status = Ev_Active | Ev_Passed | Ev_Failed | Ev_Blocked | Ev_Needs_Human | Ev_Stale

fun event_status_value :: "event_status \<Rightarrow> pystr" where
  "event_status_value Ev_Active = ''active''"
| "event_status_value Ev_Passed = ''passed''"
| "event_status_value Ev_Failed = ''failed''"
| "event_status_value Ev_Blocked = ''blocked''"
| "event_status_value Ev_Needs_Human = ''needs_human''"
| "event_status_value Ev_Stale = ''stale''"

record control_plane_event =
  event_id :: pystr
  ev_sequence :: int
  ev_created_at :: datetime
  ev_client_id :: pystr
  ev_client_label :: "pystr option"
  ev_run_id :: "pystr option"
  ev_task_id :: "pystr option"
  ev_kind :: event_kind
  ev_status :: event_status
  ev_actor :: pystr
  ev_role :: pystr
  ev_evidence_digest :: "pystr option"
  ev_summary :: pystr

definition valid_event :: "control_plane_event \<Rightarrow> bool" where
  "valid_event e =
     (length (event_id e) \<le> 120 \<and> safe_identifier (event_id e)
      \<and> 0 \<le> ev_sequence e
      \<and> bounded 1 160 (ev_client_id e) \<and> safe_identifier (ev_client_id e)
      \<and> opt_all (bounded 0 160) (ev_client_label e)
      \<and> opt_all (bounded 0 160) (ev_run_id e) \<and> opt_all safe_identifier (ev_run_id e)
      \<and> opt_all (bounded 0 160) (ev_task_id e) \<and> opt_all safe_identifier (ev_task_id e)
      \<and> bounded 1 160 (ev_actor e) \<and> safe_identifier (ev_actor e)
      \<and> bounded 1 80 (ev_role e) \<and> safe_identifier (ev_role e)
      \<and> opt_all is_digest (ev_evidence_digest e)
      \<and> bounded 1 500 (ev_summary e))"

definition mk_event :: "control_plane_event \<Rightarrow> exn + control_plane_event" where
  "mk_event e = (if valid_event e then Inr e else Inl (ValidationError ''ControlPlaneEvent''))"

lemma mk_event_Inr [simp]: "mk_event e = Inr e' \<longleftrightarrow> valid_event e \<and> e' = e"
  by (auto simp: mk_event_def)

lemma mk_event_valid: "valid_event e \<Longrightarrow> mk_event e = Inr e"
  by simp

lemma event_status_value_inj: "event_status_value a = event_status_value b \<longleftrightarrow> a = b"
  by (cases a; cases b) simp_all

lemma event_kind_value_inj: "event_kind_value a = event_kind_value b \<Longrightarrow> a = b"
  by (cases a; cases b) simp_all

lemma event_kind_value_length: "length (event_kind_value k) \<le> 20"
  by (cases k) simp_all

end
