(* ===== verification/Cp_Clients.thy ===== *)
theory Cp_Clients
  imports Py_Time
begin

text \<open>
  Client manifests, heartbeats and status snapshots (\<open>vad/control_plane/clients.py\<close>).
  Validating a manifest also normalises it: capabilities are stripped, deduplicated and
  sorted. \<open>Path\<close> values are their text.
\<close>

datatype client_type =
    Codex | Claude_Code | Vs_Code | Antigravity | Windsurf | Cursor | Opencode | Generic_Mcp | Other_Client

datatype connection_mode = Mcp | Plugin | Sdk | Cli | Http

datatype trust_state = Untrusted | Trusted | Quarantined

fun trust_state_value :: "trust_state \<Rightarrow> pystr" where
  "trust_state_value Untrusted = ''untrusted''"
| "trust_state_value Trusted = ''trusted''"
| "trust_state_value Quarantined = ''quarantined''"

datatype runtime_status = Rt_Active | Rt_Stale | Rt_Disconnected

record client_manifest =
  cm_client_id :: pystr
  cm_display_name :: pystr
  cm_client_type :: client_type
  cm_version :: pystr
  cm_connection_mode :: connection_mode
  cm_supported_capabilities :: "pystr list"
  cm_workspace_root :: pystr
  cm_trust_state :: trust_state
  cm_requested_policy_permissions :: "pystr list"

text \<open>\<open>capabilities_must_be_safe\<close>.\<close>

definition normalize_capabilities :: "pystr list \<Rightarrow> pystr list option" where
  "normalize_capabilities values =
     (let normalized = map py_strip values in
      if list_ex (\<lambda>v. v = []) normalized then None
      else if list_ex (\<lambda>v. \<not> safe_identifier v) normalized then None
      else Some (sorted_set normalized))"

definition parse_client_manifest :: "client_manifest \<Rightarrow> exn + client_manifest" where
  "parse_client_manifest m =
     (case normalize_capabilities (cm_supported_capabilities m) of
        None \<Rightarrow> Inl (ValidationError ''ClientManifest'')
      | Some caps \<Rightarrow>
          (if bounded 1 160 (cm_client_id m) \<and> safe_identifier (cm_client_id m)
              \<and> bounded 1 160 (cm_display_name m) \<and> safe_text (cm_display_name m)
              \<and> bounded 1 80 (cm_version m) \<and> safe_text (cm_version m)
              \<and> 1 \<le> length (cm_supported_capabilities m)
              \<and> safe_text (cm_workspace_root m)
              \<and> cm_requested_policy_permissions m = []
           then Inr (m\<lparr>cm_supported_capabilities := caps\<rparr>)
           else Inl (ValidationError ''ClientManifest'')))"

record client_heartbeat =
  hb_client_id :: pystr
  hb_run_id :: "pystr option"
  hb_task_id :: "pystr option"
  hb_actor :: pystr
  hb_role :: pystr
  hb_status :: runtime_status
  hb_observed_at :: datetime
  hb_summary :: pystr

definition valid_heartbeat :: "client_heartbeat \<Rightarrow> bool" where
  "valid_heartbeat h =
     (bounded 1 160 (hb_client_id h) \<and> safe_identifier (hb_client_id h)
      \<and> opt_all (bounded 0 160) (hb_run_id h) \<and> opt_all safe_identifier (hb_run_id h)
      \<and> opt_all (bounded 0 160) (hb_task_id h) \<and> opt_all safe_identifier (hb_task_id h)
      \<and> bounded 1 160 (hb_actor h) \<and> safe_identifier (hb_actor h)
      \<and> bounded 1 80 (hb_role h) \<and> safe_identifier (hb_role h)
      \<and> bounded 1 300 (hb_summary h) \<and> safe_text (hb_summary h))"

record client_status_snapshot =
  ss_manifest :: client_manifest
  ss_status :: runtime_status
  ss_last_heartbeat_at :: "datetime option"
  ss_last_run_id :: "pystr option"
  ss_last_task_id :: "pystr option"
  ss_lost_task_leases :: "pystr list"

section \<open>Validation is idempotent\<close>

lemma dropWhile_rev_dropWhile:
  "dropWhile P (rev (dropWhile P (rev (dropWhile P xs)))) = rev (dropWhile P (rev (dropWhile P xs)))"
proof (cases "dropWhile P xs")
  case Nil
  show ?thesis unfolding Nil by simp
next
  case (Cons y ys)
  then have "\<not> P y" by (metis hd_dropWhile list.distinct(1) list.sel(1))
  then have "dropWhile P (rev ys @ [y]) = dropWhile P (rev ys) @ [y]"
    by (induction "rev ys" arbitrary: ys rule: rev_induct) (auto simp: dropWhile_append3 dropWhile_append)
  with Cons \<open>\<not> P y\<close> show ?thesis by simp
qed

lemma py_strip_idem [simp]: "py_strip (py_strip s) = py_strip s"
proof -
  have "dropWhile py_isspace (py_strip s) = py_strip s"
    unfolding py_strip_def by (rule dropWhile_rev_dropWhile)
  then have "py_strip (py_strip s) = rev (dropWhile py_isspace (rev (py_strip s)))"
    by (simp add: py_strip_def)
  also have "\<dots> = py_strip s" by (simp add: py_strip_def)
  finally show ?thesis .
qed

lemma normalize_capabilities_idem:
  assumes "normalize_capabilities vs = Some caps"
  shows "normalize_capabilities caps = Some caps"
proof -
  from assms have caps: "caps = sorted_set (map py_strip vs)"
    and ok: "\<not> list_ex (\<lambda>v. v = []) (map py_strip vs)"
      "\<not> list_ex (\<lambda>v. \<not> safe_identifier v) (map py_strip vs)"
    by (auto simp: normalize_capabilities_def Let_def split: if_splits)
  have id: "map py_strip caps = caps"
    by (rule map_idI) (auto simp: caps)
  have each: "v \<noteq> [] \<and> safe_identifier v" if "v \<in> set caps" for v
    using that ok unfolding caps list_ex_iff set_sorted_set by blast
  have "\<not> list_ex (\<lambda>v. v = []) caps" "\<not> list_ex (\<lambda>v. \<not> safe_identifier v) caps"
    unfolding list_ex_iff using each by blast+
  moreover have "sorted_set caps = caps" by (simp add: caps)
  ultimately show ?thesis by (simp add: normalize_capabilities_def id Let_def)
qed

lemma parse_client_manifest_idem:
  assumes "parse_client_manifest m = Inr m'"
  shows "parse_client_manifest m' = Inr m'"
proof -
  from assms obtain caps where caps: "normalize_capabilities (cm_supported_capabilities m) = Some caps"
    and m': "m' = m\<lparr>cm_supported_capabilities := caps\<rparr>"
    by (auto simp: parse_client_manifest_def split: option.splits if_splits)
  from assms caps have "cm_supported_capabilities m \<noteq> []"
    by (auto simp: parse_client_manifest_def split: if_splits)
  with caps have "caps \<noteq> []"
    by (auto simp: normalize_capabilities_def Let_def sorted_set_def remdups_eq_nil_iff
        split: if_splits dest: arg_cong [of _ _ set])
  with assms caps m' normalize_capabilities_idem [OF caps] show ?thesis
    by (auto simp: parse_client_manifest_def Suc_le_eq split: if_splits)
qed

lemma parse_client_manifest_fields:
  assumes "parse_client_manifest m = Inr m'"
  shows "cm_client_id m' = cm_client_id m" "cm_display_name m' = cm_display_name m"
    "cm_trust_state m' = cm_trust_state m"
    "bounded 1 160 (cm_client_id m')" "safe_identifier (cm_client_id m')"
    "bounded 1 160 (cm_display_name m')"
  using assms by (auto simp: parse_client_manifest_def split: option.splits if_splits)

end
