(* ===== verification/Cp_Leases.thy ===== *)
theory Cp_Leases
  imports Py_Time
begin

text \<open>
  Task leases and their requests (\<open>vad/control_plane/leases.py\<close>). \<open>renew\<close>, \<open>release\<close> and
  \<open>expire\<close> mutate the lease object without validating it again, so a lease in memory can
  break the model's constraints; it is checked the next time its payload is read.
\<close>

datatype lease_status = Ls_Active | Ls_Released | Ls_Expired | Ls_Blocked

fun lease_status_value :: "lease_status \<Rightarrow> pystr" where
  "lease_status_value Ls_Active = ''active''"
| "lease_status_value Ls_Released = ''released''"
| "lease_status_value Ls_Expired = ''expired''"
| "lease_status_value Ls_Blocked = ''blocked''"

record task_lease =
  lease_task_id :: pystr
  lease_run_id :: pystr
  lease_client_id :: pystr
  lease_role :: pystr
  lease_actor :: pystr
  lease_acquired_at :: datetime
  lease_expires_at :: datetime
  lease_status :: lease_status
  lease_release_reason :: "pystr option"

definition valid_lease :: "task_lease \<Rightarrow> bool" where
  "valid_lease l =
     (bounded 1 160 (lease_task_id l) \<and> safe_identifier (lease_task_id l)
      \<and> bounded 1 160 (lease_run_id l) \<and> safe_identifier (lease_run_id l)
      \<and> bounded 1 160 (lease_client_id l) \<and> safe_identifier (lease_client_id l)
      \<and> bounded 1 80 (lease_role l) \<and> safe_identifier (lease_role l)
      \<and> bounded 1 160 (lease_actor l) \<and> safe_identifier (lease_actor l)
      \<and> opt_all (bounded 0 300) (lease_release_reason l) \<and> opt_all safe_text (lease_release_reason l))"

definition parse_lease :: "task_lease \<Rightarrow> exn + task_lease" where
  "parse_lease l = (if valid_lease l then Inr l else Inl (ValidationError ''TaskLease''))"

definition lease_renew :: "datetime \<Rightarrow> int \<Rightarrow> task_lease \<Rightarrow> exn + task_lease" where
  "lease_renew now ttl l =
     (if lease_status l \<noteq> Ls_Active then Inl (ValueError ''only active leases can be renewed'')
      else Inr (l\<lparr>lease_expires_at := plus_seconds (normalize_time now) ttl\<rparr>))"

definition lease_release :: "pystr option \<Rightarrow> task_lease \<Rightarrow> exn + task_lease" where
  "lease_release reason l =
     (if lease_status l \<noteq> Ls_Active then Inl (ValueError ''only active leases can be released'')
      else Inr (l\<lparr>lease_status := Ls_Released, lease_release_reason := reason\<rparr>))"

definition lease_expire :: "datetime \<Rightarrow> task_lease \<Rightarrow> task_lease" where
  "lease_expire now l =
     (if lease_status l \<noteq> Ls_Active then l
      else if instant (normalize_time (lease_expires_at l)) \<le> instant (normalize_time now)
      then l\<lparr>lease_status := Ls_Expired, lease_release_reason := Some ''lease expired''\<rparr>
      else l)"

definition assert_approval_transition_allowed :: "pystr \<Rightarrow> pystr \<Rightarrow> task_lease \<Rightarrow> exn + unit" where
  "assert_approval_transition_allowed actor role l =
     (if role \<noteq> ''release_guardian''
      then Inl (ValueError ''lease approval transition requires release_guardian role'')
      else if actor = lease_actor l \<or> actor = lease_client_id l
      then Inl (ValueError ''builder cannot approve own work through lease transition'')
      else Inr ())"

record lease_acquire_request =
  aq_task_id :: pystr
  aq_run_id :: pystr
  aq_client_id :: pystr
  aq_role :: pystr
  aq_actor :: pystr
  aq_ttl_seconds :: int

definition valid_acquire_request :: "lease_acquire_request \<Rightarrow> bool" where
  "valid_acquire_request r =
     (bounded 1 160 (aq_task_id r) \<and> safe_identifier (aq_task_id r)
      \<and> bounded 1 160 (aq_run_id r) \<and> safe_identifier (aq_run_id r)
      \<and> bounded 1 160 (aq_client_id r) \<and> safe_identifier (aq_client_id r)
      \<and> bounded 1 80 (aq_role r) \<and> safe_identifier (aq_role r)
      \<and> bounded 1 160 (aq_actor r) \<and> safe_identifier (aq_actor r)
      \<and> 0 < aq_ttl_seconds r \<and> aq_ttl_seconds r \<le> 86400)"

record lease_renew_request =
  rn_client_id :: pystr
  rn_ttl_seconds :: int

definition valid_renew_request :: "lease_renew_request \<Rightarrow> bool" where
  "valid_renew_request r =
     (bounded 1 160 (rn_client_id r) \<and> safe_identifier (rn_client_id r)
      \<and> 0 < rn_ttl_seconds r \<and> rn_ttl_seconds r \<le> 86400)"

record lease_release_request =
  rl_client_id :: pystr
  rl_reason :: "pystr option"

definition valid_release_request :: "lease_release_request \<Rightarrow> bool" where
  "valid_release_request r =
     (bounded 1 160 (rl_client_id r) \<and> safe_identifier (rl_client_id r)
      \<and> opt_all (bounded 0 300) (rl_reason r))"

record lease_approval_check =
  ac_actor :: pystr
  ac_role :: pystr
  ac_action :: pystr

definition valid_approval_check :: "lease_approval_check \<Rightarrow> bool" where
  "valid_approval_check r =
     (bounded 1 160 (ac_actor r) \<and> safe_identifier (ac_actor r)
      \<and> bounded 1 80 (ac_role r) \<and> safe_identifier (ac_role r))"

definition new_task_lease :: "lease_acquire_request \<Rightarrow> datetime \<Rightarrow> exn + task_lease" where
  "new_task_lease r now =
     (let acquired = normalize_time now in
      parse_lease \<lparr>lease_task_id = aq_task_id r, lease_run_id = aq_run_id r,
        lease_client_id = aq_client_id r, lease_role = aq_role r, lease_actor = aq_actor r,
        lease_acquired_at = acquired, lease_expires_at = plus_seconds acquired (aq_ttl_seconds r),
        lease_status = Ls_Active, lease_release_reason = None\<rparr>)"

lemma parse_lease_Inr [simp]: "parse_lease l = Inr l' \<longleftrightarrow> valid_lease l \<and> l' = l"
  by (auto simp: parse_lease_def)

lemma parse_lease_Inl: "parse_lease l = Inl e \<Longrightarrow> \<not> valid_lease l"
  by (auto simp: parse_lease_def split: if_splits)

lemma new_task_lease_Inr:
  assumes "new_task_lease r now = Inr l"
  shows "lease_task_id l = aq_task_id r" "lease_client_id l = aq_client_id r"
    "lease_status l = Ls_Active" "valid_lease l" "lease_run_id l = aq_run_id r"
    "instant (lease_expires_at l) = instant now + aq_ttl_seconds r * usec"
    "lease_actor l = aq_actor r" "lease_role l = aq_role r"
  using assms by (auto simp: new_task_lease_def Let_def)

lemma new_task_lease_valid:
  "valid_acquire_request r \<Longrightarrow> \<exists>l. new_task_lease r now = Inr l"
  by (auto simp: new_task_lease_def Let_def parse_lease_def valid_lease_def valid_acquire_request_def)

lemma lease_renew_Inr:
  assumes "lease_renew now ttl l = Inr l'"
  shows "lease_status l = Ls_Active" "lease_status l' = Ls_Active"
    "lease_task_id l' = lease_task_id l" "lease_client_id l' = lease_client_id l"
    "valid_lease l' = valid_lease l" "lease_run_id l' = lease_run_id l"
    "lease_actor l' = lease_actor l" "lease_role l' = lease_role l"
    "instant (lease_expires_at l') = instant now + ttl * usec"
  using assms by (auto simp: lease_renew_def valid_lease_def split: if_splits)

lemma lease_release_Inr:
  assumes "lease_release reason l = Inr l'"
  shows "lease_status l = Ls_Active" "lease_status l' = Ls_Released"
    "lease_task_id l' = lease_task_id l" "lease_client_id l' = lease_client_id l"
    "lease_run_id l' = lease_run_id l" "lease_actor l' = lease_actor l" "lease_role l' = lease_role l"
    "lease_release_reason l' = reason"
  using assms by (auto simp: lease_release_def split: if_splits)

end
