(* ===== verification/Cp_Work_Items.thy ===== *)
theory Cp_Work_Items
  imports Py_Time
begin

text \<open>
  Work items with their governance block (\<open>vad/control_plane/work_items.py\<close>), the run/task
  state projected from them (\<open>run_task_state.py\<close>) and the operator intent records
  (\<open>governance_records.py\<close>).
\<close>

datatype work_item_status =
    Planned | Queued | Assigned | Running | Blocked | Waiting_For_Human | Verifying
  | Approved | Completed | Failed | Cancelled | Requeued

fun work_item_status_value :: "work_item_status \<Rightarrow> pystr" where
  "work_item_status_value Planned = ''planned''"
| "work_item_status_value Queued = ''queued''"
| "work_item_status_value Assigned = ''assigned''"
| "work_item_status_value Running = ''running''"
| "work_item_status_value Blocked = ''blocked''"
| "work_item_status_value Waiting_For_Human = ''waiting_for_human''"
| "work_item_status_value Verifying = ''verifying''"
| "work_item_status_value Approved = ''approved''"
| "work_item_status_value Completed = ''completed''"
| "work_item_status_value Failed = ''failed''"
| "work_item_status_value Cancelled = ''cancelled''"
| "work_item_status_value Requeued = ''requeued''"

record governance =
  gv_effort_type :: pystr
  gv_mees_estimate :: int
  gv_token_budget :: int
  gv_approval_required :: bool
  gv_live_service_opt_in :: bool
  gv_high_risk :: bool
  gv_operator_intent_ref :: "pystr option"
  gv_approval_ref :: "pystr option"

text \<open>Python's truth value of an optional string.\<close>

definition truthy :: "pystr option \<Rightarrow> bool" where
  "truthy v = (case v of None \<Rightarrow> False | Some s \<Rightarrow> s \<noteq> [])"

text \<open>\<open>enforce_governance_controls\<close>.\<close>

definition governance_controls :: "governance \<Rightarrow> bool" where
  "governance_controls g =
     (if gv_mees_estimate g < 50 \<and> \<not> gv_approval_required g then False
      else if gv_live_service_opt_in g \<and> \<not> gv_approval_required g then False
      else if gv_high_risk g \<and> \<not> gv_approval_required g then False
      else if (gv_live_service_opt_in g \<or> gv_high_risk g) \<and> \<not> truthy (gv_operator_intent_ref g) then False
      else True)"

definition valid_governance :: "governance \<Rightarrow> bool" where
  "valid_governance g =
     (bounded 1 80 (gv_effort_type g) \<and> safe_identifier (gv_effort_type g)
      \<and> 0 \<le> gv_mees_estimate g \<and> gv_mees_estimate g \<le> 100
      \<and> 0 \<le> gv_token_budget g
      \<and> opt_all (bounded 0 200) (gv_operator_intent_ref g) \<and> opt_all safe_identifier (gv_operator_intent_ref g)
      \<and> opt_all (bounded 0 200) (gv_approval_ref g) \<and> opt_all safe_identifier (gv_approval_ref g)
      \<and> governance_controls g)"

record work_item =
  wi_work_item_id :: pystr
  wi_run_id :: pystr
  wi_title :: pystr
  wi_description :: pystr
  wi_role :: pystr
  wi_requested_capability :: "pystr option"
  wi_priority :: int
  wi_status :: work_item_status
  wi_created_at :: datetime
  wi_updated_at :: datetime
  wi_assigned_client_id :: "pystr option"
  wi_lease_id :: "pystr option"
  wi_evidence_digest :: "pystr option"
  wi_blocked_reason :: "pystr option"
  wi_governance :: "governance option"

definition valid_work_item :: "work_item \<Rightarrow> bool" where
  "valid_work_item i =
     (bounded 1 160 (wi_work_item_id i) \<and> safe_identifier (wi_work_item_id i)
      \<and> bounded 1 160 (wi_run_id i) \<and> safe_identifier (wi_run_id i)
      \<and> bounded 1 200 (wi_title i) \<and> safe_text (wi_title i)
      \<and> bounded 0 2000 (wi_description i) \<and> safe_text (wi_description i)
      \<and> bounded 1 80 (wi_role i) \<and> safe_identifier (wi_role i)
      \<and> opt_all (bounded 0 120) (wi_requested_capability i) \<and> opt_all safe_identifier (wi_requested_capability i)
      \<and> 0 \<le> wi_priority i \<and> wi_priority i \<le> 1000
      \<and> opt_all (bounded 0 160) (wi_assigned_client_id i) \<and> opt_all safe_identifier (wi_assigned_client_id i)
      \<and> opt_all (bounded 0 160) (wi_lease_id i) \<and> opt_all safe_identifier (wi_lease_id i)
      \<and> opt_all is_digest (wi_evidence_digest i)
      \<and> opt_all (bounded 0 500) (wi_blocked_reason i) \<and> opt_all safe_text (wi_blocked_reason i)
      \<and> opt_all valid_governance (wi_governance i))"

definition parse_work_item :: "work_item \<Rightarrow> exn + work_item" where
  "parse_work_item i = (if valid_work_item i then Inr i else Inl (ValidationError ''WorkItem''))"

definition or_old :: "'a option \<Rightarrow> 'a option \<Rightarrow> 'a option" where
  "or_old new old = (case new of None \<Rightarrow> old | Some x \<Rightarrow> Some x)"

text \<open>
  \<open>update_work_item\<close>: an argument that is \<open>None\<close> keeps the old field, so it can set a field
  but never clear one. The caller resolves \<open>now or datetime.now(timezone.utc)\<close>.
\<close>

definition update_work_item ::
    "work_item \<Rightarrow> work_item_status option \<Rightarrow> pystr option \<Rightarrow> pystr option \<Rightarrow> pystr option
     \<Rightarrow> pystr option \<Rightarrow> datetime \<Rightarrow> exn + work_item" where
  "update_work_item item status assigned_client_id lease_id evidence_digest blocked_reason now =
     parse_work_item (item\<lparr>
       wi_status := (case status of None \<Rightarrow> wi_status item | Some s \<Rightarrow> s),
       wi_assigned_client_id := or_old assigned_client_id (wi_assigned_client_id item),
       wi_lease_id := or_old lease_id (wi_lease_id item),
       wi_evidence_digest := or_old evidence_digest (wi_evidence_digest item),
       wi_blocked_reason := or_old blocked_reason (wi_blocked_reason item),
       wi_updated_at := normalize_time now\<rparr>)"

record run_task_state =
  rts_run_id :: pystr
  rts_task_id :: pystr
  rts_work_item_id :: "pystr option"
  rts_status :: work_item_status
  rts_assigned_client_id :: "pystr option"
  rts_lease_id :: "pystr option"
  rts_blocked_reason :: "pystr option"
  rts_evidence_digest :: "pystr option"
  rts_updated_at :: datetime

definition valid_run_task_state :: "run_task_state \<Rightarrow> bool" where
  "valid_run_task_state s =
     (bounded 1 160 (rts_run_id s) \<and> safe_identifier (rts_run_id s)
      \<and> bounded 1 160 (rts_task_id s) \<and> safe_identifier (rts_task_id s)
      \<and> opt_all (bounded 0 160) (rts_work_item_id s) \<and> opt_all safe_identifier (rts_work_item_id s)
      \<and> opt_all (bounded 0 160) (rts_assigned_client_id s) \<and> opt_all safe_identifier (rts_assigned_client_id s)
      \<and> opt_all (bounded 0 160) (rts_lease_id s) \<and> opt_all safe_identifier (rts_lease_id s)
      \<and> opt_all (bounded 0 500) (rts_blocked_reason s)
      \<and> opt_all is_digest (rts_evidence_digest s))"

definition parse_run_task_state :: "run_task_state \<Rightarrow> exn + run_task_state" where
  "parse_run_task_state s =
     (if valid_run_task_state s then Inr s else Inl (ValidationError ''RunTaskState''))"

definition run_task_state_of :: "work_item \<Rightarrow> run_task_state" where
  "run_task_state_of i =
     \<lparr>rts_run_id = wi_run_id i, rts_task_id = wi_work_item_id i, rts_work_item_id = Some (wi_work_item_id i),
      rts_status = wi_status i, rts_assigned_client_id = wi_assigned_client_id i,
      rts_lease_id = wi_lease_id i, rts_blocked_reason = wi_blocked_reason i,
      rts_evidence_digest = wi_evidence_digest i, rts_updated_at = wi_updated_at i\<rparr>"

definition from_work_item :: "work_item \<Rightarrow> exn + run_task_state" where
  "from_work_item i = parse_run_task_state (run_task_state_of i)"

record operator_intent =
  oi_intent_ref :: pystr
  oi_actor :: pystr
  oi_role :: pystr
  oi_scope :: pystr
  oi_granted_tools :: "pystr list"
  oi_summary :: pystr
  oi_live_service_opt_in :: bool
  oi_high_risk :: bool
  oi_expires_at :: "datetime option"
  oi_created_at :: datetime

definition parse_operator_intent :: "operator_intent \<Rightarrow> exn + operator_intent" where
  "parse_operator_intent r =
     (if bounded 1 200 (oi_intent_ref r) \<and> safe_identifier (oi_intent_ref r)
         \<and> bounded 1 160 (oi_actor r) \<and> safe_identifier (oi_actor r)
         \<and> bounded 1 80 (oi_role r) \<and> safe_identifier (oi_role r)
         \<and> bounded 1 160 (oi_scope r) \<and> safe_identifier (oi_scope r)
         \<and> list_all safe_identifier (oi_granted_tools r)
         \<and> bounded 1 500 (oi_summary r)
      then Inr (r\<lparr>oi_granted_tools := sort (oi_granted_tools r)\<rparr>)
      else Inl (ValidationError ''OperatorIntentRecord''))"

definition intent_is_active :: "operator_intent \<Rightarrow> datetime \<Rightarrow> bool" where
  "intent_is_active r now =
     (case oi_expires_at r of None \<Rightarrow> True
      | Some expires \<Rightarrow> instant now \<le> instant (normalize_time expires))"

lemma parse_work_item_Inr [simp]: "parse_work_item i = Inr i' \<longleftrightarrow> valid_work_item i \<and> i' = i"
  by (auto simp: parse_work_item_def)

lemma or_old_simps [simp]: "or_old None y = y" "or_old (Some x) y = Some x"
  by (simp_all add: or_old_def)

lemma from_work_item_valid: "valid_work_item i \<Longrightarrow> from_work_item i = Inr (run_task_state_of i)"
  by (simp add: from_work_item_def parse_run_task_state_def valid_run_task_state_def
      run_task_state_of_def valid_work_item_def bounded_def)

lemma run_task_state_of_key [simp]:
  "rts_run_id (run_task_state_of i) = wi_run_id i" "rts_task_id (run_task_state_of i) = wi_work_item_id i"
  by (simp_all add: run_task_state_of_def)

lemma update_work_item_Inr:
  assumes "update_work_item i st asg ls dg br now = Inr i'"
  shows "wi_work_item_id i' = wi_work_item_id i" "wi_run_id i' = wi_run_id i" "valid_work_item i'"
    "wi_status i' = (case st of None \<Rightarrow> wi_status i | Some s \<Rightarrow> s)"
    "wi_assigned_client_id i' = or_old asg (wi_assigned_client_id i)"
    "wi_lease_id i' = or_old ls (wi_lease_id i)"
    "wi_priority i' = wi_priority i" "wi_created_at i' = wi_created_at i"
    "wi_requested_capability i' = wi_requested_capability i"
    "wi_governance i' = wi_governance i"
  using assms by (simp_all add: update_work_item_def)

end
