(* ===== verification/Json.thy ===== *)
theory Json
  imports Prelude
begin

text \<open>
  JSON values and Python's \<open>json.dumps(value, sort_keys=True)\<close>. A dict is the list of its
  items, a float is its \<open>repr\<close>. \<open>dumps\<close> takes the two separators: \<open>(", ", ": ")\<close> is
  the default, \<open>(",", ":")\<close> the compact form the evidence digest is computed on.
\<close>

datatype json =
    J_Null
  | J_Bool bool
  | J_Int int
  | J_Float pystr
  | J_Str pystr
  | J_List "json list"
  | J_Dict "(pystr \<times> json) list"

definition hex_digit :: "nat \<Rightarrow> char" where
  "hex_digit n = ''0123456789abcdef'' ! n"

text \<open>\<open>ensure_ascii\<close>: quotes, backslashes and everything outside the printable range are escaped.\<close>

definition escape_char :: "char \<Rightarrow> pystr" where
  "escape_char c =
     (let n = of_char c :: nat in
      if c = CHR 0x22 then [CHR 0x5C, CHR 0x22]
      else if c = CHR 0x5C then [CHR 0x5C, CHR 0x5C]
      else if n = 10 then [CHR 0x5C, CHR ''n'']
      else if n = 13 then [CHR 0x5C, CHR ''r'']
      else if n = 9 then [CHR 0x5C, CHR ''t'']
      else if n = 12 then [CHR 0x5C, CHR ''f'']
      else if n = 8 then [CHR 0x5C, CHR ''b'']
      else if n < 32 \<or> 126 < n
      then [CHR 0x5C, CHR ''u'', CHR ''0'', CHR ''0'', hex_digit (n div 16), hex_digit (n mod 16)]
      else [c])"

definition quote_text :: "pystr \<Rightarrow> pystr" where
  "quote_text s = CHR 0x22 # concat (map escape_char s) @ [CHR 0x22]"

fun dumps :: "pystr \<Rightarrow> pystr \<Rightarrow> json \<Rightarrow> pystr" where
  "dumps isep ksep J_Null = ''null''"
| "dumps isep ksep (J_Bool b) = (if b then ''true'' else ''false'')"
| "dumps isep ksep (J_Int i) = show_int i"
| "dumps isep ksep (J_Float r) = r"
| "dumps isep ksep (J_Str s) = quote_text s"
| "dumps isep ksep (J_List xs) = ''['' @ py_join isep (map (dumps isep ksep) xs) @ '']''"
| "dumps isep ksep (J_Dict kvs) =
     ''{'' @ py_join isep
       (map (\<lambda>(k, t). quote_text k @ ksep @ t)
         (sort_key fst (map (\<lambda>(k, v). (k, dumps isep ksep v)) kvs))) @ ''}''"

definition dumps_compact :: "json \<Rightarrow> pystr" where
  "dumps_compact v = dumps '','' '':'' v"

definition dumps_default :: "json \<Rightarrow> pystr" where
  "dumps_default v = dumps '', '' '': '' v"

definition opt_json :: "('a \<Rightarrow> json) \<Rightarrow> 'a option \<Rightarrow> json" where
  "opt_json f v = (case v of None \<Rightarrow> J_Null | Some x \<Rightarrow> f x)"

text \<open>Python's truth value of a JSON value; a float's \<open>repr\<close> is zero when it reads \<open>0.0\<close> or \<open>-0.0\<close>.\<close>

fun json_truthy :: "json \<Rightarrow> bool" where
  "json_truthy J_Null = False"
| "json_truthy (J_Bool b) = b"
| "json_truthy (J_Int i) = (i \<noteq> 0)"
| "json_truthy (J_Float r) = (r \<notin> {''0.0'', ''-0.0''})"
| "json_truthy (J_Str s) = (s \<noteq> [])"
| "json_truthy (J_List xs) = (xs \<noteq> [])"
| "json_truthy (J_Dict kvs) = (kvs \<noteq> [])"

text \<open>\<open>d.get(key)\<close>; \<open>d[key] = value\<close> keeps the position of an existing key.\<close>

definition dict_get :: "'k \<Rightarrow> ('k \<times> 'v) list \<Rightarrow> 'v option" where
  "dict_get k d = map_of d k"

fun dict_set :: "'k \<Rightarrow> 'v \<Rightarrow> ('k \<times> 'v) list \<Rightarrow> ('k \<times> 'v) list" where
  "dict_set k v [] = [(k, v)]"
| "dict_set k v ((k', v') # d) = (if k' = k then (k, v) # d else (k', v') # dict_set k v d)"

lemma dict_get_set: "dict_get k' (dict_set k v d) = (if k' = k then Some v else dict_get k' d)"
  by (induction d) (auto simp: dict_get_def)

lemma keys_dict_set: "fst ` set (dict_set k v d) = insert k (fst ` set d)"
proof (induction d)
  case (Cons a d)
  then show ?case by (cases a) auto
qed simp

lemma distinct_dict_set: "distinct (map fst d) \<Longrightarrow> distinct (map fst (dict_set k v d))"
proof (induction d)
  case (Cons a d)
  obtain k' v' where a: "a = (k', v')" by fastforce
  have "k' \<noteq> k \<Longrightarrow> k' \<notin> set (map fst (dict_set k v d))"
    using Cons.prems unfolding a set_map keys_dict_set by simp
  with Cons a show ?case by auto
qed simp

lemma dumps_examples:
  "dumps_default (J_Dict [(''b'', J_List [J_Int 12, J_Null]), (''a'', J_Str [CHR 0x22, CHR ''x'', CHR 0x0A])])
     = ''{'' @ quote_text ''a'' @ '': '' @ quote_text [CHR 0x22, CHR ''x'', CHR 0x0A] @ '', ''
       @ quote_text ''b'' @ '': [12, null]}''"
  "quote_text [CHR 0x22, CHR 0x0A, CHR 0x7F] =
     [CHR 0x22, CHR 0x5C, CHR 0x22, CHR 0x5C, CHR ''n'', CHR 0x5C] @ ''u007f'' @ [CHR 0x22]"
  by code_simp+

text \<open>Two dicts with the same items print the same, whatever the order the items were added in.\<close>

lemma sort_key_same_set:
  assumes "distinct (map fst xs)" "distinct (map fst ys)" "set xs = set ys"
  shows "sort_key fst xs = sort_key fst (ys :: ('k::linorder \<times> 'v) list)"
proof (rule map_sorted_distinct_set_unique [of fst])
  show "inj_on fst (set (sort_key fst xs) \<union> set (sort_key fst ys))"
    using assms(1,3) by (simp add: distinct_map)
  show "sorted (map fst (sort_key fst xs))" "sorted (map fst (sort_key fst ys))" by simp_all
  show "distinct (map fst (sort_key fst xs))" "distinct (map fst (sort_key fst ys))"
    using assms by (simp_all add: distinct_map)
  show "set (sort_key fst xs) = set (sort_key fst ys)" using assms(3) by simp
qed

lemma map_fst_dumps: "map fst (map (\<lambda>(k, v). (k, dumps isep ksep v)) l) = map fst l"
  by (rule nth_equalityI) (auto simp: split_beta)

lemma dumps_dict_order:
  assumes "distinct (map fst kvs)" "distinct (map fst kvs')" "set kvs = set kvs'"
  shows "dumps isep ksep (J_Dict kvs) = dumps isep ksep (J_Dict kvs')"
proof -
  let ?f = "\<lambda>(k, v). (k, dumps isep ksep v)"
  have "sort_key fst (map ?f kvs) = sort_key fst (map ?f kvs')"
    by (rule sort_key_same_set) (simp_all only: map_fst_dumps set_map assms)
  then show ?thesis by simp
qed

end
