(* ===== verification/Evidence.thy ===== *)
theory Evidence
  imports Json
begin

text \<open>
  The evidence bundle (\<open>vad/evidence/bundle.py\<close>): the run evidence model with its effort
  policy, its JSON form, and the deterministic serialisation a digest is computed on.
  \<open>hashlib.sha256\<close> (UTF-8 encoding and hex text included) is the parameter \<open>sha256\<close> of every
  operation that computes a digest.
\<close>

record evidence_ref =
  er_path :: "pystr option"
  er_digest :: pystr

record verification_evidence =
  ve_passed :: bool
  ve_results :: "json list"

record effort_evidence =
  ef_effort_type :: pystr
  ef_mees :: int
  ef_policy :: pystr
  ef_changed_files :: int
  ef_line_delta :: int
  ef_new_dependencies :: int
  ef_complexity_delta :: int
  ef_maintainability_delta :: int

record token_evidence =
  te_budget :: int
  te_estimated :: "int option"
  te_used :: "int option"
  te_remaining :: "int option"
  te_optimization_notes :: "pystr list"

record run_evidence =
  re_schema_version :: pystr
  re_run_id :: pystr
  re_created_at :: pystr
  re_eip :: evidence_ref
  re_proof_plan :: evidence_ref
  re_builder :: pystr
  re_verifier :: pystr
  re_policy_decisions :: "json list"
  re_tool_calls :: "json list"
  re_model_routes :: "json list"
  re_memory_events :: "json list"
  re_verification :: "verification_evidence option"
  re_release :: "json option"
  re_feedback :: "json option"
  re_effort :: effort_evidence
  re_tokens :: token_evidence
  re_final_decision :: pystr
  re_blocker :: "pystr option"

text \<open>\<open>enforce_effort_policy\<close>.\<close>

definition enforce_effort_policy :: "run_evidence \<Rightarrow> bool" where
  "enforce_effort_policy e =
     (if ef_mees (re_effort e) < 50 \<and> re_final_decision e \<notin> {''needs_human'', ''blocked''} then False
      else if ef_policy (re_effort e) = ''block'' \<and> re_final_decision e \<notin> {''needs_human'', ''blocked''}
      then False else True)"

definition valid_run_evidence :: "run_evidence \<Rightarrow> bool" where
  "valid_run_evidence e =
     (0 \<le> ef_mees (re_effort e) \<and> ef_mees (re_effort e) \<le> 100
      \<and> 0 \<le> ef_changed_files (re_effort e) \<and> 0 \<le> ef_line_delta (re_effort e)
      \<and> 0 \<le> ef_new_dependencies (re_effort e)
      \<and> 0 \<le> te_budget (re_tokens e)
      \<and> enforce_effort_policy e)"

definition parse_run_evidence :: "run_evidence \<Rightarrow> exn + run_evidence" where
  "parse_run_evidence e = (if valid_run_evidence e then Inr e else Inl (ValidationError ''RunEvidence''))"

definition evidence_ref_json :: "evidence_ref \<Rightarrow> json" where
  "evidence_ref_json r = J_Dict [(''path'', opt_json J_Str (er_path r)), (''digest'', J_Str (er_digest r))]"

definition effort_json :: "effort_evidence \<Rightarrow> json" where
  "effort_json f = J_Dict
     [(''effort_type'', J_Str (ef_effort_type f)), (''mees'', J_Int (ef_mees f)),
      (''policy'', J_Str (ef_policy f)), (''changed_files'', J_Int (ef_changed_files f)),
      (''line_delta'', J_Int (ef_line_delta f)), (''new_dependencies'', J_Int (ef_new_dependencies f)),
      (''complexity_delta'', J_Int (ef_complexity_delta f)),
      (''maintainability_delta'', J_Int (ef_maintainability_delta f))]"

definition tokens_json :: "token_evidence \<Rightarrow> json" where
  "tokens_json t = J_Dict
     [(''budget'', J_Int (te_budget t)), (''estimated'', opt_json J_Int (te_estimated t)),
      (''used'', opt_json J_Int (te_used t)), (''remaining'', opt_json J_Int (te_remaining t)),
      (''optimization_notes'', J_List (map J_Str (te_optimization_notes t)))]"

definition verification_json :: "verification_evidence \<Rightarrow> json" where
  "verification_json v = J_Dict [(''passed'', J_Bool (ve_passed v)), (''results'', J_List (ve_results v))]"

text \<open>\<open>evidence.model_dump(mode="json")\<close>.\<close>

definition run_evidence_json :: "run_evidence \<Rightarrow> json" where
  "run_evidence_json e = J_Dict
     [(''schema_version'', J_Str (re_schema_version e)), (''run_id'', J_Str (re_run_id e)),
      (''created_at'', J_Str (re_created_at e)), (''eip'', evidence_ref_json (re_eip e)),
      (''proof_plan'', evidence_ref_json (re_proof_plan e)),
      (''agents'', J_Dict [(''builder'', J_Str (re_builder e)), (''verifier'', J_Str (re_verifier e))]),
      (''policy_decisions'', J_List (re_policy_decisions e)), (''tool_calls'', J_List (re_tool_calls e)),
      (''model_routes'', J_List (re_model_routes e)), (''memory_events'', J_List (re_memory_events e)),
      (''verification'', opt_json verification_json (re_verification e)),
      (''release'', opt_json id (re_release e)), (''feedback'', opt_json id (re_feedback e)),
      (''effort'', effort_json (re_effort e)), (''tokens'', tokens_json (re_tokens e)),
      (''final_decision'', J_Str (re_final_decision e)), (''blocker'', opt_json J_Str (re_blocker e))]"

definition serialize :: "json \<Rightarrow> pystr" where
  "serialize data = dumps_compact data"

definition compute_hash :: "(pystr \<Rightarrow> pystr) \<Rightarrow> json \<Rightarrow> pystr" where
  "compute_hash sha256 data = sha256 (serialize data)"

definition is_tampered :: "(pystr \<Rightarrow> pystr) \<Rightarrow> json \<Rightarrow> pystr \<Rightarrow> bool" where
  "is_tampered sha256 data expected = (compute_hash sha256 data \<noteq> expected)"

definition run_digest :: "(pystr \<Rightarrow> pystr) \<Rightarrow> run_evidence \<Rightarrow> pystr" where
  "run_digest sha256 e = compute_hash sha256 (run_evidence_json e)"

lemma parse_run_evidence_Inr [simp]: "parse_run_evidence e = Inr e' \<longleftrightarrow> valid_run_evidence e \<and> e' = e"
  by (auto simp: parse_run_evidence_def)

text \<open>A low or blocked effort score never passes as a finished run.\<close>

lemma valid_effort_decision:
  "valid_run_evidence e \<Longrightarrow> ef_mees (re_effort e) < 50 \<or> ef_policy (re_effort e) = ''block'' \<Longrightarrow>
   re_final_decision e \<in> {''needs_human'', ''blocked''}"
  by (auto simp: valid_run_evidence_def enforce_effort_policy_def split: if_splits)

end
