(* ===== verification/Plugin_Inventory.thy ===== *)
theory Plugin_Inventory
  imports Prelude
begin

text \<open>
  The plugin inventory record and the status record derived from it
  (\<open>vad/control_plane/plugins.py\<close>). Plugin_Install has the manifests and the installer, Dashboard the
  status the dashboard shows.
\<close>

datatype plugin_target_client =
    Tc_Codex | Tc_Claude_Code | Tc_Vs_Code | Tc_Antigravity | Tc_Windsurf | Tc_Cursor | Tc_Opencode | Tc_Generic_Mcp

fun target_client_value :: "plugin_target_client \<Rightarrow> pystr" where
  "target_client_value Tc_Codex = ''codex''"
| "target_client_value Tc_Claude_Code = ''claude_code''"
| "target_client_value Tc_Vs_Code = ''vscode''"
| "target_client_value Tc_Antigravity = ''antigravity''"
| "target_client_value Tc_Windsurf = ''windsurf''"
| "target_client_value Tc_Cursor = ''cursor''"
| "target_client_value Tc_Opencode = ''opencode''"
| "target_client_value Tc_Generic_Mcp = ''generic_mcp''"

datatype plugin_status = Ps_Installed | Ps_Available | Ps_Failed | Ps_Needs_Review

datatype review_state = Pending_Review | Reviewed | Rv_Approved | Rv_Blocked

fun review_state_value :: "review_state \<Rightarrow> pystr" where
  "review_state_value Pending_Review = ''pending_review''"
| "review_state_value Reviewed = ''reviewed''"
| "review_state_value Rv_Approved = ''approved''"
| "review_state_value Rv_Blocked = ''blocked''"

record plugin_inventory_record =
  pi_plugin_id :: pystr
  pi_target_client :: plugin_target_client
  pi_version :: pystr
  pi_review_state :: review_state
  pi_applied_config_hashes :: "(pystr \<times> pystr) list"
  pi_backup_paths :: "pystr list"
  pi_uninstall_status :: pystr
  pi_rollback_status :: pystr
  pi_dashboard_status :: plugin_status
  pi_publication_readiness :: pystr
  pi_summary :: pystr
  pi_action_required :: "pystr option"
  pi_artifact_digest :: "pystr option"
  pi_manifest_digest :: "pystr option"

record plugin_status_record =
  ps_plugin_id :: pystr
  ps_target_client :: plugin_target_client
  ps_status :: plugin_status
  ps_version :: pystr
  ps_local_version :: "pystr option"
  ps_publication_readiness :: pystr
  ps_summary :: pystr
  ps_action_required :: "pystr option"

definition validate_identifier :: "pystr \<Rightarrow> bool" where
  "validate_identifier s = (safe_text s \<and> \<not> has_any [CHR ''/'', CHR 0x5C] s)"

definition validate_relative_path :: "pystr \<Rightarrow> bool" where
  "validate_relative_path s =
     (safe_text s
      \<and> \<not> (is_prefix_of ''/'' s \<or> is_prefix_of [CHR 0x5C] s
           \<or> ''..'' \<in> set (py_split (CHR ''/'') (forward_slashes s))))"

text \<open>Validation sorts \<open>applied_config_hashes\<close> by path.\<close>

definition parse_plugin_inventory_record :: "plugin_inventory_record \<Rightarrow> exn + plugin_inventory_record" where
  "parse_plugin_inventory_record r =
     (if bounded 1 160 (pi_plugin_id r) \<and> validate_identifier (pi_plugin_id r)
         \<and> list_all (\<lambda>(path, digest). validate_relative_path path \<and> is_digest digest) (pi_applied_config_hashes r)
         \<and> list_all safe_text (pi_backup_paths r)
         \<and> bounded 0 80 (pi_uninstall_status r) \<and> safe_text (pi_uninstall_status r)
         \<and> bounded 0 80 (pi_rollback_status r) \<and> safe_text (pi_rollback_status r)
         \<and> bounded 0 80 (pi_publication_readiness r) \<and> safe_text (pi_publication_readiness r)
         \<and> bounded 1 300 (pi_summary r) \<and> safe_text (pi_summary r)
         \<and> opt_all (bounded 0 300) (pi_action_required r) \<and> opt_all safe_text (pi_action_required r)
         \<and> opt_all is_digest (pi_artifact_digest r) \<and> opt_all is_digest (pi_manifest_digest r)
      then Inr (r\<lparr>pi_applied_config_hashes := sort_key fst (pi_applied_config_hashes r)\<rparr>)
      else Inl (ValidationError ''PluginInventoryRecord''))"

lemma list_all_sort_key: "list_all P (sort_key f xs) = list_all P xs"
  by (simp only: list_all_iff set_sort)

lemma sort_key_sort_key: "sort_key f (sort_key f xs) = sort_key f xs"
  by (simp only: sort_key_id_if_sorted sorted_sort_key)

lemma parse_plugin_inventory_idem:
  assumes "parse_plugin_inventory_record r = Inr r'"
  shows "parse_plugin_inventory_record r' = Inr r'"
proof -
  from assms have "r' = r\<lparr>pi_applied_config_hashes := sort_key fst (pi_applied_config_hashes r)\<rparr>"
    unfolding parse_plugin_inventory_record_def by (simp only: sum.inject sum.distinct split: if_splits)
  with assms show ?thesis
    unfolding parse_plugin_inventory_record_def
    by (simp add: list_all_sort_key sort_key_sort_key del: split_paired_All split: if_splits)
qed

lemma parse_plugin_inventory_id:
  "parse_plugin_inventory_record r = Inr r' \<Longrightarrow> pi_plugin_id r' = pi_plugin_id r"
  by (auto simp: parse_plugin_inventory_record_def split: if_splits)

definition to_status_record :: "plugin_inventory_record \<Rightarrow> plugin_status_record" where
  "to_status_record r =
     \<lparr>ps_plugin_id = pi_plugin_id r, ps_target_client = pi_target_client r,
      ps_status = pi_dashboard_status r, ps_version = pi_version r,
      ps_local_version = (if pi_dashboard_status r = Ps_Installed then Some (pi_version r) else None),
      ps_publication_readiness = pi_publication_readiness r, ps_summary = pi_summary r,
      ps_action_required = pi_action_required r\<rparr>"

end
