(* ===== verification/Diff_Workflow.thy ===== *)
theory Diff_Workflow
  imports Cp_Events
begin

text \<open>
  Diff proposals and apply records (\<open>vad/repo/diff_workflow.py\<close>). \<open>sha256\<close> is a parameter.
  Applying a proposal to a working tree is not part of this theory.
\<close>

record diff_proposal =
  dp_proposal_id :: pystr
  dp_run_id :: pystr
  dp_task_id :: pystr
  dp_submitted_by :: pystr
  dp_role :: pystr
  dp_patch_text :: pystr
  dp_patch_digest :: pystr
  dp_changed_files :: "pystr list"
  dp_created_at :: pystr
  dp_summary :: pystr

definition valid_diff_proposal :: "diff_proposal \<Rightarrow> bool" where
  "valid_diff_proposal p =
     (length (dp_proposal_id p) \<le> 120 \<and> safe_identifier (dp_proposal_id p)
      \<and> safe_identifier (dp_run_id p) \<and> safe_identifier (dp_task_id p)
      \<and> safe_identifier (dp_submitted_by p) \<and> safe_identifier (dp_role p)
      \<and> dp_patch_text p \<noteq> [] \<and> is_digest (dp_patch_digest p)
      \<and> dp_changed_files p \<noteq> [] \<and> bounded 1 300 (dp_summary p))"

definition parse_diff_proposal :: "diff_proposal \<Rightarrow> exn + diff_proposal" where
  "parse_diff_proposal p = (if valid_diff_proposal p then Inr p else Inl (ValidationError ''DiffProposal''))"

record diff_apply_record =
  da_proposal_id :: pystr
  da_run_id :: pystr
  da_task_id :: pystr
  da_applied :: bool
  da_changed_files :: "pystr list"
  da_verifier_decision :: policy_decision
  da_release_guardian_decision :: policy_decision
  da_before_digest :: "pystr option"
  da_after_file_digests :: "(pystr \<times> pystr) list"
  da_blocker :: "pystr option"
  da_created_at :: pystr

definition valid_diff_apply_record :: "diff_apply_record \<Rightarrow> bool" where
  "valid_diff_apply_record r = opt_all is_digest (da_before_digest r)"

definition parse_diff_apply_record :: "diff_apply_record \<Rightarrow> exn + diff_apply_record" where
  "parse_diff_apply_record r =
     (if valid_diff_apply_record r then Inr r else Inl (ValidationError ''DiffApplyRecord''))"

text \<open>\<open>_normalize_changed_files\<close>: the first unsafe path raises.\<close>

fun normalize_changed_files :: "pystr list \<Rightarrow> exn + pystr list" where
  "normalize_changed_files [] = Inr []"
| "normalize_changed_files (path # paths) =
     (let cleaned = forward_slashes path in
      if is_prefix_of ''/'' cleaned \<or> ''..'' \<in> set (py_split (CHR ''/'') cleaned)
      then Inl (ValueError (''unsafe changed file path: '' @ path))
      else (case normalize_changed_files paths of Inl e \<Rightarrow> Inl e | Inr ps \<Rightarrow> Inr (cleaned # ps)))"

text \<open>
  \<open>create_diff_proposal\<close>; \<open>uuid\<close> and \<open>created_at\<close> are what the two default factories return.
\<close>

definition create_diff_proposal ::
    "(pystr \<Rightarrow> pystr) \<Rightarrow> pystr \<Rightarrow> pystr \<Rightarrow> pystr \<Rightarrow> pystr \<Rightarrow> pystr \<Rightarrow> pystr \<Rightarrow> pystr
     \<Rightarrow> pystr list \<Rightarrow> pystr \<Rightarrow> exn + diff_proposal" where
  "create_diff_proposal sha256 uuid created_at run_id task_id submitted_by role patch_text changed_files summary =
     (case normalize_changed_files changed_files of
        Inl e \<Rightarrow> Inl e
      | Inr files \<Rightarrow> parse_diff_proposal
          \<lparr>dp_proposal_id = ''diff-proposal-'' @ uuid, dp_run_id = run_id, dp_task_id = task_id,
           dp_submitted_by = submitted_by, dp_role = role, dp_patch_text = patch_text,
           dp_patch_digest = sha256 patch_text, dp_changed_files = sort files,
           dp_created_at = created_at, dp_summary = summary\<rparr>)"

definition approval_blocker :: "policy_decision \<Rightarrow> policy_decision \<Rightarrow> pystr option" where
  "approval_blocker verifier_decision release_guardian_decision =
     (if \<not> allow verifier_decision then Some ''verifier approval required before diff apply''
      else if \<not> allow release_guardian_decision
      then Some ''release guardian approval required before diff apply''
      else None)"

lemma parse_diff_proposal_Inr [simp]: "parse_diff_proposal p = Inr p' \<longleftrightarrow> valid_diff_proposal p \<and> p' = p"
  by (auto simp: parse_diff_proposal_def)

lemma parse_diff_apply_record_Inr [simp]:
  "parse_diff_apply_record r = Inr r' \<longleftrightarrow> valid_diff_apply_record r \<and> r' = r"
  by (auto simp: parse_diff_apply_record_def)

text \<open>A path that passes is relative and has no parent step, so it names a file under the root.\<close>

definition path_safe :: "pystr \<Rightarrow> bool" where
  "path_safe p = (CHR 0x5C \<notin> set p \<and> \<not> is_prefix_of ''/'' p \<and> ''..'' \<notin> set (py_split (CHR ''/'') p))"

lemma forward_slashes_no_backslash: "CHR 0x5C \<notin> set (forward_slashes s)"
  by (auto simp: forward_slashes_def)

lemma normalize_changed_files_safe:
  "normalize_changed_files ps = Inr qs \<Longrightarrow> list_all path_safe qs \<and> qs = map forward_slashes ps"
  by (induction ps arbitrary: qs)
    (auto simp: Let_def path_safe_def forward_slashes_no_backslash split: if_splits sum.splits)

lemma create_diff_proposal_Inr:
  assumes "create_diff_proposal h u t rid tid by' role patch files summary = Inr p"
  shows "valid_diff_proposal p" "dp_patch_digest p = h patch" "dp_patch_text p = patch"
    "dp_proposal_id p = ''diff-proposal-'' @ u"
    "dp_changed_files p = sort (map forward_slashes files)"
    "list_all path_safe (dp_changed_files p)"
  using assms
  by (auto simp: create_diff_proposal_def list_all_iff dest!: normalize_changed_files_safe split: sum.splits)

end
