(* ===== verification/Store_Base.thy ===== *)
theory Store_Base
  imports Schema Sql_Table Cp_Events Cp_Clients Cp_Leases Cp_Work_Items Evidence Plugin_Inventory Diff_Workflow
begin

text \<open>
  The state behind \<open>vad/server/db/store.py\<close>: the database file (its \<open>user_version\<close>, its
  schema and one row list per table) together with the two sources the code draws fresh values
  from, the system clock and \<open>uuid4\<close>, as streams with a position.

  A payload column holds the JSON of a pydantic model; it is modelled by the model's value, and
  reading it validates again (\<open>parse_..\<close>). A column that every statement writes together with
  the payload is not a field of its own; a column that can differ from the payload is: the
  registration time, the heartbeat columns, the two foreign keys of a work item that
  \<open>ON DELETE SET NULL\<close> clears, and the columns an upsert leaves alone.
\<close>

record approval_event =
  ap_approval_id :: pystr
  ap_run_id :: pystr
  ap_actor :: pystr
  ap_action :: pystr
  ap_created_at :: pystr
  ap_decision :: policy_decision
  ap_evidence_digest :: "pystr option"

record stored_run_evidence =
  sr_run_id :: pystr
  sr_evidence_digest :: pystr
  sr_evidence :: run_evidence

record dashboard_activity =
  act_activity_id :: pystr
  act_run_id :: pystr
  act_kind :: pystr
  act_status :: pystr
  act_client :: pystr
  act_actor :: pystr
  act_role :: pystr
  act_summary :: pystr
  act_created_at :: pystr
  act_task_id :: "pystr option"
  act_evidence_digest :: "pystr option"
  act_policy_decision :: "policy_decision option"
  act_details :: json

record proof_stream_record =
  pr_record_id :: pystr
  pr_run_id :: pystr
  pr_task_id :: pystr
  pr_status :: pystr
  pr_client :: pystr
  pr_actor :: pystr
  pr_role :: pystr
  pr_summary :: pystr
  pr_created_at :: pystr
  pr_client_id :: "pystr option"
  pr_started_at :: "pystr option"
  pr_finished_at :: "pystr option"
  pr_evidence_digest :: "pystr option"
  pr_recovery_event_id :: "pystr option"
  pr_recovery_evidence_url :: "pystr option"

record terminal_stream_record =
  tr_record_id :: pystr
  tr_run_id :: pystr
  tr_task_id :: pystr
  tr_kind :: pystr
  tr_status :: pystr
  tr_client :: pystr
  tr_role :: pystr
  tr_summary :: pystr
  tr_created_at :: pystr
  tr_event_id :: "pystr option"
  tr_evidence_digest :: "pystr option"

definition parse_proof_stream_record :: "proof_stream_record \<Rightarrow> exn + proof_stream_record" where
  "parse_proof_stream_record r =
     (if opt_all is_digest (pr_evidence_digest r) then Inr r else Inl (ValidationError ''ProofStreamRecord''))"

definition parse_terminal_stream_record :: "terminal_stream_record \<Rightarrow> exn + terminal_stream_record" where
  "parse_terminal_stream_record r =
     (if opt_all is_digest (tr_evidence_digest r) then Inr r else Inl (ValidationError ''TerminalStreamRecord''))"

record manifest_row =
  mr_manifest :: client_manifest
  mr_registered_at :: datetime

record heartbeat_row =
  hr_client_id :: pystr
  hr_status :: runtime_status
  hr_last_heartbeat_at :: "datetime option"
  hr_last_run_id :: "pystr option"
  hr_last_task_id :: "pystr option"
  hr_lost_task_leases :: "pystr list"
  hr_payload :: "client_heartbeat option"

record work_item_row =
  wr_item :: work_item
  wr_assigned_client_id :: "pystr option"
  wr_lease_id :: "pystr option"

record intent_row =
  ir_record :: operator_intent
  ir_created_at :: datetime

record run_evidence_row =
  rr_evidence :: run_evidence
  rr_evidence_digest :: pystr

record diff_row =
  dr_proposal :: diff_proposal
  dr_status :: pystr
  dr_created_at :: pystr

record apply_row =
  ay_record_id :: pystr
  ay_record :: diff_apply_record

record world =
  w_user_version :: nat
  w_schema :: sql_schema
  w_manifests :: "manifest_row list"
  w_heartbeats :: "heartbeat_row list"
  w_leases :: "task_lease list"
  w_work_items :: "work_item_row list"
  w_task_states :: "run_task_state list"
  w_events :: "control_plane_event list"
  w_intents :: "intent_row list"
  w_run_evidence :: "run_evidence_row list"
  w_approvals :: "approval_event list"
  w_activity :: "dashboard_activity list"
  w_proof_stream :: "proof_stream_record list"
  w_terminal_stream :: "terminal_stream_record list"
  w_plugins :: "plugin_inventory_record list"
  w_diffs :: "diff_row list"
  w_applies :: "apply_row list"
  w_clock :: "nat \<Rightarrow> int"
  w_ticks :: nat
  w_uuids :: "nat \<Rightarrow> pystr"
  w_drawn :: nat

text \<open>A database file that does not exist yet.\<close>

definition fresh_world :: "(nat \<Rightarrow> int) \<Rightarrow> (nat \<Rightarrow> pystr) \<Rightarrow> world" where
  "fresh_world clock uuids =
     \<lparr>w_user_version = 0, w_schema = empty_schema, w_manifests = [], w_heartbeats = [], w_leases = [],
      w_work_items = [], w_task_states = [], w_events = [], w_intents = [], w_run_evidence = [],
      w_approvals = [], w_activity = [], w_proof_stream = [], w_terminal_stream = [], w_plugins = [],
      w_diffs = [], w_applies = [], w_clock = clock, w_ticks = 0, w_uuids = uuids, w_drawn = 0\<rparr>"

section \<open>Time, identifiers and the migration every operation starts with\<close>

definition utcnow :: "(world, datetime) proc" where
  "utcnow w = (Inr (Aware (w_clock w (w_ticks w)) 0), w\<lparr>w_ticks := Suc (w_ticks w)\<rparr>)"

definition uuid4_hex :: "(world, pystr) proc" where
  "uuid4_hex w = (Inr (w_uuids w (w_drawn w)), w\<lparr>w_drawn := Suc (w_drawn w)\<rparr>)"

definition migrate :: "(world, unit) proc" where
  "migrate w =
     (if schema_version < w_user_version w
      then (Inl (RuntimeError ''database schema is newer than supported''), w)
      else (Inr (), w\<lparr>w_schema := run_migrations (w_user_version w) (w_schema w),
                      w_user_version := schema_version\<rparr>))"

definition migrated :: "world \<Rightarrow> bool" where
  "migrated w = (w_user_version w = schema_version)"

lemma run_migrations_current [simp]: "run_migrations schema_version s = s"
  by (simp add: run_migrations_def when_below_def schema_version_def)

lemma migrate_migrated [simp]: "migrated w \<Longrightarrow> migrate w = (Inr (), w)"
  by (simp add: migrate_def migrated_def)

lemma migrate_newer: "schema_version < w_user_version w \<Longrightarrow> \<exists>e. migrate w = (Inl e, w)"
  by (simp add: migrate_def)

lemma migrate_migrates: "migrate w = (Inr (), w') \<Longrightarrow> migrated w'"
  by (auto simp: migrate_def migrated_def split: if_splits)

text \<open>Running a statement after \<open>migrate\<close> on a database at the supported version.\<close>

lemma after_migrate [simp]: "migrated w \<Longrightarrow> andthen migrate k w = k () w"
  by (simp add: andthen_def)

lemma after_utcnow [simp]:
  "andthen utcnow k w = k (Aware (w_clock w (w_ticks w)) 0) (w\<lparr>w_ticks := Suc (w_ticks w)\<rparr>)"
  by (simp add: andthen_def utcnow_def)

lemma after_uuid4 [simp]:
  "andthen uuid4_hex k w = k (w_uuids w (w_drawn w)) (w\<lparr>w_drawn := Suc (w_drawn w)\<rparr>)"
  by (simp add: andthen_def uuid4_hex_def)

text \<open>Every operation migrates first, so it is determined by what it does on a migrated database.\<close>

definition begins_with_migrate :: "(world, 'a) proc \<Rightarrow> bool" where
  "begins_with_migrate m = (m = andthen migrate (\<lambda>_. m))"

lemma begins_migrate: "begins_with_migrate (andthen migrate k)"
  unfolding begins_with_migrate_def
proof (rule ext)
  fix w
  show "andthen migrate k w = andthen migrate (\<lambda>_. andthen migrate k) w"
  proof (cases "schema_version < w_user_version w")
    case True
    then show ?thesis by (simp add: andthen_def migrate_def)
  next
    case False
    then show ?thesis by (auto simp: andthen_def migrate_def)
  qed
qed

lemma begins_at: "begins_with_migrate m \<Longrightarrow> andthen migrate (\<lambda>_. m) w = m w"
  by (drule fun_cong [OF begins_with_migrate_def [THEN iffD1], of _ w]) (rule sym)

lemma begins_andthen:
  assumes "begins_with_migrate m"
  shows "begins_with_migrate (andthen m k)"
proof -
  have "andthen m k = andthen (andthen migrate (\<lambda>_. m)) k"
    by (rule ext) (simp only: andthen_def [of m] andthen_def [of "andthen migrate (\<lambda>_. m)"] begins_at [OF assms])
  then show ?thesis unfolding begins_with_migrate_def andthen_assoc .
qed

lemma begins_with_migrate_Inl:
  assumes "begins_with_migrate m" "migrate w = (Inl e, w')"
  shows "m w = (Inl e, w')"
  using begins_at [OF assms(1), of w] assms(2) by (simp add: andthen_def)

lemma begins_with_migrate_Inr:
  assumes "begins_with_migrate m" "migrate w = (Inr (), w')"
  shows "m w = m w'"
  using begins_at [OF assms(1), of w] assms(2) by (simp add: andthen_def)

text \<open>What \<open>uuid4().hex\<close> promises: 32 lower-case hexadecimal digits.\<close>

definition is_uuid_hex :: "pystr \<Rightarrow> bool" where
  "is_uuid_hex s = (length s = 32 \<and> list_all is_lower_hex s)"

definition next_uuid :: "world \<Rightarrow> pystr" where
  "next_uuid w = w_uuids w (w_drawn w)"

definition now_of :: "world \<Rightarrow> datetime" where
  "now_of w = Aware (w_clock w (w_ticks w)) 0"

lemma lower_hex_safe: "is_lower_hex c \<Longrightarrow> c \<notin> set path_separators"
  by (auto simp: is_lower_hex_def path_separators_def)

lemma uuid_safe: "is_uuid_hex u \<Longrightarrow> safe_identifier u"
  by (auto simp: is_uuid_hex_def safe_identifier_def has_any_def list_ex_iff list_all_iff dest!: bspec lower_hex_safe)

section \<open>Statements that write\<close>

text \<open>
  \<open>INSERT\<close> and \<open>INSERT .. ON CONFLICT DO UPDATE\<close> on the table that \<open>get\<close> and \<open>put\<close>
  access. \<open>fk\<close> is the foreign key check of the row; a violated constraint leaves the table
  as it was.
\<close>

definition unique_failed :: exn where
  "unique_failed = IntegrityError ''UNIQUE constraint failed''"

definition fk_failed :: exn where
  "fk_failed = IntegrityError ''FOREIGN KEY constraint failed''"

definition insert_row ::
    "(world \<Rightarrow> 'r list) \<Rightarrow> ('r list \<Rightarrow> world \<Rightarrow> world) \<Rightarrow> ('r \<Rightarrow> 'k) \<Rightarrow> (world \<Rightarrow> 'r \<Rightarrow> bool)
     \<Rightarrow> 'r \<Rightarrow> (world, unit) proc" where
  "insert_row get put key fk r w =
     (case tbl_insert key r (get w) of
        None \<Rightarrow> (Inl unique_failed, w)
      | Some rows \<Rightarrow> if fk w r then (Inr (), put rows w) else (Inl fk_failed, w))"

definition upsert_row ::
    "(world \<Rightarrow> 'r list) \<Rightarrow> ('r list \<Rightarrow> world \<Rightarrow> world) \<Rightarrow> ('r \<Rightarrow> 'k) \<Rightarrow> ('r \<Rightarrow> 'r \<Rightarrow> 'r)
     \<Rightarrow> (world \<Rightarrow> 'r \<Rightarrow> bool) \<Rightarrow> 'r \<Rightarrow> (world, unit) proc" where
  "upsert_row get put key merge fk r w =
     (if fk w r then (Inr (), put (tbl_upsert key merge r (get w)) w) else (Inl fk_failed, w))"

definition no_fk :: "world \<Rightarrow> 'r \<Rightarrow> bool" where
  "no_fk w r = True"

lemma no_fk_simp [simp]: "no_fk w r"
  by (simp add: no_fk_def)

definition has_manifest :: "world \<Rightarrow> pystr \<Rightarrow> bool" where
  "has_manifest w k = (k \<in> (\<lambda>r. cm_client_id (mr_manifest r)) ` set (w_manifests w))"

definition has_lease :: "world \<Rightarrow> pystr \<Rightarrow> bool" where
  "has_lease w k = (k \<in> lease_task_id ` set (w_leases w))"

definition has_run :: "world \<Rightarrow> pystr \<Rightarrow> bool" where
  "has_run w k = (k \<in> (\<lambda>r. re_run_id (rr_evidence r)) ` set (w_run_evidence w))"

text \<open>The four selectors of rows that combine a payload with separate columns.\<close>

definition manifest_key :: "manifest_row \<Rightarrow> pystr" where
  "manifest_key r = cm_client_id (mr_manifest r)"

definition work_item_key :: "work_item_row \<Rightarrow> pystr" where
  "work_item_key r = wi_work_item_id (wr_item r)"

definition task_state_key :: "run_task_state \<Rightarrow> pystr \<times> pystr" where
  "task_state_key s = (rts_run_id s, rts_task_id s)"

definition find_or_key_error :: "pystr \<Rightarrow> 'r option \<Rightarrow> ('r \<Rightarrow> exn + 'a) \<Rightarrow> exn + 'a" where
  "find_or_key_error k found parse = (case found of None \<Rightarrow> Inl (KeyError k) | Some r \<Rightarrow> parse r)"

lemma find_or_key_error_simps [simp]:
  "find_or_key_error k None p = Inl (KeyError k)" "find_or_key_error k (Some r) p = p r"
  by (simp_all add: find_or_key_error_def)

lemma has_manifest_find: "has_manifest w k \<longleftrightarrow> tbl_find manifest_key k (w_manifests w) \<noteq> None"
  by (auto simp: has_manifest_def manifest_key_def tbl_find_None image_iff)

lemma has_lease_find: "has_lease w k \<longleftrightarrow> tbl_find lease_task_id k (w_leases w) \<noteq> None"
  by (auto simp: has_lease_def tbl_find_None image_iff)

end
