(* ===== verification/Store.thy ===== *)
theory Store
  imports Store_Base
begin

text \<open>
  The operations of \<open>ServerStore\<close> on client manifests, heartbeats, leases, work items, run/task
  states, operator intents and the event ledger, one definition per method.
\<close>

section \<open>Client manifests\<close>

definition register_client_manifest :: "client_manifest \<Rightarrow> (world, client_manifest) proc" where
  "register_client_manifest m =
     andthen migrate (\<lambda>_. andthen utcnow (\<lambda>t.
     andthen (insert_row w_manifests (\<lambda>rows w. w\<lparr>w_manifests := rows\<rparr>) manifest_key no_fk
       \<lparr>mr_manifest = m, mr_registered_at = t\<rparr>) (\<lambda>_. ret m)))"

definition list_client_manifests :: "(world, client_manifest list) proc" where
  "list_client_manifests =
     andthen migrate (\<lambda>_. andthen (reads w_manifests) (\<lambda>rows.
     lift_result (parse_all parse_client_manifest
       (sort_key (\<lambda>m. (cm_display_name m, cm_client_id m)) (map mr_manifest rows)))))"

definition load_client_manifest :: "pystr \<Rightarrow> (world, client_manifest) proc" where
  "load_client_manifest k =
     andthen migrate (\<lambda>_. andthen (reads w_manifests) (\<lambda>rows.
     lift_result (find_or_key_error k (tbl_find manifest_key k rows)
       (\<lambda>r. parse_client_manifest (mr_manifest r)))))"

text \<open>
  \<open>DELETE FROM client_manifests\<close> with its referential actions: heartbeats and leases of the
  client go (\<open>CASCADE\<close>), and a work item's foreign key columns that named the client or one
  of those leases become \<open>NULL\<close>. The payload of the work item is not touched.
\<close>

definition delete_client :: "pystr \<Rightarrow> world \<Rightarrow> world" where
  "delete_client k w =
     (let gone = filter (\<lambda>l. lease_client_id l = k) (w_leases w);
          null_client = (\<lambda>v. if v = Some k then None else v);
          null_lease = (\<lambda>v. case v of None \<Rightarrow> None
                         | Some t \<Rightarrow> if t \<in> lease_task_id ` set gone then None else Some t)
      in w\<lparr>w_manifests := tbl_delete manifest_key k (w_manifests w),
           w_heartbeats := tbl_delete hr_client_id k (w_heartbeats w),
           w_leases := filter (\<lambda>l. lease_client_id l \<noteq> k) (w_leases w),
           w_work_items := map (\<lambda>r. r\<lparr>wr_assigned_client_id := null_client (wr_assigned_client_id r),
                                     wr_lease_id := null_lease (wr_lease_id r)\<rparr>) (w_work_items w)\<rparr>)"

definition unregister_client_manifest :: "pystr \<Rightarrow> (world, client_manifest) proc" where
  "unregister_client_manifest k =
     andthen (load_client_manifest k) (\<lambda>m.
     andthen (writes (delete_client k)) (\<lambda>_. ret m))"

section \<open>Task leases\<close>

definition save_task_lease :: "task_lease \<Rightarrow> (world, task_lease) proc" where
  "save_task_lease l =
     andthen (load_client_manifest (lease_client_id l)) (\<lambda>_.
     andthen migrate (\<lambda>_.
     andthen (upsert_row w_leases (\<lambda>rows w. w\<lparr>w_leases := rows\<rparr>) lease_task_id take_new
       (\<lambda>w l. has_manifest w (lease_client_id l)) l) (\<lambda>_. ret l)))"

definition load_task_lease :: "pystr \<Rightarrow> (world, task_lease) proc" where
  "load_task_lease k =
     andthen migrate (\<lambda>_. andthen (reads w_leases) (\<lambda>rows.
     lift_result (find_or_key_error k (tbl_find lease_task_id k rows) parse_lease)))"

definition wanted :: "'a option \<Rightarrow> 'a \<Rightarrow> bool" where
  "wanted v x = (case v of None \<Rightarrow> True | Some y \<Rightarrow> x = y)"

definition list_task_leases :: "pystr option \<Rightarrow> lease_status option \<Rightarrow> (world, task_lease list) proc" where
  "list_task_leases client_id status =
     andthen migrate (\<lambda>_. andthen (reads w_leases) (\<lambda>rows.
     lift_result (parse_all parse_lease
       (sort_key (\<lambda>l. (lease_run_id l, lease_task_id l))
         (filter (\<lambda>l. wanted client_id (lease_client_id l) \<and> wanted status (lease_status l)) rows)))))"

definition expire_task_leases_for_client :: "pystr \<Rightarrow> (world, task_lease list) proc" where
  "expire_task_leases_for_client client_id =
     andthen (list_task_leases (Some client_id) (Some Ls_Active)) (\<lambda>ls.
     each_proc (\<lambda>l. save_task_lease
       (l\<lparr>lease_status := Ls_Expired, lease_release_reason := Some ''client marked stale''\<rparr>)) ls)"

section \<open>Heartbeats\<close>

text \<open>The \<open>SET\<close> list of a heartbeat leaves \<open>lost_task_leases_json\<close> alone.\<close>

definition merge_heartbeat :: "heartbeat_row \<Rightarrow> heartbeat_row \<Rightarrow> heartbeat_row" where
  "merge_heartbeat old new = new\<lparr>hr_lost_task_leases := hr_lost_task_leases old\<rparr>"

definition record_client_heartbeat :: "client_heartbeat \<Rightarrow> (world, client_heartbeat) proc" where
  "record_client_heartbeat h =
     andthen (load_client_manifest (hb_client_id h)) (\<lambda>_.
     andthen migrate (\<lambda>_.
     andthen (upsert_row w_heartbeats (\<lambda>rows w. w\<lparr>w_heartbeats := rows\<rparr>) hr_client_id merge_heartbeat
       (\<lambda>w r. has_manifest w (hr_client_id r))
       \<lparr>hr_client_id = hb_client_id h, hr_status = hb_status h,
        hr_last_heartbeat_at = Some (hb_observed_at h), hr_last_run_id = hb_run_id h,
        hr_last_task_id = hb_task_id h, hr_lost_task_leases = [], hr_payload = Some h\<rparr>) (\<lambda>_. ret h)))"

definition status_snapshot :: "heartbeat_row list \<Rightarrow> client_manifest \<Rightarrow> exn + client_status_snapshot" where
  "status_snapshot heartbeats m =
     (case parse_client_manifest m of Inl e \<Rightarrow> Inl e
      | Inr m' \<Rightarrow>
          Inr (case tbl_find hr_client_id (cm_client_id m) heartbeats of
             None \<Rightarrow> \<lparr>ss_manifest = m', ss_status = Rt_Disconnected, ss_last_heartbeat_at = None,
                      ss_last_run_id = None, ss_last_task_id = None, ss_lost_task_leases = []\<rparr>
           | Some r \<Rightarrow> \<lparr>ss_manifest = m', ss_status = hr_status r,
                        ss_last_heartbeat_at = hr_last_heartbeat_at r, ss_last_run_id = hr_last_run_id r,
                        ss_last_task_id = hr_last_task_id r, ss_lost_task_leases = hr_lost_task_leases r\<rparr>))"

definition list_client_statuses :: "(world, client_status_snapshot list) proc" where
  "list_client_statuses =
     andthen migrate (\<lambda>_. andthen (reads w_manifests) (\<lambda>rows. andthen (reads w_heartbeats) (\<lambda>heartbeats.
     lift_result (parse_all (status_snapshot heartbeats)
       (sort_key (\<lambda>m. (cm_display_name m, cm_client_id m)) (map mr_manifest rows))))))"

text \<open>The \<open>SET\<close> list of a stale mark writes only the status and the lost leases.\<close>

definition merge_stale :: "heartbeat_row \<Rightarrow> heartbeat_row \<Rightarrow> heartbeat_row" where
  "merge_stale old new =
     old\<lparr>hr_status := hr_status new, hr_lost_task_leases := hr_lost_task_leases new\<rparr>"

definition mark_client_stale :: "pystr \<Rightarrow> pystr list option \<Rightarrow> (world, client_status_snapshot) proc" where
  "mark_client_stale client_id lost_task_leases =
     andthen (load_client_manifest client_id) (\<lambda>m.
     andthen migrate (\<lambda>_.
     andthen (case lost_task_leases of
                Some ls \<Rightarrow> ret ls
              | None \<Rightarrow> andthen (expire_task_leases_for_client client_id) (\<lambda>ls. ret (map lease_task_id ls))) (\<lambda>released.
     andthen (reads (\<lambda>w. tbl_find hr_client_id client_id (w_heartbeats w))) (\<lambda>row.
     andthen (upsert_row w_heartbeats (\<lambda>rows w. w\<lparr>w_heartbeats := rows\<rparr>) hr_client_id merge_stale
       (\<lambda>w r. has_manifest w (hr_client_id r))
       \<lparr>hr_client_id = client_id, hr_status = Rt_Stale,
        hr_last_heartbeat_at = Option.bind row hr_last_heartbeat_at,
        hr_last_run_id = Option.bind row hr_last_run_id,
        hr_last_task_id = Option.bind row hr_last_task_id,
        hr_lost_task_leases = released, hr_payload = None\<rparr>) (\<lambda>_.
     ret \<lparr>ss_manifest = m, ss_status = Rt_Stale,
          ss_last_heartbeat_at = Option.bind row hr_last_heartbeat_at,
          ss_last_run_id = Option.bind row hr_last_run_id,
          ss_last_task_id = Option.bind row hr_last_task_id,
          ss_lost_task_leases = released\<rparr>)))))"

section \<open>Run/task states and work items\<close>

definition upsert_run_task_state :: "run_task_state \<Rightarrow> (world, run_task_state) proc" where
  "upsert_run_task_state s =
     andthen migrate (\<lambda>_.
     andthen (upsert_row w_task_states (\<lambda>rows w. w\<lparr>w_task_states := rows\<rparr>) task_state_key take_new no_fk s) (\<lambda>_.
     ret s))"

definition load_run_task_state :: "pystr \<Rightarrow> pystr \<Rightarrow> (world, run_task_state) proc" where
  "load_run_task_state run_id task_id =
     andthen migrate (\<lambda>_. andthen (reads w_task_states) (\<lambda>rows.
     lift_result (find_or_key_error (run_id @ '','' @ task_id)
       (tbl_find task_state_key (run_id, task_id) rows) parse_run_task_state)))"

definition list_run_task_states :: "pystr option \<Rightarrow> (world, run_task_state list) proc" where
  "list_run_task_states run_id =
     andthen migrate (\<lambda>_. andthen (reads w_task_states) (\<lambda>rows.
     lift_result (parse_all parse_run_task_state
       (sort_key task_state_key (filter (\<lambda>s. wanted run_id (rts_run_id s)) rows)))))"

definition work_item_fk :: "world \<Rightarrow> work_item_row \<Rightarrow> bool" where
  "work_item_fk w r =
     (opt_all (has_manifest w) (wr_assigned_client_id r) \<and> opt_all (has_lease w) (wr_lease_id r))"

definition row_of :: "work_item \<Rightarrow> work_item_row" where
  "row_of i = \<lparr>wr_item = i, wr_assigned_client_id = wi_assigned_client_id i, wr_lease_id = wi_lease_id i\<rparr>"

definition save_work_item :: "work_item \<Rightarrow> (world, work_item) proc" where
  "save_work_item i =
     andthen migrate (\<lambda>_.
     andthen (insert_row w_work_items (\<lambda>rows w. w\<lparr>w_work_items := rows\<rparr>) work_item_key work_item_fk (row_of i)) (\<lambda>_.
     andthen (lift_result (from_work_item i)) (\<lambda>s.
     andthen (upsert_run_task_state s) (\<lambda>_. ret i))))"

definition load_work_item :: "pystr \<Rightarrow> (world, work_item) proc" where
  "load_work_item k =
     andthen migrate (\<lambda>_. andthen (reads w_work_items) (\<lambda>rows.
     lift_result (find_or_key_error k (tbl_find work_item_key k rows) (\<lambda>r. parse_work_item (wr_item r)))))"

text \<open>\<open>UPDATE work_items SET .. WHERE work_item_id = ?\<close>, with the foreign keys checked.\<close>

definition update_work_item_row :: "work_item \<Rightarrow> (world, unit) proc" where
  "update_work_item_row i w =
     (if tbl_find work_item_key (wi_work_item_id i) (w_work_items w) \<noteq> None \<and> \<not> work_item_fk w (row_of i)
      then (Inl fk_failed, w)
      else (Inr (), w\<lparr>w_work_items :=
        tbl_update work_item_key (wi_work_item_id i) (\<lambda>_. row_of i) (w_work_items w)\<rparr>))"

definition store_update_work_item :: "work_item \<Rightarrow> (world, work_item) proc" where
  "store_update_work_item i =
     andthen migrate (\<lambda>_.
     andthen (load_work_item (wi_work_item_id i)) (\<lambda>_.
     andthen (update_work_item_row i) (\<lambda>_.
     andthen (lift_result (from_work_item i)) (\<lambda>s.
     andthen (upsert_run_task_state s) (\<lambda>_. ret i)))))"

text \<open>\<open>ORDER BY priority, created_at, work_item_id\<close>: times are compared as their text.\<close>

definition work_item_order :: "work_item \<Rightarrow> int \<times> pystr \<times> pystr" where
  "work_item_order i = (wi_priority i, isoformat (wi_created_at i), wi_work_item_id i)"

definition list_work_items ::
    "pystr option \<Rightarrow> work_item_status option \<Rightarrow> pystr option \<Rightarrow> (world, work_item list) proc" where
  "list_work_items run_id status assigned_client_id =
     andthen migrate (\<lambda>_. andthen (reads w_work_items) (\<lambda>rows.
     lift_result (parse_all parse_work_item
       (map wr_item (sort_key (\<lambda>r. work_item_order (wr_item r))
         (filter (\<lambda>r. wanted run_id (wi_run_id (wr_item r)) \<and> wanted status (wi_status (wr_item r))
                    \<and> (case assigned_client_id of None \<Rightarrow> True
                       | Some c \<Rightarrow> wr_assigned_client_id r = Some c)) rows))))))"

section \<open>Operator intents\<close>

text \<open>An upsert keeps the \<open>created_at\<close> column of the first record, and \<open>ORDER BY\<close> uses the column.\<close>

definition merge_intent :: "intent_row \<Rightarrow> intent_row \<Rightarrow> intent_row" where
  "merge_intent old new = new\<lparr>ir_created_at := ir_created_at old\<rparr>"

definition intent_key :: "intent_row \<Rightarrow> pystr" where
  "intent_key r = oi_intent_ref (ir_record r)"

definition save_operator_intent_record :: "operator_intent \<Rightarrow> (world, operator_intent) proc" where
  "save_operator_intent_record r =
     andthen migrate (\<lambda>_.
     andthen (upsert_row w_intents (\<lambda>rows w. w\<lparr>w_intents := rows\<rparr>) intent_key merge_intent no_fk
       \<lparr>ir_record = r, ir_created_at = oi_created_at r\<rparr>) (\<lambda>_. ret r))"

definition load_operator_intent_record :: "pystr \<Rightarrow> (world, operator_intent) proc" where
  "load_operator_intent_record k =
     andthen migrate (\<lambda>_. andthen (reads w_intents) (\<lambda>rows.
     lift_result (find_or_key_error k (tbl_find intent_key k rows) (\<lambda>r. parse_operator_intent (ir_record r)))))"

definition list_operator_intent_records :: "(world, operator_intent list) proc" where
  "list_operator_intent_records =
     andthen migrate (\<lambda>_. andthen (reads w_intents) (\<lambda>rows.
     lift_result (parse_all parse_operator_intent
       (map ir_record (sort_key (\<lambda>r. (isoformat (ir_created_at r), intent_key r)) rows)))))"

section \<open>The event ledger\<close>

definition append_control_plane_event :: "control_plane_event \<Rightarrow> (world, control_plane_event) proc" where
  "append_control_plane_event e =
     andthen migrate (\<lambda>_.
     andthen (insert_row w_events (\<lambda>rows w. w\<lparr>w_events := rows\<rparr>) event_id no_fk e) (\<lambda>_. ret e))"

definition event_order :: "control_plane_event \<Rightarrow> int \<times> pystr \<times> pystr" where
  "event_order e = (ev_sequence e, isoformat (ev_created_at e), event_id e)"

definition list_control_plane_events ::
    "pystr option \<Rightarrow> pystr option \<Rightarrow> (world, control_plane_event list) proc" where
  "list_control_plane_events run_id client_id =
     andthen migrate (\<lambda>_. andthen (reads w_events) (\<lambda>rows.
     lift_result (parse_all mk_event
       (sort_key event_order
         (filter (\<lambda>e. (case run_id of None \<Rightarrow> True | Some r \<Rightarrow> ev_run_id e = Some r)
                    \<and> wanted client_id (ev_client_id e)) rows)))))"

definition has_control_plane_events :: "(world, bool) proc" where
  "has_control_plane_events =
     andthen migrate (\<lambda>_. andthen (reads w_events) (\<lambda>rows. ret (rows \<noteq> [])))"

end
