(* ===== verification/Store_Records.thy ===== *)
theory Store_Records
  imports Store
begin

text \<open>
  The other tables of \<open>ServerStore\<close>: run evidence, approvals, dashboard activity, the proof and
  terminal streams, the plugin inventory, and diff proposals with their apply records.
\<close>

section \<open>Run evidence\<close>

definition run_key :: "run_evidence_row \<Rightarrow> pystr" where
  "run_key r = re_run_id (rr_evidence r)"

definition save_run_evidence ::
    "(pystr \<Rightarrow> pystr) \<Rightarrow> run_evidence \<Rightarrow> (world, stored_run_evidence) proc" where
  "save_run_evidence sha256 e =
     andthen migrate (\<lambda>_.
     let digest = run_digest sha256 e in
     andthen (upsert_row w_run_evidence (\<lambda>rows w. w\<lparr>w_run_evidence := rows\<rparr>) run_key take_new no_fk
       \<lparr>rr_evidence = e, rr_evidence_digest = digest\<rparr>) (\<lambda>_.
     ret \<lparr>sr_run_id = re_run_id e, sr_evidence_digest = digest, sr_evidence = e\<rparr>))"

definition read_run_row ::
    "(pystr \<Rightarrow> pystr) \<Rightarrow> pystr \<Rightarrow> run_evidence_row \<Rightarrow> exn + stored_run_evidence" where
  "read_run_row sha256 run_id r =
     (case parse_run_evidence (rr_evidence r) of Inl err \<Rightarrow> Inl err
      | Inr e \<Rightarrow>
          (let digest = run_digest sha256 e in
           if digest \<noteq> rr_evidence_digest r
           then Inl (ValueError ''stored run evidence digest mismatch'')
           else Inr \<lparr>sr_run_id = run_id, sr_evidence_digest = digest, sr_evidence = e\<rparr>))"

definition load_run_evidence ::
    "(pystr \<Rightarrow> pystr) \<Rightarrow> pystr \<Rightarrow> (world, stored_run_evidence) proc" where
  "load_run_evidence sha256 run_id =
     andthen migrate (\<lambda>_. andthen (reads w_run_evidence) (\<lambda>rows.
     lift_result (find_or_key_error run_id (tbl_find run_key run_id rows) (read_run_row sha256 run_id))))"

definition list_run_evidence :: "(pystr \<Rightarrow> pystr) \<Rightarrow> (world, stored_run_evidence list) proc" where
  "list_run_evidence sha256 =
     andthen migrate (\<lambda>_. andthen (reads w_run_evidence) (\<lambda>rows.
     each_proc (load_run_evidence sha256)
       (map run_key (sort_key (\<lambda>r. (re_created_at (rr_evidence r), run_key r)) rows))))"

section \<open>Approvals\<close>

definition save_approval_event :: "approval_event \<Rightarrow> (world, approval_event) proc" where
  "save_approval_event a =
     andthen migrate (\<lambda>_.
     andthen (insert_row w_approvals (\<lambda>rows w. w\<lparr>w_approvals := rows\<rparr>) ap_approval_id
       (\<lambda>w a. has_run w (ap_run_id a)) a) (\<lambda>_. ret a))"

definition list_approval_events :: "pystr option \<Rightarrow> (world, approval_event list) proc" where
  "list_approval_events run_id =
     andthen migrate (\<lambda>_. andthen (reads w_approvals) (\<lambda>rows.
     ret (sort_key (\<lambda>a. (ap_created_at a, ap_approval_id a))
       (filter (\<lambda>a. wanted run_id (ap_run_id a)) rows))))"

section \<open>Dashboard activity and streams\<close>

definition save_dashboard_activity :: "dashboard_activity \<Rightarrow> (world, dashboard_activity) proc" where
  "save_dashboard_activity a =
     andthen migrate (\<lambda>_.
     andthen (upsert_row w_activity (\<lambda>rows w. w\<lparr>w_activity := rows\<rparr>) act_activity_id take_new
       (\<lambda>w a. has_run w (act_run_id a)) a) (\<lambda>_. ret a))"

definition list_dashboard_activity :: "pystr option \<Rightarrow> (world, dashboard_activity list) proc" where
  "list_dashboard_activity run_id =
     andthen migrate (\<lambda>_. andthen (reads w_activity) (\<lambda>rows.
     ret (sort_key (\<lambda>a. (act_created_at a, act_activity_id a))
       (filter (\<lambda>a. wanted run_id (act_run_id a)) rows))))"

definition save_proof_stream_record :: "proof_stream_record \<Rightarrow> (world, proof_stream_record) proc" where
  "save_proof_stream_record r =
     andthen migrate (\<lambda>_.
     andthen (upsert_row w_proof_stream (\<lambda>rows w. w\<lparr>w_proof_stream := rows\<rparr>) pr_record_id take_new no_fk r) (\<lambda>_.
     ret r))"

definition list_proof_stream_records :: "pystr option \<Rightarrow> (world, proof_stream_record list) proc" where
  "list_proof_stream_records run_id =
     andthen migrate (\<lambda>_. andthen (reads w_proof_stream) (\<lambda>rows.
     lift_result (parse_all parse_proof_stream_record
       (sort_key (\<lambda>r. (pr_created_at r, pr_record_id r)) (filter (\<lambda>r. wanted run_id (pr_run_id r)) rows)))))"

definition save_terminal_stream_record :: "terminal_stream_record \<Rightarrow> (world, terminal_stream_record) proc" where
  "save_terminal_stream_record r =
     andthen migrate (\<lambda>_.
     andthen (upsert_row w_terminal_stream (\<lambda>rows w. w\<lparr>w_terminal_stream := rows\<rparr>) tr_record_id take_new no_fk r) (\<lambda>_.
     ret r))"

definition list_terminal_stream_records :: "pystr option \<Rightarrow> (world, terminal_stream_record list) proc" where
  "list_terminal_stream_records run_id =
     andthen migrate (\<lambda>_. andthen (reads w_terminal_stream) (\<lambda>rows.
     lift_result (parse_all parse_terminal_stream_record
       (sort_key (\<lambda>r. (tr_created_at r, tr_record_id r)) (filter (\<lambda>r. wanted run_id (tr_run_id r)) rows)))))"

text \<open>\<open>counts[key] = counts.get(key, 0) + 1\<close> for every key in turn.\<close>

definition bump :: "'k \<Rightarrow> ('k \<times> nat) list \<Rightarrow> ('k \<times> nat) list" where
  "bump k d = dict_set k (case dict_get k d of None \<Rightarrow> 1 | Some n \<Rightarrow> n + 1) d"

definition count_values :: "'k list \<Rightarrow> ('k \<times> nat) list" where
  "count_values ks = fold bump ks []"

record dashboard_snapshot =
  ds_runs :: "(pystr \<times> pystr \<times> pystr) list"
  ds_activity :: "dashboard_activity list"
  ds_event_timeline :: "dashboard_activity list"
  ds_status_counts :: "(pystr \<times> nat) list"
  ds_kind_counts :: "(pystr \<times> nat) list"
  ds_client_counts :: "(pystr \<times> nat) list"

definition run_summary :: "stored_run_evidence \<Rightarrow> pystr \<times> pystr \<times> pystr" where
  "run_summary r = (sr_run_id r, re_final_decision (sr_evidence r), sr_evidence_digest r)"

definition dashboard_snapshot_of :: "(pystr \<Rightarrow> pystr) \<Rightarrow> (world, dashboard_snapshot) proc" where
  "dashboard_snapshot_of sha256 =
     andthen (list_run_evidence sha256) (\<lambda>runs.
     andthen (list_dashboard_activity None) (\<lambda>activities.
     ret \<lparr>ds_runs = map run_summary runs, ds_activity = activities, ds_event_timeline = activities,
          ds_status_counts = count_values (map act_status activities),
          ds_kind_counts = count_values (map act_kind activities),
          ds_client_counts = count_values (map act_client activities)\<rparr>))"

section \<open>Plugin inventory\<close>

definition save_plugin_inventory_record ::
    "plugin_inventory_record \<Rightarrow> (world, plugin_inventory_record) proc" where
  "save_plugin_inventory_record r =
     andthen migrate (\<lambda>_.
     andthen (upsert_row w_plugins (\<lambda>rows w. w\<lparr>w_plugins := rows\<rparr>) pi_plugin_id take_new no_fk r) (\<lambda>_.
     ret r))"

definition load_plugin_inventory_record :: "pystr \<Rightarrow> (world, plugin_inventory_record) proc" where
  "load_plugin_inventory_record k =
     andthen migrate (\<lambda>_. andthen (reads w_plugins) (\<lambda>rows.
     lift_result (find_or_key_error k (tbl_find pi_plugin_id k rows) parse_plugin_inventory_record)))"

definition list_plugin_inventory_records ::
    "pystr option \<Rightarrow> pystr option \<Rightarrow> (world, plugin_inventory_record list) proc" where
  "list_plugin_inventory_records target_client review_state =
     andthen migrate (\<lambda>_. andthen (reads w_plugins) (\<lambda>rows.
     lift_result (parse_all parse_plugin_inventory_record
       (sort_key (\<lambda>r. (target_client_value (pi_target_client r), pi_plugin_id r))
         (filter (\<lambda>r. wanted target_client (target_client_value (pi_target_client r))
                    \<and> wanted review_state (review_state_value (pi_review_state r))) rows)))))"

section \<open>Diff proposals\<close>

text \<open>An upsert keeps \<open>created_at\<close> of the first row and resets the status column to \<open>proposed\<close>.\<close>

definition diff_key :: "diff_row \<Rightarrow> pystr" where
  "diff_key r = dp_proposal_id (dr_proposal r)"

definition merge_diff :: "diff_row \<Rightarrow> diff_row \<Rightarrow> diff_row" where
  "merge_diff old new = new\<lparr>dr_created_at := dr_created_at old\<rparr>"

definition save_diff_proposal :: "diff_proposal \<Rightarrow> (world, diff_proposal) proc" where
  "save_diff_proposal p =
     andthen migrate (\<lambda>_.
     andthen (upsert_row w_diffs (\<lambda>rows w. w\<lparr>w_diffs := rows\<rparr>) diff_key merge_diff no_fk
       \<lparr>dr_proposal = p, dr_status = ''proposed'', dr_created_at = dp_created_at p\<rparr>) (\<lambda>_. ret p))"

definition load_diff_proposal :: "pystr \<Rightarrow> (world, diff_proposal) proc" where
  "load_diff_proposal k =
     andthen migrate (\<lambda>_. andthen (reads w_diffs) (\<lambda>rows.
     lift_result (find_or_key_error k (tbl_find diff_key k rows) (\<lambda>r. parse_diff_proposal (dr_proposal r)))))"

definition list_diff_proposals :: "pystr option \<Rightarrow> pystr option \<Rightarrow> (world, diff_proposal list) proc" where
  "list_diff_proposals run_id task_id =
     andthen migrate (\<lambda>_. andthen (reads w_diffs) (\<lambda>rows.
     lift_result (parse_all parse_diff_proposal
       (map dr_proposal (sort_key (\<lambda>r. (dr_created_at r, diff_key r))
         (filter (\<lambda>r. wanted run_id (dp_run_id (dr_proposal r))
                    \<and> wanted task_id (dp_task_id (dr_proposal r))) rows))))))"

definition update_diff_proposal_status :: "pystr \<Rightarrow> pystr \<Rightarrow> (world, diff_proposal) proc" where
  "update_diff_proposal_status k status =
     andthen (load_diff_proposal k) (\<lambda>p.
     andthen (writes (\<lambda>w. w\<lparr>w_diffs := tbl_update diff_key k (\<lambda>r. r\<lparr>dr_status := status\<rparr>) (w_diffs w)\<rparr>)) (\<lambda>_.
     ret p))"

definition save_diff_apply_record :: "diff_apply_record \<Rightarrow> (world, diff_apply_record) proc" where
  "save_diff_apply_record r =
     andthen migrate (\<lambda>_.
     andthen (insert_row w_applies (\<lambda>rows w. w\<lparr>w_applies := rows\<rparr>) ay_record_id
       (\<lambda>w a. da_proposal_id (ay_record a) \<in> diff_key ` set (w_diffs w))
       \<lparr>ay_record_id = da_proposal_id r @ ''-apply-'' @ da_created_at r, ay_record = r\<rparr>) (\<lambda>_. ret r))"

definition list_diff_apply_records :: "pystr option \<Rightarrow> (world, diff_apply_record list) proc" where
  "list_diff_apply_records proposal_id =
     andthen migrate (\<lambda>_. andthen (reads w_applies) (\<lambda>rows.
     lift_result (parse_all parse_diff_apply_record
       (map ay_record (sort_key (\<lambda>a. (da_created_at (ay_record a), ay_record_id a))
         (filter (\<lambda>a. wanted proposal_id (da_proposal_id (ay_record a))) rows))))))"

section \<open>Round trips and counts\<close>

lemma get_bump: "dict_get k' (bump k d) = (if k' = k then Some (case dict_get k d of None \<Rightarrow> 1 | Some n \<Rightarrow> n + 1) else dict_get k' d)"
  by (simp add: bump_def dict_get_set)

lemma dict_get_Nil [simp]: "dict_get k [] = None"
  by (simp add: dict_get_def)

lemma get_fold_bump:
  "dict_get k (fold bump ks d) =
   (if k \<in> set ks then Some (count_list ks k + (case dict_get k d of None \<Rightarrow> 0 | Some n \<Rightarrow> n)) else dict_get k d)"
proof (induction ks arbitrary: d)
  case (Cons a ks)
  show ?case by (auto simp: Cons.IH get_bump count_list_0_iff split: option.splits)
qed simp

lemma get_count_values:
  "dict_get k (count_values ks) = (if k \<in> set ks then Some (count_list ks k) else None)"
  by (simp add: count_values_def get_fold_bump)

lemma keys_count_values: "fst ` set (count_values ks) = set ks"
proof -
  have "fst ` set (fold bump ks d) = fst ` set d \<union> set ks" for d :: "('a \<times> nat) list"
    by (induction ks arbitrary: d) (auto simp: bump_def keys_dict_set)
  then show ?thesis by (simp add: count_values_def)
qed

lemma distinct_count_values: "distinct (map fst (count_values ks))"
proof -
  have "distinct (map fst d) \<Longrightarrow> distinct (map fst (fold bump ks d))" for d :: "('a \<times> nat) list"
    by (induction ks arbitrary: d) (auto simp: bump_def distinct_dict_set)
  then show ?thesis by (simp add: count_values_def)
qed

end
