(* ===== verification/Approvals.thy ===== *)
theory Approvals
  imports Store_Records
begin

text \<open>
  Release approvals (\<open>vad/server/api/approvals.py\<close>) and diff proposals
  (\<open>vad/server/api/diff_proposals.py\<close>, creation, listing and reading).
\<close>

definition authorized_approval_roles :: "pystr list" where
  "authorized_approval_roles = [''release_guardian'']"

record approval_request =
  ar_run_id :: pystr
  ar_actor :: pystr
  ar_actor_role :: pystr
  ar_action :: pystr
  ar_reason :: "pystr option"

record approval_result =
  al_status_code :: int
  al_event :: approval_event

definition approval_decision :: "approval_request \<Rightarrow> pystr \<Rightarrow> policy_decision" where
  "approval_decision r builder =
     (let ds = (if ar_actor_role r \<notin> set authorized_approval_roles
                then [''approval actor role is not authorized''] else [])
               @ (if ar_actor r = builder then [''builder may not approve own run''] else [])
               @ (if ar_action r \<noteq> ''approve_release'' then [''unsupported approval action''] else [])
      in if ds \<noteq> [] then denied ds True else allowed ''approval policy satisfied'')"

definition utc_text :: "(world, pystr) proc" where
  "utc_text = andthen utcnow (\<lambda>t. ret (isoformat t))"

definition record_approval ::
    "(pystr \<Rightarrow> pystr) \<Rightarrow> approval_request \<Rightarrow> (world, approval_result) proc" where
  "record_approval sha256 r =
     andthen (load_run_evidence sha256 (ar_run_id r)) (\<lambda>run.
     let decision = approval_decision r (re_builder (sr_evidence run)) in
     andthen uuid4_hex (\<lambda>u.
     andthen utc_text (\<lambda>created.
     let event = \<lparr>ap_approval_id = ''approval-'' @ u, ap_run_id = ar_run_id r, ap_actor = ar_actor r,
                  ap_action = ar_action r, ap_created_at = created, ap_decision = decision,
                  ap_evidence_digest = Some (sr_evidence_digest run)\<rparr> in
     andthen (save_approval_event event) (\<lambda>_.
     ret \<lparr>al_status_code = (if allow decision then 201 else 403), al_event = event\<rparr>))))"

section \<open>Diff proposals\<close>

text \<open>The request body: a missing required key raises \<open>KeyError\<close>.\<close>

record diff_body =
  bd_run_id :: "pystr option"
  bd_task_id :: "pystr option"
  bd_submitted_by :: "pystr option"
  bd_actor :: "pystr option"
  bd_role :: "pystr option"
  bd_patch_text :: "pystr option"
  bd_changed_files :: "pystr list option"
  bd_summary :: "pystr option"

record diff_create_result =
  dc_status_code :: int
  dc_proposal :: "diff_proposal option"
  dc_decision :: policy_decision

definition required_key :: "pystr \<Rightarrow> 'a option \<Rightarrow> exn + 'a" where
  "required_key k v = (case v of None \<Rightarrow> Inl (KeyError k) | Some x \<Rightarrow> Inr x)"

fun bad_request :: "exn \<Rightarrow> bool" where
  "bad_request (KeyError _) = True"
| "bad_request e = is_value_error e"

text \<open>The \<open>try\<close> body: the keys are read in argument order before the proposal is built.\<close>

definition proposal_of_body ::
    "(pystr \<Rightarrow> pystr) \<Rightarrow> diff_body \<Rightarrow> (world, diff_proposal) proc" where
  "proposal_of_body sha256 b =
     andthen (lift_result (required_key ''run_id'' (bd_run_id b))) (\<lambda>run_id.
     andthen (lift_result (required_key ''task_id'' (bd_task_id b))) (\<lambda>task_id.
     let submitted_by = (case bd_submitted_by b of Some s \<Rightarrow> s
                         | None \<Rightarrow> (case bd_actor b of Some a \<Rightarrow> a | None \<Rightarrow> ''builder''));
         role = (case bd_role b of Some r \<Rightarrow> r | None \<Rightarrow> ''builder'') in
     andthen (lift_result (required_key ''patch_text'' (bd_patch_text b))) (\<lambda>patch.
     andthen (lift_result (required_key ''changed_files'' (bd_changed_files b))) (\<lambda>files.
     andthen (lift_result (required_key ''summary'' (bd_summary b))) (\<lambda>summary.
     andthen uuid4_hex (\<lambda>u. andthen utc_text (\<lambda>created.
     lift_result (create_diff_proposal sha256 u created run_id task_id submitted_by role patch files summary))))))))"

definition create_proposal ::
    "(pystr \<Rightarrow> pystr) \<Rightarrow> diff_body \<Rightarrow> (world, diff_create_result) proc" where
  "create_proposal sha256 b w =
     (case proposal_of_body sha256 b w of
        (Inl e, w') \<Rightarrow>
          if bad_request e
          then (Inr \<lparr>dc_status_code = 400, dc_proposal = None, dc_decision = denied [exn_text e] True\<rparr>, w')
          else (Inl e, w')
      | (Inr p, w') \<Rightarrow>
          andthen (save_diff_proposal p) (\<lambda>saved.
          ret \<lparr>dc_status_code = 201, dc_proposal = Some saved,
               dc_decision = allowed ''diff proposal persisted''\<rparr>) w')"

definition list_proposals :: "pystr option \<Rightarrow> pystr option \<Rightarrow> (world, diff_proposal list) proc" where
  "list_proposals run_id task_id = list_diff_proposals run_id task_id"

definition read_proposal :: "pystr \<Rightarrow> (world, diff_proposal) proc" where
  "read_proposal k = load_diff_proposal k"

lemma approval_allow_iff:
  "allow (approval_decision r b) \<longleftrightarrow>
   ar_actor_role r = ''release_guardian'' \<and> ar_actor r \<noteq> b \<and> ar_action r = ''approve_release''"
  by (auto simp: approval_decision_def authorized_approval_roles_def Let_def)

end
