(* ===== verification/Store_Effects.thy ===== *)
theory Store_Effects
  imports Store
begin

text \<open>
  What a relation between database states has to satisfy, statement by statement, so that
  every operation of the store and of the services respects it. \<open>event_effects\<close> extends
  \<open>effect_order\<close> by the laws of the statements every service uses, \<open>store_effects\<close> by those
  that write clients, leases and intents; their lemmas cover the store's methods, and the
  theories of the services add theirs in the same contexts. An invariant, a frame condition
  or an append-only table is then proved by checking the statements once.
\<close>

definition insert_manifest :: "client_manifest \<Rightarrow> datetime \<Rightarrow> (world, unit) proc" where
  "insert_manifest m t =
     insert_row w_manifests (\<lambda>rows w. w\<lparr>w_manifests := rows\<rparr>) manifest_key no_fk
       \<lparr>mr_manifest = m, mr_registered_at = t\<rparr>"

definition write_lease :: "task_lease \<Rightarrow> (world, unit) proc" where
  "write_lease l =
     upsert_row w_leases (\<lambda>rows w. w\<lparr>w_leases := rows\<rparr>) lease_task_id take_new
       (\<lambda>w l. has_manifest w (lease_client_id l)) l"

definition write_heartbeat :: "(heartbeat_row \<Rightarrow> heartbeat_row \<Rightarrow> heartbeat_row) \<Rightarrow> heartbeat_row \<Rightarrow> (world, unit) proc" where
  "write_heartbeat merge r =
     upsert_row w_heartbeats (\<lambda>rows w. w\<lparr>w_heartbeats := rows\<rparr>) hr_client_id merge
       (\<lambda>w r. has_manifest w (hr_client_id r)) r"

definition write_intent :: "operator_intent \<Rightarrow> (world, unit) proc" where
  "write_intent r =
     upsert_row w_intents (\<lambda>rows w. w\<lparr>w_intents := rows\<rparr>) intent_key merge_intent no_fk
       \<lparr>ir_record = r, ir_created_at = oi_created_at r\<rparr>"

definition insert_event :: "control_plane_event \<Rightarrow> (world, unit) proc" where
  "insert_event e = insert_row w_events (\<lambda>rows w. w\<lparr>w_events := rows\<rparr>) event_id no_fk e"

text \<open>Operations that read the database and append events.\<close>

locale event_effects = effect_order R for R :: "world \<Rightarrow> world \<Rightarrow> bool" +
  assumes eff_migrate: "obeys R migrate"
    and eff_utcnow: "obeys R utcnow"
    and eff_uuid: "obeys R uuid4_hex"
    and eff_event: "valid_event e \<Longrightarrow> obeys R (insert_event e)"
begin

lemmas reads_effects = effect_intros eff_migrate eff_utcnow eff_uuid

lemma list_client_manifests: "obeys R list_client_manifests"
  unfolding list_client_manifests_def by (intro reads_effects)

lemma load_client_manifest: "obeys R (load_client_manifest k)"
  unfolding load_client_manifest_def by (intro reads_effects)

lemma load_task_lease: "obeys R (load_task_lease k)"
  unfolding load_task_lease_def by (intro reads_effects)

lemma list_task_leases: "obeys R (list_task_leases c s)"
  unfolding list_task_leases_def by (intro reads_effects)

lemma list_client_statuses: "obeys R list_client_statuses"
  unfolding list_client_statuses_def by (intro reads_effects)

lemma load_run_task_state: "obeys R (load_run_task_state r t)"
  unfolding load_run_task_state_def by (intro reads_effects)

lemma list_run_task_states: "obeys R (list_run_task_states r)"
  unfolding list_run_task_states_def by (intro reads_effects)

lemma load_work_item: "obeys R (load_work_item k)"
  unfolding load_work_item_def by (intro reads_effects)

lemma list_work_items: "obeys R (list_work_items r s c)"
  unfolding list_work_items_def by (intro reads_effects)

lemma load_operator_intent_record: "obeys R (load_operator_intent_record k)"
  unfolding load_operator_intent_record_def by (intro reads_effects)

lemma list_operator_intent_records: "obeys R list_operator_intent_records"
  unfolding list_operator_intent_records_def by (intro reads_effects)

lemma append_control_plane_event: "valid_event e \<Longrightarrow> obeys R (append_control_plane_event e)"
  unfolding append_control_plane_event_def insert_event_def [symmetric]
  by (intro reads_effects eff_event)

lemma list_control_plane_events: "obeys R (list_control_plane_events r c)"
  unfolding list_control_plane_events_def by (intro reads_effects)

lemma has_control_plane_events: "obeys R has_control_plane_events"
  unfolding has_control_plane_events_def by (intro reads_effects)

lemmas store_reads =
  load_client_manifest list_client_manifests load_task_lease list_task_leases list_client_statuses
  load_run_task_state list_run_task_states load_work_item list_work_items
  load_operator_intent_record list_operator_intent_records list_control_plane_events
  has_control_plane_events

end

text \<open>Operations that also write clients, heartbeats, leases and operator intents.\<close>

locale store_effects = event_effects +
  assumes eff_manifest: "parse_client_manifest m = Inr m \<Longrightarrow> obeys R (insert_manifest m t)"
    and eff_delete: "obeys R (writes (delete_client k))"
    and eff_lease: "obeys R (write_lease l)"
    and eff_heartbeat: "merge \<in> {merge_heartbeat, merge_stale} \<Longrightarrow> obeys R (write_heartbeat merge r)"
    and eff_intent: "obeys R (write_intent i)"
begin

lemma register_client_manifest:
  "parse_client_manifest m = Inr m \<Longrightarrow> obeys R (register_client_manifest m)"
  unfolding register_client_manifest_def insert_manifest_def [symmetric]
  by (intro reads_effects eff_manifest)

lemma unregister_client_manifest: "obeys R (unregister_client_manifest k)"
  unfolding unregister_client_manifest_def
  by (intro reads_effects load_client_manifest eff_delete)

lemma save_task_lease: "obeys R (save_task_lease l)"
  unfolding save_task_lease_def write_lease_def [symmetric]
  by (intro reads_effects load_client_manifest eff_lease)

lemma expire_task_leases_for_client: "obeys R (expire_task_leases_for_client c)"
  unfolding expire_task_leases_for_client_def
  by (intro reads_effects list_task_leases save_task_lease)

lemma record_client_heartbeat: "obeys R (record_client_heartbeat h)"
  unfolding record_client_heartbeat_def write_heartbeat_def [symmetric]
  by (intro reads_effects load_client_manifest eff_heartbeat) simp

lemma mark_client_stale: "obeys R (mark_client_stale c ls)"
  unfolding mark_client_stale_def write_heartbeat_def [symmetric]
  by (intro reads_effects load_client_manifest expire_task_leases_for_client eff_heartbeat) simp

lemma save_operator_intent_record: "obeys R (save_operator_intent_record r)"
  unfolding save_operator_intent_record_def write_intent_def [symmetric]
  by (intro reads_effects eff_intent)

end

end
