(* ===== verification/Event_Service.thy ===== *)
theory Event_Service
  imports Store_Effects
begin

text \<open>
  Building and appending ledger events, and the ingestion policy
  (\<open>vad/server/api/events.py\<close>). Every service numbers its events with
  \<open>len(store.list_control_plane_events()) + 1\<close>; \<open>record_event\<close> is that sequence of calls,
  with the two default factories of \<open>ControlPlaneEvent\<close>.
\<close>

definition event_id_of :: "pystr \<Rightarrow> pystr" where
  "event_id_of uuid = ''control-plane-event-'' @ uuid"

definition build_event :: "(pystr \<Rightarrow> datetime \<Rightarrow> control_plane_event) \<Rightarrow> (world, control_plane_event) proc" where
  "build_event f =
     andthen uuid4_hex (\<lambda>u. andthen utcnow (\<lambda>t. lift_result (mk_event (f (event_id_of u) t))))"

definition record_event ::
    "(int \<Rightarrow> pystr \<Rightarrow> datetime \<Rightarrow> control_plane_event) \<Rightarrow> (world, control_plane_event) proc" where
  "record_event f =
     andthen (list_control_plane_events None None) (\<lambda>es.
     andthen (build_event (f (int (length es) + 1))) append_control_plane_event)"

section \<open>Ingestion\<close>

text \<open>\<open>PRIVILEGED_EVENT_ROLES.get(kind)\<close>, each set in sorted order.\<close>

fun privileged_event_roles :: "event_kind \<Rightarrow> pystr list option" where
  "privileged_event_roles File_Change_Applied = Some [''builder'', ''release_guardian'']"
| "privileged_event_roles Approval_Recorded = Some [''release_guardian'']"
| "privileged_event_roles Signer_Event = Some [''release_guardian'']"
| "privileged_event_roles Deployment_Event = Some [''release_guardian'']"
| "privileged_event_roles Recovery_Action = Some [''operator'', ''release_guardian'']"
| "privileged_event_roles _ = None"

definition event_policy_decision :: "control_plane_event \<Rightarrow> policy_decision" where
  "event_policy_decision e =
     (case privileged_event_roles (ev_kind e) of
        None \<Rightarrow> allowed ''event ingestion policy satisfied''
      | Some roles \<Rightarrow>
          if ev_role e \<in> set roles
          then allowed (event_kind_value (ev_kind e) @ '' role policy satisfied'')
          else denied [event_kind_value (ev_kind e) @ '' requires one of: '' @ py_join '', '' roles] True)"

record ingestion_result =
  in_status_code :: int
  in_event :: control_plane_event
  in_decision :: policy_decision

definition denial_event :: "control_plane_event \<Rightarrow> policy_decision \<Rightarrow> pystr \<Rightarrow> datetime \<Rightarrow> control_plane_event" where
  "denial_event e decision eid t =
     \<lparr>event_id = eid, ev_sequence = ev_sequence e, ev_created_at = t, ev_client_id = ev_client_id e,
      ev_client_label = None, ev_run_id = ev_run_id e, ev_task_id = ev_task_id e,
      ev_kind = Policy_Denied, ev_status = Ev_Blocked, ev_actor = ev_actor e, ev_role = ev_role e,
      ev_evidence_digest = ev_evidence_digest e,
      ev_summary = ''Policy denied '' @ event_kind_value (ev_kind e) @ '': '' @ py_join ''; '' (denials decision)\<rparr>"

text \<open>
  \<open>ingest\<close>, from the event its payload describes: \<open>ControlPlaneEvent(**payload)\<close> validates
  the fields. A payload without \<open>event_id\<close> or \<open>created_at\<close> takes fresh values.
\<close>

record event_payload =
  py_event_id :: "pystr option"
  py_created_at :: "datetime option"
  py_fields :: control_plane_event

definition payload_event :: "event_payload \<Rightarrow> (world, control_plane_event) proc" where
  "payload_event p =
     andthen (case py_event_id p of Some i \<Rightarrow> ret i | None \<Rightarrow> andthen uuid4_hex (\<lambda>u. ret (event_id_of u))) (\<lambda>i.
     andthen (case py_created_at p of Some t \<Rightarrow> ret t | None \<Rightarrow> utcnow) (\<lambda>t.
     lift_result (mk_event ((py_fields p)\<lparr>event_id := i, ev_created_at := t\<rparr>))))"

definition ingest_event :: "control_plane_event \<Rightarrow> (world, ingestion_result) proc" where
  "ingest_event e =
     (let decision = event_policy_decision e in
      if allow decision
      then andthen (append_control_plane_event e) (\<lambda>e'.
           ret \<lparr>in_status_code = 201, in_event = e', in_decision = decision\<rparr>)
      else andthen (build_event (denial_event e decision)) (\<lambda>d.
           andthen (append_control_plane_event d) (\<lambda>d'.
           ret \<lparr>in_status_code = 403, in_event = d', in_decision = decision\<rparr>)))"

definition ingest :: "event_payload \<Rightarrow> (world, ingestion_result) proc" where
  "ingest p = andthen (payload_event p) ingest_event"

section \<open>Effects\<close>

lemma build_event_valid: "build_event f w = (Inr e, w') \<Longrightarrow> valid_event e"
  by (auto simp: build_event_def)

lemma payload_event_valid: "payload_event p w = (Inr e, w') \<Longrightarrow> valid_event e"
  by (auto simp: payload_event_def elim!: andthen_InrE)


context event_effects
begin

lemma build_event: "obeys R (build_event f)"
  unfolding build_event_def by (intro reads_effects)

lemma build_then:
  "(\<And>e. valid_event e \<Longrightarrow> obeys R (k e)) \<Longrightarrow> obeys R (andthen (build_event f) k)"
  by (rule andthen_when [OF build_event]) (auto dest: build_event_valid)

lemma record_event: "obeys R (record_event f)"
  unfolding record_event_def
  by (intro reads_effects list_control_plane_events build_then append_control_plane_event)

lemma payload_event: "obeys R (payload_event p)"
  unfolding payload_event_def by (intro reads_effects)

lemma ingest_event: "valid_event e \<Longrightarrow> obeys R (ingest_event e)"
  unfolding ingest_event_def
  by (intro let_proc reads_effects build_then append_control_plane_event)

lemma ingest: "obeys R (ingest p)"
  unfolding ingest_def
  by (rule andthen_when [OF payload_event]) (auto intro: ingest_event dest: payload_event_valid)

end

end
