(* ===== verification/Projection.thy ===== *)
theory Projection
  imports Store_Records Event_Service
begin

text \<open>
  The dashboard projection of the event ledger (\<open>vad/control_plane/projection.py\<close>) and the two
  store methods that serve it. The dicts the source builds are association lists in insertion
  order; the result sorts them by key.
\<close>

record activity_entry =
  ae_event_id :: pystr
  ae_run_id :: "pystr option"
  ae_task_id :: "pystr option"
  ae_kind :: pystr
  ae_status :: pystr
  ae_client :: pystr
  ae_client_id :: pystr
  ae_actor :: pystr
  ae_role :: pystr
  ae_summary :: pystr
  ae_created_at :: pystr
  ae_evidence_digest :: "pystr option"

record task_entry =
  tk_task_id :: pystr
  tk_run_id :: "pystr option"
  tk_client :: pystr
  tk_client_id :: pystr
  tk_actor :: pystr
  tk_role :: pystr
  tk_status :: pystr
  tk_kind :: pystr
  tk_summary :: pystr
  tk_updated_at :: pystr
  tk_event_id :: pystr

record plugin_entry =
  pg_client_id :: pystr
  pg_connection_id :: pystr
  pg_status :: pystr
  pg_last_seen_at :: pystr
  pg_last_event_id :: pystr
  pg_role :: pystr
  pg_actor :: pystr

record projection_state =
  pj_status_counts :: "(pystr \<times> nat) list"
  pj_client_counts :: "(pystr \<times> nat) list"
  pj_kind_counts :: "(pystr \<times> nat) list"
  pj_task_board :: "(pystr \<times> task_entry) list"
  pj_plugins :: "(pystr \<times> plugin_entry) list"
  pj_last_seen :: "(pystr \<times> int) list"
  pj_explicit_status :: "(pystr \<times> pystr) list"
  pj_activity :: "activity_entry list"

record dashboard_projection =
  db_activity :: "activity_entry list"
  db_event_timeline :: "activity_entry list"
  db_status_counts :: "(pystr \<times> nat) list"
  db_client_counts :: "(pystr \<times> nat) list"
  db_kind_counts :: "(pystr \<times> nat) list"
  db_task_board :: "task_entry list"
  db_plugin_status :: "plugin_entry list"
  db_stale_clients :: "pystr list"

definition event_client :: "control_plane_event \<Rightarrow> pystr" where
  "event_client e =
     (case ev_client_label e of None \<Rightarrow> ev_client_id e | Some l \<Rightarrow> if l = [] then ev_client_id e else l)"

definition client_status :: "int \<Rightarrow> int \<Rightarrow> int \<Rightarrow> pystr" where
  "client_status seen_at now stale_after_seconds =
     (if now - seen_at > stale_after_seconds * usec then ''stale'' else ''active'')"

definition activity_of :: "control_plane_event \<Rightarrow> activity_entry" where
  "activity_of e =
     \<lparr>ae_event_id = event_id e, ae_run_id = ev_run_id e, ae_task_id = ev_task_id e,
      ae_kind = event_kind_value (ev_kind e), ae_status = event_status_value (ev_status e),
      ae_client = event_client e, ae_client_id = ev_client_id e, ae_actor = ev_actor e,
      ae_role = ev_role e, ae_summary = ev_summary e,
      ae_created_at = isoformat (normalize_time (ev_created_at e)),
      ae_evidence_digest = ev_evidence_digest e\<rparr>"

definition task_of :: "pystr \<Rightarrow> control_plane_event \<Rightarrow> task_entry" where
  "task_of t e =
     \<lparr>tk_task_id = t, tk_run_id = ev_run_id e, tk_client = event_client e, tk_client_id = ev_client_id e,
      tk_actor = ev_actor e, tk_role = ev_role e, tk_status = event_status_value (ev_status e),
      tk_kind = event_kind_value (ev_kind e), tk_summary = ev_summary e,
      tk_updated_at = isoformat (normalize_time (ev_created_at e)), tk_event_id = event_id e\<rparr>"

definition plugin_of :: "pystr \<Rightarrow> control_plane_event \<Rightarrow> plugin_entry" where
  "plugin_of status e =
     \<lparr>pg_client_id = event_client e, pg_connection_id = ev_client_id e, pg_status = status,
      pg_last_seen_at = isoformat (normalize_time (ev_created_at e)), pg_last_event_id = event_id e,
      pg_role = ev_role e, pg_actor = ev_actor e\<rparr>"

text \<open>One turn of the loop over the ordered events.\<close>

definition project_event :: "int \<Rightarrow> int \<Rightarrow> control_plane_event \<Rightarrow> projection_state \<Rightarrow> projection_state" where
  "project_event now limit e s =
     (let status = event_status_value (ev_status e);
          client = event_client e;
          created_at = instant (ev_created_at e);
          explicit = (if status \<in> {''stale'', ''disconnected''} then dict_set client status (pj_explicit_status s)
                      else pj_explicit_status s)
      in \<lparr>pj_status_counts = bump status (pj_status_counts s),
          pj_client_counts = bump client (pj_client_counts s),
          pj_kind_counts = bump (event_kind_value (ev_kind e)) (pj_kind_counts s),
          pj_task_board =
            (case ev_task_id e of None \<Rightarrow> pj_task_board s
             | Some t \<Rightarrow> if t = [] then pj_task_board s else dict_set t (task_of t e) (pj_task_board s)),
          pj_plugins =
            (if ev_kind e \<in> {Heartbeat, Message}
             then dict_set client
               (plugin_of (case dict_get client explicit of Some st \<Rightarrow> st
                           | None \<Rightarrow> client_status created_at now limit) e) (pj_plugins s)
             else pj_plugins s),
          pj_last_seen =
            dict_set client (max (case dict_get client (pj_last_seen s) of None \<Rightarrow> created_at | Some t \<Rightarrow> t)
              created_at) (pj_last_seen s),
          pj_explicit_status = explicit,
          pj_activity = pj_activity s @ [activity_of e]\<rparr>)"

definition empty_projection :: projection_state where
  "empty_projection =
     \<lparr>pj_status_counts = [], pj_client_counts = [], pj_kind_counts = [], pj_task_board = [],
      pj_plugins = [], pj_last_seen = [], pj_explicit_status = [], pj_activity = []\<rparr>"

definition projection_order :: "control_plane_event \<Rightarrow> int \<times> int \<times> pystr" where
  "projection_order e = (ev_sequence e, instant (ev_created_at e), event_id e)"

definition stale_clients_of :: "int \<Rightarrow> int \<Rightarrow> projection_state \<Rightarrow> pystr list" where
  "stale_clients_of now limit s =
     map fst (filter (\<lambda>(client, seen_at). dict_get client (pj_explicit_status s) = Some ''stale''
                        \<or> client_status seen_at now limit = ''stale'') (sort_key fst (pj_last_seen s)))"

definition mark_stale_plugins :: "pystr list \<Rightarrow> (pystr \<times> plugin_entry) list \<Rightarrow> (pystr \<times> plugin_entry) list" where
  "mark_stale_plugins stale plugins =
     map (\<lambda>(client, p). (client, if client \<in> set stale then p\<lparr>pg_status := ''stale''\<rparr> else p)) plugins"

definition build_dashboard_projection ::
    "control_plane_event list \<Rightarrow> datetime \<Rightarrow> int \<Rightarrow> dashboard_projection" where
  "build_dashboard_projection events now stale_after_seconds =
     (let s = fold (project_event (instant now) stale_after_seconds)
                (sort_key projection_order events) empty_projection;
          stale = stale_clients_of (instant now) stale_after_seconds s;
          plugins = mark_stale_plugins stale (pj_plugins s)
      in \<lparr>db_activity = pj_activity s, db_event_timeline = pj_activity s,
          db_status_counts = sort_key fst (pj_status_counts s),
          db_client_counts = sort_key fst (pj_client_counts s),
          db_kind_counts = sort_key fst (pj_kind_counts s),
          db_task_board = map snd (sort_key fst (pj_task_board s)),
          db_plugin_status = map snd (sort_key fst plugins),
          db_stale_clients = stale\<rparr>)"

section \<open>The snapshots the store serves\<close>

record control_plane_snapshot =
  cs_projection :: dashboard_projection
  cs_runs :: "(pystr \<times> pystr \<times> pystr) list"
  cs_replay_run_id :: "pystr option"
  cs_event_count :: nat

definition control_plane_dashboard_snapshot ::
    "(pystr \<Rightarrow> pystr) \<Rightarrow> pystr option \<Rightarrow> datetime option \<Rightarrow> (world, control_plane_snapshot) proc" where
  "control_plane_dashboard_snapshot sha256 run_id now =
     andthen (list_control_plane_events run_id None) (\<lambda>events.
     andthen (case now of Some t \<Rightarrow> ret t | None \<Rightarrow> utcnow) (\<lambda>reference.
     andthen (list_run_evidence sha256) (\<lambda>runs.
     ret \<lparr>cs_projection = build_dashboard_projection events reference 120,
          cs_runs = map run_summary (filter (\<lambda>r. wanted run_id (sr_run_id r)) runs),
          cs_replay_run_id = run_id, cs_event_count = length events\<rparr>)))"

definition replay_dashboard_snapshot ::
    "(pystr \<Rightarrow> pystr) \<Rightarrow> pystr option \<Rightarrow> datetime option \<Rightarrow> (world, control_plane_snapshot) proc" where
  "replay_dashboard_snapshot sha256 run_id now = control_plane_dashboard_snapshot sha256 run_id now"

section \<open>What the fold computes\<close>

lemma project_counts:
  "pj_status_counts (project_event now l e s) = bump (event_status_value (ev_status e)) (pj_status_counts s)"
  "pj_client_counts (project_event now l e s) = bump (event_client e) (pj_client_counts s)"
  "pj_kind_counts (project_event now l e s) = bump (event_kind_value (ev_kind e)) (pj_kind_counts s)"
  "pj_activity (project_event now l e s) = pj_activity s @ [activity_of e]"
  by (simp_all add: project_event_def Let_def)

lemma project_task_board:
  "pj_task_board (project_event now l e s) =
     (case ev_task_id e of None \<Rightarrow> pj_task_board s
      | Some t \<Rightarrow> if t = [] then pj_task_board s else dict_set t (task_of t e) (pj_task_board s))"
  by (simp add: project_event_def Let_def)

lemma project_last_seen:
  "pj_last_seen (project_event now l e s) =
     dict_set (event_client e)
       (max (case dict_get (event_client e) (pj_last_seen s) of None \<Rightarrow> instant (ev_created_at e) | Some t \<Rightarrow> t)
         (instant (ev_created_at e))) (pj_last_seen s)"
  by (simp add: project_event_def Let_def)

lemma project_explicit:
  "pj_explicit_status (project_event now l e s) =
     (if ev_status e = Ev_Stale then dict_set (event_client e) ''stale'' (pj_explicit_status s)
      else pj_explicit_status s)"
  by (cases "ev_status e") (simp_all add: project_event_def Let_def)

lemma fold_status_counts:
  "pj_status_counts (fold (project_event now l) es s) =
     fold bump (map (\<lambda>e. event_status_value (ev_status e)) es) (pj_status_counts s)"
  by (induction es arbitrary: s) (simp_all add: project_counts)

lemma fold_client_counts:
  "pj_client_counts (fold (project_event now l) es s) = fold bump (map event_client es) (pj_client_counts s)"
  by (induction es arbitrary: s) (simp_all add: project_counts)

lemma fold_kind_counts:
  "pj_kind_counts (fold (project_event now l) es s) =
     fold bump (map (\<lambda>e. event_kind_value (ev_kind e)) es) (pj_kind_counts s)"
  by (induction es arbitrary: s) (simp_all add: project_counts)

lemma fold_activity:
  "pj_activity (fold (project_event now l) es s) = pj_activity s @ map activity_of es"
  by (induction es arbitrary: s) (simp_all add: project_counts)

definition events_of_task :: "pystr \<Rightarrow> control_plane_event list \<Rightarrow> control_plane_event list" where
  "events_of_task t es = filter (\<lambda>e. ev_task_id e = Some t) es"

lemma fold_task_board:
  assumes "t \<noteq> []"
  shows "dict_get t (pj_task_board (fold (project_event now l) es s)) =
    (if events_of_task t es = [] then dict_get t (pj_task_board s)
     else Some (task_of t (last (events_of_task t es))))"
  using assms
proof (induction es arbitrary: s)
  case (Cons e es)
  then show ?case
    by (auto simp: events_of_task_def project_task_board dict_get_set split: option.splits)
qed (simp add: events_of_task_def)

lemma board_no_empty_key:
  "dict_get [] (pj_task_board (fold (project_event now l) es s)) = dict_get [] (pj_task_board s)"
  by (induction es arbitrary: s)
    (auto simp: project_task_board dict_get_set split: option.splits)

lemma Max_insert_max:
  "finite S \<Longrightarrow> Max (insert (max a b) S) = Max (insert a (insert (b::int) S))"
  by (cases "S = {}") (simp_all add: max.assoc)

lemma fold_last_seen:
  "dict_get c (pj_last_seen (fold (project_event now l) es s)) =
    (let ts = map (\<lambda>e. instant (ev_created_at e)) (filter (\<lambda>e. event_client e = c) es) in
     case dict_get c (pj_last_seen s) of
       None \<Rightarrow> if ts = [] then None else Some (Max (set ts))
     | Some t \<Rightarrow> Some (Max (insert t (set ts))))"
proof (induction es arbitrary: s)
  case Nil
  then show ?case by (simp split: option.splits)
next
  case (Cons e es)
  show ?case
    by (auto simp del: Max_insert simp: Cons.IH project_last_seen Let_def dict_get_set Max_insert_max split: option.splits)
qed

lemma fold_explicit:
  "dict_get c (pj_explicit_status (fold (project_event now l) es s)) =
    (if \<exists>e \<in> set es. event_client e = c \<and> ev_status e = Ev_Stale then Some ''stale''
     else dict_get c (pj_explicit_status s))"
proof (induction es arbitrary: s)
  case (Cons e es)
  show ?case by (auto simp: Cons.IH project_explicit dict_get_set)
qed simp

end
