(* ===== verification/Lifecycle.thy ===== *)
theory Lifecycle
  imports Py_Time Cp_Events
begin

text \<open>
  The control plane's own life cycle and its lock file (\<open>vad/control_plane/lifecycle.py\<close>). An
  event's id and time come from the two default factories and are arguments here; the lock
  file is \<open>None\<close> when it does not exist.
\<close>

datatype control_plane_state = Starting | Ready | Draining | Stopped | Lc_Failed

fun control_plane_state_value :: "control_plane_state \<Rightarrow> pystr" where
  "control_plane_state_value Starting = ''starting''"
| "control_plane_state_value Ready = ''ready''"
| "control_plane_state_value Draining = ''draining''"
| "control_plane_state_value Stopped = ''stopped''"
| "control_plane_state_value Lc_Failed = ''failed''"

text \<open>\<open>ALLOWED_TRANSITIONS\<close>.\<close>

fun lifecycle_transitions :: "control_plane_state \<Rightarrow> control_plane_state list" where
  "lifecycle_transitions Starting = [Ready, Lc_Failed, Stopped]"
| "lifecycle_transitions Ready = [Draining, Lc_Failed]"
| "lifecycle_transitions Draining = [Stopped, Lc_Failed]"
| "lifecycle_transitions Stopped = []"
| "lifecycle_transitions Lc_Failed = []"

record lifecycle_event =
  le_event_id :: pystr
  le_from_state :: "control_plane_state option"
  le_to_state :: control_plane_state
  le_reason :: pystr
  le_actor :: pystr
  le_created_at :: datetime

definition valid_lifecycle_event :: "lifecycle_event \<Rightarrow> bool" where
  "valid_lifecycle_event e = (py_strip (le_reason e) \<noteq> [] \<and> py_strip (le_actor e) \<noteq> [])"

definition mk_lifecycle_event :: "lifecycle_event \<Rightarrow> exn + lifecycle_event" where
  "mk_lifecycle_event e =
     (if valid_lifecycle_event e then Inr e else Inl (ValidationError ''ControlPlaneLifecycleEvent''))"

record lifecycle =
  lc_state :: control_plane_state
  lc_events :: "lifecycle_event list"

definition lifecycle_start :: "pystr \<Rightarrow> datetime \<Rightarrow> pystr \<Rightarrow> exn + lifecycle" where
  "lifecycle_start eid t reason =
     (case mk_lifecycle_event \<lparr>le_event_id = eid, le_from_state = None, le_to_state = Starting,
             le_reason = reason, le_actor = ''control-plane'', le_created_at = t\<rparr> of
        Inl e \<Rightarrow> Inl e
      | Inr e \<Rightarrow> Inr \<lparr>lc_state = Starting, lc_events = [e]\<rparr>)"

text \<open>\<open>transition\<close> mutates the object only after the event was built.\<close>

definition lifecycle_transition ::
    "pystr \<Rightarrow> datetime \<Rightarrow> control_plane_state \<Rightarrow> pystr \<Rightarrow> pystr \<Rightarrow> (lifecycle, lifecycle_event) proc" where
  "lifecycle_transition eid t to_state reason actor l =
     (if to_state \<notin> set (lifecycle_transitions (lc_state l))
      then (Inl (ValueError (''invalid control-plane transition: ''
             @ control_plane_state_value (lc_state l) @ '' -> '' @ control_plane_state_value to_state)), l)
      else case mk_lifecycle_event \<lparr>le_event_id = eid, le_from_state = Some (lc_state l),
                  le_to_state = to_state, le_reason = reason, le_actor = actor, le_created_at = t\<rparr> of
             Inl e \<Rightarrow> (Inl e, l)
           | Inr e \<Rightarrow> (Inr e, l\<lparr>lc_state := to_state, lc_events := lc_events l @ [e]\<rparr>))"

definition mark_ready :: "pystr \<Rightarrow> datetime \<Rightarrow> pystr \<Rightarrow> (lifecycle, lifecycle_event) proc" where
  "mark_ready eid t reason = lifecycle_transition eid t Ready reason ''control-plane''"

definition request_shutdown :: "pystr \<Rightarrow> datetime \<Rightarrow> pystr \<Rightarrow> pystr \<Rightarrow> (lifecycle, lifecycle_event) proc" where
  "request_shutdown eid t reason actor = lifecycle_transition eid t Draining reason actor"

definition lifecycle_stop :: "pystr \<Rightarrow> datetime \<Rightarrow> pystr \<Rightarrow> (lifecycle, lifecycle_event) proc" where
  "lifecycle_stop eid t reason = lifecycle_transition eid t Stopped reason ''control-plane''"

definition lifecycle_fail :: "pystr \<Rightarrow> datetime \<Rightarrow> pystr \<Rightarrow> pystr \<Rightarrow> (lifecycle, lifecycle_event) proc" where
  "lifecycle_fail eid t reason actor = lifecycle_transition eid t Lc_Failed reason actor"

section \<open>The lock file\<close>

record control_plane_lock =
  lk_instance_id :: pystr
  lk_process_id :: int
  lk_state :: control_plane_state
  lk_started_at :: datetime
  lk_heartbeat_at :: datetime

record lock_recovery_result =
  lx_recovered :: bool
  lx_reason :: pystr
  lx_event :: "lifecycle_event option"

type_synonym lock_file = "control_plane_lock option"

definition write_lock :: "control_plane_lock \<Rightarrow> (lock_file, unit) proc" where
  "write_lock lock = writes (\<lambda>_. Some lock)"

definition read_lock :: "(lock_file, control_plane_lock) proc" where
  "read_lock file =
     (case file of
        None \<Rightarrow> (Inl (FileNotFoundError ''lock file''), file)
      | Some lock \<Rightarrow> if 0 \<le> lk_process_id lock then (Inr lock, file)
                     else (Inl (ValidationError ''ControlPlaneLock''), file))"

text \<open>\<open>int(age)\<close> truncates toward zero.\<close>

definition age_seconds :: "int \<Rightarrow> int" where
  "age_seconds us = (if us < 0 then - ((- us) div usec) else us div usec)"

text \<open>
  \<open>recover_stale_lock\<close>: \<open>now\<close> is the time the caller passed or the clock showed. The lock is
  removed before the event is built.
\<close>

definition recover_stale_lock ::
    "pystr \<Rightarrow> datetime \<Rightarrow> int \<Rightarrow> (lock_file, lock_recovery_result) proc" where
  "recover_stale_lock eid now stale_after_seconds file =
     (if file = None
      then (Inr \<lparr>lx_recovered = False, lx_reason = ''lock file does not exist'', lx_event = None\<rparr>, file)
      else andthen read_lock (\<lambda>lock.
           andthen (lift_result (time_sub now (lk_heartbeat_at lock))) (\<lambda>age.
           if age \<le> stale_after_seconds * usec
           then ret \<lparr>lx_recovered = False, lx_reason = ''lock heartbeat is still fresh'', lx_event = None\<rparr>
           else andthen (writes (\<lambda>_. None)) (\<lambda>_.
                andthen (lift_result (mk_lifecycle_event
                  \<lparr>le_event_id = eid, le_from_state = Some (lk_state lock), le_to_state = Stopped,
                   le_reason = ''recovered stale control-plane lock after '' @ show_int (age_seconds age) @ '' seconds'',
                   le_actor = ''recovery'', le_created_at = now\<rparr>)) (\<lambda>e.
                ret \<lparr>lx_recovered = True, lx_reason = ''stale lock recovered'', lx_event = Some e\<rparr>)))) file)"

end
