(* ===== verification/Files.thy ===== *)
theory Files
  imports Prelude
begin

text \<open>
  The file system the repository tools work on, and what they use of \<open>pathlib\<close>.

  A file system maps canonical absolute paths (component lists) to nodes; files hold bytes (a
  \<open>char\<close> per byte), a symbolic link holds the components of its target and whether it is
  absolute. \<open>os_path\<close> is how the operating system walks a path, \<open>real_path\<close> is
  \<open>Path.resolve()\<close>, which also resolves paths that do not exist. Both follow at most
  \<open>link_limit\<close> links, as Linux does. Text is the code points up to 255, so UTF-8 is its
  one- and two-byte part; permissions, devices and concurrent changes are not modelled.
\<close>

type_synonym path = "pystr list"

datatype node = File pystr | Directory | Link bool path

type_synonym filesystem = "path \<Rightarrow> node option"

definition link_limit :: nat where
  "link_limit = 40"

section \<open>Paths\<close>

text \<open>The components of \<open>Path(s)\<close>: empty and \<open>"."\<close> components are dropped.\<close>

definition path_parts :: "pystr \<Rightarrow> path" where
  "path_parts s = filter (\<lambda>c. c \<noteq> [] \<and> c \<noteq> ''.'') (py_split (CHR ''/'') s)"

definition is_absolute :: "pystr \<Rightarrow> bool" where
  "is_absolute s = is_prefix_of ''/'' s"

definition path_text :: "path \<Rightarrow> pystr" where
  "path_text p = CHR ''/'' # py_join ''/'' p"

text \<open>\<open>path.relative_to(root)\<close> succeeds.\<close>

definition is_relative_to :: "path \<Rightarrow> path \<Rightarrow> bool" where
  "is_relative_to p root = is_prefix_of root p"

fun real_path :: "nat \<Rightarrow> filesystem \<Rightarrow> path \<Rightarrow> path \<Rightarrow> path option" where
  "real_path n fs cur [] = Some cur"
| "real_path n fs cur (p # ps) =
     (if p = ''..'' then real_path n fs (butlast cur) ps
      else case fs (cur @ [p]) of
             Some (Link absolute target) \<Rightarrow>
               (case n of 0 \<Rightarrow> None
                | Suc m \<Rightarrow> real_path m fs (if absolute then [] else cur) (target @ ps))
           | _ \<Rightarrow> real_path n fs (cur @ [p]) ps)"

fun os_path :: "nat \<Rightarrow> filesystem \<Rightarrow> path \<Rightarrow> path \<Rightarrow> path option" where
  "os_path n fs cur [] = Some cur"
| "os_path n fs cur (p # ps) =
     (if p = ''..'' then os_path n fs (butlast cur) ps
      else case fs (cur @ [p]) of
             None \<Rightarrow> None
           | Some (Link absolute target) \<Rightarrow>
               (case n of 0 \<Rightarrow> None
                | Suc m \<Rightarrow> os_path m fs (if absolute then [] else cur) (target @ ps))
           | Some Directory \<Rightarrow> os_path n fs (cur @ [p]) ps
           | Some (File b) \<Rightarrow> if ps = [] then Some (cur @ [p]) else None)"

text \<open>\<open>path.resolve()\<close> and \<open>path.exists()\<close> of an absolute path.\<close>

definition resolve :: "filesystem \<Rightarrow> path \<Rightarrow> exn + path" where
  "resolve fs p =
     (case real_path link_limit fs [] p of
        None \<Rightarrow> Inl (RuntimeError (''Symlink loop from '' @ path_text p))
      | Some q \<Rightarrow> Inr q)"

definition path_exists :: "filesystem \<Rightarrow> path \<Rightarrow> bool" where
  "path_exists fs p = (os_path link_limit fs [] p \<noteq> None)"

lemma os_path_real: "os_path n fs cur ps = Some q \<Longrightarrow> real_path n fs cur ps = Some q"
  by (induction n fs cur ps rule: os_path.induct) (auto split: option.splits node.splits if_splits nat.splits)

text \<open>The walk ends at a node that is there and is not a link.\<close>

definition rooted :: "filesystem \<Rightarrow> bool" where
  "rooted fs = ((\<forall>q. fs q \<noteq> None \<longrightarrow> q \<noteq> [] \<longrightarrow> fs (butlast q) = Some Directory) \<and> fs [] = Some Directory)"

lemma os_path_node:
  assumes "os_path n fs cur ps = Some q" "rooted fs" "fs cur = Some Directory"
  shows "\<exists>v. fs q = Some v \<and> (\<forall>a t. v \<noteq> Link a t)"
  using assms
proof (induction n fs cur ps rule: os_path.induct)
  case (1 n fs cur)
  then show ?case by auto
next
  case (2 n fs cur p ps)
  have parent: "fs (butlast cur) = Some Directory"
    using "2.prems"(2,3) by (cases "cur = []") (auto simp: rooted_def)
  show ?case
    using 2 parent by (auto simp: rooted_def split: option.splits node.splits if_splits nat.splits)
qed

section \<open>Text\<close>

definition utf8_char :: "char \<Rightarrow> pystr" where
  "utf8_char c =
     (let n = of_char c :: nat in
      if n < 128 then [c] else [char_of (192 + n div 64), char_of (128 + n mod 64)])"

definition utf8_encode :: "pystr \<Rightarrow> pystr" where
  "utf8_encode s = concat (map utf8_char s)"

fun utf8_decode :: "pystr \<Rightarrow> pystr option" where
  "utf8_decode [] = Some []"
| "utf8_decode (b # bs) =
     (let n = of_char b :: nat in
      if n < 128 then map_option (\<lambda>s. b # s) (utf8_decode bs)
      else case bs of
             [] \<Rightarrow> None
           | b' # bs' \<Rightarrow>
               (let k = of_char b' :: nat in
                if (n = 194 \<or> n = 195) \<and> 128 \<le> k \<and> k < 192
                then map_option (\<lambda>s. char_of ((n - 192) * 64 + (k - 128)) # s) (utf8_decode bs')
                else None))"

lemma of_char_less: "(of_char c :: nat) < 256"
  by (metis of_char_mod_256 mod_less_divisor zero_less_numeral)

lemma utf8_decode_char: "utf8_decode (utf8_char c @ bs) = map_option (\<lambda>s. c # s) (utf8_decode bs)"
proof (cases "(of_char c :: nat) < 128")
  case True
  then show ?thesis by (simp add: utf8_char_def)
next
  case False
  let ?n = "of_char c :: nat"
  have n: "128 \<le> ?n" "?n < 256" using False of_char_less [of c] by simp_all
  have a: "of_char (char_of (192 + ?n div 64) :: char) = 192 + ?n div 64"
  proof -
    have "192 + ?n div 64 < 256" using n(2) by linarith
    then show ?thesis by (simp only: of_char_of mod_less)
  qed
  have b: "of_char (char_of (128 + ?n mod 64) :: char) = 128 + ?n mod 64" by simp
  have q: "?n div 64 = 2 \<or> ?n div 64 = 3" using n by linarith
  show ?thesis using False by (simp add: utf8_char_def Let_def a b q del: of_char_of)
qed

lemma utf8_round_trip: "utf8_decode (utf8_encode s) = Some s"
  by (induction s) (simp_all add: utf8_encode_def utf8_decode_char)

text \<open>Text mode reading: every line ending becomes a line feed.\<close>

fun universal_newlines :: "pystr \<Rightarrow> pystr" where
  "universal_newlines [] = []"
| "universal_newlines [c] = [if c = CHR 0x0D then CHR 0x0A else c]"
| "universal_newlines (c # d # cs) =
     (if c = CHR 0x0D
      then (if d = CHR 0x0A then CHR 0x0A # universal_newlines cs else CHR 0x0A # universal_newlines (d # cs))
      else c # universal_newlines (d # cs))"

definition line_break :: "char \<Rightarrow> bool" where
  "line_break c = ((of_char c :: nat) \<in> {10, 11, 12, 13, 28, 29, 30, 133})"

text \<open>\<open>s.splitlines(keepends=True)\<close>.\<close>

fun split_lines :: "pystr \<Rightarrow> pystr list" where
  "split_lines [] = []"
| "split_lines (c # cs) =
     (if line_break c
      then (case cs of
              [] \<Rightarrow> [[c]]
            | d # ds \<Rightarrow> if c = CHR 0x0D \<and> d = CHR 0x0A then [c, d] # split_lines ds
                        else [c] # split_lines (d # ds))
      else (case split_lines cs of [] \<Rightarrow> [[c]] | l # ls \<Rightarrow> (c # l) # ls))"

lemma concat_split_lines: "concat (split_lines s) = s"
proof (induction s rule: split_lines.induct)
  case (2 c cs)
  show ?case
  proof (cases "line_break c")
    case True
    with 2 show ?thesis by (cases cs) (auto simp: line_break_def)
  next
    case False
    with 2 show ?thesis by (cases "split_lines cs") auto
  qed
qed simp

section \<open>Operations\<close>

type_synonym 'a io = "(filesystem, 'a) proc"

definition os_error :: "pystr \<Rightarrow> path \<Rightarrow> exn" where
  "os_error msg p = OSError (msg @ '': '' @ [CHR 0x27] @ path_text p @ [CHR 0x27])"

definition read_bytes :: "path \<Rightarrow> pystr io" where
  "read_bytes p fs =
     (case os_path link_limit fs [] p of
        None \<Rightarrow> (Inl (os_error ''[Errno 2] No such file or directory'' p), fs)
      | Some q \<Rightarrow> (case fs q of
                    Some (File b) \<Rightarrow> (Inr b, fs)
                  | _ \<Rightarrow> (Inl (os_error ''[Errno 21] Is a directory'' p), fs)))"

text \<open>\<open>UnicodeDecodeError\<close> is a \<open>ValueError\<close>.\<close>

definition read_text :: "path \<Rightarrow> pystr io" where
  "read_text p =
     andthen (read_bytes p) (\<lambda>b.
     lift_result (case utf8_decode b of
        None \<Rightarrow> Inl (ValueError ''utf-8 codec cannot decode'')
      | Some s \<Rightarrow> Inr (universal_newlines s)))"

text \<open>Opening an existing path for writing follows links; a path that does not exist is created
  in its directory.\<close>

definition write_target :: "filesystem \<Rightarrow> path \<Rightarrow> path option" where
  "write_target fs p =
     (case os_path link_limit fs [] p of
        Some q \<Rightarrow> Some q
      | None \<Rightarrow> (case p of
                  [] \<Rightarrow> None
                | _ \<Rightarrow> (case os_path link_limit fs [] (butlast p) of
                         None \<Rightarrow> None
                       | Some d \<Rightarrow> if fs d = Some Directory \<and> fs (d @ [last p]) = None \<and> last p \<noteq> ''..''
                                   then Some (d @ [last p]) else None)))"

definition write_bytes :: "path \<Rightarrow> pystr \<Rightarrow> unit io" where
  "write_bytes p b fs =
     (case write_target fs p of
        None \<Rightarrow> (Inl (os_error ''[Errno 2] No such file or directory'' p), fs)
      | Some q \<Rightarrow> (if fs q = Some Directory
                   then (Inl (os_error ''[Errno 21] Is a directory'' p), fs)
                   else (Inr (), fs(q := Some (File b)))))"

definition write_text :: "path \<Rightarrow> pystr \<Rightarrow> unit io" where
  "write_text p s = write_bytes p (utf8_encode s)"

text \<open>\<open>p.mkdir(parents=True, exist_ok=True)\<close> and \<open>p.unlink()\<close>, on canonical paths.\<close>

function make_dirs :: "path \<Rightarrow> unit io" where
  "make_dirs p fs =
     (case fs p of
        Some Directory \<Rightarrow> (Inr (), fs)
      | Some _ \<Rightarrow> (Inl (os_error ''[Errno 17] File exists'' p), fs)
      | None \<Rightarrow>
          (if p = [] then (Inr (), fs)
           else (case make_dirs (butlast p) fs of
                   (Inl e, fs') \<Rightarrow> (Inl e, fs')
                 | (Inr _, fs') \<Rightarrow> (Inr (), fs'(p := Some Directory)))))"
  by pat_completeness auto
termination by (relation "measure (\<lambda>(p, fs). length p)") auto

definition unlink :: "path \<Rightarrow> unit io" where
  "unlink p fs =
     (case fs p of
        Some Directory \<Rightarrow> (Inl (os_error ''[Errno 21] Is a directory'' p), fs)
      | None \<Rightarrow> (Inl (os_error ''[Errno 2] No such file or directory'' p), fs)
      | Some _ \<Rightarrow> (Inr (), fs(p := None)))"

section \<open>Changing the contents of files\<close>

text \<open>Two file systems with the same directories and links.\<close>

definition same_shape :: "filesystem \<Rightarrow> filesystem \<Rightarrow> bool" where
  "same_shape fs fs' =
     (\<forall>q. (case fs q of Some (File b) \<Rightarrow> (\<exists>b'. fs' q = Some (File b')) | v \<Rightarrow> fs' q = v))"

lemma same_shapeI:
  assumes "\<And>q. fs q = None \<Longrightarrow> fs' q = None" "\<And>q. fs q = Some Directory \<Longrightarrow> fs' q = Some Directory"
    "\<And>q a t. fs q = Some (Link a t) \<Longrightarrow> fs' q = Some (Link a t)"
    "\<And>q b. fs q = Some (File b) \<Longrightarrow> \<exists>b'. fs' q = Some (File b')"
  shows "same_shape fs fs'"
  unfolding same_shape_def using assms by (auto split: option.splits node.splits)

lemma same_shape_cases:
  assumes "same_shape fs fs'"
  shows "fs q = None \<Longrightarrow> fs' q = None" "fs q = Some Directory \<Longrightarrow> fs' q = Some Directory"
    "fs q = Some (Link a t) \<Longrightarrow> fs' q = Some (Link a t)" "fs q = Some (File b) \<Longrightarrow> \<exists>b'. fs' q = Some (File b')"
  using spec [OF assms [unfolded same_shape_def], of q] by auto

lemma same_shape_refl: "same_shape fs fs"
  by (rule same_shapeI) auto

lemma same_shape_trans:
  assumes "same_shape fs fs'" "same_shape fs' fs''"
  shows "same_shape fs fs''"
  using same_shape_cases [OF assms(1)] same_shape_cases [OF assms(2)] by (intro same_shapeI) blast+

lemma same_shape_put: "fs q = Some (File b) \<Longrightarrow> same_shape fs (fs(q := Some (File b')))"
  by (rule same_shapeI) auto

lemma same_shape_os_path:
  assumes "same_shape fs fs'"
  shows "os_path n fs' cur ps = os_path n fs cur ps"
  using assms
proof (induction n fs cur ps rule: os_path.induct)
  case (1 n fs cur)
  then show ?case by simp
next
  case (2 n fs cur p ps)
  show ?case
  proof (cases "p = ''..''")
    case True
    then show ?thesis using 2 by simp
  next
    case False
    consider (a) "fs (cur @ [p]) = None" | (b) "fs (cur @ [p]) = Some Directory"
      | (c) t u where "fs (cur @ [p]) = Some (Link t u)" | (d) b where "fs (cur @ [p]) = Some (File b)"
      by (metis node.exhaust option.exhaust)
    then show ?thesis
    proof cases
      case a
      then show ?thesis using False same_shape_cases(1) [OF "2.prems" a] by simp
    next
      case b
      then show ?thesis using False same_shape_cases(2) [OF "2.prems" b] 2 by simp
    next
      case c
      then show ?thesis using False same_shape_cases(3) [OF "2.prems" c] 2 by (cases n) simp_all
    next
      case d
      then show ?thesis using False same_shape_cases(4) [OF "2.prems" d] by auto
    qed
  qed
qed

lemma same_shape_real_path:
  assumes "same_shape fs fs'"
  shows "real_path n fs' cur ps = real_path n fs cur ps"
  using assms
proof (induction n fs cur ps rule: real_path.induct)
  case (1 n fs cur)
  then show ?case by simp
next
  case (2 n fs cur p ps)
  show ?case
  proof (cases "p = ''..''")
    case True
    then show ?thesis using 2 by simp
  next
    case False
    consider (a) "fs (cur @ [p]) = None" | (b) "fs (cur @ [p]) = Some Directory"
      | (c) t u where "fs (cur @ [p]) = Some (Link t u)" | (d) b where "fs (cur @ [p]) = Some (File b)"
      by (metis node.exhaust option.exhaust)
    then show ?thesis
    proof cases
      case a
      then show ?thesis using False same_shape_cases(1) [OF "2.prems" a] 2 by simp
    next
      case b
      then show ?thesis using False same_shape_cases(2) [OF "2.prems" b] 2 by simp
    next
      case c
      then show ?thesis using False same_shape_cases(3) [OF "2.prems" c] 2 by (cases n) simp_all
    next
      case d
      then show ?thesis using False same_shape_cases(4) [OF "2.prems" d] 2 by auto
    qed
  qed
qed

end
