(* ===== verification/Patch_Apply.thy ===== *)
theory Patch_Apply
  imports Files
begin

text \<open>
  Applying a unified diff to a workspace (\<open>vad/repo/patch_apply.py\<close>), with the path guard it
  uses (\<open>vad/guards/filesystem.py\<close>, \<open>vad/repo/workspace.py\<close>) and the journal that undoes it
  (\<open>vad/repo/journal.py\<close>). The index loops of the parser are recursions on the lines left.
\<close>

section \<open>The path guard\<close>

record filesystem_decision =
  fd_allowed :: bool
  fd_path :: "path option"
  fd_reason :: pystr

definition denied_path :: "pystr \<Rightarrow> filesystem_decision" where
  "denied_path r = \<lparr>fd_allowed = False, fd_path = None, fd_reason = r\<rparr>"

text \<open>\<open>_resolve_for_access\<close>; the parent and the name of a path without components are itself and \<open>""\<close>.\<close>

definition resolve_for_access :: "filesystem \<Rightarrow> path \<Rightarrow> exn + path" where
  "resolve_for_access fs p =
     (if path_exists fs p then resolve fs p
      else case resolve fs (butlast p) of Inl e \<Rightarrow> Inl e
           | Inr d \<Rightarrow> Inr (if p = [] then d else d @ [last p]))"

definition guard_resolve :: "path \<Rightarrow> bool \<Rightarrow> pystr \<Rightarrow> bool \<Rightarrow> filesystem_decision io" where
  "guard_resolve root writable relative write fs =
     (if write \<and> \<not> writable then (Inr (denied_path ''workspace is read-only''), fs)
      else if is_absolute relative then (Inr (denied_path ''absolute paths are not allowed''), fs)
      else case resolve_for_access fs (root @ path_parts relative) of
             Inl e \<Rightarrow> (Inl e, fs)
           | Inr resolved \<Rightarrow>
               (if \<not> is_relative_to resolved root then (Inr (denied_path ''path escapes workspace root''), fs)
                else (Inr \<lparr>fd_allowed = True, fd_path = Some resolved, fd_reason = ''path allowed''\<rparr>, fs)))"

definition resolve_read :: "path \<Rightarrow> bool \<Rightarrow> pystr \<Rightarrow> filesystem_decision io" where
  "resolve_read root writable relative = guard_resolve root writable relative False"

definition resolve_write :: "path \<Rightarrow> bool \<Rightarrow> pystr \<Rightarrow> filesystem_decision io" where
  "resolve_write root writable relative = guard_resolve root writable relative True"

section \<open>The journal\<close>

record file_snapshot =
  sn_path :: pystr
  sn_existed :: bool
  sn_content :: "pystr option"

record patch_journal =
  pj_root :: path
  pj_snapshots :: "file_snapshot list"

record rollback_result =
  rb_rolled_back :: bool
  rb_restored_files :: "pystr list"
  rb_blocker :: "pystr option"

text \<open>\<open>(root / relative)\<close>: an absolute right operand replaces the left one.\<close>

definition join_path :: "path \<Rightarrow> pystr \<Rightarrow> path" where
  "join_path root relative = (if is_absolute relative then [] else root) @ path_parts relative"

definition capture_file :: "path \<Rightarrow> pystr \<Rightarrow> file_snapshot io" where
  "capture_file root relative fs =
     (case resolve fs (join_path root relative) of
        Inl e \<Rightarrow> (Inl e, fs)
      | Inr target \<Rightarrow>
          (if \<not> is_relative_to target root
           then (Inl (ValueError (''path escapes repository root: '' @ relative)), fs)
           else if path_exists fs target
           then (case read_bytes target fs of
                   (Inl e, fs') \<Rightarrow> (Inl e, fs')
                 | (Inr b, fs') \<Rightarrow> (Inr \<lparr>sn_path = relative, sn_existed = True, sn_content = Some b\<rparr>, fs'))
           else (Inr \<lparr>sn_path = relative, sn_existed = False, sn_content = None\<rparr>, fs)))"

definition journal_capture :: "path \<Rightarrow> pystr list \<Rightarrow> patch_journal io" where
  "journal_capture root relative_paths =
     andthen (\<lambda>fs. (resolve fs root, fs)) (\<lambda>resolved_root.
     andthen (each_proc (capture_file resolved_root) relative_paths) (\<lambda>sns.
     ret \<lparr>pj_root = resolved_root, pj_snapshots = sns\<rparr>))"

definition journal_changed_files :: "patch_journal \<Rightarrow> pystr list" where
  "journal_changed_files j = map sn_path (pj_snapshots j)"

definition snapshot_bytes :: "file_snapshot \<Rightarrow> pystr" where
  "snapshot_bytes s =
     utf8_encode (sn_path s) @ [CHR 0x00] @ (if sn_existed s then ''1'' else ''0'') @ [CHR 0x00]
     @ (case sn_content s of None \<Rightarrow> [] | Some b \<Rightarrow> b) @ [CHR 0x00]"

text \<open>\<open>patch_digest\<close>; \<open>sha256_bytes\<close> is \<open>hashlib.sha256\<close> with its hex text, on bytes.\<close>

definition patch_digest :: "(pystr \<Rightarrow> pystr) \<Rightarrow> patch_journal \<Rightarrow> pystr" where
  "patch_digest sha256_bytes j =
     sha256_bytes (concat (map snapshot_bytes (sort_key sn_path (pj_snapshots j))))"

text \<open>\<open>rollback\<close>: the loop stops at the first snapshot outside the root or at an \<open>OSError\<close>.\<close>

definition restore_file :: "path \<Rightarrow> file_snapshot \<Rightarrow> unit io" where
  "restore_file target s =
     (if sn_existed s
      then andthen (make_dirs (butlast target)) (\<lambda>_.
           write_bytes target (case sn_content s of None \<Rightarrow> [] | Some b \<Rightarrow> b))
      else (\<lambda>fs. if path_exists fs target then unlink target fs else (Inr (), fs)))"

fun rollback_from :: "path \<Rightarrow> pystr list \<Rightarrow> file_snapshot list \<Rightarrow> rollback_result io" where
  "rollback_from root restored [] fs =
     (Inr \<lparr>rb_rolled_back = True, rb_restored_files = restored, rb_blocker = None\<rparr>, fs)"
| "rollback_from root restored (s # ss) fs =
     (case resolve fs (join_path root (sn_path s)) of
        Inl e \<Rightarrow> (Inl e, fs)
      | Inr target \<Rightarrow>
          (if \<not> is_relative_to target root
           then (Inr \<lparr>rb_rolled_back = False, rb_restored_files = restored,
                      rb_blocker = Some (''path escapes repository root: '' @ sn_path s)\<rparr>, fs)
           else (case restore_file target s fs of
                   (Inl (OSError m), fs') \<Rightarrow>
                     (Inr \<lparr>rb_rolled_back = False, rb_restored_files = restored, rb_blocker = Some m\<rparr>, fs')
                 | (Inl e, fs') \<Rightarrow> (Inl e, fs')
                 | (Inr _, fs') \<Rightarrow> rollback_from root (restored @ [sn_path s]) ss fs')))"

definition rollback :: "patch_journal \<Rightarrow> rollback_result io" where
  "rollback j =
     andthen (\<lambda>fs. (resolve fs (pj_root j), fs)) (\<lambda>root. rollback_from root [] (pj_snapshots j))"

record patch_journal_evidence =
  je_changed_files :: "pystr list"
  je_patch_digest :: pystr
  je_rolled_back :: bool
  je_blocker :: "pystr option"

definition journal_to_evidence ::
    "(pystr \<Rightarrow> pystr) \<Rightarrow> patch_journal \<Rightarrow> rollback_result option \<Rightarrow> patch_journal_evidence" where
  "journal_to_evidence sha256_bytes j r =
     \<lparr>je_changed_files = journal_changed_files j, je_patch_digest = patch_digest sha256_bytes j,
      je_rolled_back = (case r of None \<Rightarrow> False | Some x \<Rightarrow> rb_rolled_back x),
      je_blocker = (case r of None \<Rightarrow> None | Some x \<Rightarrow> rb_blocker x)\<rparr>"

section \<open>Parsing\<close>

record file_patch =
  fp_path :: pystr
  fp_hunks :: "pystr list list"

definition file_header :: "pystr \<Rightarrow> bool" where
  "file_header l = is_prefix_of ''--- '' l"

definition hunk_header :: "pystr \<Rightarrow> bool" where
  "hunk_header l = is_prefix_of ''@@'' l"

definition clean_diff_path :: "pystr \<Rightarrow> pystr" where
  "clean_diff_path p = (if is_prefix_of ''b/'' p \<or> is_prefix_of ''a/'' p then drop 2 p else p)"

definition in_hunk :: "pystr \<Rightarrow> bool" where
  "in_hunk l = (\<not> hunk_header l \<and> \<not> file_header l)"

text \<open>The two inner loops: the hunks of one file, and the lines after its last hunk.\<close>

function parse_hunks :: "pystr list \<Rightarrow> pystr list list \<times> pystr list" where
  "parse_hunks [] = ([], [])"
| "parse_hunks (l # ls) =
     (if file_header l then ([], l # ls)
      else if hunk_header l
      then (case parse_hunks (dropWhile in_hunk ls) of
              (hs, rest) \<Rightarrow> ((l # takeWhile in_hunk ls) # hs, rest))
      else parse_hunks ls)"
  by pat_completeness auto
termination by (relation "measure length") (auto simp: le_imp_less_Suc length_dropWhile_le)

lemma parse_hunks_shorter: "length (snd (parse_hunks ls)) \<le> length ls"
  by (induction ls rule: parse_hunks.induct)
    (auto simp: split_beta intro: le_trans length_dropWhile_le le_SucI)

function parse_files :: "file_patch list \<Rightarrow> pystr list \<Rightarrow> file_patch list" where
  "parse_files patches [] = patches"
| "parse_files patches (l # ls) =
     (if \<not> file_header l then parse_files patches ls
      else case ls of
             [] \<Rightarrow> []
           | m # rest \<Rightarrow>
               (if \<not> is_prefix_of ''+++ '' m then []
                else parse_files
                  (patches @ [\<lparr>fp_path = clean_diff_path (py_strip (drop 4 m)), fp_hunks = fst (parse_hunks rest)\<rparr>])
                  (snd (parse_hunks rest))))"
  by pat_completeness auto
termination
proof (relation "measure (\<lambda>(ps, ls). length ls)", goal_cases)
  case (3 patches l ls m rest)
  then show ?case using parse_hunks_shorter [of rest] by simp
qed auto

definition parse_unified_diff :: "pystr \<Rightarrow> file_patch list" where
  "parse_unified_diff patch_text = parse_files [] (split_lines patch_text)"

text \<open>\<open>header.split(" ", 2)[1]\<close>, \<open>None\<close> for an \<open>IndexError\<close>.\<close>

definition old_start :: "pystr \<Rightarrow> int option" where
  "old_start header =
     (case py_split (CHR '' '') header of
        first # second # _ \<Rightarrow>
          py_int (hd (py_split (CHR '','') (dropWhile (\<lambda>c. c = CHR ''-'') second)))
      | _ \<Rightarrow> None)"

section \<open>Applying hunks\<close>

text \<open>
  The inner loop over the lines of a hunk, on the lines of the file from the cursor on; it
  returns the lines put out and how far the cursor moved.
\<close>

fun apply_lines :: "pystr list \<Rightarrow> pystr list \<Rightarrow> (pystr list \<times> nat) option" where
  "apply_lines rest [] = Some ([], 0)"
| "apply_lines rest (line # body) =
     (if is_prefix_of [CHR 0x5C] line then apply_lines rest body
      else case line of
             [] \<Rightarrow> None
           | marker # content \<Rightarrow>
               (if marker = CHR '' ''
                then (case rest of
                        [] \<Rightarrow> None
                      | x # xs \<Rightarrow> (if x \<noteq> content then None
                                   else map_option (\<lambda>(out, n). (content # out, Suc n)) (apply_lines xs body)))
                else if marker = CHR ''-''
                then (case rest of
                        [] \<Rightarrow> None
                      | x # xs \<Rightarrow> (if x \<noteq> content then None
                                   else map_option (\<lambda>(out, n). (out, Suc n)) (apply_lines xs body)))
                else if marker = CHR ''+''
                then map_option (\<lambda>(out, n). (content # out, n)) (apply_lines rest body)
                else None))"

fun apply_hunks_from :: "pystr list \<Rightarrow> nat \<Rightarrow> pystr list list \<Rightarrow> pystr list option" where
  "apply_hunks_from original cursor [] = Some (drop cursor original)"
| "apply_hunks_from original cursor (hunk # hunks) =
     (case hunk of
        [] \<Rightarrow> None
      | header # body \<Rightarrow>
          (case old_start header of
             None \<Rightarrow> None
           | Some start \<Rightarrow>
               (let target = nat (max 0 (start - 1)) in
                if target < cursor \<or> length original < target then None
                else case apply_lines (drop target original) body of
                       None \<Rightarrow> None
                     | Some (out, moved) \<Rightarrow>
                         map_option (\<lambda>tail. take (target - cursor) (drop cursor original) @ out @ tail)
                           (apply_hunks_from original (target + moved) hunks))))"

definition apply_hunks :: "pystr list \<Rightarrow> pystr list list \<Rightarrow> pystr list option" where
  "apply_hunks original hunks = apply_hunks_from original 0 hunks"

section \<open>Applying a diff\<close>

record patch_apply_result =
  pa_applied :: bool
  pa_changed_files :: "pystr list"
  pa_journal :: "patch_journal option"
  pa_blocker :: "pystr option"

definition patch_blocked :: "pystr \<Rightarrow> patch_apply_result" where
  "patch_blocked reason = \<lparr>pa_applied = False, pa_changed_files = [], pa_journal = None, pa_blocker = Some reason\<rparr>"

text \<open>One turn of the planning loop: a blocker, or the write it plans.\<close>

definition plan_file :: "path \<Rightarrow> file_patch \<Rightarrow> (pystr + pystr \<times> pystr) io" where
  "plan_file root fp =
     andthen (resolve_write root True (fp_path fp)) (\<lambda>d.
     if \<not> fd_allowed d then ret (Inl (fd_reason d))
     else (let target = the (fd_path d) in
       andthen (reads (\<lambda>fs. path_exists fs target)) (\<lambda>there.
       if \<not> there then ret (Inl (''target file does not exist: '' @ fp_path fp))
       else andthen (read_text target) (\<lambda>text.
            case apply_hunks (split_lines text) (fp_hunks fp) of
              None \<Rightarrow> ret (Inl (''patch does not apply cleanly: '' @ fp_path fp))
            | Some applied \<Rightarrow> ret (Inr (fp_path fp, concat applied))))))"

fun plan_files :: "path \<Rightarrow> file_patch list \<Rightarrow> (pystr + (pystr \<times> pystr) list) io" where
  "plan_files root [] = ret (Inr [])"
| "plan_files root (fp # fps) =
     andthen (plan_file root fp) (\<lambda>r. case r of Inl b \<Rightarrow> ret (Inl b)
       | Inr w \<Rightarrow> andthen (plan_files root fps) (\<lambda>rs. case rs of Inl b \<Rightarrow> ret (Inl b)
         | Inr ws \<Rightarrow> ret (Inr (w # ws))))"

definition write_planned :: "path \<Rightarrow> (pystr \<times> pystr) list \<Rightarrow> unit list io" where
  "write_planned root ws = each_proc (\<lambda>(p, content). write_text (join_path root p) content) ws"

definition apply_unified_diff :: "path \<Rightarrow> pystr \<Rightarrow> patch_apply_result io" where
  "apply_unified_diff root patch_text =
     andthen (\<lambda>fs. (resolve fs root, fs)) (\<lambda>root_path.
     let parsed = parse_unified_diff patch_text in
     if parsed = [] then ret (patch_blocked ''no file patches found'')
     else andthen (plan_files root_path parsed) (\<lambda>planned.
       case planned of
         Inl blocker \<Rightarrow> ret (patch_blocked blocker)
       | Inr ws \<Rightarrow>
           andthen (journal_capture root_path (map fst ws)) (\<lambda>journal.
           andthen (write_planned root_path ws) (\<lambda>_.
           ret \<lparr>pa_applied = True, pa_changed_files = map fst ws, pa_journal = Some journal,
                pa_blocker = None\<rparr>))))"

end
