(* ===== verification/Patch_Properties.thy ===== *)
theory Patch_Properties
  imports Patch_Apply
begin

text \<open>
  What applying a diff does: hunks replace exactly the lines they name, a patch that does not
  apply writes nothing, writes stay inside the workspace, and the journal undoes them.
\<close>

section \<open>Hunks\<close>

text \<open>The old and the new side of a hunk's lines, and the lines that carry a marker.\<close>

definition old_side :: "pystr list \<Rightarrow> pystr list" where
  "old_side body = map tl (filter (\<lambda>l. hd l \<in> {CHR '' '', CHR ''-''}) body)"

definition new_side :: "pystr list \<Rightarrow> pystr list" where
  "new_side body = map tl (filter (\<lambda>l. hd l \<in> {CHR '' '', CHR ''+''}) body)"

definition well_marked :: "pystr list \<Rightarrow> bool" where
  "well_marked body = list_all (\<lambda>l. l \<noteq> [] \<and> hd l \<in> {CHR '' '', CHR ''-'', CHR ''+'', CHR 0x5C}) body"

lemma apply_lines_iff:
  "apply_lines rest body = Some (out, n) \<longleftrightarrow>
   well_marked body \<and> (\<exists>more. rest = old_side body @ more) \<and> out = new_side body \<and> n = length (old_side body)"
proof (induction body arbitrary: rest out n)
  case Nil
  then show ?case by (auto simp: well_marked_def old_side_def new_side_def)
next
  case (Cons line body)
  show ?case
  proof (cases line)
    case Nil
    then show ?thesis by (simp add: well_marked_def)
  next
    case (Cons marker content)
    show ?thesis
      by (cases rest; auto simp: Cons Cons.IH well_marked_def old_side_def new_side_def)
  qed
qed

text \<open>
  The reference: a file is its hunks' old sides with gaps between them, each at the line its
  header names; the patched file has the new sides in their place.
\<close>

inductive patched :: "nat \<Rightarrow> pystr list \<Rightarrow> pystr list list \<Rightarrow> pystr list \<Rightarrow> bool" where
  rest: "patched pos ls [] ls"
| hunk: "old_start header = Some start \<Longrightarrow> nat (max 0 (start - 1)) = pos + length gap \<Longrightarrow>
     well_marked body \<Longrightarrow> patched (pos + length gap + length (old_side body)) ls hunks out \<Longrightarrow>
     patched pos (gap @ old_side body @ ls) ((header # body) # hunks) (gap @ new_side body @ out)"

inductive_cases patched_NilE: "patched pos ls [] out"
inductive_cases patched_ConsE: "patched pos ls (hunk # hunks) out"

lemma apply_hunks_from_patched:
  "cursor \<le> length original \<Longrightarrow> apply_hunks_from original cursor hunks = Some out \<Longrightarrow>
   patched cursor (drop cursor original) hunks out"
proof (induction hunks arbitrary: cursor out)
  case Nil
  then show ?case by (auto intro: patched.rest)
next
  case (Cons hunk hunks)
  from Cons.prems(2) obtain header body start outl moved tail where
    h: "hunk = header # body" "old_start header = Some start"
    and range: "cursor \<le> nat (max 0 (start - 1))" "nat (max 0 (start - 1)) \<le> length original"
    and lines: "apply_lines (drop (nat (max 0 (start - 1))) original) body = Some (outl, moved)"
    and tail: "apply_hunks_from original (nat (max 0 (start - 1)) + moved) hunks = Some tail"
    and out: "out = take (nat (max 0 (start - 1)) - cursor) (drop cursor original) @ outl @ tail"
    by (auto simp: Let_def split: list.splits option.splits if_splits)
  define target where "target = nat (max 0 (start - 1))"
  let ?gap = "take (target - cursor) (drop cursor original)"
  from lines obtain more where body: "well_marked body" "drop target original = old_side body @ more"
    "outl = new_side body" "moved = length (old_side body)"
    unfolding apply_lines_iff target_def by blast
  have len: "length ?gap = target - cursor" using range by (simp add: target_def)
  have end': "target + moved \<le> length original"
  proof -
    have "length (drop target original) = length (old_side body @ more)" using body(2) by simp
    then show ?thesis using body(4) range by (simp add: target_def)
  qed
  have "drop (target + moved) original = drop moved (drop target original)" by (simp add: add.commute)
  also have "\<dots> = more" using body by simp
  finally have more: "drop (target + moved) original = more" .
  have "drop cursor original = ?gap @ drop (target - cursor) (drop cursor original)"
    by (simp only: append_take_drop_id)
  also have "drop (target - cursor) (drop cursor original) = drop target original"
    using range by (simp add: target_def)
  finally have whole: "drop cursor original = ?gap @ old_side body @ more" using body(2) by simp
  have pos: "nat (max 0 (start - 1)) = cursor + length ?gap" using len range by (simp add: target_def)
  have "patched (target + moved) more hunks tail"
    using Cons.IH [OF end' tail [folded target_def]] more by simp
  moreover have "target + moved = cursor + length ?gap + length (old_side body)"
    using pos body(4) by (simp only: target_def)
  ultimately have "patched (cursor + length ?gap + length (old_side body)) more hunks tail" by (simp only:)
  from patched.hunk [OF h(2) pos body(1) this]
  have "patched cursor (drop cursor original) ((header # body) # hunks) (?gap @ new_side body @ tail)"
    unfolding whole [symmetric] .
  moreover have "out = ?gap @ new_side body @ tail" using out body(3) by (simp only: target_def)
  ultimately show ?case by (simp only: h(1))
qed

lemma patched_apply_hunks_from:
  "patched pos ls hunks out \<Longrightarrow> ls = drop pos original \<Longrightarrow> pos \<le> length original \<Longrightarrow>
   apply_hunks_from original pos hunks = Some out"
proof (induction arbitrary: rule: patched.induct)
  case (rest pos ls)
  then show ?case by simp
next
  case (hunk header start pos gap body ls hunks out)
  let ?t = "pos + length gap"
  have drop1: "drop ?t original = old_side body @ ls"
    using hunk.prems(1) by (metis add.commute append_eq_conv_conj drop_drop)
  have drop2: "drop (?t + length (old_side body)) original = ls"
    using drop1 by (metis add.commute append_eq_conv_conj drop_drop)
  have "length (gap @ old_side body @ ls) = length original - pos" using hunk.prems(1) by (metis length_drop)
  then have le: "?t \<le> length original" "?t + length (old_side body) \<le> length original"
    using hunk.prems(2) by auto
  have lines: "apply_lines (drop ?t original) body = Some (new_side body, length (old_side body))"
    unfolding apply_lines_iff using hunk.hyps(3) drop1 by simp
  have gap: "take (?t - pos) (drop pos original) = gap"
    unfolding hunk.prems(1) [symmetric] by simp
  have "apply_hunks_from original (?t + length (old_side body)) hunks = Some out"
    by (rule hunk.IH) (use drop2 le in simp_all)
  then show ?case using hunk.hyps(1,2) le lines gap by (simp add: Let_def)
qed

text \<open>
  C11: applying hunks is exactly the replacement the diff describes. It succeeds precisely when
  the file consists of the hunks' old sides, each at the line its header names, with untouched
  gaps around them, and the result has the new sides in their place and nothing else changed.
\<close>

theorem apply_hunks_correct:
  "apply_hunks original hunks = Some out \<longleftrightarrow> patched 0 original hunks out"
  using apply_hunks_from_patched [of 0 original hunks out] patched_apply_hunks_from [of 0 original hunks out original]
  by (auto simp: apply_hunks_def)

section \<open>Resolved paths\<close>

text \<open>A path that resolves to itself: no component is a link or goes up.\<close>

definition link_free :: "filesystem \<Rightarrow> path \<Rightarrow> bool" where
  "link_free fs q =
     (''..'' \<notin> set q \<and> (\<forall>xs ys. q = xs @ ys \<longrightarrow> xs \<noteq> [] \<longrightarrow> (\<forall>a t. fs xs \<noteq> Some (Link a t))))"

lemma link_free_snoc:
  "link_free fs cur \<Longrightarrow> p \<noteq> ''..'' \<Longrightarrow> (\<And>a t. fs (cur @ [p]) \<noteq> Some (Link a t)) \<Longrightarrow> link_free fs (cur @ [p])"
proof -
  assume cur: "link_free fs cur" and p: "p \<noteq> ''..''" and no: "\<And>a t. fs (cur @ [p]) \<noteq> Some (Link a t)"
  have "fs xs \<noteq> Some (Link a t)" if "cur @ [p] = xs @ ys" "xs \<noteq> []" for xs ys a t
    using that no cur by (cases ys rule: rev_cases) (auto simp: link_free_def)
  then show ?thesis using cur p by (auto simp: link_free_def)
qed

lemma link_free_append: "link_free fs (xs @ ys) \<Longrightarrow> link_free fs xs"
  unfolding link_free_def by auto

lemma link_free_butlast: "link_free fs cur \<Longrightarrow> link_free fs (butlast cur)"
  by (metis append_butlast_last_id butlast.simps(1) link_free_append)

lemma link_free_Nil [simp]: "link_free fs []"
  by (simp add: link_free_def)

lemma real_path_link_free:
  "real_path n fs cur ps = Some q \<Longrightarrow> link_free fs cur \<Longrightarrow> link_free fs q"
proof (induction n fs cur ps rule: real_path.induct)
  case (1 n fs cur)
  then show ?case by simp
next
  case (2 n fs cur p ps)
  show ?case
  proof (cases "p = ''..''")
    case True
    with 2 show ?thesis by (simp add: link_free_butlast)
  next
    case False
    show ?thesis
    proof (cases "\<exists>a t. fs (cur @ [p]) = Some (Link a t)")
      case True
      with 2 False show ?thesis by (auto split: nat.splits if_splits)
    next
      case noLink: False
      then have "link_free fs (cur @ [p])" using "2.prems"(2) False by (intro link_free_snoc) auto
      with 2 False noLink show ?thesis by (auto split: option.splits node.splits)
    qed
  qed
qed

lemma link_free_real_path: "link_free fs (cur @ ps) \<Longrightarrow> real_path n fs cur ps = Some (cur @ ps)"
proof (induction ps arbitrary: cur)
  case Nil
  then show ?case by simp
next
  case (Cons p ps)
  have "fs (cur @ [p]) \<noteq> Some (Link a t)" for a t
    using Cons.prems unfolding link_free_def by auto
  moreover have "p \<noteq> ''..''" using Cons.prems by (auto simp: link_free_def)
  ultimately show ?case
    using Cons.IH [of "cur @ [p]"] Cons.prems by (auto split: option.splits node.splits)
qed

lemma resolve_link_free: "resolve fs p = Inr q \<Longrightarrow> link_free fs q"
  using real_path_link_free [of link_limit fs "[]" p q] by (auto simp: resolve_def split: option.splits)

lemma link_free_resolve: "link_free fs q \<Longrightarrow> resolve fs q = Inr q"
  using link_free_real_path [of fs "[]" q link_limit] by (simp add: resolve_def)

lemma os_path_resolve: "os_path link_limit fs [] p = Some q \<Longrightarrow> resolve fs p = Inr q"
  by (simp add: resolve_def os_path_real)

lemma link_free_os_path: "link_free fs q \<Longrightarrow> os_path link_limit fs [] q = Some q' \<Longrightarrow> q' = q"
  using os_path_resolve [of fs q q'] link_free_resolve [of fs q] by simp

lemma same_shape_resolve: "same_shape fs fs' \<Longrightarrow> resolve fs' p = resolve fs p"
  by (simp add: resolve_def same_shape_real_path)

lemma same_shape_exists: "same_shape fs fs' \<Longrightarrow> path_exists fs' p = path_exists fs p"
  by (simp add: path_exists_def same_shape_os_path)

section \<open>Planning\<close>

definition lines_of :: "filesystem \<Rightarrow> path \<Rightarrow> pystr list option" where
  "lines_of fs q =
     (case fs q of
        Some (File b) \<Rightarrow> map_option (\<lambda>s. split_lines (universal_newlines s)) (utf8_decode b)
      | _ \<Rightarrow> None)"

lemma lines_of_File: "lines_of fs q = Some ls \<Longrightarrow> \<exists>b. fs q = Some (File b)"
  by (auto simp: lines_of_def split: option.splits node.splits)

text \<open>What a planned write is: the section's hunks applied to a file under the root.\<close>

definition plan_ok :: "filesystem \<Rightarrow> path \<Rightarrow> file_patch \<Rightarrow> pystr \<times> pystr \<Rightarrow> bool" where
  "plan_ok fs root fp w =
     (fst w = fp_path fp \<and> \<not> is_absolute (fst w)
      \<and> (\<exists>r q ls out. resolve_for_access fs (root @ path_parts (fst w)) = Inr r \<and> is_relative_to r root
           \<and> os_path link_limit fs [] r = Some q \<and> lines_of fs q = Some ls
           \<and> apply_hunks ls (fp_hunks fp) = Some out \<and> snd w = concat out))"

lemma read_bytes_same: "snd (read_bytes p fs) = fs"
  by (simp add: read_bytes_def split: option.splits node.splits)

lemma guard_resolve_same: "snd (guard_resolve root wr rel w fs) = fs"
  by (simp add: guard_resolve_def split: sum.splits)

lemma same_read_text: "obeys (same_on id) (read_text p)"
  unfolding read_text_def by (intro frame.effect_intros sameI) (simp add: read_bytes_same)

lemma same_plan_file: "obeys (same_on id) (plan_file root fp)"
  unfolding plan_file_def resolve_write_def
  by (intro frame.let_proc frame.effect_intros frame.case_option_proc same_read_text sameI)
    (simp add: guard_resolve_same)

lemma plan_file_same: "plan_file root fp fs = (r, fs') \<Longrightarrow> fs' = fs"
  using sameD [OF same_plan_file] by fastforce

lemma read_text_Inr:
  assumes "read_text p fs = (Inr t, fs')"
  shows "\<exists>q. os_path link_limit fs [] p = Some q \<and> lines_of fs q = Some (split_lines t)"
  using assms
  by (auto simp: read_text_def read_bytes_def andthen_def lines_of_def split: option.splits node.splits)

lemma plan_file_Inr:
  assumes "plan_file root fp fs = (Inr (Inr w), fs')"
  shows "plan_ok fs root fp w"
proof -
  obtain d where d: "resolve_write root True (fp_path fp) fs = (Inr d, fs)" and allowed: "fd_allowed d"
    and rest: "andthen (read_text (the (fd_path d))) (\<lambda>text.
        case apply_hunks (split_lines text) (fp_hunks fp) of
          None \<Rightarrow> ret (Inl (''patch does not apply cleanly: '' @ fp_path fp))
        | Some applied \<Rightarrow> ret (Inr (fp_path fp, concat applied))) fs = (Inr (Inr w), fs')"
    using assms guard_resolve_same [of root True "fp_path fp" True fs]
    unfolding plan_file_def resolve_write_def
    by (auto simp: Let_def elim!: andthen_InrE split: if_splits)
  obtain r where r: "resolve_for_access fs (root @ path_parts (fp_path fp)) = Inr r" "is_relative_to r root"
    "\<not> is_absolute (fp_path fp)" "fd_path d = Some r"
    using d allowed
    by (auto simp: resolve_write_def guard_resolve_def denied_path_def split: sum.splits if_splits)
  from rest obtain content fs1 where t: "read_text r fs = (Inr content, fs1)"
    and out: "(case apply_hunks (split_lines content) (fp_hunks fp) of
          None \<Rightarrow> ret (Inl (''patch does not apply cleanly: '' @ fp_path fp))
        | Some applied \<Rightarrow> ret (Inr (fp_path fp, concat applied))) fs1 = (Inr (Inr w), fs')"
    unfolding r(4) option.sel by (rule andthen_InrE)
  from read_text_Inr [OF t] out r show ?thesis
    unfolding plan_ok_def by (auto split: option.splits)
qed

lemma plan_files_same: "plan_files root fps fs = (r, fs') \<Longrightarrow> fs' = fs"
proof -
  assume run: "plan_files root fps fs = (r, fs')"
  have "obeys (same_on id) (plan_files root fps)"
  proof (induction fps)
    case Nil
    show ?case unfolding plan_files.simps by (rule frame.ret)
  next
    case (Cons fp fps)
    have cases: "obeys (same_on id) (case v of Inl b \<Rightarrow> ret (Inl b) | Inr x \<Rightarrow> m x)"
      if "\<And>x. obeys (same_on id) (m x)" for v and m :: "_ \<Rightarrow> ('a + 'b) io"
      using that by (cases v) (simp_all add: frame.ret)
    show ?case unfolding plan_files.simps
      by (intro frame.andthen same_plan_file cases Cons.IH frame.ret)
  qed
  from sameD [OF this run] show ?thesis by simp
qed

lemma plan_files_Inr:
  assumes "plan_files root fps fs = (Inr (Inr ws), fs')"
  shows "list_all2 (plan_ok fs root) fps ws"
  using assms
proof (induction fps arbitrary: ws fs')
  case Nil
  then show ?case by simp
next
  case (Cons fp fps)
  from Cons.prems obtain r fs1 where r: "plan_file root fp fs = (Inr r, fs1)"
    and rest: "(case r of Inl b \<Rightarrow> ret (Inl b)
       | Inr w \<Rightarrow> andthen (plan_files root fps) (\<lambda>rs. case rs of Inl b \<Rightarrow> ret (Inl b)
         | Inr ws \<Rightarrow> ret (Inr (w # ws)))) fs1 = (Inr (Inr ws), fs')"
    unfolding plan_files.simps by (rule andthen_InrE)
  note fs1 = plan_file_same [OF r]
  from rest obtain w where w: "r = Inr w" by (cases r) auto
  from rest obtain rs fs2 where rs: "plan_files root fps fs = (Inr rs, fs2)"
    and tail: "(case rs of Inl b \<Rightarrow> ret (Inl b) | Inr ws \<Rightarrow> ret (Inr (w # ws))) fs2 = (Inr (Inr ws), fs')"
    unfolding w fs1 sum.case by (rule andthen_InrE)
  from tail obtain us where us: "rs = Inr us" "ws = w # us" by (cases rs) auto
  from Cons.IH [OF rs [unfolded us]] plan_file_Inr [OF r [unfolded w]] us show ?case by simp
qed

text \<open>Where a planned write goes.\<close>

lemma plan_ok_target:
  assumes "plan_ok fs root fp w" "os_path link_limit fs [] (root @ path_parts (fst w)) = Some q"
  shows "is_relative_to q root \<and> (\<exists>ls out. lines_of fs q = Some ls
     \<and> apply_hunks ls (fp_hunks fp) = Some out \<and> snd w = concat out)"
proof -
  obtain r q' ls out where p: "resolve_for_access fs (root @ path_parts (fst w)) = Inr r" "is_relative_to r root"
    "os_path link_limit fs [] r = Some q'" "lines_of fs q' = Some ls" "apply_hunks ls (fp_hunks fp) = Some out"
    "snd w = concat out"
    using assms(1) unfolding plan_ok_def by blast
  have "r = q" using p(1) assms(2) os_path_resolve [OF assms(2)]
    by (simp add: resolve_for_access_def path_exists_def)
  moreover have "link_free fs q" by (rule resolve_link_free [OF os_path_resolve [OF assms(2)]])
  ultimately have "q' = q" using link_free_os_path p(3) by blast
  with p \<open>r = q\<close> show ?thesis by blast
qed

lemma plan_ok_no_create:
  assumes "plan_ok fs root fp w" "os_path link_limit fs [] (root @ path_parts (fst w)) = None"
  shows "write_target fs (root @ path_parts (fst w)) = None"
proof (rule ccontr)
  define p where "p = root @ path_parts (fst w)"
  have none: "os_path link_limit fs [] p = None" using assms(2) by (simp add: p_def)
  assume "write_target fs (root @ path_parts (fst w)) \<noteq> None"
  then have "write_target fs p \<noteq> None" by (simp add: p_def)
  then obtain d where d: "p \<noteq> []" "os_path link_limit fs [] (butlast p) = Some d"
    "fs (d @ [last p]) = None" "last p \<noteq> ''..''"
    using none by (cases p) (auto simp: write_target_def split: option.splits if_splits)
  obtain r q ls where p: "resolve_for_access fs p = Inr r" "os_path link_limit fs [] r = Some q" "lines_of fs q = Some ls"
    using assms(1) unfolding plan_ok_def p_def by blast
  have r: "r = d @ [last p]"
    using p(1) none d(1) os_path_resolve [OF d(2)] by (simp add: resolve_for_access_def path_exists_def)
  have "link_free fs d" by (rule resolve_link_free [OF os_path_resolve [OF d(2)]])
  then have "link_free fs r" unfolding r using d(3,4) by (intro link_free_snoc) simp_all
  then have "q = r" using link_free_os_path p(2) by blast
  then show False using lines_of_File [OF p(3)] d(3) r by auto
qed

section \<open>Writing\<close>

definition target_of :: "filesystem \<Rightarrow> path \<Rightarrow> pystr \<times> pystr \<Rightarrow> path option" where
  "target_of fs root w = os_path link_limit fs [] (root @ path_parts (fst w))"

definition put_content :: "filesystem \<Rightarrow> path \<Rightarrow> pystr \<times> pystr \<Rightarrow> filesystem \<Rightarrow> filesystem" where
  "put_content fs root w fs0 = fs0(the (target_of fs root w) := Some (File (utf8_encode (snd w))))"

lemma plan_ok_file:
  assumes "plan_ok fs root fp w" "target_of fs root w = Some q"
  shows "\<exists>b. fs q = Some (File b)"
  using plan_ok_target [OF assms(1) assms(2) [unfolded target_of_def]] lines_of_File by blast

lemma write_planned_one:
  assumes ok: "plan_ok fs root fp w" and shape: "same_shape fs fs0"
  shows "case target_of fs root w of
      None \<Rightarrow> \<exists>e. write_text (join_path root (fst w)) (snd w) fs0 = (Inl e, fs0)
    | Some q \<Rightarrow> write_text (join_path root (fst w)) (snd w) fs0 = (Inr (), put_content fs root w fs0)
              \<and> same_shape fs (put_content fs root w fs0)"
proof -
  have join: "join_path root (fst w) = root @ path_parts (fst w)"
    using ok by (auto simp: plan_ok_def join_path_def)
  have wt: "write_target fs0 p = write_target fs p" for p
  proof -
    have "(fs0 d = Some Directory \<longleftrightarrow> fs d = Some Directory) \<and> (fs0 d = None \<longleftrightarrow> fs d = None)" for d
    proof (cases "fs d")
      case None
      then show ?thesis using same_shape_cases(1) [OF shape None] by simp
    next
      case (Some v)
      then show ?thesis using same_shape_cases [OF shape, of d] by (cases v) auto
    qed
    then have "(fs0 d = Some Directory) = (fs d = Some Directory)" "(fs0 d = None) = (fs d = None)" for d
      by blast+
    then show ?thesis unfolding write_target_def same_shape_os_path [OF shape] by presburger
  qed
  show ?thesis
  proof (cases "target_of fs root w")
    case None
    then have "write_target fs (root @ path_parts (fst w)) = None"
      by (intro plan_ok_no_create [OF ok]) (simp add: target_of_def)
    then show ?thesis by (simp add: None write_text_def write_bytes_def join wt)
  next
    case (Some q)
    then have "write_target fs (root @ path_parts (fst w)) = Some q"
      by (simp add: write_target_def target_of_def)
    moreover obtain b where b: "fs q = Some (File b)" using plan_ok_file [OF ok Some] by blast
    moreover obtain b' where b': "fs0 q = Some (File b')" using same_shape_cases(4) [OF shape b] by blast
    ultimately show ?thesis
      using same_shape_trans [OF shape same_shape_put [where fs = fs0 and q = q, OF b']]
      by (simp add: Some write_text_def write_bytes_def join wt put_content_def)
  qed
qed

lemma write_planned_run:
  assumes "list_all2 (plan_ok fs root) fps ws" "same_shape fs fs0"
  shows "\<exists>r. write_planned root ws fs0 = (r, fold (put_content fs root) (takeWhile (\<lambda>w. target_of fs root w \<noteq> None) ws) fs0)
     \<and> (isl r \<longleftrightarrow> (\<exists>w\<in>set ws. target_of fs root w = None))"
  using assms
proof (induction fps ws arbitrary: fs0 rule: list_all2_induct)
  case Nil
  then show ?case by (simp add: write_planned_def)
next
  case (Cons fp fps w ws)
  note one = write_planned_one [OF Cons.hyps(1) Cons.prems]
  show ?case
  proof (cases "target_of fs root w")
    case None
    with one obtain e where "write_text (join_path root (fst w)) (snd w) fs0 = (Inl e, fs0)" by auto
    then show ?thesis using None by (simp add: write_planned_def split_beta andthen_Inl)
  next
    case (Some q)
    with one have w: "write_text (join_path root (fst w)) (snd w) fs0 = (Inr (), put_content fs root w fs0)"
      and shape: "same_shape fs (put_content fs root w fs0)" by auto
    from Cons.IH [OF shape] obtain r where
      r: "write_planned root ws (put_content fs root w fs0)
          = (r, fold (put_content fs root) (takeWhile (\<lambda>w. target_of fs root w \<noteq> None) ws) (put_content fs root w fs0))"
        "isl r \<longleftrightarrow> (\<exists>w\<in>set ws. target_of fs root w = None)" by blast
    show ?thesis
    proof (cases r)
      case (Inl e)
      then show ?thesis using Some w r by (simp add: write_planned_def split_beta andthen_def)
    next
      case (Inr us)
      then show ?thesis using Some w r by (simp add: write_planned_def split_beta andthen_def)
    qed
  qed
qed

lemma fold_put_other:
  "(\<forall>w\<in>set ws. target_of fs root w \<noteq> Some q) \<Longrightarrow> (\<forall>w\<in>set ws. target_of fs root w \<noteq> None) \<Longrightarrow>
   fold (put_content fs root) ws fs0 q = fs0 q"
  by (induction ws arbitrary: fs0) (auto simp: put_content_def)

lemma fold_put_shape:
  assumes "list_all2 (plan_ok fs root) fps ws" "same_shape fs fs0"
  shows "same_shape fs (fold (put_content fs root) (takeWhile (\<lambda>w. target_of fs root w \<noteq> None) ws) fs0)"
  using assms
proof (induction fps ws arbitrary: fs0 rule: list_all2_induct)
  case (Cons fp fps w ws)
  then show ?case using write_planned_one [OF Cons.hyps(1) Cons.prems]
    by (cases "target_of fs root w") auto
qed simp

text \<open>What a section makes of the file at \<open>q\<close>, and the section that wins there: the last one.\<close>

definition patched_content :: "filesystem \<Rightarrow> path \<Rightarrow> file_patch \<Rightarrow> node option" where
  "patched_content fs q fp =
     (case lines_of fs q of None \<Rightarrow> None
      | Some ls \<Rightarrow> map_option (\<lambda>out. File (utf8_encode (concat out))) (apply_hunks ls (fp_hunks fp)))"

definition section_for :: "filesystem \<Rightarrow> path \<Rightarrow> file_patch list \<Rightarrow> path \<Rightarrow> file_patch option" where
  "section_for fs root fps q =
     find (\<lambda>fp. os_path link_limit fs [] (root @ path_parts (fp_path fp)) = Some q) (rev fps)"

lemma find_snoc: "find P (xs @ [x]) = (case find P xs of None \<Rightarrow> (if P x then Some x else None) | Some y \<Rightarrow> Some y)"
  by (induction xs) auto

lemma fold_put_section:
  assumes "list_all2 (plan_ok fs root) fps ws" "\<forall>w\<in>set ws. target_of fs root w \<noteq> None"
  shows "fold (put_content fs root) ws fs0 q =
     (case section_for fs root fps q of None \<Rightarrow> fs0 q | Some fp \<Rightarrow> patched_content fs q fp)"
  using assms
proof (induction fps ws arbitrary: fs0 rule: list_all2_induct)
  case Nil
  then show ?case by (simp add: section_for_def)
next
  case (Cons fp fps w ws)
  have IH: "fold (put_content fs root) ws (put_content fs root w fs0) q =
      (case section_for fs root fps q of None \<Rightarrow> put_content fs root w fs0 q | Some fp \<Rightarrow> patched_content fs q fp)"
    using Cons by simp
  have name: "fst w = fp_path fp" using Cons.hyps(1) by (simp add: plan_ok_def)
  show ?case
  proof (cases "target_of fs root w = Some q")
    case True
    then obtain ls out where "lines_of fs q = Some ls" "apply_hunks ls (fp_hunks fp) = Some out" "snd w = concat out"
      using plan_ok_target [OF Cons.hyps(1), of q] by (auto simp: target_of_def)
    then have "put_content fs root w fs0 q = patched_content fs q fp"
      using True by (simp add: put_content_def patched_content_def)
    then show ?thesis using IH True
      by (simp add: section_for_def find_snoc target_of_def name split: option.splits)
  next
    case False
    then have "put_content fs root w fs0 q = fs0 q"
      using Cons.prems by (auto simp: put_content_def)
    then show ?thesis using IH False
      by (simp add: section_for_def find_snoc target_of_def name split: option.splits)
  qed
qed

lemma fold_put_changed:
  assumes "list_all2 (plan_ok fs root) fps ws"
    "fold (put_content fs root) (takeWhile (\<lambda>w. target_of fs root w \<noteq> None) ws) fs0 q \<noteq> fs0 q"
  shows "\<exists>fp\<in>set fps. \<exists>w\<in>set ws. plan_ok fs root fp w \<and> target_of fs root w = Some q"
  using assms
proof (induction fps ws arbitrary: fs0 rule: list_all2_induct)
  case (Cons fp fps w ws)
  show ?case
  proof (cases "target_of fs root w = Some q")
    case True
    then show ?thesis using Cons.hyps(1) by auto
  next
    case False
    then have "put_content fs root w fs0 q = fs0 q" if "target_of fs root w \<noteq> None"
      using that by (auto simp: put_content_def)
    then show ?thesis using Cons.IH [of "put_content fs root w fs0"] Cons.prems
      by (auto split: if_splits)
  qed
qed simp

section \<open>The run of \<open>apply_unified_diff\<close>\<close>

lemma same_capture_file: "snd (capture_file root p fs) = fs"
  by (simp add: capture_file_def split: sum.splits prod.splits)
    (metis read_bytes_same snd_conv)

lemma journal_capture_same: "journal_capture root ps fs = (r, fs') \<Longrightarrow> fs' = fs"
proof -
  assume run: "journal_capture root ps fs = (r, fs')"
  have "obeys (same_on id) (journal_capture root ps)"
    unfolding journal_capture_def by (intro frame.effect_intros sameI) (simp_all add: same_capture_file)
  from sameD [OF this run] show ?thesis by simp
qed

lemma apply_unified_diff_cases:
  assumes run: "apply_unified_diff root patch fs = (r, fs')"
  obtains (unchanged) "fs' = fs" "\<And>a. r = Inr a \<Longrightarrow> \<not> pa_applied a"
  | (written) rp ws j where "resolve fs root = Inr rp" "parse_unified_diff patch \<noteq> []"
      "list_all2 (plan_ok fs rp) (parse_unified_diff patch) ws"
      "journal_capture rp (map fst ws) fs = (Inr j, fs)"
      "fs' = fold (put_content fs rp) (takeWhile (\<lambda>w. target_of fs rp w \<noteq> None) ws) fs"
      "if \<exists>w\<in>set ws. target_of fs rp w = None then isl r
       else r = Inr \<lparr>pa_applied = True, pa_changed_files = map fst ws, pa_journal = Some j, pa_blocker = None\<rparr>"
proof (cases "resolve fs root")
  case (Inl e)
  with run show ?thesis by (intro unchanged) (auto simp: apply_unified_diff_def andthen_def)
next
  case (Inr rp)
  let ?fps = "parse_unified_diff patch"
  show ?thesis
  proof (cases "?fps = []")
    case True
    with run Inr show ?thesis
      by (intro unchanged) (auto simp: apply_unified_diff_def andthen_def patch_blocked_def Let_def)
  next
    case False
    obtain p fs1 where p: "plan_files rp ?fps fs = (p, fs1)" by fastforce
    note fs1 = plan_files_same [OF p]
    show ?thesis
    proof (cases "\<exists>ws. p = Inr (Inr ws)")
      case no: False
      with run Inr False p fs1 show ?thesis
        by (intro unchanged)
          (auto simp: apply_unified_diff_def andthen_def patch_blocked_def Let_def split: sum.splits)
    next
      case True
      then obtain ws where ws: "p = Inr (Inr ws)" by blast
      have ok: "list_all2 (plan_ok fs rp) ?fps ws" by (rule plan_files_Inr [OF p [unfolded ws]])
      obtain c fs2 where c: "journal_capture rp (map fst ws) fs = (c, fs2)" by fastforce
      note fs2 = journal_capture_same [OF c]
      show ?thesis
      proof (cases c)
        case (Inl e)
        with run \<open>resolve fs root = Inr rp\<close> False p fs1 ws c fs2 show ?thesis
          by (intro unchanged) (auto simp: apply_unified_diff_def andthen_def Let_def)
      next
        case j: (Inr j)
        obtain v where v: "write_planned rp ws fs
            = (v, fold (put_content fs rp) (takeWhile (\<lambda>w. target_of fs rp w \<noteq> None) ws) fs)"
          "isl v \<longleftrightarrow> (\<exists>w\<in>set ws. target_of fs rp w = None)"
          using write_planned_run [OF ok same_shape_refl] by blast
        have "apply_unified_diff root patch fs =
            (case v of Inl e \<Rightarrow> Inl e
             | Inr _ \<Rightarrow> Inr \<lparr>pa_applied = True, pa_changed_files = map fst ws, pa_journal = Some j, pa_blocker = None\<rparr>,
             fold (put_content fs rp) (takeWhile (\<lambda>w. target_of fs rp w \<noteq> None) ws) fs)"
          using Inr False p fs1 ws c fs2 j v(1)
          by (simp add: apply_unified_diff_def andthen_def Let_def split: sum.splits)
        with run have r: "r = (case v of Inl e \<Rightarrow> Inl e
             | Inr _ \<Rightarrow> Inr \<lparr>pa_applied = True, pa_changed_files = map fst ws, pa_journal = Some j, pa_blocker = None\<rparr>)"
          and f: "fs' = fold (put_content fs rp) (takeWhile (\<lambda>w. target_of fs rp w \<noteq> None) ws) fs" by simp_all
        show ?thesis
          by (rule written [OF Inr False ok _ f])
            (use c fs2 j r v(2) in \<open>auto split: sum.splits\<close>)
      qed
    qed
  qed
qed

section \<open>Undoing a patch\<close>

definition snapshot_of :: "filesystem \<Rightarrow> path \<Rightarrow> pystr \<times> pystr \<Rightarrow> file_snapshot" where
  "snapshot_of fs root w =
     \<lparr>sn_path = fst w, sn_existed = True,
      sn_content = (case target_of fs root w of None \<Rightarrow> None
        | Some q \<Rightarrow> (case fs q of Some (File b) \<Rightarrow> Some b | _ \<Rightarrow> None))\<rparr>"

lemma capture_planned:
  assumes "plan_ok fs root fp w" "target_of fs root w = Some q"
  shows "capture_file root (fst w) fs = (Inr (snapshot_of fs root w), fs)"
proof -
  obtain b where b: "fs q = Some (File b)" using plan_ok_file [OF assms] by blast
  have r: "resolve fs (join_path root (fst w)) = Inr q"
    using assms os_path_resolve [of fs _ q] by (auto simp: plan_ok_def join_path_def target_of_def)
  have "link_free fs q" by (rule resolve_link_free [OF r])
  have os: "os_path link_limit fs [] q = Some q"
  proof -
    obtain v q' where v: "resolve_for_access fs (root @ path_parts (fst w)) = Inr v" "os_path link_limit fs [] v = Some q'"
      using assms(1) unfolding plan_ok_def by blast
    then have "v = q" using assms(2) os_path_resolve [of fs _ q]
      by (simp add: resolve_for_access_def path_exists_def target_of_def)
    with v(2) link_free_os_path [OF \<open>link_free fs q\<close>] show ?thesis by simp
  qed
  have "is_relative_to q root" using plan_ok_target [OF assms(1)] assms(2) by (simp add: target_of_def)
  with r b os show ?thesis
    by (simp add: capture_file_def path_exists_def read_bytes_def snapshot_of_def assms(2))
qed

lemma each_proc_map:
  "(\<And>x. x \<in> set xs \<Longrightarrow> f x s = (Inr (g x), s)) \<Longrightarrow> each_proc f xs s = (Inr (map g xs), s)"
  by (induction xs) (simp_all add: andthen_def)

lemma journal_capture_planned:
  assumes ok: "list_all2 (plan_ok fs rp) fps ws" "\<forall>w\<in>set ws. target_of fs rp w \<noteq> None" and rp: "link_free fs rp"
  shows "journal_capture rp (map fst ws) fs = (Inr \<lparr>pj_root = rp, pj_snapshots = map (snapshot_of fs rp) ws\<rparr>, fs)"
proof -
  have one: "capture_file rp (fst w) fs = (Inr (snapshot_of fs rp w), fs)" if w: "w \<in> set ws" for w
  proof -
    obtain fp where "plan_ok fs rp fp w" using ok(1) w by (metis in_set_conv_nth list_all2_conv_all_nth)
    moreover obtain q where "target_of fs rp w = Some q" using ok(2) w by blast
    ultimately show ?thesis by (rule capture_planned)
  qed
  have "each_proc (capture_file rp) (map fst ws) fs = (Inr (map (snapshot_of fs rp) ws), fs)"
    using one
  proof (induction ws)
    case (Cons w ws)
    then show ?case by (simp add: andthen_def)
  qed simp
  then show ?thesis by (simp add: journal_capture_def andthen_def link_free_resolve [OF rp])
qed

lemma same_shape_sym: "same_shape fs fs' \<Longrightarrow> same_shape fs' fs"
proof (rule same_shapeI)
  fix q b
  assume s: "same_shape fs fs'"
  note c = same_shape_cases [OF s, of q]
  show "fs' q = None \<Longrightarrow> fs q = None" using c by (cases "fs q" rule: option.exhaust; cases "the (fs q)") auto
  show "fs' q = Some Directory \<Longrightarrow> fs q = Some Directory" using c by (cases "fs q"; cases "the (fs q)") auto
  show "fs' q = Some (Link a t) \<Longrightarrow> fs q = Some (Link a t)" for a t using c by (cases "fs q"; cases "the (fs q)") auto
  show "fs' q = Some (File b) \<Longrightarrow> \<exists>b'. fs q = Some (File b')" using c by (cases "fs q"; cases "the (fs q)") auto
qed

lemma restore_planned:
  assumes "plan_ok fs root fp w" "target_of fs root w = Some q" "same_shape fs fs1" "rooted fs"
  shows "restore_file q (snapshot_of fs root w) fs1 = (Inr (), fs1(q := fs q))"
    "resolve fs1 (join_path root (fst w)) = Inr q" "is_relative_to q root"
proof -
  note sh = same_shape_cases [OF assms(3)]
  obtain b where b: "fs q = Some (File b)" using plan_ok_file [OF assms(1,2)] by blast
  obtain b' where b': "fs1 q = Some (File b')" using sh(4) [OF b] by blast
  have r: "resolve fs (join_path root (fst w)) = Inr q"
    using assms(1,2) os_path_resolve [of fs _ q] by (auto simp: plan_ok_def join_path_def target_of_def)
  then show "resolve fs1 (join_path root (fst w)) = Inr q" by (simp add: same_shape_resolve [OF assms(3)])
  show "is_relative_to q root" using plan_ok_target [OF assms(1)] assms(2) by (simp add: target_of_def)
  have "path_exists fs q"
    using capture_planned [OF assms(1,2)] r b
    by (auto simp: capture_file_def snapshot_of_def assms(2) split: if_splits prod.splits)
  then have os: "os_path link_limit fs1 [] q = Some q"
    using link_free_os_path [OF resolve_link_free [OF r]]
    by (auto simp: path_exists_def same_shape_os_path [OF assms(3)])
  have "q \<noteq> []" using b assms(4) by (auto simp: rooted_def)
  then have "fs (butlast q) = Some Directory" using assms(4) b unfolding rooted_def by (metis option.distinct(1))
  then have "fs1 (butlast q) = Some Directory" by (rule sh(2))
  then have "make_dirs (butlast q) fs1 = (Inr (), fs1)" by simp
  then show "restore_file q (snapshot_of fs root w) fs1 = (Inr (), fs1(q := fs q))"
    by (simp add: restore_file_def snapshot_of_def assms(2) b b' andthen_def write_bytes_def write_target_def os)
qed

lemma rollback_from_planned:
  assumes "list_all2 (plan_ok fs rp) fps ws" "\<forall>w\<in>set ws. target_of fs rp w \<noteq> None" "rooted fs" "same_shape fs fs1"
  shows "\<exists>fs2. rollback_from rp acc (map (snapshot_of fs rp) ws) fs1
      = (Inr \<lparr>rb_rolled_back = True, rb_restored_files = acc @ map fst ws, rb_blocker = None\<rparr>, fs2)
    \<and> (\<forall>q. fs2 q = (if Some q \<in> target_of fs rp ` set ws then fs q else fs1 q))"
  using assms
proof (induction fps ws arbitrary: acc fs1 rule: list_all2_induct)
  case (Cons fp fps w ws)
  from Cons.prems(1) obtain q where q: "target_of fs rp w = Some q" by auto
  note r = restore_planned [OF Cons.hyps(1) q Cons.prems(3,2)]
  obtain b where b: "fs q = Some (File b)" using plan_ok_file [OF Cons.hyps(1) q] by blast
  obtain b' where "fs1 q = Some (File b')" using same_shape_cases(4) [OF Cons.prems(3) b] by blast
  then have "same_shape fs (fs1(q := fs q))"
    unfolding b using same_shape_trans [OF Cons.prems(3) same_shape_put [where fs = fs1 and q = q]] by blast
  moreover have "\<forall>w\<in>set ws. target_of fs rp w \<noteq> None" using Cons.prems(1) by simp
  ultimately obtain fs2 where
    fs2: "rollback_from rp (acc @ [fst w]) (map (snapshot_of fs rp) ws) (fs1(q := fs q))
      = (Inr \<lparr>rb_rolled_back = True, rb_restored_files = (acc @ [fst w]) @ map fst ws, rb_blocker = None\<rparr>, fs2)"
    "\<forall>p. fs2 p = (if Some p \<in> target_of fs rp ` set ws then fs p else (fs1(q := fs q)) p)"
    using Cons.IH [OF _ Cons.prems(2), of "fs1(q := fs q)" "acc @ [fst w]"] by blast
  have "sn_path (snapshot_of fs rp w) = fst w" by (simp add: snapshot_of_def)
  with r fs2(1) have "rollback_from rp acc (map (snapshot_of fs rp) (w # ws)) fs1
      = (Inr \<lparr>rb_rolled_back = True, rb_restored_files = acc @ map fst (w # ws), rb_blocker = None\<rparr>, fs2)" by simp
  moreover have "\<forall>p. fs2 p = (if Some p \<in> target_of fs rp ` set (w # ws) then fs p else fs1 p)"
    using fs2(2) q by auto
  ultimately show ?case by blast
qed simp

lemma applied_patch:
  assumes "apply_unified_diff root patch fs = (Inr a, fs')" "pa_applied a"
  shows "\<exists>rp. resolve fs root = Inr rp \<and> pa_changed_files a = map fp_path (parse_unified_diff patch)
    \<and> (\<forall>q. fs' q = (case section_for fs rp (parse_unified_diff patch) q of
                       None \<Rightarrow> fs q
                     | Some fp \<Rightarrow> patched_content fs q fp))"
  using assms(1)
proof (cases rule: apply_unified_diff_cases)
  case unchanged
  then show ?thesis using assms(2) by simp
next
  case (written rp ws j)
  then have all: "\<forall>w\<in>set ws. target_of fs rp w \<noteq> None"
    and a: "pa_changed_files a = map fst ws" by (auto split: if_splits)
  have names: "map fst ws = map fp_path (parse_unified_diff patch)"
    using written(3) by (induction rule: list_all2_induct) (auto simp: plan_ok_def)
  have "takeWhile (\<lambda>w. target_of fs rp w \<noteq> None) ws = ws" using all by (rule takeWhile_eq_all_conv [THEN iffD2])
  then have "fs' = fold (put_content fs rp) ws fs" using written(5) by (simp only:)
  then have "fs' q = (case section_for fs rp (parse_unified_diff patch) q of
      None \<Rightarrow> fs q | Some fp \<Rightarrow> patched_content fs q fp)" for q
    by (simp only: fold_put_section [OF written(3) all])
  with written(1) a names show ?thesis by auto
qed

lemma undone_patch:
  assumes "apply_unified_diff root patch fs = (Inr a, fs')" "pa_journal a = Some j" "rooted fs" "pa_applied a"
  shows "rollback j fs' = (Inr \<lparr>rb_rolled_back = True, rb_restored_files = pa_changed_files a, rb_blocker = None\<rparr>, fs)"
  using assms(1)
proof (cases rule: apply_unified_diff_cases)
  case unchanged
  then show ?thesis using assms(4) by simp
next
  case (written rp ws j')
  then have all: "\<forall>w\<in>set ws. target_of fs rp w \<noteq> None"
    and a: "pa_changed_files a = map fst ws" "j' = j" using assms(2) by (auto split: if_splits)
  have rp: "link_free fs rp" by (rule resolve_link_free [OF written(1)])
  have j: "j = \<lparr>pj_root = rp, pj_snapshots = map (snapshot_of fs rp) ws\<rparr>"
    using journal_capture_planned [OF written(3) all rp] written(4) a(2) by simp
  have shape: "same_shape fs fs'" using fold_put_shape [OF written(3) same_shape_refl] written(5) by simp
  from rollback_from_planned [OF written(3) all assms(3) shape, of "[]"] obtain fs2 where
    fs2: "rollback_from rp [] (map (snapshot_of fs rp) ws) fs'
      = (Inr \<lparr>rb_rolled_back = True, rb_restored_files = map fst ws, rb_blocker = None\<rparr>, fs2)"
    "\<forall>q. fs2 q = (if Some q \<in> target_of fs rp ` set ws then fs q else fs' q)" by auto
  have "fs2 q = fs q" for q
    using fs2(2) fold_put_changed [OF written(3), of fs q] written(5) by (metis imageI)
  then have "fs2 = fs" by blast
  then show ?thesis
    using fs2(1) a by (simp add: rollback_def andthen_def j same_shape_resolve [OF shape] link_free_resolve [OF rp])
qed

section \<open>The theorems\<close>

definition demo_text :: "pystr list \<Rightarrow> pystr" where
  "demo_text ls = concat (map (\<lambda>l. l @ [CHR 0x0A]) ls)"

definition demo_files :: filesystem where
  "demo_files =
     [[] \<mapsto> Directory, [''w''] \<mapsto> Directory, [''w'', ''f''] \<mapsto> File (demo_text [''a'', ''b'']),
      [''w'', ''g''] \<mapsto> File (demo_text [''x'']), [''w'', ''link''] \<mapsto> Link False [''g''], [''o''] \<mapsto> File ''o'']"

definition demo_patch :: pystr where
  "demo_patch = demo_text [''--- a/f'', ''+++ b/f'', ''@@ -1,2 +1,2 @@'', '' a'', ''-b'', ''+c'',
     ''--- a/link'', ''+++ b/link'', ''@@ -1 +1 @@'', ''-x'', ''+y'']"

text \<open>
  C12: when a patch is applied, every file has exactly the content its last section describes,
  computed from the file as it was before the patch, and every other file is as it was. The
  changed files are the paths of the sections, in order; the targets are found through links.
\<close>

theorem patch_applied_files:
  assumes "apply_unified_diff root patch fs = (Inr a, fs')" "pa_applied a"
  shows "\<exists>rp. resolve fs root = Inr rp \<and> pa_changed_files a = map fp_path (parse_unified_diff patch)
    \<and> (\<forall>q. fs' q = (case section_for fs rp (parse_unified_diff patch) q of
                       None \<Rightarrow> fs q
                     | Some fp \<Rightarrow> patched_content fs q fp))"
  using assms by (rule applied_patch)

theorem patch_applied_files_witness:
  "\<exists>a fs'. apply_unified_diff [''w''] demo_patch demo_files = (Inr a, fs')
     \<and> fs' [''w'', ''f''] = Some (File (demo_text [''a'', ''c'']))
     \<and> fs' [''w'', ''g''] = Some (File (demo_text [''y'']))
     \<and> (\<exists>rp. \<forall>q. fs' q = (case section_for demo_files rp (parse_unified_diff demo_patch) q of
                        None \<Rightarrow> demo_files q | Some fp \<Rightarrow> patched_content demo_files q fp))"
proof -
  obtain r fs' where run: "apply_unified_diff [''w''] demo_patch demo_files = (r, fs')" by fastforce
  have "(case fst (apply_unified_diff [''w''] demo_patch demo_files) of Inl e \<Rightarrow> False | Inr a \<Rightarrow> pa_applied a)"
    by code_simp
  with run obtain a where a: "r = Inr a" "pa_applied a" by (auto split: sum.splits)
  have "snd (apply_unified_diff [''w''] demo_patch demo_files) [''w'', ''f''] = Some (File (demo_text [''a'', ''c'']))"
    "snd (apply_unified_diff [''w''] demo_patch demo_files) [''w'', ''g''] = Some (File (demo_text [''y'']))"
    by code_simp+
  with run a patch_applied_files [OF run [unfolded a(1)] a(2)] show ?thesis by auto
qed

lemma stopped_patch:
  assumes "apply_unified_diff root patch fs = (r, fs')"
    and "\<And>rp fp. resolve fs root = Inr rp \<Longrightarrow> fp \<in> set (parse_unified_diff patch) \<Longrightarrow>
           path_exists fs (rp @ path_parts (fp_path fp))"
    and "\<And>a. r = Inr a \<Longrightarrow> \<not> pa_applied a"
  shows "fs' = fs"
  using assms(1)
proof (cases rule: apply_unified_diff_cases)
  case (written rp ws j)
  have "target_of fs rp w \<noteq> None" if "w \<in> set ws" for w
  proof -
    from that written(3) obtain fp where "fp \<in> set (parse_unified_diff patch)" "plan_ok fs rp fp w"
      by (metis in_set_conv_nth list_all2_conv_all_nth)
    then show ?thesis using assms(2) [OF written(1)] by (auto simp: plan_ok_def target_of_def path_exists_def)
  qed
  then show ?thesis using written(6) assms(3) by auto
qed

text \<open>
  A patch that is not applied changes nothing. When every section names a path that can be
  opened as it is written, a blocked patch and a patch that raises both leave every file as it
  was; a file is never left half patched.
\<close>

theorem patch_all_or_nothing:
  assumes "apply_unified_diff root patch fs = (r, fs')"
    and "\<And>rp fp. resolve fs root = Inr rp \<Longrightarrow> fp \<in> set (parse_unified_diff patch) \<Longrightarrow>
           path_exists fs (rp @ path_parts (fp_path fp))"
    and "\<And>a. r = Inr a \<Longrightarrow> \<not> pa_applied a"
  shows "fs' = fs"
  using assms by (rule stopped_patch)

theorem patch_all_or_nothing_witness:
  "\<exists>r. apply_unified_diff [''w''] (demo_patch @ demo_text [''--- a/g'', ''+++ b/g'', ''@@ -1 +1 @@'', ''-z'', ''+y'']) demo_files
     = (r, demo_files)"
proof -
  let ?p = "demo_patch @ demo_text [''--- a/g'', ''+++ b/g'', ''@@ -1 +1 @@'', ''-z'', ''+y'']"
  obtain r fs' where run: "apply_unified_diff [''w''] ?p demo_files = (r, fs')" by fastforce
  have rp: "resolve demo_files [''w''] = Inr [''w'']" by code_simp
  have "(case fst (apply_unified_diff [''w''] ?p demo_files) of Inl e \<Rightarrow> False | Inr a \<Rightarrow> \<not> pa_applied a)"
    by code_simp
  then have blocked: "\<And>a. r = Inr a \<Longrightarrow> \<not> pa_applied a" using run by (auto split: sum.splits)
  have "list_all (\<lambda>fp. path_exists demo_files ([''w''] @ path_parts (fp_path fp))) (parse_unified_diff ?p)"
    by code_simp
  then have exist: "path_exists demo_files (rp @ path_parts (fp_path fp))"
    if "resolve demo_files [''w''] = Inr rp" "fp \<in> set (parse_unified_diff ?p)" for rp fp
    using that unfolding rp list_all_iff sum.inject by blast
  from patch_all_or_nothing [OF run exist blocked] run show ?thesis by blast
qed

text \<open>
  C13: a patch never reaches outside the workspace. Whatever the diff says (\<open>..\<close> components,
  absolute paths, links that lead out) and however the run ends, every file that changed lies
  under the resolved root, and no file, directory or link appears or disappears.
\<close>

theorem patch_confined:
  "same_shape fs (snd (apply_unified_diff root patch fs))
   \<and> (\<forall>q. snd (apply_unified_diff root patch fs) q = fs q
        \<or> (\<exists>rp. resolve fs root = Inr rp \<and> is_relative_to q rp))"
proof -
  obtain r fs' where run: "apply_unified_diff root patch fs = (r, fs')" by fastforce
  then have "same_shape fs fs' \<and> (\<forall>q. fs' q = fs q \<or> (\<exists>rp. resolve fs root = Inr rp \<and> is_relative_to q rp))"
  proof (cases rule: apply_unified_diff_cases)
    case unchanged
    then show ?thesis by (simp add: same_shape_refl)
  next
    case (written rp ws j)
    have "same_shape fs fs'" using fold_put_shape [OF written(3) same_shape_refl] written(5) by simp
    moreover have "is_relative_to q rp" if "fs' q \<noteq> fs q" for q
      using fold_put_changed [OF written(3), of fs q] that written(5) plan_ok_target
      by (auto simp: target_of_def)
    ultimately show ?thesis using written(1) by blast
  qed
  with run show ?thesis by simp
qed

text \<open>
  C14: rolling back the journal of an applied patch restores the workspace exactly: every file has
  the bytes it had before the patch, whatever the patch did to it and however often, and the
  result reports every changed file as restored.
\<close>

theorem rollback_undoes_patch:
  assumes "apply_unified_diff root patch fs = (Inr a, fs')" "pa_journal a = Some j" "rooted fs" "pa_applied a"
  shows "rollback j fs' = (Inr \<lparr>rb_rolled_back = True, rb_restored_files = pa_changed_files a, rb_blocker = None\<rparr>, fs)"
  using assms by (rule undone_patch)

theorem rollback_undoes_patch_witness:
  "\<exists>a j fs' r. apply_unified_diff [''w''] demo_patch demo_files = (Inr a, fs') \<and> fs' \<noteq> demo_files
     \<and> pa_journal a = Some j \<and> rollback j fs' = (Inr r, demo_files) \<and> rb_restored_files r = [''f'', ''link'']"
proof -
  obtain r fs' where run: "apply_unified_diff [''w''] demo_patch demo_files = (r, fs')" by fastforce
  have "(case fst (apply_unified_diff [''w''] demo_patch demo_files) of Inl e \<Rightarrow> False
     | Inr a \<Rightarrow> pa_applied a \<and> pa_journal a \<noteq> None \<and> pa_changed_files a = [''f'', ''link''])" by code_simp
  with run obtain a j where a: "r = Inr a" "pa_applied a" "pa_journal a = Some j" "pa_changed_files a = [''f'', ''link'']"
    by (auto split: sum.splits)
  have "snd (apply_unified_diff [''w''] demo_patch demo_files) [''w'', ''f''] \<noteq> demo_files [''w'', ''f'']" by code_simp
  then have "fs' \<noteq> demo_files" using run by auto
  moreover have "rooted demo_files" by (auto simp: rooted_def demo_files_def)
  ultimately show ?thesis
    using rollback_undoes_patch [OF run [unfolded a(1)] a(3) _ a(2)] run a by auto
qed

end
