(* ===== verification/Diff_Apply.thy ===== *)
theory Diff_Apply
  imports Patch_Properties Approvals Json
begin

text \<open>
  Applying an approved diff proposal: \<open>apply_approved_diff_proposal\<close> of
  \<open>vad/repo/diff_workflow.py\<close> and \<open>DiffProposalService.apply\<close> of
  \<open>vad/server/api/diff_proposals.py\<close>. The state is the server's world together with the file
  system of the workspace. \<open>sha256_bytes\<close> is \<open>hashlib.sha256(...).hexdigest()\<close> on bytes.
\<close>

type_synonym site = "world \<times> filesystem"

definition on_world :: "(world, 'a) proc \<Rightarrow> (site, 'a) proc" where
  "on_world m s = (case m (fst s) of (r, w) \<Rightarrow> (r, (w, snd s)))"

definition on_files :: "'a io \<Rightarrow> (site, 'a) proc" where
  "on_files m s = (case m (snd s) of (r, fs) \<Rightarrow> (r, (fst s, fs)))"

definition file_digests :: "(pystr \<Rightarrow> pystr) \<Rightarrow> path \<Rightarrow> pystr list \<Rightarrow> (pystr \<times> pystr) list io" where
  "file_digests sha256_bytes root changed_files =
     andthen (each_proc (\<lambda>p. andthen (\<lambda>fs. (resolve fs (join_path root p), fs)) (\<lambda>target.
         if \<not> is_relative_to target root then throw (ValueError ''not in the subpath'')
         else andthen (read_bytes target) (\<lambda>b. ret (p, sha256_bytes b)))) changed_files) (\<lambda>kvs.
     ret (fold (\<lambda>(k, v). dict_set k v) kvs []))"

definition apply_record ::
    "diff_proposal \<Rightarrow> policy_decision \<Rightarrow> policy_decision \<Rightarrow> bool \<Rightarrow> pystr list \<Rightarrow> pystr option
     \<Rightarrow> (pystr \<times> pystr) list \<Rightarrow> pystr option \<Rightarrow> (world, diff_apply_record) proc" where
  "apply_record p verifier guardian applied files before after blocker =
     andthen utc_text (\<lambda>created.
     lift_result (parse_diff_apply_record
       \<lparr>da_proposal_id = dp_proposal_id p, da_run_id = dp_run_id p, da_task_id = dp_task_id p,
        da_applied = applied, da_changed_files = files, da_verifier_decision = verifier,
        da_release_guardian_decision = guardian, da_before_digest = before,
        da_after_file_digests = after, da_blocker = blocker, da_created_at = created\<rparr>))"

text \<open>The text of the blocker when the rollback of a mismatching patch fails.\<close>

definition mismatch_blocker :: "rollback_result \<Rightarrow> pystr" where
  "mismatch_blocker r =
     (let b = ''applied files do not match approved proposal'' in
      if rb_rolled_back r then b
      else b @ ''; rollback failed: '' @ (case rb_blocker r of None \<Rightarrow> ''None'' | Some m \<Rightarrow> m))"

definition apply_approved_diff_proposal ::
    "(pystr \<Rightarrow> pystr) \<Rightarrow> path \<Rightarrow> diff_proposal \<Rightarrow> policy_decision \<Rightarrow> policy_decision
     \<Rightarrow> (site, diff_apply_record) proc" where
  "apply_approved_diff_proposal sha256_bytes root p verifier guardian =
     (let record = (\<lambda>applied files before after blocker.
            on_world (apply_record p verifier guardian applied files before after blocker)) in
      case approval_blocker verifier guardian of
        Some denial \<Rightarrow> record False [] None [] (Some denial)
      | None \<Rightarrow>
          andthen (on_files (apply_unified_diff root (dp_patch_text p))) (\<lambda>result.
          if \<not> pa_applied result \<or> pa_journal result = None
          then record False [] None [] (pa_blocker result)
          else (let journal = the (pa_journal result); files = sort (pa_changed_files result) in
            if files \<noteq> sort (dp_changed_files p)
            then andthen (on_files (rollback journal)) (\<lambda>undo.
                 record False files (Some (patch_digest sha256_bytes journal)) [] (Some (mismatch_blocker undo)))
            else andthen (on_files (\<lambda>fs. (resolve fs root, fs))) (\<lambda>root_path.
                 andthen (on_files (file_digests sha256_bytes root_path files)) (\<lambda>after.
                 record True files (Some (patch_digest sha256_bytes journal)) after None)))))"

section \<open>The service\<close>

record diff_apply_result =
  dx_status_code :: int
  dx_proposal :: "diff_proposal option"
  dx_apply_record :: "diff_apply_record option"
  dx_decision :: policy_decision

definition proposal_not_found :: "pystr \<Rightarrow> diff_apply_result" where
  "proposal_not_found k =
     \<lparr>dx_status_code = 404, dx_proposal = None, dx_apply_record = None,
      dx_decision = denied [''diff proposal '' @ k @ '' not found''] True\<rparr>"

definition apply_result_of :: "diff_proposal \<Rightarrow> diff_apply_record \<Rightarrow> diff_apply_result" where
  "apply_result_of updated r =
     \<lparr>dx_status_code = (if da_applied r then 200 else 409), dx_proposal = Some updated, dx_apply_record = Some r,
      dx_decision = \<lparr>allow = da_applied r,
        reasons = (if da_applied r then [''diff proposal applied''] else []),
        denials = (case da_blocker r of None \<Rightarrow> [] | Some b \<Rightarrow> if b = [] then [] else [b]),
        requires_human = \<not> da_applied r\<rparr>\<rparr>"

definition apply_proposal ::
    "(pystr \<Rightarrow> pystr) \<Rightarrow> pystr \<Rightarrow> path \<Rightarrow> policy_decision \<Rightarrow> policy_decision
     \<Rightarrow> (site, diff_apply_result) proc" where
  "apply_proposal sha256_bytes k root verifier guardian =
     andthen (on_key_error (andthen (on_world (load_diff_proposal k)) (\<lambda>p. ret (Some p))) (ret None)) (\<lambda>found.
     case found of
       None \<Rightarrow> ret (proposal_not_found k)
     | Some p \<Rightarrow>
         andthen (apply_approved_diff_proposal sha256_bytes root p verifier guardian) (\<lambda>r.
         andthen (on_world (save_diff_apply_record r)) (\<lambda>saved.
         andthen (on_world (update_diff_proposal_status (dp_proposal_id p)
                    (if da_applied r then ''applied'' else ''denied''))) (\<lambda>updated.
         ret (apply_result_of updated saved)))))"

section \<open>What reaches the files\<close>

lemma on_world_files: "snd (snd (on_world m s)) = snd s"
  by (simp add: on_world_def split: prod.splits)

lemma files_on_world: "obeys (same_on snd) (on_world m)"
  by (rule sameI) (rule on_world_files)

lemma on_files_run: "m (snd s) = (r, fs) \<Longrightarrow> on_files m s = (r, (fst s, fs))"
  by (simp add: on_files_def)

lemma read_bytes_same': "obeys (same_on id) (read_bytes p)"
  by (rule sameI) (simp add: read_bytes_same)

lemma file_digests_same: "snd (file_digests h root ps fs) = fs"
proof -
  have r: "obeys (same_on id) (\<lambda>fs. (resolve fs p, fs))" for p by (rule sameI) simp
  have "obeys (same_on id) (file_digests h root ps)"
    unfolding file_digests_def by (intro frame.effect_intros r read_bytes_same')
  from sameD [OF this, of fs] show ?thesis by (metis id_apply prod.collapse)
qed

lemma apply_record_Inr:
  "apply_record p v g applied files before after blocker w = (Inr r, w') \<Longrightarrow>
   da_applied r = applied \<and> da_changed_files r = files \<and> da_blocker r = blocker \<and> da_proposal_id r = dp_proposal_id p"
  by (auto simp: apply_record_def utc_text_def andthen_assoc)

lemma on_world_apply_record_Inr:
  "on_world (apply_record p v g applied files before after blocker) s = (Inr r, s') \<Longrightarrow>
   da_applied r = applied \<and> da_changed_files r = files \<and> da_blocker r = blocker \<and> da_proposal_id r = dp_proposal_id p
   \<and> snd s' = snd s"
  by (auto simp: on_world_def dest: apply_record_Inr split: prod.splits)

text \<open>The cases of a run that returns a record.\<close>

lemma apply_approved_cases:
  assumes run: "apply_approved_diff_proposal h root p v g (w, fs) = (Inr r, (w', fs'))"
  obtains (denied) d where "approval_blocker v g = Some d" "\<not> da_applied r" "da_blocker r = Some d" "fs' = fs"
  | (blocked) a where "approval_blocker v g = None" "apply_unified_diff root (dp_patch_text p) fs = (Inr a, fs')"
      "\<not> (pa_applied a \<and> pa_journal a \<noteq> None)" "\<not> da_applied r" "da_blocker r = pa_blocker a"
  | (undone) a fs1 j undo where "approval_blocker v g = None"
      "apply_unified_diff root (dp_patch_text p) fs = (Inr a, fs1)" "pa_applied a" "pa_journal a = Some j"
      "sort (pa_changed_files a) \<noteq> sort (dp_changed_files p)" "rollback j fs1 = (Inr undo, fs')"
      "\<not> da_applied r" "da_blocker r = Some (mismatch_blocker undo)"
  | (applied) a j where "approval_blocker v g = None"
      "apply_unified_diff root (dp_patch_text p) fs = (Inr a, fs')" "pa_applied a" "pa_journal a = Some j"
      "sort (pa_changed_files a) = sort (dp_changed_files p)" "da_applied r"
      "da_changed_files r = sort (pa_changed_files a)"
proof (cases "approval_blocker v g")
  case (Some d)
  with run on_world_apply_record_Inr show ?thesis
    by (intro denied) (fastforce simp: apply_approved_diff_proposal_def)+
next
  case None
  obtain x fs1 where x: "apply_unified_diff root (dp_patch_text p) fs = (x, fs1)" by fastforce
  with run None obtain a where a: "x = Inr a"
    by (cases x) (auto simp: apply_approved_diff_proposal_def on_files_def andthen_def)
  note x = x [unfolded a]
  have step: "andthen (on_files (apply_unified_diff root (dp_patch_text p))) k (w, fs) = k a (w, fs1)" for k
    using x by (simp add: andthen_def on_files_def)
  show ?thesis
  proof (cases "pa_applied a \<and> pa_journal a \<noteq> None")
    case False
    with run None have "on_world (apply_record p v g False [] None [] (pa_blocker a)) (w, fs1) = (Inr r, (w', fs'))"
      by (auto simp: apply_approved_diff_proposal_def step)
    from on_world_apply_record_Inr [OF this] None x False show ?thesis by (intro blocked) auto
  next
    case True
    then obtain j where j: "pa_journal a = Some j" "pa_applied a" by auto
    show ?thesis
    proof (cases "sort (pa_changed_files a) = sort (dp_changed_files p)")
      case False
      with run None j have "andthen (on_files (rollback j)) (\<lambda>undo. on_world (apply_record p v g False
          (sort (pa_changed_files a)) (Some (patch_digest h j)) [] (Some (mismatch_blocker undo)))) (w, fs1)
        = (Inr r, (w', fs'))"
        by (simp add: apply_approved_diff_proposal_def step Let_def)
      then obtain undo fs2 where b: "rollback j fs1 = (Inr undo, fs2)"
        "on_world (apply_record p v g False (sort (pa_changed_files a)) (Some (patch_digest h j)) []
           (Some (mismatch_blocker undo))) (w, fs2) = (Inr r, (w', fs'))"
        by (auto simp: on_files_def elim!: andthen_InrE split: prod.splits)
      from on_world_apply_record_Inr [OF b(2)] None x j False b(1) show ?thesis by (intro undone) auto
    next
      case same: True
      with run None j have "andthen (on_files (\<lambda>fs. (resolve fs root, fs))) (\<lambda>rp.
          andthen (on_files (file_digests h rp (sort (pa_changed_files a)))) (\<lambda>after.
          on_world (apply_record p v g True (sort (pa_changed_files a)) (Some (patch_digest h j)) after None))) (w, fs1)
        = (Inr r, (w', fs'))"
        by (simp add: apply_approved_diff_proposal_def step Let_def)
      then obtain rp after fs2 where d: "file_digests h rp (sort (pa_changed_files a)) fs1 = (Inr after, fs2)"
        "on_world (apply_record p v g True (sort (pa_changed_files a)) (Some (patch_digest h j)) after None) (w, fs2)
         = (Inr r, (w', fs'))"
        by (auto simp: on_files_def elim!: andthen_InrE split: prod.splits)
      have "fs2 = fs1" using file_digests_same d(1) by (metis snd_conv)
      with on_world_apply_record_Inr [OF d(2)] None x j same show ?thesis by (intro applied) auto
    qed
  qed
qed

lemma approval_blocker_None: "approval_blocker v g = None \<longleftrightarrow> allow v \<and> allow g"
  by (simp add: approval_blocker_def)

lemma apply_unified_diff_blocked:
  "apply_unified_diff root patch fs = (Inr a, fs') \<Longrightarrow> \<not> (pa_applied a \<and> pa_journal a \<noteq> None) \<Longrightarrow> fs' = fs"
  by (erule apply_unified_diff_cases) (auto split: if_splits)

definition files_as_approved :: "filesystem \<Rightarrow> path \<Rightarrow> diff_proposal \<Rightarrow> filesystem \<Rightarrow> bool" where
  "files_as_approved fs root p fs' =
     (sort (map fp_path (parse_unified_diff (dp_patch_text p))) = sort (dp_changed_files p)
      \<and> (\<exists>rp. resolve fs root = Inr rp
           \<and> (\<forall>q. fs' q = (case section_for fs rp (parse_unified_diff (dp_patch_text p)) q of
                              None \<Rightarrow> fs q
                            | Some fp \<Rightarrow> patched_content fs q fp))))"

lemma apply_approved_outcome:
  assumes run: "apply_approved_diff_proposal h root p v g (w, fs) = (Inr r, (w', fs'))" and fs: "rooted fs"
  shows "if da_applied r then allow v \<and> allow g \<and> files_as_approved fs root p fs' else fs' = fs"
  using run
proof (cases rule: apply_approved_cases)
  case (blocked a)
  with apply_unified_diff_blocked show ?thesis by simp
next
  case (undone a fs1 j undo)
  with undone_patch [OF undone(2,4) fs undone(3)] show ?thesis by simp
next
  case (applied a j)
  with applied_patch [OF applied(2,3)] show ?thesis
    by (auto simp: files_as_approved_def approval_blocker_None)
qed simp

lemma save_diff_apply_record_stored:
  "save_diff_apply_record r w = (Inr r', w') \<Longrightarrow> r' = r \<and> r \<in> ay_record ` set (w_applies w')"
  by (auto simp: save_diff_apply_record_def insert_row_def tbl_insert_def elim!: andthen_InrE
      split: if_splits option.splits)

lemma update_diff_proposal_status_applies:
  "update_diff_proposal_status k status w = (r, w') \<Longrightarrow> w_applies w' = w_applies w"
  by (auto simp: update_diff_proposal_status_def load_diff_proposal_def migrate_def andthen_def split: sum.splits if_splits)

section \<open>The approved workflow\<close>

definition demo_proposal :: diff_proposal where
  "demo_proposal =
     \<lparr>dp_proposal_id = ''p1'', dp_run_id = ''r1'', dp_task_id = ''t1'', dp_submitted_by = ''bob'', dp_role = ''builder'',
      dp_patch_text = demo_patch, dp_patch_digest = replicate 64 CHR ''0'', dp_changed_files = [''f'', ''link''],
      dp_created_at = ''now'', dp_summary = ''s''\<rparr>"

definition demo_site :: site where
  "demo_site =
     ((fresh_world (\<lambda>n. 0) (\<lambda>n. ''u''))
        \<lparr>w_user_version := 10,
         w_diffs := [\<lparr>dr_proposal = demo_proposal, dr_status = ''proposed'', dr_created_at = ''now''\<rparr>]\<rparr>, demo_files)"



end
