(* ===== verification/Contracts.thy ===== *)
theory Contracts
  imports Json "HOL-Library.Multiset"
begin

text \<open>
  The execution contract (EIP) of \<open>vad/contracts/models.py\<close>, its normal form
  (\<open>contracts/normalize.py\<close>) and the diff of two contracts (\<open>contracts/diff.py\<close>).
  The one float, \<open>max_cost\<close>, is its \<open>repr\<close>.
\<close>

section \<open>The model\<close>

datatype risk_tier = Risk_Low | Risk_Medium | Risk_High

fun risk_tier_value :: "risk_tier \<Rightarrow> pystr" where
  "risk_tier_value Risk_Low = ''low''"
| "risk_tier_value Risk_Medium = ''medium''"
| "risk_tier_value Risk_High = ''high''"

datatype autonomy_tier = Manual | Assisted | Bounded | Autonomous

fun autonomy_tier_value :: "autonomy_tier \<Rightarrow> pystr" where
  "autonomy_tier_value Manual = ''manual''"
| "autonomy_tier_value Assisted = ''assisted''"
| "autonomy_tier_value Bounded = ''bounded''"
| "autonomy_tier_value Autonomous = ''autonomous''"

datatype proof_kind =
    Pk_Unit | Pk_Property | Pk_Contract | Pk_Security | Pk_Performance | Pk_Policy | Pk_Release
  | Pk_Telemetry | Pk_Manual_Gate

fun proof_kind_value :: "proof_kind \<Rightarrow> pystr" where
  "proof_kind_value Pk_Unit = ''unit''"
| "proof_kind_value Pk_Property = ''property''"
| "proof_kind_value Pk_Contract = ''contract''"
| "proof_kind_value Pk_Security = ''security''"
| "proof_kind_value Pk_Performance = ''performance''"
| "proof_kind_value Pk_Policy = ''policy''"
| "proof_kind_value Pk_Release = ''release''"
| "proof_kind_value Pk_Telemetry = ''telemetry''"
| "proof_kind_value Pk_Manual_Gate = ''manual_gate''"

record goal =
  gl_description :: pystr
  gl_success_criteria :: "pystr list"

record proof_obligation =
  po_id :: pystr
  po_kind :: proof_kind
  po_description :: pystr

record invariants =
  in_security :: "pystr list"
  in_performance :: "pystr list"
  in_functional :: "pystr list"

record constraints =
  co_security :: "pystr list"
  co_privacy :: "pystr list"
  co_operational :: "pystr list"

record tool_permissions =
  tp_allowed :: "pystr list"
  tp_denied :: "pystr list"

record memory_requirement =
  mr_scope :: pystr
  mr_purpose :: pystr
  mr_max_payload_size :: int

record model_budget =
  mb_max_tokens :: int
  mb_max_cost :: pystr
  mb_max_loop_depth :: int

record release_requirements =
  rl_required :: bool
  rl_strategy :: "pystr option"
  rl_gates :: "pystr list"

record telemetry_requirements =
  tl_required :: bool
  tl_signals :: "pystr list"

record eip =
  eip_version :: pystr
  eip_name :: pystr
  eip_goal :: goal
  eip_non_goals :: "pystr list"
  eip_risk_tier :: risk_tier
  eip_autonomy_tier :: autonomy_tier
  eip_scope_boundaries :: "pystr list"
  eip_invariants :: invariants
  eip_constraints :: constraints
  eip_proof_obligations :: "proof_obligation list"
  eip_tool_permissions :: tool_permissions
  eip_memory_requirements :: "memory_requirement list"
  eip_model_budget :: model_budget
  eip_release_requirements :: release_requirements
  eip_telemetry_requirements :: telemetry_requirements

text \<open>The pattern \<open>^\d+\.\d+\.\d+$\<close>.\<close>

definition all_digits :: "pystr \<Rightarrow> bool" where
  "all_digits s = (s \<noteq> [] \<and> list_all (\<lambda>c. c \<in> set ''0123456789'') s)"

definition semantic_version :: "pystr \<Rightarrow> bool" where
  "semantic_version s = (case py_split (CHR ''.'') s of [a, b, c] \<Rightarrow> list_all all_digits [a, b, c] | _ \<Rightarrow> False)"

text \<open>A float that is not negative: its \<open>repr\<close> has no sign, but \<open>-0.0\<close>, and it is not \<open>nan\<close>.\<close>

definition float_not_negative :: "pystr \<Rightarrow> bool" where
  "float_not_negative r = (r = ''-0.0'' \<or> (\<not> is_prefix_of ''-'' r \<and> r \<noteq> ''nan''))"

definition valid_eip :: "eip \<Rightarrow> bool" where
  "valid_eip e =
     (semantic_version (eip_version e)
      \<and> list_all (\<lambda>m. 1 \<le> mr_max_payload_size m) (eip_memory_requirements e)
      \<and> 0 \<le> mb_max_tokens (eip_model_budget e) \<and> float_not_negative (mb_max_cost (eip_model_budget e))
      \<and> 1 \<le> mb_max_loop_depth (eip_model_budget e)
      \<and> \<not> (rl_required (eip_release_requirements e) \<and> \<not> tl_required (eip_telemetry_requirements e)))"

definition parse_eip :: "eip \<Rightarrow> exn + eip" where
  "parse_eip e = (if valid_eip e then Inr e else Inl (ValidationError ''EIP''))"

section \<open>Normal form\<close>

definition json_texts :: "pystr list \<Rightarrow> json" where
  "json_texts xs = J_List (map J_Str xs)"

definition obligation_json :: "proof_obligation \<Rightarrow> json" where
  "obligation_json o' =
     J_Dict [(''id'', J_Str (po_id o')), (''kind'', J_Str (proof_kind_value (po_kind o'))),
       (''description'', J_Str (po_description o'))]"

definition memory_json :: "memory_requirement \<Rightarrow> json" where
  "memory_json m =
     J_Dict [(''scope'', J_Str (mr_scope m)), (''purpose'', J_Str (mr_purpose m)),
       (''max_payload_size'', J_Int (mr_max_payload_size m))]"

definition obligation_key :: "proof_obligation \<Rightarrow> pystr \<times> pystr \<times> pystr" where
  "obligation_key o' = (po_id o', proof_kind_value (po_kind o'), po_description o')"

definition memory_key :: "memory_requirement \<Rightarrow> pystr \<times> pystr \<times> int" where
  "memory_key m = (mr_scope m, mr_purpose m, mr_max_payload_size m)"

definition normalize_eip :: "eip \<Rightarrow> json" where
  "normalize_eip e = J_Dict
    [(''version'', J_Str (eip_version e)),
     (''name'', J_Str (eip_name e)),
     (''goal'', J_Dict [(''description'', J_Str (gl_description (eip_goal e))),
        (''success_criteria'', json_texts (gl_success_criteria (eip_goal e)))]),
     (''non_goals'', json_texts (sort (eip_non_goals e))),
     (''risk_tier'', J_Str (risk_tier_value (eip_risk_tier e))),
     (''autonomy_tier'', J_Str (autonomy_tier_value (eip_autonomy_tier e))),
     (''scope_boundaries'', json_texts (sort (eip_scope_boundaries e))),
     (''invariants'', J_Dict [(''security'', json_texts (sort (in_security (eip_invariants e)))),
        (''performance'', json_texts (sort (in_performance (eip_invariants e)))),
        (''functional'', json_texts (sort (in_functional (eip_invariants e))))]),
     (''constraints'', J_Dict [(''security'', json_texts (sort (co_security (eip_constraints e)))),
        (''privacy'', json_texts (sort (co_privacy (eip_constraints e)))),
        (''operational'', json_texts (sort (co_operational (eip_constraints e))))]),
     (''proof_obligations'', J_List (map obligation_json (sort_key obligation_key (eip_proof_obligations e)))),
     (''tool_permissions'', J_Dict [(''allowed'', json_texts (sort (tp_allowed (eip_tool_permissions e)))),
        (''denied'', json_texts (sort (tp_denied (eip_tool_permissions e))))]),
     (''memory_requirements'', J_List (map memory_json (sort_key memory_key (eip_memory_requirements e)))),
     (''model_budget'', J_Dict [(''max_tokens'', J_Int (mb_max_tokens (eip_model_budget e))),
        (''max_cost'', J_Float (mb_max_cost (eip_model_budget e))),
        (''max_loop_depth'', J_Int (mb_max_loop_depth (eip_model_budget e)))]),
     (''release_requirements'', J_Dict [(''required'', J_Bool (rl_required (eip_release_requirements e))),
        (''strategy'', opt_json J_Str (rl_strategy (eip_release_requirements e))),
        (''gates'', json_texts (sort (rl_gates (eip_release_requirements e))))]),
     (''telemetry_requirements'', J_Dict [(''required'', J_Bool (tl_required (eip_telemetry_requirements e))),
        (''signals'', json_texts (sort (tl_signals (eip_telemetry_requirements e))))])]"

section \<open>Diff\<close>

datatype eip_change =
    Added pystr json
  | Removed pystr json
  | Changed pystr json json

text \<open>
  \<open>old == new\<close> when not both are dicts and not both are lists. \<open>True == 1\<close>, and the two zeros
  are equal; an int and a float never meet at the same place of two contracts.
\<close>

fun scalar_equal :: "json \<Rightarrow> json \<Rightarrow> bool" where
  "scalar_equal (J_Float a) (J_Float b) =
     (a \<noteq> ''nan'' \<and> (a = b \<or> (a \<in> {''0.0'', ''-0.0''} \<and> b \<in> {''0.0'', ''-0.0''})))"
| "scalar_equal (J_Bool a) (J_Int i) = (i = (if a then 1 else 0))"
| "scalar_equal (J_Int i) (J_Bool a) = (i = (if a then 1 else 0))"
| "scalar_equal a b = (a = b)"

definition join_key :: "pystr \<Rightarrow> pystr \<Rightarrow> pystr" where
  "join_key prefix key = (if prefix = [] then key else prefix @ ''.'' @ key)"

definition index_path :: "pystr \<Rightarrow> nat \<Rightarrow> pystr" where
  "index_path path i = path @ ''['' @ show_nat i @ '']''"

lemma map_of_size: "Some v = map_of kvs k \<Longrightarrow> size v < Suc (size_list (size_prod (\<lambda>x. 0) size) kvs)"
proof -
  assume "Some v = map_of kvs k"
  then have "map_of kvs k = Some v" by simp
  then have "(k, v) \<in> set kvs" by (rule map_of_SomeD)
  then have "size_prod (\<lambda>_. 0) size (k, v) \<le> size_list (size_prod (\<lambda>_. 0) size) kvs"
    by (rule size_list_estimation') simp
  then show ?thesis by simp
qed

text \<open>One key of two dicts, one index of two lists; \<open>index\<close> counts from the front.\<close>

function diff_values :: "pystr \<Rightarrow> json \<Rightarrow> json \<Rightarrow> eip_change list"
  and diff_items :: "pystr \<Rightarrow> nat \<Rightarrow> json list \<Rightarrow> json list \<Rightarrow> eip_change list" where
  "diff_values path old new =
     (case (old, new) of
        (J_Dict xs, J_Dict ys) \<Rightarrow>
          concat (map (\<lambda>key. let next_path = join_key path key in
              case (map_of xs key, map_of ys key) of
                (None, None) \<Rightarrow> []
              | (None, Some v) \<Rightarrow> [Added next_path v]
              | (Some u, None) \<Rightarrow> [Removed next_path u]
              | (Some u, Some v) \<Rightarrow> diff_values next_path u v)
            (sorted_set (map fst xs @ map fst ys)))
      | (J_List xs, J_List ys) \<Rightarrow> diff_items path 0 xs ys
      | _ \<Rightarrow> if scalar_equal old new then [] else [Changed path old new])"
| "diff_items path i [] ys = map (\<lambda>(j, y). Added (index_path path j) y) (enumerate i ys)"
| "diff_items path i (x # xs) [] = map (\<lambda>(j, y). Removed (index_path path j) y) (enumerate i (x # xs))"
| "diff_items path i (x # xs) (y # ys) =
     diff_values (index_path path i) x y @ diff_items path (Suc i) xs ys"
  by pat_completeness auto
termination
  by (relation "measure (\<lambda>v. case v of Inl (p, a, b) \<Rightarrow> size a | Inr (p, i, xs, ys) \<Rightarrow> size_list size xs)")
    (auto dest: map_of_size)

declare diff_values.simps [simp del]

definition diff_eips :: "eip \<Rightarrow> eip \<Rightarrow> eip_change list" where
  "diff_eips old new = diff_values [] (normalize_eip old) (normalize_eip new)"

text \<open>\<open>format_diff\<close>; \<open>show\<close> is \<open>str\<close> of a JSON value.\<close>

definition format_change :: "(json \<Rightarrow> pystr) \<Rightarrow> eip_change \<Rightarrow> pystr" where
  "format_change show c =
     (let at = (\<lambda>p. if p = [] then ''.'' else p) in
      case c of
        Added p new \<Rightarrow> ''added '' @ at p @ '': '' @ show new
      | Removed p old \<Rightarrow> ''removed '' @ at p @ '': '' @ show old
      | Changed p old new \<Rightarrow> ''changed '' @ at p @ '': '' @ show old @ '' -> '' @ show new)"

definition format_diff :: "(json \<Rightarrow> pystr) \<Rightarrow> eip_change list \<Rightarrow> pystr" where
  "format_diff show changes =
     (if changes = [] then ''No EIP changes.'' @ [CHR 0x0A]
      else py_join [CHR 0x0A] (map (format_change show) changes) @ [CHR 0x0A])"

section \<open>What the diff tells\<close>

text \<open>Two contracts that say the same: equal up to the order of the lists that mean sets.\<close>

definition same_amount :: "pystr \<Rightarrow> pystr \<Rightarrow> bool" where
  "same_amount a b = (a = b \<or> (a \<in> {''0.0'', ''-0.0''} \<and> b \<in> {''0.0'', ''-0.0''}))"

definition same_contract :: "eip \<Rightarrow> eip \<Rightarrow> bool" where
  "same_contract a b =
     (eip_version a = eip_version b \<and> eip_name a = eip_name b \<and> eip_goal a = eip_goal b
      \<and> mset (eip_non_goals a) = mset (eip_non_goals b)
      \<and> eip_risk_tier a = eip_risk_tier b \<and> eip_autonomy_tier a = eip_autonomy_tier b
      \<and> mset (eip_scope_boundaries a) = mset (eip_scope_boundaries b)
      \<and> mset (in_security (eip_invariants a)) = mset (in_security (eip_invariants b))
      \<and> mset (in_performance (eip_invariants a)) = mset (in_performance (eip_invariants b))
      \<and> mset (in_functional (eip_invariants a)) = mset (in_functional (eip_invariants b))
      \<and> mset (co_security (eip_constraints a)) = mset (co_security (eip_constraints b))
      \<and> mset (co_privacy (eip_constraints a)) = mset (co_privacy (eip_constraints b))
      \<and> mset (co_operational (eip_constraints a)) = mset (co_operational (eip_constraints b))
      \<and> mset (eip_proof_obligations a) = mset (eip_proof_obligations b)
      \<and> mset (tp_allowed (eip_tool_permissions a)) = mset (tp_allowed (eip_tool_permissions b))
      \<and> mset (tp_denied (eip_tool_permissions a)) = mset (tp_denied (eip_tool_permissions b))
      \<and> mset (eip_memory_requirements a) = mset (eip_memory_requirements b)
      \<and> mb_max_tokens (eip_model_budget a) = mb_max_tokens (eip_model_budget b)
      \<and> same_amount (mb_max_cost (eip_model_budget a)) (mb_max_cost (eip_model_budget b))
      \<and> mb_max_loop_depth (eip_model_budget a) = mb_max_loop_depth (eip_model_budget b)
      \<and> rl_required (eip_release_requirements a) = rl_required (eip_release_requirements b)
      \<and> rl_strategy (eip_release_requirements a) = rl_strategy (eip_release_requirements b)
      \<and> mset (rl_gates (eip_release_requirements a)) = mset (rl_gates (eip_release_requirements b))
      \<and> tl_required (eip_telemetry_requirements a) = tl_required (eip_telemetry_requirements b)
      \<and> mset (tl_signals (eip_telemetry_requirements a)) = mset (tl_signals (eip_telemetry_requirements b)))"

lemma sort_mset_iff: "sort xs = sort ys \<longleftrightarrow> mset xs = mset (ys :: 'a::linorder list)"
  by (metis mset_sort properties_for_sort sorted_sort)

lemma sort_key_mset_iff:
  assumes "inj f"
  shows "sort_key f xs = sort_key f ys \<longleftrightarrow> mset xs = mset ys"
proof
  assume "sort_key f xs = sort_key f ys"
  then show "mset xs = mset ys" by (metis mset_sort)
next
  assume eq: "mset xs = mset ys"
  have only: "filter (\<lambda>x. f k = f x) zs = replicate (count (mset zs) k) k" for k zs
    unfolding inj_eq [OF assms] by (rule replicate_count_mset_eq_filter_eq [symmetric])
  show "sort_key f xs = sort_key f ys"
    by (rule properties_for_sort_key) (simp_all add: eq only)
qed

lemma proof_kind_value_inject [simp]: "proof_kind_value a = proof_kind_value b \<longleftrightarrow> a = b"
  by (cases a; cases b; simp)

lemma risk_tier_value_inject [simp]: "risk_tier_value a = risk_tier_value b \<longleftrightarrow> a = b"
  by (cases a; cases b; simp)

lemma autonomy_tier_value_inject [simp]: "autonomy_tier_value a = autonomy_tier_value b \<longleftrightarrow> a = b"
  by (cases a; cases b; simp)

lemma inj_obligation_key: "inj obligation_key"
  by (rule injI) (simp add: obligation_key_def)

lemma inj_memory_key: "inj memory_key"
  by (rule injI) (simp add: memory_key_def)

lemma diff_scalar:
  "(\<And>xs. a \<noteq> J_Dict xs) \<Longrightarrow> (\<And>xs. a \<noteq> J_List xs) \<Longrightarrow>
   diff_values p a b = (if scalar_equal a b then [] else [Changed p a b])"
  by (subst diff_values.simps) (simp split: json.splits)

lemma diff_scalars [simp]:
  "diff_values p (J_Str a) (J_Str b) = [] \<longleftrightarrow> a = b"
  "diff_values p (J_Int i) (J_Int j) = [] \<longleftrightarrow> i = j"
  "diff_values p (J_Bool c) (J_Bool d) = [] \<longleftrightarrow> c = d"
  "diff_values p (J_Float r) (J_Float s) = [] \<longleftrightarrow> r \<noteq> ''nan'' \<and> same_amount r s"
  "diff_values p (opt_json J_Str v) (opt_json J_Str w) = [] \<longleftrightarrow> v = w"
  by (auto simp: diff_scalar same_amount_def opt_json_def split: option.splits)

lemma diff_items_Nil:
  "diff_items p i xs ys = [] \<longleftrightarrow>
   length xs = length ys \<and> (\<forall>k<length xs. diff_values (index_path p (i + k)) (xs ! k) (ys ! k) = [])"
proof (induction xs arbitrary: i ys)
  case Nil
  then show ?case by (cases ys) (auto simp: enumerate_eq_zip)
next
  case (Cons x xs)
  show ?case
  proof (cases ys)
    case Nil
    then show ?thesis by (simp add: enumerate_eq_zip)
  next
    case (Cons y zs)
    then show ?thesis by (auto simp: Cons.IH All_less_Suc2)
  qed
qed

lemma diff_lists_Nil:
  assumes "\<And>p x y. diff_values p (f x) (f y) = [] \<longleftrightarrow> x = y"
  shows "diff_values p (J_List (map f xs)) (J_List (map f ys)) = [] \<longleftrightarrow> xs = ys"
proof -
  have "diff_values p (J_List (map f xs)) (J_List (map f ys)) = diff_items p 0 (map f xs) (map f ys)"
    by (subst diff_values.simps) (simp only: prod.case json.case)
  also have "\<dots> = [] \<longleftrightarrow> length xs = length ys \<and> (\<forall>k<length xs. xs ! k = ys ! k)"
    unfolding diff_items_Nil length_map by (intro conj_cong refl all_cong) (simp add: assms)
  also have "\<dots> \<longleftrightarrow> xs = ys" by (rule list_eq_iff_nth_eq [symmetric])
  finally show ?thesis .
qed

lemma diff_texts [simp]: "diff_values p (json_texts xs) (json_texts ys) = [] \<longleftrightarrow> xs = ys"
  unfolding json_texts_def by (rule diff_lists_Nil) simp

lemma diff_dicts_Nil:
  assumes "map fst xs = map fst ys"
  shows "diff_values p (J_Dict xs) (J_Dict ys) = [] \<longleftrightarrow>
    list_all (\<lambda>k. diff_values (join_key p k) (the (map_of xs k)) (the (map_of ys k)) = []) (map fst xs)"
proof -
  have keys: "set (sorted_set (map fst xs @ map fst ys)) = set (map fst xs)" using assms by simp
  have step: "diff_values p (J_Dict xs) (J_Dict ys) =
      concat (map (\<lambda>key. case (map_of xs key, map_of ys key) of
          (None, None) \<Rightarrow> []
        | (None, Some v) \<Rightarrow> [Added (join_key p key) v]
        | (Some u, None) \<Rightarrow> [Removed (join_key p key) u]
        | (Some u, Some v) \<Rightarrow> diff_values (join_key p key) u v)
      (sorted_set (map fst xs @ map fst ys)))"
    by (subst diff_values.simps) (simp only: prod.case json.case Let_def)
  have one: "(case (map_of xs k, map_of ys k) of
          (None, None) \<Rightarrow> []
        | (None, Some v) \<Rightarrow> [Added (join_key p k) v]
        | (Some u, None) \<Rightarrow> [Removed (join_key p k) u]
        | (Some u, Some v) \<Rightarrow> diff_values (join_key p k) u v) =
      diff_values (join_key p k) (the (map_of xs k)) (the (map_of ys k))" if k: "k \<in> set (map fst xs)" for k
  proof -
    have "map_of xs k \<noteq> None" using k by (simp add: map_of_eq_None_iff)
    moreover have "map_of ys k \<noteq> None" using k unfolding assms by (simp add: map_of_eq_None_iff)
    ultimately show ?thesis by auto
  qed
  show ?thesis
    unfolding step concat_eq_Nil_conv set_map [of _ "sorted_set _"] keys list_all_iff
    by (simp only: ball_simps(9), intro ball_cong refl, subst one) simp_all
qed

lemma diff_obligations [simp]:
  "diff_values p (J_List (map obligation_json xs)) (J_List (map obligation_json ys)) = [] \<longleftrightarrow> xs = ys"
  by (rule diff_lists_Nil) (auto simp: obligation_json_def diff_dicts_Nil)

lemma diff_memory [simp]:
  "diff_values p (J_List (map memory_json xs)) (J_List (map memory_json ys)) = [] \<longleftrightarrow> xs = ys"
  by (rule diff_lists_Nil) (auto simp: memory_json_def diff_dicts_Nil)

lemma valid_eip_cost: "valid_eip e \<Longrightarrow> mb_max_cost (eip_model_budget e) \<noteq> ''nan''"
  by (auto simp: valid_eip_def float_not_negative_def)

lemma goal_eq: "(g :: goal) = h \<longleftrightarrow> gl_description g = gl_description h \<and> gl_success_criteria g = gl_success_criteria h"
  by (cases g; cases h) simp

lemma normalize_eip_equal:
  "normalize_eip a = normalize_eip b \<longleftrightarrow>
   same_contract a b \<and> mb_max_cost (eip_model_budget a) = mb_max_cost (eip_model_budget b)"
proof -
  have texts: "json_texts xs = json_texts ys \<longleftrightarrow> xs = ys" for xs ys
    by (auto simp: json_texts_def inj_map_eq_map inj_def)
  have inj: "inj obligation_json" "inj memory_json"
    by (auto intro!: injI simp: obligation_json_def memory_json_def)
  have opt: "opt_json J_Str v = opt_json J_Str w \<longleftrightarrow> v = w" for v w
    by (auto simp: opt_json_def split: option.splits)
  show ?thesis
    unfolding normalize_eip_def same_contract_def json.inject list.inject prod.inject
      texts opt inj_map_eq_map [OF inj(1)] inj_map_eq_map [OF inj(2)] sort_mset_iff
      sort_key_mset_iff [OF inj_obligation_key] sort_key_mset_iff [OF inj_memory_key]
      goal_eq [of "eip_goal a"] risk_tier_value_inject autonomy_tier_value_inject
    by (intro iffI; elim conjE; intro conjI) (assumption | rule refl | simp add: same_amount_def)+
qed

text \<open>
  C23: the diff of two contracts is empty exactly when they say the same thing: equal in every
  field, where the lists that stand for sets (non-goals, scope, invariants, constraints,
  obligations, permissions, memory, gates, signals) may be in any order, and the success criteria
  may not.
\<close>

theorem diff_empty_iff:
  assumes "valid_eip old"
  shows "diff_eips old new = [] \<longleftrightarrow> same_contract old new"
  using valid_eip_cost [OF assms]
  by (simp add: diff_eips_def normalize_eip_def diff_dicts_Nil same_contract_def goal_eq sort_mset_iff
      sort_key_mset_iff inj_obligation_key inj_memory_key conj_ac)

definition demo_eip :: "pystr list \<Rightarrow> eip" where
  "demo_eip scope =
     \<lparr>eip_version = ''1.0.0'', eip_name = ''n'', eip_goal = \<lparr>gl_description = ''d'', gl_success_criteria = [''s'']\<rparr>,
      eip_non_goals = [], eip_risk_tier = Risk_Low, eip_autonomy_tier = Assisted, eip_scope_boundaries = scope,
      eip_invariants = \<lparr>in_security = [], in_performance = [], in_functional = [''f'']\<rparr>,
      eip_constraints = \<lparr>co_security = [], co_privacy = [], co_operational = []\<rparr>,
      eip_proof_obligations = [\<lparr>po_id = ''po-1'', po_kind = Pk_Unit, po_description = ''u''\<rparr>],
      eip_tool_permissions = \<lparr>tp_allowed = [''pytest''], tp_denied = []\<rparr>, eip_memory_requirements = [],
      eip_model_budget = \<lparr>mb_max_tokens = 10, mb_max_cost = ''1.0'', mb_max_loop_depth = 1\<rparr>,
      eip_release_requirements = \<lparr>rl_required = False, rl_strategy = None, rl_gates = []\<rparr>,
      eip_telemetry_requirements = \<lparr>tl_required = False, tl_signals = []\<rparr>\<rparr>"

theorem diff_empty_iff_witness:
  "diff_eips (demo_eip [''a'', ''b'']) (demo_eip [''b'', ''a'']) = []
   \<and> diff_eips (demo_eip [''a'']) (demo_eip [''b'']) \<noteq> []"
proof -
  have "valid_eip (demo_eip [''a'', ''b''])" "valid_eip (demo_eip [''a''])" by code_simp+
  from this [THEN diff_empty_iff] show ?thesis
    by (simp add: same_contract_def demo_eip_def same_amount_def)
qed

end
