(* ===== verification/Proof_Plan.thy ===== *)
theory Proof_Plan
  imports Contracts
begin

text \<open>
  Proof plans (\<open>vad/proof/plan.py\<close>) and the mapping of a contract's obligations to test commands
  (\<open>vad/proof/mapper.py\<close>). \<open>sha256\<close> is \<open>hashlib.sha256(...).hexdigest()\<close> on the text's bytes.
\<close>

datatype verify_status = Vs_Pass | Vs_Fail | Vs_Pending | Vs_Unmapped

record proof_mapping =
  pm_obligation_id :: pystr
  pm_test_command :: pystr

record proof_plan =
  pp_schema_version :: pystr
  pp_eip_version :: pystr
  pp_eip_digest :: pystr
  pp_mappings :: "proof_mapping list"
  pp_required_manual_gates :: "pystr list"

text \<open>\<open>reject_duplicate_mappings\<close>.\<close>

definition parse_proof_plan :: "proof_plan \<Rightarrow> exn + proof_plan" where
  "parse_proof_plan p =
     (if distinct (map pm_obligation_id (pp_mappings p)) then Inr p
      else Inl (ValidationError ''ProofPlan contains duplicate obligation mappings.''))"

fun first_mapping :: "proof_mapping list \<Rightarrow> pystr \<Rightarrow> proof_mapping option" where
  "first_mapping [] obligation_id = None"
| "first_mapping (m # ms) obligation_id =
     (if pm_obligation_id m = obligation_id then Some m else first_mapping ms obligation_id)"

definition get_mapping :: "proof_plan \<Rightarrow> pystr \<Rightarrow> proof_mapping option" where
  "get_mapping p obligation_id = first_mapping (pp_mappings p) obligation_id"

definition covers_obligation :: "proof_plan \<Rightarrow> pystr \<Rightarrow> bool" where
  "covers_obligation p obligation_id =
     (get_mapping p obligation_id \<noteq> None \<or> obligation_id \<in> set (pp_required_manual_gates p))"

definition compute_eip_digest :: "(pystr \<Rightarrow> pystr) \<Rightarrow> eip \<Rightarrow> pystr" where
  "compute_eip_digest sha256 e = sha256 (dumps_compact (normalize_eip e))"

section \<open>The mapper\<close>

fun commands_by_kind :: "proof_kind \<Rightarrow> pystr option" where
  "commands_by_kind Pk_Unit = Some ''pytest''"
| "commands_by_kind Pk_Property = Some ''pytest''"
| "commands_by_kind Pk_Contract = Some ''pytest -m contract''"
| "commands_by_kind Pk_Security = Some ''pytest -m security''"
| "commands_by_kind Pk_Performance = Some ''pytest -m performance''"
| "commands_by_kind Pk_Policy = Some ''pytest -m policy''"
| "commands_by_kind Pk_Release = Some ''pytest -m release''"
| "commands_by_kind Pk_Telemetry = Some ''pytest -m telemetry''"
| "commands_by_kind Pk_Manual_Gate = None"

definition ensure_proof_coverage :: "eip \<Rightarrow> exn + unit" where
  "ensure_proof_coverage e =
     (let invariant_count = length (in_security (eip_invariants e)) + length (in_performance (eip_invariants e))
            + length (in_functional (eip_invariants e));
          success_count = length (gl_success_criteria (eip_goal e)) in
      if (invariant_count \<noteq> 0 \<or> success_count \<noteq> 0) \<and> eip_proof_obligations e = []
      then Inl (ValueError ''EIP has success criteria or invariants but no proof obligations.'')
      else Inr ())"

text \<open>The loop over the obligations, which appends to the two lists.\<close>

fun map_obligations ::
    "proof_obligation list \<Rightarrow> proof_mapping list \<Rightarrow> pystr list \<Rightarrow> exn + (proof_mapping list \<times> pystr list)" where
  "map_obligations [] mappings gates = Inr (mappings, gates)"
| "map_obligations (o' # os) mappings gates =
     (if po_kind o' = Pk_Manual_Gate then map_obligations os mappings (gates @ [po_id o'])
      else case commands_by_kind (po_kind o') of
             None \<Rightarrow> Inl (ValueError (''Unsupported proof kind: '' @ proof_kind_value (po_kind o')))
           | Some command \<Rightarrow>
               map_obligations os (mappings @ [\<lparr>pm_obligation_id = po_id o', pm_test_command = command\<rparr>]) gates)"

definition map_proofs :: "(pystr \<Rightarrow> pystr) \<Rightarrow> eip \<Rightarrow> exn + proof_plan" where
  "map_proofs sha256 e =
     (case ensure_proof_coverage e of Inl x \<Rightarrow> Inl x
      | Inr _ \<Rightarrow> (case map_obligations (sort_key po_id (eip_proof_obligations e)) [] [] of
          Inl x \<Rightarrow> Inl x
        | Inr (mappings, gates) \<Rightarrow> parse_proof_plan
            \<lparr>pp_schema_version = ''1.0.0'', pp_eip_version = eip_version e,
             pp_eip_digest = compute_eip_digest sha256 e, pp_mappings = mappings,
             pp_required_manual_gates = gates\<rparr>))"

section \<open>What a plan covers\<close>

definition is_gate :: "proof_obligation \<Rightarrow> bool" where
  "is_gate o' = (po_kind o' = Pk_Manual_Gate)"

definition mapping_of :: "proof_obligation \<Rightarrow> proof_mapping" where
  "mapping_of o' = \<lparr>pm_obligation_id = po_id o', pm_test_command = the (commands_by_kind (po_kind o'))\<rparr>"

lemma commands_by_kind_Some: "k \<noteq> Pk_Manual_Gate \<Longrightarrow> Some (the (commands_by_kind k)) = commands_by_kind k"
  by (cases k) simp_all

lemma commands_by_kind_None: "commands_by_kind k = None \<longleftrightarrow> k = Pk_Manual_Gate"
  by (cases k) simp_all

lemma map_obligations_run:
  "map_obligations os ms gs =
   Inr (ms @ map mapping_of (filter (\<lambda>o'. \<not> is_gate o') os), gs @ map po_id (filter is_gate os))"
proof (induction os arbitrary: ms gs)
  case (Cons o' os)
  then show ?case
    by (cases "commands_by_kind (po_kind o')") (auto simp: is_gate_def mapping_of_def commands_by_kind_None)
qed simp

lemma first_mapping_None: "first_mapping ms k = None \<longleftrightarrow> k \<notin> pm_obligation_id ` set ms"
  by (induction ms) auto

definition uncovered :: "eip \<Rightarrow> bool" where
  "uncovered e =
     (eip_proof_obligations e = []
      \<and> (in_security (eip_invariants e) \<noteq> [] \<or> in_performance (eip_invariants e) \<noteq> []
         \<or> in_functional (eip_invariants e) \<noteq> [] \<or> gl_success_criteria (eip_goal e) \<noteq> []))"

lemma ensure_proof_coverage_Inr: "ensure_proof_coverage e = Inr u \<longleftrightarrow> \<not> uncovered e"
  by (auto simp: ensure_proof_coverage_def uncovered_def Let_def)

definition test_obligations :: "eip \<Rightarrow> proof_obligation list" where
  "test_obligations e = filter (\<lambda>o'. \<not> is_gate o') (sort_key po_id (eip_proof_obligations e))"

definition gate_obligations :: "eip \<Rightarrow> proof_obligation list" where
  "gate_obligations e = filter is_gate (sort_key po_id (eip_proof_obligations e))"

definition full_plan :: "(pystr \<Rightarrow> pystr) \<Rightarrow> eip \<Rightarrow> proof_plan" where
  "full_plan sha256 e =
     \<lparr>pp_schema_version = ''1.0.0'', pp_eip_version = eip_version e, pp_eip_digest = compute_eip_digest sha256 e,
      pp_mappings = map mapping_of (test_obligations e), pp_required_manual_gates = map po_id (gate_obligations e)\<rparr>"

lemma map_proofs_run:
  "map_proofs sha256 e = Inr plan \<longleftrightarrow>
   \<not> uncovered e \<and> distinct (map po_id (test_obligations e)) \<and> plan = full_plan sha256 e"
proof -
  have ids: "map pm_obligation_id (map mapping_of os) = map po_id os" for os
    by (simp add: mapping_of_def comp_def)
  show ?thesis
    unfolding map_proofs_def map_obligations_run
    using ensure_proof_coverage_Inr [of e]
    by (cases "ensure_proof_coverage e")
      (auto simp: parse_proof_plan_def full_plan_def test_obligations_def gate_obligations_def ids simp del: map_map)
qed

lemma set_test_obligations:
  "set (test_obligations e) = {o' \<in> set (eip_proof_obligations e). po_kind o' \<noteq> Pk_Manual_Gate}"
  by (auto simp: test_obligations_def is_gate_def)

lemma set_gate_obligations:
  "set (gate_obligations e) = {o' \<in> set (eip_proof_obligations e). po_kind o' = Pk_Manual_Gate}"
  by (auto simp: gate_obligations_def is_gate_def)

lemma full_plan_covered: "{k. covers_obligation (full_plan sha256 e) k} = po_id ` set (eip_proof_obligations e)"
  by (auto simp: covers_obligation_def get_mapping_def first_mapping_None full_plan_def mapping_of_def
      set_test_obligations set_gate_obligations image_iff)

text \<open>
  C24: mapping a contract to a proof plan. It succeeds exactly when the contract has obligations
  whenever it has criteria or invariants, and no two test obligations share an id; the plan then
  covers every obligation, each non-manual one by the command of its kind and each manual gate
  by name, and nothing else, and carries the digest of the contract's normal form.
\<close>

theorem map_proofs_covers:
  "case map_proofs sha256 e of
     Inl x \<Rightarrow> is_value_error x \<and> \<not> (\<not> uncovered e \<and> distinct (map po_id (test_obligations e)))
   | Inr plan \<Rightarrow> \<not> uncovered e \<and> distinct (map po_id (test_obligations e))
       \<and> {k. covers_obligation plan k} = po_id ` set (eip_proof_obligations e)
       \<and> set (pp_required_manual_gates plan) = po_id ` {o' \<in> set (eip_proof_obligations e). po_kind o' = Pk_Manual_Gate}
       \<and> (\<lambda>m. (pm_obligation_id m, Some (pm_test_command m))) ` set (pp_mappings plan)
           = (\<lambda>o'. (po_id o', commands_by_kind (po_kind o')))
               ` {o' \<in> set (eip_proof_obligations e). po_kind o' \<noteq> Pk_Manual_Gate}
       \<and> pp_eip_digest plan = compute_eip_digest sha256 e"
proof (cases "map_proofs sha256 e")
  case (Inl x)
  have "is_value_error x"
    using Inl unfolding map_proofs_def map_obligations_run
    by (auto simp: ensure_proof_coverage_def parse_proof_plan_def Let_def split: if_splits sum.splits)
  moreover have "\<not> (\<not> uncovered e \<and> distinct (map po_id (test_obligations e)))"
    using Inl map_proofs_run [of sha256 e "full_plan sha256 e"] by auto
  ultimately show ?thesis by (simp add: Inl)
next
  case (Inr plan)
  then have p: "\<not> uncovered e" "distinct (map po_id (test_obligations e))" "plan = full_plan sha256 e"
    by (simp_all add: map_proofs_run)
  have "(\<lambda>m. (pm_obligation_id m, Some (pm_test_command m))) ` set (pp_mappings plan)
      = (\<lambda>o'. (po_id o', commands_by_kind (po_kind o'))) ` set (test_obligations e)"
    unfolding p(3) full_plan_def
    by (auto simp: set_test_obligations image_image mapping_of_def intro!: image_cong commands_by_kind_Some)
  with p full_plan_covered [of sha256 e] show ?thesis
    by (simp add: Inr set_test_obligations [symmetric] set_gate_obligations [symmetric]) (simp add: full_plan_def)
qed

end
