(* ===== verification/Ask.thy ===== *)
theory Ask
  imports Proof_Plan
begin

text \<open>
  Assessing an ask (\<open>vad/ask/classifier.py\<close>, \<open>ask/questions.py\<close>) and turning the assessment
  into a contract (\<open>ask/assessment.py\<close>).
\<close>

section \<open>The assessment\<close>

datatype effort_type = Bugfix | Feature | Refactor | Greenfield | Test | Migration

record mees_budget =
  mees_minimum_score :: int
  mees_max_changed_files :: int
  mees_allow_new_dependencies :: bool
  mees_requires_justification :: bool

record ask_assessment =
  aa_summary :: pystr
  aa_ambiguity_score :: int
  aa_risk_tier :: risk_tier
  aa_autonomy_tier :: autonomy_tier
  aa_effort_type :: effort_type
  aa_required_proof_kinds :: "pystr list"
  aa_tool_needs :: "pystr list"
  aa_memory_needs :: "pystr list"
  aa_model_tier :: pystr
  aa_budget :: pystr
  aa_token_budget :: int
  aa_loop_depth :: int
  aa_release_needed :: bool
  aa_telemetry_needed :: bool
  aa_clarification_questions :: "pystr list"
  aa_mees_budget :: mees_budget

definition valid_mees_budget :: "mees_budget \<Rightarrow> bool" where
  "valid_mees_budget b =
     (0 \<le> mees_minimum_score b \<and> mees_minimum_score b \<le> 100 \<and> 1 \<le> mees_max_changed_files b)"

definition valid_assessment :: "ask_assessment \<Rightarrow> bool" where
  "valid_assessment a =
     (0 \<le> aa_ambiguity_score a \<and> aa_ambiguity_score a \<le> 100 \<and> float_not_negative (aa_budget a)
      \<and> 0 \<le> aa_token_budget a \<and> 1 \<le> aa_loop_depth a \<and> valid_mees_budget (aa_mees_budget a))"

definition parse_assessment :: "ask_assessment \<Rightarrow> exn + ask_assessment" where
  "parse_assessment a = (if valid_assessment a then Inr a else Inl (ValidationError ''AskAssessment''))"

definition blocks_autonomous_execution :: "ask_assessment \<Rightarrow> bool" where
  "blocks_autonomous_execution a = (aa_clarification_questions a \<noteq> [] \<or> aa_autonomy_tier a = Manual)"

section \<open>The classifier\<close>

text \<open>\<open>any(marker in text for marker in markers)\<close>.\<close>

definition mentions :: "pystr list \<Rightarrow> pystr \<Rightarrow> bool" where
  "mentions markers t = list_ex (\<lambda>m. contains m t) markers"

text \<open>\<open>s.split()\<close>: the maximal runs of non-space characters.\<close>

fun split_space :: "pystr \<Rightarrow> pystr list" where
  "split_space [] = []"
| "split_space (c # cs) =
     (if py_isspace c then split_space cs
      else case cs of
             [] \<Rightarrow> [[c]]
           | d # ds \<Rightarrow> (if py_isspace d then [c] # split_space cs
                       else case split_space cs of [] \<Rightarrow> [[c]] | w # ws \<Rightarrow> (c # w) # ws))"

definition summary_of :: "pystr \<Rightarrow> pystr" where
  "summary_of t = take 200 (py_join '' '' (split_space t))"

definition clarification_questions :: "pystr \<Rightarrow> pystr list" where
  "clarification_questions ask =
     (let t = py_lower ask in
      (if \<not> mentions [''so that'', ''success'', ''acceptance'', ''done when'', ''must''] t
       then [''What success criteria must be proven before this is complete?''] else [])
      @ (if \<not> mentions [''in '', ''within '', ''only '', ''scope'', ''file'', ''module'', ''service''] t
         then [''What code, service, or module boundaries define the scope?''] else [])
      @ (if mentions [''maybe'', ''somehow'', ''unclear'', ''tbd'', ''whatever''] t
         then [''Which ambiguous requirement should be resolved before autonomous work begins?''] else []))"

definition risk_of :: "pystr \<Rightarrow> risk_tier" where
  "risk_of t =
     (if mentions [''security'', ''auth'', ''payment'', ''privacy'', ''production'', ''delete'', ''migration'',
                   ''database''] t then Risk_High
      else if mentions [''api'', ''release'', ''deploy'', ''integration''] t then Risk_Medium
      else Risk_Low)"

definition effort_of :: "pystr \<Rightarrow> effort_type" where
  "effort_of t =
     (if mentions [''fix'', ''bug'', ''regression'', ''broken''] t then Bugfix
      else if mentions [''refactor'', ''cleanup'', ''simplify''] t then Refactor
      else if mentions [''test'', ''coverage'', ''spec''] t then Test
      else if mentions [''migrate'', ''migration''] t then Migration
      else if mentions [''new project'', ''from scratch'', ''greenfield''] t then Greenfield
      else Feature)"

definition autonomy_of :: "risk_tier \<Rightarrow> pystr list \<Rightarrow> pystr \<Rightarrow> autonomy_tier" where
  "autonomy_of risk questions t =
     (if questions \<noteq> [] \<or> risk = Risk_High \<or> mentions [''delete'', ''drop'', ''credential''] t then Manual
      else if risk = Risk_Medium then Bounded
      else Assisted)"

definition proof_kinds_of :: "pystr \<Rightarrow> bool \<Rightarrow> bool \<Rightarrow> pystr list" where
  "proof_kinds_of t release_needed telemetry_needed =
     sorted_set ([''unit'']
       @ (if mentions [''invariant'', ''property'', ''random'', ''fuzz''] t then [''property''] else [])
       @ (if mentions [''api'', ''contract''] t then [''contract''] else [])
       @ (if mentions [''security'', ''auth'', ''privacy''] t then [''security''] else [])
       @ (if release_needed then [''release''] else [])
       @ (if telemetry_needed then [''telemetry''] else []))"

definition tool_needs_of :: "pystr \<Rightarrow> pystr list" where
  "tool_needs_of t =
     sorted_set ([''pytest''] @ (if contains ''docker'' t then [''docker''] else [])
       @ (if contains ''git'' t then [''git''] else []))"

definition model_tier_of :: "risk_tier \<Rightarrow> pystr" where
  "model_tier_of risk = (if risk = Risk_High then ''tier2'' else ''tier1'')"

definition mees_budget_of :: "effort_type \<Rightarrow> risk_tier \<Rightarrow> mees_budget" where
  "mees_budget_of effort risk =
     \<lparr>mees_minimum_score = (if risk = Risk_High then 80 else 70),
      mees_max_changed_files = (if effort = Bugfix then 3 else 5),
      mees_allow_new_dependencies = False, mees_requires_justification = (risk = Risk_High)\<rparr>"

definition release_of :: "pystr \<Rightarrow> bool" where
  "release_of t = mentions [''deploy'', ''release'', ''production'', ''rollout''] t"

definition assessed :: "pystr \<Rightarrow> ask_assessment" where
  "assessed ask =
     (let t = py_strip ask;
          lowered = py_lower t;
          questions = clarification_questions t;
          risk = risk_of lowered;
          effort = effort_of lowered;
          autonomy = autonomy_of risk questions lowered;
          release_needed = release_of lowered;
          telemetry_needed = (release_needed \<or> risk = Risk_High) in
        \<lparr>aa_summary = summary_of t, aa_ambiguity_score = min 100 (int (length questions) * 35),
         aa_risk_tier = risk, aa_autonomy_tier = autonomy, aa_effort_type = effort,
         aa_required_proof_kinds = proof_kinds_of lowered release_needed telemetry_needed,
         aa_tool_needs = tool_needs_of lowered, aa_memory_needs = [''project''],
         aa_model_tier = model_tier_of risk,
         aa_budget = (if risk = Risk_High then ''2.0'' else ''1.0''),
         aa_token_budget = (if risk = Risk_High then 8000 else 10000),
         aa_loop_depth = (if autonomy = Manual then 1 else 3),
         aa_release_needed = release_needed, aa_telemetry_needed = telemetry_needed,
         aa_clarification_questions = questions, aa_mees_budget = mees_budget_of effort risk\<rparr>)"

definition assess_ask :: "pystr \<Rightarrow> exn + ask_assessment" where
  "assess_ask ask = parse_assessment (assessed ask)"

section \<open>The contract of an assessment\<close>

text \<open>\<open>ProofKind(value)\<close>.\<close>

definition parse_proof_kind :: "pystr \<Rightarrow> exn + proof_kind" where
  "parse_proof_kind v =
     (case find (\<lambda>k. proof_kind_value k = v)
        [Pk_Unit, Pk_Property, Pk_Contract, Pk_Security, Pk_Performance, Pk_Policy, Pk_Release, Pk_Telemetry,
         Pk_Manual_Gate] of
        None \<Rightarrow> Inl (ValidationError ''ProofObligation'')
      | Some k \<Rightarrow> Inr k)"

fun obligations_from :: "pystr \<Rightarrow> nat \<Rightarrow> pystr list \<Rightarrow> exn + proof_obligation list" where
  "obligations_from summary index [] = Inr []"
| "obligations_from summary index (kind # kinds) =
     (case parse_proof_kind kind of Inl e \<Rightarrow> Inl e
      | Inr k \<Rightarrow> (case obligations_from summary (Suc index) kinds of Inl e \<Rightarrow> Inl e
          | Inr os \<Rightarrow> Inr (\<lparr>po_id = ''po-'' @ show_nat index, po_kind = k,
                           po_description = ''Provide '' @ kind @ '' proof for: '' @ summary\<rparr> # os)))"

definition human_gate :: "nat \<Rightarrow> proof_obligation" where
  "human_gate n =
     \<lparr>po_id = ''po-'' @ show_nat n, po_kind = Pk_Manual_Gate,
      po_description = ''Human approval required before autonomous implementation.''\<rparr>"

definition contract_of :: "pystr \<Rightarrow> ask_assessment \<Rightarrow> proof_obligation list \<Rightarrow> eip" where
  "contract_of name a obligations =
     \<lparr>eip_version = ''1.0.0'', eip_name = name,
      eip_goal = \<lparr>gl_description = aa_summary a, gl_success_criteria = [''All proof obligations pass.'']\<rparr>,
      eip_non_goals = [], eip_risk_tier = aa_risk_tier a, eip_autonomy_tier = aa_autonomy_tier a,
      eip_scope_boundaries = [],
      eip_invariants = \<lparr>in_security = [], in_performance = [],
                       in_functional = [''Implementation satisfies the assessed ask.'']\<rparr>,
      eip_constraints = \<lparr>co_security = [], co_privacy = [],
                        co_operational = aa_clarification_questions a\<rparr>,
      eip_proof_obligations = obligations,
      eip_tool_permissions = \<lparr>tp_allowed = aa_tool_needs a, tp_denied = [''network'']\<rparr>,
      eip_memory_requirements =
        map (\<lambda>scope. \<lparr>mr_scope = scope, mr_purpose = ''ask assessment context'', mr_max_payload_size = 1024\<rparr>)
          (aa_memory_needs a),
      eip_model_budget = \<lparr>mb_max_tokens = aa_token_budget a, mb_max_cost = aa_budget a,
                         mb_max_loop_depth = aa_loop_depth a\<rparr>,
      eip_release_requirements =
        \<lparr>rl_required = aa_release_needed a,
         rl_strategy = (if aa_release_needed a then Some ''gated'' else None),
         rl_gates = (if aa_release_needed a then [''health''] else [])\<rparr>,
      eip_telemetry_requirements =
        \<lparr>tl_required = aa_telemetry_needed a,
         tl_signals = (if aa_telemetry_needed a then [''traces'', ''metrics''] else [])\<rparr>\<rparr>"

definition eip_from_assessment :: "pystr \<Rightarrow> ask_assessment \<Rightarrow> exn + eip" where
  "eip_from_assessment name a =
     (case obligations_from (aa_summary a) 1 (aa_required_proof_kinds a) of
        Inl e \<Rightarrow> Inl e
      | Inr os \<Rightarrow>
          parse_eip (contract_of name a
            (if aa_autonomy_tier a = Manual then os @ [human_gate (length os + 1)] else os)))"

section \<open>From the ask to the proof plan\<close>

lemma parse_proof_kind_value [simp]: "parse_proof_kind (proof_kind_value k) = Inr k"
  by (cases k) (simp_all add: parse_proof_kind_def)

definition known_kind :: "pystr \<Rightarrow> bool" where
  "known_kind v = (\<exists>k. k \<noteq> Pk_Manual_Gate \<and> proof_kind_value k = v)"

lemma known_kinds: "list_all known_kind (proof_kinds_of t r m)"
proof -
  have "known_kind ''unit''" "known_kind ''property''" "known_kind ''contract''" "known_kind ''security''"
    "known_kind ''release''" "known_kind ''telemetry''"
    unfolding known_kind_def
    by (rule exI [of _ Pk_Unit], simp) (rule exI [of _ Pk_Property], simp, rule exI [of _ Pk_Contract], simp,
      rule exI [of _ Pk_Security], simp, rule exI [of _ Pk_Release], simp, rule exI [of _ Pk_Telemetry], simp)
  then show ?thesis by (auto simp: list_all_iff proof_kinds_of_def)
qed

lemma obligations_from_known:
  "list_all known_kind kinds \<Longrightarrow> \<exists>os. obligations_from s i kinds = Inr os \<and> length os = length kinds
     \<and> map po_id os = map (\<lambda>n. ''po-'' @ show_nat n) [i..<i + length kinds]
     \<and> map (proof_kind_value \<circ> po_kind) os = kinds \<and> list_all (\<lambda>o'. \<not> is_gate o') os"
proof (induction kinds arbitrary: i)
  case (Cons kind kinds)
  from Cons.prems have "list_all known_kind kinds" by simp
  from Cons.IH [OF this, of "Suc i"] obtain os where os: "obligations_from s (Suc i) kinds = Inr os" "length os = length kinds"
    "map po_id os = map (\<lambda>n. ''po-'' @ show_nat n) [Suc i..<Suc i + length kinds]"
    "map (proof_kind_value \<circ> po_kind) os = kinds" "list_all (\<lambda>o'. \<not> is_gate o') os" by blast
  from Cons.prems obtain k where k: "k \<noteq> Pk_Manual_Gate" "proof_kind_value k = kind" by (auto simp: known_kind_def)
  have upt: "[i..<i + length (kind # kinds)] = i # [Suc i..<Suc i + length kinds]"
    using upt_conv_Cons [of i "i + length (kind # kinds)"] by simp
  have "parse_proof_kind kind = Inr k" using k(2) by auto
  then show ?case unfolding upt using os k by (auto simp: is_gate_def)
qed simp

lemma assessed_simps [simp]:
  "aa_risk_tier (assessed ask) = risk_of (py_lower (py_strip ask))"
  "aa_clarification_questions (assessed ask) = clarification_questions (py_strip ask)"
  "aa_autonomy_tier (assessed ask) =
     autonomy_of (risk_of (py_lower (py_strip ask))) (clarification_questions (py_strip ask)) (py_lower (py_strip ask))"
  "aa_required_proof_kinds (assessed ask) =
     proof_kinds_of (py_lower (py_strip ask)) (aa_release_needed (assessed ask)) (aa_telemetry_needed (assessed ask))"
  "aa_memory_needs (assessed ask) = [''project'']"
  by (simp_all add: assessed_def Let_def)

lemma assessed_telemetry: "aa_release_needed (assessed ask) \<Longrightarrow> aa_telemetry_needed (assessed ask)"
  by (auto simp: assessed_def Let_def)

lemma assessed_budget:
  "float_not_negative (aa_budget (assessed ask))" "0 \<le> aa_token_budget (assessed ask)" "1 \<le> aa_loop_depth (assessed ask)"
  by (simp_all add: assessed_def Let_def float_not_negative_def)

lemma valid_assessed: "valid_assessment (assessed ask)"
proof -
  have "valid_mees_budget (aa_mees_budget (assessed ask))"
    by (simp add: assessed_def Let_def valid_mees_budget_def mees_budget_of_def)
  moreover have "0 \<le> aa_ambiguity_score (assessed ask)" "aa_ambiguity_score (assessed ask) \<le> 100"
    by (simp_all add: assessed_def Let_def)
  ultimately show ?thesis using assessed_budget by (simp add: valid_assessment_def)
qed

lemma assess_ask_assessed [simp]: "assess_ask ask = Inr (assessed ask)"
  by (simp add: assess_ask_def parse_assessment_def valid_assessed)

lemma proof_kinds_members:
  "''release'' \<in> set (proof_kinds_of t r m) \<longleftrightarrow> r" "''telemetry'' \<in> set (proof_kinds_of t r m) \<longleftrightarrow> m"
  by (auto simp: proof_kinds_of_def)

text \<open>
  C25: any ask becomes a contract that validates and a proof plan that covers it. Assessment,
  contract and plan never fail, whatever the text. The plan covers every obligation; a high-risk
  ask, an ask that raises questions and an ask that deletes, drops or touches credentials is
  manual and its plan has a manual gate; and a plan has no manual gate otherwise. A release always
  has telemetry, and both then have their own proofs.
\<close>

theorem ask_to_proof_plan:
  "\<exists>a e plan. assess_ask ask = Inr a \<and> eip_from_assessment name a = Inr e \<and> map_proofs sha256 e = Inr plan
     \<and> valid_eip e
     \<and> {k. covers_obligation plan k} = po_id ` set (eip_proof_obligations e)
     \<and> (pp_required_manual_gates plan \<noteq> [] \<longleftrightarrow> eip_autonomy_tier e = Manual)
     \<and> (eip_autonomy_tier e = Manual \<longleftrightarrow>
          risk_of (py_lower (py_strip ask)) = Risk_High \<or> 0 < length (clarification_questions (py_strip ask))
          \<or> mentions [''delete'', ''drop'', ''credential''] (py_lower (py_strip ask)))
     \<and> (rl_required (eip_release_requirements e) \<longleftrightarrow> ''pytest -m release'' \<in> pm_test_command ` set (pp_mappings plan))
     \<and> (tl_required (eip_telemetry_requirements e) \<longleftrightarrow> ''pytest -m telemetry'' \<in> pm_test_command ` set (pp_mappings plan))"
proof -
  let ?a = "assessed ask"
  let ?manual = "aa_autonomy_tier ?a = Manual"
  obtain os where os: "obligations_from (aa_summary ?a) 1 (aa_required_proof_kinds ?a) = Inr os"
    "length os = length (aa_required_proof_kinds ?a)"
    "map po_id os = map (\<lambda>n. ''po-'' @ show_nat n) [1..<1 + length (aa_required_proof_kinds ?a)]"
    "map (proof_kind_value \<circ> po_kind) os = aa_required_proof_kinds ?a" "list_all (\<lambda>o'. \<not> is_gate o') os"
    using obligations_from_known [OF known_kinds] unfolding assessed_simps by metis
  define obs where "obs = (if ?manual then os @ [human_gate (length os + 1)] else os)"
  define e where "e = contract_of name ?a obs"
  have fields: "eip_proof_obligations e = obs" "eip_autonomy_tier e = aa_autonomy_tier ?a"
      "rl_required (eip_release_requirements e) = aa_release_needed ?a"
      "tl_required (eip_telemetry_requirements e) = aa_telemetry_needed ?a"
    by (simp_all add: e_def contract_of_def)
  have valid: "valid_eip e"
    using assessed_telemetry [of ask] assessed_budget [of ask]
    by (simp add: e_def contract_of_def valid_eip_def semantic_version_def all_digits_def)
  then have e: "eip_from_assessment name ?a = Inr e"
    unfolding eip_from_assessment_def os(1) sum.case obs_def [symmetric] e_def by (simp only: parse_eip_def if_True)
  have gate: "is_gate (human_gate n)" for n by (simp add: is_gate_def human_gate_def)
  have tests: "test_obligations e = sort_key po_id os"
    using os(5) gate by (simp add: test_obligations_def fields filter_sort obs_def list_all_iff)
  have gates: "gate_obligations e = (if ?manual then [human_gate (length os + 1)] else [])"
    using os(5) gate by (simp add: gate_obligations_def fields filter_sort obs_def list_all_iff)
  have "os \<noteq> []"
  proof -
    have "''unit'' \<in> set (aa_required_proof_kinds ?a)" by (simp add: proof_kinds_of_def)
    with os(2) show ?thesis by auto
  qed
  then have "\<not> uncovered e" by (simp add: uncovered_def fields obs_def)
  moreover have "distinct (map po_id (test_obligations e))"
  proof -
    have "distinct (map po_id os)" unfolding os(3) by (simp add: distinct_map inj_on_def)
    then show ?thesis by (simp add: tests distinct_map)
  qed
  ultimately have plan: "map_proofs sha256 e = Inr (full_plan sha256 e)" by (simp add: map_proofs_run)
  have cover: "{k. covers_obligation (full_plan sha256 e) k} = po_id ` set (eip_proof_obligations e)"
    using full_plan_covered plan by blast
  have has: "c \<in> pm_test_command ` set (pp_mappings (full_plan sha256 e)) \<longleftrightarrow> proof_kind_value k \<in> set (aa_required_proof_kinds ?a)"
    if "\<And>k'. commands_by_kind k' = Some c \<longleftrightarrow> k' = k" for c k
  proof -
    have "c \<in> pm_test_command ` set (pp_mappings (full_plan sha256 e)) \<longleftrightarrow> k \<in> po_kind ` set os"
      using os(5) that
      by (auto simp: full_plan_def tests mapping_of_def image_image list_all_iff is_gate_def image_iff)
        (metis commands_by_kind_Some option.inject option.sel)+
    also have "\<dots> \<longleftrightarrow> proof_kind_value k \<in> set (aa_required_proof_kinds ?a)"
      unfolding os(4) [symmetric] by (auto simp: image_iff)
    finally show ?thesis .
  qed
  have "commands_by_kind k = Some ''pytest -m release'' \<longleftrightarrow> k = Pk_Release" for k by (cases k) simp_all
  note release = has [OF this]
  have "commands_by_kind k = Some ''pytest -m telemetry'' \<longleftrightarrow> k = Pk_Telemetry" for k by (cases k) simp_all
  note telemetry = has [OF this]
  have manual: "eip_autonomy_tier e = Manual \<longleftrightarrow>
      risk_of (py_lower (py_strip ask)) = Risk_High \<or> clarification_questions (py_strip ask) \<noteq> []
      \<or> mentions [''delete'', ''drop'', ''credential''] (py_lower (py_strip ask))"
    by (auto simp: fields autonomy_of_def)
  have "pp_required_manual_gates (full_plan sha256 e) \<noteq> [] \<longleftrightarrow> eip_autonomy_tier e = Manual"
    by (simp add: full_plan_def gates fields)
  with e plan valid cover manual release telemetry show ?thesis
    by (simp add: fields proof_kinds_members)
qed

end
