(* ===== verification/Py_Float.thy ===== *)
theory Py_Float
  imports Prelude
begin

text \<open>
  Comparing floats. A float is its \<open>repr\<close>, a decimal such as \<open>0.95\<close>, \<open>1e-05\<close>, \<open>inf\<close> or
  \<open>nan\<close>. The \<open>repr\<close> is the shortest decimal that reads back as the float, so two floats
  compare as their decimals do; \<open>float_parts\<close> reads the decimal as \<open>m * 10 ^ e\<close>. Arithmetic
  on floats is not modelled.
\<close>

definition split_exponent :: "pystr \<Rightarrow> pystr \<times> int" where
  "split_exponent s =
     (case py_split (CHR ''e'') s of
        [m, e] \<Rightarrow> (m, (case py_int e of None \<Rightarrow> 0 | Some n \<Rightarrow> n))
      | _ \<Rightarrow> (s, 0))"

definition unsigned_parts :: "pystr \<Rightarrow> int \<times> int" where
  "unsigned_parts s =
     (case split_exponent s of (m, e) \<Rightarrow>
        (case py_split (CHR ''.'') m of
           [a, b] \<Rightarrow> (int (value_of_digits (a @ b)), e - int (length b))
         | _ \<Rightarrow> (int (value_of_digits m), e)))"

definition float_parts :: "pystr \<Rightarrow> int \<times> int" where
  "float_parts s =
     (if is_prefix_of ''-'' s then (case unsigned_parts (drop 1 s) of (m, e) \<Rightarrow> (- m, e)) else unsigned_parts s)"

definition decimal_less :: "int \<times> int \<Rightarrow> int \<times> int \<Rightarrow> bool" where
  "decimal_less a b =
     (let lo = min (snd a) (snd b) in
      fst a * 10 ^ nat (snd a - lo) < fst b * 10 ^ nat (snd b - lo))"

text \<open>\<open>a < b\<close> and \<open>a == b\<close>.\<close>

definition float_less :: "pystr \<Rightarrow> pystr \<Rightarrow> bool" where
  "float_less a b =
     (a \<noteq> ''nan'' \<and> b \<noteq> ''nan'' \<and> a \<noteq> ''inf'' \<and> b \<noteq> ''-inf''
      \<and> (a = ''-inf'' \<or> b = ''inf'' \<or> decimal_less (float_parts a) (float_parts b)))"

definition float_equal :: "pystr \<Rightarrow> pystr \<Rightarrow> bool" where
  "float_equal a b = (a \<noteq> ''nan'' \<and> (a = b \<or> (a \<in> {''0.0'', ''-0.0''} \<and> b \<in> {''0.0'', ''-0.0''})))"

text \<open>The comparison \<open>x == 0\<close> with the int zero.\<close>

definition float_is_zero :: "pystr \<Rightarrow> bool" where
  "float_is_zero a = (a \<in> {''0.0'', ''-0.0''})"

lemma float_less_examples:
  "float_less ''0.94'' ''0.95''" "\<not> float_less ''1.0'' ''0.95''" "float_less ''1e-05'' ''0.001''"
  "float_less ''-1.5'' ''0.0''" "float_less ''2.5'' ''1e+16''" "float_less ''3.0'' ''inf''" "\<not> float_less ''nan'' ''1.0''"
  by code_simp+

lemma decimal_less_irrefl [simp]: "\<not> decimal_less a a"
  by (simp add: decimal_less_def)

lemma float_less_irrefl [simp]: "\<not> float_less a a"
  by (auto simp: float_less_def)

end
