(* ===== verification/Policy_Engine.thy ===== *)
theory Policy_Engine
  imports Cp_Events Json Py_Float
begin

text \<open>
  The policy engine (\<open>vad/policy/engine.py\<close>) and the policy it evaluates
  (\<open>policies/vad.rego\<close>).

  \<open>evaluate\<close> runs the \<open>opa\<close> program, a parameter (exit code, standard output, standard error of
  a command and its input), and reads its output with \<open>json.loads\<close>, a parameter too. Everything
  above it takes an \<open>engine\<close>: the value of a query on an input, or the exception.
\<close>

type_synonym policy_input = "(pystr \<times> json) list"
type_synonym engine = "pystr \<Rightarrow> pystr \<Rightarrow> policy_input \<Rightarrow> exn + json"

text \<open>\<open>PolicyEvaluationError\<close> is a \<open>RuntimeError\<close>.\<close>

definition policy_evaluation_error :: "pystr \<Rightarrow> exn" where
  "policy_evaluation_error m = RuntimeError m"

text \<open>\<open>output["result"][0]["expressions"][0]["value"]\<close> of a dict that has \<open>"result"\<close>.\<close>

definition item_value :: "pystr \<Rightarrow> json \<Rightarrow> exn + json" where
  "item_value k v =
     (case v of J_Dict d \<Rightarrow> (case dict_get k d of None \<Rightarrow> Inl (KeyError k) | Some x \<Rightarrow> Inr x)
      | _ \<Rightarrow> Inl (TypeError ''indices must be integers''))"

definition first_item :: "json \<Rightarrow> exn + json" where
  "first_item v =
     (case v of J_List (x # _) \<Rightarrow> Inr x
      | J_List [] \<Rightarrow> Inl (KeyError ''list index out of range'')
      | J_Dict _ \<Rightarrow> Inl (KeyError ''0'')
      | _ \<Rightarrow> Inl (TypeError ''object is not subscriptable''))"

definition result_value :: "json \<Rightarrow> exn + json" where
  "result_value output =
     (case output of
        J_Dict d \<Rightarrow>
          (case dict_get ''result'' d of
             None \<Rightarrow> Inr J_Null
           | Some (J_List []) \<Rightarrow> Inr J_Null
           | Some (J_Dict []) \<Rightarrow> Inr J_Null
           | Some r \<Rightarrow>
               (case first_item r of Inl e \<Rightarrow> Inl e
                | Inr x \<Rightarrow> (case item_value ''expressions'' x of Inl e \<Rightarrow> Inl e
                    | Inr xs \<Rightarrow> (case first_item xs of Inl e \<Rightarrow> Inl e | Inr y \<Rightarrow> item_value ''value'' y))))
      | J_List _ \<Rightarrow> Inr J_Null
      | J_Str _ \<Rightarrow> Inr J_Null
      | _ \<Rightarrow> Inl (TypeError ''argument is not iterable''))"

definition evaluate ::
    "(pystr list \<Rightarrow> pystr \<Rightarrow> int \<times> pystr \<times> pystr) \<Rightarrow> (pystr \<Rightarrow> json option) \<Rightarrow> engine" where
  "evaluate opa loads policy_path query input_data =
     (case opa [''opa'', ''eval'', ''-d'', policy_path, ''-I'', query] (dumps_default (J_Dict input_data)) of
        (code, out, err) \<Rightarrow>
          (if code \<noteq> 0 then Inl (policy_evaluation_error (''OPA evaluation failed: '' @ err))
           else case loads out of
                  None \<Rightarrow> Inl (policy_evaluation_error (''Failed to parse OPA output: '' @ out))
                | Some v \<Rightarrow> result_value v))"

section \<open>Decisions\<close>

definition deny_queries :: "(pystr \<times> pystr) list" where
  "deny_queries =
     [(''data.vad.policy.deny_builder_self_approval'', ''builder may not self-approve''),
      (''data.vad.policy.deny_unauthorized_tool'', ''tool access denied''),
      (''data.vad.policy.deny_model_tier'', ''model tier denied''),
      (''data.vad.policy.deny_memory_scope'', ''memory scope denied''),
      (''data.vad.policy.deny_unauthorized_delegation'', ''delegation capability denied'')]"

definition allow_query :: pystr where
  "allow_query = ''data.vad.policy.allow''"

text \<open>The comprehension that collects the reasons of the deny rules that are \<open>True\<close>.\<close>

fun collect_denials :: "engine \<Rightarrow> pystr \<Rightarrow> policy_input \<Rightarrow> (pystr \<times> pystr) list \<Rightarrow> exn + pystr list" where
  "collect_denials ev path input [] = Inr []"
| "collect_denials ev path input ((query, reason) # qs) =
     (case ev path query input of Inl e \<Rightarrow> Inl e
      | Inr v \<Rightarrow> (case collect_denials ev path input qs of Inl e \<Rightarrow> Inl e
          | Inr ds \<Rightarrow> Inr (if v = J_Bool True then reason # ds else ds)))"

definition evaluate_decision :: "engine \<Rightarrow> pystr \<Rightarrow> policy_input \<Rightarrow> exn + policy_decision" where
  "evaluate_decision ev path input =
     (case collect_denials ev path input deny_queries of Inl e \<Rightarrow> Inl e
      | Inr ds \<Rightarrow>
          (if ds \<noteq> [] then Inr (denied ds False)
           else case ev path allow_query input of Inl e \<Rightarrow> Inl e
                | Inr v \<Rightarrow> Inr (if v = J_Bool True then allowed ''policy allow rule matched''
                               else denied [''no allow rule matched''] False)))"

definition evaluate_dependency_change :: "bool \<Rightarrow> bool \<Rightarrow> policy_decision" where
  "evaluate_dependency_change has_dependency_changes approved =
     (if has_dependency_changes \<and> \<not> approved then denied [''dependency changes require explicit approval''] True
      else allowed ''dependency change policy satisfied'')"

text \<open>An absent and an empty reference are both falsy.\<close>

definition given :: "pystr option \<Rightarrow> bool" where
  "given v = (case v of None \<Rightarrow> False | Some s \<Rightarrow> s \<noteq> [])"

definition evaluate_deployment ::
    "pystr \<Rightarrow> pystr \<Rightarrow> pystr option \<Rightarrow> int \<Rightarrow> bool \<Rightarrow> pystr option \<Rightarrow> policy_decision" where
  "evaluate_deployment action environment approval_ref telemetry_count rollback_enabled rollback_approval_ref =
     (if action = ''deploy_dry_run'' then allowed ''deployment dry-run is allowed''
      else if action = ''deploy_rollback''
      then (if \<not> given rollback_approval_ref then denied [''deployment rollback requires rollback approval''] True
            else allowed ''deployment rollback approval satisfied'')
      else if action \<noteq> ''deploy_apply'' then denied [''unsupported deployment action''] False
      else (let ds = (if environment = ''production''
                      then (if \<not> given approval_ref then [''production deployment requires approval''] else [])
                         @ (if telemetry_count \<le> 0 then [''production deployment requires telemetry''] else [])
                         @ (if \<not> rollback_enabled then [''production deployment requires rollback''] else [])
                      else [])
            in if ds \<noteq> [] then denied ds True else allowed ''deployment policy satisfied''))"

section \<open>The policy\<close>

text \<open>
  \<open>policies/vad.rego\<close>. A reference to a missing field is undefined and makes its expression,
  and so its rule body, fail; a field used alone succeeds unless it is \<open>false\<close>. Rego orders
  values of different types: null, booleans, numbers, then the rest.
\<close>

definition is_text :: "policy_input \<Rightarrow> pystr \<Rightarrow> pystr \<Rightarrow> bool" where
  "is_text input k s = (dict_get k input = Some (J_Str s))"

definition is_not_text :: "policy_input \<Rightarrow> pystr \<Rightarrow> pystr \<Rightarrow> bool" where
  "is_not_text input k s = (\<exists>v \<in> set (map snd input). dict_get k input = Some v \<and> v \<noteq> J_Str s)"

definition holds_field :: "policy_input \<Rightarrow> pystr \<Rightarrow> bool" where
  "holds_field input k = (case dict_get k input of None \<Rightarrow> False | Some v \<Rightarrow> v \<noteq> J_Bool False)"

fun rego_positive :: "json \<Rightarrow> bool" where
  "rego_positive J_Null = False"
| "rego_positive (J_Bool b) = False"
| "rego_positive (J_Int i) = (0 < i)"
| "rego_positive (J_Float r) = float_less ''0.0'' r"
| "rego_positive _ = True"

definition one_of :: "policy_input \<Rightarrow> pystr \<Rightarrow> pystr list \<Rightarrow> bool" where
  "one_of input k xs = list_ex (\<lambda>x. is_text input k x) xs"

definition rego_forbidden_capability :: "policy_input \<Rightarrow> bool" where
  "rego_forbidden_capability input =
     ((is_text input ''action'' ''use_tool'' \<and> one_of input ''tool'' [''shell'', ''network''])
      \<or> (is_text input ''action'' ''delegate'' \<and> one_of input ''capability'' [''shell'', ''network'']))"

definition rego_allow :: "policy_input \<Rightarrow> bool" where
  "rego_allow input =
     ((is_text input ''action'' ''build''
         \<and> dict_get ''builder'' input \<noteq> None \<and> dict_get ''approver'' input \<noteq> None
         \<and> dict_get ''builder'' input \<noteq> dict_get ''approver'' input \<and> \<not> rego_forbidden_capability input)
      \<or> (is_text input ''action'' ''use_model'' \<and> one_of input ''model_tier'' [''tier1'', ''tier2''])
      \<or> (is_text input ''action'' ''memory_access'' \<and> is_text input ''scope'' ''agent_local'')
      \<or> (is_text input ''action'' ''use_tool'' \<and> \<not> rego_forbidden_capability input)
      \<or> (is_text input ''action'' ''delegate'' \<and> \<not> rego_forbidden_capability input)
      \<or> is_text input ''action'' ''deploy_dry_run''
      \<or> (is_text input ''action'' ''deploy_apply'' \<and> is_not_text input ''environment'' ''production'')
      \<or> (is_text input ''action'' ''deploy_apply'' \<and> is_text input ''environment'' ''production''
         \<and> holds_field input ''approval_ref''
         \<and> (case dict_get ''telemetry_count'' input of None \<Rightarrow> False | Some v \<Rightarrow> rego_positive v)
         \<and> dict_get ''rollback_enabled'' input = Some (J_Bool True))
      \<or> (is_text input ''action'' ''deploy_rollback'' \<and> holds_field input ''rollback_approval_ref''))"

definition rego_deny_builder_self_approval :: "policy_input \<Rightarrow> bool" where
  "rego_deny_builder_self_approval input =
     (is_text input ''action'' ''build'' \<and> dict_get ''builder'' input \<noteq> None
      \<and> dict_get ''builder'' input = dict_get ''approver'' input)"

definition rego_deny_unauthorized_tool :: "policy_input \<Rightarrow> bool" where
  "rego_deny_unauthorized_tool input =
     (is_text input ''action'' ''use_tool'' \<and> one_of input ''tool'' [''shell'', ''network''])"

definition rego_deny_model_tier :: "policy_input \<Rightarrow> bool" where
  "rego_deny_model_tier input =
     (is_text input ''action'' ''use_model'' \<and> \<not> one_of input ''model_tier'' [''tier1'', ''tier2''])"

definition rego_deny_memory_scope :: "policy_input \<Rightarrow> bool" where
  "rego_deny_memory_scope input =
     (is_text input ''action'' ''memory_access'' \<and> is_not_text input ''scope'' ''agent_local'')"

definition rego_deny_unauthorized_delegation :: "policy_input \<Rightarrow> bool" where
  "rego_deny_unauthorized_delegation input =
     (is_text input ''action'' ''delegate'' \<and> one_of input ''capability'' [''shell'', ''network''])"

text \<open>What \<open>opa eval\<close> answers for the policy: a rule without default is undefined, not false.\<close>

definition rego_engine :: engine where
  "rego_engine path query input =
     (let rule = (\<lambda>b. Inr (if b then J_Bool True else J_Null)) in
      if query = allow_query then Inr (J_Bool (rego_allow input))
      else if query = ''data.vad.policy.deny_builder_self_approval'' then rule (rego_deny_builder_self_approval input)
      else if query = ''data.vad.policy.deny_unauthorized_tool'' then rule (rego_deny_unauthorized_tool input)
      else if query = ''data.vad.policy.deny_model_tier'' then rule (rego_deny_model_tier input)
      else if query = ''data.vad.policy.deny_memory_scope'' then rule (rego_deny_memory_scope input)
      else if query = ''data.vad.policy.deny_unauthorized_delegation'' then rule (rego_deny_unauthorized_delegation input)
      else Inr J_Null)"

section \<open>Facts\<close>

lemma collect_denials_Nil:
  "collect_denials ev path input qs = Inr [] \<longleftrightarrow>
   (\<forall>q\<in>fst ` set qs. \<exists>v. ev path q input = Inr v \<and> v \<noteq> J_Bool True)"
  by (induction qs) (auto split: sum.splits if_splits)

lemma evaluate_decision_allow:
  "(\<exists>d. evaluate_decision ev path input = Inr d \<and> allow d) \<longleftrightarrow>
   collect_denials ev path input deny_queries = Inr [] \<and> ev path allow_query input = Inr (J_Bool True)"
  by (auto simp: evaluate_decision_def split: sum.splits if_splits)

lemma evaluate_decision_denials:
  "evaluate_decision ev path input = Inr d \<Longrightarrow> (denials d = [] \<longleftrightarrow> allow d)"
  by (auto simp: evaluate_decision_def split: sum.splits if_splits)

text \<open>A deny rule excludes the allow rule.\<close>

lemma rego_deny_excludes_allow:
  "rego_deny_builder_self_approval i \<or> rego_deny_unauthorized_tool i \<or> rego_deny_model_tier i
   \<or> rego_deny_memory_scope i \<or> rego_deny_unauthorized_delegation i \<Longrightarrow> \<not> rego_allow i"
  by (auto simp: rego_allow_def rego_deny_builder_self_approval_def rego_deny_unauthorized_tool_def
      rego_deny_model_tier_def rego_deny_memory_scope_def rego_deny_unauthorized_delegation_def
      rego_forbidden_capability_def is_text_def is_not_text_def)

lemma rego_decision_allow:
  "(\<exists>d. evaluate_decision rego_engine path input = Inr d \<and> allow d) \<longleftrightarrow> rego_allow input"
  unfolding evaluate_decision_allow collect_denials_Nil
  using rego_deny_excludes_allow [of input]
  by (auto simp: rego_engine_def deny_queries_def allow_query_def Let_def)

text \<open>
  C21: under the shipped policy every decision of the engine is made, never raised, and allows
  exactly what the allow rule of the policy allows: a deny rule and the allow rule never both
  hold. A refusal always names a reason.
\<close>

theorem policy_decision_exact:
  "\<exists>d. evaluate_decision rego_engine path input = Inr d \<and> (allow d \<longleftrightarrow> rego_allow input)
     \<and> (denials d = [] \<longleftrightarrow> allow d)"
proof -
  have "\<exists>ds. collect_denials rego_engine path input qs = Inr ds" for qs
    by (induction qs) (auto simp: rego_engine_def Let_def)
  then obtain ds where "collect_denials rego_engine path input deny_queries = Inr ds" by blast
  then obtain d where d: "evaluate_decision rego_engine path input = Inr d"
    by (cases ds) (auto simp: evaluate_decision_def rego_engine_def Let_def)
  with rego_decision_allow [of path input] evaluate_decision_denials [OF d] show ?thesis by auto
qed

section \<open>Two statements of the deployment policy\<close>

text \<open>The policy input of a deployment request; references that were not given are left out.\<close>

definition deployment_input ::
    "pystr \<Rightarrow> pystr \<Rightarrow> pystr option \<Rightarrow> int \<Rightarrow> bool \<Rightarrow> pystr option \<Rightarrow> policy_input" where
  "deployment_input action environment approval_ref telemetry_count rollback_enabled rollback_approval_ref =
     [(''action'', J_Str action), (''environment'', J_Str environment), (''telemetry_count'', J_Int telemetry_count),
      (''rollback_enabled'', J_Bool rollback_enabled)]
     @ (case approval_ref of None \<Rightarrow> [] | Some r \<Rightarrow> [(''approval_ref'', J_Str r)])
     @ (case rollback_approval_ref of None \<Rightarrow> [] | Some r \<Rightarrow> [(''rollback_approval_ref'', J_Str r)])"

text \<open>
  C22: the deployment rules exist twice, as \<open>evaluate_deployment\<close> and in the policy file. They
  allow the same requests, unless a reference is the empty string: Python takes that as missing,
  and the policy takes it as given.
\<close>

theorem deployment_policies_agree:
  assumes "action \<in> {''deploy_dry_run'', ''deploy_apply'', ''deploy_rollback''}"
    "approval_ref \<noteq> Some []" "rollback_approval_ref \<noteq> Some []"
  shows "allow (evaluate_deployment action environment approval_ref telemetry_count rollback_enabled rollback_approval_ref)
     \<longleftrightarrow> rego_allow (deployment_input action environment approval_ref telemetry_count rollback_enabled rollback_approval_ref)"
proof -
  let ?i = "deployment_input action environment approval_ref telemetry_count rollback_enabled rollback_approval_ref"
  have fields: "dict_get ''action'' ?i = Some (J_Str action)" "dict_get ''environment'' ?i = Some (J_Str environment)"
    "dict_get ''telemetry_count'' ?i = Some (J_Int telemetry_count)"
    "dict_get ''rollback_enabled'' ?i = Some (J_Bool rollback_enabled)"
    "dict_get ''approval_ref'' ?i = map_option J_Str approval_ref"
    "dict_get ''rollback_approval_ref'' ?i = map_option J_Str rollback_approval_ref"
    by (auto simp: deployment_input_def dict_get_def split: option.splits)
  have env: "is_not_text ?i ''environment'' ''production'' \<longleftrightarrow> environment \<noteq> ''production''"
    using fields(2) by (auto simp: is_not_text_def deployment_input_def)
  have refs: "holds_field ?i ''approval_ref'' \<longleftrightarrow> given approval_ref"
    "holds_field ?i ''rollback_approval_ref'' \<longleftrightarrow> given rollback_approval_ref"
    using assms(2,3) by (auto simp: holds_field_def fields given_def split: option.splits)
  show ?thesis
    using assms(1)
    by (auto simp: rego_allow_def is_text_def fields env refs evaluate_deployment_def Let_def)
qed

theorem deployment_policies_agree_witness:
  "rego_allow (deployment_input ''deploy_apply'' ''production'' (Some ''approval:1'') 2 True None)
   \<and> \<not> rego_allow (deployment_input ''deploy_apply'' ''production'' None 2 True None)"
  using deployment_policies_agree [of "''deploy_apply''" "Some ''approval:1''" None "''production''" 2 True]
    deployment_policies_agree [of "''deploy_apply''" None None "''production''" 2 True]
  by (simp add: evaluate_deployment_def given_def)

end
