(* ===== verification/Guards.thy ===== *)
theory Guards
  imports Policy_Engine
begin

text \<open>
  The guards in front of tools, models, memory and processes (\<open>vad/guards\<close>). Starting a process
  (\<open>subprocess.run\<close>) is the parameter \<open>spawn\<close>: exit code, standard output and standard error
  of a command in a directory, or the exception.
\<close>

type_synonym spawn = "pystr list \<Rightarrow> pystr option \<Rightarrow> exn + (int \<times> pystr \<times> pystr)"

section \<open>Queries (\<open>models.py\<close>, \<open>tools.py\<close>, \<open>memory.py\<close>)\<close>

definition check_model_access :: "engine \<Rightarrow> pystr \<Rightarrow> pystr \<Rightarrow> exn + bool" where
  "check_model_access ev path model_tier =
     (let input = [(''action'', J_Str ''use_model''), (''model_tier'', J_Str model_tier)] in
      case ev path ''data.vad.policy.deny_model_tier'' input of Inl e \<Rightarrow> Inl e
      | Inr v \<Rightarrow> (if json_truthy v then Inr False
                  else (case ev path allow_query input of Inl e \<Rightarrow> Inl e | Inr w \<Rightarrow> Inr (w = J_Bool True))))"

definition check_tool_access :: "engine \<Rightarrow> pystr \<Rightarrow> pystr \<Rightarrow> exn + bool" where
  "check_tool_access ev path tool_name =
     (let input = [(''action'', J_Str ''use_tool''), (''tool'', J_Str tool_name)] in
      case ev path ''data.vad.policy.deny_unauthorized_tool'' input of Inl e \<Rightarrow> Inl e
      | Inr v \<Rightarrow> Inr (\<not> json_truthy v))"

definition check_memory_access :: "engine \<Rightarrow> pystr \<Rightarrow> pystr \<Rightarrow> exn + bool" where
  "check_memory_access ev path scope =
     (let input = [(''action'', J_Str ''memory_access''), (''scope'', J_Str scope)] in
      case ev path ''data.vad.policy.deny_memory_scope'' input of Inl e \<Rightarrow> Inl e
      | Inr v \<Rightarrow> (if json_truthy v then Inr False
                  else (case ev path allow_query input of Inl e \<Rightarrow> Inl e | Inr w \<Rightarrow> Inr (w = J_Bool True))))"

section \<open>Processes (\<open>execution.py\<close>)\<close>

record execution_guard =
  eg_policy_path :: pystr
  eg_allowed_executables :: "pystr list"

definition default_guard :: execution_guard where
  "default_guard =
     \<lparr>eg_policy_path = ''policies/vad.rego'', eg_allowed_executables = [''pytest'', ''python'', ''python3'']\<rparr>"

record execution_result =
  xr_command :: "pystr list"
  xr_allowed :: bool
  xr_cwd :: "pystr option"
  xr_exit_code :: "int option"
  xr_stdout :: pystr
  xr_stderr :: pystr
  xr_decision :: policy_decision

definition shell_control_tokens :: "pystr list" where
  "shell_control_tokens = ['';'', ''&&'', ''||'', ''|'', ''$('', ''`'', ''>'', ''<'']"

definition contains_shell_control :: "pystr \<Rightarrow> bool" where
  "contains_shell_control value = list_ex (\<lambda>t. contains t value) shell_control_tokens"

definition policy_tool :: "pystr \<Rightarrow> pystr" where
  "policy_tool executable =
     (if executable \<in> {''sh'', ''bash'', ''powershell'', ''cmd''} then ''shell'' else executable)"

definition check_command :: "engine \<Rightarrow> execution_guard \<Rightarrow> pystr list \<Rightarrow> exn + policy_decision" where
  "check_command ev g command =
     (case command of
        [] \<Rightarrow> Inr (denied [''empty command''] False)
      | executable # _ \<Rightarrow>
          (if executable \<notin> set (eg_allowed_executables g)
           then Inr (denied [''executable not allowed: '' @ executable] False)
           else if list_ex contains_shell_control command
           then Inr (denied [''shell control syntax is not allowed''] False)
           else case evaluate_decision ev (eg_policy_path g)
                       [(''action'', J_Str ''use_tool''), (''tool'', J_Str (policy_tool executable))] of
                  Inl e \<Rightarrow> Inl e
                | Inr d \<Rightarrow> Inr (if denials d \<noteq> [] then d else allowed (''executable allowed: '' @ executable))))"

definition guard_run ::
    "engine \<Rightarrow> spawn \<Rightarrow> execution_guard \<Rightarrow> pystr list \<Rightarrow> pystr option \<Rightarrow> exn + execution_result" where
  "guard_run ev spawn g command cwd =
     (case check_command ev g command of Inl e \<Rightarrow> Inl e
      | Inr d \<Rightarrow>
          (if \<not> allow d
           then Inr \<lparr>xr_command = command, xr_allowed = False, xr_cwd = cwd, xr_exit_code = None, xr_stdout = [],
                     xr_stderr = py_join ''; '' (denials d), xr_decision = d\<rparr>
           else case spawn command cwd of Inl e \<Rightarrow> Inl e
                | Inr (code, out, err) \<Rightarrow>
                    Inr \<lparr>xr_command = command, xr_allowed = True, xr_cwd = cwd, xr_exit_code = Some code,
                         xr_stdout = out, xr_stderr = err, xr_decision = d\<rparr>))"

section \<open>What a guard lets through\<close>

text \<open>The commands the policy and the guard permit.\<close>

definition permitted :: "engine \<Rightarrow> execution_guard \<Rightarrow> pystr list \<Rightarrow> bool" where
  "permitted ev g command =
     (command \<noteq> [] \<and> hd command \<in> set (eg_allowed_executables g) \<and> \<not> list_ex contains_shell_control command
      \<and> (\<exists>d. evaluate_decision ev (eg_policy_path g)
             [(''action'', J_Str ''use_tool''), (''tool'', J_Str (policy_tool (hd command)))] = Inr d \<and> allow d))"

lemma check_command_allow: "(\<exists>d. check_command ev g command = Inr d \<and> allow d) \<longleftrightarrow> permitted ev g command"
proof (cases command)
  case Nil
  then show ?thesis by (simp add: check_command_def permitted_def)
next
  case (Cons x xs)
  show ?thesis
  proof (cases "evaluate_decision ev (eg_policy_path g) [(''action'', J_Str ''use_tool''), (''tool'', J_Str (policy_tool x))]")
    case (Inl e)
    then show ?thesis by (simp add: check_command_def permitted_def Cons)
  next
    case (Inr d)
    then show ?thesis using evaluate_decision_denials [OF Inr] by (auto simp: check_command_def permitted_def Cons)
  qed
qed

lemma guard_run_allowed:
  "guard_run ev spawn g command cwd = Inr r \<Longrightarrow> xr_allowed r \<longleftrightarrow> permitted ev g command"
  unfolding check_command_allow [symmetric]
  by (auto simp: guard_run_def split: sum.splits if_splits prod.splits)

lemma guard_run_permitted:
  "permitted ev g command \<Longrightarrow> \<exists>d. allow d \<and> guard_run ev spawn g command cwd =
     (case spawn command cwd of Inl e \<Rightarrow> Inl e
      | Inr (code, out, err) \<Rightarrow> Inr \<lparr>xr_command = command, xr_allowed = True, xr_cwd = cwd, xr_exit_code = Some code,
           xr_stdout = out, xr_stderr = err, xr_decision = d\<rparr>)"
  unfolding check_command_allow [symmetric] by (auto simp: guard_run_def)

text \<open>A command that is refused does not depend on what running it would do.\<close>

lemma guard_run_refused:
  "\<not> permitted ev g command \<Longrightarrow> guard_run ev spawn g command cwd = guard_run ev spawn' g command cwd"
  unfolding check_command_allow [symmetric] by (auto simp: guard_run_def split: sum.splits)

text \<open>
  C20: the execution guard. A process is started only for a permitted command: an executable of
  the list, no part with shell control syntax, and a policy that allows the tool; its exit code
  is reported then. For any other command the answer does not depend on what the process would
  do, so none is started, and a result that is returned is marked as not allowed.
\<close>

theorem guard_starts_only_permitted:
  "(case guard_run ev spawn g command cwd of
      Inl e \<Rightarrow> True
    | Inr r \<Rightarrow> (xr_allowed r \<longleftrightarrow> permitted ev g command)
        \<and> (xr_exit_code r = (if permitted ev g command then Some (fst (projr (spawn command cwd))) else None)))
   \<and> (permitted ev g command \<or> (\<forall>spawn'. guard_run ev spawn' g command cwd = guard_run ev spawn g command cwd))"
proof (cases "permitted ev g command")
  case True
  obtain d where d: "allow d" "guard_run ev spawn g command cwd =
     (case spawn command cwd of Inl e \<Rightarrow> Inl e
      | Inr (code, out, err) \<Rightarrow> Inr \<lparr>xr_command = command, xr_allowed = True, xr_cwd = cwd, xr_exit_code = Some code,
           xr_stdout = out, xr_stderr = err, xr_decision = d\<rparr>)"
    using guard_run_permitted [OF True] by blast
  then show ?thesis using True by (auto split: sum.splits)
next
  case False
  have refused: "\<forall>spawn'. guard_run ev spawn' g command cwd = guard_run ev spawn g command cwd"
    using guard_run_refused [OF False] by blast
  show ?thesis
  proof (cases "guard_run ev spawn g command cwd")
    case (Inl e)
    show ?thesis unfolding Inl sum.case using refused Inl by simp
  next
    case (Inr r)
    have "xr_exit_code r = None"
      using Inr False unfolding check_command_allow [symmetric]
      by (auto simp: guard_run_def split: sum.splits if_splits prod.splits)
    then show ?thesis unfolding Inr sum.case using False guard_run_allowed [OF Inr] refused Inr by simp
  qed
qed

end
