(* ===== verification/Verify_Runner.thy ===== *)
theory Verify_Runner
  imports Guards Proof_Plan
begin

text \<open>
  The verifier (\<open>vad/verify/runner.py\<close>, \<open>verify/report.py\<close>): it checks the plan against the
  contract and runs the command of every mapped obligation through the execution guard.
\<close>

section \<open>\<open>shlex.split\<close>\<close>

text \<open>
  The POSIX rules: single quotes keep everything, double quotes keep all but an escaped quote or
  backslash, a backslash outside quotes keeps the next character. \<open>quoted\<close> remembers that the
  current word had quotes, so that \<open>""\<close> is an empty word.
\<close>

datatype shlex_mode = Between | In_Word | In_Quote char | Escaped shlex_mode

definition shlex_space :: "char \<Rightarrow> bool" where
  "shlex_space c = (c \<in> {CHR '' '', CHR 0x09, CHR 0x0D, CHR 0x0A})"

definition shlex_quote :: "char \<Rightarrow> bool" where
  "shlex_quote c = (c = CHR 0x22 \<or> c = CHR 0x27)"

definition emit_word :: "pystr \<Rightarrow> bool \<Rightarrow> pystr list \<Rightarrow> pystr list" where
  "emit_word token quoted ws = (if token \<noteq> [] \<or> quoted then token # ws else ws)"

fun shlex_from :: "shlex_mode \<Rightarrow> pystr \<Rightarrow> bool \<Rightarrow> pystr \<Rightarrow> exn + pystr list" where
  "shlex_from mode token quoted [] =
     (case mode of
        Between \<Rightarrow> Inr []
      | In_Word \<Rightarrow> Inr (emit_word token quoted [])
      | In_Quote _ \<Rightarrow> Inl (ValueError ''No closing quotation'')
      | Escaped _ \<Rightarrow> Inl (ValueError ''No escaped character''))"
| "shlex_from mode token quoted (c # cs) =
     (case mode of
        Between \<Rightarrow>
          (if shlex_space c then shlex_from Between [] False cs
           else if c = CHR 0x5C then shlex_from (Escaped In_Word) [] False cs
           else if shlex_quote c then shlex_from (In_Quote c) [] True cs
           else shlex_from In_Word [c] False cs)
      | In_Word \<Rightarrow>
          (if shlex_space c
           then (case shlex_from Between [] False cs of Inl e \<Rightarrow> Inl e | Inr ws \<Rightarrow> Inr (emit_word token quoted ws))
           else if shlex_quote c then shlex_from (In_Quote c) token True cs
           else if c = CHR 0x5C then shlex_from (Escaped In_Word) token quoted cs
           else shlex_from In_Word (token @ [c]) quoted cs)
      | In_Quote q \<Rightarrow>
          (if c = q then shlex_from In_Word token True cs
           else if c = CHR 0x5C \<and> q = CHR 0x22 then shlex_from (Escaped (In_Quote q)) token True cs
           else shlex_from (In_Quote q) (token @ [c]) True cs)
      | Escaped back_to \<Rightarrow>
          (let keep = (case back_to of In_Quote q \<Rightarrow> (if c \<noteq> CHR 0x5C \<and> c \<noteq> q then [CHR 0x5C] else []) | _ \<Rightarrow> []) in
           shlex_from back_to (token @ keep @ [c]) quoted cs))"

definition shlex_split :: "pystr \<Rightarrow> exn + pystr list" where
  "shlex_split s = shlex_from Between [] False s"

lemma shlex_examples:
  "shlex_split ''pytest -m contract'' = Inr [''pytest'', ''-m'', ''contract'']"
  "shlex_split (''a '' @ [CHR 0x22] @ ''b c'' @ [CHR 0x22] @ ''d '' @ [CHR 0x27, CHR 0x27]) = Inr [''a'', ''b cd'', '''']"
  by code_simp+

section \<open>The report\<close>

record verifier_result =
  vr_obligation_id :: pystr
  vr_status :: verify_status
  vr_output :: pystr
  vr_error :: "pystr option"
  vr_tool_call :: "(pystr \<times> json) list option"

record verifier_report =
  vp_timestamp :: pystr
  vp_results :: "verifier_result list"
  vp_passed :: bool

definition decision_json :: "policy_decision \<Rightarrow> json" where
  "decision_json d =
     J_Dict [(''allow'', J_Bool (allow d)), (''reasons'', J_List (map J_Str (reasons d))),
       (''denials'', J_List (map J_Str (denials d))), (''requires_human'', J_Bool (requires_human d))]"

definition failed_check :: "pystr \<Rightarrow> verify_status \<Rightarrow> pystr \<Rightarrow> verifier_result" where
  "failed_check obligation_id status err =
     \<lparr>vr_obligation_id = obligation_id, vr_status = status, vr_output = [], vr_error = Some err, vr_tool_call = None\<rparr>"

definition check_plan_matches_eip :: "(pystr \<Rightarrow> pystr) \<Rightarrow> eip \<Rightarrow> proof_plan \<Rightarrow> verifier_result list" where
  "check_plan_matches_eip sha256 e plan =
     (if pp_eip_version plan \<noteq> eip_version e
      then [failed_check ''proof-plan'' Vs_Fail ''ProofPlan EIP version does not match EIP version.''] else [])
     @ (if pp_eip_digest plan \<noteq> compute_eip_digest sha256 e
        then [failed_check ''proof-plan'' Vs_Fail ''ProofPlan EIP digest does not match EIP content.''] else [])"

definition check_unmapped :: "eip \<Rightarrow> proof_plan \<Rightarrow> verifier_result list" where
  "check_unmapped e plan =
     map (\<lambda>o'. failed_check (po_id o') Vs_Unmapped (''Obligation '' @ po_id o' @ '' is unmapped in ProofPlan.''))
       (filter (\<lambda>o'. \<not> covers_obligation plan (po_id o')) (eip_proof_obligations e))"

text \<open>The \<open>try\<close> of one mapped obligation.\<close>

definition run_mapped ::
    "engine \<Rightarrow> spawn \<Rightarrow> execution_guard \<Rightarrow> pystr option \<Rightarrow> pystr \<Rightarrow> pystr \<Rightarrow> verifier_result" where
  "run_mapped ev spawn g cwd obligation_id cmd =
     (case (case shlex_split cmd of Inl e \<Rightarrow> Inl e | Inr words \<Rightarrow> guard_run ev spawn g words cwd) of
        Inl e \<Rightarrow> failed_check obligation_id Vs_Fail (exn_text e)
      | Inr r \<Rightarrow>
          (let status = (if xr_allowed r \<and> xr_exit_code r = Some 0 then Vs_Pass else Vs_Fail) in
           \<lparr>vr_obligation_id = obligation_id, vr_status = status, vr_output = xr_stdout r,
            vr_error = (if status = Vs_Fail then Some (xr_stderr r) else None),
            vr_tool_call = Some
              [(''command'', J_List (map J_Str (xr_command r))), (''cwd'', opt_json J_Str (xr_cwd r)),
               (''allowed'', J_Bool (xr_allowed r)), (''exit_code'', opt_json J_Int (xr_exit_code r)),
               (''policy_decision'', decision_json (xr_decision r))]\<rparr>))"

text \<open>The loop over the obligations; \<open>passed\<close> is threaded through.\<close>

fun run_obligations ::
    "engine \<Rightarrow> spawn \<Rightarrow> execution_guard \<Rightarrow> pystr option \<Rightarrow> proof_plan \<Rightarrow> bool \<Rightarrow> proof_obligation list
     \<Rightarrow> bool \<times> verifier_result list" where
  "run_obligations ev spawn g cwd plan passed [] = (passed, [])"
| "run_obligations ev spawn g cwd plan passed (o' # os) =
     (case get_mapping plan (po_id o') of
        None \<Rightarrow> run_obligations ev spawn g cwd plan passed os
      | Some m \<Rightarrow>
          (let r = run_mapped ev spawn g cwd (po_id o') (pm_test_command m) in
           case run_obligations ev spawn g cwd plan (passed \<and> vr_status r = Vs_Pass) os of
             (p, rs) \<Rightarrow> (p, r # rs)))"

definition run_verifier ::
    "(pystr \<Rightarrow> pystr) \<Rightarrow> engine \<Rightarrow> spawn \<Rightarrow> execution_guard \<Rightarrow> pystr option \<Rightarrow> pystr \<Rightarrow> eip \<Rightarrow> proof_plan
     \<Rightarrow> verifier_report" where
  "run_verifier sha256 ev spawn g cwd now e plan =
     (let results = check_plan_matches_eip sha256 e plan @ check_unmapped e plan in
      case run_obligations ev spawn g cwd plan (results = []) (eip_proof_obligations e) of
        (passed, rs) \<Rightarrow> \<lparr>vp_timestamp = now, vp_results = results @ rs, vp_passed = passed\<rparr>)"

section \<open>What passing means\<close>

text \<open>A command succeeds: it splits, is permitted, and its process exits with zero.\<close>

definition command_succeeds :: "engine \<Rightarrow> spawn \<Rightarrow> execution_guard \<Rightarrow> pystr option \<Rightarrow> pystr \<Rightarrow> bool" where
  "command_succeeds ev spawn g cwd cmd =
     (\<exists>words out err. shlex_split cmd = Inr words \<and> permitted ev g words \<and> spawn words cwd = Inr (0, out, err))"

lemma run_mapped_pass:
  "vr_status (run_mapped ev spawn g cwd k cmd) = Vs_Pass \<longleftrightarrow> command_succeeds ev spawn g cwd cmd"
proof (cases "shlex_split cmd")
  case (Inl e)
  then show ?thesis by (simp add: run_mapped_def command_succeeds_def failed_check_def)
next
  case (Inr words)
  show ?thesis
  proof (cases "permitted ev g words")
    case True
    obtain d where d: "guard_run ev spawn g words cwd =
       (case spawn words cwd of Inl e \<Rightarrow> Inl e
        | Inr (code, out, err) \<Rightarrow> Inr \<lparr>xr_command = words, xr_allowed = True, xr_cwd = cwd, xr_exit_code = Some code,
             xr_stdout = out, xr_stderr = err, xr_decision = d\<rparr>)"
      using guard_run_permitted [OF True] by blast
    show ?thesis
    proof (cases "spawn words cwd")
      case (Inl e)
      then show ?thesis using d \<open>shlex_split cmd = Inr words\<close>
        by (simp add: run_mapped_def command_succeeds_def failed_check_def)
    next
      case (Inr r)
      then show ?thesis using d True \<open>shlex_split cmd = Inr words\<close>
        by (cases r) (simp add: run_mapped_def command_succeeds_def Let_def)
    qed
  next
    case False
    then have "r = r \<and> \<not> xr_allowed r" if "guard_run ev spawn g words cwd = Inr r" for r
      using guard_run_allowed [OF that] by simp
    then show ?thesis
      using Inr False
      by (auto simp: run_mapped_def command_succeeds_def failed_check_def Let_def split: sum.splits)
  qed
qed

lemma run_obligations_passed:
  "fst (run_obligations ev spawn g cwd plan passed os) \<longleftrightarrow>
   passed \<and> (\<forall>o'\<in>set os. case get_mapping plan (po_id o') of None \<Rightarrow> True
     | Some m \<Rightarrow> command_succeeds ev spawn g cwd (pm_test_command m))"
  by (induction os arbitrary: passed) (auto simp: run_mapped_pass Let_def split_beta split: option.splits)

definition obligation_met ::
    "engine \<Rightarrow> spawn \<Rightarrow> execution_guard \<Rightarrow> pystr option \<Rightarrow> proof_plan \<Rightarrow> proof_obligation \<Rightarrow> bool" where
  "obligation_met ev spawn g cwd plan o' =
     (case get_mapping plan (po_id o') of
        None \<Rightarrow> po_id o' \<in> set (pp_required_manual_gates plan)
      | Some m \<Rightarrow> command_succeeds ev spawn g cwd (pm_test_command m))"

lemma run_verifier_passed:
  "vp_passed (run_verifier sha256 ev spawn g cwd now e plan) \<longleftrightarrow>
     pp_eip_version plan = eip_version e \<and> pp_eip_digest plan = compute_eip_digest sha256 e
     \<and> list_all (obligation_met ev spawn g cwd plan) (eip_proof_obligations e)"
proof -
  have "vp_passed (run_verifier sha256 ev spawn g cwd now e plan) \<longleftrightarrow>
      fst (run_obligations ev spawn g cwd plan (check_plan_matches_eip sha256 e plan @ check_unmapped e plan = [])
        (eip_proof_obligations e))"
    by (simp add: run_verifier_def Let_def split: prod.splits)
  then show ?thesis
    unfolding run_obligations_passed
    by (auto simp: check_plan_matches_eip_def check_unmapped_def filter_empty_conv covers_obligation_def
        obligation_met_def list_all_iff split: option.splits)
qed

text \<open>
  C17: a verification passes exactly when the plan belongs to the contract (same version, same
  digest), every obligation is met, and nothing else: an obligation with a command is met when the
  command is well formed, permitted by the guard and exits with zero, one without a command only
  when the plan lists it as a manual gate. Running it never raises.
\<close>

theorem verification_passes_iff:
  "vp_passed (run_verifier sha256 ev spawn g cwd now e plan) =
     (pp_eip_version plan = eip_version e \<and> pp_eip_digest plan = compute_eip_digest sha256 e
      \<and> list_all (obligation_met ev spawn g cwd plan) (eip_proof_obligations e))"
  by (rule run_verifier_passed)

text \<open>The plan the mapper makes belongs to its contract, so only its commands decide.\<close>

lemma mapped_plan_passes:
  assumes "map_proofs sha256 e = Inr plan"
  shows "vp_passed (run_verifier sha256 ev spawn g cwd now e plan) \<longleftrightarrow>
    (\<forall>m\<in>set (pp_mappings plan). command_succeeds ev spawn g cwd (pm_test_command m))"
proof -
  have p: "plan = full_plan sha256 e" "distinct (map po_id (test_obligations e))"
    using assms by (simp_all add: map_proofs_run)
  have first: "m \<in> set ms \<Longrightarrow> distinct (map pm_obligation_id ms) \<Longrightarrow> first_mapping ms (pm_obligation_id m) = Some m" for m ms
    by (induction ms) (auto simp: image_iff)
  have ids: "distinct (map pm_obligation_id (pp_mappings plan))"
    using p by (simp add: full_plan_def comp_def mapping_of_def)
  have get: "get_mapping plan (pm_obligation_id m) = Some m" if "m \<in> set (pp_mappings plan)" for m
    unfolding get_mapping_def by (rule first [OF that ids])
  have found: "m \<in> set ms \<and> pm_obligation_id m = k" if "first_mapping ms k = Some m" for ms k m
    using that by (induction ms) (auto split: if_splits)
  have cover: "covers_obligation plan (po_id o')" if "o' \<in> set (eip_proof_obligations e)" for o'
    using full_plan_covered [of sha256 e] that by (auto simp: p(1))
  have one: "obligation_met ev spawn g cwd plan o' \<longleftrightarrow>
      (\<forall>m. get_mapping plan (po_id o') = Some m \<longrightarrow> command_succeeds ev spawn g cwd (pm_test_command m))"
    if "o' \<in> set (eip_proof_obligations e)" for o'
    using cover [OF that] by (auto simp: obligation_met_def covers_obligation_def split: option.splits)
  have "list_all (obligation_met ev spawn g cwd plan) (eip_proof_obligations e) \<longleftrightarrow>
      (\<forall>m\<in>set (pp_mappings plan). command_succeeds ev spawn g cwd (pm_test_command m))"
  proof
    assume l: "list_all (obligation_met ev spawn g cwd plan) (eip_proof_obligations e)"
    show "\<forall>m\<in>set (pp_mappings plan). command_succeeds ev spawn g cwd (pm_test_command m)"
    proof
      fix m assume m: "m \<in> set (pp_mappings plan)"
      then obtain o' where "o' \<in> set (test_obligations e)" "m = mapping_of o'" by (auto simp: p(1) full_plan_def)
      with l one get [OF m] show "command_succeeds ev spawn g cwd (pm_test_command m)"
        by (auto simp: list_all_iff set_test_obligations mapping_of_def)
    qed
  next
    assume "\<forall>m\<in>set (pp_mappings plan). command_succeeds ev spawn g cwd (pm_test_command m)"
    then show "list_all (obligation_met ev spawn g cwd plan) (eip_proof_obligations e)"
      using one found by (auto simp: list_all_iff get_mapping_def)
  qed
  then show ?thesis unfolding run_verifier_passed by (simp add: p(1) full_plan_def)
qed

end
