(* ===== verification/Router.thy ===== *)
theory Router
  imports Evidence
begin

text \<open>
  Around the model router (\<open>vad/router\<close>): token budgets (\<open>models.py\<close>), the redaction of provider
  payloads (\<open>privacy.py\<close>), the provider inventory and its drift (\<open>providers/interface.py\<close>,
  \<open>drift.py\<close>), and what a completion is (\<open>providers/fake.py\<close>). Routing by cost is in
  \<open>Cost_Router\<close>.
\<close>

section \<open>Token budgets\<close>

record token_budget =
  tb_budget :: int
  tb_estimated :: int
  tb_used :: int
  tb_remaining :: int
  tb_optimization_notes :: "pystr list"
  tb_approval_required :: bool

definition parse_token_budget :: "token_budget \<Rightarrow> exn + token_budget" where
  "parse_token_budget b =
     (if 0 \<le> tb_budget b \<and> 0 \<le> tb_estimated b \<and> 0 \<le> tb_used b \<and> 0 \<le> tb_remaining b then Inr b
      else Inl (ValidationError ''TokenBudget''))"

definition create_budget :: "int \<Rightarrow> int \<Rightarrow> pystr list \<Rightarrow> exn + token_budget" where
  "create_budget budget estimated notes =
     parse_token_budget
       \<lparr>tb_budget = budget, tb_estimated = estimated, tb_used = 0, tb_remaining = max 0 (budget - estimated),
        tb_optimization_notes = notes, tb_approval_required = (budget < estimated)\<rparr>"

definition record_usage :: "int \<Rightarrow> token_budget \<Rightarrow> exn + token_budget" where
  "record_usage used b =
     (let total_used = tb_used b + used in
      parse_token_budget
        \<lparr>tb_budget = tb_budget b, tb_estimated = tb_estimated b, tb_used = total_used,
         tb_remaining = max 0 (tb_budget b - total_used), tb_optimization_notes = tb_optimization_notes b,
         tb_approval_required = (tb_budget b < total_used)\<rparr>)"

text \<open>Any sequence of uses: what is used is the sum, what remains never goes below zero.\<close>

fun record_all :: "int list \<Rightarrow> token_budget \<Rightarrow> exn + token_budget" where
  "record_all [] b = Inr b"
| "record_all (u # us) b = (case record_usage u b of Inl e \<Rightarrow> Inl e | Inr b' \<Rightarrow> record_all us b')"

lemma record_all_run:
  assumes "0 \<le> tb_budget b" "0 \<le> tb_estimated b" "0 \<le> tb_used b" "list_all (\<lambda>u. 0 \<le> u) us" "us \<noteq> []"
  shows "\<exists>b'. record_all us b = Inr b' \<and> tb_budget b' = tb_budget b \<and> tb_used b' = tb_used b + sum_list us
    \<and> tb_remaining b' = max 0 (tb_budget b - (tb_used b + sum_list us))
    \<and> (tb_approval_required b' \<longleftrightarrow> tb_budget b < tb_used b + sum_list us)"
  using assms
proof (induction us arbitrary: b)
  case (Cons u us)
  then obtain b1 where b1: "record_usage u b = Inr b1" "tb_budget b1 = tb_budget b" "tb_estimated b1 = tb_estimated b"
    "tb_used b1 = tb_used b + u" "tb_remaining b1 = max 0 (tb_budget b - (tb_used b + u))"
    "tb_approval_required b1 \<longleftrightarrow> tb_budget b < tb_used b + u"
    by (simp add: record_usage_def parse_token_budget_def Let_def)
  show ?case
  proof (cases "us = []")
    case True
    then show ?thesis using b1 by simp
  next
    case False
    then show ?thesis using Cons.IH [of b1] Cons.prems b1 by (simp add: add.assoc)
  qed
qed simp

section \<open>Redaction\<close>

definition sensitive_keys :: "pystr list" where
  "sensitive_keys = [''prompt'', ''input'', ''message'', ''messages'', ''content'', ''api_key'', ''secret'', ''token'']"

fun redact :: "json \<Rightarrow> json" where
  "redact (J_Dict kvs) =
     J_Dict (map (\<lambda>(k, v). (k, if py_lower k \<in> set sensitive_keys then J_Str ''[redacted]'' else redact v)) kvs)"
| "redact (J_List xs) = J_List (map redact xs)"
| "redact v = v"

definition redact_provider_payload :: "(pystr \<times> json) list \<Rightarrow> json" where
  "redact_provider_payload payload = redact (J_Dict payload)"

definition redaction_digest :: "(pystr \<Rightarrow> pystr) \<Rightarrow> (pystr \<times> json) list \<Rightarrow> pystr" where
  "redaction_digest sha256 payload = sha256 (dumps_compact (redact_provider_payload payload))"

text \<open>What a reader of a redacted payload can see: the values that are not under a sensitive key.\<close>

fun visible_equal :: "json \<Rightarrow> json \<Rightarrow> bool" where
  "visible_equal (J_Dict xs) b =
     (case b of J_Dict ys \<Rightarrow>
        list_all2 (\<lambda>x y. fst x = fst y \<and> (py_lower (fst x) \<in> set sensitive_keys \<or> visible_equal (snd x) (snd y))) xs ys
      | _ \<Rightarrow> False)"
| "visible_equal (J_List xs) b = (case b of J_List ys \<Rightarrow> list_all2 visible_equal xs ys | _ \<Rightarrow> False)"
| "visible_equal a b = (a = b)"

lemma map_eq_list_all2:
  "(\<And>x y. x \<in> set xs \<Longrightarrow> y \<in> set ys \<Longrightarrow> (f x = f y) = R x y) \<Longrightarrow> map f xs = map f ys \<longleftrightarrow> list_all2 R xs ys"
proof (induction xs arbitrary: ys)
  case (Cons x xs)
  then show ?case by (cases ys) auto
qed simp

lemma redact_equal_iff: "redact a = redact b \<longleftrightarrow> visible_equal a b"
proof (induction a b rule: visible_equal.induct, goal_cases)
  case (1 xs b)
  show ?case
  proof (cases b)
    case (J_Dict ys)
    have "map (\<lambda>(k, v). (k, if py_lower k \<in> set sensitive_keys then J_Str ''[redacted]'' else redact v)) xs =
        map (\<lambda>(k, v). (k, if py_lower k \<in> set sensitive_keys then J_Str ''[redacted]'' else redact v)) ys \<longleftrightarrow>
        list_all2 (\<lambda>x y. fst x = fst y \<and> (py_lower (fst x) \<in> set sensitive_keys \<or> visible_equal (snd x) (snd y))) xs ys"
      by (rule map_eq_list_all2) (use 1 [OF J_Dict] in \<open>auto simp: split_beta\<close>)
    then show ?thesis by (simp add: J_Dict)
  qed auto
next
  case (2 xs b)
  show ?case
  proof (cases b)
    case (J_List ys)
    have "map redact xs = map redact ys \<longleftrightarrow> list_all2 visible_equal xs ys"
      by (rule map_eq_list_all2) (use 2 [OF J_List] in auto)
    then show ?thesis by (simp add: J_List)
  qed auto
next
  case (3 b)
  show ?case by (cases b) auto
next
  case (4 v b)
  show ?case by (cases b) auto
next
  case (5 v b)
  show ?case by (cases b) auto
next
  case (6 v b)
  show ?case by (cases b) auto
next
  case (7 v b)
  show ?case by (cases b) auto
qed

lemma redact_idem: "redact (redact v) = redact v"
  by (induction v rule: redact.induct) (auto simp: comp_def)

section \<open>Providers\<close>

record provider_model =
  pmo_name :: pystr
  pmo_tier :: pystr
  pmo_capabilities :: "pystr list"
  pmo_context_limit :: int

record provider_inventory =
  piv_provider_name :: pystr
  piv_provider_version :: pystr
  piv_capabilities :: "pystr list"
  piv_models :: "provider_model list"

definition valid_provider_inventory :: "provider_inventory \<Rightarrow> bool" where
  "valid_provider_inventory i =
     (piv_provider_name i \<noteq> [] \<and> piv_provider_version i \<noteq> [] \<and> piv_capabilities i \<noteq> [] \<and> piv_models i \<noteq> []
      \<and> list_all (\<lambda>m. pmo_name m \<noteq> [] \<and> pmo_tier m \<noteq> [] \<and> pmo_capabilities m \<noteq> [] \<and> 0 < pmo_context_limit m
                    \<and> set (pmo_capabilities m) \<subseteq> set (piv_capabilities i)) (piv_models i))"

record drift_report =
  dt_provider :: pystr
  dt_allow :: bool
  dt_warnings :: "pystr list"
  dt_denials :: "pystr list"

text \<open>\<open>{model.name: model for model in models}\<close>.\<close>

definition models_by_name :: "provider_model list \<Rightarrow> (pystr \<times> provider_model) list" where
  "models_by_name ms = fold (\<lambda>m. dict_set (pmo_name m) m) ms []"

definition model_drift :: "(pystr \<times> provider_model) list \<Rightarrow> pystr \<times> provider_model \<Rightarrow> pystr list \<times> pystr list" where
  "model_drift actual e =
     (case e of (name, expected) \<Rightarrow>
        (case dict_get name actual of
           None \<Rightarrow> ([], [''model removed: '' @ name])
         | Some m \<Rightarrow>
             ((if pmo_tier m \<noteq> pmo_tier expected then [''tier changed for '' @ name] else [])
              @ (if set (pmo_capabilities m) \<noteq> set (pmo_capabilities expected) then [''capabilities changed for '' @ name] else []),
              if pmo_context_limit m < pmo_context_limit expected then [''context limit decreased for '' @ name] else [])))"

definition detect_provider_drift :: "provider_inventory \<Rightarrow> provider_inventory \<Rightarrow> drift_report" where
  "detect_provider_drift expected actual =
     (let found = map (model_drift (models_by_name (piv_models actual))) (models_by_name (piv_models expected));
          ds = concat (map snd found) in
      \<lparr>dt_provider = piv_provider_name actual, dt_allow = (ds = []), dt_warnings = concat (map fst found), dt_denials = ds\<rparr>)"

record completion_request =
  cq_prompt :: pystr
  cq_model :: pystr
  cq_max_output_tokens :: int

definition parse_completion_request :: "completion_request \<Rightarrow> exn + completion_request" where
  "parse_completion_request r =
     (if cq_prompt r \<noteq> [] \<and> 1 \<le> cq_max_output_tokens r then Inr r
      else Inl (ValidationError ''ProviderCompletionRequest''))"

record completion_result =
  cs_allowed :: bool
  cs_output_text :: pystr
  cs_input_tokens :: int
  cs_output_tokens :: int
  cs_estimated_cost :: pystr
  cs_evidence :: "(pystr \<times> json) list"
  cs_denial :: "pystr option"

definition valid_completion_result :: "completion_result \<Rightarrow> bool" where
  "valid_completion_result r = (0 \<le> cs_input_tokens r \<and> 0 \<le> cs_output_tokens r)"

end
