(* ===== verification/Effort.thy ===== *)
theory Effort
  imports Files
begin

text \<open>
  MEES effort scoring (\<open>vad/effort/scoring.py\<close>). \<open>subprocess.run\<close> on a git command is the
  parameter \<open>runner\<close>: the exit code and the output, or \<open>None\<close> when git is not installed.
\<close>

datatype effort_kind = Ek_Bugfix | Ek_Feature | Ek_Refactor | Ek_Greenfield | Ek_Test | Ek_Migration

fun effort_kind_value :: "effort_kind \<Rightarrow> pystr" where
  "effort_kind_value Ek_Bugfix = ''bugfix''"
| "effort_kind_value Ek_Feature = ''feature''"
| "effort_kind_value Ek_Refactor = ''refactor''"
| "effort_kind_value Ek_Greenfield = ''greenfield''"
| "effort_kind_value Ek_Test = ''test''"
| "effort_kind_value Ek_Migration = ''migration''"

record mees_penalties =
  pn_complexity :: int
  pn_maintainability :: int
  pn_diff :: int
  pn_spread :: int
  pn_dependency :: int
  pn_novelty :: int
  pn_risk :: int

definition no_penalties :: mees_penalties where
  "no_penalties =
     \<lparr>pn_complexity = 0, pn_maintainability = 0, pn_diff = 0, pn_spread = 0, pn_dependency = 0, pn_novelty = 0,
      pn_risk = 0\<rparr>"

definition valid_penalties :: "mees_penalties \<Rightarrow> bool" where
  "valid_penalties p =
     (0 \<le> pn_complexity p \<and> 0 \<le> pn_maintainability p \<and> 0 \<le> pn_diff p \<and> 0 \<le> pn_spread p \<and> 0 \<le> pn_dependency p
      \<and> 0 \<le> pn_novelty p \<and> 0 \<le> pn_risk p)"

definition penalty_total :: "mees_penalties \<Rightarrow> int" where
  "penalty_total p =
     pn_complexity p + pn_maintainability p + pn_diff p + pn_spread p + pn_dependency p + pn_novelty p + pn_risk p"

record effort_score =
  es_effort_type :: effort_kind
  es_score :: int
  es_policy :: pystr
  es_penalties :: mees_penalties
  es_warnings :: "pystr list"
  es_requires_human :: bool

definition policy_for_score :: "int \<Rightarrow> pystr" where
  "policy_for_score score = (if score < 50 then ''block'' else if score < 70 then ''warn'' else ''pass'')"

text \<open>The field bounds and \<open>align_policy\<close>.\<close>

definition parse_effort_score :: "effort_score \<Rightarrow> exn + effort_score" where
  "parse_effort_score s =
     (if es_score s < 0 \<or> 100 < es_score s \<or> \<not> valid_penalties (es_penalties s) then Inl (ValidationError ''EffortScore'')
      else if es_policy s \<noteq> policy_for_score (es_score s)
      then Inl (ValidationError (''policy must be '' @ policy_for_score (es_score s) @ '' for score '' @ show_int (es_score s)))
      else if es_policy s = ''block'' \<and> \<not> es_requires_human s
      then Inl (ValidationError ''blocking MEES policy requires human review'')
      else Inr s)"

record diff_metrics =
  dm_changed_files :: int
  dm_insertions :: int
  dm_deletions :: int
  dm_dependency_files_changed :: int
  dm_warnings :: "pystr list"

definition line_delta :: "diff_metrics \<Rightarrow> int" where
  "line_delta m = dm_insertions m + dm_deletions m"

record quality_metrics =
  qm_cyclomatic_delta :: "int option"
  qm_cognitive_delta :: "int option"
  qm_maintainability_delta :: "int option"
  qm_warnings :: "pystr list"

definition score_effort :: "effort_kind \<Rightarrow> mees_penalties option \<Rightarrow> pystr list option \<Rightarrow> exn + effort_score" where
  "score_effort effort_type penalties metric_warnings =
     (let resolved = (case penalties of None \<Rightarrow> no_penalties | Some p \<Rightarrow> p);
          score = max 0 (100 - penalty_total resolved);
          policy = policy_for_score score;
          warnings = (case metric_warnings of None \<Rightarrow> [] | Some ws \<Rightarrow> ws)
            @ (if penalties = None
               then [''MEES scored from explicit zero-penalty fallback; no metric tool output supplied''] else [])
      in parse_effort_score
        \<lparr>es_effort_type = effort_type, es_score = score, es_policy = policy, es_penalties = resolved,
         es_warnings = warnings, es_requires_human = (policy = ''block'')\<rparr>)"

section \<open>Diff metrics\<close>

definition py_int_result :: "pystr \<Rightarrow> exn + int" where
  "py_int_result s = (case py_int s of None \<Rightarrow> Inl (ValueError ''invalid literal for int()'') | Some n \<Rightarrow> Inr n)"

text \<open>One column of a line of \<open>git diff --numstat\<close>; a dash is not counted.\<close>

definition numstat_column :: "int \<Rightarrow> pystr \<Rightarrow> exn + int" where
  "numstat_column acc s =
     (if py_isdigit s then (case py_int_result s of Inl e \<Rightarrow> Inl e | Inr n \<Rightarrow> Inr (acc + n)) else Inr acc)"

fun parse_numstat_lines :: "int \<Rightarrow> int \<Rightarrow> pystr list \<Rightarrow> exn + (int \<times> int)" where
  "parse_numstat_lines insertions deletions [] = Inr (insertions, deletions)"
| "parse_numstat_lines insertions deletions (line # lines) =
     (case py_split (CHR 0x09) line of
        added # removed # _ # _ \<Rightarrow>
          (case numstat_column insertions added of Inl e \<Rightarrow> Inl e
           | Inr i \<Rightarrow> (case numstat_column deletions removed of Inl e \<Rightarrow> Inl e
               | Inr d \<Rightarrow> parse_numstat_lines i d lines))
      | _ \<Rightarrow> parse_numstat_lines insertions deletions lines)"

text \<open>\<open>s.splitlines()\<close> drops the line breaks.\<close>

definition plain_lines :: "pystr \<Rightarrow> pystr list" where
  "plain_lines s = map (\<lambda>l. rev (dropWhile line_break (rev l))) (split_lines s)"

definition parse_numstat :: "pystr \<Rightarrow> exn + (int \<times> int)" where
  "parse_numstat output = parse_numstat_lines 0 0 (plain_lines output)"

definition dependency_manifests :: "pystr list" where
  "dependency_manifests =
     [''package.json'', ''package-lock.json'', ''pnpm-lock.yaml'', ''yarn.lock'', ''requirements.txt'',
      ''pyproject.toml'', ''poetry.lock'', ''Cargo.toml'', ''Cargo.lock'', ''go.mod'', ''go.sum'']"

definition is_dependency_manifest :: "pystr \<Rightarrow> bool" where
  "is_dependency_manifest path =
     (last (py_split (CHR 0x5C) (last (py_split (CHR ''/'') path))) \<in> set dependency_manifests)"

definition unavailable_metrics :: "pystr \<Rightarrow> diff_metrics" where
  "unavailable_metrics w =
     \<lparr>dm_changed_files = 0, dm_insertions = 0, dm_deletions = 0, dm_dependency_files_changed = 0, dm_warnings = [w]\<rparr>"

definition collect_git_diff_metrics ::
    "pystr \<Rightarrow> pystr \<Rightarrow> (pystr list \<Rightarrow> (int \<times> pystr) option) \<Rightarrow> exn + diff_metrics" where
  "collect_git_diff_metrics before after runner =
     (let range = (if after = ''WORKTREE'' then [before] else [before, after]) in
      case runner ([''git'', ''diff'', ''--numstat''] @ range) of
        None \<Rightarrow> Inr (unavailable_metrics ''git unavailable'')
      | Some (code, numstat) \<Rightarrow>
          (case runner ([''git'', ''diff'', ''--name-only''] @ range) of
             None \<Rightarrow> Inr (unavailable_metrics ''git unavailable'')
           | Some (code', status) \<Rightarrow>
               (if code \<noteq> 0 \<or> code' \<noteq> 0 then Inr (unavailable_metrics ''git diff metrics unavailable'')
                else (case parse_numstat numstat of Inl e \<Rightarrow> Inl e
                      | Inr (insertions, deletions) \<Rightarrow>
                          (let files = filter (\<lambda>l. l \<noteq> []) (map py_strip (plain_lines status)) in
                           Inr \<lparr>dm_changed_files = int (length files), dm_insertions = insertions, dm_deletions = deletions,
                                dm_dependency_files_changed = int (length (filter is_dependency_manifest files)),
                                dm_warnings = []\<rparr>)))))"

definition penalties_from_diff_metrics :: "diff_metrics \<Rightarrow> mees_penalties" where
  "penalties_from_diff_metrics m =
     no_penalties\<lparr>pn_diff := line_delta m, pn_spread := dm_changed_files m,
                  pn_dependency := dm_dependency_files_changed m * 10\<rparr>"

section \<open>Quality metrics\<close>

definition quality_metrics_from_supplied :: "int option \<Rightarrow> int option \<Rightarrow> int option \<Rightarrow> quality_metrics" where
  "quality_metrics_from_supplied cyclomatic cognitive maintainability =
     \<lparr>qm_cyclomatic_delta = cyclomatic, qm_cognitive_delta = cognitive, qm_maintainability_delta = maintainability,
      qm_warnings =
        (if cyclomatic = None then [''cyclomatic complexity metric unavailable''] else [])
        @ (if cognitive = None then [''cognitive complexity metric unavailable''] else [])
        @ (if maintainability = None then [''maintainability metric unavailable''] else [])\<rparr>"

definition or_zero :: "int option \<Rightarrow> int" where
  "or_zero v = (case v of None \<Rightarrow> 0 | Some n \<Rightarrow> n)"

definition penalties_from_quality_metrics :: "quality_metrics \<Rightarrow> mees_penalties" where
  "penalties_from_quality_metrics m =
     no_penalties\<lparr>pn_complexity := max 0 (or_zero (qm_cyclomatic_delta m)) + max 0 (or_zero (qm_cognitive_delta m)),
                  pn_maintainability := max 0 (- or_zero (qm_maintainability_delta m))\<rparr>"

section \<open>Bounds\<close>

lemma set_py_strip: "set (py_strip s) \<subseteq> set s"
  unfolding py_strip_def by (metis order_trans set_dropWhileD set_rev subsetI)

lemma py_int_nonneg:
  assumes "py_int s = Some n" "CHR ''-'' \<notin> set s"
  shows "0 \<le> n"
proof -
  have "CHR ''-'' \<notin> set (py_strip s)" using assms(2) set_py_strip by blast
  then show ?thesis using assms(1) by (auto simp: py_int_def split: list.splits if_splits)
qed

lemma isdigit_no_sign: "py_isdigit s \<Longrightarrow> CHR ''-'' \<notin> set s"
proof
  assume "py_isdigit s" "CHR ''-'' \<in> set s"
  then have "48 \<le> (of_char (CHR ''-'') :: nat) \<or> (of_char (CHR ''-'') :: nat) \<in> {178, 179, 185}"
    by (auto simp: py_isdigit_def list_all_iff)
  then show False by simp
qed

lemma numstat_column_nonneg: "numstat_column acc s = Inr n \<Longrightarrow> 0 \<le> acc \<Longrightarrow> 0 \<le> n"
  by (auto simp: numstat_column_def py_int_result_def dest: py_int_nonneg [OF _ isdigit_no_sign]
      split: if_splits sum.splits option.splits)

lemma parse_numstat_lines_nonneg:
  "parse_numstat_lines i d ls = Inr (i', d') \<Longrightarrow> 0 \<le> i \<Longrightarrow> 0 \<le> d \<Longrightarrow> 0 \<le> i' \<and> 0 \<le> d'"
proof (induction i d ls rule: parse_numstat_lines.induct)
  case (2 i d line lines)
  show ?case
  proof (cases "\<exists>a r x y. py_split (CHR 0x09) line = a # r # x # y")
    case False
    then have "parse_numstat_lines i d (line # lines) = parse_numstat_lines i d lines"
      by (auto split: list.splits)
    moreover have "parse_numstat_lines i d lines = Inr (i', d') \<Longrightarrow> 0 \<le> i' \<and> 0 \<le> d'"
      using False "2.IH" "2.prems" by (cases "py_split (CHR 0x09) line") (auto split: list.splits)
    ultimately show ?thesis using "2.prems" by simp
  next
    case True
    then obtain a r x y where f: "py_split (CHR 0x09) line = a # r # x # y" by blast
    with "2.prems"(1) obtain j e where je: "numstat_column i a = Inr j" "numstat_column d r = Inr e"
      "parse_numstat_lines j e lines = Inr (i', d')" by (auto split: sum.splits)
    have "0 \<le> j" "0 \<le> e" using numstat_column_nonneg je(1,2) "2.prems"(2,3) by simp_all
    with "2.IH" f je show ?thesis by simp
  qed
qed auto

definition penalty_points :: "diff_metrics \<Rightarrow> int" where
  "penalty_points m =
     dm_insertions m + dm_deletions m + dm_changed_files m + 10 * dm_dependency_files_changed m"

lemma collect_nonneg:
  assumes "collect_git_diff_metrics before after runner = Inr m"
  shows "0 \<le> dm_insertions m \<and> 0 \<le> dm_deletions m \<and> 0 \<le> dm_changed_files m \<and> 0 \<le> dm_dependency_files_changed m"
  using assms
  by (auto simp: collect_git_diff_metrics_def unavailable_metrics_def parse_numstat_def Let_def
      dest: parse_numstat_lines_nonneg split: option.splits prod.splits if_splits sum.splits)

lemma score_effort_valid:
  assumes "valid_penalties p"
  shows "\<exists>s. score_effort k (Some p) w = Inr s \<and> es_score s = max 0 (100 - penalty_total p)
    \<and> es_policy s = policy_for_score (es_score s) \<and> (es_requires_human s \<longleftrightarrow> es_policy s = ''block'')"
proof -
  have "0 \<le> penalty_total p" using assms by (simp add: valid_penalties_def penalty_total_def)
  then show ?thesis using assms by (simp add: score_effort_def parse_effort_score_def Let_def)
qed


definition demo_runner :: "pystr list \<Rightarrow> (int \<times> pystr) option" where
  "demo_runner command =
     (if ''--numstat'' \<in> set command
      then Some (0, ''12'' @ [CHR 0x09] @ ''3'' @ [CHR 0x09] @ ''go.mod'' @ [CHR 0x0A]
                   @ ''-'' @ [CHR 0x09] @ ''-'' @ [CHR 0x09] @ ''logo.png'' @ [CHR 0x0A])
      else Some (0, ''go.mod'' @ [CHR 0x0A] @ ''logo.png'' @ [CHR 0x0A]))"


end
