(* ===== verification/Recorder.thy ===== *)
theory Recorder
  imports Verify_Runner Router Effort
begin

text \<open>
  Run evidence as the recorder builds it (\<open>vad/evidence/recorder.py\<close>). \<open>run_id\<close> and
  \<open>created_at\<close> are what \<open>uuid4\<close> and \<open>utcnow\<close> return.
\<close>

definition result_json :: "verifier_result \<Rightarrow> json" where
  "result_json r =
     J_Dict [(''obligation_id'', J_Str (vr_obligation_id r)),
       (''status'', J_Str (case vr_status r of Vs_Pass \<Rightarrow> ''pass'' | Vs_Fail \<Rightarrow> ''fail'' | Vs_Pending \<Rightarrow> ''pending''
                                            | Vs_Unmapped \<Rightarrow> ''unmapped'')),
       (''output'', J_Str (vr_output r)), (''error'', opt_json J_Str (vr_error r)),
       (''tool_call'', opt_json J_Dict (vr_tool_call r))]"

definition verification_of :: "verifier_report option \<Rightarrow> verification_evidence option" where
  "verification_of report =
     map_option (\<lambda>r. \<lparr>ve_passed = vp_passed r, ve_results = map result_json (vp_results r)\<rparr>) report"

definition effort_of_score :: "effort_score option \<Rightarrow> diff_metrics option \<Rightarrow> effort_evidence" where
  "effort_of_score score metrics =
     (case score of
        None \<Rightarrow> \<lparr>ef_effort_type = ''feature'', ef_mees = 100, ef_policy = ''pass'', ef_changed_files = 0, ef_line_delta = 0,
                ef_new_dependencies = 0, ef_complexity_delta = 0, ef_maintainability_delta = 0\<rparr>
      | Some s \<Rightarrow>
          \<lparr>ef_effort_type = effort_kind_value (es_effort_type s), ef_mees = es_score s, ef_policy = es_policy s,
           ef_changed_files = (case metrics of None \<Rightarrow> 0 | Some m \<Rightarrow> dm_changed_files m),
           ef_line_delta = (case metrics of None \<Rightarrow> 0 | Some m \<Rightarrow> line_delta m),
           ef_new_dependencies = (case metrics of None \<Rightarrow> 0 | Some m \<Rightarrow> dm_dependency_files_changed m),
           ef_complexity_delta = pn_complexity (es_penalties s),
           ef_maintainability_delta = - pn_maintainability (es_penalties s)\<rparr>)"

definition tokens_of :: "eip \<Rightarrow> token_budget option \<Rightarrow> token_evidence" where
  "tokens_of e b =
     (case b of
        None \<Rightarrow> \<lparr>te_budget = mb_max_tokens (eip_model_budget e), te_estimated = None, te_used = None, te_remaining = None,
                te_optimization_notes = [''actual token usage unavailable in local reference loop'']\<rparr>
      | Some t \<Rightarrow> \<lparr>te_budget = tb_budget t, te_estimated = Some (tb_estimated t), te_used = Some (tb_used t),
                  te_remaining = Some (tb_remaining t), te_optimization_notes = tb_optimization_notes t\<rparr>)"

text \<open>\<open>{"event": ..., "obligation_id": ..., **result.tool_call}\<close>.\<close>

definition tool_call_events :: "verifier_report option \<Rightarrow> json list" where
  "tool_call_events report =
     (case report of None \<Rightarrow> []
      | Some r \<Rightarrow> concat (map (\<lambda>v. case vr_tool_call v of None \<Rightarrow> []
          | Some call \<Rightarrow> [J_Dict (fold (\<lambda>(k, x). dict_set k x) call
              [(''event'', J_Str ''verification_tool_call''), (''obligation_id'', J_Str (vr_obligation_id v))])]) (vp_results r)))"

definition model_route_events :: "eip \<Rightarrow> json list" where
  "model_route_events e =
     [J_Dict [(''event'', J_Str ''model_budget''), (''max_tokens'', J_Int (mb_max_tokens (eip_model_budget e))),
        (''max_cost'', J_Float (mb_max_cost (eip_model_budget e))),
        (''max_loop_depth'', J_Int (mb_max_loop_depth (eip_model_budget e))), (''usage'', J_Str ''unavailable'')]]"

definition memory_events :: "eip \<Rightarrow> json list" where
  "memory_events e =
     (if eip_memory_requirements e = []
      then [J_Dict [(''event'', J_Str ''memory_requirements''), (''count'', J_Int 0), (''requirements'', J_List [])]]
      else map (\<lambda>m. J_Dict [(''event'', J_Str ''memory_requirement''), (''scope'', J_Str (mr_scope m)),
             (''purpose'', J_Str (mr_purpose m)), (''max_payload_size'', J_Int (mr_max_payload_size m))])
           (eip_memory_requirements e))"

definition release_event :: "eip \<Rightarrow> pystr \<Rightarrow> json" where
  "release_event e final_decision =
     J_Dict [(''event'', J_Str ''release_gate''), (''required'', J_Bool (rl_required (eip_release_requirements e))),
       (''gates'', J_List (map J_Str (rl_gates (eip_release_requirements e)))),
       (''decision'', J_Str (if \<not> rl_required (eip_release_requirements e) then ''not_required'' else final_decision))]"

definition create_run_evidence ::
    "(pystr \<Rightarrow> pystr) \<Rightarrow> pystr \<Rightarrow> pystr \<Rightarrow> eip \<Rightarrow> proof_plan \<Rightarrow> pystr \<Rightarrow> pystr \<Rightarrow> pystr \<Rightarrow> json list
     \<Rightarrow> verifier_report option \<Rightarrow> pystr option \<Rightarrow> effort_score option \<Rightarrow> diff_metrics option \<Rightarrow> token_budget option
     \<Rightarrow> json list option \<Rightarrow> json option \<Rightarrow> exn + run_evidence" where
  "create_run_evidence sha256 run_id created_at e plan builder verifier decision policy_decisions report blocker
     score metrics budget model_routes release =
     parse_run_evidence
       \<lparr>re_schema_version = ''1.0.0'', re_run_id = run_id, re_created_at = created_at,
        re_eip = \<lparr>er_path = None, er_digest = compute_eip_digest sha256 e\<rparr>,
        re_proof_plan = \<lparr>er_path = None, er_digest = pp_eip_digest plan\<rparr>,
        re_builder = builder, re_verifier = verifier, re_policy_decisions = policy_decisions,
        re_tool_calls = tool_call_events report,
        re_model_routes = (case model_routes of None \<Rightarrow> model_route_events e | Some rs \<Rightarrow> rs),
        re_memory_events = memory_events e, re_verification = verification_of report,
        re_release = Some (case release of None \<Rightarrow> release_event e decision | Some r \<Rightarrow> r), re_feedback = None,
        re_effort = effort_of_score score metrics, re_tokens = tokens_of e budget,
        re_final_decision = decision, re_blocker = blocker\<rparr>"

text \<open>
  Evidence can be recorded: with a valid contract and valid metrics it fails only for a blocked
  effort score on a run that is neither blocked nor waiting for a human.
\<close>

definition valid_score :: "effort_score option \<Rightarrow> bool" where
  "valid_score s = opt_all (\<lambda>x. parse_effort_score x = Inr x) s"

definition valid_metrics :: "diff_metrics option \<Rightarrow> bool" where
  "valid_metrics m =
     opt_all (\<lambda>x. 0 \<le> dm_changed_files x \<and> 0 \<le> dm_insertions x \<and> 0 \<le> dm_deletions x \<and> 0 \<le> dm_dependency_files_changed x) m"

definition effort_blocks :: "effort_score option \<Rightarrow> bool" where
  "effort_blocks s = (case s of None \<Rightarrow> False | Some x \<Rightarrow> es_score x < 50)"

lemma parse_effort_score_Inr:
  "parse_effort_score s = Inr s' \<Longrightarrow> s' = s \<and> 0 \<le> es_score s \<and> es_score s \<le> 100 \<and> es_policy s = policy_for_score (es_score s)"
  by (auto simp: parse_effort_score_def split: if_splits)

lemma create_run_evidence_Inr:
  assumes "valid_eip e" "valid_score score" "valid_metrics metrics" "opt_all (\<lambda>b. 0 \<le> tb_budget b) budget"
    "effort_blocks score \<Longrightarrow> decision \<in> {''needs_human'', ''blocked''}"
  shows "\<exists>v. create_run_evidence sha256 run_id created_at e plan builder verifier decision pds report blocker score metrics
      budget routes release = Inr v \<and> re_final_decision v = decision \<and> re_blocker v = blocker
      \<and> re_verification v = verification_of report \<and> re_builder v = builder \<and> re_verifier v = verifier
      \<and> re_policy_decisions v = pds"
proof -
  have tokens: "0 \<le> te_budget (tokens_of e budget)"
    using assms(1,4) by (cases budget) (auto simp: tokens_of_def valid_eip_def)
  have "0 \<le> ef_mees (effort_of_score score metrics) \<and> ef_mees (effort_of_score score metrics) \<le> 100
    \<and> 0 \<le> ef_changed_files (effort_of_score score metrics) \<and> 0 \<le> ef_line_delta (effort_of_score score metrics)
    \<and> 0 \<le> ef_new_dependencies (effort_of_score score metrics)
    \<and> (ef_mees (effort_of_score score metrics) < 50 \<or> ef_policy (effort_of_score score metrics) = ''block'' \<longrightarrow> effort_blocks score)"
  proof (cases score)
    case None
    then show ?thesis by (simp add: effort_of_score_def)
  next
    case (Some s)
    then have "parse_effort_score s = Inr s" using assms(2) by (simp add: valid_score_def)
    from parse_effort_score_Inr [OF this] show ?thesis
      using Some assms(3)
      by (cases metrics) (auto simp: effort_of_score_def effort_blocks_def policy_for_score_def valid_metrics_def line_delta_def)
  qed
  then show ?thesis
    using tokens assms(5)
    by (auto simp: create_run_evidence_def parse_run_evidence_def valid_run_evidence_def enforce_effort_policy_def)
qed

section \<open>Provider calls\<close>

definition provider_call_evidence ::
    "(pystr \<Rightarrow> pystr) \<Rightarrow> pystr \<Rightarrow> (pystr \<times> json) list \<Rightarrow> (pystr \<times> json) list option \<Rightarrow> (pystr \<times> json) list" where
  "provider_call_evidence sha256 provider request response =
     [(''event'', J_Str ''provider_call''), (''provider'', J_Str provider),
      (''request'', redact_provider_payload request),
      (''request_redaction_digest'', J_Str (redaction_digest sha256 request)),
      (''response'', redact_provider_payload (case response of None \<Rightarrow> [] | Some r \<Rightarrow> r))]"

text \<open>
  C27: the evidence of a provider call reveals what is not under a sensitive key and nothing else:
  two calls leave the same evidence (the digest of the request included) exactly when their
  requests and responses agree everywhere outside the values of sensitive keys, however deep
  those are nested. The sensitive keys are matched in any case.
\<close>

theorem provider_evidence_hides_secrets:
  "provider_call_evidence sha256 provider q r = provider_call_evidence sha256 provider q' r' \<longleftrightarrow>
     visible_equal (J_Dict q) (J_Dict q')
     \<and> visible_equal (J_Dict (case r of None \<Rightarrow> [] | Some x \<Rightarrow> x)) (J_Dict (case r' of None \<Rightarrow> [] | Some x \<Rightarrow> x))"
  unfolding redact_equal_iff [symmetric]
  by (auto simp: provider_call_evidence_def redact_provider_payload_def redaction_digest_def)

end
