(* ===== verification/Release.thy ===== *)
theory Release
  imports Json Py_Float
begin

text \<open>
  Release gates and feature flags (\<open>vad/release/gates.py\<close>, \<open>release/flags.py\<close>). The state is
  the release manager: its flags and the gates added so far.
\<close>

record rollout_gate =
  rg_metric_name :: pystr
  rg_minimum_health_threshold :: pystr

record release_manager =
  rm_flags :: "(pystr \<times> bool) list"
  rm_gates :: "rollout_gate list"

definition set_flag :: "pystr \<Rightarrow> bool \<Rightarrow> (release_manager, unit) proc" where
  "set_flag flag_name on = writes (\<lambda>m. m\<lparr>rm_flags := dict_set flag_name on (rm_flags m)\<rparr>)"

definition flag_enabled :: "release_manager \<Rightarrow> pystr \<Rightarrow> bool \<Rightarrow> bool" where
  "flag_enabled m flag_name otherwise = (case dict_get flag_name (rm_flags m) of None \<Rightarrow> otherwise | Some b \<Rightarrow> b)"

definition add_gate :: "rollout_gate \<Rightarrow> (release_manager, unit) proc" where
  "add_gate g = writes (\<lambda>m. m\<lparr>rm_gates := rm_gates m @ [g]\<rparr>)"

text \<open>The loop over the gates; a gate whose metric is not reported is skipped.\<close>

fun check_gates :: "(pystr \<times> pystr) list \<Rightarrow> rollout_gate list \<Rightarrow> exn + unit" where
  "check_gates metrics [] = Inr ()"
| "check_gates metrics (g # gs) =
     (case dict_get (rg_metric_name g) metrics of
        None \<Rightarrow> check_gates metrics gs
      | Some val \<Rightarrow>
          (if float_less val (rg_minimum_health_threshold g)
           then Inl (RuntimeError (''Rollback triggered: '' @ [CHR 0x27] @ rg_metric_name g @ [CHR 0x27]
                  @ '' health ('' @ val @ '') is below threshold ('' @ rg_minimum_health_threshold g @ '').''))
           else check_gates metrics gs))"

definition rejected :: "pystr \<Rightarrow> pystr \<Rightarrow> exn" where
  "rejected candidate_name why =
     ValueError (''Release candidate '' @ [CHR 0x27] @ candidate_name @ [CHR 0x27] @ '' rejected: '' @ why)"

definition evaluate_release ::
    "pystr \<Rightarrow> (pystr \<times> pystr) list \<Rightarrow> bool \<Rightarrow> (release_manager, bool) proc" where
  "evaluate_release candidate_name metrics has_telemetry =
     (if \<not> has_telemetry then throw (rejected candidate_name ''Missing telemetry integration.'')
      else andthen (reads (\<lambda>m. m)) (\<lambda>m.
        if \<not> flag_enabled m candidate_name False then throw (rejected candidate_name ''Feature flag is off.'')
        else andthen (lift_result (check_gates metrics (rm_gates m))) (\<lambda>_. ret True)))"

text \<open>A gate is met when its metric is missing or not below the threshold.\<close>

definition gate_met :: "(pystr \<times> pystr) list \<Rightarrow> rollout_gate \<Rightarrow> bool" where
  "gate_met metrics g =
     (case dict_get (rg_metric_name g) metrics of None \<Rightarrow> True
      | Some val \<Rightarrow> \<not> float_less val (rg_minimum_health_threshold g))"

lemma check_gates_Inr: "check_gates metrics gs = Inr () \<longleftrightarrow> list_all (gate_met metrics) gs"
  by (induction gs) (auto simp: gate_met_def split: option.splits)

lemma evaluate_release_state [simp]: "snd (evaluate_release c metrics t m) = m"
  by (simp add: evaluate_release_def split: sum.splits)

lemma evaluate_release_Inr:
  "fst (evaluate_release c metrics t m) = Inr b \<longleftrightarrow>
   b \<and> t \<and> flag_enabled m c False \<and> list_all (gate_met metrics) (rm_gates m)"
  unfolding check_gates_Inr [symmetric]
  by (auto simp: evaluate_release_def split: sum.splits)

end
