(* ===== verification/Loop.thy ===== *)
theory Loop
  imports Recorder Release
begin

text \<open>
  The development loop (\<open>vad/loop/state.py\<close>, \<open>loop/orchestrator.py\<close>). The state a run changes is
  the release manager it was given. The policy engine, process start, the model provider and the
  clocks are parameters, collected in \<open>orchestrator\<close>.
\<close>

section \<open>The state machine\<close>

datatype loop_status =
    Lo_Initialized | Lo_Assessed | Lo_Planned | Lo_Policy_Checked | Lo_Building | Lo_Verifying | Lo_Releasing
  | Lo_Feedback | Lo_Passed | Lo_Failed | Lo_Blocked | Lo_Needs_Human

fun loop_status_value :: "loop_status \<Rightarrow> pystr" where
  "loop_status_value Lo_Initialized = ''initialized''"
| "loop_status_value Lo_Assessed = ''assessed''"
| "loop_status_value Lo_Planned = ''planned''"
| "loop_status_value Lo_Policy_Checked = ''policy_checked''"
| "loop_status_value Lo_Building = ''building''"
| "loop_status_value Lo_Verifying = ''verifying''"
| "loop_status_value Lo_Releasing = ''releasing''"
| "loop_status_value Lo_Feedback = ''feedback''"
| "loop_status_value Lo_Passed = ''passed''"
| "loop_status_value Lo_Failed = ''failed''"
| "loop_status_value Lo_Blocked = ''blocked''"
| "loop_status_value Lo_Needs_Human = ''needs_human''"

fun loop_transitions :: "loop_status \<Rightarrow> loop_status list" where
  "loop_transitions Lo_Initialized = [Lo_Assessed, Lo_Planned, Lo_Blocked]"
| "loop_transitions Lo_Assessed = [Lo_Planned, Lo_Needs_Human, Lo_Blocked]"
| "loop_transitions Lo_Planned = [Lo_Policy_Checked, Lo_Blocked]"
| "loop_transitions Lo_Policy_Checked = [Lo_Building, Lo_Verifying, Lo_Needs_Human, Lo_Blocked]"
| "loop_transitions Lo_Building = [Lo_Verifying, Lo_Failed, Lo_Blocked]"
| "loop_transitions Lo_Verifying = [Lo_Releasing, Lo_Feedback, Lo_Passed, Lo_Failed, Lo_Blocked]"
| "loop_transitions Lo_Releasing = [Lo_Feedback, Lo_Passed, Lo_Failed, Lo_Blocked]"
| "loop_transitions Lo_Feedback = [Lo_Passed, Lo_Failed, Lo_Blocked]"
| "loop_transitions _ = []"

record loop_state =
  ls_status :: loop_status
  ls_history :: "loop_status list"

definition initial_loop :: loop_state where
  "initial_loop = \<lparr>ls_status = Lo_Initialized, ls_history = [Lo_Initialized]\<rparr>"

definition loop_transition :: "loop_status \<Rightarrow> loop_state \<Rightarrow> exn + loop_state" where
  "loop_transition next_status s =
     (if next_status \<notin> set (loop_transitions (ls_status s))
      then Inl (ValueError (''Invalid loop transition: '' @ loop_status_value (ls_status s) @ '' -> ''
             @ loop_status_value next_status))
      else Inr \<lparr>ls_status = next_status, ls_history = ls_history s @ [next_status]\<rparr>)"

section \<open>The orchestrator\<close>

text \<open>A provider: the names of its models (the first is the default) and its completions.\<close>

record provider =
  pv_models :: "pystr list"
  pv_complete :: "completion_request \<Rightarrow> exn + completion_result"

record orchestrator =
  oc_policy_path :: pystr
  oc_engine :: engine
  oc_spawn :: spawn
  oc_sha256 :: "pystr \<Rightarrow> pystr"
  oc_effort_score :: "effort_score option"
  oc_effort_metrics :: "diff_metrics option"
  oc_effort_justification :: "pystr option"
  oc_dependency_approval :: bool
  oc_release_metrics :: "(pystr \<times> pystr) list"
  oc_provider :: "provider option"
  oc_provider_model :: "pystr option"
  oc_run_id :: pystr
  oc_now :: pystr

record loop_result =
  lr_final_decision :: loop_status
  lr_state :: loop_state
  lr_evidence :: run_evidence

definition effort_blocker :: "orchestrator \<Rightarrow> pystr option" where
  "effort_blocker oc =
     (if (case oc_effort_score oc of None \<Rightarrow> False | Some s \<Rightarrow> es_score s < 50)
      then Some ''MEES under 50 requires human review''
      else if (case oc_effort_metrics oc of None \<Rightarrow> False | Some m \<Rightarrow> 10 < dm_changed_files m)
              \<and> \<not> given (oc_effort_justification oc)
      then Some ''changed files over 10 require justification''
      else if (case oc_effort_metrics oc of None \<Rightarrow> False | Some m \<Rightarrow> 0 < dm_dependency_files_changed m)
              \<and> \<not> oc_dependency_approval oc
      then Some ''new dependency requires explicit approval''
      else None)"

text \<open>\<open>_call_provider\<close>: a blocker, the route events and the token budget.\<close>

definition call_provider :: "orchestrator \<Rightarrow> provider \<Rightarrow> eip \<Rightarrow> exn + (pystr option \<times> json list \<times> token_budget)" where
  "call_provider oc pv e =
     (let model_name = (if given (oc_provider_model oc) then the (oc_provider_model oc) else hd (pv_models pv)) in
      case parse_completion_request
             \<lparr>cq_prompt = gl_description (eip_goal e), cq_model = model_name,
              cq_max_output_tokens = min 256 (mb_max_tokens (eip_model_budget e))\<rparr> of
        Inl x \<Rightarrow> Inl x
      | Inr request \<Rightarrow>
          (case pv_complete pv request of Inl x \<Rightarrow> Inl x
           | Inr result \<Rightarrow>
               (case create_budget (mb_max_tokens (eip_model_budget e)) 0 [] of Inl x \<Rightarrow> Inl x
                | Inr b0 \<Rightarrow> (case record_usage (cs_input_tokens result + cs_output_tokens result) b0 of Inl x \<Rightarrow> Inl x
                    | Inr budget \<Rightarrow>
                        (if \<not> cs_allowed result
                         then Inr (Some (''provider denied: '' @ (case cs_denial result of None \<Rightarrow> ''None'' | Some d \<Rightarrow> d)),
                                   [J_Dict (cs_evidence result)], budget)
                         else if float_less (mb_max_cost (eip_model_budget e)) (cs_estimated_cost result)
                         then Inr (Some ''provider cost exceeds budget'',
                                   [J_Dict (dict_set ''denial'' (J_Str ''provider cost exceeds budget'')
                                      (dict_set ''event'' (J_Str ''provider_denied'') (cs_evidence result)))], budget)
                         else Inr (None, [J_Dict (cs_evidence result)], budget))))))"

definition release_outcome :: "eip \<Rightarrow> pystr \<Rightarrow> pystr option \<Rightarrow> json" where
  "release_outcome e decision err =
     J_Dict ([(''event'', J_Str ''release_gate''), (''required'', J_Bool True),
       (''gates'', J_List (map J_Str (rl_gates (eip_release_requirements e)))), (''decision'', J_Str decision)]
       @ (case err of None \<Rightarrow> [] | Some m \<Rightarrow> [(''error'', J_Str m)]))"

definition evaluate_release_of :: "orchestrator \<Rightarrow> eip \<Rightarrow> (release_manager, json \<times> loop_status) proc" where
  "evaluate_release_of oc e =
     andthen (each_proc (\<lambda>gate. add_gate \<lparr>rg_metric_name = gate, rg_minimum_health_threshold = ''0.95''\<rparr>)
       (rl_gates (eip_release_requirements e))) (\<lambda>_ m.
     case evaluate_release (eip_name e) (oc_release_metrics oc) (tl_required (eip_telemetry_requirements e)) m of
       (Inr _, m') \<Rightarrow> (Inr (release_outcome e ''passed'' None, Lo_Passed), m')
     | (Inl x, m') \<Rightarrow> (Inr (release_outcome e ''failed'' (Some (exn_text x)), Lo_Failed), m'))"

text \<open>The end of a run: the last transitions, the evidence, the result.\<close>

definition finish_run ::
    "orchestrator \<Rightarrow> eip \<Rightarrow> proof_plan \<Rightarrow> pystr \<Rightarrow> pystr \<Rightarrow> loop_status \<Rightarrow> loop_status list \<Rightarrow> loop_state \<Rightarrow> json list
     \<Rightarrow> verifier_report option \<Rightarrow> pystr option \<Rightarrow> token_budget option \<Rightarrow> json list option \<Rightarrow> json option
     \<Rightarrow> exn + loop_result" where
  "finish_run oc e plan builder verifier decision steps s pds report blocker budget routes release =
     (case fold (\<lambda>t r. case r of Inl x \<Rightarrow> Inl x | Inr s' \<Rightarrow> loop_transition t s') steps (Inr s) of
        Inl x \<Rightarrow> Inl x
      | Inr s' \<Rightarrow>
          (case create_run_evidence (oc_sha256 oc) (oc_run_id oc) (oc_now oc) e plan builder verifier
                  (loop_status_value decision) pds report blocker (oc_effort_score oc) (oc_effort_metrics oc)
                  budget routes release of
             Inl x \<Rightarrow> Inl x
           | Inr v \<Rightarrow> Inr \<lparr>lr_final_decision = decision, lr_state = s', lr_evidence = v\<rparr>))"

text \<open>From the policy check on: verification, release, the final transition.\<close>

definition verify_and_release ::
    "orchestrator \<Rightarrow> eip \<Rightarrow> proof_plan \<Rightarrow> pystr \<Rightarrow> pystr \<Rightarrow> json list \<Rightarrow> loop_state \<Rightarrow> json list option
     \<Rightarrow> token_budget option \<Rightarrow> (release_manager, loop_result) proc" where
  "verify_and_release oc e plan builder verifier pds planned routes budget =
     (let report = run_verifier (oc_sha256 oc) (oc_engine oc) (oc_spawn oc) default_guard None (oc_now oc) e plan in
      if vp_passed report \<and> rl_required (eip_release_requirements e)
      then andthen (evaluate_release_of oc e) (\<lambda>(event, final).
           lift_result (finish_run oc e plan builder verifier final [Lo_Policy_Checked, Lo_Verifying, Lo_Releasing, final]
             planned pds (Some report) None budget routes (Some event)))
      else (let final = (if vp_passed report then Lo_Passed else Lo_Failed) in
           lift_result (finish_run oc e plan builder verifier final [Lo_Policy_Checked, Lo_Verifying, final]
             planned pds (Some report) None budget routes None)))"

definition run_loop ::
    "orchestrator \<Rightarrow> eip \<Rightarrow> proof_plan \<Rightarrow> pystr \<Rightarrow> pystr \<Rightarrow> (release_manager, loop_result) proc" where
  "run_loop oc e plan builder verifier =
     (case effort_blocker oc of
        Some blocker \<Rightarrow>
          lift_result (finish_run oc e plan builder verifier Lo_Blocked [Lo_Blocked] initial_loop [] None (Some blocker)
            None None None)
      | None \<Rightarrow>
          (if mb_max_tokens (eip_model_budget e) = 0 \<or> float_is_zero (mb_max_cost (eip_model_budget e))
           then lift_result (finish_run oc e plan builder verifier Lo_Blocked [Lo_Blocked] initial_loop [] None
                  (Some ''budget exhausted'') None None None)
           else andthen (lift_result (loop_transition Lo_Planned initial_loop)) (\<lambda>planned.
             andthen (lift_result (evaluate_decision (oc_engine oc) (oc_policy_path oc)
               [(''action'', J_Str ''build''), (''builder'', J_Str builder), (''approver'', J_Str verifier)])) (\<lambda>decision.
             let pds = [decision_json decision] in
             if \<not> allow decision
             then lift_result (finish_run oc e plan builder verifier Lo_Needs_Human [Lo_Policy_Checked, Lo_Needs_Human]
                    planned pds None None None None None)
             else case oc_provider oc of
                    None \<Rightarrow> verify_and_release oc e plan builder verifier pds planned None None
                  | Some pv \<Rightarrow>
                      andthen (lift_result (call_provider oc pv e)) (\<lambda>(blocker, routes, budget).
                      if blocker \<noteq> None \<and> blocker \<noteq> Some []
                      then lift_result (finish_run oc e plan builder verifier Lo_Blocked [Lo_Blocked] planned pds None
                             blocker (Some budget) (Some routes) None)
                      else verify_and_release oc e plan builder verifier pds planned (Some routes) (Some budget))))))"

end
