(* ===== verification/Loop_Properties.thy ===== *)
theory Loop_Properties
  imports Loop
begin

text \<open>
  The loop never leaves its state machine, always ends in a terminal status that its evidence
  records, and passes only when every check in it passed.
\<close>

section \<open>Paths\<close>

fun legal_path :: "loop_status list \<Rightarrow> bool" where
  "legal_path (a # b # xs) = (b \<in> set (loop_transitions a) \<and> legal_path (b # xs))"
| "legal_path _ = True"

lemma legal_path_snoc: "legal_path (xs @ [a]) \<Longrightarrow> b \<in> set (loop_transitions a) \<Longrightarrow> legal_path (xs @ [a, b])"
  by (induction xs rule: legal_path.induct) auto

definition sound_state :: "loop_state \<Rightarrow> bool" where
  "sound_state s = (\<exists>xs. ls_history s = xs @ [ls_status s] \<and> hd (ls_history s) = Lo_Initialized \<and> legal_path (ls_history s))"

lemma sound_initial: "sound_state initial_loop"
  by (simp add: sound_state_def initial_loop_def)

lemma sound_transition: "sound_state s \<Longrightarrow> loop_transition t s = Inr s' \<Longrightarrow> sound_state s'"
  by (auto simp: sound_state_def loop_transition_def hd_append legal_path_snoc split: if_splits)

definition take_steps :: "loop_status list \<Rightarrow> loop_state \<Rightarrow> exn + loop_state" where
  "take_steps steps s = fold (\<lambda>t r. case r of Inl x \<Rightarrow> Inl x | Inr s' \<Rightarrow> loop_transition t s') steps (Inr s)"

lemma fold_steps_Inl: "fold (\<lambda>t r. case r of Inl x \<Rightarrow> Inl x | Inr s' \<Rightarrow> loop_transition t s') steps (Inl x) = Inl x"
  by (induction steps) auto

lemma take_steps_simps [simp]:
  "take_steps [] s = Inr s"
  "take_steps (t # ts) s = (case loop_transition t s of Inl x \<Rightarrow> Inl x | Inr s' \<Rightarrow> take_steps ts s')"
  by (auto simp: take_steps_def fold_steps_Inl split: sum.splits)

lemma sound_steps: "sound_state s \<Longrightarrow> take_steps ts s = Inr s' \<Longrightarrow> sound_state s'"
  by (induction ts arbitrary: s) (auto dest: sound_transition split: sum.splits)

section \<open>Ends of a run\<close>

definition ready :: "orchestrator \<Rightarrow> eip \<Rightarrow> bool" where
  "ready oc e = (valid_eip e \<and> valid_score (oc_effort_score oc) \<and> valid_metrics (oc_effort_metrics oc))"

definition terminal :: "loop_status \<Rightarrow> bool" where
  "terminal t = (t \<in> {Lo_Passed, Lo_Failed, Lo_Blocked, Lo_Needs_Human})"

text \<open>What a returned result always satisfies.\<close>

definition good_result :: "loop_result \<Rightarrow> bool" where
  "good_result r =
     (sound_state (lr_state r) \<and> ls_status (lr_state r) = lr_final_decision r \<and> terminal (lr_final_decision r)
      \<and> re_final_decision (lr_evidence r) = loop_status_value (lr_final_decision r))"

lemma finish_run_ready:
  assumes "ready oc e" "take_steps steps s = Inr s'" "sound_state s" "ls_status s' = decision" "terminal decision"
    "opt_all (\<lambda>b. 0 \<le> tb_budget b) budget" "effort_blocks (oc_effort_score oc) \<Longrightarrow> decision \<in> {Lo_Needs_Human, Lo_Blocked}"
  shows "\<exists>r. finish_run oc e plan builder verifier decision steps s pds report blocker budget routes release = Inr r
    \<and> lr_final_decision r = decision \<and> good_result r"
proof -
  have "effort_blocks (oc_effort_score oc) \<Longrightarrow> loop_status_value decision \<in> {''needs_human'', ''blocked''}"
    using assms(7) by auto
  from create_run_evidence_Inr [OF _ _ _ assms(6) this] assms(1) obtain v where
    "create_run_evidence (oc_sha256 oc) (oc_run_id oc) (oc_now oc) e plan builder verifier (loop_status_value decision) pds
       report blocker (oc_effort_score oc) (oc_effort_metrics oc) budget routes release = Inr v"
    "re_final_decision v = loop_status_value decision"
    unfolding ready_def by blast
  then show ?thesis
    using assms sound_steps [OF assms(3,2)]
    by (simp add: finish_run_def good_result_def take_steps_def [symmetric])
qed

lemma effort_blocker_blocks: "effort_blocker oc = None \<Longrightarrow> \<not> effort_blocks (oc_effort_score oc)"
  by (auto simp: effort_blocker_def effort_blocks_def split: if_splits)

definition planned_loop :: loop_state where
  "planned_loop = \<lparr>ls_status = Lo_Planned, ls_history = [Lo_Initialized, Lo_Planned]\<rparr>"

lemma to_planned: "loop_transition Lo_Planned initial_loop = Inr planned_loop"
  by (simp add: loop_transition_def initial_loop_def planned_loop_def)

lemma sound_planned: "sound_state planned_loop"
  using sound_transition [OF sound_initial to_planned] .

lemma steps_from_planned:
  "\<exists>s'. take_steps [Lo_Blocked] initial_loop = Inr s' \<and> ls_status s' = Lo_Blocked"
  "\<exists>s'. take_steps [Lo_Blocked] planned_loop = Inr s' \<and> ls_status s' = Lo_Blocked"
  "\<exists>s'. take_steps [Lo_Policy_Checked, Lo_Needs_Human] planned_loop = Inr s' \<and> ls_status s' = Lo_Needs_Human"
  "t \<in> {Lo_Passed, Lo_Failed} \<Longrightarrow>
   \<exists>s'. take_steps [Lo_Policy_Checked, Lo_Verifying, t] planned_loop = Inr s' \<and> ls_status s' = t"
  "t \<in> {Lo_Passed, Lo_Failed} \<Longrightarrow>
   \<exists>s'. take_steps [Lo_Policy_Checked, Lo_Verifying, Lo_Releasing, t] planned_loop = Inr s' \<and> ls_status s' = t"
  by (auto simp: loop_transition_def initial_loop_def planned_loop_def)

text \<open>The gates of a release, and its outcome.\<close>

definition gates_of :: "eip \<Rightarrow> rollout_gate list" where
  "gates_of e = map (\<lambda>g. \<lparr>rg_metric_name = g, rg_minimum_health_threshold = ''0.95''\<rparr>) (rl_gates (eip_release_requirements e))"

definition release_passes :: "orchestrator \<Rightarrow> eip \<Rightarrow> release_manager \<Rightarrow> bool" where
  "release_passes oc e m =
     (tl_required (eip_telemetry_requirements e) \<and> flag_enabled m (eip_name e) False
      \<and> list_all (gate_met (oc_release_metrics oc)) (rm_gates m @ gates_of e))"

lemma add_gates_run:
  "each_proc (\<lambda>gate. add_gate \<lparr>rg_metric_name = gate, rg_minimum_health_threshold = thr\<rparr>) gs m =
   (Inr (map (\<lambda>_. ()) gs), m\<lparr>rm_gates := rm_gates m @ map (\<lambda>g. \<lparr>rg_metric_name = g, rg_minimum_health_threshold = thr\<rparr>) gs\<rparr>)"
  by (induction gs arbitrary: m) (simp_all add: add_gate_def andthen_Inr)

lemma evaluate_release_of_run:
  "\<exists>event. evaluate_release_of oc e m =
     (Inr (event, if release_passes oc e m then Lo_Passed else Lo_Failed), m\<lparr>rm_gates := rm_gates m @ gates_of e\<rparr>)"
proof -
  let ?m = "m\<lparr>rm_gates := rm_gates m @ gates_of e\<rparr>"
  let ?run = "evaluate_release (eip_name e) (oc_release_metrics oc) (tl_required (eip_telemetry_requirements e)) ?m"
  have "(\<exists>b. fst ?run = Inr b) \<longleftrightarrow> release_passes oc e m"
    unfolding evaluate_release_Inr release_passes_def by (auto simp: flag_enabled_def)
  moreover obtain b where "?run = (b, ?m)" by (metis evaluate_release_state prod.collapse)
  ultimately show ?thesis
    by (cases b) (auto simp: evaluate_release_of_def andthen_def add_gates_run gates_of_def [symmetric])
qed

definition verified :: "orchestrator \<Rightarrow> eip \<Rightarrow> proof_plan \<Rightarrow> bool" where
  "verified oc e plan =
     (pp_eip_version plan = eip_version e \<and> pp_eip_digest plan = compute_eip_digest (oc_sha256 oc) e
      \<and> list_all (obligation_met (oc_engine oc) (oc_spawn oc) default_guard None plan) (eip_proof_obligations e))"

lemma verify_and_release_run:
  assumes "ready oc e" "effort_blocker oc = None" "opt_all (\<lambda>b. 0 \<le> tb_budget b) budget"
  shows "\<exists>r m'. verify_and_release oc e plan builder verifier pds planned_loop routes budget m = (Inr r, m') \<and> good_result r
    \<and> lr_final_decision r = (if verified oc e plan \<and> (rl_required (eip_release_requirements e) \<longrightarrow> release_passes oc e m)
        then Lo_Passed else Lo_Failed)"
proof -
  let ?report = "run_verifier (oc_sha256 oc) (oc_engine oc) (oc_spawn oc) default_guard None (oc_now oc) e plan"
  have passed: "vp_passed ?report \<longleftrightarrow> verified oc e plan" by (simp add: run_verifier_passed verified_def)
  note nb = effort_blocker_blocks [OF assms(2)]
  show ?thesis
  proof (cases "vp_passed ?report \<and> rl_required (eip_release_requirements e)")
    case True
    obtain event where rel: "evaluate_release_of oc e m =
       (Inr (event, if release_passes oc e m then Lo_Passed else Lo_Failed), m\<lparr>rm_gates := rm_gates m @ gates_of e\<rparr>)"
      using evaluate_release_of_run by blast
    define t where "t = (if release_passes oc e m then Lo_Passed else Lo_Failed)"
    have t: "t \<in> {Lo_Passed, Lo_Failed}" by (simp add: t_def)
    from steps_from_planned(5) [OF t] obtain s' where
      s': "take_steps [Lo_Policy_Checked, Lo_Verifying, Lo_Releasing, t] planned_loop = Inr s'" "ls_status s' = t" by blast
    have "terminal t" using t by (auto simp: terminal_def)
    from finish_run_ready [OF assms(1) s'(1) sound_planned s'(2) this assms(3)] nb obtain r where
      "finish_run oc e plan builder verifier t [Lo_Policy_Checked, Lo_Verifying, Lo_Releasing, t] planned_loop pds (Some ?report)
         None budget routes (Some event) = Inr r" "lr_final_decision r = t" "good_result r" by blast
    then show ?thesis using True passed
      by (auto simp: verify_and_release_def andthen_def rel t_def Let_def)
  next
    case False
    define t where "t = (if vp_passed ?report then Lo_Passed else Lo_Failed)"
    have t: "t \<in> {Lo_Passed, Lo_Failed}" by (simp add: t_def)
    from steps_from_planned(4) [OF t] obtain s' where
      s': "take_steps [Lo_Policy_Checked, Lo_Verifying, t] planned_loop = Inr s'" "ls_status s' = t" by blast
    have "terminal t" using t by (auto simp: terminal_def)
    from finish_run_ready [OF assms(1) s'(1) sound_planned s'(2) this assms(3)] nb obtain r where
      "finish_run oc e plan builder verifier t [Lo_Policy_Checked, Lo_Verifying, t] planned_loop pds (Some ?report)
         None budget routes None = Inr r" "lr_final_decision r = t" "good_result r" by blast
    then show ?thesis using False passed
      by (auto simp: verify_and_release_def t_def Let_def)
  qed
qed

section \<open>The theorems\<close>

definition engine_decision :: "orchestrator \<Rightarrow> pystr \<Rightarrow> pystr \<Rightarrow> exn + policy_decision" where
  "engine_decision oc builder verifier =
     evaluate_decision (oc_engine oc) (oc_policy_path oc)
       [(''action'', J_Str ''build''), (''builder'', J_Str builder), (''approver'', J_Str verifier)]"

text \<open>What the provider answers, when there is one: an exception, a blocker, or that it may go on.\<close>

definition provider_answer :: "orchestrator \<Rightarrow> eip \<Rightarrow> exn + pystr option" where
  "provider_answer oc e =
     (case oc_provider oc of None \<Rightarrow> Inr None
      | Some pv \<Rightarrow> (case call_provider oc pv e of Inl x \<Rightarrow> Inl x | Inr (blocker, routes, budget) \<Rightarrow> Inr blocker))"

definition budgeted :: "eip \<Rightarrow> bool" where
  "budgeted e = (mb_max_tokens (eip_model_budget e) \<noteq> 0 \<and> \<not> float_is_zero (mb_max_cost (eip_model_budget e)))"

text \<open>The decision of a run, as a table: the first row that applies.\<close>

definition loop_decision :: "orchestrator \<Rightarrow> eip \<Rightarrow> proof_plan \<Rightarrow> pystr \<Rightarrow> pystr \<Rightarrow> release_manager \<Rightarrow> exn + loop_status" where
  "loop_decision oc e plan builder verifier m =
     (if effort_blocker oc \<noteq> None \<or> \<not> budgeted e then Inr Lo_Blocked
      else case engine_decision oc builder verifier of
             Inl x \<Rightarrow> Inl x
           | Inr d \<Rightarrow>
               (if \<not> allow d then Inr Lo_Needs_Human
                else case provider_answer oc e of
                       Inl x \<Rightarrow> Inl x
                     | Inr (Some blocker) \<Rightarrow> Inr Lo_Blocked
                     | Inr None \<Rightarrow>
                         Inr (if verified oc e plan \<and> (rl_required (eip_release_requirements e) \<longrightarrow> release_passes oc e m)
                              then Lo_Passed else Lo_Failed)))"

lemma call_provider_Inr:
  assumes "call_provider oc pv e = Inr (blocker, routes, budget)"
  shows "blocker \<noteq> Some [] \<and> 0 \<le> tb_budget budget"
  using assms
  by (auto simp: call_provider_def record_usage_def create_budget_def parse_token_budget_def Let_def
      split: sum.splits if_splits)

lemma run_loop_run:
  assumes "ready oc e"
  shows "case loop_decision oc e plan builder verifier m of
      Inl x \<Rightarrow> fst (run_loop oc e plan builder verifier m) = Inl x
    | Inr t \<Rightarrow> \<exists>r m'. run_loop oc e plan builder verifier m = (Inr r, m') \<and> good_result r \<and> lr_final_decision r = t"
proof (cases "effort_blocker oc")
  case (Some b)
  from steps_from_planned(1) obtain s' where s': "take_steps [Lo_Blocked] initial_loop = Inr s'" "ls_status s' = Lo_Blocked" by blast
  from finish_run_ready [OF assms s'(1) sound_initial s'(2), of None plan builder verifier "[]" None "Some b" None None]
  show ?thesis using Some by (auto simp: loop_decision_def run_loop_def terminal_def)
next
  case None
  note nb = effort_blocker_blocks [OF None]
  show ?thesis
  proof (cases "budgeted e")
    case False
    from steps_from_planned(1) obtain s' where s': "take_steps [Lo_Blocked] initial_loop = Inr s'" "ls_status s' = Lo_Blocked" by blast
    from finish_run_ready [OF assms s'(1) sound_initial s'(2), of None plan builder verifier "[]" None
        "Some ''budget exhausted''" None None]
    show ?thesis using None False by (auto simp: loop_decision_def run_loop_def terminal_def budgeted_def)
  next
    case True
    let ?rest = "\<lambda>d. let pds = [decision_json d] in
             if \<not> allow d
             then lift_result (finish_run oc e plan builder verifier Lo_Needs_Human [Lo_Policy_Checked, Lo_Needs_Human]
                    planned_loop pds None None None None None)
             else case oc_provider oc of
                    None \<Rightarrow> verify_and_release oc e plan builder verifier pds planned_loop None None
                  | Some pv \<Rightarrow>
                      andthen (lift_result (call_provider oc pv e)) (\<lambda>(blocker, routes, budget).
                      if blocker \<noteq> None \<and> blocker \<noteq> Some []
                      then lift_result (finish_run oc e plan builder verifier Lo_Blocked [Lo_Blocked] planned_loop pds None
                             blocker (Some budget) (Some routes) None)
                      else verify_and_release oc e plan builder verifier pds planned_loop (Some routes) (Some budget))"
    have run: "run_loop oc e plan builder verifier m =
        (case engine_decision oc builder verifier of Inl x \<Rightarrow> (Inl x, m) | Inr d \<Rightarrow> ?rest d m)"
      using None True by (simp add: run_loop_def budgeted_def to_planned engine_decision_def split: sum.splits)
    show ?thesis
    proof (cases "engine_decision oc builder verifier")
      case (Inl x)
      then show ?thesis using None True run by (simp add: loop_decision_def)
    next
      case d: (Inr d)
      show ?thesis
      proof (cases "allow d")
        case False
        from steps_from_planned(3) obtain s' where
          s': "take_steps [Lo_Policy_Checked, Lo_Needs_Human] planned_loop = Inr s'" "ls_status s' = Lo_Needs_Human" by blast
        from finish_run_ready [OF assms s'(1) sound_planned s'(2), of None plan builder verifier "[decision_json d]" None None None None]
        show ?thesis using None True d False run by (auto simp: loop_decision_def terminal_def Let_def)
      next
        case ok: True
        show ?thesis
        proof (cases "oc_provider oc")
          case none: None
          from verify_and_release_run [OF assms None, of None plan builder verifier "[decision_json d]" None m]
          show ?thesis using None True d ok none run by (auto simp: loop_decision_def provider_answer_def Let_def)
        next
          case pv: (Some pv)
          show ?thesis
          proof (cases "call_provider oc pv e")
            case (Inl x)
            then show ?thesis using None True d ok pv run by (simp add: loop_decision_def provider_answer_def Let_def)
          next
            case (Inr y)
            then obtain blocker routes budget where y: "call_provider oc pv e = Inr (blocker, routes, budget)" by (metis prod_cases3)
            note b = call_provider_Inr [OF y]
            show ?thesis
            proof (cases blocker)
              case none: None
              from verify_and_release_run [OF assms None, of "Some budget" plan builder verifier "[decision_json d]" "Some routes" m] b
              show ?thesis using None True d ok pv y none run by (auto simp: loop_decision_def provider_answer_def Let_def)
            next
              case (Some t)
              from steps_from_planned(2) obtain s' where
                s': "take_steps [Lo_Blocked] planned_loop = Inr s'" "ls_status s' = Lo_Blocked" by blast
              from finish_run_ready [OF assms s'(1) sound_planned s'(2), of "Some budget" plan builder verifier
                  "[decision_json d]" None blocker "Some routes" None] b
              show ?thesis using None True d ok pv y Some run
                by (auto simp: loop_decision_def provider_answer_def terminal_def Let_def)
            qed
          qed
        qed
      qed
    qed
  qed
qed

lemma run_loop_decides:
  assumes "ready oc e"
  shows "case run_loop oc e plan builder verifier m of
      (Inl x, m') \<Rightarrow> loop_decision oc e plan builder verifier m = Inl x
    | (Inr r, m') \<Rightarrow> good_result r \<and> loop_decision oc e plan builder verifier m = Inr (lr_final_decision r)"
  using run_loop_run [OF assms, of plan builder verifier m]
  by (cases "run_loop oc e plan builder verifier m") (auto split: sum.splits)

lemma loop_decision_passed:
  "loop_decision oc e plan builder verifier m = Inr Lo_Passed \<longleftrightarrow>
     effort_blocker oc = None \<and> budgeted e
     \<and> (\<exists>d. engine_decision oc builder verifier = Inr d \<and> allow d)
     \<and> provider_answer oc e = Inr None \<and> verified oc e plan
     \<and> (rl_required (eip_release_requirements e) \<longrightarrow> release_passes oc e m)"
  by (auto simp: loop_decision_def split: sum.splits option.splits)

lemma rego_build_decision:
  "oc_engine oc = rego_engine \<Longrightarrow>
   (\<exists>d. engine_decision oc builder verifier = Inr d \<and> allow d) \<longleftrightarrow> builder \<noteq> verifier"
  unfolding engine_decision_def
  by (simp only: rego_decision_allow)
    (simp add: rego_allow_def is_text_def one_of_def rego_forbidden_capability_def dict_get_def)


text \<open>
  C16: under the shipped policy a run passes exactly when the verifier is not the builder, no effort
  limit blocks, the model budget is not exhausted, the provider (if any) answers without a denial
  and within the cost, every proof obligation of the contract is met by the plan made for this very
  contract, and, where the contract requires a release, telemetry, flag and gates let it through.
\<close>

theorem loop_passes_iff:
  assumes "ready oc e" "oc_engine oc = rego_engine"
  shows "(\<exists>r m'. run_loop oc e plan builder verifier m = (Inr r, m') \<and> lr_final_decision r = Lo_Passed) \<longleftrightarrow>
     builder \<noteq> verifier \<and> effort_blocker oc = None \<and> budgeted e \<and> provider_answer oc e = Inr None
     \<and> verified oc e plan \<and> (rl_required (eip_release_requirements e) \<longrightarrow> release_passes oc e m)"
proof -
  have "(\<exists>r m'. run_loop oc e plan builder verifier m = (Inr r, m') \<and> lr_final_decision r = Lo_Passed)
    \<longleftrightarrow> loop_decision oc e plan builder verifier m = Inr Lo_Passed"
    using run_loop_decides [OF assms(1), of plan builder verifier m]
    by (cases "run_loop oc e plan builder verifier m") (auto split: sum.splits)
  then show ?thesis
    unfolding loop_decision_passed rego_build_decision [OF assms(2)] by blast
qed

section \<open>A run\<close>

definition demo_orchestrator :: orchestrator where
  "demo_orchestrator =
     \<lparr>oc_policy_path = ''policies/vad.rego'', oc_engine = rego_engine,
      oc_spawn = (\<lambda>command cwd. Inr (0, ''ok'', [])), oc_sha256 = (\<lambda>s. s), oc_effort_score = None,
      oc_effort_metrics = None, oc_effort_justification = None, oc_dependency_approval = False,
      oc_release_metrics = [], oc_provider = None, oc_provider_model = None, oc_run_id = ''run-1'',
      oc_now = ''2026-01-01T00:00:00+00:00''\<rparr>"

definition demo_plan :: proof_plan where
  "demo_plan = full_plan (\<lambda>s. s) (demo_eip [''a''])"

definition demo_release :: release_manager where
  "demo_release = \<lparr>rm_flags = [], rm_gates = []\<rparr>"

text \<open>Executable forms of what the verifier runs.\<close>

lemma permitted_code [code]:
  "permitted ev g command =
     (command \<noteq> [] \<and> hd command \<in> set (eg_allowed_executables g) \<and> \<not> list_ex contains_shell_control command
      \<and> (case evaluate_decision ev (eg_policy_path g)
             [(''action'', J_Str ''use_tool''), (''tool'', J_Str (policy_tool (hd command)))] of
           Inl x \<Rightarrow> False | Inr d \<Rightarrow> allow d))"
  by (auto simp: permitted_def split: sum.splits)

lemma command_succeeds_code [code]:
  "command_succeeds ev spawn g cwd cmd =
     (case shlex_split cmd of
        Inl x \<Rightarrow> False
      | Inr words \<Rightarrow> permitted ev g words
          \<and> (case spawn words cwd of Inl x \<Rightarrow> False | Inr (code, out, err) \<Rightarrow> code = 0))"
  by (auto simp: command_succeeds_def split: sum.splits)

lemma demo_ready: "ready demo_orchestrator (demo_eip [''a''])"
  by code_simp

lemma demo_loop_decision:
  "loop_decision demo_orchestrator (demo_eip [''a'']) demo_plan ''builder'' ''verifier'' demo_release = Inr Lo_Passed"
  "loop_decision demo_orchestrator (demo_eip [''a'']) demo_plan ''builder'' ''builder'' demo_release = Inr Lo_Needs_Human"
  by code_simp+


theorem loop_passes_iff_witness:
  "(\<exists>r m'. run_loop demo_orchestrator (demo_eip [''a'']) demo_plan ''builder'' ''verifier'' demo_release = (Inr r, m')
      \<and> lr_final_decision r = Lo_Passed)
   \<and> \<not> (\<exists>r m'. run_loop demo_orchestrator (demo_eip [''a'']) demo_plan ''builder'' ''builder'' demo_release = (Inr r, m')
      \<and> lr_final_decision r = Lo_Passed)"
proof -
  have "oc_engine demo_orchestrator = rego_engine" by (simp add: demo_orchestrator_def)
  note iff = loop_passes_iff [OF demo_ready this, of demo_plan]
  show ?thesis
    unfolding iff using demo_loop_decision(1) unfolding loop_decision_passed by blast
qed

end
