(* ===== verification/Swarm.thy ===== *)
theory Swarm
  imports Evidence Py_Time "HOL-Library.Multiset"
begin

text \<open>
  The local agent swarm (\<open>vad/swarm\<close>): agent cards, the task graph with its cycle check, the
  transport, the coordinator and the loop of \<open>swarm/demo.py\<close> that drives it, and task leases.
\<close>

section \<open>Agents (\<open>agents.py\<close>)\<close>

datatype agent_role = Planner | Builder | Verifier | Auditor | Release_Guardian

fun agent_role_value :: "agent_role \<Rightarrow> pystr" where
  "agent_role_value Planner = ''planner''"
| "agent_role_value Builder = ''builder''"
| "agent_role_value Verifier = ''verifier''"
| "agent_role_value Auditor = ''auditor''"
| "agent_role_value Release_Guardian = ''release_guardian''"

fun role_capabilities :: "agent_role \<Rightarrow> pystr list" where
  "role_capabilities Planner = [''plan'', ''decompose'']"
| "role_capabilities Builder = [''modify_code'', ''run_tests'']"
| "role_capabilities Verifier = [''run_tests'', ''verify'']"
| "role_capabilities Auditor = [''audit_evidence'', ''verify'']"
| "role_capabilities Release_Guardian = [''approve_release'', ''rollback'']"

record agent_card =
  ac_agent_id :: pystr
  ac_role :: agent_role
  ac_capabilities :: "pystr list"
  ac_model_tiers :: "pystr list"
  ac_memory_scopes :: "pystr list"
  ac_autonomy_limit :: int

definition valid_agent_card :: "agent_card \<Rightarrow> bool" where
  "valid_agent_card a =
     (ac_agent_id a \<noteq> [] \<and> ac_capabilities a \<noteq> [] \<and> ac_model_tiers a \<noteq> []
      \<and> 0 \<le> ac_autonomy_limit a \<and> ac_autonomy_limit a \<le> 5
      \<and> set (ac_capabilities a) \<subseteq> set (role_capabilities (ac_role a))
      \<and> \<not> (ac_role a \<in> {Builder, Release_Guardian} \<and> ac_autonomy_limit a = 0))"

section \<open>The task graph (\<open>tasks.py\<close>)\<close>

datatype swarm_task_status = St_Pending | St_Running | St_Completed | St_Blocked

record swarm_task =
  sw_task_id :: pystr
  sw_role :: agent_role
  sw_description :: pystr
  sw_depends_on :: "pystr list"
  sw_status :: swarm_task_status

lemma unvisited_less:
  assumes "t \<notin> set visiting" "map_of edges t = Some ds"
  shows "card (fst ` set edges - insert t (set visiting)) < card (fst ` set edges - set visiting)"
proof (rule psubset_card_mono)
  have "t \<in> fst ` set edges" using map_of_SomeD [OF assms(2)] by force
  then show "fst ` set edges - insert t (set visiting) \<subset> fst ` set edges - set visiting"
    using assms(1) by auto
qed simp

text \<open>
  \<open>_reject_cycles\<close>. The source adds a task to the set \<open>visiting\<close> before its dependencies and
  removes it after; here \<open>visiting\<close> is the argument of the recursive call, and \<open>visited\<close> is
  threaded through.
\<close>

function visit_task ::
    "(pystr \<times> pystr list) list \<Rightarrow> pystr list \<Rightarrow> pystr list \<Rightarrow> pystr \<Rightarrow> exn + pystr list"
  and visit_dependencies ::
    "(pystr \<times> pystr list) list \<Rightarrow> pystr list \<Rightarrow> pystr list \<Rightarrow> pystr list \<Rightarrow> exn + pystr list" where
  "visit_task edges visiting visited t =
     (if t \<in> set visiting then Inl (ValueError (''cycle detected at task '' @ t))
      else if t \<in> set visited then Inr visited
      else case map_of edges t of
             None \<Rightarrow> Inl (KeyError t)
           | Some ds \<Rightarrow> (case visit_dependencies edges (t # visiting) visited ds of
                            Inl e \<Rightarrow> Inl e
                          | Inr v \<Rightarrow> Inr (t # v)))"
| "visit_dependencies edges visiting visited [] = Inr visited"
| "visit_dependencies edges visiting visited (d # ds) =
     (case visit_task edges visiting visited d of
        Inl e \<Rightarrow> Inl e
      | Inr v \<Rightarrow> visit_dependencies edges visiting v ds)"
  by pat_completeness auto

termination
proof (relation "measures
    [\<lambda>v. case v of Inl (es, ving, ved, t) \<Rightarrow> card (fst ` set es - set ving)
                 | Inr (es, ving, ved, ds) \<Rightarrow> card (fst ` set es - set ving),
     \<lambda>v. case v of Inl _ \<Rightarrow> 0 | Inr (es, ving, ved, ds) \<Rightarrow> Suc (length ds)]", goal_cases)
  case (2 edges visiting visited t ds)
  then show ?case using unvisited_less [of t visiting edges ds] by simp
qed auto

declare visit_task.simps [simp del]

definition reject_cycles :: "(pystr \<times> pystr list) list \<Rightarrow> exn + unit" where
  "reject_cycles edges =
     (case visit_dependencies edges [] [] (map fst edges) of Inl e \<Rightarrow> Inl e | Inr _ \<Rightarrow> Inr ())"

fun missing_dependency :: "pystr list \<Rightarrow> swarm_task list \<Rightarrow> exn + unit" where
  "missing_dependency ids [] = Inr ()"
| "missing_dependency ids (t # ts) =
     (let missing = sorted_set (filter (\<lambda>d. d \<notin> set ids) (sw_depends_on t)) in
      if missing \<noteq> []
      then Inl (ValueError (''unknown task dependencies for '' @ sw_task_id t @ '': '' @ py_join '', '' missing))
      else missing_dependency ids ts)"

definition graph_edges :: "swarm_task list \<Rightarrow> (pystr \<times> pystr list) list" where
  "graph_edges ts = map (\<lambda>t. (sw_task_id t, sw_depends_on t)) ts"

definition validate_graph :: "swarm_task list \<Rightarrow> exn + unit" where
  "validate_graph ts =
     (let ids = map sw_task_id ts in
      if \<not> distinct ids then Inl (ValueError ''duplicate task ids are not allowed'')
      else case missing_dependency ids ts of Inl e \<Rightarrow> Inl e
           | Inr _ \<Rightarrow> reject_cycles (graph_edges ts))"

definition parse_task_graph :: "swarm_task list \<Rightarrow> exn + swarm_task list" where
  "parse_task_graph ts =
     (if ts = [] \<or> \<not> list_all (\<lambda>t. sw_task_id t \<noteq> [] \<and> sw_description t \<noteq> []) ts
      then Inl (ValidationError ''SwarmTaskGraph'')
      else case validate_graph ts of Inl e \<Rightarrow> Inl e | Inr _ \<Rightarrow> Inr ts)"

definition completed_ids :: "swarm_task list \<Rightarrow> pystr list" where
  "completed_ids ts = map sw_task_id (filter (\<lambda>t. sw_status t = St_Completed) ts)"

definition ready_tasks :: "swarm_task list \<Rightarrow> swarm_task list" where
  "ready_tasks ts =
     filter (\<lambda>t. sw_status t = St_Pending \<and> set (sw_depends_on t) \<subseteq> set (completed_ids ts)) ts"

section \<open>The transport (\<open>transport.py\<close>)\<close>

fun allowed_message_types :: "agent_role \<Rightarrow> pystr list" where
  "allowed_message_types Planner = [''task_planned'']"
| "allowed_message_types Builder = [''build_completed'']"
| "allowed_message_types Verifier = [''verification_completed'']"
| "allowed_message_types Auditor = [''audit_completed'']"
| "allowed_message_types Release_Guardian = [''release_decision'']"

record swarm_message =
  ms_message_id :: pystr
  ms_sender_id :: pystr
  ms_sender_role :: agent_role
  ms_message_type :: pystr
  ms_task_id :: pystr
  ms_payload :: "(pystr \<times> json) list"
  ms_evidence_digest :: pystr
  ms_created_at :: pystr

text \<open>
  What a run changes: the tasks (mutated in place), the published messages. \<open>stamp\<close> gives the
  message id and the time of the n-th message (\<open>uuid4\<close> and \<open>utcnow\<close>).
\<close>

record swarm =
  sg_tasks :: "swarm_task list"
  sg_messages :: "swarm_message list"
  sg_stamp :: "nat \<Rightarrow> pystr \<times> pystr"

definition message_json :: "agent_card \<Rightarrow> pystr \<Rightarrow> pystr \<Rightarrow> (pystr \<times> json) list \<Rightarrow> json" where
  "message_json sender message_type task_id payload =
     J_Dict [(''sender_id'', J_Str (ac_agent_id sender)), (''sender_role'', J_Str (agent_role_value (ac_role sender))),
       (''message_type'', J_Str message_type), (''task_id'', J_Str task_id), (''payload'', J_Dict payload)]"

definition publish ::
    "(pystr \<Rightarrow> pystr) \<Rightarrow> agent_card \<Rightarrow> pystr \<Rightarrow> pystr \<Rightarrow> (pystr \<times> json) list \<Rightarrow> (swarm, swarm_message) proc" where
  "publish sha256 sender message_type task_id payload =
     (if message_type \<notin> set (allowed_message_types (ac_role sender))
      then throw (PermissionError (agent_role_value (ac_role sender) @ '' cannot send '' @ message_type))
      else andthen (reads (\<lambda>s. sg_stamp s (length (sg_messages s)))) (\<lambda>(mid, at).
        let m = \<lparr>ms_message_id = mid, ms_sender_id = ac_agent_id sender, ms_sender_role = ac_role sender,
                 ms_message_type = message_type, ms_task_id = task_id, ms_payload = payload,
                 ms_evidence_digest = compute_hash sha256 (message_json sender message_type task_id payload),
                 ms_created_at = at\<rparr> in
        andthen (writes (\<lambda>s. s\<lparr>sg_messages := sg_messages s @ [m]\<rparr>)) (\<lambda>_. ret m)))"

section \<open>The coordinator (\<open>coordinator.py\<close>)\<close>

fun message_type_for_role :: "agent_role \<Rightarrow> pystr" where
  "message_type_for_role Planner = ''task_planned''"
| "message_type_for_role Builder = ''build_completed''"
| "message_type_for_role Verifier = ''verification_completed''"
| "message_type_for_role Auditor = ''audit_completed''"
| "message_type_for_role Release_Guardian = ''release_decision''"

fun agent_for_role :: "agent_card list \<Rightarrow> agent_role \<Rightarrow> exn + agent_card" where
  "agent_for_role [] r = Inl (ValueError (''no agent available for role '' @ agent_role_value r))"
| "agent_for_role (a # as) r = (if ac_role a = r then Inr a else agent_for_role as r)"

text \<open>\<open>task.status = COMPLETED\<close> on the task object with this id.\<close>

definition set_completed :: "pystr \<Rightarrow> swarm_task list \<Rightarrow> swarm_task list" where
  "set_completed k ts = map (\<lambda>t. if sw_task_id t = k then t\<lparr>sw_status := St_Completed\<rparr> else t) ts"

definition run_task ::
    "(pystr \<Rightarrow> pystr) \<Rightarrow> agent_card list \<Rightarrow> swarm_task \<Rightarrow> (swarm, swarm_message) proc" where
  "run_task sha256 agents t =
     andthen (lift_result (agent_for_role agents (sw_role t))) (\<lambda>agent.
     andthen (publish sha256 agent (message_type_for_role (sw_role t)) (sw_task_id t)
       [(''status'', J_Str ''completed''), (''description'', J_Str (sw_description t))]) (\<lambda>m.
     andthen (writes (\<lambda>s. s\<lparr>sg_tasks := set_completed (sw_task_id t) (sg_tasks s)\<rparr>)) (\<lambda>_. ret m)))"

record coordinator_result =
  cr_messages :: "swarm_message list"
  cr_completed_task_ids :: "pystr list"

definition run_ready_tasks ::
    "(pystr \<Rightarrow> pystr) \<Rightarrow> agent_card list \<Rightarrow> (swarm, coordinator_result) proc" where
  "run_ready_tasks sha256 agents =
     andthen (reads (\<lambda>s. ready_tasks (sg_tasks s))) (\<lambda>ready.
     andthen (each_proc (run_task sha256 agents) ready) (\<lambda>ms.
     ret \<lparr>cr_messages = ms, cr_completed_task_ids = map sw_task_id ready\<rparr>))"

text \<open>
  The loop of \<open>run_level3_demo_swarm\<close>: rounds until all tasks were completed or a round
  completes none. \<open>n\<close> bounds the rounds; \<open>drain_run\<close> shows that the number of tasks is
  enough.
\<close>

fun drain ::
    "(pystr \<Rightarrow> pystr) \<Rightarrow> agent_card list \<Rightarrow> nat \<Rightarrow> pystr list \<Rightarrow> swarm_message list
     \<Rightarrow> (swarm, pystr list \<times> swarm_message list) proc" where
  "drain sha256 agents n completed messages s =
     (if \<not> length completed < length (sg_tasks s) then (Inr (completed, messages), s)
      else case n of
             0 \<Rightarrow> (Inl (RuntimeError ''out of rounds''), s)
           | Suc m \<Rightarrow> andthen (run_ready_tasks sha256 agents) (\<lambda>r.
               if cr_completed_task_ids r = [] then ret (completed, messages)
               else drain sha256 agents m (completed @ cr_completed_task_ids r) (messages @ cr_messages r)) s)"

declare drain.simps [simp del]

definition final_decision :: "bool \<Rightarrow> pystr list \<Rightarrow> swarm_task list \<Rightarrow> pystr" where
  "final_decision verification_passed completed ts =
     (if verification_passed \<and> length completed = length ts then ''passed'' else ''blocked'')"

text \<open>\<open>_agent_roles\<close>: the tasks of each role, in the order of first use.\<close>

definition agent_roles :: "swarm_message list \<Rightarrow> (pystr \<times> pystr list) list" where
  "agent_roles messages =
     fold (\<lambda>m d. let k = agent_role_value (ms_sender_role m) in
             dict_set k ((case dict_get k d of None \<Rightarrow> [] | Some ts \<Rightarrow> ts) @ [ms_task_id m]) d) messages []"

section \<open>The state (\<open>state.py\<close>) and task leases (\<open>leases.py\<close>)\<close>

text \<open>\<open>mark_completed\<close> returns whether it changed the first task with the id.\<close>

fun mark_completed :: "pystr \<Rightarrow> swarm_task list \<Rightarrow> exn + (bool \<times> swarm_task list)" where
  "mark_completed k [] = Inl (ValueError (''unknown task id: '' @ k))"
| "mark_completed k (t # ts) =
     (if sw_task_id t = k
      then (if sw_status t = St_Completed then Inr (False, t # ts)
            else Inr (True, t\<lparr>sw_status := St_Completed\<rparr> # ts))
      else (case mark_completed k ts of Inl e \<Rightarrow> Inl e | Inr (b, us) \<Rightarrow> Inr (b, t # us)))"

record swarm_lease =
  sl_task_id :: pystr
  sl_holder_id :: pystr
  sl_expires_at :: datetime
  sl_retry_count :: int
  sl_max_retries :: int
  sl_blocked :: bool
  sl_blocker :: "pystr option"

definition swarm_heartbeat :: "datetime \<Rightarrow> int \<Rightarrow> swarm_lease \<Rightarrow> swarm_lease" where
  "swarm_heartbeat now ttl_seconds l =
     (if sl_blocked l then l else l\<lparr>sl_expires_at := plus_seconds now ttl_seconds\<rparr>)"

text \<open>\<open>now <= expires_at\<close> raises on a naive and an aware value.\<close>

definition swarm_evaluate :: "datetime \<Rightarrow> swarm_lease \<Rightarrow> exn + swarm_lease" where
  "swarm_evaluate now l =
     (if sl_blocked l then Inr l
      else case time_sub now (sl_expires_at l) of
             Inl _ \<Rightarrow> Inl (TypeError ''can't compare offset-naive and offset-aware datetimes'')
           | Inr d \<Rightarrow>
               (if d \<le> 0 then Inr l
                else (let retries = sl_retry_count l + 1 in
                  if sl_max_retries l < retries
                  then Inr (l\<lparr>sl_retry_count := retries, sl_blocked := True, sl_blocker := Some ''retry limit exceeded''\<rparr>)
                  else Inr (l\<lparr>sl_retry_count := retries, sl_blocker := Some ''missed heartbeat''\<rparr>))))"

end
