(* ===== verification/Swarm_Properties.thy ===== *)
theory Swarm_Properties
  imports Swarm
begin

text \<open>
  The cycle check accepts exactly the acyclic graphs, and the coordinator finishes every graph it
  accepts, in dependency order.
\<close>

section \<open>The cycle check\<close>

definition depends :: "(pystr \<times> pystr list) list \<Rightarrow> (pystr \<times> pystr) set" where
  "depends edges = {(t, d). \<exists>ds. map_of edges t = Some ds \<and> d \<in> set ds}"

text \<open>A set of tasks that is closed under dependencies and has no cycle.\<close>

definition settled :: "(pystr \<times> pystr) set \<Rightarrow> pystr set \<Rightarrow> bool" where
  "settled E V = (E `` V \<subseteq> V \<and> acyclic (E \<inter> V \<times> V))"

lemma settled_empty: "settled E {}"
  by (simp add: settled_def acyclic_def)

lemma trancl_avoid:
  assumes "(x, y) \<in> R\<^sup>+" "x \<noteq> t" "t \<notin> Range R" "\<And>a b. (a, b) \<in> R \<Longrightarrow> a \<noteq> t \<Longrightarrow> (a, b) \<in> S"
  shows "(x, y) \<in> S\<^sup>+"
  using assms(1)
proof (induction rule: trancl_induct)
  case (base y)
  then show ?case using assms(2,4) by blast
next
  case (step y z)
  have "y \<noteq> t" using step.hyps(1) assms(3) by (metis RangeI tranclE)
  then show ?case using step assms(4) by (meson trancl_into_trancl)
qed

lemma settled_insert:
  assumes "settled E V" "t \<notin> V" "E `` {t} \<subseteq> V"
  shows "settled E (insert t V)"
proof -
  let ?R = "E \<inter> insert t V \<times> insert t V"
  have range: "t \<notin> Range ?R" using assms by (auto simp: settled_def)
  have "(x, x) \<notin> ?R\<^sup>+" for x
  proof
    assume cyc: "(x, x) \<in> ?R\<^sup>+"
    then have "x \<noteq> t" using range by (metis RangeI tranclE)
    have "(a, b) \<in> E \<inter> V \<times> V" if "(a, b) \<in> ?R" "a \<noteq> t" for a b
      using that range by blast
    from trancl_avoid [OF cyc \<open>x \<noteq> t\<close> range this] have "(x, x) \<in> (E \<inter> V \<times> V)\<^sup>+" .
    then show False using assms(1) by (auto simp: settled_def acyclic_def)
  qed
  then show ?thesis using assms by (auto simp: settled_def acyclic_def)
qed

lemma visit_Inr:
  "visit_task edges visiting visited t = Inr v \<Longrightarrow> settled (depends edges) (set visited) \<Longrightarrow>
     settled (depends edges) (set v) \<and> set visited \<subseteq> set v \<and> t \<in> set v \<and> set v \<inter> set visiting \<subseteq> set visited"
  "visit_dependencies edges visiting visited ds = Inr v \<Longrightarrow> settled (depends edges) (set visited) \<Longrightarrow>
     settled (depends edges) (set v) \<and> set visited \<subseteq> set v \<and> set ds \<subseteq> set v \<and> set v \<inter> set visiting \<subseteq> set visited"
proof (induction edges visiting visited t and edges visiting visited ds arbitrary: v and v
    rule: visit_task_visit_dependencies.induct)
  case (1 edges visiting visited t)
  show ?case
  proof (cases "t \<in> set visited")
    case True
    with 1 show ?thesis by (auto simp: visit_task.simps split: if_splits)
  next
    case False
    with "1.prems" obtain ds w where d: "t \<notin> set visiting" "map_of edges t = Some ds"
      "visit_dependencies edges (t # visiting) visited ds = Inr w" "v = t # w"
      by (auto simp: visit_task.simps split: if_splits option.splits sum.splits)
    note w = "1.IH" [OF d(1) False d(2) d(3) "1.prems"(2)]
    have "depends edges `` {t} \<subseteq> set w" using w d(2) by (auto simp: depends_def)
    moreover have "t \<notin> set w" using w False by auto
    ultimately have "settled (depends edges) (insert t (set w))" using w settled_insert by blast
    then show ?thesis using w d by auto
  qed
next
  case (3 edges visiting visited d ds)
  then obtain w where w: "visit_task edges visiting visited d = Inr w" "visit_dependencies edges visiting w ds = Inr v"
    by (auto split: sum.splits)
  from "3.IH"(1) [OF w(1) "3.prems"(2)] "3.IH"(2) [OF w(1) w(2)] show ?case by auto
qed auto

lemma visit_Inl:
  "visit_task edges visiting visited t = Inl e \<Longrightarrow> t \<in> fst ` set edges \<Longrightarrow>
     Range (depends edges) \<subseteq> fst ` set edges \<Longrightarrow> (\<forall>x\<in>set visiting. (x, t) \<in> (depends edges)\<^sup>+) \<Longrightarrow>
     \<exists>x. (x, x) \<in> (depends edges)\<^sup>+"
  "visit_dependencies edges visiting visited ds = Inl e \<Longrightarrow> set ds \<subseteq> fst ` set edges \<Longrightarrow>
     Range (depends edges) \<subseteq> fst ` set edges \<Longrightarrow> (\<forall>x\<in>set visiting. \<forall>d\<in>set ds. (x, d) \<in> (depends edges)\<^sup>+) \<Longrightarrow>
     \<exists>x. (x, x) \<in> (depends edges)\<^sup>+"
proof (induction edges visiting visited t and edges visiting visited ds arbitrary: e and e
    rule: visit_task_visit_dependencies.induct)
  case (1 edges visiting visited t)
  show ?case
  proof (cases "t \<in> set visiting")
    case True
    then show ?thesis using "1.prems"(4) by blast
  next
    case False
    have "map_of edges t \<noteq> None" using "1.prems"(2) by (simp add: map_of_eq_None_iff)
    with "1.prems"(1) False obtain ds where d: "t \<notin> set visited" "map_of edges t = Some ds"
      "visit_dependencies edges (t # visiting) visited ds = Inl e"
      by (auto simp: visit_task.simps split: if_splits option.splits sum.splits)
    have edge: "(t, d) \<in> depends edges" if "d \<in> set ds" for d using that d(2) by (auto simp: depends_def)
    then have sub: "set ds \<subseteq> fst ` set edges" using "1.prems"(3) by blast
    have "\<forall>x\<in>set (t # visiting). \<forall>d\<in>set ds. (x, d) \<in> (depends edges)\<^sup>+"
      using edge "1.prems"(4) by (auto intro: trancl_into_trancl)
    from "1.IH" [OF False d(1) d(2) d(3) sub "1.prems"(3) this] show ?thesis .
  qed
next
  case (3 edges visiting visited d ds)
  show ?case
  proof (cases "visit_task edges visiting visited d")
    case (Inl x)
    with "3.IH"(1) [OF Inl] "3.prems" show ?thesis by auto
  next
    case (Inr w)
    with "3.IH"(2) [OF Inr, of e] "3.prems" show ?thesis by auto
  qed
qed auto

lemma reject_cycles_iff:
  assumes "Range (depends edges) \<subseteq> fst ` set edges"
  shows "reject_cycles edges = Inr () \<longleftrightarrow> acyclic (depends edges)"
proof (cases "visit_dependencies edges [] [] (map fst edges)")
  case (Inl e)
  from visit_Inl(2) [OF Inl] assms have "\<not> acyclic (depends edges)" by (auto simp: acyclic_def)
  then show ?thesis by (simp add: reject_cycles_def Inl)
next
  case (Inr v)
  from visit_Inr(2) [OF Inr] have v: "settled (depends edges) (set v)" "fst ` set edges \<subseteq> set v"
    by (auto simp: settled_empty)
  have dom: "a \<in> fst ` set edges" if "(a, b) \<in> depends edges" for a b
    using that map_of_eq_None_iff [of edges a] by (auto simp: depends_def)
  have "depends edges \<subseteq> set v \<times> set v"
  proof (rule subrelI)
    fix a b assume ab: "(a, b) \<in> depends edges"
    then have "b \<in> fst ` set edges" using assms by (metis RangeI subsetD)
    with dom [OF ab] v(2) show "(a, b) \<in> set v \<times> set v" by (auto dest: subsetD)
  qed
  then have "depends edges \<inter> set v \<times> set v = depends edges" by (rule Int_absorb2)
  then have "acyclic (depends edges)" using v by (simp add: settled_def)
  then show ?thesis by (simp add: reject_cycles_def Inr)
qed

lemma missing_dependency_Inr:
  "missing_dependency ids ts = Inr () \<longleftrightarrow> (\<forall>t\<in>set ts. set (sw_depends_on t) \<subseteq> set ids)"
proof (induction ts)
  case (Cons t ts)
  have "sorted_set (filter (\<lambda>d. d \<notin> set ids) (sw_depends_on t)) = [] \<longleftrightarrow> set (sw_depends_on t) \<subseteq> set ids"
    by (metis (mono_tags, lifting) Diff_eq_empty_iff empty_filter_conv set_empty set_sorted_set subset_iff subsetD)
  with Cons show ?case by (auto simp: Let_def)
qed simp

definition needs :: "swarm_task list \<Rightarrow> (pystr \<times> pystr) set" where
  "needs ts = {(sw_task_id t, d) | t d. t \<in> set ts \<and> d \<in> set (sw_depends_on t)}"

lemma depends_needs: "distinct (map sw_task_id ts) \<Longrightarrow> depends (graph_edges ts) = needs ts"
proof -
  assume "distinct (map sw_task_id ts)"
  then have "distinct (map fst (graph_edges ts))" by (simp add: graph_edges_def comp_def)
  then have "map_of (graph_edges ts) k = Some ds \<longleftrightarrow> (\<exists>t\<in>set ts. sw_task_id t = k \<and> sw_depends_on t = ds)" for k ds
    by (auto simp: graph_edges_def)
  then show ?thesis by (auto simp: depends_def needs_def)
qed

lemma validate_graph_acyclic:
  "validate_graph ts = Inr () \<longleftrightarrow>
     distinct (map sw_task_id ts) \<and> (\<forall>t\<in>set ts. set (sw_depends_on t) \<subseteq> sw_task_id ` set ts) \<and> acyclic (needs ts)"
proof (cases "distinct (map sw_task_id ts) \<and> (\<forall>t\<in>set ts. set (sw_depends_on t) \<subseteq> sw_task_id ` set ts)")
  case True
  then have "Range (needs ts) \<subseteq> fst ` set (graph_edges ts)"
    by (auto simp: needs_def graph_edges_def image_image)
  then have "reject_cycles (graph_edges ts) = Inr () \<longleftrightarrow> acyclic (needs ts)"
    using reject_cycles_iff [of "graph_edges ts"] True by (simp add: depends_needs)
  moreover have "missing_dependency (map sw_task_id ts) ts = Inr ()"
    using True by (simp add: missing_dependency_Inr)
  ultimately show ?thesis using True by (simp add: validate_graph_def Let_def)
next
  case False
  then show ?thesis
    using missing_dependency_Inr [of "map sw_task_id ts" ts]
    by (auto simp: validate_graph_def Let_def split: sum.splits)
qed

text \<open>
  C18: a task graph validates exactly when it is a directed acyclic graph over its own tasks: the
  ids are distinct, every dependency is a task of the graph, and no task depends on itself
  through any chain.
\<close>

theorem validate_graph_iff:
  "validate_graph ts = Inr () \<longleftrightarrow>
     distinct (map sw_task_id ts) \<and> list_all (\<lambda>t. set (sw_depends_on t) \<subseteq> sw_task_id ` set ts) ts \<and> acyclic (needs ts)"
  by (simp add: validate_graph_acyclic list_all_iff)

section \<open>The coordinator finishes\<close>

definition complete_all :: "pystr list \<Rightarrow> swarm_task list \<Rightarrow> swarm_task list" where
  "complete_all ks ts = map (\<lambda>t. if sw_task_id t \<in> set ks then t\<lparr>sw_status := St_Completed\<rparr> else t) ts"

definition staffed :: "agent_card list \<Rightarrow> swarm_task list \<Rightarrow> bool" where
  "staffed agents ts = (\<forall>t\<in>set ts. sw_role t \<in> ac_role ` set agents)"

text \<open>Every task comes after the tasks it depends on.\<close>

definition dependency_order :: "swarm_task list \<Rightarrow> pystr list \<Rightarrow> bool" where
  "dependency_order ts ks =
     (\<forall>i<length ks. \<forall>t\<in>set ts. sw_task_id t = ks ! i \<longrightarrow> set (sw_depends_on t) \<subseteq> set (take i ks))"

lemma agent_for_role_Inr: "r \<in> ac_role ` set as \<Longrightarrow> \<exists>a. agent_for_role as r = Inr a \<and> ac_role a = r"
  by (induction as) auto

lemma run_task_run:
  assumes "sw_role t \<in> ac_role ` set agents"
  shows "\<exists>m s'. run_task sha256 agents t s = (Inr m, s') \<and> ms_task_id m = sw_task_id t
     \<and> sg_tasks s' = complete_all [sw_task_id t] (sg_tasks s)"
proof -
  obtain a where a: "agent_for_role agents (sw_role t) = Inr a" "ac_role a = sw_role t"
    using agent_for_role_Inr [OF assms] by blast
  have "message_type_for_role (sw_role t) \<in> set (allowed_message_types (ac_role a))"
    unfolding a(2) by (cases "sw_role t") simp_all
  then show ?thesis
    by (auto simp: run_task_def publish_def a(1) andthen_assoc set_completed_def complete_all_def split_beta Let_def)
qed

lemma complete_all_append: "complete_all ks (complete_all js ts) = complete_all (js @ ks) ts"
  by (simp add: complete_all_def)

lemma complete_all_ids [simp]: "map sw_task_id (complete_all ks ts) = map sw_task_id ts"
  by (simp add: complete_all_def comp_def if_distrib cong: if_cong)

lemma each_task_run:
  assumes "\<forall>t\<in>set ready. sw_role t \<in> ac_role ` set agents"
  shows "\<exists>ms s'. each_proc (run_task sha256 agents) ready s = (Inr ms, s') \<and> map ms_task_id ms = map sw_task_id ready
     \<and> sg_tasks s' = complete_all (map sw_task_id ready) (sg_tasks s)"
  using assms
proof (induction ready arbitrary: s)
  case Nil
  then show ?case by (simp add: complete_all_def)
next
  case (Cons t ready)
  obtain m s1 where t: "run_task sha256 agents t s = (Inr m, s1)" "ms_task_id m = sw_task_id t"
    "sg_tasks s1 = complete_all [sw_task_id t] (sg_tasks s)"
    using run_task_run [of t agents sha256 s] Cons.prems by auto
  obtain ms s2 where r: "each_proc (run_task sha256 agents) ready s1 = (Inr ms, s2)"
    "map ms_task_id ms = map sw_task_id ready" "sg_tasks s2 = complete_all (map sw_task_id ready) (sg_tasks s1)"
    using Cons by force
  show ?case
    using t r by (auto simp: andthen_def complete_all_append)
qed

lemma run_ready_tasks_run:
  assumes "staffed agents (sg_tasks s)"
  shows "\<exists>ms s'. run_ready_tasks sha256 agents s
      = (Inr \<lparr>cr_messages = ms, cr_completed_task_ids = map sw_task_id (ready_tasks (sg_tasks s))\<rparr>, s')
     \<and> map ms_task_id ms = map sw_task_id (ready_tasks (sg_tasks s))
     \<and> sg_tasks s' = complete_all (map sw_task_id (ready_tasks (sg_tasks s))) (sg_tasks s)"
proof -
  have "\<forall>t\<in>set (ready_tasks (sg_tasks s)). sw_role t \<in> ac_role ` set agents"
    using assms by (auto simp: staffed_def ready_tasks_def)
  from each_task_run [OF this, of sha256 s] obtain ms s' where
    "each_proc (run_task sha256 agents) (ready_tasks (sg_tasks s)) s = (Inr ms, s')"
    "map ms_task_id ms = map sw_task_id (ready_tasks (sg_tasks s))"
    "sg_tasks s' = complete_all (map sw_task_id (ready_tasks (sg_tasks s))) (sg_tasks s)" by blast
  then show ?thesis by (auto simp: run_ready_tasks_def andthen_def)
qed

lemma completed_complete_all:
  "\<forall>t\<in>set ts. sw_status t = St_Pending \<Longrightarrow>
   completed_ids (complete_all ks ts) = map sw_task_id (filter (\<lambda>t. sw_task_id t \<in> set ks) ts)"
  by (induction ts) (auto simp: completed_ids_def complete_all_def)

text \<open>The tasks of a run: some done, the others pending.\<close>

lemma ready_exists:
  assumes "validate_graph ts = Inr ()" "ts' = complete_all ks ts" "\<forall>t\<in>set ts. sw_status t = St_Pending"
    "\<exists>t\<in>set ts. sw_task_id t \<notin> set ks"
  shows "ready_tasks ts' \<noteq> []"
proof -
  have dag: "distinct (map sw_task_id ts)" "\<forall>t\<in>set ts. set (sw_depends_on t) \<subseteq> sw_task_id ` set ts" "acyclic (needs ts)"
    using assms(1) by (simp_all add: validate_graph_acyclic)
  have "finite (needs ts)"
  proof (rule finite_subset)
    show "needs ts \<subseteq> sw_task_id ` set ts \<times> sw_task_id ` set ts" using dag(2) by (auto simp: needs_def)
  qed simp
  then have "wf ((needs ts)\<inverse>)" using dag(3) by (rule finite_acyclic_wf_converse)
  moreover obtain t0 where "t0 \<in> set ts" "sw_task_id t0 \<notin> set ks" using assms(4) by blast
  ultimately obtain k where k: "k \<in> sw_task_id ` set ts - set ks"
    "\<And>y. (y, k) \<in> (needs ts)\<inverse> \<Longrightarrow> y \<notin> sw_task_id ` set ts - set ks"
    using wfE_min [of "(needs ts)\<inverse>" "sw_task_id t0" "sw_task_id ` set ts - set ks"] by blast
  then obtain t where t: "t \<in> set ts" "sw_task_id t = k" "k \<notin> set ks" by blast
  have deps: "d \<in> set ks \<inter> sw_task_id ` set ts" if "d \<in> set (sw_depends_on t)" for d
    using k(2) [of d] that t dag(2) by (auto simp: needs_def)
  have "set (completed_ids ts') = set ks \<inter> sw_task_id ` set ts"
    unfolding assms(2) completed_complete_all [OF assms(3)] by auto
  then have "set (sw_depends_on t) \<subseteq> set (completed_ids ts')" using deps by blast
  moreover have "t \<in> set ts'" using t by (auto simp: assms(2) complete_all_def image_iff)
  ultimately have "t \<in> set (ready_tasks ts')" using t(1) assms(3) by (auto simp: ready_tasks_def)
  then show ?thesis by auto
qed

text \<open>The tasks of a round are new, and all they depend on is done.\<close>

lemma ready_new:
  assumes "\<forall>t\<in>set ts. sw_status t = St_Pending" "distinct (map sw_task_id ts)" "t \<in> set (ready_tasks (complete_all ks ts))"
  shows "t \<in> set ts \<and> sw_task_id t \<notin> set ks \<and> set (sw_depends_on t) \<subseteq> set ks"
proof -
  have r: "t \<in> set (complete_all ks ts)" "sw_status t = St_Pending"
    "set (sw_depends_on t) \<subseteq> set (completed_ids (complete_all ks ts))"
    using assms(3) by (auto simp: ready_tasks_def)
  have "t \<in> set ts" "sw_task_id t \<notin> set ks" using r(1,2) by (auto simp: complete_all_def split: if_splits)
  with r(3) show ?thesis by (auto simp: completed_complete_all [OF assms(1)])
qed

lemma dependency_order_extend:
  assumes "dependency_order ts ks" "\<And>t. t \<in> set ts \<Longrightarrow> sw_task_id t \<in> set js \<Longrightarrow> set (sw_depends_on t) \<subseteq> set ks"
  shows "dependency_order ts (ks @ js)"
  unfolding dependency_order_def
proof (intro allI impI ballI)
  fix i t assume i: "i < length (ks @ js)" and t: "t \<in> set ts" "sw_task_id t = (ks @ js) ! i"
  show "set (sw_depends_on t) \<subseteq> set (take i (ks @ js))"
  proof (cases "i < length ks")
    case True
    then show ?thesis using assms(1) t by (auto simp: dependency_order_def nth_append)
  next
    case False
    then have "sw_task_id t \<in> set js" using i t(2) by (auto simp: nth_append)
    from assms(2) [OF t(1) this] False show ?thesis by auto
  qed
qed

lemma drain_run:
  assumes valid: "validate_graph ts = Inr ()" and pending: "\<forall>t\<in>set ts. sw_status t = St_Pending"
    and staffed: "staffed agents ts"
  shows "sg_tasks s = complete_all ks ts \<Longrightarrow> distinct ks \<Longrightarrow> set ks \<subseteq> sw_task_id ` set ts \<Longrightarrow> dependency_order ts ks \<Longrightarrow>
    map ms_task_id ms = ks \<Longrightarrow> length ts \<le> length ks + n \<Longrightarrow>
    \<exists>js us s'. drain sha256 agents n ks ms s = (Inr (js, us), s') \<and> distinct js \<and> set js = sw_task_id ` set ts
      \<and> dependency_order ts js \<and> map ms_task_id us = js \<and> sg_tasks s' = complete_all js ts"
proof (induction n arbitrary: ks ms s)
  case (0 ks ms s)
  have dist: "distinct (map sw_task_id ts)" using valid by (simp add: validate_graph_acyclic)
  then have "card (sw_task_id ` set ts) = length ts" by (metis distinct_card length_map set_map)
  then have "set ks = sw_task_id ` set ts"
    using 0 by (metis add.right_neutral card_seteq distinct_card finite_imageI finite_set)
  with 0 show ?case by (simp add: drain.simps complete_all_def)
next
  case (Suc n ks ms s)
  have dist: "distinct (map sw_task_id ts)" using valid by (simp add: validate_graph_acyclic)
  then have card: "card (sw_task_id ` set ts) = length ts" by (metis distinct_card length_map set_map)
  have len: "length (sg_tasks s) = length ts" by (simp add: Suc.prems(1) complete_all_def)
  show ?case
  proof (cases "length ks < length ts")
    case False
    then have "set ks = sw_task_id ` set ts"
      using Suc.prems(2,3) card by (metis card_seteq distinct_card finite_imageI finite_set not_le_imp_less less_imp_le)
    with False Suc.prems len show ?thesis by (simp add: drain.simps)
  next
    case True
    have "\<not> sw_task_id ` set ts \<subseteq> set ks"
      using True card Suc.prems(2) by (metis card_mono distinct_card finite_set not_less)
    then have more: "\<exists>t\<in>set ts. sw_task_id t \<notin> set ks" by auto
    define ready where "ready = ready_tasks (sg_tasks s)"
    note new = ready_new [OF pending dist, of _ ks, folded Suc.prems(1), folded ready_def]
    have ne: "ready \<noteq> []" using ready_exists [OF valid Suc.prems(1) pending more] by (simp add: ready_def)
    have "staffed agents (sg_tasks s)" using staffed by (auto simp: staffed_def Suc.prems(1) complete_all_def)
    from run_ready_tasks_run [OF this, of sha256] obtain us s1 where
      run: "run_ready_tasks sha256 agents s = (Inr \<lparr>cr_messages = us, cr_completed_task_ids = map sw_task_id ready\<rparr>, s1)"
      and us: "map ms_task_id us = map sw_task_id ready"
      and s1: "sg_tasks s1 = complete_all (map sw_task_id ready) (sg_tasks s)" unfolding ready_def by blast
    have step: "drain sha256 agents (Suc n) ks ms s
        = drain sha256 agents n (ks @ map sw_task_id ready) (ms @ us) s1"
      using True len ne by (subst drain.simps) (simp add: andthen_def run)
    have "distinct (map sw_task_id ready)"
      unfolding ready_def ready_tasks_def using dist by (simp add: distinct_map_filter Suc.prems(1))
    then have 1: "distinct (ks @ map sw_task_id ready)" using Suc.prems(2) new by auto
    have 2: "set (ks @ map sw_task_id ready) \<subseteq> sw_task_id ` set ts" using Suc.prems(3) new by auto
    have 3: "dependency_order ts (ks @ map sw_task_id ready)"
    proof (rule dependency_order_extend [OF Suc.prems(4)])
      fix t assume t: "t \<in> set ts" "sw_task_id t \<in> set (map sw_task_id ready)"
      then obtain u where "u \<in> set ready" "sw_task_id u = sw_task_id t" by auto
      with new [of u] t(1) dist have "u = t" by (metis distinct_map inj_on_def)
      with new [of u] \<open>u \<in> set ready\<close> show "set (sw_depends_on t) \<subseteq> set ks" by simp
    qed
    have 4: "sg_tasks s1 = complete_all (ks @ map sw_task_id ready) ts"
      by (simp add: s1 Suc.prems(1) complete_all_append)
    have 5: "length ts \<le> length (ks @ map sw_task_id ready) + n"
      using Suc.prems(6) ne by (cases ready) auto
    show ?thesis unfolding step
      by (rule Suc.IH [OF 4 1 2 3 _ 5]) (simp add: us Suc.prems(5))
  qed
qed

text \<open>
  C19: the coordinator finishes every valid graph. When the graph validates, all its tasks are
  pending and every role has an agent, the loop ends within as many rounds as there are tasks;
  each task was completed exactly once, after everything it depends on, with one message for it,
  and in the end every task is completed. The run decides \<open>passed\<close> as soon as its verification
  passed.
\<close>

theorem swarm_completes:
  assumes "validate_graph (sg_tasks s) = Inr ()" "\<forall>t\<in>set (sg_tasks s). sw_status t = St_Pending"
    "staffed agents (sg_tasks s)"
  shows "\<exists>ks ms s'. drain sha256 agents (length (sg_tasks s)) [] [] s = (Inr (ks, ms), s')
    \<and> mset ks = mset (map sw_task_id (sg_tasks s)) \<and> dependency_order (sg_tasks s) ks \<and> map ms_task_id ms = ks
    \<and> sg_tasks s' = map (\<lambda>t. t\<lparr>sw_status := St_Completed\<rparr>) (sg_tasks s)
    \<and> final_decision True ks (sg_tasks s) = ''passed''"
proof -
  have dist: "distinct (map sw_task_id (sg_tasks s))" using assms(1) by (simp add: validate_graph_acyclic)
  have start: "sg_tasks s = complete_all [] (sg_tasks s)" by (simp add: complete_all_def)
  from drain_run [OF assms start, of "[]" "length (sg_tasks s)" sha256] obtain ks ms s' where
    r: "drain sha256 agents (length (sg_tasks s)) [] [] s = (Inr (ks, ms), s')" "distinct ks"
      "set ks = sw_task_id ` set (sg_tasks s)" "dependency_order (sg_tasks s) ks" "map ms_task_id ms = ks"
      "sg_tasks s' = complete_all ks (sg_tasks s)"
    by (auto simp: dependency_order_def)
  have "mset ks = mset (map sw_task_id (sg_tasks s))"
    using r(2,3) dist by (simp add: set_eq_iff_mset_eq_distinct [symmetric] del: mset_map)
  moreover from this have "length ks = length (sg_tasks s)" by (metis length_map size_mset)
  moreover have "sg_tasks s' = map (\<lambda>t. t\<lparr>sw_status := St_Completed\<rparr>) (sg_tasks s)"
    unfolding r(6) complete_all_def using r(3) by simp
  ultimately show ?thesis using r by (simp add: final_decision_def)
qed

definition demo_swarm_agents :: "agent_card list" where
  "demo_swarm_agents = map (\<lambda>(k, r, c). \<lparr>ac_agent_id = k, ac_role = r, ac_capabilities = [c], ac_model_tiers = [''tier1''],
     ac_memory_scopes = [], ac_autonomy_limit = 1\<rparr>)
     [(''demo-planner'', Planner, ''plan''), (''demo-builder'', Builder, ''modify_code''),
      (''demo-verifier'', Verifier, ''verify''), (''demo-auditor'', Auditor, ''audit_evidence'')]"

definition demo_swarm_tasks :: "swarm_task list" where
  "demo_swarm_tasks = map (\<lambda>(k, r, d, ds). \<lparr>sw_task_id = k, sw_role = r, sw_description = d, sw_depends_on = ds,
     sw_status = St_Pending\<rparr>)
     [(''plan'', Planner, ''Plan the Level 3 demo fixture run.'', []),
      (''build'', Builder, ''Modify the copied fixture repo with a deterministic summary artifact.'', [''plan'']),
      (''verify'', Verifier, ''Run the copied fixture repo tests.'', [''build'']),
      (''audit'', Auditor, ''Aggregate swarm evidence by agent role.'', [''verify''])]"

theorem swarm_completes_witness:
  "\<exists>ks ms s'. drain (\<lambda>x. x) demo_swarm_agents 4 [] []
      \<lparr>sg_tasks = demo_swarm_tasks, sg_messages = [], sg_stamp = (\<lambda>n. ([], []))\<rparr> = (Inr (ks, ms), s')
     \<and> dependency_order demo_swarm_tasks ks \<and> length ks = 4 \<and> final_decision True ks demo_swarm_tasks = ''passed''"
proof -
  let ?s = "\<lparr>sg_tasks = demo_swarm_tasks, sg_messages = [], sg_stamp = (\<lambda>n. ([], []))\<rparr> :: swarm"
  have "validate_graph demo_swarm_tasks = Inr ()" "length demo_swarm_tasks = 4"
    "list_all (\<lambda>t. sw_status t = St_Pending) demo_swarm_tasks" by code_simp+
  moreover have "staffed demo_swarm_agents demo_swarm_tasks"
    by (auto simp: staffed_def demo_swarm_agents_def demo_swarm_tasks_def)
  ultimately show ?thesis
    using swarm_completes [of ?s demo_swarm_agents "\<lambda>x. x"] by (fastforce simp: list_all_iff dest: mset_eq_length)
qed

end
