(* ===== verification/Signing.thy ===== *)
theory Signing
  imports Evidence
begin

text \<open>
  Signature envelopes and signers (\<open>vad/signing/models.py\<close>, \<open>signing/local.py\<close>,
  \<open>signing/providers.py\<close>). SHA-256 and HMAC are parameters; base64 is the standard encoding,
  written out on bytes (a \<open>char\<close> each).
\<close>

section \<open>Base64\<close>

definition b64_alphabet :: pystr where
  "b64_alphabet = ''ABCDEFGHIJKLMNOPQRSTUVWXYZabcdefghijklmnopqrstuvwxyz0123456789+/''"

definition b64_char :: "nat \<Rightarrow> char" where
  "b64_char n = b64_alphabet ! (n mod 64)"

fun b64_encode :: "pystr \<Rightarrow> pystr" where
  "b64_encode [] = []"
| "b64_encode [a] =
     (let x = of_char a :: nat in [b64_char (x div 4), b64_char (x mod 4 * 16), CHR ''='', CHR ''=''])"
| "b64_encode [a, b] =
     (let x = of_char a :: nat; y = of_char b in
      [b64_char (x div 4), b64_char (x mod 4 * 16 + y div 16), b64_char (y mod 16 * 4), CHR ''=''])"
| "b64_encode (a # b # c # rest) =
     (let x = of_char a :: nat; y = of_char b; z = of_char c in
      [b64_char (x div 4), b64_char (x mod 4 * 16 + y div 16), b64_char (y mod 16 * 4 + z div 64), b64_char z]
      @ b64_encode rest)"

text \<open>\<open>b64decode(value, validate=True)\<close> succeeds with at least one byte.\<close>

definition in_b64 :: "char \<Rightarrow> bool" where
  "in_b64 c = (c \<in> set b64_alphabet)"

fun b64_groups :: "pystr \<Rightarrow> bool" where
  "b64_groups [a, b, c, d] =
     (in_b64 a \<and> in_b64 b \<and> (in_b64 c \<and> (in_b64 d \<or> d = CHR ''='') \<or> (c = CHR ''='' \<and> d = CHR ''='')))"
| "b64_groups (a # b # c # d # rest) = (list_all in_b64 [a, b, c, d] \<and> b64_groups rest)"
| "b64_groups _ = False"

lemma in_b64_char [simp]: "in_b64 (b64_char n)"
proof -
  have "n mod 64 < length b64_alphabet" by (simp add: b64_alphabet_def)
  then show ?thesis unfolding in_b64_def b64_char_def by (rule nth_mem)
qed

lemma b64_encode_Nil [simp]: "b64_encode bs = [] \<longleftrightarrow> bs = []"
  by (cases bs rule: b64_encode.cases) (simp_all add: Let_def)

lemma b64_groups_append: "list_all in_b64 [a, b, c, d] \<Longrightarrow> b64_groups rest \<or> rest = [] \<Longrightarrow> b64_groups (a # b # c # d # rest)"
  by (cases rest) auto

lemma b64_encode_groups: "bs \<noteq> [] \<Longrightarrow> b64_groups (b64_encode bs)"
proof (induction bs rule: b64_encode.induct)
  case (4 a b c rest)
  then have "b64_groups (b64_encode rest) \<or> b64_encode rest = []" by auto
  then show ?case by (simp add: Let_def b64_groups_append)
qed (simp_all add: Let_def)

section \<open>Envelopes\<close>

datatype signature_algorithm = Ed25519 | Hmac_Sha256

record signature_envelope =
  sn_schema_version :: pystr
  sn_payload_digest :: pystr
  sn_key_id :: pystr
  sn_algorithm :: signature_algorithm
  sn_signature :: pystr
  sn_created_at :: pystr

definition valid_envelope :: "signature_envelope \<Rightarrow> bool" where
  "valid_envelope v =
     (is_digest (sn_payload_digest v) \<and> bounded 1 200 (sn_key_id v) \<and> \<not> list_ex py_isspace (sn_key_id v)
      \<and> b64_groups (sn_signature v))"

definition parse_envelope :: "signature_envelope \<Rightarrow> exn + signature_envelope" where
  "parse_envelope v = (if valid_envelope v then Inr v else Inl (ValidationError ''SignatureEnvelope''))"

section \<open>The local signer\<close>

text \<open>The hashes a signer uses, and the clock: \<open>hmac secret message\<close> gives the bytes of the tag.\<close>

record crypto =
  cy_sha256 :: "pystr \<Rightarrow> pystr"
  cy_hmac :: "pystr \<Rightarrow> pystr \<Rightarrow> pystr"

record local_signer =
  lg_key_id :: pystr
  lg_secret :: pystr

definition new_signer :: "pystr \<Rightarrow> pystr \<Rightarrow> exn + local_signer" where
  "new_signer key_id secret =
     (if secret = [] then Inl (ValueError ''local signing secret must not be empty'')
      else Inr \<lparr>lg_key_id = key_id, lg_secret = secret\<rparr>)"

definition payload_digest :: "crypto \<Rightarrow> (pystr \<times> json) list \<Rightarrow> pystr" where
  "payload_digest cy payload = compute_hash (cy_sha256 cy) (J_Dict payload)"

definition sign_payload :: "crypto \<Rightarrow> pystr \<Rightarrow> local_signer \<Rightarrow> (pystr \<times> json) list \<Rightarrow> exn + signature_envelope" where
  "sign_payload cy now g payload =
     (let digest = payload_digest cy payload in
      parse_envelope
        \<lparr>sn_schema_version = ''1.0.0'', sn_payload_digest = digest, sn_key_id = lg_key_id g,
         sn_algorithm = Hmac_Sha256, sn_signature = b64_encode (cy_hmac cy (lg_secret g) digest), sn_created_at = now\<rparr>)"

definition verify_payload ::
    "crypto \<Rightarrow> pystr \<Rightarrow> local_signer \<Rightarrow> (pystr \<times> json) list \<Rightarrow> signature_envelope \<Rightarrow> exn + bool" where
  "verify_payload cy now g payload v =
     (if sn_key_id v \<noteq> lg_key_id g \<or> sn_algorithm v \<noteq> Hmac_Sha256 then Inr False
      else case sign_payload cy now g payload of Inl e \<Rightarrow> Inl e
           | Inr expected \<Rightarrow>
               Inr (sn_payload_digest expected = sn_payload_digest v \<and> sn_signature expected = sn_signature v))"

text \<open>A hash gives 64 lower hex digits, a tag is not empty, and the key id is one a signer may use.\<close>

definition usable :: "crypto \<Rightarrow> local_signer \<Rightarrow> bool" where
  "usable cy g =
     ((\<forall>s. is_digest (cy_sha256 cy s)) \<and> (\<forall>k s. cy_hmac cy k s \<noteq> [])
      \<and> bounded 1 200 (lg_key_id g) \<and> \<not> list_ex py_isspace (lg_key_id g))"

lemma sign_payload_usable:
  assumes "usable cy g"
  shows "sign_payload cy now g payload =
    Inr \<lparr>sn_schema_version = ''1.0.0'', sn_payload_digest = payload_digest cy payload, sn_key_id = lg_key_id g,
         sn_algorithm = Hmac_Sha256,
         sn_signature = b64_encode (cy_hmac cy (lg_secret g) (payload_digest cy payload)), sn_created_at = now\<rparr>"
  using assms
  by (simp add: sign_payload_def parse_envelope_def valid_envelope_def usable_def b64_encode_groups
      payload_digest_def compute_hash_def Let_def)

text \<open>What was signed verifies against exactly the payloads of the same digest, whenever it is checked.\<close>

lemma verify_signed:
  assumes "usable cy g"
  shows "\<exists>v. sign_payload cy now g payload = Inr v
    \<and> verify_payload cy later g payload' v = Inr (payload_digest cy payload' = payload_digest cy payload)"
  by (auto simp: sign_payload_usable [OF assms] verify_payload_def)

lemma verify_other_signer:
  "lg_key_id g \<noteq> sn_key_id v \<Longrightarrow> verify_payload cy now g payload v = Inr False"
  by (auto simp: verify_payload_def)

section \<open>External signers\<close>

text \<open>
  A call of the provider returns, raises, or ends too late (also: raises \<open>TimeoutError\<close>). The
  executor of \<open>_run_with_timeout\<close> waits for the call when its block is left, so a call that
  never ends is not modelled: the source does not return from it.
\<close>

datatype 'a call = Returns 'a | Raises exn | Times_Out

record external_result =
  xs_allowed :: bool
  xs_envelope :: "signature_envelope option"
  xs_verified :: "bool option"
  xs_denial :: "pystr option"

definition external_sign ::
    "((pystr \<times> json) list \<Rightarrow> pystr \<Rightarrow> signature_envelope call) \<Rightarrow> pystr list \<Rightarrow> (pystr \<times> json) list \<Rightarrow> pystr
     \<Rightarrow> exn + external_result" where
  "external_sign provider allowed_key_ids payload key_id =
     (if key_id \<notin> set allowed_key_ids
      then Inr \<lparr>xs_allowed = False, xs_envelope = None, xs_verified = None,
                xs_denial = Some (''unknown key id: '' @ key_id)\<rparr>
      else case provider payload key_id of
             Times_Out \<Rightarrow> Inr \<lparr>xs_allowed = False, xs_envelope = None, xs_verified = None,
                               xs_denial = Some ''external signer timed out''\<rparr>
           | Raises e \<Rightarrow> Inl e
           | Returns v \<Rightarrow> Inr \<lparr>xs_allowed = True, xs_envelope = Some v, xs_verified = None, xs_denial = None\<rparr>)"

definition external_verify ::
    "((pystr \<times> json) list \<Rightarrow> signature_envelope \<Rightarrow> bool call) \<Rightarrow> pystr list \<Rightarrow> (pystr \<times> json) list
     \<Rightarrow> signature_envelope \<Rightarrow> exn + external_result" where
  "external_verify provider allowed_key_ids payload v =
     (if sn_key_id v \<notin> set allowed_key_ids
      then Inr \<lparr>xs_allowed = False, xs_envelope = None, xs_verified = Some False,
                xs_denial = Some (''unknown key id: '' @ sn_key_id v)\<rparr>
      else case provider payload v of
             Times_Out \<Rightarrow> Inr \<lparr>xs_allowed = False, xs_envelope = None, xs_verified = Some False,
                               xs_denial = Some ''external signer timed out''\<rparr>
           | Raises e \<Rightarrow> Inl e
           | Returns ok \<Rightarrow> Inr \<lparr>xs_allowed = ok, xs_envelope = None, xs_verified = Some ok,
                 xs_denial = (if ok then None else Some ''signature verification failed'')\<rparr>)"

lemma external_verify_allowed:
  "external_verify provider keys payload v = Inr r \<Longrightarrow>
     (xs_allowed r \<longleftrightarrow> sn_key_id v \<in> set keys \<and> provider payload v = Returns True)
     \<and> xs_verified r = Some (xs_allowed r) \<and> (xs_denial r = None \<longleftrightarrow> xs_allowed r)"
  by (auto simp: external_verify_def split: if_splits call.splits)

lemma external_sign_allowed:
  "external_sign provider keys payload k = Inr r \<Longrightarrow>
     (xs_allowed r \<longleftrightarrow> k \<in> set keys \<and> (\<exists>v. provider payload k = Returns v \<and> xs_envelope r = Some v))
     \<and> (xs_denial r = None \<longleftrightarrow> xs_allowed r)"
  by (auto simp: external_sign_def split: if_splits call.splits)

end
