(* ===== verification/Deploy.thy ===== *)
theory Deploy
  imports Signing Py_Float
begin

text \<open>
  Deployment plans (\<open>vad/deploy/models.py\<close>), the fake provider (\<open>deploy/providers/fake.py\<close>),
  attestations (\<open>deploy/attestation.py\<close>) and the signed deployment run of \<open>deploy/demo.py\<close>.
\<close>

section \<open>Plans\<close>

datatype environment = Development | Staging | Production

fun environment_value :: "environment \<Rightarrow> pystr" where
  "environment_value Development = ''development''"
| "environment_value Staging = ''staging''"
| "environment_value Production = ''production''"

datatype strategy = Dry_Run | Blue_Green | Canary | Rolling

fun strategy_value :: "strategy \<Rightarrow> pystr" where
  "strategy_value Dry_Run = ''dry-run''"
| "strategy_value Blue_Green = ''blue-green''"
| "strategy_value Canary = ''canary''"
| "strategy_value Rolling = ''rolling''"

record secret_reference =
  sr_name :: pystr
  sr_ref :: pystr

record telemetry_requirement =
  tq_name :: pystr
  tq_query :: pystr
  tq_minimum_health :: pystr
  tq_window_seconds :: int

record rollback_policy =
  rp_enabled :: bool
  rp_strategy :: strategy
  rp_trigger_metric :: pystr
  rp_threshold :: pystr
  rp_max_wait_seconds :: int

record deployment_target =
  tg_target_id :: pystr
  tg_environment :: environment
  tg_provider :: pystr
  tg_region :: "pystr option"
  tg_strategy :: strategy
  tg_artifact_digest :: pystr
  tg_endpoint :: "pystr option"
  tg_secret_refs :: "secret_reference list"
  tg_telemetry :: "telemetry_requirement list"
  tg_rollback :: rollback_policy

record deployment_plan =
  dn_plan_id :: pystr
  dn_target :: deployment_target
  dn_approval_ref :: "pystr option"
  dn_evidence_ref :: "pystr option"

text \<open>The regular expression \<open>sk-[A-Za-z0-9_-]{16,}\<close>, searched anywhere.\<close>

definition key_char :: "char \<Rightarrow> bool" where
  "key_char c =
     (c \<in> set ''ABCDEFGHIJKLMNOPQRSTUVWXYZabcdefghijklmnopqrstuvwxyz0123456789_-'')"

definition starts_with_key :: "pystr \<Rightarrow> bool" where
  "starts_with_key s = (is_prefix_of ''sk-'' s \<and> 16 \<le> length (takeWhile key_char (drop 3 s)))"

fun holds_key :: "pystr \<Rightarrow> bool" where
  "holds_key [] = False"
| "holds_key (c # cs) = (starts_with_key (c # cs) \<or> holds_key cs)"

definition inline_secret :: "pystr \<Rightarrow> bool" where
  "inline_secret s =
     (list_ex (\<lambda>m. contains m (py_lower s)) [''api_key='', ''token='', ''password='', ''secret='', ''private_key'']
      \<or> holds_key s)"

definition unit_interval :: "pystr \<Rightarrow> bool" where
  "unit_interval x = (x \<noteq> ''nan'' \<and> \<not> float_less x ''0.0'' \<and> \<not> float_less ''1.0'' x)"

definition valid_secret_reference :: "secret_reference \<Rightarrow> bool" where
  "valid_secret_reference r =
     (bounded 1 120 (sr_name r) \<and> bounded 1 300 (sr_ref r) \<and> \<not> inline_secret (sr_ref r)
      \<and> (contains ''://'' (sr_ref r)
         \<or> list_ex (\<lambda>p. is_prefix_of p (sr_ref r)) [''env:'', ''secret:'', ''vault:'', ''aws-sm:'', ''gcp-sm:'', ''azure-kv:'']))"

definition valid_telemetry :: "telemetry_requirement \<Rightarrow> bool" where
  "valid_telemetry q =
     (bounded 1 120 (tq_name q) \<and> bounded 1 500 (tq_query q) \<and> unit_interval (tq_minimum_health q)
      \<and> 0 < tq_window_seconds q \<and> tq_window_seconds q \<le> 86400)"

definition valid_rollback :: "rollback_policy \<Rightarrow> bool" where
  "valid_rollback r =
     (bounded 1 120 (rp_trigger_metric r) \<and> unit_interval (rp_threshold r)
      \<and> 0 < rp_max_wait_seconds r \<and> rp_max_wait_seconds r \<le> 86400
      \<and> \<not> (rp_enabled r \<and> rp_strategy r = Dry_Run))"

definition valid_target :: "deployment_target \<Rightarrow> bool" where
  "valid_target t =
     (bounded 1 120 (tg_target_id t) \<and> bounded 1 80 (tg_provider t) \<and> opt_all (bounded 0 80) (tg_region t)
      \<and> is_digest (tg_artifact_digest t) \<and> opt_all (bounded 0 300) (tg_endpoint t)
      \<and> list_all valid_secret_reference (tg_secret_refs t) \<and> list_all valid_telemetry (tg_telemetry t)
      \<and> valid_rollback (tg_rollback t)
      \<and> \<not> inline_secret (tg_provider t) \<and> opt_all (\<lambda>s. \<not> inline_secret s) (tg_region t)
      \<and> opt_all (\<lambda>s. \<not> inline_secret s) (tg_endpoint t)
      \<and> (tg_environment t = Production \<longrightarrow> tg_telemetry t \<noteq> [] \<and> rp_enabled (tg_rollback t)))"

definition valid_plan :: "deployment_plan \<Rightarrow> bool" where
  "valid_plan p =
     (bounded 1 120 (dn_plan_id p) \<and> valid_target (dn_target p)
      \<and> opt_all (\<lambda>s. bounded 0 300 s \<and> \<not> inline_secret s) (dn_approval_ref p)
      \<and> opt_all (\<lambda>s. bounded 0 300 s \<and> \<not> inline_secret s) (dn_evidence_ref p))"

definition parse_plan :: "deployment_plan \<Rightarrow> exn + deployment_plan" where
  "parse_plan p = (if valid_plan p then Inr p else Inl (ValidationError ''DeploymentPlan''))"

section \<open>The fake provider\<close>

record deployment_record =
  dr_deployment_id :: pystr
  dr_plan_id :: pystr
  dr_target_id :: pystr
  dr_environment :: environment
  dr_strategy :: strategy
  dr_prior_artifact_digest :: "pystr option"
  dr_artifact_digest :: pystr
  dr_status :: pystr
  dr_rollback_enabled :: bool

record fake_provider =
  fk_targets :: "(pystr \<times> pystr) list"
  fk_deployments :: "(pystr \<times> deployment_record) list"
  fk_counter :: nat

definition empty_provider :: fake_provider where
  "empty_provider = \<lparr>fk_targets = [], fk_deployments = [], fk_counter = 0\<rparr>"

definition plan_target_id :: "deployment_plan \<Rightarrow> pystr" where
  "plan_target_id p = tg_target_id (dn_target p)"

definition dry_run :: "deployment_plan \<Rightarrow> fake_provider \<Rightarrow> (pystr \<times> json) list" where
  "dry_run p s =
     [(''event'', J_Str ''deployment_dry_run''), (''provider'', J_Str ''fake''), (''plan_id'', J_Str (dn_plan_id p)),
      (''target_id'', J_Str (plan_target_id p)),
      (''environment'', J_Str (environment_value (tg_environment (dn_target p)))),
      (''strategy'', J_Str (strategy_value (tg_strategy (dn_target p)))),
      (''artifact_digest'', J_Str (tg_artifact_digest (dn_target p))),
      (''would_replace_artifact'', opt_json J_Str (dict_get (plan_target_id p) (fk_targets s))),
      (''side_effects'', J_Bool False)]"

definition deployment_id_of :: "nat \<Rightarrow> pystr" where
  "deployment_id_of n = ''fake-deployment-'' @ show_nat n"

definition apply_plan :: "deployment_plan \<Rightarrow> fake_provider \<Rightarrow> deployment_record \<times> fake_provider" where
  "apply_plan p s =
     (let counter = Suc (fk_counter s);
          deployment_id = deployment_id_of counter;
          t = plan_target_id p;
          r = \<lparr>dr_deployment_id = deployment_id, dr_plan_id = dn_plan_id p, dr_target_id = t,
               dr_environment = tg_environment (dn_target p), dr_strategy = tg_strategy (dn_target p),
               dr_prior_artifact_digest = dict_get t (fk_targets s),
               dr_artifact_digest = tg_artifact_digest (dn_target p), dr_status = ''applied'',
               dr_rollback_enabled = rp_enabled (tg_rollback (dn_target p))\<rparr> in
      (r, \<lparr>fk_targets = dict_set t (tg_artifact_digest (dn_target p)) (fk_targets s),
          fk_deployments = dict_set deployment_id r (fk_deployments s), fk_counter = counter\<rparr>))"

datatype rollback_outcome =
    Rollback_Blocked pystr "pystr option" pystr
  | Rolled_Back pystr pystr "pystr option"

text \<open>\<open>self.targets.pop(target_id, None)\<close>.\<close>

definition dict_pop :: "'k \<Rightarrow> ('k \<times> 'v) list \<Rightarrow> ('k \<times> 'v) list" where
  "dict_pop k d = filter (\<lambda>(k', v). k' \<noteq> k) d"

definition rollback_deployment :: "pystr \<Rightarrow> fake_provider \<Rightarrow> rollback_outcome \<times> fake_provider" where
  "rollback_deployment deployment_id s =
     (case dict_get deployment_id (fk_deployments s) of
        None \<Rightarrow> (Rollback_Blocked deployment_id None ''deployment not found'', s)
      | Some r \<Rightarrow>
          (if \<not> dr_rollback_enabled r
           then (Rollback_Blocked deployment_id (Some (dr_target_id r)) ''rollback disabled'', s)
           else (Rolled_Back deployment_id (dr_target_id r) (dr_prior_artifact_digest r),
                 s\<lparr>fk_targets := (case dr_prior_artifact_digest r of
                                   None \<Rightarrow> dict_pop (dr_target_id r) (fk_targets s)
                                 | Some a \<Rightarrow> dict_set (dr_target_id r) a (fk_targets s)),
                   fk_deployments := dict_set deployment_id (r\<lparr>dr_status := ''rolled_back''\<rparr>) (fk_deployments s)\<rparr>)))"

definition rollback_json :: "rollback_outcome \<Rightarrow> (pystr \<times> json) list" where
  "rollback_json r =
     [(''event'', J_Str ''deployment_rollback''), (''provider'', J_Str ''fake'')]
     @ (case r of
          Rollback_Blocked d t b \<Rightarrow>
            [(''deployment_id'', J_Str d)] @ (case t of None \<Rightarrow> [] | Some x \<Rightarrow> [(''target_id'', J_Str x)])
            @ [(''status'', J_Str ''blocked''), (''blocker'', J_Str b)]
        | Rolled_Back d t a \<Rightarrow>
            [(''deployment_id'', J_Str d), (''target_id'', J_Str t), (''status'', J_Str ''rolled_back''),
             (''restored_artifact_digest'', opt_json J_Str a)])"

definition deployment_json :: "deployment_record \<Rightarrow> (pystr \<times> json) list" where
  "deployment_json r =
     [(''event'', J_Str ''deployment_apply''), (''provider'', J_Str ''fake''),
      (''deployment_id'', J_Str (dr_deployment_id r)), (''plan_id'', J_Str (dr_plan_id r)),
      (''target_id'', J_Str (dr_target_id r)), (''environment'', J_Str (environment_value (dr_environment r))),
      (''strategy'', J_Str (strategy_value (dr_strategy r))),
      (''prior_artifact_digest'', opt_json J_Str (dr_prior_artifact_digest r)),
      (''artifact_digest'', J_Str (dr_artifact_digest r)), (''status'', J_Str (dr_status r)),
      (''rollback_enabled'', J_Bool (dr_rollback_enabled r))]"

section \<open>Attestations and the signed run\<close>

record attestation =
  at_deployment :: "(pystr \<times> json) list"
  at_signature :: signature_envelope

definition sign_attestation :: "crypto \<Rightarrow> pystr \<Rightarrow> local_signer \<Rightarrow> (pystr \<times> json) list \<Rightarrow> exn + attestation" where
  "sign_attestation cy now g deployment =
     (case sign_payload cy now g deployment of Inl e \<Rightarrow> Inl e
      | Inr v \<Rightarrow> Inr \<lparr>at_deployment = deployment, at_signature = v\<rparr>)"

definition verify_attestation :: "crypto \<Rightarrow> pystr \<Rightarrow> local_signer \<Rightarrow> attestation \<Rightarrow> exn + bool" where
  "verify_attestation cy now g a = verify_payload cy now g (at_deployment a) (at_signature a)"

record telemetry_gate =
  tt_name :: pystr
  tt_observed_health :: pystr
  tt_minimum_health :: pystr
  tt_passed :: bool

definition evaluate_telemetry :: "deployment_target \<Rightarrow> telemetry_gate list" where
  "evaluate_telemetry t =
     map (\<lambda>q. \<lparr>tt_name = tq_name q, tt_observed_health = ''1.0'', tt_minimum_health = tq_minimum_health q,
            tt_passed = (tq_minimum_health q \<noteq> ''nan'' \<and> \<not> float_less ''1.0'' (tq_minimum_health q))\<rparr>) (tg_telemetry t)"

record signed_run =
  su_dry_run :: "(pystr \<times> json) list"
  su_deployment :: "(pystr \<times> json) list"
  su_telemetry :: "telemetry_gate list"
  su_attestation :: attestation
  su_attestation_verified :: bool
  su_final_decision :: pystr

text \<open>\<open>run_signed_deployment_demo\<close> on a loaded target, without the files it reads and writes.\<close>

definition signed_deployment :: "crypto \<Rightarrow> pystr \<Rightarrow> pystr \<Rightarrow> deployment_target \<Rightarrow> exn + signed_run" where
  "signed_deployment cy now key_id target =
     (case parse_plan \<lparr>dn_plan_id = ''level3-demo-staging'', dn_target = target,
              dn_approval_ref = Some ''approval:level3-demo-release-guardian'',
              dn_evidence_ref = Some ''evidence:level3-demo-success''\<rparr> of Inl e \<Rightarrow> Inl e
      | Inr plan \<Rightarrow>
          (let rehearsal = dry_run plan empty_provider;
               (r, s) = apply_plan plan empty_provider;
               telemetry = evaluate_telemetry target in
           case new_signer key_id ''level3-demo-local-secret'' of Inl e \<Rightarrow> Inl e
           | Inr g \<Rightarrow> (case sign_attestation cy now g (deployment_json r) of Inl e \<Rightarrow> Inl e
               | Inr a \<Rightarrow> (case verify_attestation cy now g a of Inl e \<Rightarrow> Inl e
                   | Inr ok \<Rightarrow>
                       Inr \<lparr>su_dry_run = rehearsal, su_deployment = deployment_json r, su_telemetry = telemetry,
                            su_attestation = a, su_attestation_verified = ok,
                            su_final_decision =
                              (if dr_status r = ''applied'' \<and> list_all tt_passed telemetry \<and> ok
                               then ''passed'' else ''blocked'')\<rparr>))))"

text \<open>A valid target always passes: the demo observes full health.\<close>

lemma signed_deployment_passes:
  assumes "valid_target t" "usable cy \<lparr>lg_key_id = key_id, lg_secret = ''level3-demo-local-secret''\<rparr>"
  shows "\<exists>u. signed_deployment cy now key_id t = Inr u \<and> su_final_decision u = ''passed'' \<and> su_attestation_verified u"
proof -
  have refs: "\<not> inline_secret ''approval:level3-demo-release-guardian''" "\<not> inline_secret ''evidence:level3-demo-success''"
    by code_simp+
  have passed: "list_all tt_passed (evaluate_telemetry t)"
    using assms(1) by (auto simp: evaluate_telemetry_def list_all_iff valid_target_def valid_telemetry_def unit_interval_def)
  show ?thesis
    using assms(1) refs passed
    by (auto simp: signed_deployment_def parse_plan_def valid_plan_def bounded_def new_signer_def sign_attestation_def
        verify_attestation_def verify_payload_def sign_payload_usable [OF assms(2)] apply_plan_def Let_def)
qed

section \<open>Rolling back\<close>

lemma dict_get_pop: "dict_get k' (dict_pop k d) = (if k' = k then None else dict_get k' d)"
  by (induction d) (auto simp: dict_pop_def dict_get_def)

datatype deployment_op = Op_Apply deployment_plan | Op_Rollback pystr

fun run_op :: "deployment_op \<Rightarrow> fake_provider \<Rightarrow> fake_provider" where
  "run_op (Op_Apply p) s = snd (apply_plan p s)"
| "run_op (Op_Rollback k) s = snd (rollback_deployment k s)"

lemma deployment_id_inject [simp]: "deployment_id_of m = deployment_id_of n \<longleftrightarrow> m = n"
  by (simp add: deployment_id_of_def)

lemma run_op_counter: "fk_counter s \<le> fk_counter (run_op x s)"
  by (cases x) (auto simp: apply_plan_def rollback_deployment_def Let_def split: option.splits)

lemma run_op_record:
  assumes "dict_get k (fk_deployments s) = Some r" "k = deployment_id_of n" "n \<le> fk_counter s"
  shows "\<exists>r'. dict_get k (fk_deployments (run_op x s)) = Some r' \<and> r' = r\<lparr>dr_status := dr_status r'\<rparr>"
  using assms
  by (cases x) (auto simp: apply_plan_def rollback_deployment_def Let_def dict_get_set split: option.splits)

fun run_ops :: "deployment_op list \<Rightarrow> fake_provider \<Rightarrow> fake_provider" where
  "run_ops [] s = s"
| "run_ops (x # xs) s = run_ops xs (run_op x s)"

lemma run_ops_record:
  assumes "dict_get k (fk_deployments s) = Some r" "k = deployment_id_of n" "n \<le> fk_counter s"
  shows "\<exists>v. dict_get k (fk_deployments (run_ops ops s)) = Some (r\<lparr>dr_status := v\<rparr>)"
  using assms
proof (induction ops arbitrary: s r)
  case Nil
  then show ?case by (auto intro: exI [of _ "dr_status r"])
next
  case (Cons x xs)
  from run_op_record [OF Cons.prems, of x] obtain v where
    "dict_get k (fk_deployments (run_op x s)) = Some (r\<lparr>dr_status := v\<rparr>)" by metis
  from Cons.IH [OF this Cons.prems(2)] show ?case
    using Cons.prems(3) run_op_counter [of s x] by auto
qed

text \<open>
  C28: rolling back a deployment puts its target back to the artifact it had before the deployment
  (or to none), whatever was deployed or rolled back in between, and changes no other target. So
  a rollback also discards the deployments to the same target that came later.
\<close>

theorem rollback_restores_prior:
  assumes "apply_plan p s = (r, s1)" "rp_enabled (tg_rollback (dn_target p))"
  shows "\<exists>s3. rollback_deployment (dr_deployment_id r) (run_ops ops s1) =
       (Rolled_Back (dr_deployment_id r) (plan_target_id p) (dict_get (plan_target_id p) (fk_targets s)), s3)
     \<and> (\<forall>t. dict_get t (fk_targets s3) =
          (if t = plan_target_id p then dict_get t (fk_targets s) else dict_get t (fk_targets (run_ops ops s1))))"
proof -
  have r: "dr_deployment_id r = deployment_id_of (fk_counter s1)" "dr_rollback_enabled r"
    "dr_target_id r = plan_target_id p" "dr_prior_artifact_digest r = dict_get (plan_target_id p) (fk_targets s)"
    "dict_get (dr_deployment_id r) (fk_deployments s1) = Some r"
    using assms by (auto simp: apply_plan_def Let_def dict_get_set)
  from run_ops_record [OF r(5) r(1), of ops] obtain v where
    "dict_get (dr_deployment_id r) (fk_deployments (run_ops ops s1)) = Some (r\<lparr>dr_status := v\<rparr>)" by auto
  then show ?thesis
    by (auto simp: rollback_deployment_def r dict_get_set dict_get_pop split: option.splits)
qed

definition demo_deployment :: "pystr \<Rightarrow> deployment_plan" where
  "demo_deployment digest =
     \<lparr>dn_plan_id = ''p'',
      dn_target = \<lparr>tg_target_id = ''web'', tg_environment = Staging, tg_provider = ''fake'', tg_region = None,
        tg_strategy = Blue_Green, tg_artifact_digest = digest, tg_endpoint = None, tg_secret_refs = [], tg_telemetry = [],
        tg_rollback = \<lparr>rp_enabled = True, rp_strategy = Blue_Green, rp_trigger_metric = ''health'',
          rp_threshold = ''0.9'', rp_max_wait_seconds = 60\<rparr>\<rparr>,
      dn_approval_ref = None, dn_evidence_ref = None\<rparr>"

theorem rollback_restores_prior_witness:
  "\<exists>s3. rollback_deployment ''fake-deployment-1''
       (run_ops [Op_Apply (demo_deployment ''b'')] (snd (apply_plan (demo_deployment ''a'') empty_provider)))
       = (Rolled_Back ''fake-deployment-1'' ''web'' None, s3)
     \<and> dict_get ''web'' (fk_targets s3) = None"
proof -
  obtain r s1 where r: "apply_plan (demo_deployment ''a'') empty_provider = (r, s1)" by fastforce
  have "dr_deployment_id (fst (apply_plan (demo_deployment ''a'') empty_provider)) = ''fake-deployment-1''" by code_simp
  then have "dr_deployment_id r = ''fake-deployment-1''" using r by simp
  moreover have "rp_enabled (tg_rollback (dn_target (demo_deployment ''a'')))" "plan_target_id (demo_deployment ''a'') = ''web''"
    "dict_get ''web'' (fk_targets empty_provider) = None"
    by (simp_all add: demo_deployment_def plan_target_id_def empty_provider_def dict_get_def)
  ultimately show ?thesis
    using rollback_restores_prior [OF r, of "[Op_Apply (demo_deployment ''b'')]"] r by fastforce
qed

end
