(* ===== verification/Repo_Tools.thy ===== *)
theory Repo_Tools
  imports Files Contracts Guards
begin

text \<open>
  The repository tools of \<open>vad/repo\<close> that decide whether and where an agent may patch: intake
  (\<open>intake.py\<close>), the state of git (\<open>git.py\<close>), dependency changes (\<open>dependencies.py\<close>), proof
  discovery (\<open>proof_discovery.py\<close>) and patch plans (\<open>patch_plan.py\<close>). Running git is the
  parameter \<open>spawn\<close>, parsing JSON the parameter \<open>loads\<close>, and the order in which \<open>rglob\<close>
  walks a directory the parameter \<open>walk\<close>.
\<close>

section \<open>Dependency changes\<close>

definition dependency_ecosystems :: "(pystr \<times> pystr) list" where
  "dependency_ecosystems =
     [(''pyproject.toml'', ''python''), (''requirements.txt'', ''python''), (''poetry.lock'', ''python''),
      (''package.json'', ''node''), (''package-lock.json'', ''node''), (''pnpm-lock.yaml'', ''node''),
      (''yarn.lock'', ''node''), (''go.mod'', ''go''), (''go.sum'', ''go''), (''Cargo.toml'', ''rust''),
      (''Cargo.lock'', ''rust'')]"

definition dependency_ecosystem :: "pystr \<Rightarrow> pystr option" where
  "dependency_ecosystem p = dict_get (last (py_split (CHR ''/'') (forward_slashes p))) dependency_ecosystems"

record dependency_change =
  dg_path :: pystr
  dg_ecosystem :: pystr

record dependency_assessment =
  ds_changes :: "dependency_change list"
  ds_approved :: bool

definition has_dependency_changes :: "dependency_assessment \<Rightarrow> bool" where
  "has_dependency_changes a = (ds_changes a \<noteq> [])"

definition dependency_decision :: "dependency_assessment \<Rightarrow> policy_decision" where
  "dependency_decision a =
     (if has_dependency_changes a \<and> \<not> ds_approved a
      then denied [''dependency changes require explicit approval''] True
      else allowed (if ds_changes a \<noteq> [] then ''dependency changes approved'' else ''no dependency changes''))"

definition assess_dependency_changes :: "pystr list \<Rightarrow> bool \<Rightarrow> dependency_assessment" where
  "assess_dependency_changes changed_files approved =
     \<lparr>ds_changes = concat (map (\<lambda>p. case dependency_ecosystem p of None \<Rightarrow> []
          | Some e \<Rightarrow> [\<lparr>dg_path = p, dg_ecosystem = e\<rparr>]) changed_files),
      ds_approved = approved\<rparr>"

lemma dependency_decision_allow:
  "allow (dependency_decision (assess_dependency_changes files approved))
     \<longleftrightarrow> approved \<or> list_all (\<lambda>p. dependency_ecosystem p = None) files"
  by (auto simp: dependency_decision_def has_dependency_changes_def assess_dependency_changes_def list_all_iff
      split: option.splits)

section \<open>Intake\<close>

datatype dirty_state = Clean | Dirty | Dirty_Unknown

fun dirty_state_value :: "dirty_state \<Rightarrow> pystr" where
  "dirty_state_value Clean = ''clean''"
| "dirty_state_value Dirty = ''dirty''"
| "dirty_state_value Dirty_Unknown = ''unknown''"

record manifest_file =
  mf_path :: pystr
  mf_kind :: pystr

record repository_intake =
  ri_root :: pystr
  ri_default_branch :: "pystr option"
  ri_current_branch :: "pystr option"
  ri_base_revision :: "pystr option"
  ri_dirty_state :: dirty_state
  ri_language_hints :: "pystr list"
  ri_manifest_files :: "manifest_file list"
  ri_warnings :: "pystr list"

definition is_dir :: "filesystem \<Rightarrow> path \<Rightarrow> bool" where
  "is_dir fs p = (case os_path link_limit fs [] p of None \<Rightarrow> False | Some q \<Rightarrow> fs q = Some Directory)"

definition is_file :: "filesystem \<Rightarrow> path \<Rightarrow> bool" where
  "is_file fs p = (case os_path link_limit fs [] p of None \<Rightarrow> False
     | Some q \<Rightarrow> (case fs q of Some (File _) \<Rightarrow> True | _ \<Rightarrow> False))"

definition read_current_branch :: "path \<Rightarrow> pystr option io" where
  "read_current_branch git_dir fs =
     (if \<not> path_exists fs (git_dir @ [''HEAD'']) then (Inr None, fs)
      else andthen (read_text (git_dir @ [''HEAD''])) (\<lambda>t.
           ret (let text = py_strip t; prefix = ''ref: refs/heads/'' in
                if is_prefix_of prefix text then Some (drop (length prefix) text) else None)) fs)"

definition default_branch :: "filesystem \<Rightarrow> path \<Rightarrow> pystr option \<Rightarrow> pystr option" where
  "default_branch fs git_dir current =
     (case find (\<lambda>b. path_exists fs (git_dir @ [''refs'', ''heads'', b])) [''main'', ''master'', ''trunk''] of
        Some b \<Rightarrow> Some b | None \<Rightarrow> current)"

definition git_stdout :: "spawn \<Rightarrow> path \<Rightarrow> pystr list \<Rightarrow> bool \<Rightarrow> exn + pystr option" where
  "git_stdout spawn root command allow_unavailable =
     (case spawn command (Some (path_text root)) of
        Inl (FileNotFoundError e) \<Rightarrow>
          (if allow_unavailable then Inr None else Inl (ValueError ''git executable unavailable''))
      | Inl e \<Rightarrow> Inl e
      | Inr (code, out, err) \<Rightarrow>
          (if code \<noteq> 0
           then (if allow_unavailable then Inr None
                 else Inl (ValueError (''git command failed: '' @ py_join '' '' command)))
           else Inr (Some (py_strip out))))"

definition dirty_state_of :: "spawn \<Rightarrow> path \<Rightarrow> exn + dirty_state \<times> pystr list" where
  "dirty_state_of spawn root =
     (case git_stdout spawn root [''git'', ''status'', ''--porcelain''] True of
        Inl e \<Rightarrow> Inl e
      | Inr None \<Rightarrow> Inr (Dirty_Unknown, [''git status unavailable; dirty state unknown''])
      | Inr (Some status) \<Rightarrow> Inr (if py_strip status \<noteq> [] then Dirty else Clean, []))"

definition intake_manifests :: "(pystr \<times> pystr) list" where
  "intake_manifests =
     [(''pyproject.toml'', ''python''), (''requirements.txt'', ''python''), (''package.json'', ''javascript''),
      (''go.mod'', ''go''), (''Cargo.toml'', ''rust'')]"

definition manifest_files_of :: "filesystem \<Rightarrow> path \<Rightarrow> manifest_file list" where
  "manifest_files_of fs root =
     map (\<lambda>(relative, kind). \<lparr>mf_path = relative, mf_kind = kind\<rparr>)
       (filter (\<lambda>(relative, kind). path_exists fs (root @ [relative])) intake_manifests)"

text \<open>\<open>PurePath.suffix\<close>: from the last dot of the name, which is neither its first nor its last character.\<close>

definition path_suffix :: "pystr \<Rightarrow> pystr" where
  "path_suffix name =
     (let ext = rev (takeWhile (\<lambda>c. c \<noteq> CHR ''.'') (rev name)) in
      if ext \<noteq> [] \<and> Suc (length ext) < length name then CHR ''.'' # ext else [])"

definition suffix_hints :: "(pystr \<times> pystr) list" where
  "suffix_hints =
     [(''.py'', ''python''), (''.js'', ''javascript''), (''.ts'', ''typescript''), (''.go'', ''go''), (''.rs'', ''rust'')]"

definition language_hints :: "filesystem \<Rightarrow> path list \<Rightarrow> manifest_file list \<Rightarrow> pystr list" where
  "language_hints fs walk manifests =
     sorted_set (map mf_kind manifests
       @ concat (map (\<lambda>p. case dict_get (path_suffix (last p)) suffix_hints of None \<Rightarrow> [] | Some h \<Rightarrow> [h])
           (filter (\<lambda>p. ''.git'' \<notin> set p \<and> is_file fs p) walk)))"

text \<open>\<open>RepositoryIntakeError\<close> is a \<open>ValueError\<close>.\<close>

definition git_layout :: "filesystem \<Rightarrow> path \<Rightarrow> exn + unit" where
  "git_layout fs root =
     (if \<not> path_exists fs root \<or> \<not> is_dir fs root
      then Inl (ValueError (''Repository path does not exist or is not a directory: '' @ path_text root))
      else if \<not> path_exists fs (root @ [''.git''])
      then Inl (ValueError (if path_exists fs (root @ [''.hg'']) \<or> path_exists fs (root @ [''.svn''])
                then ''Unsupported VCS: only git repositories are supported''
                else ''No supported VCS metadata found at '' @ path_text root))
      else if \<not> is_dir fs (root @ [''.git''])
      then Inl (ValueError ''Unsupported git layout: .git file/worktree links are not supported yet'')
      else Inr ())"

definition assess_repository :: "spawn \<Rightarrow> (path \<Rightarrow> path list) \<Rightarrow> path \<Rightarrow> repository_intake io" where
  "assess_repository spawn walk p =
     andthen (\<lambda>fs. (resolve fs p, fs)) (\<lambda>root.
     andthen (\<lambda>fs. (git_layout fs root, fs)) (\<lambda>_.
     andthen (read_current_branch (root @ [''.git''])) (\<lambda>current.
     andthen (reads (\<lambda>fs. default_branch fs (root @ [''.git'']) current)) (\<lambda>default.
     andthen (lift_result (git_stdout spawn root [''git'', ''rev-parse'', ''HEAD''] True)) (\<lambda>base.
     andthen (lift_result (dirty_state_of spawn root)) (\<lambda>(dirty, warnings).
     andthen (reads (\<lambda>fs. manifest_files_of fs root)) (\<lambda>manifests.
     andthen (reads (\<lambda>fs. language_hints fs (walk root) manifests)) (\<lambda>hints.
     ret \<lparr>ri_root = path_text root, ri_default_branch = default, ri_current_branch = current,
          ri_base_revision = base, ri_dirty_state = dirty, ri_language_hints = hints,
          ri_manifest_files = manifests, ri_warnings = warnings\<rparr>))))))))"

section \<open>The state of git\<close>

record git_state =
  gs_root :: pystr
  gs_branch :: "pystr option"
  gs_base_revision :: "pystr option"
  gs_dirty_state :: dirty_state
  gs_autonomous_patch_allowed :: bool
  gs_blocker :: "pystr option"

definition git_state_of :: "bool \<Rightarrow> repository_intake \<Rightarrow> git_state" where
  "git_state_of allow_dirty i =
     (let blocker = (if ri_dirty_state i = Dirty \<and> \<not> allow_dirty
                     then Some ''dirty worktree blocks autonomous patch''
                     else if ri_dirty_state i = Dirty_Unknown
                     then Some ''unknown dirty state blocks autonomous patch'' else None) in
      \<lparr>gs_root = ri_root i, gs_branch = ri_current_branch i, gs_base_revision = ri_base_revision i,
       gs_dirty_state = ri_dirty_state i, gs_autonomous_patch_allowed = (blocker = None), gs_blocker = blocker\<rparr>)"

definition inspect_git_state :: "spawn \<Rightarrow> (path \<Rightarrow> path list) \<Rightarrow> path \<Rightarrow> bool \<Rightarrow> git_state io" where
  "inspect_git_state spawn walk p allow_dirty =
     andthen (assess_repository spawn walk p) (\<lambda>i. ret (git_state_of allow_dirty i))"

definition require_clean_for_patch :: "spawn \<Rightarrow> (path \<Rightarrow> path list) \<Rightarrow> path \<Rightarrow> git_state io" where
  "require_clean_for_patch spawn walk p =
     andthen (inspect_git_state spawn walk p False) (\<lambda>s.
     if \<not> gs_autonomous_patch_allowed s
     then throw (ValueError (case gs_blocker s of None \<Rightarrow> ''repository is not safe for autonomous patch''
                 | Some b \<Rightarrow> if b = [] then ''repository is not safe for autonomous patch'' else b))
     else ret s)"

section \<open>Proof discovery\<close>

record discovered_command =
  dv_ecosystem :: pystr
  dv_command :: "pystr list"
  dv_reason :: pystr

record proof_discovery =
  pd_root :: pystr
  pd_commands :: "discovered_command list"
  pd_blocker :: "pystr option"

definition has_python_tests :: "filesystem \<Rightarrow> path \<Rightarrow> bool" where
  "has_python_tests fs root =
     (list_ex (\<lambda>name. path_exists fs (root @ [name])) [''pytest.ini'', ''tox.ini''] \<or> is_dir fs (root @ [''tests'']))"

text \<open>
  \<open>payload.get("scripts", {})\<close> of a payload that is not a dict raises \<open>AttributeError\<close>;
  \<open>loads\<close> answers \<open>None\<close> for a \<open>JSONDecodeError\<close>.
\<close>

definition node_test_command :: "(pystr \<Rightarrow> json option) \<Rightarrow> path \<Rightarrow> discovered_command option io" where
  "node_test_command loads root fs =
     (if \<not> path_exists fs (root @ [''package.json'']) then (Inr None, fs)
      else andthen (read_text (root @ [''package.json''])) (\<lambda>t.
           case loads t of
             None \<Rightarrow> ret None
           | Some (J_Dict payload) \<Rightarrow>
               (case dict_get ''scripts'' payload of
                  Some (J_Dict scripts) \<Rightarrow>
                    (if opt_all json_truthy (dict_get ''test'' scripts) \<and> dict_get ''test'' scripts \<noteq> None
                     then ret (Some \<lparr>dv_ecosystem = ''node'', dv_command = [''npm'', ''test''],
                                    dv_reason = ''package.json test script detected''\<rparr>)
                     else ret None)
                | _ \<Rightarrow> ret None)
           | Some _ \<Rightarrow> throw (AttributeError ''get'')) fs)"

definition discover_proof_commands :: "(pystr \<Rightarrow> json option) \<Rightarrow> path \<Rightarrow> proof_discovery io" where
  "discover_proof_commands loads p =
     andthen (\<lambda>fs. (resolve fs p, fs)) (\<lambda>root.
     andthen (reads (\<lambda>fs. has_python_tests fs root)) (\<lambda>python.
     andthen (node_test_command loads root) (\<lambda>node.
     andthen (reads (\<lambda>fs. path_exists fs (root @ [''go.mod'']))) (\<lambda>go.
     let commands =
           (if python then [\<lparr>dv_ecosystem = ''python'', dv_command = [''pytest''],
                             dv_reason = ''Python test directory or pytest config detected''\<rparr>] else [])
           @ (case node of None \<Rightarrow> [] | Some c \<Rightarrow> [c])
           @ (if go then [\<lparr>dv_ecosystem = ''go'', dv_command = [''go'', ''test'', ''./...''],
                         dv_reason = ''go.mod detected''\<rparr>] else []) in
     ret \<lparr>pd_root = path_text root, pd_commands = commands,
          pd_blocker = (if commands \<noteq> [] then None else Some ''no proof command discovered'')\<rparr>))))"

end
