(* ===== verification/Patch_Plan.thy ===== *)
theory Patch_Plan
  imports Repo_Tools
begin

text \<open>
  Patch plans (\<open>vad/repo/patch_plan.py\<close>): the files an agent asks for are normalised with
  \<open>PurePosixPath\<close> and each must lie in a scope boundary of its contract. The code compares
  strings; the theorem says what that means for the components of the paths.
\<close>

section \<open>The plan\<close>

record patch_plan =
  pl_eip_name :: pystr
  pl_scope_boundaries :: "pystr list"
  pl_allowed_files :: "pystr list"
  pl_proof_commands :: "discovered_command list"
  pl_mees_estimate :: int
  pl_blocker :: "pystr option"

text \<open>\<open>str(PurePosixPath(p))\<close> of a relative path is its components, or a dot when there are none.\<close>

definition normalize_repo_path :: "pystr \<Rightarrow> exn + pystr" where
  "normalize_repo_path p =
     (let s = forward_slashes p; parts = path_parts s in
      if is_absolute s \<or> ''..'' \<in> set parts then Inl (ValueError (''unsafe repository path: '' @ p))
      else Inr (if parts = [] then ''.'' else py_join ''/'' parts))"

definition within_scope :: "pystr \<Rightarrow> pystr \<Rightarrow> exn + bool" where
  "within_scope p boundary =
     (case normalize_repo_path boundary of Inl e \<Rightarrow> Inl e
      | Inr b \<Rightarrow> Inr (p = b \<or> is_prefix_of (b @ ''/'') p))"

fun any_scope :: "pystr \<Rightarrow> pystr list \<Rightarrow> exn + bool" where
  "any_scope p [] = Inr False"
| "any_scope p (b # bs) =
     (case within_scope p b of Inl e \<Rightarrow> Inl e | Inr True \<Rightarrow> Inr True | Inr False \<Rightarrow> any_scope p bs)"

definition within_any_scope :: "pystr \<Rightarrow> pystr list \<Rightarrow> exn + bool" where
  "within_any_scope p boundaries =
     (case normalize_repo_path p of Inl e \<Rightarrow> Inl e | Inr q \<Rightarrow> any_scope q boundaries)"

fun out_of_scope :: "pystr list \<Rightarrow> pystr list \<Rightarrow> exn + pystr list" where
  "out_of_scope boundaries [] = Inr []"
| "out_of_scope boundaries (p # ps) =
     (case within_any_scope p boundaries of Inl e \<Rightarrow> Inl e
      | Inr inside \<Rightarrow> (case out_of_scope boundaries ps of Inl e \<Rightarrow> Inl e
                       | Inr bad \<Rightarrow> Inr (if inside then bad else p # bad)))"

text \<open>A \<open>ValueError\<close> inside a validator becomes a \<open>ValidationError\<close>.\<close>

definition parse_patch_plan :: "patch_plan \<Rightarrow> exn + patch_plan" where
  "parse_patch_plan p =
     (if pl_mees_estimate p < 0 \<or> 100 < pl_mees_estimate p then Inl (ValidationError ''mees_estimate'')
      else case out_of_scope (pl_scope_boundaries p) (pl_allowed_files p) of
             Inl e \<Rightarrow> Inl (ValidationError (exn_text e))
           | Inr bad \<Rightarrow>
               (if bad \<noteq> [] then Inl (ValidationError (''files outside EIP scope: '' @ py_join '', '' bad))
                else Inr (if pl_proof_commands p = [] \<and> pl_blocker p = None
                          then p\<lparr>pl_blocker := Some ''no proof commands available for patch plan''\<rparr> else p)))"

definition build_patch_plan ::
    "eip \<Rightarrow> pystr list \<Rightarrow> discovered_command list \<Rightarrow> int \<Rightarrow> exn + patch_plan" where
  "build_patch_plan e requested_files proof_commands mees_estimate =
     (case parse_all normalize_repo_path requested_files of Inl x \<Rightarrow> Inl x
      | Inr files \<Rightarrow>
          parse_patch_plan
            \<lparr>pl_eip_name = eip_name e, pl_scope_boundaries = eip_scope_boundaries e, pl_allowed_files = files,
             pl_proof_commands = proof_commands, pl_mees_estimate = mees_estimate, pl_blocker = None\<rparr>)"

section \<open>Paths and their components\<close>

definition component :: "pystr \<Rightarrow> bool" where
  "component c = (c \<noteq> [] \<and> c \<noteq> ''.'' \<and> CHR ''/'' \<notin> set c)"

definition repo_parts :: "pystr \<Rightarrow> path" where
  "repo_parts p = path_parts (forward_slashes p)"

definition repo_relative :: "pystr \<Rightarrow> bool" where
  "repo_relative p = (\<not> is_absolute (forward_slashes p) \<and> ''..'' \<notin> set (repo_parts p))"

definition repo_text :: "path \<Rightarrow> pystr" where
  "repo_text parts = (if parts = [] then ''.'' else py_join ''/'' parts)"

lemma normalize_repo_path_eq:
  "normalize_repo_path p =
     (if repo_relative p then Inr (repo_text (repo_parts p)) else Inl (ValueError (''unsafe repository path: '' @ p)))"
  by (auto simp: normalize_repo_path_def repo_relative_def repo_parts_def repo_text_def Let_def)

lemma prefix_append: "is_prefix_of xs ys \<longleftrightarrow> (\<exists>zs. ys = xs @ zs)"
  by (induction xs ys rule: is_prefix_of.induct) auto

lemma py_split_sep_free: "w \<in> set (py_split sep s) \<Longrightarrow> sep \<notin> set w"
proof (induction s arbitrary: w)
  case (Cons c cs)
  then show ?case by (cases "py_split sep cs") (auto split: if_splits)
qed simp

lemma repo_parts_component: "list_all component (repo_parts p)"
  using py_split_sep_free
  by (fastforce simp: repo_parts_def path_parts_def component_def list_all_iff)

lemma py_split_word: "sep \<notin> set w \<Longrightarrow> py_split sep w = [w]"
  by (induction w) auto

lemma py_split_append: "sep \<notin> set w \<Longrightarrow> py_split sep (w @ sep # s) = w # py_split sep s"
  by (induction w) auto

lemma py_split_join: "parts \<noteq> [] \<Longrightarrow> list_all component parts \<Longrightarrow> py_split (CHR ''/'') (py_join ''/'' parts) = parts"
  by (induction "''/'' :: pystr" parts rule: py_join.induct)
    (auto simp: component_def py_split_word py_split_append)

lemma repo_text_split: "parts \<noteq> [] \<Longrightarrow> list_all component parts \<Longrightarrow> py_split (CHR ''/'') (repo_text parts) = parts"
  by (simp add: repo_text_def py_split_join)

lemma repo_text_inject:
  assumes "list_all component ps" "list_all component qs"
  shows "repo_text ps = repo_text qs \<longleftrightarrow> ps = qs"
proof -
  have dot: "py_split (CHR ''/'') (repo_text []) = [''.'']" by (simp add: repo_text_def)
  have no: "[''.''] \<noteq> xs" if "list_all component xs" for xs using that by (auto simp: component_def)
  show ?thesis
    using assms repo_text_split [of ps] repo_text_split [of qs] dot no
    by (cases "ps = []"; cases "qs = []") metis+
qed

text \<open>The component test of the code: the text of the boundary and a slash begin the text of the path.\<close>

lemma py_split_nonempty [simp]: "py_split sep s \<noteq> []"
  by (induction s) (auto split: list.split)

lemma split_prefix: "py_split sep (s @ sep # t) = py_split sep s @ py_split sep t"
proof (induction s)
  case (Cons c cs)
  then show ?case using py_split_nonempty [of sep cs] by (cases "py_split sep cs") auto
qed simp

lemma join_append: "ps \<noteq> [] \<Longrightarrow> qs \<noteq> [] \<Longrightarrow> py_join sep (ps @ qs) = py_join sep ps @ sep @ py_join sep qs"
  by (induction sep ps rule: py_join.induct) (cases qs; simp)+

lemma repo_text_prefix:
  assumes ps: "list_all component ps" "ps \<noteq> []" and qs: "list_all component qs" "qs \<noteq> []"
  shows "repo_text qs = repo_text ps \<or> is_prefix_of (repo_text ps @ ''/'') (repo_text qs) \<longleftrightarrow> is_prefix_of ps qs"
proof
  assume "repo_text qs = repo_text ps \<or> is_prefix_of (repo_text ps @ ''/'') (repo_text qs)"
  then show "is_prefix_of ps qs"
  proof
    assume "repo_text qs = repo_text ps"
    then show ?thesis using repo_text_inject [OF qs(1) ps(1)] by (simp add: prefix_append)
  next
    assume "is_prefix_of (repo_text ps @ ''/'') (repo_text qs)"
    then obtain t where "repo_text qs = repo_text ps @ CHR ''/'' # t" by (auto simp: prefix_append)
    then have "qs = ps @ py_split (CHR ''/'') t"
      using repo_text_split [OF qs(2,1)] repo_text_split [OF ps(2,1)] by (simp add: split_prefix)
    then show ?thesis by (simp add: prefix_append)
  qed
next
  assume "is_prefix_of ps qs"
  then obtain rs where "qs = ps @ rs" by (auto simp: prefix_append)
  then show "repo_text qs = repo_text ps \<or> is_prefix_of (repo_text ps @ ''/'') (repo_text qs)"
    using ps(2) by (cases "rs = []") (simp_all add: repo_text_def join_append prefix_append)
qed

text \<open>The boundary "." has no components and holds nothing but itself.\<close>

definition in_scope :: "pystr \<Rightarrow> pystr \<Rightarrow> bool" where
  "in_scope p boundary =
     (if repo_parts boundary = [] then repo_parts p = [] else is_prefix_of (repo_parts boundary) (repo_parts p))"

lemma repo_text_Nil_prefix: "list_all component qs \<Longrightarrow> \<not> is_prefix_of ''./'' (repo_text qs)"
proof
  assume qs: "list_all component qs" and p: "is_prefix_of ''./'' (repo_text qs)"
  then obtain t where t: "repo_text qs = ''.'' @ CHR ''/'' # t" by (auto simp: prefix_append)
  then have ne: "qs \<noteq> []" by (auto simp: repo_text_def)
  from repo_text_split [OF ne qs] have "qs = ''.'' # py_split (CHR ''/'') t"
    unfolding t by simp
  with qs show False by (simp add: component_def)
qed

lemma within_scope_eq:
  assumes "repo_relative boundary" "repo_relative p"
  shows "within_scope (repo_text (repo_parts p)) boundary = Inr (in_scope p boundary)"
proof -
  let ?p = "repo_parts p" and ?b = "repo_parts boundary"
  have c: "list_all component ?p" "list_all component ?b" by (rule repo_parts_component)+
  have "(repo_text ?p = repo_text ?b \<or> is_prefix_of (repo_text ?b @ ''/'') (repo_text ?p)) = in_scope p boundary"
  proof (cases "?b = []")
    case True
    then show ?thesis
      using repo_text_inject [OF c] repo_text_Nil_prefix [OF c(1)]
      by (simp add: in_scope_def) (simp add: repo_text_def)
  next
    case False
    show ?thesis
    proof (cases "?p = []")
      case True
      have "\<not> is_prefix_of (x @ ''/'') ''.''" for x by (cases x) (auto simp: prefix_append)
      then show ?thesis
        using False True repo_text_inject [OF c] by (cases ?b) (simp_all add: in_scope_def repo_text_def)
    next
      case nonempty: False
      show ?thesis using repo_text_prefix [OF c(2) False c(1) nonempty] False by (simp add: in_scope_def)
    qed
  qed
  then show ?thesis using assms(1) by (simp add: within_scope_def normalize_repo_path_eq)
qed

lemma any_scope_eq:
  assumes "list_all repo_relative boundaries" "repo_relative p"
  shows "any_scope (repo_text (repo_parts p)) boundaries = Inr (list_ex (in_scope p) boundaries)"
  using assms(1) by (induction boundaries) (simp_all add: within_scope_eq assms(2) split: bool.split)

lemma py_split_chars: "w \<in> set (py_split sep s) \<Longrightarrow> set w \<subseteq> set s"
proof (induction s arbitrary: w)
  case (Cons c cs)
  obtain a as where a: "py_split sep cs = a # as" using py_split_nonempty [of sep cs] by (cases "py_split sep cs") auto
  show ?case
  proof (cases "c = sep \<or> w \<noteq> c # a")
    case True
    then show ?thesis using Cons.IH [of w] Cons.prems a by (auto split: if_splits)
  next
    case False
    then show ?thesis using Cons.IH [of a] a by auto
  qed
qed simp

lemma part_clean: "w \<in> set (repo_parts p) \<Longrightarrow> CHR 0x5C \<notin> set w"
  using py_split_chars [of w "CHR ''/''" "forward_slashes p"]
  by (auto simp: repo_parts_def path_parts_def forward_slashes_def)

lemma set_join: "set (py_join sep ws) \<subseteq> set sep \<union> \<Union> (set ` set ws)"
  by (induction sep ws rule: py_join.induct) auto

lemma forward_slashes_id: "CHR 0x5C \<notin> set s \<Longrightarrow> forward_slashes s = s"
  by (induction s) (auto simp: forward_slashes_def)

text \<open>Normalising a normalised path changes nothing.\<close>

lemma repo_parts_text:
  assumes "repo_relative p"
  shows "repo_parts (repo_text (repo_parts p)) = repo_parts p" "repo_relative (repo_text (repo_parts p))"
proof -
  let ?ps = "repo_parts p" and ?t = "repo_text (repo_parts p)"
  have c: "list_all component ?ps" by (rule repo_parts_component)
  have clean: "CHR 0x5C \<notin> set w" if "w \<in> set ?ps" for w
    using that by (rule part_clean)
  have "CHR 0x5C \<notin> set ?t" using clean set_join [of "''/''" ?ps] by (auto simp: repo_text_def)
  then have same: "forward_slashes ?t = ?t" by (simp add: forward_slashes_id)
  show parts: "repo_parts ?t = ?ps"
  proof (cases "?ps = []")
    case True
    then show ?thesis by (simp add: repo_text_def repo_parts_def forward_slashes_def path_parts_def)
  next
    case False
    have "filter (\<lambda>x. x \<noteq> [] \<and> x \<noteq> ''.'') ?ps = ?ps"
      using c by (auto simp: filter_id_conv list_all_iff component_def)
    then show ?thesis
      using repo_text_split [OF False c] same unfolding repo_parts_def path_parts_def by simp
  qed
  have "\<not> is_absolute ?t"
  proof (cases ?ps)
    case (Cons a as)
    then show ?thesis using c by (cases a; cases as) (auto simp: repo_text_def is_absolute_def component_def)
  qed (simp add: repo_text_def is_absolute_def)
  then show "repo_relative ?t" using assms parts same by (simp add: repo_relative_def)
qed

lemma in_scope_text: "repo_relative p \<Longrightarrow> in_scope (repo_text (repo_parts p)) b = in_scope p b"
  by (simp add: in_scope_def repo_parts_text(1))

lemma within_any_scope_eq:
  assumes "list_all repo_relative boundaries" "repo_relative p"
  shows "within_any_scope (repo_text (repo_parts p)) boundaries = Inr (list_ex (in_scope p) boundaries)"
  using any_scope_eq [OF assms] assms(2) by (simp add: within_any_scope_def normalize_repo_path_eq repo_parts_text)

lemma out_of_scope_eq:
  assumes "list_all repo_relative boundaries" "list_all repo_relative files"
  shows "out_of_scope boundaries (map (\<lambda>p. repo_text (repo_parts p)) files) =
    Inr (map (\<lambda>p. repo_text (repo_parts p)) (filter (\<lambda>p. \<not> list_ex (in_scope p) boundaries) files))"
  using assms(2) by (induction files) (simp_all add: within_any_scope_eq [OF assms(1)])

lemma parse_all_normalize:
  "parse_all normalize_repo_path files =
     (case find (\<lambda>p. \<not> repo_relative p) files of
        Some p \<Rightarrow> Inl (ValueError (''unsafe repository path: '' @ p))
      | None \<Rightarrow> Inr (map (\<lambda>p. repo_text (repo_parts p)) files))"
  by (induction files) (simp_all add: normalize_repo_path_eq split: option.splits)

lemma find_SomeD: "find P xs = Some x \<Longrightarrow> x \<in> set xs \<and> P x"
  by (induction xs) (auto split: if_splits)

section \<open>What a plan allows\<close>



end
