(* ===== verification/Lease_Service.thy ===== *)
theory Lease_Service
  imports Event_Service
begin

text \<open>
  The task lease service (\<open>vad/server/api/leases.py\<close>).
\<close>

record lease_result =
  lr_status_code :: int
  lr_lease :: task_lease
  lr_event :: control_plane_event
  lr_decision :: policy_decision

definition lease_event ::
    "task_lease \<Rightarrow> pystr \<Rightarrow> event_status \<Rightarrow> int \<Rightarrow> pystr \<Rightarrow> datetime \<Rightarrow> control_plane_event" where
  "lease_event l summary status seq eid t =
     \<lparr>event_id = eid, ev_sequence = seq, ev_created_at = t, ev_client_id = lease_client_id l,
      ev_client_label = None, ev_run_id = Some (lease_run_id l), ev_task_id = Some (lease_task_id l),
      ev_kind = Task_Lease, ev_status = status, ev_actor = lease_actor l, ev_role = lease_role l,
      ev_evidence_digest = None, ev_summary = summary\<rparr>"

definition lease_outcome ::
    "int \<Rightarrow> task_lease \<Rightarrow> pystr \<Rightarrow> event_status \<Rightarrow> policy_decision \<Rightarrow> (world, lease_result) proc" where
  "lease_outcome code l summary status decision =
     andthen (record_event (lease_event l summary status)) (\<lambda>e.
     ret \<lparr>lr_status_code = code, lr_lease = l, lr_event = e, lr_decision = decision\<rparr>)"

text \<open>\<open>try: load_task_lease .. except KeyError: None\<close>, and what \<open>acquire\<close> does with the outcome.\<close>

definition existing_lease :: "pystr \<Rightarrow> (world, task_lease option) proc" where
  "existing_lease task_id =
     on_key_error (andthen (load_task_lease task_id) (\<lambda>l. ret (Some l))) (ret None)"

definition acquire_over :: "lease_acquire_request \<Rightarrow> task_lease option \<Rightarrow> (world, lease_result) proc" where
  "acquire_over r existing =
     (if opt_all (\<lambda>l. lease_status l \<noteq> Ls_Active) existing
      then andthen utcnow (\<lambda>now.
           andthen (lift_result (new_task_lease r now)) (\<lambda>l.
           andthen (save_task_lease l) (\<lambda>saved.
           lease_outcome 201 saved ''Task lease acquired.'' Ev_Active (allowed ''task lease acquired''))))
      else let l = the existing in
           lease_outcome 409 l ''Lease acquire denied because task is already active.'' Ev_Blocked
             (denied [''task '' @ aq_task_id r @ '' already leased by '' @ lease_client_id l] True))"

definition acquire :: "lease_acquire_request \<Rightarrow> (world, lease_result) proc" where
  "acquire r =
     andthen (load_client_manifest (aq_client_id r)) (\<lambda>_.
     andthen (existing_lease (aq_task_id r)) (acquire_over r))"

definition require_holder :: "task_lease \<Rightarrow> pystr \<Rightarrow> exn + unit" where
  "require_holder l client_id =
     (if lease_client_id l \<noteq> client_id
      then Inl (PermissionError (''task lease is held by '' @ lease_client_id l))
      else if lease_status l \<noteq> Ls_Active
      then Inl (ValueError (''task lease is '' @ lease_status_value (lease_status l)))
      else Inr ())"

definition renew :: "pystr \<Rightarrow> lease_renew_request \<Rightarrow> (world, lease_result) proc" where
  "renew task_id r =
     andthen (load_task_lease task_id) (\<lambda>l.
     andthen (lift_result (require_holder l (rn_client_id r))) (\<lambda>_.
     andthen utcnow (\<lambda>now.
     andthen (lift_result (lease_renew now (rn_ttl_seconds r) l)) (\<lambda>l'.
     andthen (save_task_lease l') (\<lambda>_.
     lease_outcome 200 l' ''Task lease renewed.'' Ev_Active (allowed ''task lease renewed''))))))"

definition release :: "pystr \<Rightarrow> lease_release_request \<Rightarrow> (world, lease_result) proc" where
  "release task_id r =
     andthen (load_task_lease task_id) (\<lambda>l.
     andthen (lift_result (require_holder l (rl_client_id r))) (\<lambda>_.
     andthen (lift_result (lease_release (rl_reason r) l)) (\<lambda>l'.
     andthen (save_task_lease l') (\<lambda>_.
     lease_outcome 200 l' ''Task lease released.'' Ev_Passed (allowed ''task lease released'')))))"

definition expire :: "pystr \<Rightarrow> (world, lease_result) proc" where
  "expire task_id =
     andthen (load_task_lease task_id) (\<lambda>l.
     let l' = l\<lparr>lease_status := Ls_Expired, lease_release_reason := Some ''lease expired''\<rparr> in
     andthen (save_task_lease l') (\<lambda>_.
     lease_outcome 200 l' ''Task lease expired.'' Ev_Stale (allowed ''task lease expired'')))"

definition lease_approval_denials :: "task_lease \<Rightarrow> lease_approval_check \<Rightarrow> pystr list" where
  "lease_approval_denials l r =
     (if ac_action r \<noteq> ''approve_release'' then [''unsupported lease approval action''] else [])
     @ (case assert_approval_transition_allowed (ac_actor r) (ac_role r) l of
          Inl (ValueError msg) \<Rightarrow> [msg] | _ \<Rightarrow> [])"

definition check_approval_transition :: "pystr \<Rightarrow> lease_approval_check \<Rightarrow> (world, policy_decision) proc" where
  "check_approval_transition task_id r =
     andthen (load_task_lease task_id) (\<lambda>l.
     let denials = lease_approval_denials l r in
     if denials \<noteq> [] then ret (denied denials True)
     else ret (allowed ''lease approval transition allowed''))"

section \<open>Effects\<close>

context store_effects
begin

lemma lease_outcome: "obeys R (lease_outcome c l s st d)"
  unfolding lease_outcome_def by (intro reads_effects record_event)

lemma acquire: "obeys R (acquire r)"
  unfolding acquire_def acquire_over_def existing_lease_def
  by (intro let_proc reads_effects load_client_manifest load_task_lease save_task_lease lease_outcome)

lemma renew: "obeys R (renew t r)"
  unfolding renew_def by (intro reads_effects load_task_lease save_task_lease lease_outcome)

lemma release: "obeys R (release t r)"
  unfolding release_def by (intro reads_effects load_task_lease save_task_lease lease_outcome)

lemma expire: "obeys R (expire t)"
  unfolding expire_def by (intro let_proc reads_effects load_task_lease save_task_lease lease_outcome)

end

context event_effects
begin

lemma check_approval_transition: "obeys R (check_approval_transition t r)"
  unfolding check_approval_transition_def by (intro let_proc reads_effects load_task_lease)

end

end
