(* ===== verification/Work_Item_Service.thy ===== *)
theory Work_Item_Service
  imports Event_Service
begin

text \<open>
  The work item service and the scheduler (\<open>vad/server/api/work_items.py\<close>).
\<close>

section \<open>The status machine\<close>

text \<open>\<open>ALLOWED_WORK_ITEM_TRANSITIONS\<close>.\<close>

fun allowed_transitions :: "work_item_status \<Rightarrow> work_item_status list" where
  "allowed_transitions Planned = [Queued, Cancelled]"
| "allowed_transitions Queued = [Assigned, Blocked, Waiting_For_Human, Cancelled]"
| "allowed_transitions Assigned = [Running, Blocked, Waiting_For_Human, Requeued, Cancelled]"
| "allowed_transitions Running =
     [Blocked, Waiting_For_Human, Verifying, Completed, Failed, Cancelled, Requeued]"
| "allowed_transitions Blocked = [Queued, Requeued, Waiting_For_Human, Cancelled]"
| "allowed_transitions Waiting_For_Human = [Queued, Assigned, Running, Requeued, Cancelled]"
| "allowed_transitions Verifying = [Approved, Failed, Blocked, Waiting_For_Human, Requeued]"
| "allowed_transitions Approved = [Completed]"
| "allowed_transitions Failed = [Requeued, Cancelled]"
| "allowed_transitions Requeued = [Queued, Assigned, Cancelled]"
| "allowed_transitions Completed = []"
| "allowed_transitions Cancelled = []"

definition transition_text :: "work_item_status \<Rightarrow> work_item_status \<Rightarrow> pystr" where
  "transition_text source target =
     ''work item transition '' @ work_item_status_value source @ ''->'' @ work_item_status_value target"

definition transition_decision :: "work_item_status \<Rightarrow> work_item_status \<Rightarrow> policy_decision" where
  "transition_decision source target =
     (if target \<in> set (allowed_transitions source)
      then allowed (transition_text source target @ '' allowed'')
      else denied [transition_text source target @ '' is not allowed''] True)"

fun event_status_of :: "work_item_status \<Rightarrow> event_status" where
  "event_status_of Completed = Ev_Passed"
| "event_status_of Approved = Ev_Passed"
| "event_status_of Failed = Ev_Failed"
| "event_status_of Cancelled = Ev_Failed"
| "event_status_of Blocked = Ev_Blocked"
| "event_status_of Waiting_For_Human = Ev_Needs_Human"
| "event_status_of _ = Ev_Active"

section \<open>Events\<close>

text \<open>Who acts: the \<open>actor\<close>, \<open>role\<close> and \<open>client_id\<close> keywords every method takes.\<close>

record caller =
  by_actor :: pystr
  by_role :: pystr
  by_client :: pystr

definition work_item_event ::
    "caller \<Rightarrow> work_item \<Rightarrow> pystr \<Rightarrow> int \<Rightarrow> pystr \<Rightarrow> datetime \<Rightarrow> control_plane_event" where
  "work_item_event c item summary seq eid t =
     \<lparr>event_id = eid, ev_sequence = seq, ev_created_at = t, ev_client_id = by_client c,
      ev_client_label = None, ev_run_id = Some (wi_run_id item), ev_task_id = Some (wi_work_item_id item),
      ev_kind = Work_Item, ev_status = event_status_of (wi_status item), ev_actor = by_actor c,
      ev_role = by_role c, ev_evidence_digest = wi_evidence_digest item, ev_summary = summary\<rparr>"

definition denied_event ::
    "caller \<Rightarrow> work_item \<Rightarrow> pystr \<Rightarrow> int \<Rightarrow> pystr \<Rightarrow> datetime \<Rightarrow> control_plane_event" where
  "denied_event c item summary seq eid t =
     \<lparr>event_id = eid, ev_sequence = seq, ev_created_at = t, ev_client_id = by_client c,
      ev_client_label = None, ev_run_id = Some (wi_run_id item), ev_task_id = Some (wi_work_item_id item),
      ev_kind = Policy_Denied, ev_status = Ev_Blocked, ev_actor = by_actor c,
      ev_role = by_role c, ev_evidence_digest = None, ev_summary = summary\<rparr>"

definition append_event :: "caller \<Rightarrow> work_item \<Rightarrow> pystr \<Rightarrow> (world, control_plane_event) proc" where
  "append_event c item summary = record_event (work_item_event c item summary)"

definition append_denial_event ::
    "caller \<Rightarrow> work_item \<Rightarrow> work_item_status \<Rightarrow> policy_decision \<Rightarrow> (world, control_plane_event) proc" where
  "append_denial_event c item target decision =
     record_event (denied_event c item
       (''Policy denied work_item transition to '' @ work_item_status_value target @ '': ''
        @ py_join ''; '' (denials decision)))"

text \<open>Python's \<open>summary or default\<close>: an empty summary counts as none.\<close>

definition summary_or :: "pystr option \<Rightarrow> pystr \<Rightarrow> pystr" where
  "summary_or s d = (case s of None \<Rightarrow> d | Some t \<Rightarrow> if t = [] then d else t)"

section \<open>Creating and moving items\<close>

record transition_result =
  tx_status_code :: int
  tx_work_item :: work_item
  tx_event :: control_plane_event
  tx_decision :: policy_decision

text \<open>
  The statements of \<open>create\<close> up to its event; the run/task state is written by the store and
  once more by the service.
\<close>

definition create_rows :: "work_item \<Rightarrow> (world, work_item) proc" where
  "create_rows item =
     andthen (save_work_item item) (\<lambda>saved.
     andthen (lift_result (from_work_item saved)) (\<lambda>s.
     andthen (upsert_run_task_state s) (\<lambda>_. ret saved)))"

definition create :: "work_item \<Rightarrow> caller \<Rightarrow> pystr option \<Rightarrow> (world, transition_result) proc" where
  "create item c summary =
     andthen (create_rows item) (\<lambda>saved.
     andthen (append_event c saved (summary_or summary
       (''Work item '' @ wi_work_item_id saved @ '' created as ''
        @ work_item_status_value (wi_status saved) @ ''.''))) (\<lambda>e.
     ret \<lparr>tx_status_code = 201, tx_work_item = saved, tx_event = e,
          tx_decision = allowed ''work item created''\<rparr>))"

text \<open>The optional keywords of \<open>transition\<close> that become fields of the item.\<close>

record change =
  ch_assigned_client_id :: "pystr option"
  ch_lease_id :: "pystr option"
  ch_evidence_digest :: "pystr option"
  ch_blocked_reason :: "pystr option"

definition no_change :: change where
  "no_change = \<lparr>ch_assigned_client_id = None, ch_lease_id = None, ch_evidence_digest = None,
                ch_blocked_reason = None\<rparr>"

definition changed_item :: "work_item \<Rightarrow> work_item_status \<Rightarrow> change \<Rightarrow> datetime \<Rightarrow> exn + work_item" where
  "changed_item current status ch now =
     (case update_work_item current (Some status) (ch_assigned_client_id ch) (ch_lease_id ch)
             (ch_evidence_digest ch) (ch_blocked_reason ch) now of
        Inl e \<Rightarrow> Inl e
      | Inr updated \<Rightarrow>
          Inr (if status = Requeued then updated\<lparr>wi_assigned_client_id := None, wi_lease_id := None\<rparr>
               else updated))"

text \<open>The statements of \<open>transition\<close> up to its event: the item and the decision taken.\<close>

definition transition_rows ::
    "pystr \<Rightarrow> work_item_status \<Rightarrow> change \<Rightarrow> (world, work_item \<times> policy_decision) proc" where
  "transition_rows work_item_id status ch =
     andthen (load_work_item work_item_id) (\<lambda>current.
     let decision = transition_decision (wi_status current) status in
     if \<not> allow decision then ret (current, decision)
     else andthen utcnow (\<lambda>now.
          andthen (lift_result (changed_item current status ch now)) (\<lambda>updated.
          andthen (store_update_work_item updated) (\<lambda>saved.
          andthen (lift_result (from_work_item saved)) (\<lambda>s.
          andthen (upsert_run_task_state s) (\<lambda>_. ret (saved, decision)))))))"

definition transition ::
    "pystr \<Rightarrow> work_item_status \<Rightarrow> caller \<Rightarrow> change \<Rightarrow> pystr option \<Rightarrow> (world, transition_result) proc" where
  "transition work_item_id status c ch summary =
     andthen (transition_rows work_item_id status ch) (\<lambda>(item, decision).
     if \<not> allow decision
     then andthen (append_denial_event c item status decision) (\<lambda>e.
          ret \<lparr>tx_status_code = 409, tx_work_item = item, tx_event = e, tx_decision = decision\<rparr>)
     else andthen (append_event c item (summary_or summary
            (''Work item '' @ wi_work_item_id item @ '' transitioned to ''
             @ work_item_status_value (wi_status item) @ ''.''))) (\<lambda>e.
          ret \<lparr>tx_status_code = 200, tx_work_item = item, tx_event = e, tx_decision = decision\<rparr>))"

definition assign ::
    "pystr \<Rightarrow> caller \<Rightarrow> pystr \<Rightarrow> pystr option \<Rightarrow> pystr option \<Rightarrow> (world, transition_result) proc" where
  "assign work_item_id c assigned_client_id lease_id summary =
     transition work_item_id Assigned c
       (no_change\<lparr>ch_assigned_client_id := Some assigned_client_id, ch_lease_id := lease_id\<rparr>)
       (Some (summary_or summary (''Work item '' @ work_item_id @ '' assigned to '' @ assigned_client_id @ ''.'')))"

definition start :: "pystr \<Rightarrow> caller \<Rightarrow> (world, transition_result) proc" where
  "start work_item_id c = transition work_item_id Running c no_change None"

definition block :: "pystr \<Rightarrow> caller \<Rightarrow> pystr \<Rightarrow> (world, transition_result) proc" where
  "block work_item_id c reason =
     transition work_item_id Blocked c (no_change\<lparr>ch_blocked_reason := Some reason\<rparr>)
       (Some (''Work item '' @ work_item_id @ '' blocked: '' @ reason))"

definition wait_for_human :: "pystr \<Rightarrow> caller \<Rightarrow> (world, transition_result) proc" where
  "wait_for_human work_item_id c = transition work_item_id Waiting_For_Human c no_change None"

definition verify :: "pystr \<Rightarrow> caller \<Rightarrow> (world, transition_result) proc" where
  "verify work_item_id c = transition work_item_id Verifying c no_change None"

definition approve :: "pystr \<Rightarrow> caller \<Rightarrow> (world, transition_result) proc" where
  "approve work_item_id c = transition work_item_id Approved c no_change None"

definition complete :: "pystr \<Rightarrow> caller \<Rightarrow> pystr option \<Rightarrow> (world, transition_result) proc" where
  "complete work_item_id c evidence_digest =
     transition work_item_id Completed c (no_change\<lparr>ch_evidence_digest := evidence_digest\<rparr>) None"

definition fail :: "pystr \<Rightarrow> caller \<Rightarrow> (world, transition_result) proc" where
  "fail work_item_id c = transition work_item_id Failed c no_change None"

definition cancel :: "pystr \<Rightarrow> caller \<Rightarrow> (world, transition_result) proc" where
  "cancel work_item_id c = transition work_item_id Cancelled c no_change None"

definition requeue :: "pystr \<Rightarrow> caller \<Rightarrow> pystr option \<Rightarrow> (world, transition_result) proc" where
  "requeue work_item_id c summary = transition work_item_id Requeued c no_change summary"

section \<open>The scheduler\<close>

record scheduler_result =
  sd_status_code :: int
  sd_work_item :: "work_item option"
  sd_selected_client_id :: "pystr option"
  sd_event :: "control_plane_event option"
  sd_decision :: policy_decision

definition schedulable :: "work_item \<Rightarrow> bool" where
  "schedulable i = (wi_status i = Queued \<or> wi_status i = Requeued)"

definition supports_requested_capability :: "client_status_snapshot \<Rightarrow> work_item \<Rightarrow> bool" where
  "supports_requested_capability s item =
     (case wi_requested_capability item of None \<Rightarrow> True
      | Some cap \<Rightarrow> cap \<in> set (cm_supported_capabilities (ss_manifest s)))"

definition eligible :: "work_item \<Rightarrow> client_status_snapshot \<Rightarrow> bool" where
  "eligible item s =
     (ss_status s = Rt_Active \<and> cm_trust_state (ss_manifest s) = Trusted
      \<and> supports_requested_capability s item)"

text \<open>\<open>snapshots.sort(key=..)\<close> computes every key, each with its own query, before it sorts.\<close>

definition client_load :: "client_status_snapshot \<Rightarrow> (world, (nat \<times> pystr \<times> pystr) \<times> client_status_snapshot) proc" where
  "client_load s =
     andthen (list_task_leases (Some (cm_client_id (ss_manifest s))) (Some Ls_Active)) (\<lambda>ls.
     ret ((length ls, cm_display_name (ss_manifest s), cm_client_id (ss_manifest s)), s))"

definition eligible_clients :: "work_item \<Rightarrow> (world, client_status_snapshot list) proc" where
  "eligible_clients item =
     andthen list_client_statuses (\<lambda>all.
     andthen (each_proc client_load (filter (eligible item) all)) (\<lambda>keyed.
     ret (map snd (sort_key fst keyed))))"

definition append_scheduler_denial :: "caller \<Rightarrow> work_item \<Rightarrow> policy_decision \<Rightarrow> (world, control_plane_event) proc" where
  "append_scheduler_denial c item decision =
     record_event (denied_event c item
       (''Policy denied scheduler assignment: '' @ py_join ''; '' (denials decision)))"

definition scheduler_denial :: "caller \<Rightarrow> work_item \<Rightarrow> pystr \<Rightarrow> (world, scheduler_result) proc" where
  "scheduler_denial c item msg =
     (let decision = denied [msg] True in
      andthen (append_scheduler_denial c item decision) (\<lambda>e.
      ret \<lparr>sd_status_code = 409, sd_work_item = Some item, sd_selected_client_id = None,
           sd_event = Some e, sd_decision = decision\<rparr>))"

text \<open>The tail of \<open>schedule_work_item\<close>: the first client found gets the item.\<close>

definition assign_to_first :: "caller \<Rightarrow> work_item \<Rightarrow> client_status_snapshot list \<Rightarrow> (world, scheduler_result) proc" where
  "assign_to_first c item found =
     (case found of
        [] \<Rightarrow> scheduler_denial c item (''no active trusted clients match work item '' @ wi_work_item_id item)
      | selected # _ \<Rightarrow>
          (let chosen = cm_client_id (ss_manifest selected) in
           andthen (assign (wi_work_item_id item) c chosen None
             (Some (''Scheduler assigned work item '' @ wi_work_item_id item @ '' to '' @ chosen @ ''.''))) (\<lambda>a.
           ret \<lparr>sd_status_code = tx_status_code a, sd_work_item = Some (tx_work_item a),
                sd_selected_client_id = Some chosen, sd_event = Some (tx_event a),
                sd_decision = allowed (''scheduler assigned '' @ wi_work_item_id item @ '' to '' @ chosen)\<rparr>)))"

definition schedule_work_item :: "pystr \<Rightarrow> caller \<Rightarrow> (world, scheduler_result) proc" where
  "schedule_work_item work_item_id c =
     andthen (load_work_item work_item_id) (\<lambda>item.
     if \<not> schedulable item
     then scheduler_denial c item (''work item '' @ wi_work_item_id item @ '' is ''
            @ work_item_status_value (wi_status item) @ '', not schedulable'')
     else andthen (eligible_clients item) (assign_to_first c item))"

definition schedule_next :: "pystr option \<Rightarrow> caller \<Rightarrow> (world, scheduler_result) proc" where
  "schedule_next run_id c =
     andthen (list_work_items run_id None None) (\<lambda>items.
     case filter schedulable items of
       [] \<Rightarrow> ret \<lparr>sd_status_code = 404, sd_work_item = None, sd_selected_client_id = None,
                  sd_event = None,
                  sd_decision = denied [''no queued work items available for scheduling''] False\<rparr>
     | item # _ \<Rightarrow> schedule_work_item (wi_work_item_id item) c)"

section \<open>Effects\<close>

text \<open>Operations that also create and move work items.\<close>

locale item_effects = event_effects +
  assumes eff_create: "valid_work_item i \<Longrightarrow> obeys R (create_rows i)"
    and eff_transition: "obeys R (transition_rows k st ch)"
begin

lemma append_event: "obeys R (append_event c i s)"
  unfolding append_event_def by (rule record_event)

lemma create: "valid_work_item i \<Longrightarrow> obeys R (create i c s)"
  unfolding create_def by (intro reads_effects eff_create append_event)

lemma transition: "obeys R (transition k st c ch s)"
  unfolding transition_def append_denial_event_def
  by (intro case_prod_proc reads_effects eff_transition append_event record_event)

lemma wrappers:
  "obeys R (assign k c a l s)" "obeys R (start k c)" "obeys R (block k c r)" "obeys R (wait_for_human k c)"
  "obeys R (verify k c)" "obeys R (approve k c)" "obeys R (complete k c d)" "obeys R (fail k c)"
  "obeys R (cancel k c)" "obeys R (requeue k c s)"
  unfolding assign_def start_def block_def wait_for_human_def verify_def approve_def complete_def
    fail_def cancel_def requeue_def by (rule transition)+

lemma eligible_clients: "obeys R (eligible_clients i)"
  unfolding eligible_clients_def client_load_def
  by (intro reads_effects list_client_statuses list_task_leases)

lemma scheduler_denial: "obeys R (scheduler_denial c i m)"
  unfolding scheduler_denial_def append_scheduler_denial_def
  by (intro let_proc reads_effects record_event)

lemma case_list_proc:
  "obeys R m \<Longrightarrow> (\<And>x xs. obeys R (n x xs)) \<Longrightarrow> obeys R (case v of [] \<Rightarrow> m | x # xs \<Rightarrow> n x xs)"
  by (cases v) simp_all

lemma assign_to_first: "obeys R (assign_to_first c i found)"
  unfolding assign_to_first_def
  by (intro let_proc case_list_proc reads_effects scheduler_denial wrappers)

lemma schedule_work_item: "obeys R (schedule_work_item k c)"
  unfolding schedule_work_item_def
  by (intro reads_effects load_work_item eligible_clients assign_to_first scheduler_denial)

lemma schedule_next: "obeys R (schedule_next r c)"
  unfolding schedule_next_def
  by (intro case_list_proc reads_effects list_work_items schedule_work_item)

end

end
