(* ===== verification/Client_Registry.thy ===== *)
theory Client_Registry
  imports Lease_Service Work_Item_Service
begin

text \<open>
  The client registry: registration, heartbeats and the recovery of work from stale clients
  (\<open>vad/server/api/clients.py\<close>). Ages are differences of microsecond counts; the source
  compares the same difference as a float, which is exact below 2^53 microseconds (285 years).
\<close>

record registration_result =
  rg_manifest :: client_manifest
  rg_event :: control_plane_event

datatype registry_action = Registered | Unregistered

fun registry_action_text :: "registry_action \<Rightarrow> pystr" where
  "registry_action_text Registered = ''registered''"
| "registry_action_text Unregistered = ''unregistered''"

definition registry_event ::
    "client_manifest \<Rightarrow> registry_action \<Rightarrow> int \<Rightarrow> pystr \<Rightarrow> datetime \<Rightarrow> control_plane_event" where
  "registry_event m action seq eid t =
     \<lparr>event_id = eid, ev_sequence = seq, ev_created_at = t, ev_client_id = cm_client_id m,
      ev_client_label = Some (cm_display_name m), ev_run_id = None, ev_task_id = None,
      ev_kind = Message, ev_status = (if action = Registered then Ev_Active else Ev_Stale),
      ev_actor = cm_client_id m, ev_role = trust_state_value (cm_trust_state m),
      ev_evidence_digest = None,
      ev_summary = ''Client '' @ cm_display_name m @ '' '' @ registry_action_text action @ ''.''\<rparr>"

definition register :: "client_manifest \<Rightarrow> (world, registration_result) proc" where
  "register m =
     andthen (register_client_manifest m) (\<lambda>saved.
     andthen (record_event (registry_event saved Registered)) (\<lambda>e.
     ret \<lparr>rg_manifest = saved, rg_event = e\<rparr>))"

definition unregister :: "pystr \<Rightarrow> (world, registration_result) proc" where
  "unregister client_id =
     andthen (unregister_client_manifest client_id) (\<lambda>removed.
     andthen (record_event (registry_event removed Unregistered)) (\<lambda>e.
     ret \<lparr>rg_manifest = removed, rg_event = e\<rparr>))"

section \<open>Heartbeats\<close>

record heartbeat_result =
  hb_heartbeat :: client_heartbeat
  hb_snapshot :: client_status_snapshot
  hb_event :: control_plane_event

definition heartbeat_event ::
    "client_heartbeat \<Rightarrow> client_manifest \<Rightarrow> int \<Rightarrow> pystr \<Rightarrow> datetime \<Rightarrow> control_plane_event" where
  "heartbeat_event h m seq eid t =
     \<lparr>event_id = eid, ev_sequence = seq, ev_created_at = t, ev_client_id = hb_client_id h,
      ev_client_label = Some (cm_display_name m), ev_run_id = hb_run_id h, ev_task_id = hb_task_id h,
      ev_kind = Heartbeat, ev_status = Ev_Active, ev_actor = hb_actor h, ev_role = hb_role h,
      ev_evidence_digest = None, ev_summary = hb_summary h\<rparr>"

text \<open>The event carries the heartbeat's own time, so no clock is read for it.\<close>

definition heartbeat :: "client_heartbeat \<Rightarrow> (world, heartbeat_result) proc" where
  "heartbeat h =
     andthen (record_client_heartbeat h) (\<lambda>saved.
     andthen (load_client_manifest (hb_client_id saved)) (\<lambda>m.
     andthen (list_control_plane_events None None) (\<lambda>es.
     andthen uuid4_hex (\<lambda>u.
     andthen (lift_result (mk_event
       (heartbeat_event saved m (int (length es) + 1) (event_id_of u) (hb_observed_at saved)))) (\<lambda>e.
     andthen (append_control_plane_event e) (\<lambda>_.
     ret \<lparr>hb_heartbeat = saved,
          hb_snapshot = \<lparr>ss_manifest = m, ss_status = hb_status saved,
            ss_last_heartbeat_at = Some (hb_observed_at saved), ss_last_run_id = hb_run_id saved,
            ss_last_task_id = hb_task_id saved, ss_lost_task_leases = []\<rparr>,
          hb_event = e\<rparr>))))))"

section \<open>Stale clients\<close>

record stale_recovery_result =
  st_snapshot :: client_status_snapshot
  st_event :: control_plane_event
  st_recovered_work_items :: "transition_result list"
  st_recovery_events :: "control_plane_event list"
  st_reassigned_work_items :: "scheduler_result list"

text \<open>The age of a snapshot in microseconds when it is due to be marked stale.\<close>

definition stale_age :: "datetime \<Rightarrow> int \<Rightarrow> client_status_snapshot \<Rightarrow> exn + int option" where
  "stale_age reference stale_after_seconds s =
     (case ss_last_heartbeat_at s of
        None \<Rightarrow> Inr None
      | Some t \<Rightarrow>
          (if ss_status s = Rt_Disconnected then Inr None
           else case time_sub reference (normalize_time t) of
                  Inl e \<Rightarrow> Inl e
                | Inr age \<Rightarrow> Inr (if age \<le> stale_after_seconds * usec then None else Some age)))"

fun collect_stale ::
    "datetime \<Rightarrow> int \<Rightarrow> client_status_snapshot list \<Rightarrow> exn + (client_status_snapshot \<times> int) list" where
  "collect_stale reference limit [] = Inr []"
| "collect_stale reference limit (s # ss) =
     (case stale_age reference limit s of Inl e \<Rightarrow> Inl e
      | Inr age \<Rightarrow>
          (case collect_stale reference limit ss of Inl e \<Rightarrow> Inl e
           | Inr rest \<Rightarrow> Inr (case age of None \<Rightarrow> rest | Some a \<Rightarrow> (s, a) # rest)))"

text \<open>\<open>int(age)\<close> truncates toward zero.\<close>

definition whole_seconds :: "int \<Rightarrow> int" where
  "whole_seconds us = (if us < 0 then - ((- us) div usec) else us div usec)"

definition stale_event ::
    "client_status_snapshot \<Rightarrow> int \<Rightarrow> int \<Rightarrow> pystr \<Rightarrow> datetime \<Rightarrow> control_plane_event" where
  "stale_event s age seq eid t =
     \<lparr>event_id = eid, ev_sequence = seq, ev_created_at = t, ev_client_id = cm_client_id (ss_manifest s),
      ev_client_label = Some (cm_display_name (ss_manifest s)), ev_run_id = ss_last_run_id s,
      ev_task_id = ss_last_task_id s, ev_kind = Heartbeat, ev_status = Ev_Stale,
      ev_actor = cm_client_id (ss_manifest s),
      ev_role = trust_state_value (cm_trust_state (ss_manifest s)), ev_evidence_digest = None,
      ev_summary = ''Client '' @ cm_display_name (ss_manifest s) @ '' marked stale after ''
        @ show_int (whole_seconds age) @ '' seconds; task leases released: ''
        @ show_nat (length (ss_lost_task_leases s)) @ ''.''\<rparr>"

definition recoverable_status :: "work_item_status \<Rightarrow> bool" where
  "recoverable_status s = (s \<in> {Assigned, Running, Blocked, Waiting_For_Human, Verifying})"

definition recovery_event ::
    "client_status_snapshot \<Rightarrow> work_item \<Rightarrow> int \<Rightarrow> pystr \<Rightarrow> datetime \<Rightarrow> control_plane_event" where
  "recovery_event s item seq eid t =
     \<lparr>event_id = eid, ev_sequence = seq, ev_created_at = t, ev_client_id = cm_client_id (ss_manifest s),
      ev_client_label = Some (cm_display_name (ss_manifest s)), ev_run_id = Some (wi_run_id item),
      ev_task_id = Some (wi_work_item_id item), ev_kind = Recovery_Action, ev_status = Ev_Active,
      ev_actor = cm_client_id (ss_manifest s),
      ev_role = trust_state_value (cm_trust_state (ss_manifest s)),
      ev_evidence_digest = wi_evidence_digest item,
      ev_summary = ''Recovery requeued work item '' @ wi_work_item_id item @ '' from stale client ''
        @ cm_display_name (ss_manifest s) @ ''.''\<rparr>"

definition stale_caller :: "client_status_snapshot \<Rightarrow> caller" where
  "stale_caller s =
     \<lparr>by_actor = cm_client_id (ss_manifest s),
      by_role = trust_state_value (cm_trust_state (ss_manifest s)),
      by_client = cm_client_id (ss_manifest s)\<rparr>"

text \<open>One turn of the loop over the items of a stale client; \<open>None\<close> is a \<open>continue\<close>.\<close>

definition recover_item ::
    "client_status_snapshot \<Rightarrow> work_item \<Rightarrow> (world, (transition_result \<times> control_plane_event) option) proc" where
  "recover_item s item =
     (if \<not> recoverable_status (wi_status item) then ret None
      else if wi_status item = Requeued then ret None
      else andthen (requeue (wi_work_item_id item) (stale_caller s)
             (Some (''Work item '' @ wi_work_item_id item @ '' requeued after stale client ''
               @ cm_display_name (ss_manifest s) @ '' abandoned ''
               @ work_item_status_value (wi_status item) @ '' work.''))) (\<lambda>result.
           if tx_status_code result \<noteq> 200 then ret None
           else andthen (record_event (recovery_event s (tx_work_item result))) (\<lambda>e.
                ret (Some (result, e)))))"

definition recover_stale_work_items ::
    "client_status_snapshot \<Rightarrow> (world, transition_result list \<times> control_plane_event list) proc" where
  "recover_stale_work_items s =
     andthen (list_work_items None None (Some (cm_client_id (ss_manifest s)))) (\<lambda>items.
     andthen (each_proc (recover_item s) items) (\<lambda>done.
     ret (map fst (List.map_filter id done), map snd (List.map_filter id done))))"

definition mark_one_stale :: "client_status_snapshot \<times> int \<Rightarrow> (world, stale_recovery_result) proc" where
  "mark_one_stale sa =
     andthen (mark_client_stale (cm_client_id (ss_manifest (fst sa))) None) (\<lambda>marked.
     andthen (record_event (stale_event marked (snd sa))) (\<lambda>e.
     andthen (recover_stale_work_items marked) (\<lambda>(recovered, events).
     ret \<lparr>st_snapshot = marked, st_event = e, st_recovered_work_items = recovered,
          st_recovery_events = events, st_reassigned_work_items = []\<rparr>)))"

definition recovered_by_work_item :: "stale_recovery_result list \<Rightarrow> (pystr \<times> transition_result) list" where
  "recovered_by_work_item results =
     fold (\<lambda>t d. dict_set (wi_work_item_id (tx_work_item t)) t d)
       (concat (map st_recovered_work_items results)) []"

definition recovery_caller :: caller where
  "recovery_caller = \<lparr>by_actor = ''recovery-scheduler'', by_role = ''operator'', by_client = ''control-plane''\<rparr>"

definition reassign_one ::
    "(pystr \<times> transition_result) list \<Rightarrow> pystr \<Rightarrow> (world, scheduler_result option) proc" where
  "reassign_one recovered work_item_id =
     (if opt_all (\<lambda>t. tx_status_code t \<noteq> 200) (dict_get work_item_id recovered) then ret None
      else andthen (schedule_work_item work_item_id recovery_caller) (\<lambda>d.
           ret (if sd_status_code d = 200 then Some d else None)))"

definition mark_stale_clients_with_recovery ::
    "datetime option \<Rightarrow> int \<Rightarrow> bool \<Rightarrow> (world, stale_recovery_result list) proc" where
  "mark_stale_clients_with_recovery now stale_after_seconds auto_reassign =
     andthen (case now of Some t \<Rightarrow> ret t | None \<Rightarrow> utcnow) (\<lambda>reference.
     andthen list_client_statuses (\<lambda>snapshots.
     andthen (lift_result (collect_stale reference stale_after_seconds snapshots)) (\<lambda>stale.
     andthen (each_proc mark_one_stale stale) (\<lambda>marked.
     let recovered = recovered_by_work_item marked in
     andthen (if auto_reassign then each_proc (reassign_one recovered) (sort (map fst recovered)) else ret []) (\<lambda>ds.
     let combined = List.map_filter id ds in
     ret (if combined = [] then marked
          else (case marked of [] \<Rightarrow> []
                | first # rest \<Rightarrow> first\<lparr>st_reassigned_work_items := combined\<rparr> # rest)))))))"

definition mark_stale_clients :: "datetime option \<Rightarrow> int \<Rightarrow> (world, client_status_snapshot list) proc" where
  "mark_stale_clients now stale_after_seconds =
     andthen (mark_stale_clients_with_recovery now stale_after_seconds False) (\<lambda>rs.
     ret (map st_snapshot rs))"

section \<open>Effects\<close>

context store_effects
begin

lemma register: "parse_client_manifest m = Inr m \<Longrightarrow> obeys R (register m)"
  unfolding register_def by (intro reads_effects register_client_manifest record_event)

lemma unregister: "obeys R (unregister k)"
  unfolding unregister_def by (intro reads_effects unregister_client_manifest record_event)

lemma heartbeat: "obeys R (heartbeat h)"
  unfolding heartbeat_def
  by (intro reads_effects record_client_heartbeat load_client_manifest list_control_plane_events
      lift_bind append_control_plane_event) simp

end

locale control_plane_effects = store_effects + item_effects
begin

lemma recover_item: "obeys R (recover_item s i)"
  unfolding recover_item_def by (intro reads_effects wrappers record_event)

lemma recover_stale_work_items: "obeys R (recover_stale_work_items s)"
  unfolding recover_stale_work_items_def by (intro reads_effects list_work_items recover_item)

lemma mark_one_stale: "obeys R (mark_one_stale sa)"
  unfolding mark_one_stale_def
  by (intro case_prod_proc reads_effects mark_client_stale record_event recover_stale_work_items)

lemma reassign_one: "obeys R (reassign_one d k)"
  unfolding reassign_one_def by (intro reads_effects schedule_work_item)

lemma mark_stale_clients_with_recovery: "obeys R (mark_stale_clients_with_recovery now limit auto)"
  unfolding mark_stale_clients_with_recovery_def
  by (intro let_proc reads_effects list_client_statuses mark_one_stale reassign_one)

lemma mark_stale_clients: "obeys R (mark_stale_clients now limit)"
  unfolding mark_stale_clients_def by (intro reads_effects mark_stale_clients_with_recovery)

end

end
