(* ===== verification/Sdk.thy ===== *)
theory Sdk
  imports Client_Registry
begin

text \<open>
  The local control plane client (\<open>vad/control_plane/sdk.py\<close>): the connector's view of the
  services.
\<close>

definition sdk_register :: "client_manifest \<Rightarrow> (world, registration_result) proc" where
  "sdk_register m = register m"

definition sdk_heartbeat :: "client_heartbeat \<Rightarrow> (world, heartbeat_result) proc" where
  "sdk_heartbeat h = heartbeat h"

text \<open>An event object is dumped with all its fields, so its id and time are part of the payload.\<close>

definition payload_of_event :: "control_plane_event \<Rightarrow> event_payload" where
  "payload_of_event e = \<lparr>py_event_id = Some (event_id e), py_created_at = Some (ev_created_at e), py_fields = e\<rparr>"

definition emit_event :: "control_plane_event + event_payload \<Rightarrow> (world, ingestion_result) proc" where
  "emit_event x = ingest (case x of Inl e \<Rightarrow> payload_of_event e | Inr p \<Rightarrow> p)"

definition open_status :: "work_item_status \<Rightarrow> bool" where
  "open_status s = (s \<in> {Assigned, Running, Blocked, Waiting_For_Human, Verifying})"

definition poll_assigned_work :: "pystr \<Rightarrow> pystr option \<Rightarrow> (world, work_item list) proc" where
  "poll_assigned_work client_id run_id =
     andthen (list_work_items run_id None (Some client_id)) (\<lambda>items.
     ret (filter (\<lambda>i. open_status (wi_status i)) items))"

definition receive_next_work :: "pystr option \<Rightarrow> caller \<Rightarrow> (world, scheduler_result) proc" where
  "receive_next_work run_id c = schedule_next run_id c"

definition accept_work :: "pystr \<Rightarrow> caller \<Rightarrow> (world, transition_result) proc" where
  "accept_work work_item_id c = start work_item_id c"

definition reject_work :: "pystr \<Rightarrow> caller \<Rightarrow> pystr option \<Rightarrow> (world, transition_result) proc" where
  "reject_work work_item_id c reason =
     (let summary = ''Connector '' @ by_client c @ '' rejected work item '' @ work_item_id @ ''.'' in
      requeue work_item_id c
        (Some (if truthy reason then summary @ '' Reason: '' @ the reason @ ''.'' else summary)))"

definition block_work :: "pystr \<Rightarrow> caller \<Rightarrow> pystr \<Rightarrow> (world, transition_result) proc" where
  "block_work work_item_id c reason = block work_item_id c reason"

definition complete_work :: "pystr \<Rightarrow> caller \<Rightarrow> pystr option \<Rightarrow> (world, transition_result) proc" where
  "complete_work work_item_id c evidence_digest = complete work_item_id c evidence_digest"

definition fail_work :: "pystr \<Rightarrow> caller \<Rightarrow> (world, transition_result) proc" where
  "fail_work work_item_id c = fail work_item_id c"

text \<open>The statuses a connector polls are exactly the ones stale recovery takes back.\<close>

lemma open_status_recoverable: "open_status s = recoverable_status s"
  by (simp add: open_status_def recoverable_status_def)

end
