(* ===== verification/Mcp_Gateway.thy ===== *)
theory Mcp_Gateway
  imports Sdk Json
begin

text \<open>
  The MCP gateway (\<open>vad/control_plane/mcp_gateway.py\<close>): the tool registry, which tools a role
  sees and may call, the redaction of tool arguments, and the recorder that writes a ledger
  event per call.
\<close>

section \<open>Tools and visibility requests\<close>

datatype tool_risk = Low | Medium | High

record event_policy =
  gp_emits_started :: bool
  gp_emits_finished :: bool
  gp_emits_failed :: bool
  gp_started_kind :: event_kind
  gp_finished_kind :: event_kind
  gp_failed_kind :: event_kind

definition default_event_policy :: event_policy where
  "default_event_policy =
     \<lparr>gp_emits_started = True, gp_emits_finished = True, gp_emits_failed = True,
      gp_started_kind = Tool_Call_Started, gp_finished_kind = Tool_Call_Finished,
      gp_failed_kind = Tool_Call_Finished\<rparr>"

record gateway_tool =
  gt_name :: pystr
  gt_description :: pystr
  gt_input_schema :: "(pystr \<times> json) list"
  gt_risk :: tool_risk
  gt_required_role :: pystr
  gt_event_policy :: event_policy
  gt_high_risk :: bool

definition valid_gateway_tool :: "gateway_tool \<Rightarrow> bool" where
  "valid_gateway_tool t =
     (bounded 1 120 (gt_name t) \<and> safe_identifier (gt_name t) \<and> safe_identifier (gt_required_role t)
      \<and> gt_description t \<noteq> [])"

definition to_mcp_tool :: "gateway_tool \<Rightarrow> json" where
  "to_mcp_tool t = J_Dict [(''name'', J_Str (gt_name t)), (''description'', J_Str (gt_description t)),
     (''inputSchema'', J_Dict (gt_input_schema t))]"

record visibility_request =
  vr_client_id :: "pystr option"
  vr_run_id :: "pystr option"
  vr_role :: "pystr option"
  vr_approved_high_risk_tools :: "pystr list"

definition parse_visibility_request :: "visibility_request \<Rightarrow> exn + visibility_request" where
  "parse_visibility_request r =
     (let normalized = sorted_set (filter (\<lambda>v. v \<noteq> []) (map py_strip (vr_approved_high_risk_tools r))) in
      if opt_all (bounded 0 160) (vr_client_id r) \<and> opt_all safe_identifier (vr_client_id r)
         \<and> opt_all (bounded 0 160) (vr_run_id r) \<and> opt_all safe_identifier (vr_run_id r)
         \<and> opt_all (bounded 0 80) (vr_role r) \<and> opt_all safe_identifier (vr_role r)
         \<and> list_all safe_identifier normalized
      then Inr (r\<lparr>vr_approved_high_risk_tools := normalized\<rparr>)
      else Inl (ValidationError ''GatewayToolVisibilityRequest''))"

record tool_audit =
  ta_tool_name :: pystr
  ta_client_id :: "pystr option"
  ta_run_id :: "pystr option"
  ta_requested_role :: "pystr option"
  ta_required_role :: pystr
  ta_visible :: bool
  ta_reason :: pystr

record visibility_result =
  vs_tools :: "gateway_tool list"
  vs_audit :: "tool_audit list"

definition to_mcp_tools :: "visibility_result \<Rightarrow> json list" where
  "to_mcp_tools r = map to_mcp_tool (vs_tools r)"

definition make_tool ::
    "pystr \<Rightarrow> pystr \<Rightarrow> (pystr \<times> json) list \<Rightarrow> pystr list \<Rightarrow> tool_risk \<Rightarrow> pystr \<Rightarrow> bool \<Rightarrow> gateway_tool" where
  "make_tool name description properties required risk required_role high_risk =
     \<lparr>gt_name = name, gt_description = description,
      gt_input_schema = [(''type'', J_Str ''object''), (''properties'', J_Dict properties)]
        @ (if required \<noteq> [] then [(''required'', J_List (map J_Str required))] else []),
      gt_risk = risk, gt_required_role = required_role, gt_event_policy = default_event_policy,
      gt_high_risk = high_risk\<rparr>"

section \<open>The registry\<close>

definition tool_validate_eip :: gateway_tool where
  "tool_validate_eip = make_tool ''validate_eip''
      ''Validates a VAD EIP (Intent Document) against the schema and validation constraints.''
      [(''file'', J_Dict [(''type'', J_Str ''string''), (''description'', J_Str ''Path to the EIP file (YAML or JSON)'')])]
      [''file''] Low ''observer'' False"

definition tool_run_proofs :: gateway_tool where
  "tool_run_proofs = make_tool ''run_proofs''
      ''Executes the defined proof obligations (e.g. running pytest) to verify requirements.''
      [(''target'', J_Dict [(''type'', J_Str ''string''), (''description'', J_Str ''Optional pytest target (e.g. tests/test_models.py)'')])]
      [] Medium ''verifier'' False"

definition tool_retro_analyze :: gateway_tool where
  "tool_retro_analyze = make_tool ''retro_analyze''
      ''Runs retrospective analysis on an evidence bundle, generating learnings and persisting them to MemoryScope.RETROSPECTIVE.''
      [(''file'', J_Dict [(''type'', J_Str ''string''), (''description'', J_Str ''Path to the evidence bundle JSON or YAML file'')])]
      [''file''] Medium ''auditor'' False"

definition tool_query_retrospective :: gateway_tool where
  "tool_query_retrospective = make_tool ''query_retrospective''
      ''Queries historical retrospective learnings from the VAD memory store.''
      []
      [] Low ''observer'' False"

definition tool_submit_retrospective :: gateway_tool where
  "tool_submit_retrospective = make_tool ''submit_retrospective''
      ''Manually records a learning back into the retrospective memory scope.''
      [(''learning'', J_Dict [(''type'', J_Str ''string''), (''description'', J_Str ''A clear, actionable learning or rule to record'')])]
      [''learning''] Medium ''auditor'' False"

definition tool_repo_assess :: gateway_tool where
  "tool_repo_assess = make_tool ''repo_assess''
      ''Assess a local repository without mutation.''
      [(''path'', J_Dict [(''type'', J_Str ''string'')])]
      [''path''] Low ''observer'' False"

definition tool_repo_patch :: gateway_tool where
  "tool_repo_patch = make_tool ''repo_patch''
      ''Apply an explicit unified diff to a repo, run proofs, and roll back on denial/failure.''
      [(''path'', J_Dict [(''type'', J_Str ''string'')]),
       (''eip_file'', J_Dict [(''type'', J_Str ''string'')]),
       (''proof_plan_file'', J_Dict [(''type'', J_Str ''string'')]),
       (''patch_file'', J_Dict [(''type'', J_Str ''string'')]),
       (''allow_dirty'', J_Dict [(''type'', J_Str ''boolean'')]),
       (''approve_dependencies'', J_Dict [(''type'', J_Str ''boolean'')])]
      [''path'', ''eip_file'', ''proof_plan_file'', ''patch_file''] High ''builder'' True"

definition tool_repo_run :: gateway_tool where
  "tool_repo_run = make_tool ''repo_run''
      ''Run bounded repository automation using an explicit patch file.''
      [(''path'', J_Dict [(''type'', J_Str ''string'')]),
       (''eip_file'', J_Dict [(''type'', J_Str ''string'')]),
       (''proof_plan_file'', J_Dict [(''type'', J_Str ''string'')]),
       (''patch_file'', J_Dict [(''type'', J_Str ''string'')]),
       (''allow_dirty'', J_Dict [(''type'', J_Str ''boolean'')]),
       (''approve_dependencies'', J_Dict [(''type'', J_Str ''boolean'')])]
      [''path'', ''eip_file'', ''proof_plan_file'', ''patch_file''] High ''builder'' True"

definition tool_sign_verify :: gateway_tool where
  "tool_sign_verify = make_tool ''sign_verify''
      ''Verify a signed evidence artifact with a local development secret file.''
      [(''signed_file'', J_Dict [(''type'', J_Str ''string'')]),
       (''secret_file'', J_Dict [(''type'', J_Str ''string'')])]
      [''signed_file'', ''secret_file''] High ''release_guardian'' True"

definition tool_evidence_inspect :: gateway_tool where
  "tool_evidence_inspect = make_tool ''evidence_inspect''
      ''Inspect evidence and return its deterministic hash.''
      [(''file'', J_Dict [(''type'', J_Str ''string'')])]
      [''file''] Low ''observer'' False"

definition tool_provider_inventory :: gateway_tool where
  "tool_provider_inventory = make_tool ''provider_inventory''
      ''Return provider inventory for fake or OpenAI adapters without live calls.''
      [(''provider'', J_Dict [(''type'', J_Str ''string''), (''enum'', J_List [J_Str ''fake'', J_Str ''openai''])])]
      [''provider''] Low ''observer'' False"

definition tool_provider_test :: gateway_tool where
  "tool_provider_test = make_tool ''provider_test''
      ''Run an offline provider completion contract test.''
      [(''prompt'', J_Dict [(''type'', J_Str ''string'')]),
       (''model'', J_Dict [(''type'', J_Str ''string'')])]
      [''prompt''] Medium ''verifier'' False"

definition tool_swarm_status :: gateway_tool where
  "tool_swarm_status = make_tool ''swarm_status''
      ''Read persisted swarm state and reconstruct status.''
      [(''state'', J_Dict [(''type'', J_Str ''string'')])]
      [''state''] Low ''observer'' False"

definition gateway_tools :: "gateway_tool list" where
  "gateway_tools =
     [tool_validate_eip, tool_run_proofs, tool_retro_analyze, tool_query_retrospective,
      tool_submit_retrospective, tool_repo_assess, tool_repo_patch, tool_repo_run,
      tool_sign_verify, tool_evidence_inspect, tool_provider_inventory, tool_provider_test,
      tool_swarm_status]"

text \<open>\<open>gateway_tool_registry()[name]\<close>: a later tool of the same name would win.\<close>

definition registry_get :: "pystr \<Rightarrow> gateway_tool option" where
  "registry_get name = map_of (rev (map (\<lambda>t. (gt_name t, t)) gateway_tools)) name"

definition high_risk_tools :: "pystr list" where
  "high_risk_tools = map gt_name (filter gt_high_risk gateway_tools)"

fun check_tools :: "gateway_tool list \<Rightarrow> exn + unit" where
  "check_tools [] = Inr ()"
| "check_tools (t # ts) =
     (if gt_risk t = High \<and> \<not> gt_high_risk t
      then Inl (ValueError (''high-risk tool '' @ gt_name t @ '' must be marked explicitly''))
      else if dict_get ''type'' (gt_input_schema t) \<noteq> Some (J_Str ''object'')
      then Inl (ValueError (''tool '' @ gt_name t @ '' must use an object input schema''))
      else check_tools ts)"

definition validate_registry :: "gateway_tool list \<Rightarrow> exn + unit" where
  "validate_registry tools =
     (if \<not> distinct (map gt_name tools)
      then Inl (ValueError ''gateway tool registry contains duplicate tool names'')
      else check_tools tools)"

section \<open>Visibility and authorisation\<close>

definition tool_visible :: "gateway_tool \<Rightarrow> pystr \<Rightarrow> visibility_request \<Rightarrow> bool \<times> pystr" where
  "tool_visible t role r =
     (if gt_required_role t = ''observer'' then (True, ''observer tool visible'')
      else if role \<noteq> gt_required_role t then (False, ''requires role '' @ gt_required_role t)
      else if gt_high_risk t \<and> gt_name t \<notin> set (vr_approved_high_risk_tools r)
      then (False, ''high-risk tool requires explicit approval'')
      else (True, ''role '' @ role @ '' allowed''))"

definition default_request :: visibility_request where
  "default_request = \<lparr>vr_client_id = None, vr_run_id = None, vr_role = Some ''observer'',
                      vr_approved_high_risk_tools = []\<rparr>"

text \<open>\<open>request or default\<close> and \<open>visibility.role or "observer"\<close>.\<close>

definition visibility_of :: "visibility_request option \<Rightarrow> visibility_request" where
  "visibility_of request = (case request of None \<Rightarrow> default_request | Some r \<Rightarrow> r)"

definition role_of :: "visibility_request \<Rightarrow> pystr" where
  "role_of r = (if truthy (vr_role r) then the (vr_role r) else ''observer'')"

definition audit_of :: "visibility_request \<Rightarrow> gateway_tool \<Rightarrow> tool_audit" where
  "audit_of v t =
     (case tool_visible t (role_of v) v of (allowed', reason) \<Rightarrow>
        \<lparr>ta_tool_name = gt_name t, ta_client_id = vr_client_id v, ta_run_id = vr_run_id v,
         ta_requested_role = Some (role_of v), ta_required_role = gt_required_role t,
         ta_visible = allowed', ta_reason = reason\<rparr>)"

definition filter_gateway_tools :: "visibility_request option \<Rightarrow> visibility_result" where
  "filter_gateway_tools request =
     (let v = visibility_of request in
      \<lparr>vs_tools = filter (\<lambda>t. fst (tool_visible t (role_of v) v)) gateway_tools,
       vs_audit = map (audit_of v) gateway_tools\<rparr>)"

definition mcp_tool_definitions :: "visibility_request option \<Rightarrow> json list" where
  "mcp_tool_definitions request = to_mcp_tools (filter_gateway_tools request)"

definition authorize_gateway_tool_call :: "pystr \<Rightarrow> visibility_request option \<Rightarrow> tool_audit" where
  "authorize_gateway_tool_call tool_name request =
     (let v = visibility_of request in
      case registry_get tool_name of
        None \<Rightarrow> \<lparr>ta_tool_name = tool_name, ta_client_id = vr_client_id v, ta_run_id = vr_run_id v,
                 ta_requested_role = Some (role_of v), ta_required_role = ''unknown'',
                 ta_visible = False, ta_reason = ''unknown tool''\<rparr>
      | Some t \<Rightarrow> audit_of v t)"

section \<open>Redaction\<close>

definition sensitive_markers :: "pystr list" where
  "sensitive_markers = [''secret'', ''token'', ''password'', ''api_key'', ''private_key'', ''key'']"

definition sensitive_key :: "pystr \<Rightarrow> bool" where
  "sensitive_key k = list_ex (\<lambda>m. contains m (py_lower k)) sensitive_markers"

definition redacted_value :: json where
  "redacted_value = J_Str ''[REDACTED]''"

fun is_dict :: "json \<Rightarrow> bool" where
  "is_dict (J_Dict _) = True"
| "is_dict _ = False"

fun redact_field :: "json \<Rightarrow> json" where
  "redact_field (J_Dict kvs) =
     J_Dict (map (\<lambda>(k, v). (k, if sensitive_key k then redacted_value else redact_field v)) kvs)"
| "redact_field (J_List xs) = J_List (map (\<lambda>x. if is_dict x then redact_field x else x) xs)"
| "redact_field v = v"

definition redact_tool_arguments :: "(pystr \<times> json) list \<Rightarrow> json" where
  "redact_tool_arguments args = redact_field (J_Dict args)"

definition bounded_summary :: "nat \<Rightarrow> pystr \<Rightarrow> pystr" where
  "bounded_summary limit value =
     (if length value \<le> limit then value else take (limit - 14) value @ ''...[truncated]'')"

section \<open>Recording calls\<close>

record recorder =
  rc_client_id :: pystr
  rc_actor_id :: pystr
  rc_role :: pystr
  rc_run_id :: "pystr option"
  rc_task_id :: "pystr option"

definition valid_recorder :: "recorder \<Rightarrow> bool" where
  "valid_recorder r =
     (safe_identifier (rc_client_id r) \<and> safe_identifier (rc_actor_id r) \<and> safe_identifier (rc_role r)
      \<and> opt_all safe_identifier (rc_run_id r) \<and> opt_all safe_identifier (rc_task_id r))"

definition tool_event ::
    "recorder \<Rightarrow> event_status \<Rightarrow> pystr \<Rightarrow> pystr option \<Rightarrow> int \<Rightarrow> pystr \<Rightarrow> datetime \<Rightarrow> control_plane_event" where
  "tool_event r status summary digest seq eid t =
     \<lparr>event_id = eid, ev_sequence = seq, ev_created_at = t, ev_client_id = rc_client_id r,
      ev_client_label = None, ev_run_id = rc_run_id r, ev_task_id = rc_task_id r,
      ev_kind = (if status = Ev_Active then Tool_Call_Started else Tool_Call_Finished),
      ev_status = status, ev_actor = rc_actor_id r, ev_role = rc_role r,
      ev_evidence_digest = digest, ev_summary = summary\<rparr>"

definition next_event_sequence :: "(world, int) proc" where
  "next_event_sequence =
     andthen (list_control_plane_events None None) (\<lambda>es. ret (int (length es) + 1))"

definition emit_tool_event ::
    "recorder \<Rightarrow> event_status \<Rightarrow> pystr \<Rightarrow> pystr option \<Rightarrow> (world, control_plane_event) proc" where
  "emit_tool_event r status summary digest =
     andthen next_event_sequence (\<lambda>seq.
     andthen (build_event (tool_event r status summary digest seq)) (\<lambda>e.
     andthen (emit_event (Inl e)) (\<lambda>_. ret e)))"

definition record_started :: "recorder \<Rightarrow> pystr \<Rightarrow> (pystr \<times> json) list \<Rightarrow> (world, control_plane_event) proc" where
  "record_started r tool_name args =
     emit_tool_event r Ev_Active
       (''MCP tool '' @ tool_name @ '' started with args ''
        @ bounded_summary 360 (dumps_default (redact_tool_arguments args)) @ ''.'') None"

definition attributed_digest :: "(pystr \<times> json) list \<Rightarrow> exn + json" where
  "attributed_digest result =
     (case dict_get ''mcp_attribution'' result of
        None \<Rightarrow> Inr J_Null
      | Some (J_Dict d) \<Rightarrow> Inr (case dict_get ''evidence_digest'' d of None \<Rightarrow> J_Null | Some v \<Rightarrow> v)
      | Some _ \<Rightarrow> Inl (AttributeError ''get''))"

fun digest_field :: "json \<Rightarrow> exn + pystr option" where
  "digest_field J_Null = Inr None"
| "digest_field (J_Str s) = Inr (Some s)"
| "digest_field _ = Inl (ValidationError ''ControlPlaneEvent'')"

definition record_finished ::
    "recorder \<Rightarrow> pystr \<Rightarrow> (pystr \<times> json) list \<Rightarrow> pystr option \<Rightarrow> (world, control_plane_event) proc" where
  "record_finished r tool_name result evidence_digest =
     (let failed = (case dict_get ''isError'' result of None \<Rightarrow> False | Some v \<Rightarrow> json_truthy v);
          status = (if failed then Ev_Failed else Ev_Passed) in
      andthen (lift_result (if truthy evidence_digest then Inr (J_Str (the evidence_digest))
                            else attributed_digest result)) (\<lambda>v.
      andthen (lift_result (digest_field v)) (\<lambda>digest.
      emit_tool_event r status
        (''MCP tool '' @ tool_name @ '' '' @ (if failed then ''failed'' else ''finished'')
         @ ''; evidence_digest='' @ (if truthy digest then the digest else ''none'') @ ''.'') digest)))"

definition record_denied :: "recorder \<Rightarrow> pystr \<Rightarrow> pystr \<Rightarrow> (world, control_plane_event) proc" where
  "record_denied r tool_name reason =
     emit_tool_event r Ev_Blocked (''MCP tool '' @ tool_name @ '' denied: '' @ reason @ ''.'') None"

section \<open>Effects\<close>

context event_effects
begin

lemma emit_event: "obeys R (emit_event x)"
  unfolding emit_event_def by (rule ingest)

lemma emit_tool_event: "obeys R (emit_tool_event r s m d)"
  unfolding emit_tool_event_def next_event_sequence_def
  by (intro reads_effects list_control_plane_events build_event emit_event)

lemma recorder:
  "obeys R (record_started r n args)" "obeys R (record_finished r n result d)" "obeys R (record_denied r n reason)"
  unfolding record_started_def record_finished_def record_denied_def
  by (intro let_proc reads_effects emit_tool_event)+

end

end
