(* ===== verification/Json_Text.thy ===== *)
theory Json_Text
  imports Json
begin

text \<open>
  The other texts Python makes of a JSON value: \<open>json.dumps\<close> without \<open>sort_keys\<close> and with
  \<open>indent=2\<close>, and \<open>repr\<close> and \<open>str\<close>.
\<close>

section \<open>\<open>json.dumps\<close> in insertion order\<close>

fun dumps_plain :: "json \<Rightarrow> pystr" where
  "dumps_plain (J_List xs) = ''['' @ py_join '', '' (map dumps_plain xs) @ '']''"
| "dumps_plain (J_Dict kvs) =
     ''{'' @ py_join '', '' (map (\<lambda>(k, v). quote_text k @ '': '' @ dumps_plain v) kvs) @ ''}''"
| "dumps_plain v = dumps_default v"

section \<open>\<open>json.dumps\<close> with \<open>indent=2\<close>\<close>

text \<open>A line feed and two spaces for each level; empty lists and dicts stay on one line.\<close>

definition new_line :: "nat \<Rightarrow> pystr" where
  "new_line level = CHR 0x0A # replicate (2 * level) (CHR '' '')"

definition indent_block :: "nat \<Rightarrow> pystr \<Rightarrow> pystr \<Rightarrow> pystr list \<Rightarrow> pystr" where
  "indent_block level opening closing items =
     (if items = [] then opening @ closing
      else opening @ new_line (Suc level) @ py_join ('','' @ new_line (Suc level)) items
           @ new_line level @ closing)"

fun dumps_indent :: "bool \<Rightarrow> nat \<Rightarrow> json \<Rightarrow> pystr" where
  "dumps_indent sort_keys level (J_List xs) = indent_block level ''['' '']'' (map (dumps_indent sort_keys (Suc level)) xs)"
| "dumps_indent sort_keys level (J_Dict kvs) =
     (let items = map (\<lambda>(k, v). (k, quote_text k @ '': '' @ dumps_indent sort_keys (Suc level) v)) kvs in
      indent_block level ''{'' ''}'' (map snd (if sort_keys then sort_key fst items else items)))"
| "dumps_indent sort_keys level v = dumps_default v"

definition dumps_pretty :: "bool \<Rightarrow> json \<Rightarrow> pystr" where
  "dumps_pretty sort_keys v = dumps_indent sort_keys 0 v"

section \<open>\<open>repr\<close> and \<open>str\<close>\<close>

text \<open>
  A string is quoted with \<open>'\<close>, or with \<open>"\<close> when it holds a \<open>'\<close> and no \<open>"\<close>; the quote, the
  backslash and what is not printable are escaped.
\<close>

definition repr_quote :: "pystr \<Rightarrow> char" where
  "repr_quote s = (if CHR 0x27 \<in> set s \<and> CHR 0x22 \<notin> set s then CHR 0x22 else CHR 0x27)"

definition repr_char :: "char \<Rightarrow> char \<Rightarrow> pystr" where
  "repr_char q c =
     (let n = of_char c :: nat in
      if c = q \<or> c = CHR 0x5C then [CHR 0x5C, c]
      else if n = 9 then [CHR 0x5C, CHR ''t'']
      else if n = 10 then [CHR 0x5C, CHR ''n'']
      else if n = 13 then [CHR 0x5C, CHR ''r'']
      else if n < 32 \<or> (127 \<le> n \<and> n \<le> 160) \<or> n = 173
      then [CHR 0x5C, CHR ''x'', hex_digit (n div 16), hex_digit (n mod 16)]
      else [c])"

definition repr_text :: "pystr \<Rightarrow> pystr" where
  "repr_text s = (let q = repr_quote s in q # concat (map (repr_char q) s) @ [q])"

fun py_repr :: "json \<Rightarrow> pystr" where
  "py_repr J_Null = ''None''"
| "py_repr (J_Bool b) = (if b then ''True'' else ''False'')"
| "py_repr (J_Int i) = show_int i"
| "py_repr (J_Float r) = r"
| "py_repr (J_Str s) = repr_text s"
| "py_repr (J_List xs) = ''['' @ py_join '', '' (map py_repr xs) @ '']''"
| "py_repr (J_Dict kvs) = ''{'' @ py_join '', '' (map (\<lambda>(k, v). repr_text k @ '': '' @ py_repr v) kvs) @ ''}''"

definition py_str :: "json \<Rightarrow> pystr" where
  "py_str v = (case v of J_Str s \<Rightarrow> s | _ \<Rightarrow> py_repr v)"

lemma text_examples:
  "py_repr (J_List [J_Str ''it'', J_Null, J_Bool True]) = ''['' @ [CHR 0x27] @ ''it'' @ [CHR 0x27] @ '', None, True]''"
  "dumps_pretty True (J_Dict [(''b'', J_List []), (''a'', J_Int 1)]) =
     ''{'' @ new_line 1 @ quote_text ''a'' @ '': 1,'' @ new_line 1 @ quote_text ''b'' @ '': []'' @ new_line 0 @ ''}''"
  by code_simp+

section \<open>Reading values of unknown shape\<close>

text \<open>\<open>key in v\<close> and \<open>v[key]\<close>, and \<open>v.get(key)\<close>, which is \<open>None\<close> for a missing key.\<close>

fun json_in :: "pystr \<Rightarrow> json \<Rightarrow> exn + bool" where
  "json_in key (J_Dict kvs) = Inr (key \<in> set (map fst kvs))"
| "json_in key (J_List xs) = Inr (J_Str key \<in> set xs)"
| "json_in key (J_Str s) = Inr (contains key s)"
| "json_in key v = Inl (TypeError ''argument is not iterable'')"

fun json_at :: "pystr \<Rightarrow> json \<Rightarrow> exn + json" where
  "json_at key (J_Dict kvs) = (case dict_get key kvs of None \<Rightarrow> Inl (KeyError key) | Some v \<Rightarrow> Inr v)"
| "json_at key (J_List xs) = Inl (TypeError ''list indices must be integers or slices, not str'')"
| "json_at key (J_Str s) = Inl (TypeError ''string indices must be integers'')"
| "json_at key v = Inl (TypeError ''object is not subscriptable'')"

fun json_items :: "json \<Rightarrow> exn + (pystr \<times> json) list" where
  "json_items (J_Dict kvs) = Inr kvs"
| "json_items v = Inl (AttributeError ''items'')"

definition get_or_null :: "pystr \<Rightarrow> (pystr \<times> json) list \<Rightarrow> json" where
  "get_or_null key d = (case dict_get key d of None \<Rightarrow> J_Null | Some v \<Rightarrow> v)"

text \<open>\<open>a or b\<close> of two values.\<close>

definition json_or :: "json \<Rightarrow> json \<Rightarrow> json" where
  "json_or a b = (if json_truthy a then a else b)"

end
