(* ===== verification/Memory.thy ===== *)
theory Memory
  imports Json_Text Files
begin

text \<open>
  The retrospective memory (\<open>vad/memory\<close>): entries with a scope, a gateway that redacts what it
  stores, and the store that keeps its entries in a JSON file. The redactor is a parameter
  (\<open>redaction.py\<close> is two regular expressions), as are parsing JSON and decoding an entry
  (pydantic). The memory file is a canonical path.
\<close>

section \<open>Entries (\<open>contracts.py\<close>)\<close>

record memory_scope =
  sc_owner :: pystr
  sc_purpose :: pystr
  sc_max_payload_size :: int

record memory_entry =
  me_id :: pystr
  me_scope :: memory_scope
  me_content :: pystr
  me_metadata :: "(pystr \<times> json) list"

definition retrospective :: memory_scope where
  "retrospective = \<lparr>sc_owner = ''system'', sc_purpose = ''retrospective'', sc_max_payload_size = 8192\<rparr>"

definition entry_json :: "memory_entry \<Rightarrow> json" where
  "entry_json e = J_Dict
     [(''id'', J_Str (me_id e)),
      (''scope'', J_Dict [(''owner'', J_Str (sc_owner (me_scope e))), (''purpose'', J_Str (sc_purpose (me_scope e))),
         (''max_payload_size'', J_Int (sc_max_payload_size (me_scope e)))]),
      (''content'', J_Str (me_content e)), (''metadata'', J_Dict (me_metadata e))]"

definition same_scope :: "memory_scope \<Rightarrow> memory_scope \<Rightarrow> bool" where
  "same_scope a b = (sc_owner a = sc_owner b \<and> sc_purpose a = sc_purpose b)"

section \<open>The store (\<open>stores/local.py\<close>)\<close>

record memory_store =
  ms_entries :: "(pystr \<times> memory_entry) list"
  ms_file :: "path option"

type_synonym memory_site = "memory_store \<times> filesystem"

text \<open>What parses a text and decodes an entry: \<open>json.loads\<close> and \<open>MemoryEntry(**data)\<close>.\<close>

record memory_codec =
  mc_loads :: "pystr \<Rightarrow> exn + json"
  mc_decode :: "json \<Rightarrow> exn + memory_entry"

definition entries_text :: "(pystr \<times> memory_entry) list \<Rightarrow> pystr" where
  "entries_text es = dumps_pretty True (J_Dict (map (\<lambda>(k, e). (k, entry_json e)) es))"

fun decode_entries :: "memory_codec \<Rightarrow> (pystr \<times> json) list \<Rightarrow> exn + (pystr \<times> memory_entry) list" where
  "decode_entries c [] = Inr []"
| "decode_entries c ((k, v) # kvs) =
     (case mc_decode c v of Inl x \<Rightarrow> Inl x
      | Inr e \<Rightarrow> (case decode_entries c kvs of Inl x \<Rightarrow> Inl x | Inr es \<Rightarrow> Inr ((k, e) # es)))"

definition load_entries :: "memory_codec \<Rightarrow> path \<Rightarrow> (pystr \<times> memory_entry) list io" where
  "load_entries c file =
     andthen (read_text file) (\<lambda>t.
     andthen (lift_result (mc_loads c t)) (\<lambda>data.
     andthen (lift_result (json_items data)) (\<lambda>kvs.
     lift_result (decode_entries c kvs))))"

definition open_store :: "memory_codec \<Rightarrow> path option \<Rightarrow> memory_store io" where
  "open_store c file fs =
     (case file of
        None \<Rightarrow> (Inr \<lparr>ms_entries = [], ms_file = None\<rparr>, fs)
      | Some p \<Rightarrow>
          (if path_exists fs p
           then andthen (load_entries c p) (\<lambda>es. ret \<lparr>ms_entries = es, ms_file = Some p\<rparr>) fs
           else (Inr \<lparr>ms_entries = [], ms_file = Some p\<rparr>, fs)))"

definition on_file_system :: "'a io \<Rightarrow> (memory_site, 'a) proc" where
  "on_file_system m s = (case m (snd s) of (r, fs) \<Rightarrow> (r, (fst s, fs)))"

definition persist :: "(memory_site, unit) proc" where
  "persist s =
     (case ms_file (fst s) of
        None \<Rightarrow> (Inr (), s)
      | Some p \<Rightarrow>
          on_file_system (andthen (make_dirs (butlast p)) (\<lambda>_. write_text p (entries_text (ms_entries (fst s))))) s)"

definition save_entry :: "memory_entry \<Rightarrow> (memory_site, unit) proc" where
  "save_entry e =
     (if sc_max_payload_size (me_scope e) < int (length (utf8_encode (me_content e)))
      then throw (ValueError ''Payload size exceeds scope limit'')
      else andthen (writes (\<lambda>(m, fs). (m\<lparr>ms_entries := dict_set (me_id e) e (ms_entries m)\<rparr>, fs))) (\<lambda>_. persist))"

definition retrieve :: "pystr \<Rightarrow> memory_scope \<Rightarrow> memory_store \<Rightarrow> exn + memory_entry option" where
  "retrieve k scope m =
     (case dict_get k (ms_entries m) of
        None \<Rightarrow> Inr None
      | Some e \<Rightarrow> (if \<not> same_scope (me_scope e) scope then Inl (PermissionError ''Scope mismatch'') else Inr (Some e)))"

definition entries_by_scope :: "memory_scope \<Rightarrow> memory_store \<Rightarrow> memory_entry list" where
  "entries_by_scope scope m = filter (\<lambda>e. same_scope (me_scope e) scope) (map snd (ms_entries m))"

section \<open>The gateway (\<open>gateway.py\<close>)\<close>

definition store_memory :: "(pystr \<Rightarrow> pystr) \<Rightarrow> memory_entry \<Rightarrow> (memory_site, unit) proc" where
  "store_memory redactor e = save_entry (e\<lparr>me_content := redactor (me_content e)\<rparr>)"

section \<open>What a store keeps\<close>

text \<open>
  A saved entry is redacted, is read back within its scope, and leaves every other id alone; what
  is too large is refused before anything changes.
\<close>

lemma persist_entries: "persist s = (r, s') \<Longrightarrow> ms_entries (fst s') = ms_entries (fst s)"
  by (auto simp: persist_def on_file_system_def split: option.splits prod.splits)

lemma store_memory_entries:
  "store_memory redactor e s = (Inr (), s') \<Longrightarrow>
     ms_entries (fst s') = dict_set (me_id e) (e\<lparr>me_content := redactor (me_content e)\<rparr>) (ms_entries (fst s))"
  by (cases s) (auto simp: store_memory_def save_entry_def writes_def andthen_def throw_def
      split: if_splits dest!: persist_entries)

lemma store_memory_retrieve:
  assumes "store_memory redactor e s = (Inr (), s')"
  shows "retrieve (me_id e) scope (fst s') =
      (if same_scope (me_scope e) scope then Inr (Some (e\<lparr>me_content := redactor (me_content e)\<rparr>))
       else Inl (PermissionError ''Scope mismatch''))"
    and "k \<noteq> me_id e \<Longrightarrow> retrieve k scope (fst s') = retrieve k scope (fst s)"
  by (simp_all add: retrieve_def store_memory_entries [OF assms] dict_get_set)

lemma store_memory_too_large:
  "sc_max_payload_size (me_scope e) < int (length (utf8_encode (redactor (me_content e)))) \<Longrightarrow>
     store_memory redactor e s = (Inl (ValueError ''Payload size exceeds scope limit''), s)"
  by (simp add: store_memory_def save_entry_def throw_def)

end
