(* ===== verification/Feedback.thy ===== *)
theory Feedback
  imports Memory Ask
begin

text \<open>
  Feedback (\<open>vad/feedback\<close>): proposals drawn from incidents, releases and failures, the
  retrospective that stores them in memory, and the contract that approved proposals give.
\<close>

section \<open>Proposals (\<open>proposals.py\<close>)\<close>

datatype proposal_type =
    Add_Invariant | Strengthen_Invariant | Add_Proof_Obligation | Reduce_Autonomy | Restrict_Tool
  | Change_Model_Tier | Adjust_Budget | Add_Release_Gate

fun proposal_type_value :: "proposal_type \<Rightarrow> pystr" where
  "proposal_type_value Add_Invariant = ''add_invariant''"
| "proposal_type_value Strengthen_Invariant = ''strengthen_invariant''"
| "proposal_type_value Add_Proof_Obligation = ''add_proof_obligation''"
| "proposal_type_value Reduce_Autonomy = ''reduce_autonomy''"
| "proposal_type_value Restrict_Tool = ''restrict_tool''"
| "proposal_type_value Change_Model_Tier = ''change_model_tier''"
| "proposal_type_value Adjust_Budget = ''adjust_budget''"
| "proposal_type_value Add_Release_Gate = ''add_release_gate''"

record feedback_proposal =
  fp_proposal_type :: proposal_type
  fp_reason :: pystr
  fp_payload :: "(pystr \<times> json) list"
  fp_approved :: bool

definition proposal_json :: "feedback_proposal \<Rightarrow> json" where
  "proposal_json p = J_Dict
     [(''proposal_type'', J_Str (proposal_type_value (fp_proposal_type p))), (''reason'', J_Str (fp_reason p)),
      (''payload'', J_Dict (fp_payload p)), (''approved'', J_Bool (fp_approved p))]"

definition payload_or :: "feedback_proposal \<Rightarrow> pystr \<Rightarrow> json \<Rightarrow> json" where
  "payload_or p key v0 = (case dict_get key (fp_payload p) of None \<Rightarrow> v0 | Some v \<Rightarrow> v)"

text \<open>
  A contract under change, and whether all its texts are still texts: the payload may put any value
  into a list, which only the validation at the end refuses.
\<close>

record draft =
  dt_eip :: eip
  dt_texts_only :: bool

definition add_text :: "json \<Rightarrow> pystr list \<Rightarrow> pystr list" where
  "add_text v xs = (case v of J_Str s \<Rightarrow> if s \<in> set xs then xs else xs @ [s] | _ \<Rightarrow> xs)"

definition is_text :: "json \<Rightarrow> bool" where
  "is_text v = (case v of J_Str _ \<Rightarrow> True | _ \<Rightarrow> False)"

text \<open>
  \<open>getattr(eip.invariants, category)\<close>: the three lists, or another attribute of a pydantic
  model, whose \<open>append\<close> raises or does not touch the contract (\<open>foreign\<close>).
\<close>

definition apply_invariant ::
    "(pystr \<Rightarrow> json \<Rightarrow> exn + unit) \<Rightarrow> feedback_proposal \<Rightarrow> draft \<Rightarrow> exn + draft" where
  "apply_invariant foreign p d =
     (let description = payload_or p ''description'' (J_Str (fp_reason p));
          inv = eip_invariants (dt_eip d);
          put = (\<lambda>inv'. Inr \<lparr>dt_eip = (dt_eip d)\<lparr>eip_invariants := inv'\<rparr>,
                             dt_texts_only = (dt_texts_only d \<and> is_text description)\<rparr>) in
      case payload_or p ''category'' (J_Str ''functional'') of
        J_Str category \<Rightarrow>
          (if category = ''security'' then put (inv\<lparr>in_security := add_text description (in_security inv)\<rparr>)
           else if category = ''performance'' then put (inv\<lparr>in_performance := add_text description (in_performance inv)\<rparr>)
           else if category = ''functional'' then put (inv\<lparr>in_functional := add_text description (in_functional inv)\<rparr>)
           else (case foreign category description of Inl e \<Rightarrow> Inl e | Inr _ \<Rightarrow> Inr d))
      | _ \<Rightarrow> Inl (TypeError ''attribute name must be string''))"

definition obligation_id :: "nat \<Rightarrow> pystr" where
  "obligation_id i = ''po-'' @ show_nat i"

lemma obligation_id_inject [simp]: "obligation_id i = obligation_id j \<longleftrightarrow> i = j"
  by (simp add: obligation_id_def)

text \<open>The loop of \<open>_next_obligation_id\<close> ends: the ids of the set are finitely many.\<close>

definition ids_from :: "nat \<Rightarrow> pystr list \<Rightarrow> nat set" where
  "ids_from i ids = {j. i \<le> j \<and> obligation_id j \<in> set ids}"

lemma finite_ids_from [simp]: "finite (ids_from i ids)"
proof (rule finite_imageD)
  show "finite (obligation_id ` ids_from i ids)" by (rule finite_subset [of _ "set ids"]) (auto simp: ids_from_def)
  show "inj_on obligation_id (ids_from i ids)" by (simp add: inj_on_def)
qed

lemma card_ids_from: "obligation_id i \<in> set ids \<Longrightarrow> card (ids_from (Suc i) ids) < card (ids_from i ids)"
proof (rule psubset_card_mono)
  assume "obligation_id i \<in> set ids"
  then have "i \<in> ids_from i ids" "i \<notin> ids_from (Suc i) ids" "ids_from (Suc i) ids \<subseteq> ids_from i ids"
    by (auto simp: ids_from_def)
  then show "ids_from (Suc i) ids \<subset> ids_from i ids" by blast
qed simp

function next_id_from :: "nat \<Rightarrow> pystr list \<Rightarrow> pystr" where
  "next_id_from i ids = (if obligation_id i \<in> set ids then next_id_from (Suc i) ids else obligation_id i)"
  by pat_completeness auto
termination
  by (relation "measure (\<lambda>(i, ids). card (ids_from i ids))") (simp_all add: card_ids_from)

declare next_id_from.simps [simp del]

definition next_obligation_id :: "pystr list \<Rightarrow> pystr" where
  "next_obligation_id ids = next_id_from 1 ids"

lemma next_id_from_new: "next_id_from i ids \<notin> set ids"
  by (induction i ids rule: next_id_from.induct) (subst next_id_from.simps, simp)

text \<open>
  The id of a proposal: hashing a list or a dict raises, any other value that is not a text is
  refused by \<open>ProofObligation\<close>.
\<close>

definition proposal_id_of :: "feedback_proposal \<Rightarrow> pystr list \<Rightarrow> exn + pystr" where
  "proposal_id_of p existing =
     (let v = payload_or p ''id'' J_Null in
      if \<not> json_truthy v then Inr (next_obligation_id existing)
      else case v of
             J_Str s \<Rightarrow> Inr s
           | J_List _ \<Rightarrow> Inl (TypeError ''unhashable type: list'')
           | J_Dict _ \<Rightarrow> Inl (TypeError ''unhashable type: dict'')
           | _ \<Rightarrow> Inl (ValidationError ''ProofObligation''))"

definition apply_proof_obligation :: "feedback_proposal \<Rightarrow> draft \<Rightarrow> exn + draft" where
  "apply_proof_obligation p d =
     (let os = eip_proof_obligations (dt_eip d) in
      case proposal_id_of p (map po_id os) of Inl e \<Rightarrow> Inl e
      | Inr k \<Rightarrow>
          (if k \<in> set (map po_id os) then Inr d
           else case (payload_or p ''kind'' (J_Str ''unit''), payload_or p ''description'' (J_Str (fp_reason p))) of
                  (J_Str kind, J_Str description) \<Rightarrow>
                    (case parse_proof_kind kind of Inl e \<Rightarrow> Inl e
                     | Inr pk \<Rightarrow> Inr (d\<lparr>dt_eip := (dt_eip d)\<lparr>eip_proof_obligations :=
                          os @ [\<lparr>po_id = k, po_kind = pk, po_description = description\<rparr>]\<rparr>\<rparr>))
                | _ \<Rightarrow> Inl (ValidationError ''ProofObligation'')))"

definition apply_proposal_to ::
    "(pystr \<Rightarrow> json \<Rightarrow> exn + unit) \<Rightarrow> feedback_proposal \<Rightarrow> draft \<Rightarrow> exn + draft" where
  "apply_proposal_to foreign p d =
     (if \<not> fp_approved p then Inr d
      else if fp_proposal_type p \<in> {Add_Invariant, Strengthen_Invariant} then apply_invariant foreign p d
      else if fp_proposal_type p = Add_Proof_Obligation then apply_proof_obligation p d
      else Inr d)"

fun apply_proposals ::
    "(pystr \<Rightarrow> json \<Rightarrow> exn + unit) \<Rightarrow> feedback_proposal list \<Rightarrow> draft \<Rightarrow> exn + draft" where
  "apply_proposals foreign [] d = Inr d"
| "apply_proposals foreign (p # ps) d =
     (case apply_proposal_to foreign p d of Inl e \<Rightarrow> Inl e | Inr d' \<Rightarrow> apply_proposals foreign ps d')"

definition apply_approved_proposals ::
    "(pystr \<Rightarrow> json \<Rightarrow> exn + unit) \<Rightarrow> eip \<Rightarrow> feedback_proposal list \<Rightarrow> exn + eip" where
  "apply_approved_proposals foreign e proposals =
     (case apply_proposals foreign proposals \<lparr>dt_eip = e, dt_texts_only = True\<rparr> of Inl x \<Rightarrow> Inl x
      | Inr d \<Rightarrow> (if dt_texts_only d then parse_eip (dt_eip d) else Inl (ValidationError ''EIP'')))"

section \<open>What approved proposals change\<close>

lemma parse_proof_kind_Inr: "parse_proof_kind v = Inr k \<longleftrightarrow> proof_kind_value k = v"
  by (cases k) (auto simp: parse_proof_kind_def split: if_splits option.splits)

text \<open>The contract with longer lists of invariants and obligations.\<close>

definition extends :: "eip \<Rightarrow> eip \<Rightarrow> bool" where
  "extends e e' =
     (e' = e\<lparr>eip_invariants := eip_invariants e', eip_proof_obligations := eip_proof_obligations e'\<rparr>
      \<and> is_prefix_of (in_security (eip_invariants e)) (in_security (eip_invariants e'))
      \<and> is_prefix_of (in_performance (eip_invariants e)) (in_performance (eip_invariants e'))
      \<and> is_prefix_of (in_functional (eip_invariants e)) (in_functional (eip_invariants e'))
      \<and> is_prefix_of (eip_proof_obligations e) (eip_proof_obligations e'))"

definition obligation_ids :: "eip \<Rightarrow> pystr list" where
  "obligation_ids e = map po_id (eip_proof_obligations e)"

definition invariant_texts :: "pystr \<Rightarrow> eip \<Rightarrow> pystr list" where
  "invariant_texts c e =
     (if c = ''security'' then in_security (eip_invariants e)
      else if c = ''performance'' then in_performance (eip_invariants e) else in_functional (eip_invariants e))"

text \<open>The contract has what an approved proposal asks for.\<close>

definition honours :: "eip \<Rightarrow> feedback_proposal \<Rightarrow> bool" where
  "honours e p =
     (let description = payload_or p ''description'' (J_Str (fp_reason p)) in
      if fp_proposal_type p \<in> {Add_Invariant, Strengthen_Invariant}
      then (\<exists>c. payload_or p ''category'' (J_Str ''functional'') = J_Str c
              \<and> (c \<in> {''security'', ''performance'', ''functional''}
                   \<longrightarrow> (\<exists>t. description = J_Str t \<and> t \<in> set (invariant_texts c e))))
      else if fp_proposal_type p = Add_Proof_Obligation
      then (if json_truthy (payload_or p ''id'' J_Null)
            then (\<exists>k \<in> set (obligation_ids e). payload_or p ''id'' J_Null = J_Str k)
            else (\<exists>o' \<in> set (eip_proof_obligations e). J_Str (po_description o') = description
                    \<and> J_Str (proof_kind_value (po_kind o')) = payload_or p ''kind'' (J_Str ''unit'')))
      else True)"

lemma prefix_of_iff: "is_prefix_of xs ys \<longleftrightarrow> (\<exists>zs. ys = xs @ zs)"
  by (induction xs ys rule: is_prefix_of.induct) auto

lemma extends_refl [simp]: "extends e e"
  by (auto simp: extends_def prefix_of_iff)

lemma extends_trans: "extends e e' \<Longrightarrow> extends e' e'' \<Longrightarrow> extends e e''"
  by (cases e; cases e'; cases e'') (auto simp: extends_def prefix_of_iff)

lemma extends_sets:
  assumes "extends e e'"
  shows "set (invariant_texts c e) \<subseteq> set (invariant_texts c e')"
    "set (eip_proof_obligations e) \<subseteq> set (eip_proof_obligations e')" "set (obligation_ids e) \<subseteq> set (obligation_ids e')"
  using assms unfolding extends_def prefix_of_iff obligation_ids_def invariant_texts_def by auto

lemma honours_mono:
  assumes "extends e e'" "honours e p"
  shows "honours e' p"
  using assms(2) extends_sets [OF assms(1)]
  unfolding honours_def Let_def by (auto split: if_splits)

lemma set_add_text: "set (add_text (J_Str s) xs) = insert s (set xs)" and prefix_add_text: "is_prefix_of xs (add_text v xs)"
  by (auto simp: add_text_def prefix_of_iff split: json.splits)

lemma prefix_refl [simp]: "is_prefix_of xs xs"
  by (simp add: prefix_of_iff)

lemma apply_invariant_category:
  assumes "apply_invariant foreign p d = Inr d'"
  obtains c where "payload_or p ''category'' (J_Str ''functional'') = J_Str c"
  using assms by (cases "payload_or p ''category'' (J_Str ''functional'')") (auto simp: apply_invariant_def Let_def)

lemma apply_invariant_Inr:
  assumes "apply_invariant foreign p d = Inr d'"
  shows "extends (dt_eip d) (dt_eip d')" "obligation_ids (dt_eip d') = obligation_ids (dt_eip d)"
    "dt_texts_only d' \<Longrightarrow> dt_texts_only d"
    "fp_proposal_type p \<in> {Add_Invariant, Strengthen_Invariant} \<Longrightarrow> dt_texts_only d'
       \<Longrightarrow> honours (dt_eip d') p"
proof -
  obtain c where c: "payload_or p ''category'' (J_Str ''functional'') = J_Str c"
    using apply_invariant_category [OF assms] .
  show "extends (dt_eip d) (dt_eip d')" "obligation_ids (dt_eip d') = obligation_ids (dt_eip d)"
    "dt_texts_only d' \<Longrightarrow> dt_texts_only d"
    using assms by (auto simp: apply_invariant_def Let_def c extends_def obligation_ids_def prefix_add_text
        split: if_splits sum.splits)
  show "honours (dt_eip d') p"
    if "fp_proposal_type p \<in> {Add_Invariant, Strengthen_Invariant}" "dt_texts_only d'"
    using assms that
    by (cases "payload_or p ''description'' (J_Str (fp_reason p))")
      (auto simp: apply_invariant_def Let_def c honours_def invariant_texts_def set_add_text is_text_def
        split: if_splits sum.splits)
qed

lemma apply_proof_obligation_Inr:
  assumes "apply_proof_obligation p d = Inr d'"
  shows "extends (dt_eip d) (dt_eip d')" "dt_texts_only d' = dt_texts_only d"
    "distinct (obligation_ids (dt_eip d)) \<Longrightarrow> distinct (obligation_ids (dt_eip d'))"
    "fp_proposal_type p = Add_Proof_Obligation \<Longrightarrow> honours (dt_eip d') p"
proof -
  obtain k where k: "proposal_id_of p (obligation_ids (dt_eip d)) = Inr k"
    using assms by (auto simp: apply_proof_obligation_def Let_def obligation_ids_def split: sum.splits)
  show "extends (dt_eip d) (dt_eip d')" "dt_texts_only d' = dt_texts_only d"
    "distinct (obligation_ids (dt_eip d)) \<Longrightarrow> distinct (obligation_ids (dt_eip d'))"
    using assms k by (auto simp: apply_proof_obligation_def obligation_ids_def extends_def prefix_of_iff Let_def
        split: if_splits json.splits sum.splits)
  show "honours (dt_eip d') p" if "fp_proposal_type p = Add_Proof_Obligation"
  proof (cases "json_truthy (payload_or p ''id'' J_Null)")
    case True
    with k have "payload_or p ''id'' J_Null = J_Str k"
      by (cases "payload_or p ''id'' J_Null") (auto simp: proposal_id_of_def Let_def)
    moreover have "k \<in> set (obligation_ids (dt_eip d'))"
      using assms k by (auto simp: apply_proof_obligation_def obligation_ids_def Let_def
          split: if_splits json.splits sum.splits)
    ultimately show ?thesis using that True by (simp add: honours_def)
  next
    case False
    with k have new: "k \<notin> set (obligation_ids (dt_eip d))"
      using next_id_from_new by (auto simp: proposal_id_of_def next_obligation_id_def Let_def)
    show ?thesis
      using assms k new that False
      by (cases "payload_or p ''description'' (J_Str (fp_reason p))"; cases "payload_or p ''kind'' (J_Str ''unit'')")
        (auto simp: apply_proof_obligation_def obligation_ids_def honours_def Let_def parse_proof_kind_Inr
          split: sum.splits)
  qed
qed

definition step_ok :: "draft \<Rightarrow> draft \<Rightarrow> bool" where
  "step_ok d d' =
     (extends (dt_eip d) (dt_eip d') \<and> (dt_texts_only d' \<longrightarrow> dt_texts_only d)
      \<and> (distinct (obligation_ids (dt_eip d)) \<longrightarrow> distinct (obligation_ids (dt_eip d'))))"

lemma step_ok_refl [simp]: "step_ok d d"
  by (simp add: step_ok_def)

lemma step_ok_trans: "step_ok d d' \<Longrightarrow> step_ok d' d'' \<Longrightarrow> step_ok d d''"
  unfolding step_ok_def by (meson extends_trans)

lemma apply_proposal_to_Inr:
  assumes "apply_proposal_to foreign p d = Inr d'"
  shows "step_ok d d'" "fp_approved p \<Longrightarrow> dt_texts_only d' \<Longrightarrow> honours (dt_eip d') p"
proof -
  consider (skip) "\<not> fp_approved p" "d' = d"
    | (inv) "fp_proposal_type p \<in> {Add_Invariant, Strengthen_Invariant}" "apply_invariant foreign p d = Inr d'"
    | (po) "fp_proposal_type p = Add_Proof_Obligation" "apply_proof_obligation p d = Inr d'"
    | (other) "fp_proposal_type p \<notin> {Add_Invariant, Strengthen_Invariant, Add_Proof_Obligation}" "d' = d"
    using assms by (auto simp: apply_proposal_to_def split: if_splits)
  then have "step_ok d d' \<and> (fp_approved p \<longrightarrow> dt_texts_only d' \<longrightarrow> honours (dt_eip d') p)"
  proof cases
    case inv
    then show ?thesis using apply_invariant_Inr [OF inv(2)] by (auto simp: step_ok_def)
  next
    case po
    then show ?thesis using apply_proof_obligation_Inr [OF po(2)] by (auto simp: step_ok_def)
  next
    case other
    then show ?thesis by (auto simp: honours_def)
  qed simp
  then show "step_ok d d'" "fp_approved p \<Longrightarrow> dt_texts_only d' \<Longrightarrow> honours (dt_eip d') p" by auto
qed

lemma apply_proposals_Inr:
  "apply_proposals foreign ps d = Inr d' \<Longrightarrow>
     step_ok d d' \<and> (dt_texts_only d' \<longrightarrow> (\<forall>p \<in> set ps. fp_approved p \<longrightarrow> honours (dt_eip d') p))"
proof (induction ps arbitrary: d)
  case (Cons p ps)
  then obtain d1 where d1: "apply_proposal_to foreign p d = Inr d1" "apply_proposals foreign ps d1 = Inr d'"
    by (auto split: sum.splits)
  note rest = Cons.IH [OF d1(2)] and first = apply_proposal_to_Inr [OF d1(1)]
  have "dt_texts_only d' \<Longrightarrow> fp_approved p \<Longrightarrow> honours (dt_eip d') p"
    using rest first(2) honours_mono [of "dt_eip d1" "dt_eip d'" p] by (auto simp: step_ok_def)
  with rest step_ok_trans [OF first(1)] show ?case by auto
qed simp

lemma apply_proposals_filter: "apply_proposals foreign (filter fp_approved ps) d = apply_proposals foreign ps d"
  by (induction ps arbitrary: d) (auto simp: apply_proposal_to_def split: sum.splits)


definition demo_feedback :: "bool \<Rightarrow> feedback_proposal list" where
  "demo_feedback approved =
     [\<lparr>fp_proposal_type = Add_Proof_Obligation, fp_reason = ''again'', fp_payload = [(''kind'', J_Str ''property'')],
       fp_approved = True\<rparr>,
      \<lparr>fp_proposal_type = Add_Invariant, fp_reason = ''never again'', fp_payload = [], fp_approved = approved\<rparr>]"


section \<open>The analyzer (\<open>analyzer.py\<close>)\<close>

record incident =
  ic_issue_type :: pystr
  ic_severity :: pystr
  ic_description :: pystr

record feedback_record =
  fr_source :: pystr
  fr_data :: json

record feedback_analyzer =
  fz_incidents :: "incident list"
  fz_feedback_records :: "feedback_record list"

definition log_incident :: "incident \<Rightarrow> feedback_analyzer \<Rightarrow> feedback_analyzer" where
  "log_incident i a = a\<lparr>fz_incidents := fz_incidents a @ [i]\<rparr>"

definition generate_feedback_record ::
    "pystr \<Rightarrow> json \<Rightarrow> feedback_analyzer \<Rightarrow> feedback_record \<times> feedback_analyzer" where
  "generate_feedback_record source data a =
     (let r = \<lparr>fr_source = source, fr_data = data\<rparr> in (r, a\<lparr>fz_feedback_records := fz_feedback_records a @ [r]\<rparr>))"

definition issue_counts :: "incident list \<Rightarrow> (pystr \<times> nat) list" where
  "issue_counts is =
     fold (\<lambda>i d. dict_set (ic_issue_type i)
        (Suc (case dict_get (ic_issue_type i) d of None \<Rightarrow> 0 | Some n \<Rightarrow> n)) d) is []"

definition slo_drift :: "feedback_record \<Rightarrow> bool" where
  "slo_drift r = (case fr_data r of J_Dict d \<Rightarrow> json_truthy (get_or_null ''slo_drift'' d) | _ \<Rightarrow> False)"

definition propose_invariant_updates :: "feedback_analyzer \<Rightarrow> pystr list" where
  "propose_invariant_updates a =
     map (\<lambda>(issue, n). ''Proposed Invariant: Ensure system is resilient to '' @ [CHR 0x27] @ issue @ [CHR 0x27]
           @ '' (seen '' @ show_nat n @ '' times).'')
       (filter (\<lambda>(issue, n). 3 \<le> n) (issue_counts (fz_incidents a)))
     @ map (\<lambda>r. ''Proposed Invariant: Adjust resource allocation to prevent SLO drift.'')
         (filter slo_drift (fz_feedback_records a))"

text \<open>The counts are those of the incidents.\<close>

lemma issue_counts_get:
  "dict_get k (issue_counts is) =
     (case length (filter (\<lambda>i. ic_issue_type i = k) is) of 0 \<Rightarrow> None | Suc n \<Rightarrow> Some (Suc n))"
proof -
  let ?step = "\<lambda>i d. dict_set (ic_issue_type i)
        (Suc (case dict_get (ic_issue_type i) d of None \<Rightarrow> 0 | Some n \<Rightarrow> n)) d"
  let ?count = "\<lambda>d. case dict_get k d of None \<Rightarrow> 0 | Some n \<Rightarrow> n"
  let ?hits = "\<lambda>is. length (filter (\<lambda>i. ic_issue_type i = k) is)"
  have "dict_get k (fold ?step is d) = (if ?hits is = 0 then dict_get k d else Some (?count d + ?hits is))" for d
    by (induction "is" arbitrary: d) (auto simp: dict_get_set split: option.splits)
  from this [of "[]"] show ?thesis
    by (auto simp: issue_counts_def dict_get_def split: nat.splits)
qed

definition metric_of_error :: "pystr \<Rightarrow> pystr" where
  "metric_of_error error =
     (let parts = py_split (CHR 0x27) error in
      if 3 \<le> length parts \<and> py_strip (parts ! 1) \<noteq> [] then parts ! 1 else ''release_health'')"

definition proposals_from_release_outcome :: "(pystr \<times> json) list \<Rightarrow> feedback_proposal list" where
  "proposals_from_release_outcome outcome =
     (if get_or_null ''decision'' outcome \<noteq> J_Str ''failed'' then []
      else (let error = (case dict_get ''error'' outcome of None \<Rightarrow> [] | Some v \<Rightarrow> py_str v);
                lowered = py_lower error in
        if contains ''missing telemetry'' lowered
        then [\<lparr>fp_proposal_type = Add_Proof_Obligation,
               fp_reason = ''Release failed because telemetry evidence was missing.'',
               fp_payload = [(''kind'', J_Str ''telemetry''),
                 (''description'', J_Str ''Prove release telemetry is integrated before promotion.'')],
               fp_approved = False\<rparr>]
        else if contains ''rollback triggered'' lowered
        then (let metric = metric_of_error error in
          [\<lparr>fp_proposal_type = Add_Release_Gate,
            fp_reason = ''Rollback outcome should become an explicit release gate.'',
            fp_payload = [(''metric'', J_Str metric),
              (''description'', J_Str (''Gate release promotion on '' @ metric @ '' telemetry.''))],
            fp_approved = False\<rparr>])
        else []))"

definition propose_release_updates :: "(pystr \<times> json) list \<Rightarrow> feedback_proposal list" where
  "propose_release_updates outcome = proposals_from_release_outcome outcome"

section \<open>The retrospective (\<open>retro.py\<close>)\<close>

definition has_repeated_failure :: "pystr list \<Rightarrow> bool" where
  "has_repeated_failure failures =
     (let normalized = filter (\<lambda>f. f \<noteq> []) (map py_strip failures) in
      length normalized \<noteq> length (remdups normalized))"

text \<open>\<open>failure.lower()\<close> of a failure that is not a text raises.\<close>

fun lower_failure :: "json \<Rightarrow> exn + pystr" where
  "lower_failure (J_Str s) = Inr (py_lower s)"
| "lower_failure v = Inl (AttributeError ''lower'')"

definition proposals_from_lowered :: "pystr list \<Rightarrow> feedback_proposal list" where
  "proposals_from_lowered lowered =
     (if has_repeated_failure lowered
      then [\<lparr>fp_proposal_type = Add_Proof_Obligation,
             fp_reason = ''Repeated failure requires executable proof coverage.'',
             fp_payload = [(''kind'', J_Str ''unit''), (''description'', J_Str ''Cover repeated failure mode.'')],
             fp_approved = False\<rparr>,
            \<lparr>fp_proposal_type = Add_Invariant,
             fp_reason = ''Repeated failure should become an explicit invariant.'',
             fp_payload = [(''category'', J_Str ''functional''),
               (''description'', J_Str ''Repeated failure mode must not recur.'')],
             fp_approved = False\<rparr>] else [])
     @ (if list_ex (\<lambda>f. list_ex (\<lambda>w. contains w f) [''policy'', ''denial'', ''denied'']) lowered
        then [\<lparr>fp_proposal_type = Restrict_Tool,
               fp_reason = ''Policy denial indicates the allowed tool surface should be tightened.'',
               fp_payload = [(''restriction'', J_Str ''review denied capability before reuse'')],
               fp_approved = False\<rparr>] else [])
     @ (if list_ex (\<lambda>f. list_ex (\<lambda>w. contains w f) [''loop'', ''exhaust'', ''budget'']) lowered
        then [\<lparr>fp_proposal_type = Adjust_Budget,
               fp_reason = ''Loop or budget exhaustion requires revised execution bounds.'',
               fp_payload = [(''budget'', J_Str ''review loop depth and token budget'')],
               fp_approved = False\<rparr>] else [])"

definition proposals_from_failures :: "json list \<Rightarrow> exn + feedback_proposal list" where
  "proposals_from_failures failures =
     (case parse_all lower_failure failures of Inl e \<Rightarrow> Inl e | Inr ls \<Rightarrow> Inr (proposals_from_lowered ls))"

definition step_failures :: "json \<Rightarrow> exn + json list" where
  "step_failures step =
     (case step of
        J_Dict d \<Rightarrow>
          Inr (if get_or_null ''status'' d \<noteq> J_Str ''failure'' then []
               else concat (map (\<lambda>k. case dict_get k d of None \<Rightarrow> [] | Some v \<Rightarrow> [v])
                      [''error'', ''policy_denial'', ''loop_exhaustion'']))
      | _ \<Rightarrow> Inl (AttributeError ''get''))"

text \<open>\<open>key in data and isinstance(data[key], list)\<close>, and then the list.\<close>

definition list_under :: "pystr \<Rightarrow> json \<Rightarrow> exn + json list" where
  "list_under key data =
     (case json_in key data of Inl e \<Rightarrow> Inl e | Inr False \<Rightarrow> Inr []
      | Inr True \<Rightarrow> (case json_at key data of Inl e \<Rightarrow> Inl e
          | Inr v \<Rightarrow> Inr (case v of J_List xs \<Rightarrow> xs | _ \<Rightarrow> [])))"

definition failures_of :: "json \<Rightarrow> exn + json list" where
  "failures_of data =
     (case list_under ''failures'' data of Inl e \<Rightarrow> Inl e
      | Inr failures \<Rightarrow>
          (case list_under ''steps'' data of Inl e \<Rightarrow> Inl e
           | Inr steps \<Rightarrow> (case parse_all step_failures steps of Inl e \<Rightarrow> Inl e
               | Inr found \<Rightarrow> Inr (failures @ concat found))))"

definition learning_summary :: "json list \<Rightarrow> pystr" where
  "learning_summary failures =
     ''Analyzed bundle. Extracted '' @ show_nat (length failures) @ '' failure modes: '' @ py_repr (J_List failures)"

definition learning_json :: "json list \<Rightarrow> feedback_proposal list \<Rightarrow> (pystr \<times> json) list" where
  "learning_json failures proposals =
     [(''failures'', J_List failures), (''learning'', J_Str (learning_summary failures)),
      (''proposals'', J_List (map proposal_json proposals))]"

definition retro_entry :: "pystr \<Rightarrow> pystr \<Rightarrow> memory_entry" where
  "retro_entry entry_id content =
     \<lparr>me_id = entry_id, me_scope = retrospective, me_content = content, me_metadata = []\<rparr>"

definition retro_analyze ::
    "(pystr \<Rightarrow> pystr) \<Rightarrow> pystr \<Rightarrow> json \<Rightarrow> (memory_site, (pystr \<times> json) list) proc" where
  "retro_analyze redactor entry_id data =
     andthen (lift_result (failures_of data)) (\<lambda>failures.
     andthen (lift_result (proposals_from_failures failures)) (\<lambda>proposals.
     let learning = learning_json failures proposals in
     andthen (store_memory redactor (retro_entry entry_id (dumps_plain (J_Dict learning)))) (\<lambda>_.
     ret (learning @ [(''entry_id'', J_Str entry_id)]))))"

text \<open>
  An analysis that answers has stored its learning, redacted, under the retrospective scope; no
  proposal it makes is approved, so none changes a contract by itself.
\<close>

lemma has_repeated_failure_iff:
  "has_repeated_failure failures \<longleftrightarrow> \<not> distinct (filter (\<lambda>f. f \<noteq> []) (map py_strip failures))"
  unfolding has_repeated_failure_def Let_def by (metis length_remdups_eq remdups_id_iff_distinct)

lemma proposals_unapproved:
  "p \<in> set (proposals_from_lowered ls) \<Longrightarrow> \<not> fp_approved p"
  "p \<in> set (proposals_from_release_outcome outcome) \<Longrightarrow> \<not> fp_approved p"
  by (auto simp: proposals_from_lowered_def proposals_from_release_outcome_def Let_def split: if_splits)

lemma retro_analyze_stored:
  assumes "retro_analyze redactor k data s = (Inr answer, s')"
  shows "\<exists>learning. answer = learning @ [(''entry_id'', J_Str k)]
    \<and> retrieve k retrospective (fst s')
        = Inr (Some (retro_entry k (redactor (dumps_plain (J_Dict learning)))))"
proof -
  obtain failures proposals where f: "failures_of data = Inr failures" "proposals_from_failures failures = Inr proposals"
    using assms by (auto simp: retro_analyze_def simp del: dumps_plain.simps split: sum.splits)
  let ?l = "learning_json failures proposals"
  from assms f have "store_memory redactor (retro_entry k (dumps_plain (J_Dict ?l))) s = (Inr (), s')"
    "answer = ?l @ [(''entry_id'', J_Str k)]"
    by (auto simp: retro_analyze_def Let_def simp del: dumps_plain.simps elim!: andthen_InrE)
  then show ?thesis
    using store_memory_retrieve(1) [of redactor "retro_entry k (dumps_plain (J_Dict ?l))" s s' retrospective]
    by (auto simp: retro_entry_def same_scope_def)
qed

end
