(* ===== verification/Mcp_Adapter.thy ===== *)
theory Mcp_Adapter
  imports Mcp_Gateway Repo_Tools Diff_Apply Verify_Runner Feedback Signing Swarm
begin

text \<open>
  The MCP server (\<open>vad/adapters/mcp.py\<close>): JSON-RPC requests, the authorisation and recording of
  tool calls, and the thirteen tools. The state is the world of the control plane with the file
  system. What is outside of the package is the environment: parsers (\<open>json.loads\<close>, YAML),
  decoding by pydantic, starting processes, the policy engine, hashes, the redactor, and the text of
  a traceback. A call names its ledger with \<open>control_plane_db\<close>; the model has one ledger.
\<close>

section \<open>The environment\<close>

record mcp_env =
  en_cwd :: path
  en_json :: "pystr \<Rightarrow> exn + json"
  en_yaml :: "pystr \<Rightarrow> exn + json"
  en_eip :: "json \<Rightarrow> exn + eip"
  en_plan :: "json \<Rightarrow> exn + proof_plan"
  en_envelope :: "json \<Rightarrow> exn + signature_envelope"
  en_entry :: "json \<Rightarrow> exn + memory_entry"
  en_swarm :: "json \<Rightarrow> exn + pystr \<times> swarm_task list \<times> swarm_message list"
  en_memory_file :: "path option"
  en_redactor :: "pystr \<Rightarrow> pystr"
  en_engine :: engine
  en_spawn :: spawn
  en_walk :: "path \<Rightarrow> path list"
  en_crypto :: crypto
  en_sha256_bytes :: "pystr \<Rightarrow> pystr"
  en_cost :: "int \<Rightarrow> int \<Rightarrow> pystr"
  en_traceback :: "exn \<Rightarrow> pystr"

type_synonym tool_args = "(pystr \<times> json) list"

type_synonym tool_result = "(pystr \<times> json) list"

text \<open>\<open>try: ... except Exception as e: ...\<close>\<close>

definition catching :: "('s, 'a) proc \<Rightarrow> (exn \<Rightarrow> 'a) \<Rightarrow> ('s, 'a) proc" where
  "catching m h s = (case m s of (Inl e, s') \<Rightarrow> (Inr (h e), s') | (Inr x, s') \<Rightarrow> (Inr x, s'))"

section \<open>Results\<close>

definition text_result :: "pystr \<Rightarrow> tool_result" where
  "text_result t = [(''content'', J_List [J_Dict [(''type'', J_Str ''text''), (''text'', J_Str t)]])]"

definition error_text :: "pystr \<Rightarrow> tool_result" where
  "error_text t = text_result t @ [(''isError'', J_Bool True)]"

definition json_result :: "json \<Rightarrow> tool_result" where
  "json_result payload = text_result (dumps_pretty True payload)"

definition error_result :: "pystr \<Rightarrow> json option \<Rightarrow> tool_result" where
  "error_result message payload =
     error_text (case payload of None \<Rightarrow> message | Some p \<Rightarrow> message @ [CHR 0x0A] @ dumps_pretty True p)"

definition policy_denied_result :: "pystr \<Rightarrow> pystr \<Rightarrow> tool_result" where
  "policy_denied_result tool_name reason =
     error_result (''MCP tool policy denied: '' @ tool_name) (Some (J_Dict [(''reason'', J_Str reason)]))"

definition is_error :: "tool_result \<Rightarrow> bool" where
  "is_error r = (case dict_get ''isError'' r of None \<Rightarrow> False | Some v \<Rightarrow> json_truthy v)"

text \<open>\<open>_extract_evidence_digest\<close>: any failure on the way is \<open>None\<close>.\<close>

definition extract_evidence_digest :: "mcp_env \<Rightarrow> tool_result \<Rightarrow> json" where
  "extract_evidence_digest env r =
     (case dict_get ''content'' r of
        Some (J_List (J_Dict c # _)) \<Rightarrow>
          (case dict_get ''text'' c of
             Some (J_Str t) \<Rightarrow>
               (case en_json env t of
                  Inr (J_Dict p) \<Rightarrow> json_or (get_or_null ''evidence_hash'' p) (get_or_null ''payload_digest'' p)
                | _ \<Rightarrow> J_Null)
           | _ \<Rightarrow> J_Null)
      | _ \<Rightarrow> J_Null)"

definition attribution :: "mcp_env \<Rightarrow> tool_result \<Rightarrow> pystr \<Rightarrow> tool_args \<Rightarrow> json" where
  "attribution env r tool_name args =
     (let failed = is_error r; digest = get_or_null ''evidence_digest'' args in
      J_Dict [(''event'', J_Str ''mcp_tool_call''), (''tool'', J_Str tool_name),
        (''client_id'', get_or_null ''client_id'' args), (''actor_id'', get_or_null ''actor_id'' args),
        (''run_id'', get_or_null ''run_id'' args),
        (''evidence_digest'', if digest = J_Null then extract_evidence_digest env r else digest),
        (''policy_decision'', J_Dict
           [(''allow'', J_Bool (\<not> failed)),
            (''reasons'', J_List (if failed then [] else [J_Str ''MCP tool call completed''])),
            (''denials'', J_List (if failed then [J_Str (''MCP tool call denied or failed: '' @ tool_name)] else [])),
            (''requires_human'', J_Bool False)])])"

definition with_mcp_attribution :: "mcp_env \<Rightarrow> tool_result \<Rightarrow> pystr \<Rightarrow> tool_args \<Rightarrow> tool_result" where
  "with_mcp_attribution env r tool_name args = dict_set ''mcp_attribution'' (attribution env r tool_name args) r"

section \<open>Who calls\<close>

definition text_field :: "pystr \<Rightarrow> json \<Rightarrow> exn + pystr" where
  "text_field model v = (case v of J_Str s \<Rightarrow> Inr s | _ \<Rightarrow> Inl (ValidationError model))"

definition optional_text :: "pystr \<Rightarrow> json \<Rightarrow> exn + pystr option" where
  "optional_text model v =
     (case v of J_Null \<Rightarrow> Inr None | J_Str s \<Rightarrow> Inr (Some s) | _ \<Rightarrow> Inl (ValidationError model))"

text \<open>\<open>Path(v)\<close> of an argument.\<close>

definition as_path :: "mcp_env \<Rightarrow> json \<Rightarrow> exn + path" where
  "as_path env v =
     (case v of
        J_Str s \<Rightarrow> Inr (if is_absolute s then path_parts s else en_cwd env @ path_parts s)
      | _ \<Rightarrow> Inl (TypeError ''argument should be a str or an os.PathLike object''))"

definition required_arg :: "pystr \<Rightarrow> tool_args \<Rightarrow> exn + json" where
  "required_arg key args = (case dict_get key args of None \<Rightarrow> Inl (KeyError key) | Some v \<Rightarrow> Inr v)"

definition path_arg :: "mcp_env \<Rightarrow> pystr \<Rightarrow> tool_args \<Rightarrow> exn + path" where
  "path_arg env key args = (case required_arg key args of Inl e \<Rightarrow> Inl e | Inr v \<Rightarrow> as_path env v)"

definition role_arg :: "tool_args \<Rightarrow> json" where
  "role_arg args =
     json_or (json_or (get_or_null ''role'' args) (get_or_null ''client_role'' args)) (J_Str ''observer'')"

definition recorder_from_args :: "mcp_env \<Rightarrow> tool_args \<Rightarrow> exn + recorder option" where
  "recorder_from_args env args =
     (let db = get_or_null ''control_plane_db'' args; client = get_or_null ''client_id'' args;
          actor = json_or (json_or (get_or_null ''actor_id'' args) (get_or_null ''actor'' args)) client;
          model = ''McpToolCallRecorder'' in
      if \<not> json_truthy db \<or> \<not> json_truthy client \<or> \<not> json_truthy actor then Inr None
      else case (as_path env db, text_field model client, text_field model actor, text_field model (role_arg args),
                 optional_text model (get_or_null ''run_id'' args), optional_text model (get_or_null ''task_id'' args)) of
             (Inr _, Inr c, Inr a, Inr role, Inr run, Inr task) \<Rightarrow>
               (let r = \<lparr>rc_client_id = c, rc_actor_id = a, rc_role = role, rc_run_id = run, rc_task_id = task\<rparr> in
                if valid_recorder r then Inr (Some r) else Inl (ValidationError model))
           | (Inl e, _) \<Rightarrow> Inl e
           | _ \<Rightarrow> Inl (ValidationError model))"

text \<open>\<open>tuple(v)\<close> of the approved tools: the items of a list, the keys of a dict, the characters of a text.\<close>

fun tuple_of :: "json \<Rightarrow> exn + json list" where
  "tuple_of (J_List xs) = Inr xs"
| "tuple_of (J_Dict kvs) = Inr (map (\<lambda>(k, v). J_Str k) kvs)"
| "tuple_of (J_Str s) = Inr (map (\<lambda>c. J_Str [c]) s)"
| "tuple_of v = Inl (TypeError ''object is not iterable'')"

definition visibility_request_from_args :: "tool_args \<Rightarrow> exn + visibility_request" where
  "visibility_request_from_args args =
     (let model = ''GatewayToolVisibilityRequest'' in
      case tuple_of (json_or (get_or_null ''approved_high_risk_tools'' args) (J_List [])) of Inl e \<Rightarrow> Inl e
      | Inr approved \<Rightarrow>
          (case (optional_text model (get_or_null ''client_id'' args), optional_text model (get_or_null ''run_id'' args),
                 text_field model (role_arg args), parse_all (text_field model) approved) of
             (Inr client, Inr run, Inr role, Inr tools) \<Rightarrow>
               parse_visibility_request
                 \<lparr>vr_client_id = client, vr_run_id = run, vr_role = Some role, vr_approved_high_risk_tools = tools\<rparr>
           | _ \<Rightarrow> Inl (ValidationError model)))"

definition audit_json :: "tool_audit \<Rightarrow> json" where
  "audit_json a = J_Dict
     [(''tool_name'', J_Str (ta_tool_name a)), (''client_id'', opt_json J_Str (ta_client_id a)),
      (''run_id'', opt_json J_Str (ta_run_id a)), (''requested_role'', opt_json J_Str (ta_requested_role a)),
      (''required_role'', J_Str (ta_required_role a)), (''visible'', J_Bool (ta_visible a)),
      (''reason'', J_Str (ta_reason a))]"

definition list_tools_for_client :: "tool_args \<Rightarrow> exn + json" where
  "list_tools_for_client params =
     (case visibility_request_from_args params of Inl e \<Rightarrow> Inl e
      | Inr request \<Rightarrow>
          (let r = filter_gateway_tools (Some request) in
           Inr (J_Dict [(''tools'', J_List (to_mcp_tools r)),
                        (''tool_visibility_audit'', J_List (map audit_json (vs_audit r)))])))"

section \<open>Files\<close>

definition suffix_of :: "path \<Rightarrow> pystr" where
  "suffix_of p = (if p = [] then [] else path_suffix (last p))"

definition load_structured_file :: "mcp_env \<Rightarrow> path \<Rightarrow> json io" where
  "load_structured_file env p =
     andthen (read_text p) (\<lambda>t.
     lift_result (if suffix_of p \<in> {''.yml'', ''.yaml''} then en_yaml env t else en_json env t))"

definition structured_arg :: "mcp_env \<Rightarrow> pystr \<Rightarrow> tool_args \<Rightarrow> json io" where
  "structured_arg env key args = andthen (lift_result (path_arg env key args)) (load_structured_file env)"

definition decode_eip :: "mcp_env \<Rightarrow> json \<Rightarrow> exn + eip" where
  "decode_eip env v = (case en_eip env v of Inl e \<Rightarrow> Inl e | Inr e \<Rightarrow> parse_eip e)"

definition decode_plan :: "mcp_env \<Rightarrow> json \<Rightarrow> exn + proof_plan" where
  "decode_plan env v = (case en_plan env v of Inl e \<Rightarrow> Inl e | Inr p \<Rightarrow> parse_proof_plan p)"

section \<open>Tools on contracts and proofs\<close>

definition handle_validate_eip :: "mcp_env \<Rightarrow> tool_args \<Rightarrow> (site, tool_result) proc" where
  "handle_validate_eip env args =
     andthen (lift_result (path_arg env ''file'' args)) (\<lambda>p.
     andthen (reads (\<lambda>s. path_exists (snd s) p)) (\<lambda>there.
     if \<not> there then ret (error_text (''Error: EIP file not found at '' @ path_text p))
     else catching
       (andthen (on_files (load_structured_file env p)) (\<lambda>data.
        andthen (lift_result (decode_eip env data)) (\<lambda>_.
        ret (text_result ''Validation successful: EIP is valid and conforms to schemas/eip.schema.json.''))))
       (\<lambda>e. error_text (''Validation failed:'' @ [CHR 0x0A] @ en_traceback env e))))"

text \<open>A target that is not a text makes the process start fail.\<close>

definition proofs_command :: "tool_args \<Rightarrow> exn + pystr list" where
  "proofs_command args =
     (let target = get_or_null ''target'' args in
      if \<not> json_truthy target then Inr [''pytest'']
      else (case target of J_Str t \<Rightarrow> Inr [''pytest'', t]
            | _ \<Rightarrow> Inl (TypeError ''expected str, bytes or os.PathLike object'')))"

definition proofs_result :: "execution_result \<Rightarrow> tool_result" where
  "proofs_result r =
     (let nl = [CHR 0x0A];
          out = ''STDOUT:'' @ nl @ xr_stdout r @ nl @ ''STDERR:'' @ nl @ xr_stderr r in
      if xr_allowed r \<and> xr_exit_code r = Some 0
      then text_result (''Tests passed successfully!'' @ nl @ nl @ out)
      else error_text (''Tests failed or were denied with return code ''
             @ (case xr_exit_code r of None \<Rightarrow> ''None'' | Some c \<Rightarrow> show_int c) @ ''.'' @ nl @ nl @ out))"

definition handle_run_proofs :: "mcp_env \<Rightarrow> tool_args \<Rightarrow> (site, tool_result) proc" where
  "handle_run_proofs env args =
     catching
       (lift_result (case proofs_command args of Inl e \<Rightarrow> Inl e
          | Inr command \<Rightarrow> (case guard_run (en_engine env) (en_spawn env) default_guard command None of
                             Inl e \<Rightarrow> Inl e | Inr r \<Rightarrow> Inr (proofs_result r))))
       (\<lambda>e. error_text (''Failed to execute tests: '' @ exn_text e @ [CHR 0x0A] @ en_traceback env e))"

section \<open>Tools on the retrospective memory\<close>

definition uuid_text :: "pystr \<Rightarrow> pystr" where
  "uuid_text h =
     py_join ''-'' [take 8 h, take 4 (drop 8 h), take 4 (drop 12 h), take 4 (drop 16 h), drop 20 h]"

definition fresh_id :: "(site, pystr) proc" where
  "fresh_id = on_world (andthen uuid4_hex (\<lambda>h. ret (uuid_text h)))"

definition memory_codec_of :: "mcp_env \<Rightarrow> memory_codec" where
  "memory_codec_of env = \<lparr>mc_loads = en_json env, mc_decode = en_entry env\<rparr>"

text \<open>\<open>_memory_gateway()\<close> opens the store; only its file outlives the call.\<close>

definition with_memory :: "mcp_env \<Rightarrow> (memory_site, 'a) proc \<Rightarrow> (site, 'a) proc" where
  "with_memory env body =
     on_files (\<lambda>fs. case open_store (memory_codec_of env) (en_memory_file env) fs of
        (Inl e, fs') \<Rightarrow> (Inl e, fs')
      | (Inr m, fs') \<Rightarrow> (case body (m, fs') of (r, (m', fs'')) \<Rightarrow> (r, fs'')))"

definition handle_retro_analyze :: "mcp_env \<Rightarrow> tool_args \<Rightarrow> (site, tool_result) proc" where
  "handle_retro_analyze env args =
     andthen (lift_result (path_arg env ''file'' args)) (\<lambda>p.
     andthen (reads (\<lambda>s. path_exists (snd s) p)) (\<lambda>there.
     if \<not> there then ret (error_text (''Error: Evidence bundle not found at '' @ path_text p))
     else catching
       (andthen (on_files (load_structured_file env p)) (\<lambda>data.
        andthen fresh_id (\<lambda>k.
        andthen (with_memory env (retro_analyze (en_redactor env) k data)) (\<lambda>answer.
        ret (text_result (''Retro analysis completed. Learning generated:'' @ [CHR 0x0A]
               @ dumps_pretty False (J_Dict answer)))))))
       (\<lambda>e. error_text (''Retro analysis failed:'' @ [CHR 0x0A] @ en_traceback env e))))"

definition entry_text :: "memory_entry \<Rightarrow> pystr" where
  "entry_text e =
     (let nl = [CHR 0x0A] in
      ''Entry ID: '' @ me_id e @ nl @ ''Content: '' @ me_content e @ nl
      @ ''Metadata: '' @ py_repr (J_Dict (me_metadata e)) @ nl @ ''---'')"

definition handle_query_retrospective :: "mcp_env \<Rightarrow> tool_args \<Rightarrow> (site, tool_result) proc" where
  "handle_query_retrospective env args =
     catching
       (with_memory env (reads (\<lambda>(m, fs).
          (let entries = entries_by_scope retrospective m in
           text_result (if entries = [] then ''No retrospective learnings found in the memory store.''
                        else py_join [CHR 0x0A] (map entry_text entries))))))
       (\<lambda>e. error_text (''Failed to query retrospective memory:'' @ [CHR 0x0A] @ en_traceback env e))"

definition handle_submit_retrospective :: "mcp_env \<Rightarrow> tool_args \<Rightarrow> (site, tool_result) proc" where
  "handle_submit_retrospective env args =
     andthen (lift_result (required_arg ''learning'' args)) (\<lambda>learning.
     catching
       (andthen fresh_id (\<lambda>k.
        andthen (with_memory env (store_memory (en_redactor env)
          (retro_entry k (dumps_plain (J_Dict [(''failures'', J_List []), (''learning'', learning)]))))) (\<lambda>_.
        ret (text_result (''Submitted new retrospective entry successfully. ID: '' @ k)))))
       (\<lambda>e. error_text (''Failed to submit retrospective memory:'' @ [CHR 0x0A] @ en_traceback env e)))"

section \<open>Tools on a repository\<close>

definition intake_json :: "repository_intake \<Rightarrow> json" where
  "intake_json i = J_Dict
     [(''root'', J_Str (ri_root i)), (''vcs_type'', J_Str ''git''),
      (''default_branch'', opt_json J_Str (ri_default_branch i)),
      (''current_branch'', opt_json J_Str (ri_current_branch i)),
      (''base_revision'', opt_json J_Str (ri_base_revision i)),
      (''dirty_state'', J_Str (dirty_state_value (ri_dirty_state i))),
      (''language_hints'', json_texts (ri_language_hints i)),
      (''manifest_files'', J_List (map (\<lambda>m. J_Dict [(''path'', J_Str (mf_path m)), (''kind'', J_Str (mf_kind m))])
         (ri_manifest_files i))),
      (''warnings'', json_texts (ri_warnings i))]"

definition handle_repo_assess :: "mcp_env \<Rightarrow> tool_args \<Rightarrow> (site, tool_result) proc" where
  "handle_repo_assess env args =
     catching
       (on_files (andthen (lift_result (path_arg env ''path'' args)) (\<lambda>p.
          andthen (assess_repository (en_spawn env) (en_walk env) p) (\<lambda>i. ret (json_result (intake_json i))))))
       (\<lambda>e. error_result (''Repository assessment failed: '' @ exn_text e) None)"

definition journal_json :: "patch_journal_evidence \<Rightarrow> json" where
  "journal_json j = J_Dict
     [(''changed_files'', json_texts (je_changed_files j)), (''patch_digest'', J_Str (je_patch_digest j)),
      (''rolled_back'', J_Bool (je_rolled_back j)), (''blocker'', opt_json J_Str (je_blocker j))]"

definition verify_status_value :: "verify_status \<Rightarrow> pystr" where
  "verify_status_value v =
     (case v of Vs_Pass \<Rightarrow> ''pass'' | Vs_Fail \<Rightarrow> ''fail'' | Vs_Pending \<Rightarrow> ''pending'' | Vs_Unmapped \<Rightarrow> ''unmapped'')"

definition report_json :: "verifier_report \<Rightarrow> json" where
  "report_json r = J_Dict
     [(''timestamp'', J_Str (vp_timestamp r)),
      (''results'', J_List (map (\<lambda>x. J_Dict
         [(''obligation_id'', J_Str (vr_obligation_id x)), (''status'', J_Str (verify_status_value (vr_status x))),
          (''output'', J_Str (vr_output x)), (''error'', opt_json J_Str (vr_error x)),
          (''tool_call'', opt_json J_Dict (vr_tool_call x))]) (vp_results r))),
      (''passed'', J_Bool (vp_passed r))]"

definition repo_patch_payload ::
    "mcp_env \<Rightarrow> patch_apply_result \<Rightarrow> policy_decision \<Rightarrow> verifier_report option \<Rightarrow> rollback_result option \<Rightarrow> json" where
  "repo_patch_payload env a d verification undo = J_Dict
     [(''applied'', J_Bool (pa_applied a)), (''changed_files'', json_texts (pa_changed_files a)),
      (''journal'', opt_json (\<lambda>j. journal_json (journal_to_evidence (en_sha256_bytes env) j undo)) (pa_journal a)),
      (''dependency_decision'', decision_json d), (''verification'', opt_json report_json verification),
      (''rolled_back'', J_Bool (case undo of None \<Rightarrow> False | Some r \<Rightarrow> rb_rolled_back r))]"

definition flag_arg :: "pystr \<Rightarrow> tool_args \<Rightarrow> bool" where
  "flag_arg key args = (case dict_get key args of None \<Rightarrow> False | Some v \<Rightarrow> json_truthy v)"

definition undo_patch :: "patch_apply_result \<Rightarrow> rollback_result option io" where
  "undo_patch a =
     (case pa_journal a of None \<Rightarrow> ret None | Some j \<Rightarrow> andthen (rollback j) (\<lambda>r. ret (Some r)))"

definition timestamp :: "(site, pystr) proc" where
  "timestamp = on_world utc_text"

text \<open>From the applied patch on: dependencies, proofs, and the way back.\<close>

definition settle_patch ::
    "mcp_env \<Rightarrow> tool_args \<Rightarrow> path \<Rightarrow> eip \<Rightarrow> proof_plan \<Rightarrow> patch_apply_result \<Rightarrow> (site, tool_result) proc" where
  "settle_patch env args repo e plan a =
     (let d = dependency_decision
            (assess_dependency_changes (pa_changed_files a) (flag_arg ''approve_dependencies'' args)) in
      if \<not> allow d
      then andthen (on_files (undo_patch a)) (\<lambda>undo.
           ret (error_result ''Repository patch denied'' (Some (repo_patch_payload env a d None undo))))
      else andthen (on_files (\<lambda>fs. (resolve fs repo, fs))) (\<lambda>cwd.
           andthen timestamp (\<lambda>now.
           let report = run_verifier (cy_sha256 (en_crypto env)) (en_engine env) (en_spawn env) default_guard
                 (Some (path_text cwd)) now e plan in
           if \<not> vp_passed report
           then andthen (on_files (undo_patch a)) (\<lambda>undo.
                ret (error_result ''Repository proofs failed'' (Some (repo_patch_payload env a d (Some report) undo))))
           else ret (json_result (repo_patch_payload env a d (Some report) None)))))"

definition repo_patch_like :: "mcp_env \<Rightarrow> tool_args \<Rightarrow> (site, tool_result) proc" where
  "repo_patch_like env args =
     catching
       (andthen (lift_result (path_arg env ''path'' args)) (\<lambda>repo.
        andthen (on_files (inspect_git_state (en_spawn env) (en_walk env) repo (flag_arg ''allow_dirty'' args))) (\<lambda>git.
        if \<not> gs_autonomous_patch_allowed git
        then ret (error_result ''Repository patch blocked''
               (Some (J_Dict [(''blocker'', opt_json J_Str (gs_blocker git))])))
        else
          andthen (on_files (structured_arg env ''eip_file'' args)) (\<lambda>eip_data.
          andthen (lift_result (decode_eip env eip_data)) (\<lambda>e.
          andthen (on_files (structured_arg env ''proof_plan_file'' args)) (\<lambda>plan_data.
          andthen (lift_result (decode_plan env plan_data)) (\<lambda>plan.
          andthen (on_files (andthen (lift_result (path_arg env ''patch_file'' args)) read_text)) (\<lambda>patch.
          andthen (on_files (apply_unified_diff repo patch)) (\<lambda>a.
          if \<not> pa_applied a
          then ret (error_result ''Repository patch failed''
                 (Some (J_Dict [(''blocker'', opt_json J_Str (pa_blocker a))])))
          else settle_patch env args repo e plan a))))))))) 
       (\<lambda>e. error_result (''Repository automation failed: '' @ exn_text e) None)"

definition handle_repo_patch :: "mcp_env \<Rightarrow> tool_args \<Rightarrow> (site, tool_result) proc" where
  "handle_repo_patch env args = repo_patch_like env args"

definition handle_repo_run :: "mcp_env \<Rightarrow> tool_args \<Rightarrow> (site, tool_result) proc" where
  "handle_repo_run env args = repo_patch_like env args"

section \<open>Tools on signatures, evidence, providers and swarms\<close>

text \<open>\<open>verify_payload\<close> of the local signer on any value; on a dict it is \<open>Signing.verify_payload\<close>.\<close>

definition verify_value :: "crypto \<Rightarrow> pystr \<Rightarrow> local_signer \<Rightarrow> json \<Rightarrow> signature_envelope \<Rightarrow> exn + bool" where
  "verify_value cy now g payload v =
     (if sn_key_id v \<noteq> lg_key_id g \<or> sn_algorithm v \<noteq> Hmac_Sha256 then Inr False
      else let digest = compute_hash (cy_sha256 cy) payload in
           case parse_envelope
                  \<lparr>sn_schema_version = ''1.0.0'', sn_payload_digest = digest, sn_key_id = lg_key_id g,
                   sn_algorithm = Hmac_Sha256, sn_signature = b64_encode (cy_hmac cy (lg_secret g) digest),
                   sn_created_at = now\<rparr> of
             Inl e \<Rightarrow> Inl e
           | Inr expected \<Rightarrow>
               Inr (sn_payload_digest expected = sn_payload_digest v \<and> sn_signature expected = sn_signature v))"

lemma verify_value_dict: "verify_value cy now g (J_Dict payload) v = verify_payload cy now g payload v"
  by (simp add: verify_value_def verify_payload_def sign_payload_def payload_digest_def Let_def)

definition handle_sign_verify :: "mcp_env \<Rightarrow> tool_args \<Rightarrow> (site, tool_result) proc" where
  "handle_sign_verify env args =
     catching
       (andthen (on_files (structured_arg env ''signed_file'' args)) (\<lambda>signed.
        andthen (lift_result (json_at ''signature'' signed)) (\<lambda>s.
        andthen (lift_result (case en_envelope env s of Inl e \<Rightarrow> Inl e | Inr v \<Rightarrow> parse_envelope v)) (\<lambda>envelope.
        andthen (on_files (andthen (lift_result (path_arg env ''secret_file'' args)) read_bytes)) (\<lambda>secret.
        andthen (lift_result (new_signer (sn_key_id envelope) secret)) (\<lambda>signer.
        andthen (lift_result (json_at ''payload'' signed)) (\<lambda>payload.
        andthen timestamp (\<lambda>now.
        andthen (lift_result (verify_value (en_crypto env) now signer payload envelope)) (\<lambda>verified.
        let answer = J_Dict [(''verified'', J_Bool verified), (''key_id'', J_Str (sn_key_id envelope)),
                             (''payload_digest'', J_Str (sn_payload_digest envelope))] in
        ret (if verified then json_result answer
             else error_result ''Signature verification failed'' (Some answer)))))))))))
       (\<lambda>e. error_result (''Signature verification failed: '' @ exn_text e) None)"

definition handle_evidence_inspect :: "mcp_env \<Rightarrow> tool_args \<Rightarrow> (site, tool_result) proc" where
  "handle_evidence_inspect env args =
     catching
       (andthen (on_files (structured_arg env ''file'' args)) (\<lambda>payload.
        ret (json_result (J_Dict
          [(''evidence_hash'', J_Str (compute_hash (cy_sha256 (en_crypto env)) payload)),
           (''keys'', json_texts (case payload of J_Dict d \<Rightarrow> sort (map fst d) | _ \<Rightarrow> []))]))))
       (\<lambda>e. error_result (''Evidence inspect failed: '' @ exn_text e) None)"

definition inventory_json :: "pystr \<Rightarrow> pystr \<Rightarrow> pystr \<Rightarrow> pystr \<Rightarrow> pystr list \<Rightarrow> pystr \<Rightarrow> pystr \<Rightarrow> int \<Rightarrow> json" where
  "inventory_json provider version name tier capabilities cost_in cost_out limit = J_Dict
     [(''provider_name'', J_Str provider), (''provider_version'', J_Str version),
      (''capabilities'', json_texts [''chat'', ''tool-use'']),
      (''models'', J_List [J_Dict
         [(''name'', J_Str name), (''tier'', J_Str tier), (''capabilities'', json_texts capabilities),
          (''cost_per_1k_input_tokens'', J_Float cost_in), (''cost_per_1k_output_tokens'', J_Float cost_out),
          (''context_limit'', J_Int limit)]])]"

definition fake_inventory :: json where
  "fake_inventory = inventory_json ''fake'' ''1.0'' ''fake-chat'' ''tier1'' [''chat''] ''0.01'' ''0.02'' 4096"

definition openai_inventory :: json where
  "openai_inventory =
     inventory_json ''openai'' ''responses-v1'' ''gpt-4.1-mini'' ''tier2'' [''chat'', ''tool-use''] ''0.0'' ''0.0'' 128000"

definition handle_provider_inventory :: "mcp_env \<Rightarrow> tool_args \<Rightarrow> (site, tool_result) proc" where
  "handle_provider_inventory env args =
     andthen (lift_result (required_arg ''provider'' args)) (\<lambda>provider.
     ret (if provider = J_Str ''fake'' then json_result fake_inventory
          else if provider = J_Str ''openai'' then json_result openai_inventory
          else error_result (''Unsupported provider: '' @ py_str provider) None))"

text \<open>\<open>len(text.split())\<close>.\<close>

fun count_words :: "bool \<Rightarrow> pystr \<Rightarrow> int" where
  "count_words inside [] = 0"
| "count_words inside (c # cs) =
     (if py_isspace c then count_words False cs
      else (if inside then 0 else 1) + count_words True cs)"

definition estimate_tokens :: "pystr \<Rightarrow> int" where
  "estimate_tokens t = max 1 (count_words False t)"

definition completion_json ::
    "bool \<Rightarrow> json \<Rightarrow> pystr \<Rightarrow> int \<Rightarrow> int \<Rightarrow> pystr \<Rightarrow> json \<Rightarrow> json \<Rightarrow> json" where
  "completion_json ok model output_text input_tokens output_tokens cost evidence denial = J_Dict
     [(''allowed'', J_Bool ok), (''provider_request_id'', J_Str ''fake-1''), (''model'', model),
      (''output_text'', J_Str output_text), (''input_tokens'', J_Int input_tokens),
      (''output_tokens'', J_Int output_tokens), (''estimated_cost'', J_Float cost), (''evidence'', evidence),
      (''denial'', denial)]"

text \<open>
  The fake provider with no delay and its default limits of 256 tokens; \<open>en_cost\<close> is the float
  \<open>n / 1000 * 0.01 + m / 1000 * 0.02\<close>.
\<close>

definition fake_completion :: "mcp_env \<Rightarrow> pystr \<Rightarrow> pystr \<Rightarrow> bool \<times> json" where
  "fake_completion env prompt model =
     (if model \<noteq> ''fake-chat''
      then (False, completion_json False J_Null [] 0 0 ''0.0''
             (J_Dict [(''event'', J_Str ''provider_denied''), (''provider'', J_Str ''fake''),
                (''provider_request_id'', J_Str ''fake-1''), (''denial'', J_Str ''unknown model''),
                (''retryable'', J_Bool False)]) (J_Str ''unknown model''))
      else (let input_tokens = estimate_tokens prompt;
                output_text = ''fake completion for '' @ take 40 prompt;
                output_tokens = min 256 (estimate_tokens output_text);
                cost = en_cost env input_tokens output_tokens in
            (True, completion_json True (J_Str model) output_text input_tokens output_tokens cost
               (J_Dict [(''event'', J_Str ''provider_completion''), (''provider'', J_Str ''fake''),
                  (''provider_request_id'', J_Str ''fake-1''), (''model'', J_Str model),
                  (''input_tokens'', J_Int input_tokens), (''output_tokens'', J_Int output_tokens),
                  (''estimated_cost'', J_Float cost)]) J_Null)))"

definition provider_test_result :: "mcp_env \<Rightarrow> tool_args \<Rightarrow> exn + tool_result" where
  "provider_test_result env args =
     (let model = (case dict_get ''model'' args of None \<Rightarrow> J_Str ''fake-chat'' | Some v \<Rightarrow> v) in
      case required_arg ''prompt'' args of Inl e \<Rightarrow> Inl e
      | Inr p \<Rightarrow>
          (case (p, model) of
             (J_Str prompt, J_Str m) \<Rightarrow>
               (if prompt = [] then Inl (ValidationError ''ProviderCompletionRequest'')
                else case fake_completion env prompt m of
                       (ok, v) \<Rightarrow> Inr (if ok then json_result v else error_result ''Provider test failed'' (Some v)))
           | _ \<Rightarrow> Inl (ValidationError ''ProviderCompletionRequest'')))"

definition handle_provider_test :: "mcp_env \<Rightarrow> tool_args \<Rightarrow> (site, tool_result) proc" where
  "handle_provider_test env args =
     catching (lift_result (provider_test_result env args))
       (\<lambda>e. error_result (''Provider test failed: '' @ exn_text e) None)"

definition swarm_status_value :: "swarm_task_status \<Rightarrow> pystr" where
  "swarm_status_value v =
     (case v of St_Pending \<Rightarrow> ''pending'' | St_Running \<Rightarrow> ''running'' | St_Completed \<Rightarrow> ''completed'' | St_Blocked \<Rightarrow> ''blocked'')"

definition swarm_task_json :: "swarm_task \<Rightarrow> json" where
  "swarm_task_json t = J_Dict
     [(''task_id'', J_Str (sw_task_id t)), (''role'', J_Str (agent_role_value (sw_role t))),
      (''description'', J_Str (sw_description t)), (''depends_on'', json_texts (sw_depends_on t)),
      (''status'', J_Str (swarm_status_value (sw_status t)))]"

definition swarm_message_json :: "swarm_message \<Rightarrow> json" where
  "swarm_message_json m = J_Dict
     [(''message_id'', J_Str (ms_message_id m)), (''sender_id'', J_Str (ms_sender_id m)),
      (''sender_role'', J_Str (agent_role_value (ms_sender_role m))), (''message_type'', J_Str (ms_message_type m)),
      (''task_id'', J_Str (ms_task_id m)), (''payload'', J_Dict (ms_payload m)),
      (''evidence_digest'', J_Str (ms_evidence_digest m)), (''created_at'', J_Str (ms_created_at m))]"

definition decode_swarm :: "mcp_env \<Rightarrow> json \<Rightarrow> exn + pystr \<times> swarm_task list \<times> swarm_message list" where
  "decode_swarm env v =
     (case en_swarm env v of Inl e \<Rightarrow> Inl e
      | Inr (run, ts, ms) \<Rightarrow> (case parse_task_graph ts of Inl e \<Rightarrow> Inl e | Inr ts' \<Rightarrow> Inr (run, ts', ms)))"

definition handle_swarm_status :: "mcp_env \<Rightarrow> tool_args \<Rightarrow> (site, tool_result) proc" where
  "handle_swarm_status env args =
     catching
       (andthen (on_files (andthen (lift_result (path_arg env ''state'' args)) read_text)) (\<lambda>t.
        andthen (lift_result (case en_json env t of Inl e \<Rightarrow> Inl e | Inr v \<Rightarrow> decode_swarm env v)) (\<lambda>(run, ts, ms).
        ret (json_result (J_Dict
          [(''run_id'', J_Str run), (''tasks'', J_List (map swarm_task_json ts)),
           (''messages'', J_List (map swarm_message_json ms)),
           (''final_decision'', J_Str (if list_all (\<lambda>t. sw_status t = St_Completed) ts then ''passed'' else ''blocked''))])))))
       (\<lambda>e. error_result (''Swarm status failed: '' @ exn_text e) None)"

section \<open>Calls\<close>

definition tool_handlers :: "(pystr \<times> (mcp_env \<Rightarrow> tool_args \<Rightarrow> (site, tool_result) proc)) list" where
  "tool_handlers =
     [(''validate_eip'', handle_validate_eip), (''run_proofs'', handle_run_proofs),
      (''retro_analyze'', handle_retro_analyze), (''query_retrospective'', handle_query_retrospective),
      (''submit_retrospective'', handle_submit_retrospective), (''repo_assess'', handle_repo_assess),
      (''repo_patch'', handle_repo_patch), (''repo_run'', handle_repo_run), (''sign_verify'', handle_sign_verify),
      (''evidence_inspect'', handle_evidence_inspect), (''provider_inventory'', handle_provider_inventory),
      (''provider_test'', handle_provider_test), (''swarm_status'', handle_swarm_status)]"

definition recording :: "recorder option \<Rightarrow> (recorder \<Rightarrow> (world, 'a) proc) \<Rightarrow> (site, unit) proc" where
  "recording r f =
     (case r of None \<Rightarrow> ret () | Some rc \<Rightarrow> andthen (on_world (f rc)) (\<lambda>_. ret ()))"

definition unknown_tool_result :: "pystr \<Rightarrow> tool_result" where
  "unknown_tool_result tool_name = error_text (''Unknown tool: '' @ tool_name)"

definition refuse_call :: "mcp_env \<Rightarrow> recorder option \<Rightarrow> pystr \<Rightarrow> pystr \<Rightarrow> tool_args \<Rightarrow> (site, tool_result) proc" where
  "refuse_call env r tool_name reason args =
     (let result = with_mcp_attribution env (policy_denied_result tool_name reason) tool_name args in
      andthen (recording r (\<lambda>rc. record_denied rc tool_name reason)) (\<lambda>_.
      andthen (recording r (\<lambda>rc. record_finished rc tool_name result None)) (\<lambda>_. ret result)))"

definition perform_call :: "mcp_env \<Rightarrow> recorder option \<Rightarrow> pystr \<Rightarrow> tool_args \<Rightarrow> (site, tool_result) proc" where
  "perform_call env r tool_name args =
     (case dict_get tool_name tool_handlers of
        None \<Rightarrow>
          andthen (recording r (\<lambda>rc. record_denied rc tool_name ''unknown tool'')) (\<lambda>_.
          ret (with_mcp_attribution env (unknown_tool_result tool_name) tool_name args))
      | Some handler \<Rightarrow>
          andthen (handler env args) (\<lambda>answer.
          let result = with_mcp_attribution env answer tool_name args in
          andthen (if is_error result then recording r (\<lambda>rc. record_denied rc tool_name ''tool returned error'')
                   else ret ()) (\<lambda>_.
          andthen (recording r (\<lambda>rc. record_finished rc tool_name result None)) (\<lambda>_. ret result))))"

definition handle_tool_call :: "mcp_env \<Rightarrow> pystr \<Rightarrow> tool_args \<Rightarrow> (site, tool_result) proc" where
  "handle_tool_call env tool_name args =
     andthen (lift_result (recorder_from_args env args)) (\<lambda>r.
     andthen (recording r (\<lambda>rc. record_started rc tool_name args)) (\<lambda>_.
     andthen (lift_result (visibility_request_from_args args)) (\<lambda>request.
     let authorization = authorize_gateway_tool_call tool_name (Some request) in
     if \<not> ta_visible authorization then refuse_call env r tool_name (ta_reason authorization) args
     else perform_call env r tool_name args)))"

text \<open>The adapter object connects itself at its first call and then calls in the same way.\<close>

record mcp_adapter =
  ma_connected :: bool
  ma_tools :: "pystr list"

definition connect :: "mcp_adapter \<Rightarrow> mcp_adapter" where
  "connect a = a\<lparr>ma_tools := map fst tool_handlers, ma_connected := True\<rparr>"

definition call_tool :: "mcp_env \<Rightarrow> pystr \<Rightarrow> tool_args \<Rightarrow> mcp_adapter \<Rightarrow> (site, tool_result) proc \<times> mcp_adapter" where
  "call_tool env tool_name params a =
     (handle_tool_call env tool_name params, if ma_connected a then a else connect a)"

section \<open>JSON-RPC\<close>

definition mcp_response :: "json \<Rightarrow> json \<Rightarrow> json \<Rightarrow> json" where
  "mcp_response response_id result error =
     J_Dict [(''jsonrpc'', J_Str ''2.0''), (''id'', response_id),
       (if error \<noteq> J_Null then (''error'', error) else (''result'', result))]"

fun dict_arg :: "json \<Rightarrow> exn + tool_args" where
  "dict_arg (J_Dict d) = Inr d"
| "dict_arg v = Inl (AttributeError ''get'')"

definition initialize_result :: "tool_args \<Rightarrow> json" where
  "initialize_result params = J_Dict
     [(''protocolVersion'', case dict_get ''protocolVersion'' params of None \<Rightarrow> J_Str ''2024-11-05'' | Some v \<Rightarrow> v),
      (''capabilities'', J_Dict [(''tools'', J_Dict [])]),
      (''serverInfo'', J_Dict [(''name'', J_Str ''vad-mcp''), (''version'', J_Str ''0.1.0'')])]"

text \<open>
  A tool name that is not a text: a list or a dict is not hashable; for anything else the start is
  recorded before the audit record refuses the name.
\<close>

definition call_named :: "mcp_env \<Rightarrow> json \<Rightarrow> json \<Rightarrow> (site, tool_result) proc" where
  "call_named env name args =
     (case name of
        J_Str tool_name \<Rightarrow> andthen (lift_result (dict_arg args)) (handle_tool_call env tool_name)
      | J_List _ \<Rightarrow> throw (TypeError ''unhashable type: list'')
      | J_Dict _ \<Rightarrow> throw (TypeError ''unhashable type: dict'')
      | _ \<Rightarrow>
          andthen (lift_result (dict_arg args)) (\<lambda>d.
          andthen (lift_result (recorder_from_args env d)) (\<lambda>r.
          andthen (recording r (\<lambda>rc. record_started rc (py_str name) d)) (\<lambda>_.
          andthen (lift_result (visibility_request_from_args d)) (\<lambda>_.
          throw (ValidationError ''GatewayToolAuditRecord''))))))"

definition handle_json_rpc_request :: "mcp_env \<Rightarrow> (pystr \<times> json) list \<Rightarrow> (site, json option) proc" where
  "handle_json_rpc_request env request =
     (let method = get_or_null ''method'' request; req_id = get_or_null ''id'' request;
          params = (case dict_get ''params'' request of None \<Rightarrow> J_Dict [] | Some v \<Rightarrow> v);
          answer = (\<lambda>v. Some (mcp_response req_id v J_Null)) in
      if get_or_null ''jsonrpc'' request \<noteq> J_Str ''2.0'' then ret None
      else if method = J_Str ''initialize''
      then andthen (lift_result (dict_arg params)) (\<lambda>d. ret (answer (initialize_result d)))
      else if method = J_Str ''notifications/initialized'' then ret None
      else if method = J_Str ''tools/list''
      then andthen (lift_result (if json_truthy params then dict_arg params else Inr [])) (\<lambda>d.
           andthen (lift_result (list_tools_for_client d)) (\<lambda>v. ret (answer v)))
      else if method = J_Str ''tools/call''
      then andthen (lift_result (dict_arg params)) (\<lambda>d.
           andthen (call_named env (get_or_null ''name'' d)
             (case dict_get ''arguments'' d of None \<Rightarrow> J_Dict [] | Some v \<Rightarrow> v)) (\<lambda>r. ret (answer (J_Dict r))))
      else if method = J_Str ''ping'' then ret (answer (J_Dict []))
      else if req_id \<noteq> J_Null
      then ret (Some (mcp_response req_id J_Null
             (J_Dict [(''code'', J_Int (-32601)), (''message'', J_Str (''Method not found: '' @ py_str method))])))
      else ret None)"

text \<open>
  One line of \<open>serve()\<close>: what is written to the standard output, or nothing for a notification and
  for a failure (which goes to the standard error). The loop ends at an empty line: the end of the input.
\<close>

definition serve_line :: "mcp_env \<Rightarrow> pystr \<Rightarrow> (site, pystr option) proc" where
  "serve_line env line =
     catching
       (andthen (lift_result (en_json env (py_strip line))) (\<lambda>v.
        andthen (lift_result (dict_arg v)) (\<lambda>request.
        andthen (handle_json_rpc_request env request) (\<lambda>response.
        ret (map_option (\<lambda>r. dumps_plain r @ [CHR 0x0A]) response)))))
       (\<lambda>e. None)"

fun serve :: "mcp_env \<Rightarrow> pystr list \<Rightarrow> (site, pystr list) proc" where
  "serve env [] = ret []"
| "serve env (line # lines) =
     (if line = [] then ret []
      else andthen (serve_line env line) (\<lambda>out.
           andthen (serve env lines) (\<lambda>outs. ret ((case out of None \<Rightarrow> [] | Some t \<Rightarrow> [t]) @ outs))))"

end
