(* ===== verification/Mcp_Properties.thy ===== *)
theory Mcp_Properties
  imports Mcp_Adapter
begin

text \<open>
  What the MCP tools leave behind: most of them only read files; a repository patch either goes all
  the way (clean git, contract, proof plan, dependencies, proofs) or changes no file.
\<close>

section \<open>What only reads\<close>

lemma catching_Inr: "catching m h s = (Inr x, s') \<longleftrightarrow> m s = (Inr x, s') \<or> (\<exists>e. m s = (Inl e, s') \<and> x = h e)"
  by (auto simp: catching_def split: prod.splits sum.splits)

lemma catching_total: "\<exists>x s'. catching m h s = (Inr x, s')"
  by (auto simp: catching_def split: prod.splits sum.splits)

lemma resolve_same: "obeys (same_on id) (\<lambda>fs. (resolve fs p, fs))"
  by (rule sameI) simp

lemma read_bytes_same_files: "obeys (same_on id) (read_bytes p)"
  by (rule sameI) (simp add: read_bytes_same)

lemma branch_same: "obeys (same_on id) (read_current_branch git)"
proof (rule sameI)
  fix fs
  have head: "obeys (same_on id) (andthen (read_text (git @ [''HEAD''])) (\<lambda>t. ret (k t)))" for k :: "pystr \<Rightarrow> pystr option"
    by (intro frame.effect_intros same_read_text)
  have files: "snd (andthen (read_text (git @ [''HEAD''])) (\<lambda>t. ret (k t)) fs) = fs" for k :: "pystr \<Rightarrow> pystr option"
    using sameD [OF head, of k fs] by (metis id_apply prod.collapse)
  show "id (snd (read_current_branch git fs)) = id fs"
    by (simp add: read_current_branch_def files)
qed

lemma assess_same: "obeys (same_on id) (assess_repository spawn walk p)"
  unfolding assess_repository_def
  by (intro frame.effect_intros resolve_same branch_same sameI | simp split: prod.split)+

lemma git_state_same: "obeys (same_on id) (inspect_git_state spawn walk p d)"
  unfolding inspect_git_state_def by (intro frame.effect_intros assess_same)

lemma structured_same: "obeys (same_on id) (structured_arg env key args)"
  unfolding structured_arg_def load_structured_file_def by (intro frame.effect_intros same_read_text)

lemma on_files_same:
  assumes "obeys (same_on id) m"
  shows "on_files m s = (fst (m (snd s)), s)"
  using sameD [OF assms, of "snd s"] by (cases s) (auto simp: on_files_def split: prod.splits)

lemma timestamp_run: "\<exists>t w'. timestamp (w, fs) = (Inr t, (w', fs))"
  by (simp add: timestamp_def on_world_def utc_text_def utcnow_def andthen_def ret_def split: prod.splits)

section \<open>The way back\<close>

lemma applied_journal:
  assumes "apply_unified_diff root patch fs = (Inr a, fs')" "pa_applied a"
  obtains j where "pa_journal a = Some j"
  using assms(1)
proof (cases rule: apply_unified_diff_cases)
  case unchanged
  then show ?thesis using assms(2) by simp
next
  case (written rp ws j)
  then show ?thesis using that by (auto split: if_splits)
qed

lemma undo_applied:
  assumes "apply_unified_diff root patch fs = (Inr a, fs')" "pa_applied a" "rooted fs"
  shows "\<exists>r. on_files (undo_patch a) (w, fs') = (Inr r, (w, fs))"
proof -
  obtain j where j: "pa_journal a = Some j" using applied_journal [OF assms(1,2)] .
  show ?thesis
    using undone_patch [OF assms(1) j assms(3,2)] by (simp add: on_files_def undo_patch_def j andthen_def ret_def)
qed

lemma applied_resolve:
  assumes "apply_unified_diff root patch fs = (Inr a, fs')" "pa_applied a"
  shows "\<exists>rp. resolve fs' root = Inr rp"
  using assms(1)
proof (cases rule: apply_unified_diff_cases)
  case unchanged
  then show ?thesis using assms(2) by simp
next
  case (written rp ws j)
  have "same_shape fs fs'" using fold_put_shape [OF written(3) same_shape_refl] written(5) by simp
  then show ?thesis using written(1) by (simp add: same_shape_resolve)
qed

text \<open>Everything the tool checks before it keeps a patch.\<close>

definition patch_kept :: "mcp_env \<Rightarrow> tool_args \<Rightarrow> path \<Rightarrow> eip \<Rightarrow> proof_plan \<Rightarrow> patch_apply_result \<Rightarrow> filesystem \<Rightarrow> bool" where
  "patch_kept env args repo e plan a fs' =
     ((flag_arg ''approve_dependencies'' args \<or> list_all (\<lambda>p. dependency_ecosystem p = None) (pa_changed_files a))
      \<and> (\<exists>cwd now. resolve fs' repo = Inr cwd
           \<and> vp_passed (run_verifier (cy_sha256 (en_crypto env)) (en_engine env) (en_spawn env) default_guard
                (Some (path_text cwd)) now e plan)))"

lemma is_error_result [simp]: "is_error (error_result m p)" "is_error (error_text t)" "\<not> is_error (text_result t)"
  "\<not> is_error (json_result v)"
  by (simp_all add: is_error_def error_result_def error_text_def text_result_def json_result_def dict_get_def)

lemma settle_patch_run:
  assumes "apply_unified_diff root patch fs = (Inr a, fs')" "pa_applied a" "rooted fs"
  shows "\<exists>result w'. settle_patch env args root e plan a (w, fs') =
      (Inr result, (w', if is_error result then fs else fs'))
    \<and> (is_error result \<longleftrightarrow> \<not> patch_kept env args root e plan a fs')"
proof -
  let ?d = "dependency_decision (assess_dependency_changes (pa_changed_files a) (flag_arg ''approve_dependencies'' args))"
  obtain u where u: "on_files (undo_patch a) (w', fs') = (Inr (u w'), (w', fs))" for w'
    using undo_applied [OF assms] by metis
  obtain cwd where cwd: "resolve fs' root = Inr cwd" using applied_resolve [OF assms(1,2)] by blast
  obtain now w' where now: "timestamp (w, fs') = (Inr now, (w', fs'))" using timestamp_run by blast
  have passed: "vp_passed (run_verifier h ev spawn g c t e plan) = vp_passed (run_verifier h ev spawn g c t' e plan)"
    for h ev spawn g c t t' by (simp add: run_verifier_def Let_def split: prod.splits)
  show ?thesis
  proof (cases "allow ?d")
    case False
    then show ?thesis
      using u by (simp add: settle_patch_def Let_def andthen_def ret_def patch_kept_def dependency_decision_allow)
  next
    case True
    let ?r = "run_verifier (cy_sha256 (en_crypto env)) (en_engine env) (en_spawn env) default_guard (Some (path_text cwd))"
    have r: "on_files (\<lambda>fs. (resolve fs root, fs)) (w, fs') = (Inr cwd, (w, fs'))" by (simp add: on_files_def cwd)
    have kept: "patch_kept env args root e plan a fs' \<longleftrightarrow> vp_passed (?r now e plan)"
      using True cwd unfolding patch_kept_def dependency_decision_allow by (auto intro: passed [THEN iffD1])
    show ?thesis
      using True u kept by (simp add: settle_patch_def Let_def andthen_def ret_def r now)
  qed
qed

section \<open>A repository patch\<close>

text \<open>The sections of the patch name files that are there.\<close>

definition patch_targets_present :: "mcp_env \<Rightarrow> tool_args \<Rightarrow> filesystem \<Rightarrow> bool" where
  "patch_targets_present env args fs =
     (\<forall>repo patch rp fp. path_arg env ''path'' args = Inr repo
        \<and> fst (andthen (lift_result (path_arg env ''patch_file'' args)) read_text fs) = Inr patch
        \<and> resolve fs repo = Inr rp \<and> fp \<in> set (parse_unified_diff patch)
        \<longrightarrow> path_exists fs (rp @ path_parts (fp_path fp)))"

text \<open>The checks before the patch is applied.\<close>

definition patch_admitted ::
    "mcp_env \<Rightarrow> tool_args \<Rightarrow> filesystem \<Rightarrow> path \<Rightarrow> eip \<Rightarrow> proof_plan \<Rightarrow> pystr \<Rightarrow> bool" where
  "patch_admitted env args fs repo e plan patch =
     (path_arg env ''path'' args = Inr repo
      \<and> (\<exists>git. fst (inspect_git_state (en_spawn env) (en_walk env) repo (flag_arg ''allow_dirty'' args) fs) = Inr git
           \<and> gs_autonomous_patch_allowed git)
      \<and> (\<exists>v. fst (structured_arg env ''eip_file'' args fs) = Inr v \<and> decode_eip env v = Inr e)
      \<and> (\<exists>v. fst (structured_arg env ''proof_plan_file'' args fs) = Inr v \<and> decode_plan env v = Inr plan)
      \<and> fst (andthen (lift_result (path_arg env ''patch_file'' args)) read_text fs) = Inr patch)"

lemma patch_text_same: "obeys (same_on id) (andthen (lift_result (path_arg env k args)) read_text)"
  by (intro frame.effect_intros same_read_text)

lemma same_then:
  assumes "obeys (same_on id) m"
  shows "andthen (on_files m) k (w, fs) = (case fst (m fs) of Inl e \<Rightarrow> (Inl e, (w, fs)) | Inr x \<Rightarrow> k x (w, fs))"
  using on_files_same [OF assms, of "(w, fs)"] by (simp add: andthen_def)

lemmas patch_steps =
  same_then [OF git_state_same] same_then [OF structured_same] same_then [OF patch_text_same]

text \<open>Applying the admitted patch, and settling it.\<close>

definition apply_and_settle ::
    "mcp_env \<Rightarrow> tool_args \<Rightarrow> path \<Rightarrow> eip \<Rightarrow> proof_plan \<Rightarrow> pystr \<Rightarrow> (site, tool_result) proc" where
  "apply_and_settle env args repo e plan patch =
     andthen (on_files (apply_unified_diff repo patch)) (\<lambda>a.
     if \<not> pa_applied a
     then ret (error_result ''Repository patch failed'' (Some (J_Dict [(''blocker'', opt_json J_Str (pa_blocker a))])))
     else settle_patch env args repo e plan a)"

lemma repo_patch_admitted:
  assumes "patch_admitted env args fs repo e plan patch"
  shows "repo_patch_like env args (w, fs) =
    catching (apply_and_settle env args repo e plan patch)
      (\<lambda>e. error_result (''Repository automation failed: '' @ exn_text e) None) (w, fs)"
proof -
  from assms obtain git v u where
    "path_arg env ''path'' args = Inr repo"
    "fst (inspect_git_state (en_spawn env) (en_walk env) repo (flag_arg ''allow_dirty'' args) fs) = Inr git"
    "gs_autonomous_patch_allowed git"
    "fst (structured_arg env ''eip_file'' args fs) = Inr v" "decode_eip env v = Inr e"
    "fst (structured_arg env ''proof_plan_file'' args fs) = Inr u" "decode_plan env u = Inr plan"
    "fst (andthen (lift_result (path_arg env ''patch_file'' args)) read_text fs) = Inr patch"
    unfolding patch_admitted_def by blast
  then show ?thesis
    by (simp add: repo_patch_like_def apply_and_settle_def catching_def patch_steps)
qed

lemma repo_patch_refused:
  assumes "\<And>repo e plan patch. \<not> patch_admitted env args fs repo e plan patch"
  shows "\<exists>result. repo_patch_like env args (w, fs) = (Inr result, (w, fs)) \<and> is_error result"
  using assms unfolding patch_admitted_def
  by (fastforce simp: repo_patch_like_def catching_def patch_steps ret_def split: sum.splits)

text \<open>A patch the tool keeps, and the files after it.\<close>

definition patch_goes_through :: "mcp_env \<Rightarrow> tool_args \<Rightarrow> filesystem \<Rightarrow> filesystem \<Rightarrow> bool" where
  "patch_goes_through env args fs fs' =
     (\<exists>repo e plan patch a. patch_admitted env args fs repo e plan patch
        \<and> apply_unified_diff repo patch fs = (Inr a, fs') \<and> pa_applied a \<and> patch_kept env args repo e plan a fs')"

lemma patch_admitted_unique:
  "patch_admitted env args fs repo e plan patch \<Longrightarrow> patch_admitted env args fs repo' e' plan' patch' \<Longrightarrow>
     repo' = repo \<and> e' = e \<and> plan' = plan \<and> patch' = patch"
  unfolding patch_admitted_def by fastforce

lemma apply_and_settle_run:
  assumes fs: "rooted fs" "patch_targets_present env args fs" and ok: "patch_admitted env args fs repo e plan patch"
  obtains (kept) a fs' result w' where "apply_unified_diff repo patch fs = (Inr a, fs')" "pa_applied a"
      "patch_kept env args repo e plan a fs'" "\<not> is_error result"
      "apply_and_settle env args repo e plan patch (w, fs) = (Inr result, (w', fs'))"
  | (undone) x w' where "apply_and_settle env args repo e plan patch (w, fs) = (x, (w', fs))"
      "\<And>result. x = Inr result \<Longrightarrow> is_error result"
      "\<And>a fs'. apply_unified_diff repo patch fs = (Inr a, fs') \<Longrightarrow> pa_applied a \<Longrightarrow> \<not> patch_kept env args repo e plan a fs'"
proof -
  obtain r fs' where run: "apply_unified_diff repo patch fs = (r, fs')" by fastforce
  show thesis
  proof (cases "\<exists>a. r = Inr a \<and> pa_applied a")
    case True
    then obtain a where a: "r = Inr a" "pa_applied a" by blast
    note settled = settle_patch_run [OF run [unfolded a(1)] a(2) fs(1), of env args e plan w]
    have eq: "apply_and_settle env args repo e plan patch (w, fs) = settle_patch env args repo e plan a (w, fs')"
      using run a by (simp add: apply_and_settle_def andthen_def on_files_def)
    show thesis
    proof (cases "patch_kept env args repo e plan a fs'")
      case True
      with settled eq kept [OF run [unfolded a(1)] a(2)] show thesis by auto
    next
      case False
      with settled eq obtain result w' where
        "apply_and_settle env args repo e plan patch (w, fs) = (Inr result, (w', fs))" "is_error result" by auto
      with False run a show thesis by (intro undone) auto
    qed
  next
    case False
    have same: "fs' = fs"
      using ok by (intro stopped_patch [OF run]) (use False fs(2) in \<open>auto simp: patch_targets_present_def patch_admitted_def\<close>)
    have "\<exists>x. apply_and_settle env args repo e plan patch (w, fs) = (x, (w, fs)) \<and> (\<forall>result. x = Inr result \<longrightarrow> is_error result)"
      using run False same by (cases r) (auto simp: apply_and_settle_def andthen_def on_files_def ret_def)
    then obtain x where x: "apply_and_settle env args repo e plan patch (w, fs) = (x, (w, fs))"
      "\<And>result. x = Inr result \<Longrightarrow> is_error result" by blast
    show thesis using False run by (intro undone [OF x]) auto
  qed
qed


definition demo_repo :: filesystem where
  "demo_repo = demo_files ([''w'', ''.git''] \<mapsto> Directory, [''d''] \<mapsto> File demo_patch, [''c''] \<mapsto> File ''c'')"

definition demo_env :: mcp_env where
  "demo_env =
     \<lparr>en_cwd = [], en_json = (\<lambda>t. Inr (J_Str t)), en_yaml = (\<lambda>t. Inr (J_Str t)),
      en_eip = (\<lambda>_. Inr (demo_eip [''src''])),
      en_plan = (\<lambda>_. Inr \<lparr>pp_schema_version = ''1.0.0'', pp_eip_version = ''1.0.0'', pp_eip_digest = ''x'',
        pp_mappings = [\<lparr>pm_obligation_id = ''po-1'', pm_test_command = ''pytest''\<rparr>], pp_required_manual_gates = []\<rparr>),
      en_envelope = (\<lambda>_. Inl (ValidationError [])), en_entry = (\<lambda>_. Inl (ValidationError [])),
      en_swarm = (\<lambda>_. Inl (ValidationError [])), en_memory_file = None, en_redactor = (\<lambda>t. t),
      en_engine = (\<lambda>path query input. Inr (J_Bool (query = allow_query))),
      en_spawn = (\<lambda>command cwd. Inr (0, [], [])), en_walk = (\<lambda>_. []),
      en_crypto = \<lparr>cy_sha256 = (\<lambda>_. ''x''), cy_hmac = (\<lambda>_ _. ''x'')\<rparr>, en_sha256_bytes = (\<lambda>_. ''x''),
      en_cost = (\<lambda>_ _. ''0.0''), en_traceback = (\<lambda>_. [])\<rparr>"

definition demo_args :: tool_args where
  "demo_args =
     [(''path'', J_Str ''/w''), (''eip_file'', J_Str ''/c''), (''proof_plan_file'', J_Str ''/c''),
      (''patch_file'', J_Str ''/d'')]"

lemma demo_repo_rooted: "rooted demo_repo"
  by (auto simp: rooted_def demo_repo_def demo_files_def)

lemma demo_paths:
  "path_arg demo_env ''path'' demo_args = Inr [''w'']"
  "fst (andthen (lift_result (path_arg demo_env ''patch_file'' demo_args)) read_text demo_repo) = Inr demo_patch"
  "resolve demo_repo [''w''] = Inr [''w'']"
  "list_all (\<lambda>fp. path_exists demo_repo ([''w''] @ path_parts (fp_path fp))) (parse_unified_diff demo_patch)"
  by code_simp+

lemma demo_targets: "patch_targets_present demo_env demo_args demo_repo"
  using demo_paths(3,4) unfolding patch_targets_present_def demo_paths(1,2) by (auto simp: list_all_iff)

lemma demo_admitted:
  "fst (inspect_git_state (en_spawn demo_env) (en_walk demo_env) [''w''] (flag_arg ''allow_dirty'' demo_args) demo_repo) =
     Inr \<lparr>gs_root = ''/w'', gs_branch = None, gs_base_revision = Some [], gs_dirty_state = Clean,
          gs_autonomous_patch_allowed = True, gs_blocker = None\<rparr>"
  by code_simp

definition demo_plan :: proof_plan where
  "demo_plan =
     \<lparr>pp_schema_version = ''1.0.0'', pp_eip_version = ''1.0.0'', pp_eip_digest = ''x'',
      pp_mappings = [\<lparr>pm_obligation_id = ''po-1'', pm_test_command = ''pytest''\<rparr>], pp_required_manual_gates = []\<rparr>"

lemma demo_patch_admitted: "patch_admitted demo_env demo_args demo_repo [''w''] (demo_eip [''src'']) demo_plan demo_patch"
proof -
  have "fst (structured_arg demo_env ''eip_file'' demo_args demo_repo) = Inr (J_Str ''c'')"
    "fst (structured_arg demo_env ''proof_plan_file'' demo_args demo_repo) = Inr (J_Str ''c'')"
    "decode_eip demo_env (J_Str ''c'') = Inr (demo_eip [''src''])" "decode_plan demo_env (J_Str ''c'') = Inr demo_plan"
    by code_simp+
  then show ?thesis using demo_paths(1,2) demo_admitted unfolding patch_admitted_def by fastforce
qed

lemma demo_runs:
  "(case fst (apply_unified_diff [''w''] demo_patch demo_repo) of Inl e \<Rightarrow> False
    | Inr a \<Rightarrow> pa_applied a \<and> list_all (\<lambda>p. dependency_ecosystem p = None) (pa_changed_files a))"
  "vp_passed (run_verifier (cy_sha256 (en_crypto demo_env)) (en_engine demo_env) (en_spawn demo_env) default_guard
     (Some (path_text [''w''])) [] (demo_eip [''src'']) demo_plan)"
  "resolve (snd (apply_unified_diff [''w''] demo_patch demo_repo)) [''w''] = Inr [''w'']"
  "snd (apply_unified_diff [''w''] demo_patch demo_repo) [''w'', ''f''] \<noteq> demo_repo [''w'', ''f'']"
  by code_simp+

lemma demo_goes_through:
  "patch_goes_through demo_env demo_args demo_repo (snd (apply_unified_diff [''w''] demo_patch demo_repo))"
proof -
  obtain a fs' where run: "apply_unified_diff [''w''] demo_patch demo_repo = (Inr a, fs')" "pa_applied a"
    "list_all (\<lambda>p. dependency_ecosystem p = None) (pa_changed_files a)"
    using demo_runs(1) by (cases "apply_unified_diff [''w''] demo_patch demo_repo") (auto split: sum.splits)
  then have "patch_kept demo_env demo_args [''w''] (demo_eip [''src'']) demo_plan a fs'"
    using demo_runs(2,3) unfolding patch_kept_def by auto
  moreover have "snd (apply_unified_diff [''w''] demo_patch demo_repo) = fs'" using run(1) by simp
  ultimately show ?thesis using run(1,2) demo_patch_admitted unfolding patch_goes_through_def by blast
qed


section \<open>Who may change files\<close>

text \<open>A tool that answers without changing a file.\<close>

abbreviation files_kept :: "(site, 'a) proc \<Rightarrow> bool" where
  "files_kept m \<equiv> obeys (same_on snd) m"

lemma on_files_kept: "obeys (same_on id) m \<Longrightarrow> files_kept (on_files m)"
  by (rule sameI) (auto simp: on_files_same)

lemma catching_kept:
  assumes "files_kept m"
  shows "files_kept (catching m h)"
proof (rule sameI)
  fix s
  have "snd (snd (catching m h s)) = snd (snd (m s))" by (simp add: catching_def split: prod.splits sum.splits)
  then show "snd (snd (catching m h s)) = snd s" using sameD [OF assms, of s] by (metis prod.collapse)
qed

lemma recording_kept: "files_kept (recording r f)"
  unfolding recording_def by (cases r) (simp_all add: frame.ret frame.andthen files_on_world)

lemma query_kept: "files_kept (with_memory env (reads f))"
proof -
  have load: "obeys (same_on id) (andthen (load_entries c p) (\<lambda>es. ret (k es)))"
    for c p and k :: "_ \<Rightarrow> memory_store"
    unfolding load_entries_def by (intro frame.effect_intros same_read_text)
  have opened: "snd (open_store c f0 fs) = fs" for c f0 fs
  proof (cases f0)
    case (Some p)
    then show ?thesis using sameD [OF load, of c p _ fs] by (simp add: open_store_def) (metis id_apply prod.collapse)
  qed (simp add: open_store_def)
  have "obeys (same_on id) (\<lambda>fs. case open_store c f0 fs of (Inl e, fs') \<Rightarrow> (Inl e, fs')
      | (Inr m, fs') \<Rightarrow> (case reads f (m, fs') of (r, (m', fs'')) \<Rightarrow> (r, fs'')))" for c f0
  proof (rule sameI)
    fix fs
    obtain r fs' where o: "open_store c f0 fs = (r, fs')" by fastforce
    with opened [of c f0 fs] show "id (snd (case open_store c f0 fs of (Inl e, fs') \<Rightarrow> (Inl e, fs')
      | (Inr m, fs') \<Rightarrow> (case reads f (m, fs') of (r, (m', fs'')) \<Rightarrow> (r, fs'')))) = id fs"
      by (simp add: reads_def split: sum.split)
  qed
  then show ?thesis unfolding with_memory_def by (rule on_files_kept)
qed

lemmas kept_intros =
  catching_kept on_files_kept frame.effect_intros read_bytes_same_files structured_same same_read_text assess_same

lemma load_same: "obeys (same_on id) (load_structured_file env p)"
  unfolding load_structured_file_def by (intro frame.effect_intros same_read_text)

lemma timestamp_kept: "files_kept timestamp"
  unfolding timestamp_def by (rule files_on_world)

lemma readers_kept:
  "files_kept (handle_validate_eip env args)" "files_kept (handle_run_proofs env args)"
  "files_kept (handle_query_retrospective env args)" "files_kept (handle_repo_assess env args)"
  "files_kept (handle_evidence_inspect env args)" "files_kept (handle_provider_inventory env args)"
  "files_kept (handle_provider_test env args)"
  unfolding handle_validate_eip_def handle_run_proofs_def handle_query_retrospective_def handle_repo_assess_def
    handle_evidence_inspect_def handle_provider_inventory_def handle_provider_test_def
  by (intro kept_intros load_same query_kept)+

lemma swarm_status_kept: "files_kept (handle_swarm_status env args)"
  unfolding handle_swarm_status_def by (intro kept_intros) (auto intro: frame.ret split: prod.split)

lemma sign_verify_kept: "files_kept (handle_sign_verify env args)"
  unfolding handle_sign_verify_def Let_def by (intro kept_intros timestamp_kept)

lemma refuse_kept: "files_kept (refuse_call env r tool_name reason args)"
  unfolding refuse_call_def Let_def by (intro frame.effect_intros recording_kept)

text \<open>The tools that write files.\<close>

definition memory_tools :: "pystr list" where
  "memory_tools = [''retro_analyze'', ''submit_retrospective'']"

definition patch_tools :: "pystr list" where
  "patch_tools = [''repo_patch'', ''repo_run'']"

lemma handler_cases:
  assumes "dict_get tool_name tool_handlers = Some handler" "tool_name \<notin> set memory_tools" "tool_name \<notin> set patch_tools"
  shows "files_kept (handler env args)"
  using assms readers_kept [of env args] swarm_status_kept [of env args] sign_verify_kept [of env args]
  by (auto simp: tool_handlers_def dict_get_def memory_tools_def patch_tools_def split: if_splits)

lemma perform_kept:
  assumes "tool_name \<notin> set memory_tools" "tool_name \<notin> set patch_tools"
  shows "files_kept (perform_call env r tool_name args)"
proof (cases "dict_get tool_name tool_handlers")
  case None
  then show ?thesis unfolding perform_call_def by (simp add: frame.andthen frame.ret recording_kept)
next
  case (Some handler)
  have "files_kept (handler env args)" using handler_cases [OF Some assms] .
  then show ?thesis
    unfolding perform_call_def Some Let_def option.case by (intro frame.effect_intros recording_kept)
qed

lemma writers_registered:
  "registry_get ''retro_analyze'' = Some tool_retro_analyze" "registry_get ''submit_retrospective'' = Some tool_submit_retrospective"
  "registry_get ''repo_patch'' = Some tool_repo_patch" "registry_get ''repo_run'' = Some tool_repo_run"
  by code_simp+

lemma writers_visible:
  assumes "ta_visible (authorize_gateway_tool_call tool_name (Some request))"
  shows "tool_name \<in> set memory_tools \<Longrightarrow> role_of request = ''auditor''"
    and "tool_name \<in> set patch_tools \<Longrightarrow> role_of request = ''builder'' \<and> tool_name \<in> set (vr_approved_high_risk_tools request)"
  using assms
  by (auto simp: authorize_gateway_tool_call_def visibility_of_def memory_tools_def patch_tools_def writers_registered audit_of_def
      tool_visible_def tool_retro_analyze_def tool_submit_retrospective_def tool_repo_patch_def tool_repo_run_def
      make_tool_def split: if_splits)



end
