(* ===== verification/Store_Invariant.thy ===== *)
theory Store_Invariant
  imports Client_Registry
begin

text \<open>
  The consistency of the database: unique keys, rows that still validate, foreign keys that
  resolve, and run/task states that mirror their work items. Each kind of statement is checked
  once; the interpretation \<open>consistent\<close> of \<open>control_plane_effects\<close> turns that into the fact
  for every operation of every service.
\<close>

definition rows_keyed :: "world \<Rightarrow> bool" where
  "rows_keyed w =
     (keyed manifest_key (w_manifests w) \<and> keyed hr_client_id (w_heartbeats w)
      \<and> keyed lease_task_id (w_leases w) \<and> keyed work_item_key (w_work_items w)
      \<and> keyed task_state_key (w_task_states w) \<and> keyed event_id (w_events w))"

text \<open>A foreign key column holds what the payload says, or was cleared by \<open>ON DELETE SET NULL\<close>.\<close>

definition column_ok :: "'a option \<Rightarrow> 'a option \<Rightarrow> bool" where
  "column_ok col payload = (col = None \<or> col = payload)"

definition item_row_ok :: "work_item_row \<Rightarrow> bool" where
  "item_row_ok r =
     (valid_work_item (wr_item r)
      \<and> column_ok (wr_assigned_client_id r) (wi_assigned_client_id (wr_item r))
      \<and> column_ok (wr_lease_id r) (wi_lease_id (wr_item r)))"

definition payloads_ok :: "world \<Rightarrow> bool" where
  "payloads_ok w =
     (list_all (\<lambda>r. parse_client_manifest (mr_manifest r) = Inr (mr_manifest r)) (w_manifests w)
      \<and> list_all item_row_ok (w_work_items w)
      \<and> list_all valid_event (w_events w))"

definition references_ok :: "world \<Rightarrow> bool" where
  "references_ok w =
     (list_all (\<lambda>r. has_manifest w (hr_client_id r)) (w_heartbeats w)
      \<and> list_all (\<lambda>l. has_manifest w (lease_client_id l)) (w_leases w)
      \<and> list_all (work_item_fk w) (w_work_items w))"

definition state_mirrored :: "run_task_state list \<Rightarrow> work_item \<Rightarrow> bool" where
  "state_mirrored states i =
     (tbl_find task_state_key (wi_run_id i, wi_work_item_id i) states = Some (run_task_state_of i))"

definition states_ok :: "world \<Rightarrow> bool" where
  "states_ok w = list_all (\<lambda>r. state_mirrored (w_task_states w) (wr_item r)) (w_work_items w)"

definition store_ok :: "world \<Rightarrow> bool" where
  "store_ok w = (rows_keyed w \<and> payloads_ok w \<and> references_ok w \<and> states_ok w)"

lemmas store_ok_parts =
  store_ok_def rows_keyed_def payloads_ok_def references_ok_def states_ok_def

lemma store_ok_fresh: "store_ok (fresh_world clock uuids)"
  by (simp add: store_ok_parts fresh_world_def)

text \<open>Updates of other fields leave the reference checks alone.\<close>

lemma reference_frames [simp]:
  "has_manifest (w\<lparr>w_user_version := x1\<rparr>) = has_manifest w"
  "has_manifest (w\<lparr>w_schema := x2\<rparr>) = has_manifest w"
  "has_manifest (w\<lparr>w_heartbeats := x3\<rparr>) = has_manifest w"
  "has_manifest (w\<lparr>w_work_items := x4\<rparr>) = has_manifest w"
  "has_manifest (w\<lparr>w_task_states := x5\<rparr>) = has_manifest w"
  "has_manifest (w\<lparr>w_events := x6\<rparr>) = has_manifest w"
  "has_manifest (w\<lparr>w_intents := x7\<rparr>) = has_manifest w"
  "has_manifest (w\<lparr>w_ticks := x8\<rparr>) = has_manifest w"
  "has_manifest (w\<lparr>w_drawn := x9\<rparr>) = has_manifest w"
  "has_manifest (w\<lparr>w_leases := x10\<rparr>) = has_manifest w"
  "has_lease (w\<lparr>w_user_version := x11\<rparr>) = has_lease w"
  "has_lease (w\<lparr>w_schema := x12\<rparr>) = has_lease w"
  "has_lease (w\<lparr>w_heartbeats := x13\<rparr>) = has_lease w"
  "has_lease (w\<lparr>w_work_items := x14\<rparr>) = has_lease w"
  "has_lease (w\<lparr>w_task_states := x15\<rparr>) = has_lease w"
  "has_lease (w\<lparr>w_events := x16\<rparr>) = has_lease w"
  "has_lease (w\<lparr>w_intents := x17\<rparr>) = has_lease w"
  "has_lease (w\<lparr>w_ticks := x18\<rparr>) = has_lease w"
  "has_lease (w\<lparr>w_drawn := x19\<rparr>) = has_lease w"
  "has_lease (w\<lparr>w_manifests := x20\<rparr>) = has_lease w"
  by (simp_all add: fun_eq_iff has_manifest_def has_lease_def)

lemma work_item_fk_frames [simp]:
  "work_item_fk (w\<lparr>w_user_version := x21\<rparr>) = work_item_fk w"
  "work_item_fk (w\<lparr>w_schema := x22\<rparr>) = work_item_fk w"
  "work_item_fk (w\<lparr>w_heartbeats := x23\<rparr>) = work_item_fk w"
  "work_item_fk (w\<lparr>w_work_items := x24\<rparr>) = work_item_fk w"
  "work_item_fk (w\<lparr>w_task_states := x25\<rparr>) = work_item_fk w"
  "work_item_fk (w\<lparr>w_events := x26\<rparr>) = work_item_fk w"
  "work_item_fk (w\<lparr>w_intents := x27\<rparr>) = work_item_fk w"
  "work_item_fk (w\<lparr>w_ticks := x28\<rparr>) = work_item_fk w"
  "work_item_fk (w\<lparr>w_drawn := x29\<rparr>) = work_item_fk w"
  by (simp_all add: fun_eq_iff work_item_fk_def)

section \<open>References resolve in a larger store\<close>

lemma opt_all_mono: "opt_all P v \<Longrightarrow> (\<And>x. P x \<Longrightarrow> Q x) \<Longrightarrow> opt_all Q v"
  by (cases v) simp_all

lemma work_item_fk_mono:
  "work_item_fk w r \<Longrightarrow> (\<And>k. has_manifest w k \<Longrightarrow> has_manifest w' k) \<Longrightarrow>
   (\<And>k. has_lease w k \<Longrightarrow> has_lease w' k) \<Longrightarrow> work_item_fk w' r"
  by (auto simp: work_item_fk_def intro: opt_all_mono)

lemma list_all_mono: "list_all P xs \<Longrightarrow> (\<And>x. x \<in> set xs \<Longrightarrow> P x \<Longrightarrow> Q x) \<Longrightarrow> list_all Q xs"
  by (simp add: list_all_iff)

lemma references_mono:
  assumes "references_ok w" "\<And>k. has_manifest w k \<Longrightarrow> has_manifest w' k"
    "\<And>k. has_lease w k \<Longrightarrow> has_lease w' k" "w_heartbeats w' = w_heartbeats w"
    "w_leases w' = w_leases w" "w_work_items w' = w_work_items w"
  shows "references_ok w'"
  using assms unfolding references_ok_def
  by (auto elim!: list_all_mono intro: work_item_fk_mono)

section \<open>Statement by statement\<close>

lemma keep_simple:
  "(\<And>w. store_ok w \<Longrightarrow> store_ok (snd (m w))) \<Longrightarrow> obeys (keeping store_ok) m"
  by (rule keepingI)

lemma store_ok_bookkeeping [simp]:
  "store_ok (w\<lparr>w_ticks := n\<rparr>) = store_ok w" "store_ok (w\<lparr>w_drawn := n\<rparr>) = store_ok w"
  "store_ok (w\<lparr>w_schema := s, w_user_version := v\<rparr>) = store_ok w"
  "store_ok (w\<lparr>w_intents := is\<rparr>) = store_ok w"
  by (simp_all add: store_ok_parts)

lemma keep_migrate: "obeys (keeping store_ok) migrate"
  by (rule keep_simple) (simp add: migrate_def)

lemma keep_utcnow: "obeys (keeping store_ok) utcnow"
  by (rule keep_simple) (simp add: utcnow_def)

lemma keep_uuid: "obeys (keeping store_ok) uuid4_hex"
  by (rule keep_simple) (simp add: uuid4_hex_def)

lemma keep_intent: "obeys (keeping store_ok) (write_intent i)"
  by (rule keep_simple) (simp add: write_intent_def upsert_row_def)

lemma keep_event: "valid_event e \<Longrightarrow> obeys (keeping store_ok) (insert_event e)"
proof (rule keep_simple)
  fix w assume e: "valid_event e" and w: "store_ok w"
  show "store_ok (snd (insert_event e w))"
  proof (cases "tbl_insert event_id e (w_events w)")
    case None
    with w show ?thesis by (simp add: insert_event_def insert_row_def)
  next
    case (Some rows)
    with w have "keyed event_id rows" by (auto simp: store_ok_parts intro: keyed_insert)
    moreover have "list_all valid_event rows"
      using Some e w by (auto simp: tbl_insert_def store_ok_parts split: if_splits)
    ultimately show ?thesis using w Some
      by (simp add: insert_event_def insert_row_def store_ok_parts)
  qed
qed

lemma keep_manifest:
  "parse_client_manifest m = Inr m \<Longrightarrow> obeys (keeping store_ok) (insert_manifest m t)"
proof (rule keep_simple)
  fix w assume m: "parse_client_manifest m = Inr m" and w: "store_ok w"
  let ?r = "\<lparr>mr_manifest = m, mr_registered_at = t\<rparr>"
  show "store_ok (snd (insert_manifest m t w))"
  proof (cases "tbl_insert manifest_key ?r (w_manifests w)")
    case None
    with w show ?thesis by (simp add: insert_manifest_def insert_row_def)
  next
    case (Some rows)
    let ?w = "w\<lparr>w_manifests := rows\<rparr>"
    have rows: "rows = w_manifests w @ [?r]" using Some by (auto simp: tbl_insert_def split: if_splits)
    have "keyed manifest_key rows" using w Some by (auto simp: store_ok_parts intro: keyed_insert)
    moreover have "references_ok ?w"
      by (rule references_mono [of w]) (use w in \<open>auto simp: store_ok_def has_manifest_def has_lease_def rows\<close>)
    ultimately have "store_ok ?w"
      using w m by (simp add: store_ok_def rows_keyed_def payloads_ok_def states_ok_def rows)
    with Some show ?thesis by (simp add: insert_manifest_def insert_row_def)
  qed
qed

lemma keep_lease: "obeys (keeping store_ok) (write_lease l)"
proof (rule keep_simple)
  fix w assume w: "store_ok w"
  let ?rows = "tbl_upsert lease_task_id take_new l (w_leases w)"
  let ?w = "w\<lparr>w_leases := ?rows\<rparr>"
  show "store_ok (snd (write_lease l w))"
  proof (cases "has_manifest w (lease_client_id l)")
    case False
    with w show ?thesis by (simp add: write_lease_def upsert_row_def)
  next
    case True
    have "keyed lease_task_id ?rows" using w by (intro keyed_upsert) (auto simp: store_ok_parts)
    moreover have "list_all (\<lambda>l. has_manifest ?w (lease_client_id l)) ?rows"
      using True w
      by (auto simp: list_all_iff has_manifest_def store_ok_parts dest!: set_upsert_subset)
    moreover have "list_all (work_item_fk ?w) (w_work_items w)"
    proof (rule list_all_mono [of "work_item_fk w"])
      show "list_all (work_item_fk w) (w_work_items w)" using w by (simp add: store_ok_parts)
      fix r assume "work_item_fk w r"
      then show "work_item_fk ?w r"
        by (rule work_item_fk_mono) (auto simp: has_manifest_def has_lease_def keys_upsert)
    qed
    moreover have "list_all (\<lambda>r. has_manifest ?w (hr_client_id r)) (w_heartbeats w)"
      using w by (simp add: store_ok_parts has_manifest_def)
    ultimately have "store_ok ?w"
      using w by (simp add: store_ok_def rows_keyed_def payloads_ok_def states_ok_def references_ok_def)
    with True show ?thesis by (simp add: write_lease_def upsert_row_def)
  qed
qed

lemma merge_key: "merge \<in> {merge_heartbeat, merge_stale} \<Longrightarrow> hr_client_id old = hr_client_id r \<Longrightarrow>
    hr_client_id (merge old r) = hr_client_id r"
  by (auto simp: merge_heartbeat_def merge_stale_def)

lemma keep_heartbeat:
  assumes "merge \<in> {merge_heartbeat, merge_stale}"
  shows "obeys (keeping store_ok) (write_heartbeat merge r)"
proof (rule keep_simple)
  fix w assume w: "store_ok w"
  let ?rows = "tbl_upsert hr_client_id merge r (w_heartbeats w)"
  let ?w = "w\<lparr>w_heartbeats := ?rows\<rparr>"
  show "store_ok (snd (write_heartbeat merge r w))"
  proof (cases "has_manifest w (hr_client_id r)")
    case False
    with w show ?thesis by (simp add: write_heartbeat_def upsert_row_def)
  next
    case True
    have "keyed hr_client_id ?rows"
      using w merge_key [OF assms] by (intro keyed_upsert) (auto simp: store_ok_parts)
    moreover have keys: "hr_client_id ` set ?rows = insert (hr_client_id r) (hr_client_id ` set (w_heartbeats w))"
      by (rule keys_upsert) (rule merge_key [OF assms])
    have "has_manifest w (hr_client_id x)" if "x \<in> set ?rows" for x
    proof -
      have "hr_client_id x \<in> hr_client_id ` set ?rows" using that by (rule imageI)
      with True w show ?thesis unfolding keys by (auto simp: list_all_iff store_ok_parts)
    qed
    then have "list_all (\<lambda>r. has_manifest ?w (hr_client_id r)) ?rows"
      by (simp add: list_all_iff)
    ultimately have "store_ok ?w"
      using w by (simp add: store_ok_def rows_keyed_def payloads_ok_def states_ok_def references_ok_def)
    with True show ?thesis by (simp add: write_heartbeat_def upsert_row_def)
  qed
qed


lemma has_manifest_delete: "has_manifest (delete_client k w) x \<longleftrightarrow> has_manifest w x \<and> x \<noteq> k"
  by (auto simp: has_manifest_def delete_client_def Let_def set_delete manifest_key_def)

lemma has_lease_delete:
  "keyed lease_task_id (w_leases w) \<Longrightarrow> has_lease (delete_client k w) t \<longleftrightarrow>
   has_lease w t \<and> t \<notin> lease_task_id ` set (filter (\<lambda>l. lease_client_id l = k) (w_leases w))"
  by (auto simp: has_lease_def delete_client_def Let_def keyed_def distinct_map inj_on_def image_iff)

lemma keep_delete: "obeys (keeping store_ok) (writes (delete_client k))"
proof (rule keep_simple)
  fix w assume w: "store_ok w"
  let ?w = "delete_client k w"
  have leases: "keyed lease_task_id (w_leases w)" using w by (simp add: store_ok_parts)
  have keyed: "rows_keyed ?w"
    using w
    by (simp add: store_ok_def rows_keyed_def delete_client_def Let_def keyed_delete keyed_filter
        keyed_map work_item_key_def)
  have payloads: "payloads_ok ?w"
    using w
    by (auto simp: store_ok_def payloads_ok_def delete_client_def Let_def list_all_iff set_delete
        item_row_ok_def column_ok_def split: option.splits)
  have rows: "w_heartbeats ?w = tbl_delete hr_client_id k (w_heartbeats w)"
    "w_leases ?w = filter (\<lambda>l. lease_client_id l \<noteq> k) (w_leases w)"
    by (simp_all add: delete_client_def Let_def)
  have "list_all (\<lambda>r. has_manifest ?w (hr_client_id r)) (w_heartbeats ?w)"
    using w unfolding rows by (auto simp: has_manifest_delete store_ok_parts list_all_iff set_delete)
  moreover have "list_all (\<lambda>l. has_manifest ?w (lease_client_id l)) (w_leases ?w)"
    using w unfolding rows by (auto simp: has_manifest_delete store_ok_parts list_all_iff)
  moreover have "work_item_fk ?w x" if x: "x \<in> set (w_work_items ?w)" for x
  proof -
    from x obtain r where r: "r \<in> set (w_work_items w)"
      and a: "wr_assigned_client_id x = (if wr_assigned_client_id r = Some k then None else wr_assigned_client_id r)"
      and l: "wr_lease_id x = (case wr_lease_id r of None \<Rightarrow> None
          | Some t \<Rightarrow> if t \<in> lease_task_id ` set (filter (\<lambda>l. lease_client_id l = k) (w_leases w)) then None else Some t)"
      by (auto simp: delete_client_def Let_def)
    have "work_item_fk w r" using w r by (simp add: store_ok_parts list_all_iff)
    then have "opt_all (has_manifest w) (wr_assigned_client_id r)" "opt_all (has_lease w) (wr_lease_id r)"
      by (simp_all add: work_item_fk_def)
    then have "opt_all (has_manifest ?w) (wr_assigned_client_id x)"
      unfolding a by (cases "wr_assigned_client_id r") (auto simp: has_manifest_delete)
    moreover have "opt_all (has_lease ?w) (wr_lease_id x)"
      using \<open>opt_all (has_lease w) (wr_lease_id r)\<close> unfolding l
      by (cases "wr_lease_id r") (auto simp: has_lease_delete [OF leases])
    ultimately show ?thesis by (simp add: work_item_fk_def)
  qed
  ultimately have refs: "references_ok ?w" by (simp add: references_ok_def list_all_iff)
  have "states_ok ?w"
    using w by (auto simp: store_ok_def states_ok_def delete_client_def Let_def list_all_iff)
  with keyed payloads refs show "store_ok (snd (writes (delete_client k) w))"
    by (simp add: store_ok_def)
qed

section \<open>Work item rows\<close>

definition put_state :: "work_item \<Rightarrow> world \<Rightarrow> world" where
  "put_state i w = w\<lparr>w_task_states := tbl_upsert task_state_key take_new (run_task_state_of i) (w_task_states w)\<rparr>"

lemma upsert_state_run:
  "migrated w \<Longrightarrow> upsert_run_task_state (run_task_state_of i) w = (Inr (run_task_state_of i), put_state i w)"
  by (simp add: upsert_run_task_state_def upsert_row_def put_state_def andthen_def)

lemma migrated_frames [simp]:
  "migrated (w\<lparr>w_work_items := x1\<rparr>) = migrated w" "migrated (put_state i w) = migrated w"
  "migrated (w\<lparr>w_ticks := x2\<rparr>) = migrated w" "migrated (w\<lparr>w_drawn := x3\<rparr>) = migrated w"
  "migrated (w\<lparr>w_events := x4\<rparr>) = migrated w" "migrated (w\<lparr>w_leases := x5\<rparr>) = migrated w"
  "migrated (w\<lparr>w_heartbeats := x6\<rparr>) = migrated w" "migrated (w\<lparr>w_manifests := x7\<rparr>) = migrated w"
  "migrated (w\<lparr>w_task_states := x8\<rparr>) = migrated w"
  by (simp_all add: migrated_def put_state_def)

lemma put_state_put_state: "put_state i (put_state i w) = put_state i w"
proof -
  have "tbl_upsert key take_new r (tbl_upsert key take_new r rows) = tbl_upsert key take_new r rows"
    for key :: "run_task_state \<Rightarrow> pystr \<times> pystr" and r rows
  proof (cases "tbl_find key (key r) rows")
    case None
    then have "key r \<notin> key ` set rows" by (simp add: tbl_find_None)
    then have "map (\<lambda>old. if key old = key r then take_new old r else old) rows = rows"
      by (intro map_idI) (auto simp: image_iff)
    with None show ?thesis
      by (simp add: tbl_upsert_def tbl_find_append tbl_find_Cons)
  next
    case (Some x)
    let ?rows = "map (\<lambda>old. if key old = key r then take_new old r else old) rows"
    have "tbl_find key (key r) ?rows \<noteq> None" using Some by (auto simp: tbl_find_None dest!: tbl_find_SomeD)
    with Some show ?thesis by (auto simp: tbl_upsert_def)
  qed
  then show ?thesis by (simp add: put_state_def)
qed

text \<open>Writing the state of an item keeps every other state.\<close>

lemma state_mirrored_put:
  "state_mirrored (w_task_states (put_state i w)) j \<longleftrightarrow>
   (if (wi_run_id j, wi_work_item_id j) = (wi_run_id i, wi_work_item_id i)
    then run_task_state_of j = run_task_state_of i else state_mirrored (w_task_states w) j)"
  by (auto simp: state_mirrored_def put_state_def tbl_find_upsert task_state_key_def split: option.splits)

lemma store_ok_put_state:
  assumes "rows_keyed w" "payloads_ok w" "references_ok w"
    and "\<And>r. r \<in> set (w_work_items w) \<Longrightarrow> wr_item r = i \<or>
           (wi_work_item_id (wr_item r) \<noteq> wi_work_item_id i \<and> state_mirrored (w_task_states w) (wr_item r))"
  shows "store_ok (put_state i w)"
proof -
  have "rows_keyed (put_state i w)"
    using assms(1) by (auto simp: rows_keyed_def put_state_def intro: keyed_upsert)
  moreover have "payloads_ok (put_state i w)" using assms(2) by (simp add: payloads_ok_def put_state_def)
  moreover have "references_ok (put_state i w)"
    using assms(3) by (simp add: references_ok_def put_state_def)
  moreover have "states_ok (put_state i w)"
    unfolding states_ok_def list_all_iff
  proof
    fix r assume "r \<in> set (w_work_items (put_state i w))"
    then have "r \<in> set (w_work_items w)" by (simp add: put_state_def)
    from assms(4) [OF this] show "state_mirrored (w_task_states (put_state i w)) (wr_item r)"
      by (auto simp: state_mirrored_put)
  qed
  ultimately show ?thesis by (simp add: store_ok_def)
qed

lemma create_rows_run:
  assumes "migrated w" "valid_work_item i"
  shows "create_rows i w =
    (case tbl_insert work_item_key (row_of i) (w_work_items w) of
       None \<Rightarrow> (Inl unique_failed, w)
     | Some rows \<Rightarrow> if work_item_fk w (row_of i) then (Inr i, put_state i (w\<lparr>w_work_items := rows\<rparr>))
                    else (Inl fk_failed, w))"
  using assms
  by (simp add: create_rows_def save_work_item_def insert_row_def andthen_def from_work_item_valid
      upsert_state_run put_state_put_state split: option.splits)

lemma keep_after_migrate:
  assumes "begins_with_migrate m" "\<And>w. store_ok w \<Longrightarrow> migrated w \<Longrightarrow> store_ok (snd (m w))"
  shows "obeys (keeping store_ok) m"
proof (rule keep_simple)
  fix w assume w: "store_ok w"
  show "store_ok (snd (m w))"
  proof (cases "schema_version < w_user_version w")
    case True
    then obtain e where "migrate w = (Inl e, w)" using migrate_newer by blast
    with assms(1) w show ?thesis by (metis begins_with_migrate_Inl snd_conv)
  next
    case False
    then obtain w' where "migrate w = (Inr (), w')" "migrated w'"
      by (auto simp: migrate_def migrated_def)
    then show ?thesis
      using assms keepingD [OF keep_migrate w] by (metis begins_with_migrate_Inr)
  qed
qed

lemma begins_create_rows: "begins_with_migrate (create_rows i)"
  unfolding create_rows_def save_work_item_def by (intro begins_andthen begins_migrate)

lemma keep_create:
  assumes i: "valid_work_item i"
  shows "obeys (keeping store_ok) (create_rows i)"
proof (rule keep_after_migrate [OF begins_create_rows])
  fix w assume w: "store_ok w" and m: "migrated w"
  show "store_ok (snd (create_rows i w))"
  proof (cases "tbl_insert work_item_key (row_of i) (w_work_items w)")
    case None
    with w show ?thesis by (simp add: create_rows_run [OF m i])
  next
    case (Some rows)
    then have rows: "rows = w_work_items w @ [row_of i]"
      and new: "r \<in> set (w_work_items w) \<Longrightarrow> wi_work_item_id (wr_item r) \<noteq> wi_work_item_id i" for r
      by (auto simp: tbl_insert_def tbl_find_None row_of_def work_item_key_def image_iff split: if_splits)
    let ?w = "w\<lparr>w_work_items := rows\<rparr>"
    show ?thesis
    proof (cases "work_item_fk w (row_of i)")
      case True
      have "store_ok (put_state i ?w)"
      proof (rule store_ok_put_state)
        show "rows_keyed ?w" using w Some by (auto simp: store_ok_parts intro: keyed_insert)
        show "payloads_ok ?w"
          using w i by (simp add: store_ok_parts rows item_row_ok_def row_of_def column_ok_def)
        show "references_ok ?w" using w True by (simp add: store_ok_parts rows)
        fix r assume "r \<in> set (w_work_items ?w)"
        then show "wr_item r = i \<or> (wi_work_item_id (wr_item r) \<noteq> wi_work_item_id i
            \<and> state_mirrored (w_task_states ?w) (wr_item r))"
          using w new by (auto simp: rows row_of_def store_ok_parts list_all_iff)
      qed
      with Some True show ?thesis by (simp add: create_rows_run [OF m i])
    next
      case False
      with Some w show ?thesis by (simp add: create_rows_run [OF m i])
    qed
  qed
qed

text \<open>The run of \<open>transition_rows\<close> on a database whose rows validate.\<close>

lemma changed_item_Inr:
  assumes "changed_item i st ch now = Inr i'"
  shows "wi_work_item_id i' = wi_work_item_id i" "wi_run_id i' = wi_run_id i" "valid_work_item i'"
    "wi_status i' = st" "wi_updated_at i' = normalize_time now"
    "st = Requeued \<Longrightarrow> wi_assigned_client_id i' = None \<and> wi_lease_id i' = None"
    "st \<noteq> Requeued \<Longrightarrow> wi_assigned_client_id i' = or_old (ch_assigned_client_id ch) (wi_assigned_client_id i)"
    "wi_priority i' = wi_priority i" "wi_created_at i' = wi_created_at i"
    "wi_governance i' = wi_governance i"
  using assms
  by (auto simp: changed_item_def update_work_item_def valid_work_item_def split: sum.splits if_splits)

lemma load_work_item_run:
  "migrated w \<Longrightarrow> load_work_item k w =
     (find_or_key_error k (tbl_find work_item_key k (w_work_items w)) (\<lambda>r. parse_work_item (wr_item r)), w)"
  by (simp add: load_work_item_def)

lemma stored_item_valid:
  "payloads_ok w \<Longrightarrow> tbl_find work_item_key k (w_work_items w) = Some r \<Longrightarrow>
   valid_work_item (wr_item r) \<and> wi_work_item_id (wr_item r) = k \<and> r \<in> set (w_work_items w)"
  by (auto dest!: tbl_find_SomeD simp: payloads_ok_def list_all_iff item_row_ok_def work_item_key_def)

definition put_item :: "work_item \<Rightarrow> world \<Rightarrow> world" where
  "put_item i w = put_state i (w\<lparr>w_work_items :=
     tbl_update work_item_key (wi_work_item_id i) (\<lambda>_. row_of i) (w_work_items w)\<rparr>)"

lemma store_update_work_item_run:
  assumes "migrated w" "valid_work_item i"
    "tbl_find work_item_key (wi_work_item_id i) (w_work_items w) = Some r" "valid_work_item (wr_item r)"
  shows "store_update_work_item i w =
    (if work_item_fk w (row_of i) then (Inr i, put_item i w) else (Inl fk_failed, w))"
  using assms
  by (simp add: store_update_work_item_def andthen_def load_work_item_run update_work_item_row_def
      from_work_item_valid upsert_state_run put_item_def parse_work_item_def)

definition tick :: "world \<Rightarrow> world" where
  "tick w = w\<lparr>w_ticks := Suc (w_ticks w)\<rparr>"

lemma tick_frames [simp]:
  "migrated (tick w) = migrated w" "w_work_items (tick w) = w_work_items w"
  "work_item_fk (tick w) = work_item_fk w" "store_ok (tick w) = store_ok w"
  "w_events (tick w) = w_events w" "w_leases (tick w) = w_leases w"
  "w_task_states (tick w) = w_task_states w" "w_manifests (tick w) = w_manifests w"
  "w_heartbeats (tick w) = w_heartbeats w"
  by (simp_all add: tick_def)

lemma migrated_put_item [simp]: "migrated (put_item i w) = migrated w"
  by (simp add: put_item_def)

lemma put_item_again: "put_state i (put_item i w) = put_item i w"
  by (simp add: put_item_def put_state_put_state)

lemma transition_rows_run:
  assumes m: "migrated w" and ok: "payloads_ok w"
  shows "transition_rows k st ch w =
    (case tbl_find work_item_key k (w_work_items w) of
       None \<Rightarrow> (Inl (KeyError k), w)
     | Some r \<Rightarrow>
         (let i = wr_item r; d = transition_decision (wi_status i) st in
          if \<not> allow d then (Inr (i, d), w)
          else case changed_item i st ch (now_of w) of
                 Inl e \<Rightarrow> (Inl e, tick w)
               | Inr i' \<Rightarrow> if work_item_fk w (row_of i') then (Inr (i', d), put_item i' (tick w))
                          else (Inl fk_failed, tick w)))"
proof (cases "tbl_find work_item_key k (w_work_items w)")
  case None
  with m show ?thesis by (simp add: transition_rows_def andthen_def load_work_item_run)
next
  case (Some r)
  note r = stored_item_valid [OF ok Some]
  have load: "load_work_item k w = (Inr (wr_item r), w)"
    using m Some r by (simp add: load_work_item_run)
  show ?thesis
  proof (cases "allow (transition_decision (wi_status (wr_item r)) st)")
    case False
    with Some load show ?thesis by (simp add: transition_rows_def andthen_Inr [of _ _ _ w] Let_def)
  next
    case True
    show ?thesis
    proof (cases "changed_item (wr_item r) st ch (now_of w)")
      case (Inl e)
      with True Some load show ?thesis
        by (simp add: transition_rows_def andthen_Inr [of _ _ _ w] Let_def now_of_def tick_def)
    next
      case (Inr i')
      note c = changed_item_Inr [OF Inr]
      have "tbl_find work_item_key (wi_work_item_id i') (w_work_items (tick w)) = Some r"
        using Some r c by simp
      with m c r have upd: "store_update_work_item i' (tick w) =
          (if work_item_fk w (row_of i') then (Inr i', put_item i' (tick w)) else (Inl fk_failed, tick w))"
        by (subst store_update_work_item_run) (auto simp: )
      show ?thesis
        using True Some load Inr upd m c
        by (simp add: transition_rows_def andthen_def Let_def now_of_def tick_def [symmetric] utcnow_def
            from_work_item_valid upsert_state_run put_item_again)
    qed
  qed
qed

lemma begins_transition_rows: "begins_with_migrate (transition_rows k st ch)"
  unfolding transition_rows_def load_work_item_def by (intro begins_andthen begins_migrate)

lemma store_ok_put_item:
  assumes w: "store_ok w" and i: "valid_work_item i" and fk: "work_item_fk w (row_of i)"
  shows "store_ok (put_item i w)"
  unfolding put_item_def
proof (rule store_ok_put_state)
  let ?rows = "tbl_update work_item_key (wi_work_item_id i) (\<lambda>_. row_of i) (w_work_items w)"
  let ?w = "w\<lparr>w_work_items := ?rows\<rparr>"
  have key: "work_item_key (row_of i) = wi_work_item_id i" by (simp add: work_item_key_def row_of_def)
  have rows: "x = row_of i \<or> (x \<in> set (w_work_items w) \<and> work_item_key x \<noteq> wi_work_item_id i)"
    if "x \<in> set ?rows" for x using set_update_cases [OF that] by auto
  have "keyed work_item_key ?rows" using w key by (intro keyed_update) (auto simp: store_ok_parts)
  then show "rows_keyed ?w" using w by (simp add: store_ok_parts)
  have "item_row_ok (row_of i)" using i by (simp add: item_row_ok_def row_of_def column_ok_def)
  then show "payloads_ok ?w" using w rows by (fastforce simp: store_ok_def payloads_ok_def list_all_iff)
  show "references_ok ?w" using w fk rows by (fastforce simp: store_ok_def references_ok_def list_all_iff)
  fix r assume "r \<in> set (w_work_items ?w)"
  then have "r \<in> set ?rows" by simp
  from rows [OF this] show "wr_item r = i \<or> (wi_work_item_id (wr_item r) \<noteq> wi_work_item_id i
      \<and> state_mirrored (w_task_states ?w) (wr_item r))"
    using w by (auto simp: store_ok_parts list_all_iff row_of_def work_item_key_def)
qed

lemma keep_transition: "obeys (keeping store_ok) (transition_rows k st ch)"
proof (rule keep_after_migrate [OF begins_transition_rows])
  fix w assume w: "store_ok w" and m: "migrated w"
  have ok: "payloads_ok w" using w by (simp add: store_ok_def)
  show "store_ok (snd (transition_rows k st ch w))"
    using w by (auto simp: transition_rows_run [OF m ok] Let_def
        intro!: store_ok_put_item changed_item_Inr(3) split: option.splits sum.splits)
qed

interpretation consistent: control_plane_effects "keeping store_ok"
  by unfold_locales
    (simp_all add: keep_migrate keep_utcnow keep_uuid keep_event keep_manifest keep_delete keep_lease
      keep_heartbeat keep_intent keep_create keep_transition del: insert_iff)

end
