(* ===== verification/Histories.thy ===== *)
theory Histories
  imports Store_Invariant Mcp_Gateway
begin

text \<open>
  What may change over time: the event ledger only grows, a work item is never deleted, keeps
  its identity, and its status only moves along the allowed transitions; operations on work
  items leave clients and leases alone.
\<close>

section \<open>Frames\<close>

lemma frame_insert:
  "(\<And>rows w. f (put rows w) = f w) \<Longrightarrow> obeys (same_on f) (insert_row get put key fk r)"
  by (rule sameI) (simp add: insert_row_def split: option.splits)

lemma frame_upsert:
  "(\<And>rows w. f (put rows w) = f w) \<Longrightarrow> obeys (same_on f) (upsert_row get put key merge fk r)"
  by (rule sameI) (simp add: upsert_row_def)

lemma frame_migrate:
  "(\<And>w s v. f (w\<lparr>w_schema := s, w_user_version := v\<rparr>) = f w) \<Longrightarrow> obeys (same_on f) migrate"
  by (rule sameI) (simp add: migrate_def)

lemma frame_utcnow: "(\<And>w n. f (w\<lparr>w_ticks := n\<rparr>) = f w) \<Longrightarrow> obeys (same_on f) utcnow"
  by (rule sameI) (simp add: utcnow_def)

lemma frame_uuid: "(\<And>w n. f (w\<lparr>w_drawn := n\<rparr>) = f w) \<Longrightarrow> obeys (same_on f) uuid4_hex"
  by (rule sameI) (simp add: uuid4_hex_def)

lemma frame_event: "(\<And>rows w. f (w\<lparr>w_events := rows\<rparr>) = f w) \<Longrightarrow> obeys (same_on f) (insert_event e)"
  unfolding insert_event_def by (rule frame_insert)

lemma frame_manifest:
  "(\<And>rows w. f (w\<lparr>w_manifests := rows\<rparr>) = f w) \<Longrightarrow> obeys (same_on f) (insert_manifest m t)"
  unfolding insert_manifest_def by (rule frame_insert)

lemma frame_lease: "(\<And>rows w. f (w\<lparr>w_leases := rows\<rparr>) = f w) \<Longrightarrow> obeys (same_on f) (write_lease l)"
  unfolding write_lease_def by (rule frame_upsert)

lemma frame_heartbeat:
  "(\<And>rows w. f (w\<lparr>w_heartbeats := rows\<rparr>) = f w) \<Longrightarrow> obeys (same_on f) (write_heartbeat mg r)"
  unfolding write_heartbeat_def by (rule frame_upsert)

lemma frame_intent: "(\<And>rows w. f (w\<lparr>w_intents := rows\<rparr>) = f w) \<Longrightarrow> obeys (same_on f) (write_intent i)"
  unfolding write_intent_def by (rule frame_upsert)

lemma frame_delete: "(\<And>w. f (delete_client k w) = f w) \<Longrightarrow> obeys (same_on f) (writes (delete_client k))"
  by (rule sameI) simp

text \<open>A part of the world that work item statements do not touch.\<close>

definition beside_items :: "(world \<Rightarrow> 'a) \<Rightarrow> bool" where
  "beside_items f =
     ((\<forall>w s v. f (w\<lparr>w_schema := s, w_user_version := v\<rparr>) = f w)
      \<and> (\<forall>w n. f (w\<lparr>w_ticks := n\<rparr>) = f w) \<and> (\<forall>w n. f (w\<lparr>w_drawn := n\<rparr>) = f w)
      \<and> (\<forall>w rows. f (w\<lparr>w_work_items := rows\<rparr>) = f w)
      \<and> (\<forall>w rows. f (w\<lparr>w_task_states := rows\<rparr>) = f w))"

lemma beside_frames:
  assumes "beside_items f"
  shows "obeys (same_on f) migrate" "obeys (same_on f) utcnow" "obeys (same_on f) uuid4_hex"
    "obeys (same_on f) (update_work_item_row i)" "obeys (same_on f) (upsert_run_task_state s)"
    "obeys (same_on f) (load_work_item k)"
proof -
  show m: "obeys (same_on f) migrate" and u: "obeys (same_on f) utcnow" "obeys (same_on f) uuid4_hex"
    using assms by (auto simp: beside_items_def intro!: frame_migrate frame_utcnow frame_uuid)
  show "obeys (same_on f) (update_work_item_row i)"
    using assms by (auto simp: beside_items_def update_work_item_row_def intro!: sameI)
  show "obeys (same_on f) (upsert_run_task_state s)"
    unfolding upsert_run_task_state_def
    by (intro frame.effect_intros m frame_upsert) (use assms in \<open>auto simp: beside_items_def\<close>)
  show "obeys (same_on f) (load_work_item k)"
    unfolding load_work_item_def by (intro frame.effect_intros m)
qed

lemma beside_create_rows: "beside_items f \<Longrightarrow> obeys (same_on f) (create_rows i)"
  unfolding create_rows_def save_work_item_def
  by (intro frame.effect_intros beside_frames frame_insert) (auto simp: beside_items_def)

lemma beside_transition_rows: "beside_items f \<Longrightarrow> obeys (same_on f) (transition_rows k st ch)"
  unfolding transition_rows_def store_update_work_item_def
  by (intro frame.let_proc frame.effect_intros beside_frames)

lemma beside_instances:
  "beside_items w_events" "beside_items w_leases" "beside_items w_manifests" "beside_items w_heartbeats"
  "beside_items w_clock" "beside_items w_uuids" "beside_items w_run_evidence"
  by (simp_all add: beside_items_def)

text \<open>Work item operations and the scheduler leave clients and leases alone.\<close>

interpretation items_keep_leases: item_effects "same_on w_leases"
  by unfold_locales
    (intro frame_event beside_frames beside_create_rows beside_transition_rows beside_instances; simp)+

interpretation items_keep_clients: item_effects "same_on w_manifests"
  by unfold_locales
    (intro frame_event beside_frames beside_create_rows beside_transition_rows beside_instances; simp)+

text \<open>Reading and appending events leaves the work items alone, and so do the lease and client statements.\<close>

definition stored_items :: "world \<Rightarrow> work_item list" where
  "stored_items w = map wr_item (w_work_items w)"

interpretation store_keeps_items: store_effects "same_on stored_items"
  by unfold_locales
    (auto simp: stored_items_def delete_client_def Let_def comp_def
      intro!: frame_event frame_migrate frame_utcnow frame_uuid frame_manifest frame_delete frame_lease
        frame_heartbeat frame_intent)

section \<open>The ledger only grows\<close>

definition ledger_extends :: "world \<Rightarrow> world \<Rightarrow> bool" where
  "ledger_extends w w' = (\<exists>es. w_events w' = w_events w @ es)"

lemma ledger_same: "obeys (same_on w_events) m \<Longrightarrow> obeys ledger_extends m"
  by (auto simp: obeys_def same_on_def ledger_extends_def)

lemma ledger_event: "obeys ledger_extends (insert_event e)"
  by (rule obeysI)
    (auto simp: insert_event_def insert_row_def tbl_insert_def ledger_extends_def split: option.splits if_splits)

interpretation ledger: control_plane_effects ledger_extends
proof unfold_locales
  show "ledger_extends w w" for w by (simp add: ledger_extends_def)
  show "ledger_extends w v \<Longrightarrow> ledger_extends v u \<Longrightarrow> ledger_extends w u" for w v u
    by (auto simp: ledger_extends_def)
  show "obeys ledger_extends (insert_event e)" for e by (rule ledger_event)
qed (auto intro!: ledger_same frame_migrate frame_utcnow frame_uuid frame_manifest frame_delete
    frame_lease frame_heartbeat frame_intent beside_create_rows beside_transition_rows beside_instances
    simp: delete_client_def Let_def)

section \<open>The life of a work item\<close>

definition status_step :: "(work_item_status \<times> work_item_status) set" where
  "status_step = {(s, t). t \<in> set (allowed_transitions s)}"

text \<open>A work item and a later version of it.\<close>

definition item_follows :: "work_item \<Rightarrow> work_item \<Rightarrow> bool" where
  "item_follows i j =
     ((wi_status i, wi_status j) \<in> status_step\<^sup>* \<and> wi_run_id j = wi_run_id i
      \<and> wi_priority j = wi_priority i \<and> wi_created_at j = wi_created_at i
      \<and> wi_governance j = wi_governance i)"

definition item_of :: "world \<Rightarrow> pystr \<Rightarrow> work_item option" where
  "item_of w k = map_option wr_item (tbl_find work_item_key k (w_work_items w))"

definition items_follow :: "world \<Rightarrow> world \<Rightarrow> bool" where
  "items_follow w w' = (\<forall>k i. item_of w k = Some i \<longrightarrow> (\<exists>j. item_of w' k = Some j \<and> item_follows i j))"

definition sound_history :: "world \<Rightarrow> world \<Rightarrow> bool" where
  "sound_history w w' = (store_ok w \<longrightarrow> store_ok w' \<and> items_follow w w')"

lemma item_follows_refl: "item_follows i i"
  by (simp add: item_follows_def)

lemma item_follows_trans: "item_follows i j \<Longrightarrow> item_follows j k \<Longrightarrow> item_follows i k"
  by (auto simp: item_follows_def)

lemma items_follow_trans: "items_follow w v \<Longrightarrow> items_follow v u \<Longrightarrow> items_follow w u"
  unfolding items_follow_def by (meson item_follows_trans)

lemma find_map_item:
  "map_option wr_item (List.find (\<lambda>r. work_item_key r = k) rows) =
   List.find (\<lambda>i. wi_work_item_id i = k) (map wr_item rows)"
  by (induction rows) (auto simp: work_item_key_def)

lemma item_of_stored: "item_of w k = List.find (\<lambda>i. wi_work_item_id i = k) (stored_items w)"
  by (simp add: item_of_def stored_items_def tbl_find_def find_map_item)

lemma item_of_cong: "stored_items w' = stored_items w \<Longrightarrow> item_of w' k = item_of w k"
  by (simp add: item_of_stored)

lemma history_same_items:
  assumes "obeys (keeping store_ok) m" "obeys (same_on stored_items) m"
  shows "obeys sound_history m"
proof (rule obeysI)
  fix w
  have "item_of (snd (m w)) k = item_of w k" for k
    using assms(2) by (intro item_of_cong) (simp add: obeys_def same_on_def)
  then show "sound_history w (snd (m w))"
    using assms(1) by (auto simp: sound_history_def items_follow_def obeys_def keeping_def item_follows_refl)
qed

lemma item_of_put_item:
  "item_of (put_item i w) k =
   (if k = wi_work_item_id i then (if item_of w k = None then None else Some i) else item_of w k)"
  by (simp add: item_of_def put_item_def put_state_def tbl_find_update row_of_def work_item_key_def
      split: option.splits)

lemma history_after_migrate:
  assumes "begins_with_migrate m" "\<And>w. store_ok w \<Longrightarrow> migrated w \<Longrightarrow> sound_history w (snd (m w))"
  shows "obeys sound_history m"
proof (rule obeysI)
  fix w
  show "sound_history w (snd (m w))"
  proof (cases "schema_version < w_user_version w")
    case True
    then obtain e where "migrate w = (Inl e, w)" using migrate_newer by blast
    from begins_with_migrate_Inl [OF assms(1) this] show ?thesis
      by (simp add: sound_history_def items_follow_def item_follows_refl)
  next
    case False
    then obtain w' where w': "migrate w = (Inr (), w')" "migrated w'" "stored_items w' = stored_items w"
      by (auto simp: migrate_def migrated_def stored_items_def)
    show ?thesis
    proof (cases "store_ok w")
      case True
      then have ok: "store_ok w'" using keepingD [OF keep_migrate True w'(1)] by simp
      have "m w = m w'" by (rule begins_with_migrate_Inr [OF assms(1) w'(1)])
      then show ?thesis
        using assms(2) [OF ok w'(2)] ok item_of_cong [OF w'(3)]
        by (simp add: sound_history_def items_follow_def)
    next
      case False
      then show ?thesis by (simp add: sound_history_def)
    qed
  qed
qed

lemma history_create:
  assumes i: "valid_work_item i"
  shows "obeys sound_history (create_rows i)"
proof (rule history_after_migrate [OF begins_create_rows])
  fix w assume ok: "store_ok w" and m: "migrated w"
  have "store_ok (snd (create_rows i w))"
    using keep_create [OF i] ok by (simp add: obeys_def keeping_def)
  moreover have "items_follow w (snd (create_rows i w))"
  proof (cases "tbl_insert work_item_key (row_of i) (w_work_items w)")
    case None
    then show ?thesis by (simp add: create_rows_run [OF m i] items_follow_def item_follows_refl)
  next
    case (Some rows)
    have "tbl_find work_item_key (work_item_key (row_of i)) (w_work_items w) = None"
      using Some by (simp add: tbl_insert_def split: if_splits)
    then have "item_of w k = Some j \<Longrightarrow> item_of (put_state i (w\<lparr>w_work_items := rows\<rparr>)) k = Some j" for k j
      using tbl_find_insert [OF Some, of k] by (auto simp: item_of_def put_state_def split: if_splits)
    with Some show ?thesis
      by (simp add: create_rows_run [OF m i] items_follow_def) (meson item_follows_refl)
  qed
  ultimately show "sound_history w (snd (create_rows i w))" by (simp add: sound_history_def)
qed

lemma allowed_step: "allow (transition_decision s t) \<longleftrightarrow> t \<in> set (allowed_transitions s)"
  by (simp add: transition_decision_def)

lemma history_transition: "obeys sound_history (transition_rows k st ch)"
proof (rule history_after_migrate [OF begins_transition_rows])
  fix w assume ok: "store_ok w" and m: "migrated w"
  have pay: "payloads_ok w" using ok by (simp add: store_ok_def)
  have "store_ok (snd (transition_rows k st ch w))"
    using keep_transition ok by (simp add: obeys_def keeping_def)
  moreover have "items_follow w (snd (transition_rows k st ch w))"
  proof (cases "tbl_find work_item_key k (w_work_items w)")
    case None
    then show ?thesis by (simp add: transition_rows_run [OF m pay] items_follow_def item_follows_refl)
  next
    case (Some r)
    note r = stored_item_valid [OF pay Some]
    have tick: "item_of (tick w) x = item_of w x" for x by (simp add: item_of_def)
    have "items_follow w (put_item i' (tick w))"
      if "changed_item (wr_item r) st ch (now_of w) = Inr i'" "st \<in> set (allowed_transitions (wi_status (wr_item r)))" for i'
    proof -
      note c = changed_item_Inr [OF that(1)]
      have "item_of w k = Some (wr_item r)" using Some by (simp add: item_of_def)
      moreover have "item_follows (wr_item r) i'"
        using that(2) c by (auto simp: item_follows_def status_step_def)
      ultimately show ?thesis
        using c r by (auto simp: items_follow_def item_of_put_item tick item_follows_refl)
    qed
    with Some show ?thesis
      by (auto simp: transition_rows_run [OF m pay] Let_def allowed_step items_follow_def tick item_follows_refl
          split: sum.splits)
  qed
  ultimately show "sound_history w (snd (transition_rows k st ch w))" by (simp add: sound_history_def)
qed

interpretation history: control_plane_effects sound_history
proof unfold_locales
  show "sound_history w w" for w by (simp add: sound_history_def items_follow_def item_follows_refl)
  show "sound_history w v \<Longrightarrow> sound_history v u \<Longrightarrow> sound_history w u" for w v u
    by (auto simp: sound_history_def intro: items_follow_trans)
qed (auto intro!: history_same_items history_create history_transition keep_migrate keep_utcnow keep_uuid
    keep_event keep_manifest keep_delete keep_lease keep_heartbeat keep_intent
    store_keeps_items.eff_migrate store_keeps_items.eff_utcnow store_keeps_items.eff_uuid
    store_keeps_items.eff_event store_keeps_items.eff_manifest store_keeps_items.eff_delete
    store_keeps_items.eff_lease store_keeps_items.eff_heartbeat store_keeps_items.eff_intent simp del: insert_iff)

section \<open>A migrated database stays migrated\<close>

lemma keep_migrated_same:
  "obeys (same_on w_user_version) m \<Longrightarrow> obeys (keeping migrated) m"
  by (auto simp: obeys_def same_on_def keeping_def migrated_def)

lemma keep_migrated_migrate: "obeys (keeping migrated) migrate"
  by (rule keepingI) simp

lemma keep_migrated_state: "obeys (keeping migrated) (upsert_run_task_state s)"
  unfolding upsert_run_task_state_def
  by (intro invariant.effect_intros keep_migrated_migrate keep_migrated_same frame_upsert) simp

lemma keep_migrated_create: "obeys (keeping migrated) (create_rows i)"
  unfolding create_rows_def save_work_item_def
  by (intro invariant.effect_intros keep_migrated_migrate keep_migrated_state keep_migrated_same frame_insert) simp

lemma keep_migrated_transition: "obeys (keeping migrated) (transition_rows k st ch)"
  unfolding transition_rows_def store_update_work_item_def load_work_item_def
proof (intro invariant.let_proc invariant.effect_intros keep_migrated_migrate keep_migrated_state)
  show "obeys (keeping migrated) utcnow" by (rule keep_migrated_same, rule frame_utcnow) simp
  show "obeys (keeping migrated) (update_work_item_row x)" for x
    by (rule keep_migrated_same, rule sameI) (simp add: update_work_item_row_def)
qed

interpretation stays_migrated: control_plane_effects "keeping migrated"
  by unfold_locales
    (auto intro!: keep_migrated_migrate keep_migrated_create keep_migrated_transition keep_migrated_same
      frame_utcnow frame_uuid frame_event frame_manifest frame_delete frame_lease frame_heartbeat frame_intent
      simp: delete_client_def Let_def)

end
