(* ===== verification/Commands.thy ===== *)
theory Commands
  imports Histories
begin

text \<open>
  Every request the control plane services accept, as one command type, and the runs of a
  database under any sequence of them. A command whose handler raises leaves the state its
  handler had reached. pydantic validates the objects a client passes in, which is
  \<open>well_formed\<close>.
\<close>

datatype command =
    Register client_manifest
  | Unregister pystr
  | Beat client_heartbeat
  | Mark_Stale "datetime option" int bool
  | Acquire lease_acquire_request
  | Renew pystr lease_renew_request
  | Release pystr lease_release_request
  | Expire pystr
  | Check_Approval pystr lease_approval_check
  | Create work_item caller "pystr option"
  | Move pystr work_item_status caller change "pystr option"
  | Schedule pystr caller
  | Schedule_Next "pystr option" caller
  | Ingest event_payload
  | Save_Intent operator_intent
  | Poll pystr "pystr option"
  | Tool_Started recorder pystr "(pystr \<times> json) list"
  | Tool_Finished recorder pystr "(pystr \<times> json) list" "pystr option"
  | Tool_Denied recorder pystr pystr

definition discard :: "(world, 'a) proc \<Rightarrow> (world, unit) proc" where
  "discard m = andthen m (\<lambda>_. ret ())"

fun run_command :: "command \<Rightarrow> (world, unit) proc" where
  "run_command (Register m) = discard (register m)"
| "run_command (Unregister k) = discard (unregister k)"
| "run_command (Beat h) = discard (heartbeat h)"
| "run_command (Mark_Stale now limit auto) = discard (mark_stale_clients_with_recovery now limit auto)"
| "run_command (Acquire r) = discard (acquire r)"
| "run_command (Renew t r) = discard (renew t r)"
| "run_command (Release t r) = discard (release t r)"
| "run_command (Expire t) = discard (expire t)"
| "run_command (Check_Approval t r) = discard (check_approval_transition t r)"
| "run_command (Create i c s) = discard (create i c s)"
| "run_command (Move k st c ch s) = discard (transition k st c ch s)"
| "run_command (Schedule k c) = discard (schedule_work_item k c)"
| "run_command (Schedule_Next r c) = discard (schedule_next r c)"
| "run_command (Ingest p) = discard (ingest p)"
| "run_command (Save_Intent i) = discard (save_operator_intent_record i)"
| "run_command (Poll c r) = discard (poll_assigned_work c r)"
| "run_command (Tool_Started r n a) = discard (record_started r n a)"
| "run_command (Tool_Finished r n a d) = discard (record_finished r n a d)"
| "run_command (Tool_Denied r n m) = discard (record_denied r n m)"

fun well_formed :: "command \<Rightarrow> bool" where
  "well_formed (Register m) = (parse_client_manifest m = Inr m)"
| "well_formed (Create i c s) = valid_work_item i"
| "well_formed _ = True"

definition after_command :: "command \<Rightarrow> world \<Rightarrow> world" where
  "after_command c w = snd (run_command c w)"

definition after_commands :: "command list \<Rightarrow> world \<Rightarrow> world" where
  "after_commands cs w = fold after_command cs w"

inductive reachable :: "world \<Rightarrow> bool" where
  start: "reachable (fresh_world clock uuids)"
| step: "reachable w \<Longrightarrow> well_formed c \<Longrightarrow> reachable (after_command c w)"

context control_plane_effects
begin

lemma discard: "obeys R m \<Longrightarrow> obeys R (discard m)"
  unfolding discard_def by (intro effect_intros)

lemma poll: "obeys R (poll_assigned_work c r)"
  unfolding poll_assigned_work_def by (intro reads_effects list_work_items)

lemma run_command:
  assumes "well_formed c"
  shows "obeys R (run_command c)"
  using assms
  by (cases c)
    (auto intro!: discard register unregister heartbeat mark_stale_clients_with_recovery acquire renew release
      expire check_approval_transition create transition schedule_work_item schedule_next ingest
      save_operator_intent_record poll recorder)

lemma command_step: "well_formed c \<Longrightarrow> R w (after_command c w)"
  unfolding after_command_def by (rule obeysD [OF run_command])

lemma command_steps: "list_all well_formed cs \<Longrightarrow> R w (after_commands cs w)"
  by (induction cs arbitrary: w) (auto simp: after_commands_def R_refl intro: R_trans command_step)

end

lemma command_keeps_store_ok: "well_formed c \<Longrightarrow> store_ok w \<Longrightarrow> store_ok (after_command c w)"
  using consistent.command_step [of c w] by (simp add: keeping_def)

lemma commands_keep_store_ok: "list_all well_formed cs \<Longrightarrow> store_ok w \<Longrightarrow> store_ok (after_commands cs w)"
  using consistent.command_steps [of cs w] by (simp add: keeping_def)

lemma reachable_store_ok: "reachable w \<Longrightarrow> store_ok w"
  by (induction rule: reachable.induct) (simp_all add: store_ok_fresh command_keeps_store_ok)

end
