(* ===== verification/Event_Facts.thy ===== *)
theory Event_Facts
  imports Commands
begin

text \<open>
  The event ledger: what recording an event appends, how events are numbered and listed, and
  which roles may ingest which kinds.
\<close>

text \<open>The state after the two default factories of an event were drawn.\<close>

definition drawn :: "world \<Rightarrow> world" where
  "drawn w = w\<lparr>w_drawn := Suc (w_drawn w), w_ticks := Suc (w_ticks w)\<rparr>"

lemma drawn_frames [simp]:
  "migrated (drawn w) = migrated w" "w_events (drawn w) = w_events w" "w_leases (drawn w) = w_leases w"
  "w_work_items (drawn w) = w_work_items w" "w_manifests (drawn w) = w_manifests w"
  "w_heartbeats (drawn w) = w_heartbeats w" "w_task_states (drawn w) = w_task_states w"
  "store_ok (drawn w) = store_ok w"
  by (simp_all add: drawn_def migrated_def store_ok_parts)

definition next_event :: "(int \<Rightarrow> pystr \<Rightarrow> datetime \<Rightarrow> control_plane_event) \<Rightarrow> world \<Rightarrow> control_plane_event" where
  "next_event f w = f (int (length (w_events w)) + 1) (event_id_of (next_uuid w)) (now_of w)"

text \<open>The event can be stored: its fields validate and its id is not taken.\<close>

definition can_append :: "control_plane_event \<Rightarrow> world \<Rightarrow> bool" where
  "can_append e w = (valid_event e \<and> event_id e \<notin> event_id ` set (w_events w))"

definition with_event :: "control_plane_event \<Rightarrow> world \<Rightarrow> world" where
  "with_event e w = (drawn w)\<lparr>w_events := w_events w @ [e]\<rparr>"

lemma with_event_frames [simp]:
  "migrated (with_event e w) = migrated w" "w_events (with_event e w) = w_events w @ [e]"
  "w_leases (with_event e w) = w_leases w" "w_work_items (with_event e w) = w_work_items w"
  "w_manifests (with_event e w) = w_manifests w" "w_heartbeats (with_event e w) = w_heartbeats w"
  "w_task_states (with_event e w) = w_task_states w"
  by (simp_all add: with_event_def)

lemma event_id_safe: "is_uuid_hex u \<Longrightarrow> safe_identifier (event_id_of u) \<and> length (event_id_of u) \<le> 120"
  using uuid_safe [of u]
  by (auto simp: event_id_of_def is_uuid_hex_def safe_identifier_def has_any_def path_separators_def)

lemma list_events_run:
  "migrated w \<Longrightarrow> list_all valid_event (w_events w) \<Longrightarrow>
   list_control_plane_events None None w = (Inr (sort_key event_order (w_events w)), w)"
  by (auto simp: list_control_plane_events_def wanted_def list_all_iff intro!: parse_all_id)

lemma append_event_run:
  "migrated w \<Longrightarrow> append_control_plane_event e w =
    (if event_id e \<in> event_id ` set (w_events w) then (Inl unique_failed, w)
     else (Inr e, w\<lparr>w_events := w_events w @ [e]\<rparr>))"
  by (simp add: append_control_plane_event_def insert_row_def tbl_insert_def tbl_find_None andthen_def)

lemma record_event_run:
  assumes "migrated w" "list_all valid_event (w_events w)"
  shows "record_event f w =
    (if can_append (next_event f w) w then (Inr (next_event f w), with_event (next_event f w) w)
     else (Inl (if valid_event (next_event f w) then unique_failed else ValidationError ''ControlPlaneEvent''),
           drawn w))"
proof -
  have "record_event f w = andthen (build_event (f (int (length (w_events w)) + 1))) append_control_plane_event w"
    using list_events_run [OF assms] by (simp add: record_event_def andthen_def)
  then show ?thesis
    using assms(1)
    by (auto simp: build_event_def andthen_def [of uuid4_hex] andthen_def [of utcnow] andthen_def [of "\<lambda>w. _ w"]
        uuid4_hex_def utcnow_def mk_event_def next_event_def next_uuid_def now_of_def drawn_def can_append_def
        with_event_def append_event_run andthen_def migrated_def)
qed

lemma store_ok_events: "store_ok w \<Longrightarrow> list_all valid_event (w_events w)"
  by (simp add: store_ok_parts)

section \<open>Numbering\<close>

text \<open>A ledger that only the services wrote: the events are numbered from one.\<close>

definition ledger_numbered :: "world \<Rightarrow> bool" where
  "ledger_numbered w = (map ev_sequence (w_events w) = map int [1..<Suc (length (w_events w))])"

lemma sorted_by_first:
  assumes "sorted_wrt (<) (map f xs)"
  shows "sort_key (\<lambda>x. (f x, g x, h x)) xs = xs"
proof (rule sort_key_id_if_sorted)
  show "sorted (map (\<lambda>x. (f x, g x, h x)) xs)"
    using assms by (auto simp: sorted_wrt_map intro: sorted_wrt_mono_rel [of _ "\<lambda>x y. f x < f y"])
qed

lemma numbered_sorted: "ledger_numbered w \<Longrightarrow> sort_key event_order (w_events w) = w_events w"
  unfolding event_order_def [abs_def]
  by (rule sorted_by_first) (simp add: ledger_numbered_def sorted_wrt_map sorted_wrt_upt del: upt_Suc)

end
