(* ===== verification/Lease_Facts.thy ===== *)
theory Lease_Facts
  imports Commands
begin

text \<open>
  Who holds a task: the effect of every service operation on the lease table.
\<close>

definition lease_of :: "world \<Rightarrow> pystr \<Rightarrow> task_lease option" where
  "lease_of w t = tbl_find lease_task_id t (w_leases w)"

text \<open>The client that holds a task: its lease is stored and active.\<close>

definition lease_holder :: "world \<Rightarrow> pystr \<Rightarrow> pystr option" where
  "lease_holder w t =
     (case lease_of w t of None \<Rightarrow> None
      | Some l \<Rightarrow> if lease_status l = Ls_Active then Some (lease_client_id l) else None)"

lemma lease_holder_cong: "w_leases w' = w_leases w \<Longrightarrow> lease_holder w' t = lease_holder w t"
  by (simp add: lease_holder_def lease_of_def)

section \<open>Running a step that leaves a part of the state alone\<close>

lemma step_same:
  assumes m: "obeys (same_on f) m"
    and stop: "P (f w)"
    and go: "\<And>x w'. m w = (Inr x, w') \<Longrightarrow> f w' = f w \<Longrightarrow> P (f (snd (k x w')))"
  shows "P (f (snd (andthen m k w)))"
proof -
  obtain r w' where mw: "m w = (r, w')" by fastforce
  have same: "f w' = f w" by (rule sameD [OF m mw])
  show ?thesis
  proof (cases r)
    case (Inl e)
    with mw same stop show ?thesis by (simp add: andthen_def)
  next
    case (Inr x)
    with mw go [of x w'] same show ?thesis by (simp add: andthen_def)
  qed
qed

lemma same_end: "obeys (same_on f) m \<Longrightarrow> P (f w) \<Longrightarrow> P (f (snd (m w)))"
  by (simp add: obeys_def same_on_def)

lemmas lease_reads =
  items_keep_leases.load_client_manifest items_keep_leases.load_task_lease items_keep_leases.list_task_leases

lemma same_leases_outcome: "obeys (same_on w_leases) (lease_outcome c l s st d)"
  unfolding lease_outcome_def by (intro frame.effect_intros items_keep_leases.record_event)

lemma save_task_lease_leases:
  "w_leases (snd (save_task_lease l w)) = w_leases w
   \<or> w_leases (snd (save_task_lease l w)) = tbl_upsert lease_task_id take_new l (w_leases w)"
  unfolding save_task_lease_def
proof (rule step_same [OF lease_reads(1)], simp)
  fix x and w' :: world assume same: "w_leases w' = w_leases w"
  show "w_leases (snd (andthen migrate (\<lambda>_. andthen (upsert_row w_leases (\<lambda>rows w. w\<lparr>w_leases := rows\<rparr>)
        lease_task_id take_new (\<lambda>w l. has_manifest w (lease_client_id l)) l) (\<lambda>_. ret l)) w')) = w_leases w
    \<or> w_leases (snd (andthen migrate (\<lambda>_. andthen (upsert_row w_leases (\<lambda>rows w. w\<lparr>w_leases := rows\<rparr>)
        lease_task_id take_new (\<lambda>w l. has_manifest w (lease_client_id l)) l) (\<lambda>_. ret l)) w'))
      = tbl_upsert lease_task_id take_new l (w_leases w)"
    using same by (auto simp: andthen_def migrate_def upsert_row_def)
qed

text \<open>What saving a lease does to the lease of a task.\<close>

lemma lease_of_save:
  "lease_of (snd (save_task_lease l w)) t = lease_of w t
   \<or> (t = lease_task_id l \<and> lease_of (snd (save_task_lease l w)) t = Some l)"
  using save_task_lease_leases [of l w]
  by (auto simp: lease_of_def list_table.lookup_save split: if_splits)

lemma load_task_lease_Inr:
  "load_task_lease k w = (Inr l, w') \<Longrightarrow> lease_of w' k = Some l \<and> w_leases w' = w_leases w \<and> valid_lease l"
  by (auto simp: load_task_lease_def andthen_def migrate_def lease_of_def find_or_key_error_def
      split: option.splits if_splits)

section \<open>The lease service\<close>

lemma step_lease:
  assumes "obeys (same_on w_leases) m"
    and "Q (lease_of w t)"
    and "\<And>x w'. m w = (Inr x, w') \<Longrightarrow> w_leases w' = w_leases w \<Longrightarrow> lease_of w' t = lease_of w t \<Longrightarrow>
           Q (lease_of (snd (k x w')) t)"
  shows "Q (lease_of (snd (andthen m k w)) t)"
  unfolding lease_of_def
proof (rule step_same [where f = "w_leases :: world \<Rightarrow> task_lease list" and P = "\<lambda>ls. Q (tbl_find lease_task_id t ls)", OF assms(1)])
  show "Q (tbl_find lease_task_id t (w_leases w))" using assms(2) by (simp add: lease_of_def)
  fix x w' assume "m w = (Inr x, w')" "w_leases w' = w_leases w"
  then show "Q (tbl_find lease_task_id t (w_leases (snd (k x w'))))"
    using assms(3) [of x w'] by (simp add: lease_of_def)
qed

lemma save_then:
  assumes "Q (lease_of w t)" "t = lease_task_id l \<Longrightarrow> Q (Some l)" "\<And>x. obeys (same_on w_leases) (k x)"
  shows "Q (lease_of (snd (andthen (save_task_lease l) k w)) t)"
proof -
  obtain r w' where s: "save_task_lease l w = (r, w')" by fastforce
  have "Q (lease_of w' t)"
    using lease_of_save [of l w t] assms(1,2) s by auto
  moreover have "w_leases (snd (k x w')) = w_leases w'" for x
    using assms(3) [of x] by (simp add: obeys_def same_on_def)
  ultimately show ?thesis using s by (simp add: andthen_def lease_of_def split: sum.splits)
qed

lemma same_leases_existing: "obeys (same_on w_leases) (existing_lease k)"
  unfolding existing_lease_def by (intro frame.effect_intros lease_reads)

lemma existing_lease_Inr: "existing_lease k w = (Inr ex, w') \<Longrightarrow> ex = lease_of w k"
  by (auto simp: existing_lease_def on_key_error_def andthen_def load_task_lease_def migrate_def lease_of_def
      find_or_key_error_def parse_lease_def split: option.splits if_splits sum.splits exn.splits)

lemma acquire_over_lease_of:
  assumes "opt_all (\<lambda>l. lease_status l \<noteq> Ls_Active) existing \<longrightarrow>
      (\<forall>l. lease_status l = Ls_Active \<and> lease_client_id l = aq_client_id r \<and> lease_task_id l = aq_task_id r
           \<and> t = aq_task_id r \<longrightarrow> Q (Some l))"
    and "Q (lease_of w t)"
  shows "Q (lease_of (snd (acquire_over r existing w)) t)"
proof (cases "opt_all (\<lambda>l. lease_status l \<noteq> Ls_Active) existing")
  case False
  have "w_leases (snd (lease_outcome c l s st d w)) = w_leases w" for c l s st d
    using same_leases_outcome by (simp add: obeys_def same_on_def)
  with False assms(2) show ?thesis by (simp add: acquire_over_def Let_def lease_of_def)
next
  case True
  let ?w = "w\<lparr>w_ticks := Suc (w_ticks w)\<rparr>" and ?n = "Aware (w_clock w (w_ticks w)) 0"
  have w: "Q (lease_of ?w t)" using assms(2) by (simp add: lease_of_def)
  show ?thesis
  proof (cases "new_task_lease r ?n")
    case (Inl e)
    with True w show ?thesis by (simp add: acquire_over_def)
  next
    case (Inr l)
    have "Q (lease_of (snd (andthen (save_task_lease l) (\<lambda>saved. lease_outcome 201 saved
        ''Task lease acquired.'' Ev_Active (allowed ''task lease acquired'')) ?w)) t)"
      by (rule save_then [where Q = Q])
        (use w True assms(1) new_task_lease_Inr [OF Inr] same_leases_outcome in auto)
    with True Inr show ?thesis by (simp add: acquire_over_def)
  qed
qed

lemma acquire_lease_of:
  "lease_of (snd (acquire r w)) t = lease_of w t
   \<or> (t = aq_task_id r \<and> lease_holder w t = None \<and>
      (\<exists>l. lease_of (snd (acquire r w)) t = Some l \<and> lease_status l = Ls_Active
           \<and> lease_client_id l = aq_client_id r \<and> lease_task_id l = t))"
proof -
  let ?Q = "\<lambda>v. v = lease_of w t \<or> (t = aq_task_id r \<and> lease_holder w t = None \<and>
      (\<exists>l. v = Some l \<and> lease_status l = Ls_Active \<and> lease_client_id l = aq_client_id r \<and> lease_task_id l = t))"
  have "?Q (lease_of (snd (acquire r w)) t)"
    unfolding acquire_def
  proof (rule step_lease [where Q = ?Q, OF lease_reads(1)])
    fix m w1 assume w1: "w_leases w1 = w_leases w" "lease_of w1 t = lease_of w t"
    show "?Q (lease_of (snd (andthen (existing_lease (aq_task_id r)) (acquire_over r) w1)) t)"
    proof (rule step_lease [where Q = ?Q, OF same_leases_existing])
      fix ex w2
      assume ex: "existing_lease (aq_task_id r) w1 = (Inr ex, w2)"
        and w2: "w_leases w2 = w_leases w1" "lease_of w2 t = lease_of w1 t"
      have "ex = lease_of w (aq_task_id r)"
        using w1 existing_lease_Inr [OF ex] by (simp add: lease_of_def)
      then show "?Q (lease_of (snd (acquire_over r ex w2)) t)"
        using w1 w2
        by (intro acquire_over_lease_of [where Q = ?Q]) (auto simp: lease_holder_def split: option.splits)
    qed (use w1 in simp)
  qed simp
  then show ?thesis by simp
qed

lemma require_holder_Inr:
  "require_holder l c = Inr u \<longleftrightarrow> lease_client_id l = c \<and> lease_status l = Ls_Active"
  by (auto simp: require_holder_def)

text \<open>A lease object loaded from the database, changed, and saved.\<close>

lemma change_lease_of:
  assumes "Q (lease_of w t)"
    and "\<And>l w'. lease_of w k = Some l \<Longrightarrow> w_leases w' = w_leases w \<Longrightarrow> Q (lease_of w' t) \<Longrightarrow>
      Q (lease_of (snd (g l w')) t)"
  shows "Q (lease_of (snd (andthen (load_task_lease k) g w)) t)"
proof (rule step_lease [where Q = Q, OF lease_reads(2) assms(1)])
  fix l w' assume l: "load_task_lease k w = (Inr l, w')" and w': "w_leases w' = w_leases w" "lease_of w' t = lease_of w t"
  have "lease_of w k = Some l" using load_task_lease_Inr [OF l] w' by (simp add: lease_of_def)
  then show "Q (lease_of (snd (g l w')) t)" using assms w' by simp
qed

lemma lease_of_key: "lease_of w k = Some l \<Longrightarrow> lease_task_id l = k"
  by (auto simp: lease_of_def dest: tbl_find_SomeD)

lemma renew_lease_of:
  assumes "Q (lease_of w t)"
    and "\<And>l l'. lease_of w t = Some l \<Longrightarrow> lease_status l = Ls_Active \<Longrightarrow> lease_client_id l = rn_client_id r \<Longrightarrow>
      t = k \<Longrightarrow> lease_status l' = Ls_Active \<Longrightarrow> lease_client_id l' = lease_client_id l \<Longrightarrow> Q (Some l')"
  shows "Q (lease_of (snd (renew k r w)) t)"
  unfolding renew_def
proof (rule change_lease_of [where Q = Q, OF assms(1)])
  fix l w' assume l: "lease_of w k = Some l" and w': "w_leases w' = w_leases w" "Q (lease_of w' t)"
  let ?w = "w'\<lparr>w_ticks := Suc (w_ticks w')\<rparr>" and ?n = "Aware (w_clock w' (w_ticks w')) 0"
  have w: "Q (lease_of ?w t)" using w' by (simp add: lease_of_def)
  have "Q (lease_of (snd (andthen (save_task_lease l') (\<lambda>_. lease_outcome 200 l' ''Task lease renewed.'' Ev_Active
      (allowed ''task lease renewed'')) ?w)) t)" if "require_holder l (rn_client_id r) = Inr u"
      "lease_renew ?n (rn_ttl_seconds r) l = Inr l'" for l' u
    by (rule save_then [where Q = Q])
      (use w that l lease_of_key [OF l] lease_renew_Inr [OF that(2)] same_leases_outcome assms(2)
        in \<open>auto simp: require_holder_Inr\<close>)
  then show "Q (lease_of (snd (andthen (lift_result (require_holder l (rn_client_id r))) (\<lambda>_. andthen utcnow (\<lambda>now.
      andthen (lift_result (lease_renew now (rn_ttl_seconds r) l)) (\<lambda>l'. andthen (save_task_lease l') (\<lambda>_.
      lease_outcome 200 l' ''Task lease renewed.'' Ev_Active (allowed ''task lease renewed''))))) w')) t)"
    using w w'(2) by (auto split: sum.splits)
qed

lemma release_lease_of:
  assumes "Q (lease_of w t)"
    and "\<And>l l'. lease_of w t = Some l \<Longrightarrow> lease_status l = Ls_Active \<Longrightarrow> lease_client_id l = rl_client_id r \<Longrightarrow>
      t = k \<Longrightarrow> lease_status l' = Ls_Released \<Longrightarrow> Q (Some l')"
  shows "Q (lease_of (snd (release k r w)) t)"
  unfolding release_def
proof (rule change_lease_of [where Q = Q, OF assms(1)])
  fix l w' assume l: "lease_of w k = Some l" and w': "w_leases w' = w_leases w" "Q (lease_of w' t)"
  have "Q (lease_of (snd (andthen (save_task_lease l') (\<lambda>_. lease_outcome 200 l' ''Task lease released.'' Ev_Passed
      (allowed ''task lease released'')) w')) t)" if "require_holder l (rl_client_id r) = Inr u"
      "lease_release (rl_reason r) l = Inr l'" for l' u
    by (rule save_then [where Q = Q])
      (use w' that l lease_of_key [OF l] lease_release_Inr [OF that(2)] same_leases_outcome assms(2)
        in \<open>auto simp: require_holder_Inr\<close>)
  then show "Q (lease_of (snd (andthen (lift_result (require_holder l (rl_client_id r))) (\<lambda>_.
      andthen (lift_result (lease_release (rl_reason r) l)) (\<lambda>l'. andthen (save_task_lease l') (\<lambda>_.
      lease_outcome 200 l' ''Task lease released.'' Ev_Passed (allowed ''task lease released'')))) w')) t)"
    using w'(2) by (auto split: sum.splits)
qed

lemma expire_lease_of:
  assumes "t \<noteq> k"
  shows "lease_of (snd (expire k w)) t = lease_of w t"
  unfolding expire_def Let_def
proof (rule change_lease_of [where Q = "\<lambda>v. v = lease_of w t"])
  fix l w' assume "lease_of w k = Some l" "lease_of w' t = lease_of w t"
  then show "lease_of (snd (andthen (save_task_lease (l\<lparr>lease_status := Ls_Expired, lease_release_reason := Some ''lease expired''\<rparr>))
      (\<lambda>_. lease_outcome 200 (l\<lparr>lease_status := Ls_Expired, lease_release_reason := Some ''lease expired''\<rparr>)
        ''Task lease expired.'' Ev_Stale (allowed ''task lease expired'')) w')) t = lease_of w t"
    using assms by (intro save_then [where Q = "\<lambda>v. v = lease_of w t"])
      (auto dest: lease_of_key intro: same_leases_outcome)
qed simp

section \<open>Other services\<close>

lemma unregister_lease_of:
  assumes "lease_of w t = Some l" "lease_client_id l \<noteq> k"
  shows "lease_of (snd (unregister k w)) t = Some l"
proof -
  have find: "tbl_find lease_task_id t (filter (\<lambda>l. lease_client_id l \<noteq> k) ls) = Some l"
    if "tbl_find lease_task_id t ls = Some l" for ls
    using that assms(2) by (induction ls) (auto simp: tbl_find_Cons split: if_splits)
  have del: "lease_of w' t = Some l \<Longrightarrow> lease_of (delete_client k w') t = Some l" for w'
    by (simp add: lease_of_def delete_client_def Let_def find)
  have un: "lease_of (snd (unregister_client_manifest k w)) t = Some l"
    unfolding unregister_client_manifest_def
    by (rule step_lease [where Q = "\<lambda>v. v = Some l", OF lease_reads(1)]) (use assms del in auto)
  have "obeys (same_on w_leases) (\<lambda>w. andthen (record_event (registry_event m Unregistered)) (\<lambda>e.
      ret \<lparr>rg_manifest = m, rg_event = e\<rparr>) w)" for m
    by (intro frame.effect_intros items_keep_leases.record_event)
  then have same: "w_leases (snd (andthen (record_event (registry_event m Unregistered)) (\<lambda>e.
      ret \<lparr>rg_manifest = m, rg_event = e\<rparr>) w')) = w_leases w'" for m w'
    by (simp add: obeys_def same_on_def)
  show ?thesis
    using un by (cases "unregister_client_manifest k w")
      (simp add: unregister_def andthen_def [of "unregister_client_manifest k"] lease_of_def same
        split: sum.splits)
qed

lemma keep_leases_register: "obeys (same_on w_leases) (register m)"
  unfolding register_def register_client_manifest_def insert_manifest_def [symmetric]
  by (intro frame.effect_intros items_keep_leases.record_event items_keep_leases.eff_migrate
      items_keep_leases.eff_utcnow frame_manifest) simp

lemma keep_leases_heartbeat: "obeys (same_on w_leases) (heartbeat h)"
  unfolding heartbeat_def record_client_heartbeat_def write_heartbeat_def [symmetric]
  by (intro frame.effect_intros frame.lift_bind items_keep_leases.load_client_manifest items_keep_leases.eff_uuid
      items_keep_leases.list_control_plane_events items_keep_leases.append_control_plane_event
      items_keep_leases.eff_migrate frame_heartbeat) simp_all

lemma keep_leases_intent: "obeys (same_on w_leases) (save_operator_intent_record i)"
  unfolding save_operator_intent_record_def write_intent_def [symmetric]
  by (intro frame.effect_intros items_keep_leases.eff_migrate frame_intent) simp

lemma keep_leases_poll: "obeys (same_on w_leases) (poll_assigned_work c r)"
  unfolding poll_assigned_work_def by (intro frame.effect_intros items_keep_leases.list_work_items)

text \<open>The commands that never touch the lease table.\<close>

fun lease_neutral :: "command \<Rightarrow> bool" where
  "lease_neutral (Unregister k) = False"
| "lease_neutral (Mark_Stale now limit auto) = False"
| "lease_neutral (Acquire r) = False"
| "lease_neutral (Renew t r) = False"
| "lease_neutral (Release t r) = False"
| "lease_neutral (Expire t) = False"
| "lease_neutral _ = True"

lemma frame_discard: "obeys (same_on f) m \<Longrightarrow> obeys (same_on f) (discard m)"
  unfolding discard_def by (intro frame.effect_intros)

lemma neutral_keeps_leases:
  assumes "well_formed c" "lease_neutral c"
  shows "obeys (same_on w_leases) (run_command c)"
  using assms
  by (cases c)
    (auto intro!: frame_discard keep_leases_register keep_leases_heartbeat keep_leases_intent keep_leases_poll
      items_keep_leases.check_approval_transition items_keep_leases.create items_keep_leases.transition
      items_keep_leases.schedule_work_item items_keep_leases.schedule_next items_keep_leases.ingest
      items_keep_leases.recorder)

lemma lease_of_discard: "lease_of (snd (discard m w)) t = lease_of (snd (m w)) t"
  by (simp add: discard_def andthen_def split: prod.splits sum.splits)

end
