(* ===== verification/Demo.thy ===== *)
theory Demo
  imports Event_Facts Lease_Facts
begin

text \<open>
  A small concrete database, for the instances that show the hypotheses of the properties can
  hold: a trusted and an untrusted client, an active lease of the trusted one, and work items
  in several statuses.
\<close>

definition demo_clock :: "nat \<Rightarrow> int" where
  "demo_clock n = 1782864000000000 + int n * usec"

definition demo_uuid :: "nat \<Rightarrow> pystr" where
  "demo_uuid n = ''0123456789abcdef0123456789abcde'' @ [hex_digit (n mod 16)]"

definition demo_time :: datetime where
  "demo_time = Aware 1782863990000000 0"

definition demo_client :: "pystr \<Rightarrow> trust_state \<Rightarrow> client_manifest" where
  "demo_client k trust =
     \<lparr>cm_client_id = k, cm_display_name = k, cm_client_type = Codex, cm_version = ''1.0'',
      cm_connection_mode = Mcp, cm_supported_capabilities = [''build''], cm_workspace_root = ''/work'',
      cm_trust_state = trust, cm_requested_policy_permissions = []\<rparr>"

definition demo_lease :: task_lease where
  "demo_lease =
     \<lparr>lease_task_id = ''t1'', lease_run_id = ''r1'', lease_client_id = ''c1'', lease_role = ''builder'',
      lease_actor = ''ann'', lease_acquired_at = demo_time, lease_expires_at = demo_time,
      lease_status = Ls_Active, lease_release_reason = None\<rparr>"

definition demo_item :: "pystr \<Rightarrow> work_item_status \<Rightarrow> pystr option \<Rightarrow> work_item" where
  "demo_item k st who =
     \<lparr>wi_work_item_id = k, wi_run_id = ''r1'', wi_title = ''Item'', wi_description = [],
      wi_role = ''builder'', wi_requested_capability = Some ''build'', wi_priority = 100, wi_status = st,
      wi_created_at = demo_time, wi_updated_at = demo_time, wi_assigned_client_id = who,
      wi_lease_id = None, wi_evidence_digest = None, wi_blocked_reason = None, wi_governance = None\<rparr>"

definition demo_caller :: caller where
  "demo_caller = \<lparr>by_actor = ''ann'', by_role = ''builder'', by_client = ''c1''\<rparr>"

definition demo_heartbeat :: heartbeat_row where
  "demo_heartbeat =
     \<lparr>hr_client_id = ''c1'', hr_status = Rt_Active, hr_last_heartbeat_at = Some demo_time,
      hr_last_run_id = None, hr_last_task_id = None, hr_lost_task_leases = [], hr_payload = None\<rparr>"

definition demo_items :: "work_item list" where
  "demo_items = [demo_item ''q'' Queued None, demo_item ''a'' Approved (Some ''c1''),
     demo_item ''u'' Running (Some ''c1''), demo_item ''d'' Completed (Some ''c1'')]"

definition demo :: world where
  "demo = (fresh_world demo_clock demo_uuid)
     \<lparr>w_user_version := 10,
      w_manifests := [\<lparr>mr_manifest = demo_client ''c1'' Trusted, mr_registered_at = demo_time\<rparr>,
                      \<lparr>mr_manifest = demo_client ''c2'' Untrusted, mr_registered_at = demo_time\<rparr>],
      w_heartbeats := [demo_heartbeat], w_leases := [demo_lease],
      w_work_items := map row_of demo_items, w_task_states := map run_task_state_of demo_items\<rparr>"

lemmas demo_defs =
  demo_def demo_items_def demo_heartbeat_def demo_item_def demo_lease_def demo_client_def fresh_world_def
  row_of_def run_task_state_of_def

lemmas text_defs =
  bounded_def safe_identifier_def safe_text_def has_any_def path_separators_def control_separators_def

lemma demo_migrated: "migrated demo"
  by (simp add: demo_def migrated_def schema_version_def)

lemma demo_client_parses: "k \<in> {''c1'', ''c2''} \<Longrightarrow> parse_client_manifest (demo_client k t) = Inr (demo_client k t)"
  by (auto simp: parse_client_manifest_def normalize_capabilities_def Let_def demo_client_def text_defs
      py_strip_def py_isspace_def sorted_set_def)

lemma demo_item_valid: "k \<in> {''q'', ''a'', ''u'', ''d''} \<Longrightarrow> who \<in> {None, Some ''c1''} \<Longrightarrow> valid_work_item (demo_item k st who)"
  by (auto simp: valid_work_item_def demo_item_def text_defs)

lemma demo_items_valid: "list_all valid_work_item demo_items"
  by (simp add: demo_items_def demo_item_valid)

lemma demo_ok: "store_ok demo"
proof -
  have "rows_keyed demo"
    by (simp add: rows_keyed_def keyed_def demo_defs manifest_key_def work_item_key_def task_state_key_def)
  moreover have "payloads_ok demo"
    using demo_items_valid
    by (simp add: payloads_ok_def demo_def fresh_world_def demo_client_parses item_row_ok_def row_of_def
        column_ok_def list_all_iff)
  moreover have "references_ok demo"
    by (simp add: references_ok_def demo_defs has_manifest_def has_lease_def work_item_fk_def)
  moreover have "states_ok demo"
    by (simp add: states_ok_def state_mirrored_def demo_defs task_state_key_def tbl_find_Cons)
  ultimately show ?thesis by (simp add: store_ok_def)
qed

lemma demo_no_events [simp]: "w_events demo = []"
  by (simp add: demo_defs)

lemma demo_lease_of: "lease_of demo ''t1'' = Some demo_lease"
  by (simp add: lease_of_def demo_defs tbl_find_Cons)

lemma demo_holder: "lease_holder demo ''t1'' = Some ''c1''"
  by (simp add: lease_holder_def demo_lease_of) (simp add: demo_lease_def)

lemma demo_item_of: "item_of demo ''q'' = Some (demo_item ''q'' Queued None)"
  "item_of demo ''a'' = Some (demo_item ''a'' Approved (Some ''c1''))"
  "item_of demo ''u'' = Some (demo_item ''u'' Running (Some ''c1''))"
  "item_of demo ''d'' = Some (demo_item ''d'' Completed (Some ''c1''))"
  by (simp_all add: item_of_def demo_defs tbl_find_Cons work_item_key_def)

lemma hex_digit_lower: "k < 16 \<Longrightarrow> is_lower_hex (hex_digit k)"
  unfolding is_lower_hex_def hex_digit_def by (rule nth_mem) simp

lemma demo_uuid_hex: "is_uuid_hex (demo_uuid n)"
proof -
  have "is_lower_hex (hex_digit (n mod 16))" by (rule hex_digit_lower) simp
  then show ?thesis by (simp add: is_uuid_hex_def demo_uuid_def) (simp add: is_lower_hex_def)
qed

lemma demo_uuid: "is_uuid_hex (next_uuid demo)"
  by (simp add: next_uuid_def demo_def fresh_world_def demo_uuid_hex)

lemma demo_has_manifest: "has_manifest demo ''c1''" "has_manifest demo ''c2''"
  by (simp_all add: has_manifest_def demo_defs)

definition demo_request :: lease_acquire_request where
  "demo_request = \<lparr>aq_task_id = ''t9'', aq_run_id = ''r1'', aq_client_id = ''c2'',
     aq_role = ''builder'', aq_actor = ''bob'', aq_ttl_seconds = 60\<rparr>"

lemma demo_request_valid: "valid_acquire_request demo_request"
  by (simp add: valid_acquire_request_def demo_request_def text_defs)

end
