(* ===== verification/Lease_Properties.thy ===== *)
theory Lease_Properties
  imports Demo
begin

text \<open>
  The lease service: exclusive holders, who may renew and release, separation of duties, and
  the lease a release with an unchecked reason leaves behind.
\<close>

section \<open>Runs on a migrated database\<close>

lemma load_client_manifest_run:
  "migrated w \<Longrightarrow> load_client_manifest k w =
     (find_or_key_error k (tbl_find manifest_key k (w_manifests w)) (\<lambda>r. parse_client_manifest (mr_manifest r)), w)"
  by (simp add: load_client_manifest_def)

lemma load_task_lease_run:
  "migrated w \<Longrightarrow> load_task_lease k w = (find_or_key_error k (lease_of w k) parse_lease, w)"
  by (simp add: load_task_lease_def lease_of_def)

text \<open>The client is registered and its manifest still validates.\<close>

definition client_known :: "world \<Rightarrow> pystr \<Rightarrow> bool" where
  "client_known w k =
     (case tbl_find manifest_key k (w_manifests w) of None \<Rightarrow> False
      | Some r \<Rightarrow> (\<exists>m. parse_client_manifest (mr_manifest r) = Inr m))"

lemma client_known_load: "migrated w \<Longrightarrow> client_known w k \<Longrightarrow> \<exists>m. load_client_manifest k w = (Inr m, w)"
  by (auto simp: client_known_def load_client_manifest_run split: option.splits)

lemma client_known_frames [simp]:
  "client_known (w\<lparr>w_ticks := n\<rparr>) k = client_known w k" "client_known (drawn w) k = client_known w k"
  by (simp_all add: client_known_def drawn_def)

lemma has_manifest_known: "client_known w k \<Longrightarrow> has_manifest w k"
  by (auto simp: client_known_def has_manifest_find split: option.splits)

lemma store_ok_known: "store_ok w \<Longrightarrow> has_manifest w k \<Longrightarrow> client_known w k"
  by (auto simp: client_known_def has_manifest_find store_ok_parts list_all_iff dest!: tbl_find_SomeD
      split: option.splits)

definition put_lease :: "task_lease \<Rightarrow> world \<Rightarrow> world" where
  "put_lease l w = w\<lparr>w_leases := tbl_upsert lease_task_id take_new l (w_leases w)\<rparr>"

lemma put_lease_frames [simp]:
  "migrated (put_lease l w) = migrated w" "w_events (put_lease l w) = w_events w"
  "lease_of (put_lease l w) t = (if t = lease_task_id l then Some l else lease_of w t)"
  "w_uuids (put_lease l w) = w_uuids w" "w_drawn (put_lease l w) = w_drawn w"
  "w_clock (put_lease l w) = w_clock w" "w_ticks (put_lease l w) = w_ticks w"
  "w_work_items (put_lease l w) = w_work_items w" "w_manifests (put_lease l w) = w_manifests w"
  by (simp_all add: put_lease_def lease_of_def list_table.lookup_save)

lemma lease_of_with_event [simp]: "lease_of (with_event e w) t = lease_of w t"
  by (simp add: lease_of_def)

lemma save_task_lease_run:
  assumes "migrated w" "client_known w (lease_client_id l)"
  shows "save_task_lease l w = (Inr l, put_lease l w)"
  using client_known_load [OF assms] assms(1) has_manifest_known [OF assms(2)]
  by (auto simp: save_task_lease_def andthen_def upsert_row_def put_lease_def)

lemma lease_outcome_run:
  assumes "migrated w" "list_all valid_event (w_events w)" "can_append (next_event (lease_event l s st) w) w"
  shows "lease_outcome c l s st d w =
    (Inr \<lparr>lr_status_code = c, lr_lease = l, lr_event = next_event (lease_event l s st) w, lr_decision = d\<rparr>,
     with_event (next_event (lease_event l s st) w) w)"
  using assms by (simp add: lease_outcome_def andthen_def record_event_run)

section \<open>Exclusive holders\<close>

text \<open>
  C3: a task lease is never taken over. Whatever request is served, a client that holds a task
  still holds it afterwards, unless that very client released the lease, the lease was expired
  by name, the client was unregistered, or a scan for stale clients ran; in particular no other
  client's acquire, renew or release can take it.
\<close>

theorem lease_not_stolen:
  assumes "well_formed c" and "lease_holder w t = Some h"
  shows "lease_holder (after_command c w) t = Some h
    \<or> (\<exists>r. c = Release t r \<and> rl_client_id r = h) \<or> c = Expire t \<or> c = Unregister h
    \<or> (\<exists>now limit auto. c = Mark_Stale now limit auto)"
proof -
  let ?Q = "\<lambda>v. (case v of None \<Rightarrow> None | Some l \<Rightarrow>
      if lease_status l = Ls_Active then Some (lease_client_id l) else None) = Some h"
  have held: "?Q (lease_of w t)" using assms(2) by (simp add: lease_holder_def)
  have goal: "?Q (lease_of (snd (m w)) t) \<Longrightarrow> lease_holder (snd (discard m w)) t = Some h" for m :: "(world, 'a) proc"
    by (simp add: lease_holder_def lease_of_discard)
  show ?thesis
  proof (cases "lease_neutral c")
    case True
    then have "w_leases (after_command c w) = w_leases w"
      using neutral_keeps_leases [OF assms(1) True] by (simp add: after_command_def obeys_def same_on_def)
    from lease_holder_cong [OF this] show ?thesis using assms(2) by simp
  next
    case False
    then show ?thesis
    proof (cases c)
      case (Acquire r)
      have "?Q (lease_of (snd (acquire r w)) t)"
        using acquire_lease_of [of r w t] held assms(2) by auto
      then show ?thesis using Acquire by (simp add: after_command_def goal)
    next
      case (Renew k r)
      have "?Q (lease_of (snd (renew k r w)) t)"
        by (rule renew_lease_of [where Q = ?Q]) (use held in auto)
      then show ?thesis using Renew by (simp add: after_command_def goal)
    next
      case (Release k r)
      have "?Q (lease_of (snd (release k r w)) t) \<or> (k = t \<and> rl_client_id r = h)"
        by (rule release_lease_of [where Q = "\<lambda>v. ?Q v \<or> (k = t \<and> rl_client_id r = h)"])
          (use held in auto)
      then show ?thesis using Release by (auto simp: after_command_def goal)
    next
      case (Expire k)
      then show ?thesis
        using held expire_lease_of [of t k w] by (cases "t = k") (simp_all add: after_command_def goal)
    next
      case (Unregister k)
      obtain l where "lease_of w t = Some l" "lease_client_id l = h" "lease_status l = Ls_Active"
        using assms(2) by (auto simp: lease_holder_def split: option.splits if_splits)
      then show ?thesis
        using Unregister unregister_lease_of [of w t l k]
        by (cases "k = h") (simp_all add: after_command_def goal)
    qed simp_all
  qed
qed

theorem lease_not_stolen_witness:
  "lease_holder demo ''t1'' = Some ''c1'' \<and>
   lease_holder (after_command (Release ''t1'' \<lparr>rl_client_id = ''c2'', rl_reason = None\<rparr>) demo) ''t1'' = Some ''c1''"
  using lease_not_stolen [of "Release ''t1'' \<lparr>rl_client_id = ''c2'', rl_reason = None\<rparr>" demo "''t1''" "''c1''"]
  by (auto simp: demo_holder)

text \<open>
  Acquiring a task that is held answers 409 with the current lease, changes no lease, and
  adds at most the one event that reports the denial.
\<close>

theorem acquire_held_denied:
  assumes "acquire r w = (res, w')" and "lease_of w (aq_task_id r) = Some l" and "lease_status l = Ls_Active"
  shows "(\<forall>t. lease_of w' t = lease_of w t)
    \<and> (case res of Inl e \<Rightarrow> True
       | Inr x \<Rightarrow> lr_status_code x = 409 \<and> lr_lease x = l \<and> \<not> allow (lr_decision x)
           \<and> ev_status (lr_event x) = Ev_Blocked)"
proof
  have "lease_holder w (aq_task_id r) \<noteq> None"
    using assms(2,3) by (simp add: lease_holder_def)
  then show "\<forall>t. lease_of w' t = lease_of w t"
    using acquire_lease_of [of r w] assms(1) by (metis snd_conv)
  show "case res of Inl e \<Rightarrow> True
       | Inr x \<Rightarrow> lr_status_code x = 409 \<and> lr_lease x = l \<and> \<not> allow (lr_decision x)
           \<and> ev_status (lr_event x) = Ev_Blocked"
  proof (cases res)
    case (Inr x)
    then obtain m w1 where "load_client_manifest (aq_client_id r) w = (Inr m, w1)"
      and rest: "andthen (existing_lease (aq_task_id r)) (acquire_over r) w1 = (Inr x, w')"
      using assms(1) unfolding acquire_def by (metis andthen_InrE)
    then have w1: "w_leases w1 = w_leases w" using lease_reads(1) by (metis sameD)
    from rest obtain ex w2 where ex: "existing_lease (aq_task_id r) w1 = (Inr ex, w2)"
      and over: "acquire_over r ex w2 = (Inr x, w')" by (metis andthen_InrE)
    have "ex = Some l" using existing_lease_Inr [OF ex] w1 assms(2) by (simp add: lease_of_def)
    with over assms(3) have "lease_outcome 409 l ''Lease acquire denied because task is already active.'' Ev_Blocked
          (denied [''task '' @ aq_task_id r @ '' already leased by '' @ lease_client_id l] True) w2 = (Inr x, w')"
      by (simp add: acquire_over_def Let_def)
    then show ?thesis
      using Inr unfolding lease_outcome_def record_event_def build_event_def
      by (auto elim!: andthen_InrE simp: append_control_plane_event_def lease_event_def)
  qed simp
qed

theorem acquire_held_denied_witness:
  "\<forall>t. lease_of (snd (acquire \<lparr>aq_task_id = ''t1'', aq_run_id = ''r1'', aq_client_id = ''c2'',
     aq_role = ''builder'', aq_actor = ''bob'', aq_ttl_seconds = 60\<rparr> demo)) t = lease_of demo t"
  using acquire_held_denied [OF surjective_pairing, where r = "\<lparr>aq_task_id = ''t1'', aq_run_id = ''r1'',
      aq_client_id = ''c2'', aq_role = ''builder'', aq_actor = ''bob'', aq_ttl_seconds = 60\<rparr>" and w = demo and l = demo_lease]
  by (simp add: demo_lease_of) (simp add: demo_lease_def)

text \<open>
  C8: a task nobody holds can be taken by a registered client: the answer is 201, the client
  holds the task from then on until the requested time has passed, no other task's lease
  changes, and the ledger grows by exactly the returned event.
\<close>

theorem acquire_free_grants:
  assumes "migrated w" "store_ok w" "valid_acquire_request r"
    and "has_manifest w (aq_client_id r)"
    and "lease_holder w (aq_task_id r) = None" "opt_all valid_lease (lease_of w (aq_task_id r))"
    and "is_uuid_hex (next_uuid w)" "event_id_of (next_uuid w) \<notin> event_id ` set (w_events w)"
  shows "\<exists>x w'. acquire r w = (Inr x, w') \<and> lr_status_code x = 201 \<and> allow (lr_decision x)
    \<and> lease_holder w' (aq_task_id r) = Some (aq_client_id r)
    \<and> instant (lease_expires_at (lr_lease x)) = w_clock w (w_ticks w) + aq_ttl_seconds r * usec
    \<and> lease_of w' (aq_task_id r) = Some (lr_lease x)
    \<and> (\<forall>t. t = aq_task_id r \<or> lease_of w' t = lease_of w t)
    \<and> w_events w' = w_events w @ [lr_event x]"
proof -
  let ?w1 = "w\<lparr>w_ticks := Suc (w_ticks w)\<rparr>"
  have m: "migrated w" by fact
  have known: "client_known w (aq_client_id r)" using assms(2,4) by (rule store_ok_known)
  obtain c where client: "load_client_manifest (aq_client_id r) w = (Inr c, w)"
    using client_known_load [OF m known] by blast
  have ex: "existing_lease (aq_task_id r) w = (Inr (lease_of w (aq_task_id r)), w)"
    using assms(6) m
    by (cases "lease_of w (aq_task_id r)")
      (simp_all add: existing_lease_def on_key_error_def andthen_def load_task_lease_run parse_lease_def)
  obtain l where l: "new_task_lease r (now_of w) = Inr l" using new_task_lease_valid [OF assms(3)] by blast
  note nl = new_task_lease_Inr [OF l]
  let ?f = "lease_event l ''Task lease acquired.'' Ev_Active"
  let ?w2 = "put_lease l ?w1"
  have save: "save_task_lease l ?w1 = (Inr l, ?w2)"
    using m known nl by (intro save_task_lease_run) simp_all
  have inactive: "opt_all (\<lambda>l. lease_status l \<noteq> Ls_Active) (lease_of w (aq_task_id r))"
    using assms(5) by (cases "lease_of w (aq_task_id r)") (auto simp: lease_holder_def)
  have append: "can_append (next_event ?f ?w2) ?w2"
    using assms(3,7,8) nl
    by (auto simp: can_append_def next_event_def lease_event_def next_uuid_def now_of_def valid_event_def
        valid_acquire_request_def bounded_def dest: event_id_safe)
  have "list_all valid_event (w_events ?w2)" using store_ok_events [OF assms(2)] by simp
  from lease_outcome_run [OF _ this append, of 201 "allowed ''task lease acquired''"] m
  have out: "lease_outcome 201 l ''Task lease acquired.'' Ev_Active (allowed ''task lease acquired'') ?w2
    = (Inr \<lparr>lr_status_code = 201, lr_lease = l, lr_event = next_event ?f ?w2,
            lr_decision = allowed ''task lease acquired''\<rparr>, with_event (next_event ?f ?w2) ?w2)" by simp
  have "acquire r w = (Inr \<lparr>lr_status_code = 201, lr_lease = l, lr_event = next_event ?f ?w2,
            lr_decision = allowed ''task lease acquired''\<rparr>, with_event (next_event ?f ?w2) ?w2)"
    using client ex inactive l save out
    by (simp add: acquire_def acquire_over_def andthen_def [of "load_client_manifest _"] andthen_def [of "existing_lease _"]
        now_of_def andthen_def [of "save_task_lease _"])
  moreover have "lease_of (with_event e ?w2) t = (if t = aq_task_id r then Some l else lease_of w t)" for e t
    using nl(1) by (simp add: lease_of_def [of "w\<lparr>w_ticks := _\<rparr>"] lease_of_def [of w])
  ultimately show ?thesis
    using nl by (simp add: lease_holder_def now_of_def)
qed

theorem acquire_free_grants_witness:
  "\<exists>x w'. acquire demo_request demo = (Inr x, w') \<and> lr_status_code x = 201
     \<and> lease_holder w' ''t9'' = Some ''c2''"
proof -
  have "lease_of demo ''t9'' = None" by (simp add: lease_of_def demo_defs tbl_find_Cons)
  then have "lease_holder demo (aq_task_id demo_request) = None"
    "opt_all valid_lease (lease_of demo (aq_task_id demo_request))"
    by (simp_all add: lease_holder_def demo_request_def)
  from acquire_free_grants [OF demo_migrated demo_ok demo_request_valid _ this demo_uuid]
  show ?thesis by (auto simp: demo_request_def demo_has_manifest)
qed

section \<open>Holders and approvers\<close>

lemma save_task_lease_stored:
  "save_task_lease l w = (Inr y, w') \<Longrightarrow> lease_of w' (lease_task_id l) = Some l"
  unfolding save_task_lease_def
  by (auto simp: upsert_row_def lease_of_def list_table.lookup_save elim!: andthen_InrE split: if_splits)

lemma release_stored:
  assumes "migrated w" "release t rl w = (Inr x, w')"
  shows "\<exists>l. lease_of w' t = Some l \<and> lease_status l = Ls_Released \<and> lease_release_reason l = rl_reason rl"
proof -
  obtain l w1 where l: "load_task_lease t w = (Inr l, w1)"
    and r1: "andthen (lift_result (require_holder l (rl_client_id rl))) (\<lambda>_.
     andthen (lift_result (lease_release (rl_reason rl) l)) (\<lambda>l'. andthen (save_task_lease l') (\<lambda>_.
     lease_outcome 200 l' ''Task lease released.'' Ev_Passed (allowed ''task lease released'')))) w1 = (Inr x, w')"
    by (rule andthen_InrE [OF assms(2) [unfolded release_def]])
  from r1 obtain l' where l': "lease_release (rl_reason rl) l = Inr l'"
    and r2: "andthen (save_task_lease l') (\<lambda>_. lease_outcome 200 l' ''Task lease released.'' Ev_Passed
       (allowed ''task lease released'')) w1 = (Inr x, w')"
    by (auto split: sum.splits)
  from r2 obtain y w2 where "save_task_lease l' w1 = (Inr y, w2)"
    and out: "lease_outcome 200 l' ''Task lease released.'' Ev_Passed (allowed ''task lease released'') w2 = (Inr x, w')"
    by (rule andthen_InrE)
  then have "lease_of w2 (lease_task_id l') = Some l'" by (simp add: save_task_lease_stored)
  moreover have "w_leases w' = w_leases w2" by (rule sameD [OF same_leases_outcome out])
  moreover have "lease_task_id l' = t"
    using lease_release_Inr(3) [OF l'] load_task_lease_Inr [OF l] lease_of_key by auto
  ultimately show ?thesis using lease_release_Inr [OF l'] by (auto simp: lease_of_def)
qed

text \<open>
  C9: only the client that actively holds a lease can renew or release it. For anybody else,
  and for a lease that is no longer active, both calls raise and leave the database exactly as
  it was, ledger included.
\<close>

theorem renew_release_need_holder:
  assumes "migrated w" and "lease_holder w t \<noteq> Some h"
    and "rn_client_id rn = h" and "rl_client_id rl = h"
  shows "(\<exists>e. renew t rn w = (Inl e, w)) \<and> (\<exists>e. release t rl w = (Inl e, w))"
proof (cases "lease_of w t")
  case None
  with assms(1) show ?thesis by (simp add: renew_def release_def andthen_def load_task_lease_run)
next
  case (Some l)
  have "\<exists>e. require_holder l h = Inl e"
    using assms(2) Some by (cases "require_holder l h") (auto simp: require_holder_Inr lease_holder_def)
  then obtain e where "require_holder l h = Inl e" by blast
  with Some assms show ?thesis
    by (cases "valid_lease l") (simp_all add: renew_def release_def andthen_def load_task_lease_run parse_lease_def)
qed

theorem renew_release_need_holder_witness:
  "(\<exists>e. renew ''t1'' \<lparr>rn_client_id = ''c2'', rn_ttl_seconds = 5\<rparr> demo = (Inl e, demo))
   \<and> (\<exists>e. release ''t1'' \<lparr>rl_client_id = ''c2'', rl_reason = None\<rparr> demo = (Inl e, demo))"
  by (rule renew_release_need_holder [OF demo_migrated, of _ "''c2''"]) (simp_all add: demo_holder)

text \<open>
  Separation of duties on leases. A check of an approval transition allows exactly the
  action \<open>approve_release\<close> by a release guardian who is neither the lease's actor nor its
  client, and it never changes the database.
\<close>

theorem lease_approval_separation:
  assumes "check_approval_transition t r w = (Inr d, w')" and "migrated w" and "lease_of w t = Some l"
  shows "w' = w \<and> (allow d \<longleftrightarrow> ac_action r = ''approve_release'' \<and> ac_role r = ''release_guardian''
    \<and> ac_actor r \<noteq> lease_actor l \<and> ac_actor r \<noteq> lease_client_id l)"
proof -
  have "load_task_lease t w = (parse_lease l, w)" using assms(2,3) by (simp add: load_task_lease_run)
  with assms(1) show ?thesis
    by (cases "parse_lease l")
      (auto simp: check_approval_transition_def andthen_def Let_def lease_approval_denials_def
        assert_approval_transition_allowed_def split: if_splits)
qed

theorem lease_approval_separation_witness:
  "\<exists>d. check_approval_transition ''t1'' \<lparr>ac_actor = ''gus'', ac_role = ''release_guardian'', ac_action = ''approve_release''\<rparr> demo
     = (Inr d, demo) \<and> allow d"
proof -
  let ?r = "\<lparr>ac_actor = ''gus'', ac_role = ''release_guardian'', ac_action = ''approve_release''\<rparr>"
  have "valid_lease demo_lease" by (simp add: valid_lease_def demo_lease_def text_defs)
  then obtain d w' where run: "check_approval_transition ''t1'' ?r demo = (Inr d, w')"
    by (cases "lease_approval_denials demo_lease ?r = []")
      (simp_all add: check_approval_transition_def andthen_def load_task_lease_run demo_migrated demo_lease_of
        Let_def parse_lease_def)
  from lease_approval_separation [OF run demo_migrated demo_lease_of] run show ?thesis
    by (simp add: demo_lease_def)
qed

text \<open>
  A release reason is checked for its length but not for control characters, which the
  stored lease may not contain. The holder of a lease can therefore leave a row behind that no
  longer validates: after such a release the task can neither be inspected, acquired nor
  expired, every attempt raising.
\<close>

theorem release_reason_poisons_lease:
  assumes "migrated w" and "release t rl w = (Inr x, w')"
    and "rl_reason rl = Some s" and "\<not> safe_text s"
  shows "(\<exists>e. load_task_lease t w' = (Inl e, w')) \<and> (\<exists>e. expire t w' = (Inl e, w'))
    \<and> (aq_task_id r = t \<longrightarrow> (\<exists>e. acquire r w' = (Inl e, w')))"
proof -
  have m': "migrated w'" using keepingD [OF stays_migrated.release assms(1,2)] .
  obtain l where bad: "lease_of w' t = Some l" "\<not> valid_lease l"
    using release_stored [OF assms(1,2)] assms(3,4) by (auto simp: valid_lease_def)
  then have load: "load_task_lease t w' = (Inl (ValidationError ''TaskLease''), w')"
    by (simp add: load_task_lease_run m' parse_lease_def)
  have "\<exists>e. acquire r w' = (Inl e, w')" if "aq_task_id r = t"
  proof -
    have ex: "existing_lease t w' = (Inl (ValidationError ''TaskLease''), w')"
      using load by (simp add: existing_lease_def on_key_error_def andthen_def)
    obtain res where "load_client_manifest (aq_client_id r) w' = (res, w')"
      using load_client_manifest_run [OF m'] by blast
    then show ?thesis using ex that by (cases res) (simp_all add: acquire_def andthen_def)
  qed
  moreover have "\<exists>e. expire t w' = (Inl e, w')" using load by (simp add: expire_def andthen_def)
  ultimately show ?thesis using load by blast
qed

theorem release_reason_poisons_lease_witness:
  "\<exists>x w'. release ''t1'' \<lparr>rl_client_id = ''c1'', rl_reason = Some [CHR 0x0A]\<rparr> demo = (Inr x, w')
     \<and> valid_release_request \<lparr>rl_client_id = ''c1'', rl_reason = Some [CHR 0x0A]\<rparr>
     \<and> (\<exists>e. load_task_lease ''t1'' w' = (Inl e, w'))"
proof -
  let ?r = "\<lparr>rl_client_id = ''c1'', rl_reason = Some [CHR 0x0A]\<rparr>"
  let ?l = "demo_lease\<lparr>lease_status := Ls_Released, lease_release_reason := Some [CHR 0x0A]\<rparr>"
  have l: "valid_lease demo_lease" by (simp add: valid_lease_def demo_lease_def text_defs)
  have known: "client_known demo ''c1''" by (rule store_ok_known [OF demo_ok demo_has_manifest(1)])
  let ?w = "put_lease ?l demo" and ?f = "lease_event ?l ''Task lease released.'' Ev_Passed"
  have "can_append (next_event ?f ?w) ?w"
    using event_id_safe [OF demo_uuid]
    by (simp add: can_append_def next_event_def lease_event_def valid_event_def demo_lease_def text_defs
        next_uuid_def)
  then have "lease_outcome 200 ?l ''Task lease released.'' Ev_Passed (allowed ''task lease released'') ?w
    = (Inr \<lparr>lr_status_code = 200, lr_lease = ?l, lr_event = next_event ?f ?w,
            lr_decision = allowed ''task lease released''\<rparr>, with_event (next_event ?f ?w) ?w)"
    by (intro lease_outcome_run) (simp_all add: demo_migrated)
  moreover have "save_task_lease ?l demo = (Inr ?l, ?w)"
    by (rule save_task_lease_run [OF demo_migrated]) (use known in \<open>simp add: demo_lease_def\<close>)
  moreover have "require_holder demo_lease ''c1'' = Inr ()"
    "lease_release (Some [CHR 0x0A]) demo_lease = Inr ?l"
    by (simp_all add: require_holder_def lease_release_def demo_lease_def)
  ultimately obtain x w' where run: "release ''t1'' ?r demo = (Inr x, w')"
    using l by (simp add: release_def andthen_def load_task_lease_run demo_migrated demo_lease_of parse_lease_def)
  from release_reason_poisons_lease [OF demo_migrated run, of "[CHR 0x0A]"] run show ?thesis
    by (auto simp: valid_release_request_def text_defs)
qed

end
