(* ===== verification/Work_Item_Properties.thy ===== *)
theory Work_Item_Properties
  imports Lease_Properties
begin

text \<open>
  The work item service on a consistent database: denied and applied transitions, the update
  that is stored without its event, and the items an unregistered client leaves stuck.
\<close>

section \<open>Events the service can always append\<close>

definition valid_caller :: "caller \<Rightarrow> bool" where
  "valid_caller c =
     (bounded 1 160 (by_client c) \<and> safe_identifier (by_client c)
      \<and> bounded 1 160 (by_actor c) \<and> safe_identifier (by_actor c)
      \<and> bounded 1 80 (by_role c) \<and> safe_identifier (by_role c))"

text \<open>The id the next event draws is well formed and not in the ledger.\<close>

definition next_id_fresh :: "world \<Rightarrow> bool" where
  "next_id_fresh w =
     (is_uuid_hex (next_uuid w) \<and> event_id_of (next_uuid w) \<notin> event_id ` set (w_events w))"

lemma status_value_length: "length (work_item_status_value s) \<le> 17"
  by (cases s) simp_all

lemma can_append_item_event:
  assumes "valid_caller c" "valid_work_item i" "next_id_fresh w" "bounded 1 500 m"
  shows "can_append (next_event (work_item_event c i m) w) w"
    and "can_append (next_event (denied_event c i m) w) w"
  using assms
  by (auto simp: can_append_def next_event_def work_item_event_def denied_event_def valid_event_def
      valid_caller_def valid_work_item_def next_id_fresh_def bounded_def dest: event_id_safe)

section \<open>Runs of transition\<close>

definition denial_summary :: "work_item_status \<Rightarrow> work_item_status \<Rightarrow> pystr" where
  "denial_summary source target =
     ''Policy denied work_item transition to '' @ work_item_status_value target @ '': ''
     @ transition_text source target @ '' is not allowed''"

lemma denial_summary_bounded: "bounded 1 500 (denial_summary s t)"
  using status_value_length [of s] status_value_length [of t]
  by (simp add: bounded_def denial_summary_def transition_text_def)

lemma item_of_find:
  "item_of w k = Some i \<Longrightarrow> \<exists>r. tbl_find work_item_key k (w_work_items w) = Some r \<and> wr_item r = i"
  by (auto simp: item_of_def)

lemma store_ok_item: "store_ok w \<Longrightarrow> item_of w k = Some i \<Longrightarrow> valid_work_item i \<and> wi_work_item_id i = k"
  using stored_item_valid by (fastforce simp: store_ok_def dest!: item_of_find)

lemma transition_rows_on:
  assumes "migrated w" "store_ok w" "item_of w k = Some i"
  shows "transition_rows k st ch w =
    (let d = transition_decision (wi_status i) st in
     if \<not> allow d then (Inr (i, d), w)
     else case changed_item i st ch (now_of w) of
            Inl e \<Rightarrow> (Inl e, tick w)
          | Inr i' \<Rightarrow> if work_item_fk w (row_of i') then (Inr (i', d), put_item i' (tick w))
                     else (Inl fk_failed, tick w))"
  using transition_rows_run [OF assms(1), of k st ch] assms(2) item_of_find [OF assms(3)]
  by (auto simp: store_ok_def Let_def)

text \<open>
  A transition the status machine does not allow answers 409 with the unchanged item, and
  its whole effect on the database is one POLICY_DENIED event, numbered after the last one.
\<close>

theorem transition_denied:
  assumes "migrated w" "store_ok w" "item_of w k = Some i"
    and "st \<notin> set (allowed_transitions (wi_status i))" "valid_caller c" "next_id_fresh w"
  shows "\<exists>x. transition k st c ch s w = (Inr x, with_event (tx_event x) w)
    \<and> tx_status_code x = 409 \<and> tx_work_item x = i \<and> \<not> allow (tx_decision x)
    \<and> ev_kind (tx_event x) = Policy_Denied \<and> ev_task_id (tx_event x) = Some k
    \<and> ev_sequence (tx_event x) = int (length (w_events w)) + 1"
proof -
  note i = store_ok_item [OF assms(2,3)]
  let ?d = "transition_decision (wi_status i) st"
  let ?f = "denied_event c i (denial_summary (wi_status i) st)"
  have rows: "transition_rows k st ch w = (Inr (i, ?d), w)"
    using assms(4) by (simp add: transition_rows_on [OF assms(1,2,3)] allowed_step Let_def)
  have can: "can_append (next_event ?f w) w"
    by (rule can_append_item_event) (use assms i denial_summary_bounded in auto)
  have "append_denial_event c i st ?d w = (Inr (next_event ?f w), with_event (next_event ?f w) w)"
    using assms(1,4) can store_ok_events [OF assms(2)]
    by (simp add: append_denial_event_def record_event_run transition_decision_def denial_summary_def)
  with rows assms(4) i show ?thesis
    by (simp add: transition_def andthen_def allowed_step next_event_def denied_event_def)
qed

theorem transition_denied_witness:
  "\<exists>x. transition ''d'' Running demo_caller no_change None demo = (Inr x, with_event (tx_event x) demo)
     \<and> tx_status_code x = 409"
  using transition_denied [OF demo_migrated demo_ok demo_item_of(4), of Running demo_caller no_change None]
    demo_uuid
  by (auto simp: demo_item_def valid_caller_def demo_caller_def text_defs next_id_fresh_def)

text \<open>Rows after a stored item.\<close>

lemma put_item_frames [simp]:
  "w_events (put_item i w) = w_events w" "w_uuids (put_item i w) = w_uuids w"
  "w_drawn (put_item i w) = w_drawn w" "next_uuid (put_item i w) = next_uuid w"
  "w_leases (put_item i w) = w_leases w" "w_manifests (put_item i w) = w_manifests w"
  by (simp_all add: put_item_def put_state_def next_uuid_def)

lemma tick_more [simp]:
  "next_uuid (tick w) = next_uuid w" "item_of (tick w) k = item_of w k"
  by (simp_all add: tick_def next_uuid_def item_of_def)

lemma next_id_fresh_put [simp]: "next_id_fresh (put_item i (tick w)) = next_id_fresh w"
  by (simp add: next_id_fresh_def)

lemma item_of_with_event [simp]: "item_of (with_event e w) k = item_of w k"
  by (simp add: item_of_def)

lemma state_of_put_item:
  "tbl_find task_state_key (wi_run_id i, wi_work_item_id i) (w_task_states (put_item i w))
     = Some (run_task_state_of i)"
  using state_mirrored_put [of i _ i] by (simp add: put_item_def state_mirrored_def)

lemma transition_run:
  assumes "migrated w" "store_ok w" "item_of w k = Some i"
    and "st \<in> set (allowed_transitions (wi_status i))"
    and "changed_item i st ch (now_of w) = Inr i'" "work_item_fk w (row_of i')"
    and "valid_caller c" "next_id_fresh w" "s = None \<or> (\<exists>m. s = Some m \<and> length m \<le> 500)"
  shows "\<exists>e. event_id e = event_id_of (next_uuid w) \<and> transition k st c ch s w =
      (Inr \<lparr>tx_status_code = 200, tx_work_item = i', tx_event = e,
         tx_decision = transition_decision (wi_status i) st\<rparr>, with_event e (put_item i' (tick w)))"
proof -
  note i = store_ok_item [OF assms(2,3)] and c = changed_item_Inr [OF assms(5)]
  let ?d = "transition_decision (wi_status i) st" and ?w = "put_item i' (tick w)"
  let ?m = "summary_or s (''Work item '' @ wi_work_item_id i' @ '' transitioned to ''
             @ work_item_status_value (wi_status i') @ ''.'')"
  have len: "length k \<le> 160" using i by (auto simp: valid_work_item_def bounded_def)
  have "bounded 1 500 ?m"
    using assms(9) len c i status_value_length [of st] by (auto simp: summary_or_def bounded_def Suc_le_eq split: if_splits)
  then have can: "can_append (next_event (work_item_event c i' ?m) ?w) ?w"
    by (intro can_append_item_event) (use assms c in auto)
  have rows: "transition_rows k st ch w = (Inr (i', ?d), ?w)"
    using assms(4-6) by (simp add: transition_rows_on [OF assms(1,2,3)] allowed_step Let_def)
  have "append_event c i' ?m ?w = (Inr (next_event (work_item_event c i' ?m) ?w),
      with_event (next_event (work_item_event c i' ?m) ?w) ?w)"
    using assms(1) can store_ok_events [OF assms(2)] by (simp add: append_event_def record_event_run)
  moreover have "event_id (next_event (work_item_event c i' ?m) ?w) = event_id_of (next_uuid w)"
    by (simp add: next_event_def work_item_event_def)
  ultimately show ?thesis using rows assms(4)
    by (intro exI [of _ "next_event (work_item_event c i' ?m) ?w"]) (simp add: transition_def andthen_def allowed_step)
qed

text \<open>
  C4: an allowed transition whose new field values are valid and whose client and lease exist
  answers 200. The stored item then has the new status, its run/task state mirrors it, a
  requeued item has lost both its client and its lease, no other item changes, and exactly one
  event is appended.
\<close>

theorem transition_applied:
  assumes "migrated w" "store_ok w" "item_of w k = Some i"
    and "st \<in> set (allowed_transitions (wi_status i))"
    and "changed_item i st ch (now_of w) = Inr i'" "work_item_fk w (row_of i')"
    and "valid_caller c" "next_id_fresh w" "s = None \<or> (\<exists>m. s = Some m \<and> length m \<le> 500)"
  shows "\<exists>x w'. transition k st c ch s w = (Inr x, w') \<and> tx_status_code x = 200 \<and> tx_work_item x = i'
    \<and> wi_status i' = st \<and> item_of w' k = Some i'
    \<and> (st = Requeued \<longrightarrow> wi_assigned_client_id i' = None \<and> wi_lease_id i' = None)
    \<and> tbl_find task_state_key (wi_run_id i, k) (w_task_states w') = Some (run_task_state_of i')
    \<and> (\<forall>k'. k' = k \<or> item_of w' k' = item_of w k')
    \<and> w_events w' = w_events w @ [tx_event x]"
proof -
  note i = store_ok_item [OF assms(2,3)] and c = changed_item_Inr [OF assms(5)]
  have "tbl_find task_state_key (wi_run_id i, k) (w_task_states (put_item i' (tick w))) = Some (run_task_state_of i')"
    using state_of_put_item [of i' "tick w"] c i by simp
  then show ?thesis
    using transition_run [OF assms] c i assms(3) by (auto simp: item_of_put_item)
qed

theorem transition_applied_witness:
  "\<exists>x w'. transition ''u'' Requeued demo_caller no_change None demo = (Inr x, w') \<and> tx_status_code x = 200"
proof -
  let ?i = "(demo_item ''u'' Running (Some ''c1''))\<lparr>wi_status := Requeued, wi_updated_at := normalize_time (now_of demo),
      wi_assigned_client_id := None, wi_lease_id := None\<rparr>"
  have "valid_work_item (demo_item ''u'' Requeued (Some ''c1''))" by (simp add: demo_item_valid)
  then have "changed_item (demo_item ''u'' Running (Some ''c1'')) Requeued no_change (now_of demo) = Inr ?i"
    by (simp add: changed_item_def update_work_item_def no_change_def parse_work_item_def demo_item_def
        valid_work_item_def)
  moreover have "work_item_fk demo (row_of ?i)" by (simp add: work_item_fk_def row_of_def demo_item_def)
  ultimately show ?thesis
    using transition_applied [OF demo_migrated demo_ok demo_item_of(3), of Requeued no_change ?i demo_caller None]
      demo_uuid
    by (auto simp: demo_item_def valid_caller_def demo_caller_def text_defs next_id_fresh_def)
qed

section \<open>Updates without an event\<close>

lemma changed_item_block:
  assumes "valid_work_item i" "length reason \<le> 500" "safe_text reason"
  shows "changed_item i Blocked (no_change\<lparr>ch_blocked_reason := Some reason\<rparr>) now
    = Inr (i\<lparr>wi_status := Blocked, wi_blocked_reason := Some reason, wi_updated_at := normalize_time now\<rparr>)"
  using assms
  by (simp add: changed_item_def update_work_item_def no_change_def parse_work_item_def valid_work_item_def
      bounded_def)

text \<open>
  The ledger can miss a change. \<open>block\<close> puts the whole reason into the event's summary,
  whose limit is that of the reason itself; a reason that is valid for the item but too long
  for the summary raises after the update was committed, so the item is BLOCKED and no event
  says so.
\<close>

theorem block_without_event:
  assumes "migrated w" "store_ok w" "item_of w k = Some i" "Blocked \<in> set (allowed_transitions (wi_status i))"
    and "opt_all (has_manifest w) (wi_assigned_client_id i)" "opt_all (has_lease w) (wi_lease_id i)"
    and "length reason \<le> 500" "safe_text reason" "480 < length k + length reason"
  shows "\<exists>e w'. block k c reason w = (Inl e, w') \<and> w_events w' = w_events w
    \<and> (\<exists>j. item_of w' k = Some j \<and> wi_status j = Blocked \<and> wi_blocked_reason j = Some reason)"
proof -
  note i = store_ok_item [OF assms(2,3)]
  let ?i = "i\<lparr>wi_status := Blocked, wi_blocked_reason := Some reason, wi_updated_at := normalize_time (now_of w)\<rparr>"
  let ?ch = "no_change\<lparr>ch_blocked_reason := Some reason\<rparr>" and ?w = "put_item ?i (tick w)"
  let ?m = "''Work item '' @ k @ '' blocked: '' @ reason" and ?d = "transition_decision (wi_status i) Blocked"
  have fk: "work_item_fk w (row_of ?i)" using assms(5,6) by (simp add: work_item_fk_def row_of_def)
  have ci: "changed_item i Blocked ?ch (now_of w) = Inr ?i"
    using i assms(7,8) by (intro changed_item_block) auto
  have rows: "transition_rows k Blocked ?ch w = (Inr (?i, ?d), ?w)"
    using assms(4) ci fk by (simp add: transition_rows_on [OF assms(1,2,3)] allowed_step Let_def)
  have "\<not> valid_event (next_event (work_item_event c ?i ?m) ?w)"
    using assms(9) by (simp add: valid_event_def next_event_def work_item_event_def bounded_def)
  then have "append_event c ?i ?m ?w = (Inl (ValidationError ''ControlPlaneEvent''), drawn ?w)"
    using assms(1) store_ok_events [OF assms(2)]
    by (simp add: append_event_def record_event_run can_append_def)
  then have "block k c reason w = (Inl (ValidationError ''ControlPlaneEvent''), drawn ?w)"
    using rows assms(4) by (simp add: block_def transition_def andthen_def allowed_step summary_or_def)
  moreover have "item_of (drawn ?w) k = Some ?i"
  proof -
    have "item_of (drawn ?w) k = item_of ?w k" by (simp add: item_of_def)
    then show ?thesis using i assms(3) by (simp add: item_of_put_item)
  qed
  ultimately show ?thesis by simp
qed

theorem block_without_event_witness:
  "\<exists>e w'. block ''u'' demo_caller (replicate 490 CHR ''x'') demo = (Inl e, w') \<and> w_events w' = []"
proof -
  have "safe_text (replicate 490 CHR ''x'')"
    by (auto simp: safe_text_def has_any_def control_separators_def)
  then show ?thesis
    using block_without_event [OF demo_migrated demo_ok demo_item_of(3), of "replicate 490 CHR ''x''" demo_caller]
      demo_has_manifest by (auto simp: demo_item_def)
qed

section \<open>Items of a client that is gone\<close>

text \<open>Unregistering a client leaves the payload of its items alone.\<close>

lemma unregister_items:
  "unregister c w = (res, w') \<Longrightarrow> item_of w' k = item_of w k"
  by (rule item_of_cong) (rule sameD [OF store_keeps_items.unregister])

lemma unregister_removes:
  assumes "migrated w" "unregister c w = (Inr x, w')"
  shows "\<not> has_manifest w' c"
proof -
  obtain m w1 where un: "unregister_client_manifest c w = (Inr m, w1)"
    and ev: "andthen (record_event (registry_event m Unregistered)) (\<lambda>e. ret \<lparr>rg_manifest = m, rg_event = e\<rparr>) w1
      = (Inr x, w')"
    by (rule andthen_InrE [OF assms(2) [unfolded unregister_def]])
  have "obeys (same_on w_manifests) (andthen (record_event (registry_event m Unregistered))
      (\<lambda>e. ret \<lparr>rg_manifest = m, rg_event = e\<rparr>))"
    by (intro frame.effect_intros items_keep_clients.record_event)
  from sameD [OF this ev] have "w_manifests w' = w_manifests w1" .
  moreover have "\<not> has_manifest w1 c"
    using un unfolding unregister_client_manifest_def
    by (auto elim!: andthen_InrE simp: has_manifest_delete)
  ultimately show ?thesis by (simp add: has_manifest_def)
qed

text \<open>
  Unregistering a client strands its approved work. The delete clears the foreign key
  column but not the assignment in the item's payload, so every later update writes the client
  id back and violates the foreign key. An APPROVED item can only be completed, and completing
  it raises, whoever asks; no transition that does not name a new client can move it.
\<close>

theorem unregister_strands_approved_item:
  assumes "migrated w" "store_ok w" "unregister c w = (Inr x, w')"
    and "item_of w k = Some i" "wi_status i = Approved" "wi_assigned_client_id i = Some c"
    and "transition k st who ch s w' = (res, w'')" "ch_assigned_client_id ch = None"
  shows "item_of w'' k = Some i
    \<and> (st = Completed \<longrightarrow> (\<exists>e. res = Inl e))
    \<and> (\<forall>y. res = Inr y \<longrightarrow> tx_status_code y = 409)"
proof -
  have m: "migrated w'" using keepingD [OF stays_migrated.unregister assms(1,3)] .
  have ok: "store_ok w'" using keepingD [OF consistent.unregister assms(2,3)] .
  have item: "item_of w' k = Some i" using unregister_items [OF assms(3)] assms(4) by simp
  note i = store_ok_item [OF ok item]
  have gone: "\<not> has_manifest w' c" by (rule unregister_removes [OF assms(1,3)])
  show ?thesis
  proof (cases "st = Completed")
    case False
    then have "transition_rows k st ch w' = (Inr (i, transition_decision Approved st), w')"
      "\<not> allow (transition_decision Approved st)"
      using assms(5) by (simp_all add: transition_rows_on [OF m ok item] allowed_step Let_def)
    then have run: "transition k st who ch s w' = andthen (append_denial_event who i st (transition_decision Approved st))
        (\<lambda>e. ret \<lparr>tx_status_code = 409, tx_work_item = i, tx_event = e,
          tx_decision = transition_decision Approved st\<rparr>) w'"
      by (simp add: transition_def andthen_def)
    obtain r w1 where app: "append_denial_event who i st (transition_decision Approved st) w' = (r, w1)" by fastforce
    have "obeys (same_on stored_items) (append_denial_event who i st (transition_decision Approved st))"
      unfolding append_denial_event_def by (rule store_keeps_items.record_event)
    from item_of_cong [OF sameD [OF this app]] item have "item_of w1 k = Some i" by simp
    then show ?thesis using run app assms(7) False by (auto simp: andthen_def split: sum.splits)
  next
    case True
    have "transition_rows k st ch w' = (Inl e, tick w')" 
      if "changed_item i st ch (now_of w') = Inl e" for e
      using that True assms(5) by (simp add: transition_rows_on [OF m ok item] allowed_step Let_def)
    moreover have "transition_rows k st ch w' = (Inl fk_failed, tick w')"
      if ci: "changed_item i st ch (now_of w') = Inr i'" for i'
    proof -
      have "wi_assigned_client_id i' = Some c"
        using changed_item_Inr(7) [OF ci] True assms(6,8) by simp
      then have "\<not> work_item_fk w' (row_of i')" using gone by (simp add: work_item_fk_def row_of_def)
      then show ?thesis
        using ci True assms(5) by (simp add: transition_rows_on [OF m ok item] allowed_step Let_def)
    qed
    ultimately obtain e where "transition_rows k st ch w' = (Inl e, tick w')"
      by (cases "changed_item i st ch (now_of w')") auto
    then show ?thesis using assms(7) item by (auto simp: transition_def andthen_def)
  qed
qed

theorem unregister_strands_approved_item_witness:
  "\<exists>x w'. unregister ''c1'' demo = (Inr x, w') \<and> (\<exists>e w''. complete ''a'' demo_caller None w' = (Inl e, w''))"
proof -
  let ?w = "delete_client ''c1'' demo" and ?f = "registry_event (demo_client ''c1'' Trusted) Unregistered"
  have "find_or_key_error ''c1'' (tbl_find manifest_key ''c1'' (w_manifests demo))
      (\<lambda>r. parse_client_manifest (mr_manifest r)) = Inr (demo_client ''c1'' Trusted)"
    by (simp add: demo_client_parses demo_def fresh_world_def tbl_find_Cons manifest_key_def)
      (simp add: demo_client_def)
  then have "load_client_manifest ''c1'' demo = (Inr (demo_client ''c1'' Trusted), demo)"
    by (simp add: load_client_manifest_run demo_migrated)
  then have un: "unregister_client_manifest ''c1'' demo = (Inr (demo_client ''c1'' Trusted), ?w)"
    by (simp add: unregister_client_manifest_def andthen_def)
  have m: "migrated ?w" using demo_migrated by (simp add: delete_client_def Let_def migrated_def)
  have ev: "w_events ?w = []" "next_uuid ?w = next_uuid demo" by (simp_all add: delete_client_def Let_def next_uuid_def)
  have "can_append (next_event ?f ?w) ?w"
    using event_id_safe [OF demo_uuid]
    by (simp add: can_append_def next_event_def registry_event_def valid_event_def demo_client_def text_defs ev)
  then obtain x w' where run: "unregister ''c1'' demo = (Inr x, w')"
    using un m ev by (simp add: unregister_def andthen_def record_event_run)
  obtain res w'' where go: "transition ''a'' Completed demo_caller (no_change\<lparr>ch_evidence_digest := None\<rparr>) None w' = (res, w'')"
    by fastforce
  from unregister_strands_approved_item [OF demo_migrated demo_ok run demo_item_of(2) _ _ go]
  have "\<exists>e. res = Inl e" by (simp add: demo_item_def no_change_def)
  with run go show ?thesis by (auto simp: complete_def)
qed

end
