(* ===== verification/Scheduler_Properties.thy ===== *)
theory Scheduler_Properties
  imports Work_Item_Properties
begin

text \<open>
  Which item the scheduler takes, which client it gives it to, and what is left of a client
  that was marked stale.
\<close>

section \<open>Queries on a consistent database\<close>

lemma parse_stored_items:
  assumes "store_ok w" "set rows \<subseteq> set (w_work_items w)"
  shows "parse_all parse_work_item (map wr_item rows) = Inr (map wr_item rows)"
proof (rule parse_all_id)
  fix i assume "i \<in> set (map wr_item rows)"
  then have "valid_work_item i"
    using assms by (auto simp: store_ok_parts list_all_iff item_row_ok_def)
  then show "parse_work_item i = Inr i" by simp
qed

definition row_wanted :: "pystr option \<Rightarrow> work_item_status option \<Rightarrow> pystr option \<Rightarrow> work_item_row \<Rightarrow> bool" where
  "row_wanted run_id status assigned r =
     (wanted run_id (wi_run_id (wr_item r)) \<and> wanted status (wi_status (wr_item r))
      \<and> (case assigned of None \<Rightarrow> True | Some c \<Rightarrow> wr_assigned_client_id r = Some c))"

lemma list_work_items_run:
  assumes "migrated w" "store_ok w"
  shows "list_work_items run_id status assigned w =
    (Inr (map wr_item (sort_key (\<lambda>r. work_item_order (wr_item r))
       (filter (row_wanted run_id status assigned) (w_work_items w)))), w)"
  using assms(1) parse_stored_items [OF assms(2)]
  by (simp add: list_work_items_def row_wanted_def [abs_def] cong: filter_cong)

definition snapshot_of :: "world \<Rightarrow> client_manifest \<Rightarrow> client_status_snapshot" where
  "snapshot_of w m =
     (case tbl_find hr_client_id (cm_client_id m) (w_heartbeats w) of
        None \<Rightarrow> \<lparr>ss_manifest = m, ss_status = Rt_Disconnected, ss_last_heartbeat_at = None,
                 ss_last_run_id = None, ss_last_task_id = None, ss_lost_task_leases = []\<rparr>
      | Some r \<Rightarrow> \<lparr>ss_manifest = m, ss_status = hr_status r,
                   ss_last_heartbeat_at = hr_last_heartbeat_at r, ss_last_run_id = hr_last_run_id r,
                   ss_last_task_id = hr_last_task_id r, ss_lost_task_leases = hr_lost_task_leases r\<rparr>)"

definition snapshots :: "world \<Rightarrow> client_status_snapshot list" where
  "snapshots w = map (snapshot_of w)
     (sort_key (\<lambda>m. (cm_display_name m, cm_client_id m)) (map mr_manifest (w_manifests w)))"

lemma ss_manifest_snapshot [simp]: "ss_manifest (snapshot_of w m) = m"
  by (simp add: snapshot_of_def split: option.splits)

lemma list_client_statuses_run:
  assumes "migrated w" "store_ok w"
  shows "list_client_statuses w = (Inr (snapshots w), w)"
proof -
  let ?ms = "sort_key (\<lambda>m. (cm_display_name m, cm_client_id m)) (map mr_manifest (w_manifests w))"
  have "parse_all (status_snapshot (w_heartbeats w)) ?ms = Inr (map (snapshot_of w) ?ms)"
  proof (rule parse_all_Inr)
    fix m assume "m \<in> set ?ms"
    then have "parse_client_manifest m = Inr m"
      using assms(2) by (auto simp: store_ok_parts list_all_iff)
    then show "status_snapshot (w_heartbeats w) m = Inr (snapshot_of w m)"
      by (simp add: status_snapshot_def snapshot_of_def split: option.splits)
  qed
  with assms(1) show ?thesis by (simp add: list_client_statuses_def snapshots_def)
qed

text \<open>The number of active leases a client holds.\<close>

definition active_leases :: "world \<Rightarrow> pystr \<Rightarrow> task_lease list" where
  "active_leases w c = filter (\<lambda>l. lease_client_id l = c \<and> lease_status l = Ls_Active) (w_leases w)"

definition load_key :: "world \<Rightarrow> client_status_snapshot \<Rightarrow> nat \<times> pystr \<times> pystr" where
  "load_key w s =
     (length (active_leases w (cm_client_id (ss_manifest s))), cm_display_name (ss_manifest s),
      cm_client_id (ss_manifest s))"

lemma list_task_leases_Inr:
  assumes "migrated w" "list_task_leases (Some c) (Some Ls_Active) w = (Inr ls, w')"
  shows "w' = w \<and> length ls = length (active_leases w c)
    \<and> ls = sort_key (\<lambda>l. (lease_run_id l, lease_task_id l)) (active_leases w c)"
proof -
  let ?ls = "sort_key (\<lambda>l. (lease_run_id l, lease_task_id l)) (active_leases w c)"
  have "list_task_leases (Some c) (Some Ls_Active) w = (parse_all parse_lease ?ls, w)"
    using assms(1) by (simp add: list_task_leases_def wanted_def active_leases_def lift_result_def)
  from trans [OF assms(2) [symmetric] this] have w: "w' = w" and p: "parse_all parse_lease ?ls = Inr ls"
    unfolding prod.inject by (blast, metis)
  have "list_all2 (\<lambda>r x. parse_lease r = Inr x) ?ls ls" by (rule parse_all_nth [OF p])
  then have "list_all2 (=) ?ls ls" by (rule list_all2_mono) simp
  then have "?ls = ls" by (simp add: list_all2_eq)
  with w show ?thesis by (metis length_sort)
qed

lemma each_client_load:
  assumes "migrated w" "each_proc client_load ss w = (Inr ks, w')"
  shows "w' = w \<and> ks = map (\<lambda>s. (load_key w s, s)) ss"
  using assms(2)
proof (induction ss arbitrary: ks)
  case Nil
  then show ?case by simp
next
  case (Cons s ss)
  obtain k w1 where k: "client_load s w = (Inr k, w1)"
    and rest: "andthen (each_proc client_load ss) (\<lambda>ys. ret (k # ys)) w1 = (Inr ks, w')"
    using Cons.prems unfolding each_proc.simps by (rule andthen_InrE)
  obtain ls where ls: "list_task_leases (Some (cm_client_id (ss_manifest s))) (Some Ls_Active) w = (Inr ls, w1)"
    and kv: "k = ((length ls, cm_display_name (ss_manifest s), cm_client_id (ss_manifest s)), s)"
    using k unfolding client_load_def by (auto elim!: andthen_InrE)
  note l = list_task_leases_Inr [OF assms(1) ls]
  from rest l obtain ys where ys: "each_proc client_load ss w = (Inr ys, w')" and "ks = k # ys"
    by (auto elim!: andthen_InrE)
  with Cons.IH [OF ys] kv l show ?case by (simp add: load_key_def)
qed

lemma eligible_clients_Inr:
  assumes "migrated w" "store_ok w" "eligible_clients item w = (Inr found, w')"
  shows "w' = w \<and> found = map snd (sort_key fst (map (\<lambda>s. (load_key w s, s)) (filter (eligible item) (snapshots w))))"
proof -
  have "andthen (each_proc client_load (filter (eligible item) (snapshots w)))
      (\<lambda>keyed. ret (map snd (sort_key fst keyed))) w = (Inr found, w')"
    using assms(3) unfolding eligible_clients_def
      andthen_Inr [of list_client_statuses, OF list_client_statuses_run [OF assms(1,2)]] .
  then obtain ks w1 where ks: "each_proc client_load (filter (eligible item) (snapshots w)) w = (Inr ks, w1)"
    and "w' = w1" "found = map snd (sort_key fst ks)"
    by (rule andthen_InrE) simp
  with each_client_load [OF assms(1) ks] show ?thesis by simp
qed

lemma hd_keyed_least:
  assumes "map snd (sort_key fst (map (\<lambda>s. (f s, s)) xs)) = x # rest"
  shows "x \<in> set xs \<and> (\<forall>y \<in> set xs. f x \<le> f y)"
proof -
  let ?k = "map (\<lambda>s. (f s, s)) xs"
  have ne: "?k \<noteq> []" using assms by auto
  have hd: "snd (hd (sort_key fst ?k)) = x"
    using assms by (metis hd_map list.map_disc_iff list.sel(1) neq_Nil_conv)
  have mem: "hd (sort_key fst ?k) \<in> set ?k" by (rule hd_sort_key_in [OF ne])
  then have eq: "hd (sort_key fst ?k) = (f x, x)" and x: "x \<in> set xs" using hd by auto
  have "f x \<le> f y" if "y \<in> set xs" for y
  proof -
    have "(f y, y) \<in> set ?k" using that by auto
    from hd_sort_key_least [OF ne this, of fst] show ?thesis unfolding eq by simp
  qed
  with x show ?thesis by blast
qed

section \<open>The scheduler's choice\<close>

text \<open>Appending an event leaves the rows of the work item table alone, columns included.\<close>

interpretation events_keep_rows: event_effects "same_on w_work_items"
  by unfold_locales (intro frame_event frame_migrate frame_utcnow frame_uuid; simp)+

text \<open>What a transition did that did not raise.\<close>

lemma transition_Inr:
  assumes "migrated w" "store_ok w" "item_of w k = Some i" "st \<in> set (allowed_transitions (wi_status i))"
    and "transition k st c ch s w = (Inr x, w')"
  shows "\<exists>i'. changed_item i st ch (now_of w) = Inr i' \<and> tx_status_code x = 200 \<and> tx_work_item x = i'
    \<and> w_work_items w' = w_work_items (put_item i' (tick w))"
proof -
  let ?d = "transition_decision (wi_status i) st"
  obtain p w1 where rows: "transition_rows k st ch w = (Inr p, w1)"
    using assms(5) unfolding transition_def by (auto elim!: andthen_InrE)
  then obtain i' where i': "changed_item i st ch (now_of w) = Inr i'"
    and p: "p = (i', ?d)" "w1 = put_item i' (tick w)"
    using assms(4) by (auto simp: transition_rows_on [OF assms(1,2,3)] Let_def allowed_step split: sum.splits if_splits)
  from assms(4,5) rows p obtain e where
    ev: "append_event c i' (summary_or s
      (''Work item '' @ wi_work_item_id i' @ '' transitioned to '' @ work_item_status_value (wi_status i') @ ''.''))
      (put_item i' (tick w)) = (Inr e, w')" and x: "tx_status_code x = 200" "tx_work_item x = i'"
    unfolding transition_def by (auto simp: allowed_step elim!: andthen_InrE)
  have "obeys (same_on w_work_items) (append_event c i' m)" for m
    unfolding append_event_def by (rule events_keep_rows.record_event)
  from sameD [OF this ev] i' x show ?thesis by auto
qed

lemma item_of_rows: "w_work_items w' = w_work_items w \<Longrightarrow> item_of w' k = item_of w k"
  by (simp add: item_of_def)

text \<open>What a successful assignment did.\<close>

lemma assign_Inr:
  assumes "migrated w" "store_ok w" "item_of w k = Some i" "schedulable i"
    and "assign k c chosen None s w = (Inr a, w')"
  shows "tx_status_code a = 200 \<and> (\<exists>j. item_of w' k = Some j \<and> wi_status j = Assigned
    \<and> wi_assigned_client_id j = Some chosen \<and> tx_work_item a = j)"
proof -
  have "Assigned \<in> set (allowed_transitions (wi_status i))" using assms(4) by (auto simp: schedulable_def)
  from transition_Inr [OF assms(1-3) this assms(5) [unfolded assign_def]] obtain i' where
    i': "changed_item i Assigned (no_change\<lparr>ch_assigned_client_id := Some chosen, ch_lease_id := None\<rparr>) (now_of w) = Inr i'"
    and a: "tx_status_code a = 200" "tx_work_item a = i'"
    and w': "w_work_items w' = w_work_items (put_item i' (tick w))" by blast
  from item_of_rows [OF w', of k] changed_item_Inr [OF i'] store_ok_item [OF assms(2,3)] a assms(3)
  show ?thesis by (simp add: item_of_put_item no_change_def)
qed

text \<open>
  C5: when the scheduler assigns an item, the client it chose is active, trusted and supports
  the requested capability, and among all such clients it holds the fewest active leases (ties
  broken by name, then id). The answer is 200 and the item is ASSIGNED to that client.
\<close>

theorem scheduler_selects_least_loaded:
  assumes "schedule_work_item k c w = (Inr d, w')" and "sd_selected_client_id d = Some chosen"
    and "migrated w" "store_ok w" "item_of w k = Some i"
  shows "\<exists>s \<in> set (snapshots w). cm_client_id (ss_manifest s) = chosen \<and> eligible i s
      \<and> (\<forall>s' \<in> set (snapshots w). eligible i s' \<longrightarrow> load_key w s \<le> load_key w s')
      \<and> sd_status_code d = 200
      \<and> (\<exists>j. item_of w' k = Some j \<and> wi_status j = Assigned \<and> wi_assigned_client_id j = Some chosen)"
proof -
  note si = store_ok_item [OF assms(4,5)]
  have load: "load_work_item k w = (Inr i, w)"
    using assms(3,5) si by (auto simp: load_work_item_run parse_work_item_def dest!: item_of_find)
  note run = assms(1) [unfolded schedule_work_item_def andthen_Inr [of "load_work_item k", OF load]]
  have denial: False if "scheduler_denial c i m v = (Inr d, w')" for m v
    using that assms(2) unfolding scheduler_denial_def Let_def by (auto elim!: andthen_InrE)
  have sched: "schedulable i" using run denial by (auto split: if_splits)
  then have "andthen (eligible_clients i) (assign_to_first c i) w = (Inr d, w')" using run by simp
  then obtain found w1 where found: "eligible_clients i w = (Inr found, w1)"
    and rest: "assign_to_first c i found w1 = (Inr d, w')"
    by (rule andthen_InrE)
  note e = eligible_clients_Inr [OF assms(3,4) found]
  show ?thesis
  proof (cases found)
    case Nil
    with rest have "scheduler_denial c i (''no active trusted clients match work item '' @ wi_work_item_id i) w1 = (Inr d, w')"
      by (simp only: assign_to_first_def list.case)
    then show ?thesis by (blast dest: denial)
  next
    case (Cons s ss)
    have least: "s \<in> set (filter (eligible i) (snapshots w))
        \<and> (\<forall>y \<in> set (filter (eligible i) (snapshots w)). load_key w s \<le> load_key w y)"
      by (rule hd_keyed_least [of _ _ s ss]) (use e Cons in simp)
    from rest obtain a where
      a: "assign k c (cm_client_id (ss_manifest s)) None (Some (''Scheduler assigned work item '' @ k @ '' to ''
          @ cm_client_id (ss_manifest s) @ ''.'')) w = (Inr a, w')"
      and d: "sd_status_code d = tx_status_code a" "sd_selected_client_id d = Some (cm_client_id (ss_manifest s))"
      using si e unfolding assign_to_first_def Cons Let_def list.case
      by (elim andthen_InrE) auto
    from assign_Inr [OF assms(3,4,5) sched a] least d assms(2) show ?thesis by auto
  qed
qed

text \<open>The instance: the queued item of the example database goes to its only trusted client.\<close>

lemma demo_snapshot: "filter (eligible (demo_item ''q'' Queued None)) (snapshots demo) =
    [\<lparr>ss_manifest = demo_client ''c1'' Trusted, ss_status = Rt_Active, ss_last_heartbeat_at = Some demo_time,
      ss_last_run_id = None, ss_last_task_id = None, ss_lost_task_leases = []\<rparr>]"
  by (simp add: snapshots_def snapshot_of_def demo_defs tbl_find_Cons eligible_def
      supports_requested_capability_def)

lemma demo_active: "list_task_leases (Some ''c1'') (Some Ls_Active) demo = (Inr [demo_lease], demo)"
proof -
  have p: "parse_lease demo_lease = Inr demo_lease"
    by (simp add: parse_lease_def valid_lease_def demo_lease_def text_defs)
  have ls: "w_leases demo = [demo_lease]" "lease_client_id demo_lease = ''c1''" "lease_status demo_lease = Ls_Active"
    by (simp_all add: demo_def demo_lease_def)
  show ?thesis using demo_migrated
    by (simp add: list_task_leases_def wanted_def lift_result_def ls p)
qed

lemma demo_schedules:
  "\<exists>d w'. schedule_work_item ''q'' demo_caller demo = (Inr d, w') \<and> sd_selected_client_id d = Some ''c1''"
proof -
  let ?i = "demo_item ''q'' Queued None" and ?ch = "no_change\<lparr>ch_assigned_client_id := Some ''c1'', ch_lease_id := None\<rparr>"
  let ?j = "?i\<lparr>wi_status := Assigned, wi_updated_at := normalize_time (now_of demo), wi_assigned_client_id := Some ''c1''\<rparr>"
  have load: "load_work_item ''q'' demo = (Inr ?i, demo)"
    using demo_item_of(1) demo_migrated store_ok_item [OF demo_ok demo_item_of(1)]
    by (auto simp: load_work_item_run parse_work_item_def dest!: item_of_find)
  have "each_proc client_load (filter (eligible ?i) (snapshots demo)) demo =
     (Inr [((1, ''c1'', ''c1''), hd (filter (eligible ?i) (snapshots demo)))], demo)"
    unfolding demo_snapshot using demo_active by (simp add: client_load_def andthen_def demo_client_def)
  then have el: "eligible_clients ?i demo = (Inr (filter (eligible ?i) (snapshots demo)), demo)"
    using list_client_statuses_run [OF demo_migrated demo_ok] by (simp add: eligible_clients_def andthen_def demo_snapshot)
  have "valid_work_item (demo_item ''q'' Assigned (Some ''c1''))" by (simp add: demo_item_valid)
  then have ci: "changed_item ?i Assigned ?ch (now_of demo) = Inr ?j"
    by (simp add: changed_item_def update_work_item_def no_change_def parse_work_item_def demo_item_def
        valid_work_item_def)
  have fk: "work_item_fk demo (row_of ?j)" using demo_has_manifest by (simp add: work_item_fk_def row_of_def demo_item_def)
  have "valid_caller demo_caller" "next_id_fresh demo"
    using demo_uuid by (simp_all add: valid_caller_def demo_caller_def text_defs next_id_fresh_def)
  note run = transition_run [OF demo_migrated demo_ok demo_item_of(1) _ ci fk this]
  let ?m = "''Scheduler assigned work item q to c1.''"
  obtain a w' where a: "assign ''q'' demo_caller ''c1'' None (Some ?m) demo = (Inr a, w')"
    using run [of "Some ?m"] by (auto simp: assign_def summary_or_def demo_item_def)
  have "schedule_work_item ''q'' demo_caller demo
      = assign_to_first demo_caller ?i (filter (eligible ?i) (snapshots demo)) demo"
    by (simp add: schedule_work_item_def andthen_Inr [of "load_work_item _", OF load]
        andthen_Inr [of "eligible_clients _", OF el] schedulable_def) (simp add: demo_item_def)
  also have "\<dots> = andthen (assign ''q'' demo_caller ''c1'' None (Some ?m)) (\<lambda>a.
      ret \<lparr>sd_status_code = tx_status_code a, sd_work_item = Some (tx_work_item a),
           sd_selected_client_id = Some ''c1'', sd_event = Some (tx_event a),
           sd_decision = allowed ''scheduler assigned q to c1''\<rparr>) demo"
    unfolding demo_snapshot by (simp add: assign_to_first_def demo_item_def demo_client_def Let_def)
  finally show ?thesis by (simp add: andthen_def a)
qed

theorem scheduler_selects_least_loaded_witness:
  "\<exists>d w'. schedule_work_item ''q'' demo_caller demo = (Inr d, w') \<and> sd_status_code d = 200
     \<and> (\<exists>j. item_of w' ''q'' = Some j \<and> wi_assigned_client_id j = Some ''c1'')"
proof -
  obtain d w' where "schedule_work_item ''q'' demo_caller demo = (Inr d, w')" "sd_selected_client_id d = Some ''c1''"
    using demo_schedules by blast
  with scheduler_selects_least_loaded [OF this demo_migrated demo_ok demo_item_of(1)] show ?thesis by blast
qed

lemma keyed_items: "store_ok w \<Longrightarrow> keyed work_item_key (w_work_items w)"
  by (simp add: store_ok_def rows_keyed_def)

lemma item_of_row: "store_ok w \<Longrightarrow> r \<in> set (w_work_items w) \<Longrightarrow> item_of w (work_item_key r) = Some (wr_item r)"
  using tbl_find_keyed [OF keyed_items] by (fastforce simp: item_of_def)

lemma item_row: "item_of w k = Some i \<Longrightarrow> \<exists>r \<in> set (w_work_items w). wr_item r = i"
  by (auto dest!: item_of_find tbl_find_SomeD)

text \<open>
  The scheduler serves items strictly in order. As long as some item of the requested run
  is queued or requeued, \<open>schedule_next\<close> is \<open>schedule_work_item\<close> of one such item, and none of
  the others comes before it by priority, creation time and id.
\<close>

theorem scheduler_takes_first_item:
  assumes "migrated w" "store_ok w" "item_of w k = Some j" "schedulable j" "wanted run_id (wi_run_id j)"
  shows "\<exists>i. item_of w (wi_work_item_id i) = Some i \<and> schedulable i \<and> wanted run_id (wi_run_id i)
    \<and> work_item_order i \<le> work_item_order j
    \<and> (\<forall>k' i'. item_of w k' = Some i' \<and> schedulable i' \<and> wanted run_id (wi_run_id i')
          \<longrightarrow> work_item_order i \<le> work_item_order i')
    \<and> schedule_next run_id c w = schedule_work_item (wi_work_item_id i) c w"
proof -
  let ?ord = "\<lambda>r. work_item_order (wr_item r)"
  let ?rows = "filter (\<lambda>r. schedulable (wr_item r)) (filter (row_wanted run_id None None) (w_work_items w))"
  have mem: "\<exists>r \<in> set ?rows. wr_item r = i'"
    if "item_of w k' = Some i'" "schedulable i'" "wanted run_id (wi_run_id i')" for k' i'
    using item_row [OF that(1)] that(2,3) by (auto simp: row_wanted_def wanted_def)
  from mem [OF assms(3,4,5)] have ne: "?rows \<noteq> []" by (metis emptyE empty_set)
  define r where "r = hd (sort_key ?ord ?rows)"
  have r: "r \<in> set ?rows" unfolding r_def by (rule hd_sort_key_in [OF ne])
  have least: "?ord r \<le> ?ord x" if "x \<in> set ?rows" for x
    unfolding r_def by (rule hd_sort_key_least [OF ne that])
  obtain xs where "sort_key ?ord ?rows = r # xs"
    using ne unfolding r_def by (metis list.collapse length_0_conv length_sort)
  then have "filter schedulable (map wr_item (sort_key ?ord (filter (row_wanted run_id None None) (w_work_items w))))
      = wr_item r # map wr_item xs"
    by (simp only: filter_map comp_def filter_sort_key_eq list.map)
  then have run: "schedule_next run_id c w = schedule_work_item (wi_work_item_id (wr_item r)) c w"
    by (simp add: schedule_next_def andthen_Inr [of "list_work_items run_id None None", OF list_work_items_run [OF assms(1,2)]])
  have "item_of w (wi_work_item_id (wr_item r)) = Some (wr_item r)"
    using item_of_row [OF assms(2), of r] r by (simp add: work_item_key_def)
  with r run show ?thesis
    by (intro exI [of _ "wr_item r"] conjI) (use least mem assms(3-5) in \<open>auto simp: row_wanted_def dest!: mem\<close>)
qed

theorem scheduler_takes_first_item_witness:
  "\<exists>i. item_of demo (wi_work_item_id i) = Some i
     \<and> schedule_next (Some ''r1'') demo_caller demo = schedule_work_item (wi_work_item_id i) demo_caller demo"
proof -
  have "schedulable (demo_item ''q'' Queued None)" "wanted (Some ''r1'') (wi_run_id (demo_item ''q'' Queued None))"
    by (simp_all add: schedulable_def demo_item_def wanted_def)
  from scheduler_takes_first_item [OF demo_migrated demo_ok demo_item_of(1) this] show ?thesis by blast
qed

end
