(* ===== verification/Recovery_Properties.thy ===== *)
theory Recovery_Properties
  imports Scheduler_Properties
begin

text \<open>
  What is left of a client that was marked stale: its active leases are expired and recorded as
  lost, and the items it worked on are requeued.
\<close>

section \<open>Expired leases\<close>

definition expired_lease :: "task_lease \<Rightarrow> task_lease" where
  "expired_lease l = l\<lparr>lease_status := Ls_Expired, lease_release_reason := Some ''client marked stale''\<rparr>"

lemma expired_lease_simps [simp]:
  "lease_task_id (expired_lease l) = lease_task_id l" "lease_status (expired_lease l) = Ls_Expired"
  "lease_client_id (expired_lease l) = lease_client_id l"
  by (simp_all add: expired_lease_def)

lemma save_task_lease_Inr:
  assumes "migrated w" "save_task_lease l w = (Inr x, w')"
  shows "x = l \<and> migrated w' \<and> w_leases w' = tbl_upsert lease_task_id take_new l (w_leases w)"
proof -
  obtain m w1 where load: "load_client_manifest (lease_client_id l) w = (Inr m, w1)"
    and rest: "andthen migrate (\<lambda>_. andthen (upsert_row w_leases (\<lambda>rows w. w\<lparr>w_leases := rows\<rparr>) lease_task_id take_new
       (\<lambda>w l. has_manifest w (lease_client_id l)) l) (\<lambda>_. ret l)) w1 = (Inr x, w')"
    by (rule andthen_InrE [OF assms(2) [unfolded save_task_lease_def]])
  have w1: "w1 = w" using load assms(1) by (simp add: load_client_manifest_run)
  show ?thesis using rest assms(1) unfolding w1
    by (auto simp: andthen_def upsert_row_def migrated_def split: if_splits)
qed

lemma each_save_expired:
  assumes "migrated w" "each_proc (\<lambda>l. save_task_lease (expired_lease l)) ls w = (Inr ys, w')"
  shows "ys = map expired_lease ls
    \<and> (\<forall>t. t \<in> lease_task_id ` set ls \<longrightarrow> (\<exists>l. lease_of w' t = Some l \<and> lease_status l = Ls_Expired))
    \<and> (\<forall>t. t \<notin> lease_task_id ` set ls \<longrightarrow> lease_of w' t = lease_of w t)"
  using assms
proof (induction ls arbitrary: w ys)
  case Nil
  then show ?case by simp
next
  case (Cons l ls)
  obtain x w1 where x: "save_task_lease (expired_lease l) w = (Inr x, w1)"
    and rest: "andthen (each_proc (\<lambda>l. save_task_lease (expired_lease l)) ls) (\<lambda>ys. ret (x # ys)) w1 = (Inr ys, w')"
    using Cons.prems(2) unfolding each_proc.simps by (rule andthen_InrE)
  note s = save_task_lease_Inr [OF Cons.prems(1) x]
  have one: "lease_of w1 t = (if t = lease_task_id l then Some (expired_lease l) else lease_of w t)" for t
    using s by (simp add: lease_of_def list_table.lookup_save)
  from rest obtain zs where zs: "each_proc (\<lambda>l. save_task_lease (expired_lease l)) ls w1 = (Inr zs, w')"
    and ys: "ys = x # zs" by (rule andthen_InrE) simp
  from s have "migrated w1" by simp
  note ih = Cons.IH [OF this zs]
  have "\<exists>l'. lease_of w' t = Some l' \<and> lease_status l' = Ls_Expired" if "t \<in> lease_task_id ` set (l # ls)" for t
  proof (cases "t \<in> lease_task_id ` set ls")
    case True
    then show ?thesis using ih by blast
  next
    case False
    then have "t = lease_task_id l" using that by simp
    then show ?thesis using ih False one [of t] by simp
  qed
  moreover have "lease_of w' t = lease_of w t" if "t \<notin> lease_task_id ` set (l # ls)" for t
    using that ih one [of t] by simp
  ultimately show ?case using ih s ys by simp
qed

lemma active_leases_lookup:
  assumes "keyed lease_task_id (w_leases w)"
  shows "l \<in> set (active_leases w c) \<longleftrightarrow>
    lease_of w (lease_task_id l) = Some l \<and> lease_client_id l = c \<and> lease_status l = Ls_Active"
  using tbl_find_keyed [OF assms] by (auto simp: active_leases_def lease_of_def)

lemma expire_leases_Inr:
  assumes "migrated w" "keyed lease_task_id (w_leases w)" "keyed lease_task_id (w_leases w')"
    and "expire_task_leases_for_client c w = (Inr ys, w')"
  shows "active_leases w' c = []
    \<and> map lease_task_id ys = map lease_task_id (sort_key (\<lambda>l. (lease_run_id l, lease_task_id l)) (active_leases w c))"
proof -
  obtain ls w1 where ls: "list_task_leases (Some c) (Some Ls_Active) w = (Inr ls, w1)"
    and ex: "each_proc (\<lambda>l. save_task_lease (expired_lease l)) ls w1 = (Inr ys, w')"
    using assms(4) unfolding expire_task_leases_for_client_def expired_lease_def by (rule andthen_InrE)
  note l = list_task_leases_Inr [OF assms(1) ls]
  from l assms(1) have m: "migrated w1" by simp
  note e = each_save_expired [OF m ex]
  have ids: "lease_task_id ` set ls = lease_task_id ` set (active_leases w c)" using l by simp
  have "l \<notin> set (active_leases w' c)" for l
  proof
    assume "l \<in> set (active_leases w' c)"
    then have l': "lease_of w' (lease_task_id l) = Some l" "lease_client_id l = c" "lease_status l = Ls_Active"
      by (simp_all add: active_leases_lookup [OF assms(3)])
    then have "lease_task_id l \<notin> lease_task_id ` set ls" using e by force
    moreover from this have "l \<in> set (active_leases w c)"
      unfolding active_leases_lookup [OF assms(2)] using e l l' by simp
    ultimately show False using ids by simp
  qed
  then have "active_leases w' c = []" by (cases "active_leases w' c") auto
  with e l show ?thesis by (simp add: comp_def)
qed

section \<open>Requeued items\<close>

text \<open>An item that nobody holds any more.\<close>

definition free_again :: "work_item option \<Rightarrow> bool" where
  "free_again v = (\<exists>j. v = Some j \<and> wi_status j = Requeued
     \<and> wi_assigned_client_id j = None \<and> wi_lease_id j = None)"

lemma recoverable_requeues: "recoverable_status s \<Longrightarrow> Requeued \<in> set (allowed_transitions s)"
  by (cases s) (simp_all add: recoverable_status_def)

lemma recover_item_Inr:
  assumes "migrated w" "store_ok w" "item_of w k = Some i" "recover_item s i w = (Inr y, w')"
  shows "migrated w' \<and> store_ok w'
    \<and> (if recoverable_status (wi_status i) then free_again (item_of w' k) else item_of w' k = item_of w k)
    \<and> (\<forall>k'. k' \<noteq> k \<longrightarrow> item_of w' k' = item_of w k')"
proof -
  have k: "wi_work_item_id i = k" using store_ok_item [OF assms(2,3)] by simp
  have keep: "migrated w'" "store_ok w'"
    using keepingD [OF stays_migrated.recover_item assms(1,4)] keepingD [OF consistent.recover_item assms(2,4)]
    by simp_all
  show ?thesis
  proof (cases "recoverable_status (wi_status i)")
    case False
    then show ?thesis using assms(4) keep by (simp add: recover_item_def)
  next
    case True
    let ?m = "Some (''Work item '' @ wi_work_item_id i @ '' requeued after stale client ''
               @ cm_display_name (ss_manifest s) @ '' abandoned ''
               @ work_item_status_value (wi_status i) @ '' work.'')"
    let ?next = "\<lambda>result. if tx_status_code result \<noteq> 200 then ret None
           else andthen (record_event (recovery_event s (tx_work_item result))) (\<lambda>e. ret (Some (result, e)))"
    have "wi_status i \<noteq> Requeued" using True by (auto simp: recoverable_status_def)
    then have "andthen (requeue k (stale_caller s) ?m) ?next w = (Inr y, w')"
      using assms(4) True k by (simp add: recover_item_def)
    then obtain x w1 where x: "requeue k (stale_caller s) ?m w = (Inr x, w1)" and rest: "?next x w1 = (Inr y, w')"
      by (rule andthen_InrE)
    from transition_Inr [OF assms(1-3) recoverable_requeues [OF True] x [unfolded requeue_def]] obtain i' where
      i': "changed_item i Requeued no_change (now_of w) = Inr i'"
      and w1: "w_work_items w1 = w_work_items (put_item i' (tick w))" by blast
    have "obeys (same_on w_work_items) (?next x)"
      by (intro frame.effect_intros events_keep_rows.record_event)
    from sameD [OF this rest] w1 have rows: "w_work_items w' = w_work_items (put_item i' (tick w))" by simp
    from item_of_rows [OF rows] changed_item_Inr [OF i'] k assms(3) keep True show ?thesis
      by (simp add: item_of_put_item free_again_def)
  qed
qed

lemma each_recovered:
  assumes "migrated w" "store_ok w" "each_proc (recover_item s) is w = (Inr ys, w')"
    and "\<And>i. i \<in> set is \<Longrightarrow> item_of w (wi_work_item_id i) = Some i" "distinct (map wi_work_item_id is)"
  shows "(\<forall>i \<in> set is. if recoverable_status (wi_status i) then free_again (item_of w' (wi_work_item_id i))
            else item_of w' (wi_work_item_id i) = Some i)
    \<and> (\<forall>k. k \<notin> wi_work_item_id ` set is \<longrightarrow> item_of w' k = item_of w k)"
  using assms
proof (induction "is" arbitrary: w ys)
  case Nil
  then show ?case by simp
next
  case (Cons i "is")
  obtain y w1 where y: "recover_item s i w = (Inr y, w1)"
    and rest: "andthen (each_proc (recover_item s) is) (\<lambda>ys. ret (y # ys)) w1 = (Inr ys, w')"
    using Cons.prems(3) unfolding each_proc.simps by (rule andthen_InrE)
  have i: "item_of w (wi_work_item_id i) = Some i" using Cons.prems(4) by simp
  note r = recover_item_Inr [OF Cons.prems(1,2) i y]
  from rest obtain zs where zs: "each_proc (recover_item s) is w1 = (Inr zs, w')" by (rule andthen_InrE) simp
  have "item_of w1 (wi_work_item_id j) = Some j" if "j \<in> set is" for j
    using that r Cons.prems(4) [of j] Cons.prems(5) by (auto simp: image_iff)
  with Cons.IH [OF _ _ zs] r Cons.prems(5) have
    ih: "\<forall>j \<in> set is. if recoverable_status (wi_status j) then free_again (item_of w' (wi_work_item_id j))
            else item_of w' (wi_work_item_id j) = Some j"
    and out: "\<And>k. k \<notin> wi_work_item_id ` set is \<Longrightarrow> item_of w' k = item_of w1 k" by auto
  have "wi_work_item_id i \<notin> wi_work_item_id ` set is" using Cons.prems(5) by simp
  then have "item_of w' (wi_work_item_id i) = item_of w1 (wi_work_item_id i)" by (rule out)
  then show ?case using ih out r i by auto
qed

text \<open>The rows the column says belong to a client.\<close>

definition rows_of_client :: "world \<Rightarrow> pystr \<Rightarrow> work_item list" where
  "rows_of_client w c = map wr_item (filter (\<lambda>r. wr_assigned_client_id r = Some c) (w_work_items w))"

lemma recover_stale_Inr:
  assumes "migrated w" "store_ok w" "recover_stale_work_items s w = (Inr y, w')"
    and "i \<in> set (rows_of_client w (cm_client_id (ss_manifest s)))"
  shows "if recoverable_status (wi_status i) then free_again (item_of w' (wi_work_item_id i))
     else item_of w' (wi_work_item_id i) = Some i"
proof -
  let ?is = "map wr_item (sort_key (\<lambda>r. work_item_order (wr_item r))
       (filter (row_wanted None None (Some (cm_client_id (ss_manifest s)))) (w_work_items w)))"
  have "andthen (each_proc (recover_item s) ?is)
      (\<lambda>done. ret (map fst (List.map_filter id done), map snd (List.map_filter id done))) w = (Inr y, w')"
    using assms(3) unfolding recover_stale_work_items_def
      andthen_Inr [of "list_work_items None None _", OF list_work_items_run [OF assms(1,2)]] .
  then obtain ys where ys: "each_proc (recover_item s) ?is w = (Inr ys, w')" by (rule andthen_InrE) simp
  have in_rows: "set ?is = set (rows_of_client w (cm_client_id (ss_manifest s)))"
    by (auto simp: rows_of_client_def row_wanted_def wanted_def)
  have stored: "item_of w (wi_work_item_id j) = Some j" if "j \<in> set ?is" for j
    using that item_of_row [OF assms(2)] by (auto simp: work_item_key_def)
  have "distinct (map work_item_key (w_work_items w))"
    using keyed_items [OF assms(2)] by (simp add: keyed_def)
  then have "distinct (map work_item_key (sort_key (\<lambda>r. work_item_order (wr_item r))
       (filter (row_wanted None None (Some (cm_client_id (ss_manifest s)))) (w_work_items w))))"
    by (simp add: distinct_map inj_on_def)
  then have "distinct (map wi_work_item_id ?is)" by (simp add: comp_def work_item_key_def [abs_def])
  from each_recovered [OF assms(1,2) ys stored this] assms(4) in_rows show ?thesis by blast
qed

section \<open>One stale client\<close>

lemma keyed_leases: "store_ok w \<Longrightarrow> keyed lease_task_id (w_leases w)"
  by (simp add: store_ok_def rows_keyed_def)

lemma keep_items_expire: "obeys (same_on w_work_items) (expire_task_leases_for_client c)"
  unfolding expire_task_leases_for_client_def save_task_lease_def write_lease_def [symmetric]
  by (intro frame.effect_intros events_keep_rows.list_task_leases events_keep_rows.load_client_manifest
      events_keep_rows.eff_migrate frame_lease) simp

definition lost_of :: "world \<Rightarrow> pystr \<Rightarrow> pystr list option" where
  "lost_of w c = map_option hr_lost_task_leases (tbl_find hr_client_id c (w_heartbeats w))"

definition active_lease_ids :: "world \<Rightarrow> pystr \<Rightarrow> pystr list" where
  "active_lease_ids w c =
     map lease_task_id (sort_key (\<lambda>l. (lease_run_id l, lease_task_id l)) (active_leases w c))"

lemma mark_client_stale_Inr:
  assumes "migrated w" "store_ok w" "mark_client_stale c None w = (Inr snap, w')"
  shows "cm_client_id (ss_manifest snap) = c \<and> ss_status snap = Rt_Stale
    \<and> ss_lost_task_leases snap = active_lease_ids w c \<and> active_leases w' c = []
    \<and> w_work_items w' = w_work_items w \<and> lost_of w' c = Some (active_lease_ids w c)"
proof -
  let ?hb = "\<lambda>ls row. \<lparr>hr_client_id = c, hr_status = Rt_Stale,
        hr_last_heartbeat_at = Option.bind row hr_last_heartbeat_at,
        hr_last_run_id = Option.bind row hr_last_run_id,
        hr_last_task_id = Option.bind row hr_last_task_id,
        hr_lost_task_leases = ls, hr_payload = None\<rparr>"
  let ?tail = "\<lambda>m released. andthen (reads (\<lambda>w. tbl_find hr_client_id c (w_heartbeats w))) (\<lambda>row.
      andthen (upsert_row w_heartbeats (\<lambda>rows w. w\<lparr>w_heartbeats := rows\<rparr>) hr_client_id merge_stale
       (\<lambda>w r. has_manifest w (hr_client_id r)) (?hb released row)) (\<lambda>_.
      ret \<lparr>ss_manifest = m, ss_status = Rt_Stale, ss_last_heartbeat_at = Option.bind row hr_last_heartbeat_at,
          ss_last_run_id = Option.bind row hr_last_run_id, ss_last_task_id = Option.bind row hr_last_task_id,
          ss_lost_task_leases = released\<rparr>))"
  obtain m w1 where m: "load_client_manifest c w = (Inr m, w1)"
    and rest: "andthen migrate (\<lambda>_.
      andthen (andthen (expire_task_leases_for_client c) (\<lambda>ls. ret (map lease_task_id ls))) (?tail m)) w1
      = (Inr snap, w')"
    by (rule andthen_InrE [OF assms(3) [unfolded mark_client_stale_def option.case]])
  have w1: "w1 = w" using m assms(1) by (simp add: load_client_manifest_run)
  have id: "cm_client_id m = c"
    using m assms(1) by (auto simp: load_client_manifest_run find_or_key_error_def manifest_key_def
        split: option.splits dest!: tbl_find_SomeD dest: parse_client_manifest_fields(1))
  have "andthen (expire_task_leases_for_client c) (\<lambda>ls. ?tail m (map lease_task_id ls)) w = (Inr snap, w')"
    using rest assms(1) unfolding w1 by (simp only: andthen_assoc andthen_ret after_migrate)
  then obtain ls w2 where ls: "expire_task_leases_for_client c w = (Inr ls, w2)"
    and tail: "?tail m (map lease_task_id ls) w2 = (Inr snap, w')"
    by (rule andthen_InrE)
  note rows = sameD [OF keep_items_expire ls]
  have ok2: "store_ok w2" using keepingD [OF consistent.expire_task_leases_for_client assms(2) ls] .
  note e = expire_leases_Inr [OF assms(1) keyed_leases [OF assms(2)] keyed_leases [OF ok2] ls]
  let ?old = "tbl_find hr_client_id c (w_heartbeats w2)"
  from tail have w': "w' = w2\<lparr>w_heartbeats := tbl_upsert hr_client_id merge_stale (?hb (map lease_task_id ls) ?old) (w_heartbeats w2)\<rparr>"
    and snap: "ss_manifest snap = m" "ss_status snap = Rt_Stale" "ss_lost_task_leases snap = map lease_task_id ls"
    by (auto simp: upsert_row_def andthen_def [of "\<lambda>w. _ w"] split: if_splits)
  have "lost_of w' c = Some (map lease_task_id ls)"
    unfolding lost_of_def w' by (simp add: tbl_find_upsert merge_stale_def split: option.splits)
  moreover have "active_leases w' c = active_leases w2 c" by (simp add: w' active_leases_def)
  ultimately show ?thesis using id snap e rows by (simp add: w' active_lease_ids_def)
qed

text \<open>Recovering items leaves leases and heartbeats alone.\<close>

interpretation items_keep_heartbeats: item_effects "same_on w_heartbeats"
  by unfold_locales
    (intro frame_event beside_frames beside_create_rows beside_transition_rows beside_instances; simp)+

lemma items_keep_leases_recovery: "obeys (same_on w_leases) (recover_stale_work_items s)"
  unfolding recover_stale_work_items_def recover_item_def
  by (intro frame.effect_intros items_keep_leases.list_work_items items_keep_leases.wrappers
      items_keep_leases.record_event)

lemma items_keep_heartbeats_recovery: "obeys (same_on w_heartbeats) (recover_stale_work_items s)"
  unfolding recover_stale_work_items_def recover_item_def
  by (intro frame.effect_intros items_keep_heartbeats.list_work_items items_keep_heartbeats.wrappers
      items_keep_heartbeats.record_event)

text \<open>
  C6: when a client was marked stale and the recovery returned, no active lease of it is left;
  the leases it lost are exactly those that were active, in the answer and in its heartbeat row
  (so a second scan, which finds none, forgets them); every item its column says it held and
  that was in progress is requeued with neither client nor lease, and its other items are
  unchanged.
\<close>

theorem stale_client_loses_its_work:
  assumes "migrated w" "store_ok w" "mark_one_stale (s, age) w = (Inr r, w')"
    and "cm_client_id (ss_manifest s) = c"
  shows "ss_status (st_snapshot r) = Rt_Stale \<and> active_leases w' c = []
    \<and> ss_lost_task_leases (st_snapshot r) = active_lease_ids w c \<and> lost_of w' c = Some (active_lease_ids w c)
    \<and> (\<forall>i \<in> set (rows_of_client w c).
          if recoverable_status (wi_status i) then free_again (item_of w' (wi_work_item_id i))
          else item_of w' (wi_work_item_id i) = Some i)"
proof -
  obtain snap w1 where snap: "mark_client_stale c None w = (Inr snap, w1)"
    and rest: "andthen (record_event (stale_event snap age)) (\<lambda>e.
     andthen (recover_stale_work_items snap) (\<lambda>(recovered, events).
     ret \<lparr>st_snapshot = snap, st_event = e, st_recovered_work_items = recovered,
          st_recovery_events = events, st_reassigned_work_items = []\<rparr>)) w1 = (Inr r, w')"
    by (rule andthen_InrE [OF assms(3) [unfolded mark_one_stale_def fst_conv snd_conv assms(4)]])
  note m = mark_client_stale_Inr [OF assms(1,2) snap]
  obtain e w2 where e: "record_event (stale_event snap age) w1 = (Inr e, w2)"
    and rest2: "andthen (recover_stale_work_items snap) (\<lambda>(recovered, events).
     ret \<lparr>st_snapshot = snap, st_event = e, st_recovered_work_items = recovered,
          st_recovery_events = events, st_reassigned_work_items = []\<rparr>) w2 = (Inr r, w')"
    using rest by (rule andthen_InrE)
  from rest2 obtain y where y: "recover_stale_work_items snap w2 = (Inr y, w')" and r: "st_snapshot r = snap"
    by (auto elim!: andthen_InrE split: prod.splits)
  have w1: "migrated w1" "store_ok w1"
    using keepingD [OF stays_migrated.mark_client_stale assms(1) snap]
      keepingD [OF consistent.mark_client_stale assms(2) snap] by simp_all
  have w2: "migrated w2" "store_ok w2"
    using keepingD [OF stays_migrated.record_event w1(1) e] keepingD [OF consistent.record_event w1(2) e] by simp_all
  have rows: "rows_of_client w2 c = rows_of_client w c"
    using sameD [OF events_keep_rows.record_event e] m by (simp add: rows_of_client_def)
  have leases: "w_leases w' = w_leases w1"
    using sameD [OF items_keep_leases.record_event e] sameD [OF items_keep_leases_recovery y] by simp
  have hb: "w_heartbeats w' = w_heartbeats w1"
    using sameD [OF items_keep_heartbeats.record_event e] sameD [OF items_keep_heartbeats_recovery y] by simp
  show ?thesis using m r leases hb rows recover_stale_Inr [OF w2 y]
    by (simp add: active_leases_def lost_of_def)
qed

text \<open>The instance: the example client, with its one active lease and its running item.\<close>

definition demo_stale :: client_status_snapshot where
  "demo_stale = \<lparr>ss_manifest = demo_client ''c1'' Trusted, ss_status = Rt_Stale,
     ss_last_heartbeat_at = Some demo_time, ss_last_run_id = None, ss_last_task_id = None,
     ss_lost_task_leases = [''t1'']\<rparr>"

definition demo_marked :: world where
  "demo_marked = demo\<lparr>w_leases := [expired_lease demo_lease],
     w_heartbeats := [demo_heartbeat\<lparr>hr_status := Rt_Stale, hr_lost_task_leases := [''t1'']\<rparr>]\<rparr>"

lemma demo_load_client: "load_client_manifest ''c1'' (demo\<lparr>w_leases := ls\<rparr>) = (Inr (demo_client ''c1'' Trusted), demo\<lparr>w_leases := ls\<rparr>)"
proof -
  have "tbl_find manifest_key ''c1'' (w_manifests demo)
      = Some \<lparr>mr_manifest = demo_client ''c1'' Trusted, mr_registered_at = demo_time\<rparr>"
    by (simp add: demo_defs tbl_find_Cons manifest_key_def)
  then show ?thesis using demo_migrated
    by (simp add: load_client_manifest_def find_or_key_error_def demo_client_parses migrated_def)
qed

lemma demo_loads: "load_client_manifest ''c1'' demo = (Inr (demo_client ''c1'' Trusted), demo)"
  using demo_load_client [of "w_leases demo"] by simp

lemma demo_expires: "expire_task_leases_for_client ''c1'' demo = (Inr [expired_lease demo_lease], demo\<lparr>w_leases := [expired_lease demo_lease]\<rparr>)"
proof -
  have "w_leases demo = [demo_lease]" "lease_client_id demo_lease = ''c1''" by (simp_all add: demo_def demo_lease_def)
  then have "save_task_lease (expired_lease demo_lease) demo
      = (Inr (expired_lease demo_lease), demo\<lparr>w_leases := [expired_lease demo_lease]\<rparr>)"
    using demo_loads demo_migrated demo_has_manifest
    by (simp add: save_task_lease_def andthen_def upsert_row_def tbl_upsert_def take_new_def tbl_find_Cons)
  then show ?thesis using demo_active
    by (simp add: expire_task_leases_for_client_def andthen_def expired_lease_def [symmetric])
qed

lemma demo_marks: "mark_client_stale ''c1'' None demo = (Inr demo_stale, demo_marked)"
proof -
  have hb: "w_heartbeats demo = [demo_heartbeat]" by (simp add: demo_def)
  show ?thesis
    using demo_loads demo_expires demo_migrated demo_has_manifest
    by (simp add: mark_client_stale_def andthen_def migrated_def hb upsert_row_def tbl_upsert_def tbl_find_Cons
        has_manifest_def demo_stale_def demo_marked_def merge_stale_def)
      (simp add: demo_heartbeat_def demo_lease_def)
qed

lemma demo_mark_event:
  assumes "store_ok demo_marked"
  shows "\<exists>e. record_event (stale_event demo_stale 5) demo_marked = (Inr e, with_event e demo_marked)
     \<and> event_id e = event_id_of (demo_uuid 0)"
proof -
  have u: "next_uuid demo_marked = demo_uuid 0" "w_events demo_marked = []"
    by (simp_all add: demo_marked_def next_uuid_def demo_def fresh_world_def)
  have m: "migrated demo_marked" using demo_migrated by (simp add: demo_marked_def migrated_def)
  have "can_append (next_event (stale_event demo_stale 5) demo_marked) demo_marked"
    using event_id_safe [OF demo_uuid_hex [of 0]]
    by (simp add: can_append_def next_event_def stale_event_def valid_event_def demo_stale_def demo_client_def
        text_defs u whole_seconds_def usec_def show_nat.simps show_int_def)
  then show ?thesis
    using m store_ok_events [OF assms] by (simp add: record_event_run next_event_def stale_event_def u)
qed

lemma demo_rows:
  "map wr_item (sort_key (\<lambda>r. work_item_order (wr_item r))
     (filter (row_wanted None None (Some ''c1'')) (w_work_items demo)))
   = [demo_item ''a'' Approved (Some ''c1''), demo_item ''d'' Completed (Some ''c1''), demo_item ''u'' Running (Some ''c1'')]"
  by (simp add: row_wanted_def wanted_def work_item_order_def demo_def demo_items_def row_of_def demo_item_def)

lemma demo_uuids_distinct: "event_id_of (demo_uuid 0) \<noteq> event_id_of (demo_uuid (Suc 0))"
  "event_id_of (demo_uuid 0) \<noteq> event_id_of (demo_uuid 2)" "event_id_of (demo_uuid (Suc 0)) \<noteq> event_id_of (demo_uuid 2)"
  by (simp_all add: event_id_of_def demo_uuid_def hex_digit_def)

lemma demo_requeues:
  assumes w: "w = with_event e demo_marked" and ok: "store_ok w" and e: "event_id e = event_id_of (demo_uuid 0)"
  shows "\<exists>y w'. recover_item demo_stale (demo_item ''u'' Running (Some ''c1'')) w = (Inr y, w')"
proof -
  let ?i = "demo_item ''u'' Running (Some ''c1'')"
  let ?j = "?i\<lparr>wi_status := Requeued, wi_updated_at := normalize_time (now_of w),
      wi_assigned_client_id := None, wi_lease_id := None\<rparr>"
  have "migrated demo_marked" using demo_migrated by (simp add: demo_marked_def migrated_def)
  then have m: "migrated w" by (simp add: w)
  have item: "item_of w ''u'' = Some ?i" using demo_item_of(3) by (simp add: w item_of_def demo_marked_def)
  have u: "next_uuid w = demo_uuid 1" "next_uuid (drawn w) = demo_uuid 2" "w_events w = [e]"
    by (simp_all add: w demo_marked_def next_uuid_def with_event_def drawn_def demo_def fresh_world_def numeral_2_eq_2)
  have "valid_work_item (demo_item ''u'' Requeued (Some ''c1''))" by (simp add: demo_item_valid)
  then have ci: "changed_item ?i Requeued no_change (now_of w) = Inr ?j"
    by (simp add: changed_item_def update_work_item_def no_change_def parse_work_item_def demo_item_def
        valid_work_item_def)
  have fk: "work_item_fk w (row_of ?j)" by (simp add: work_item_fk_def row_of_def demo_item_def)
  have fresh: "next_id_fresh w" using u e demo_uuids_distinct demo_uuid_hex by (simp add: next_id_fresh_def)
  have caller: "valid_caller (stale_caller demo_stale)"
    by (simp add: valid_caller_def stale_caller_def demo_stale_def demo_client_def text_defs)
  let ?m = "''Work item u requeued after stale client c1 abandoned running work.''"
  have "Requeued \<in> set (allowed_transitions (wi_status ?i))" by (simp add: demo_item_def)
  from transition_run [OF m ok item this ci fk caller fresh, of "Some ?m"] obtain f where
    f: "event_id f = event_id_of (demo_uuid 1)" and
    run: "transition ''u'' Requeued (stale_caller demo_stale) no_change (Some ?m) w =
      (Inr \<lparr>tx_status_code = 200, tx_work_item = ?j, tx_event = f,
         tx_decision = transition_decision (wi_status ?i) Requeued\<rparr>, with_event f (put_item ?j (tick w)))"
    using u by auto
  let ?w = "with_event f (put_item ?j (tick w))"
  have "obeys (keeping store_ok) (transition ''u'' Requeued (stale_caller demo_stale) no_change (Some ?m))"
    by (rule consistent.transition)
  from keepingD [OF this ok run] have ok2: "store_ok ?w" .
  have u2: "next_uuid ?w = demo_uuid 2" "w_events ?w = [e, f]"
    using u by (simp_all add: with_event_def next_uuid_def drawn_def tick_def)
  have can: "can_append (next_event (recovery_event demo_stale ?j) ?w) ?w"
    using event_id_safe [OF demo_uuid_hex [of 2]] f e demo_uuids_distinct
    by (simp add: can_append_def u2 u next_event_def)
      (simp add: recovery_event_def demo_stale_def demo_client_def valid_event_def demo_item_def text_defs)
  have "record_event (recovery_event demo_stale ?j) ?w
     = (Inr (next_event (recovery_event demo_stale ?j) ?w), with_event (next_event (recovery_event demo_stale ?j) ?w) ?w)"
    using m can store_ok_events [OF ok2] by (simp add: record_event_run)
  with run show ?thesis
    by (simp add: recover_item_def requeue_def andthen_def recoverable_status_def demo_item_def demo_stale_def demo_client_def)
qed

lemma demo_stale_run: "\<exists>r w'. mark_one_stale (demo_stale, 5) demo = (Inr r, w')"
proof -
  have ok1: "store_ok demo_marked"
    using keepingD [OF consistent.mark_client_stale demo_ok demo_marks] .
  obtain e where e: "record_event (stale_event demo_stale 5) demo_marked = (Inr e, with_event e demo_marked)"
    and id: "event_id e = event_id_of (demo_uuid 0)"
    using demo_mark_event [OF ok1] by blast
  let ?w = "with_event e demo_marked"
  have ok2: "store_ok ?w" using keepingD [OF consistent.record_event ok1 e] .
  have "migrated demo_marked" using demo_migrated by (simp add: demo_marked_def migrated_def)
  then have m2: "migrated ?w" by simp
  have "w_work_items ?w = w_work_items demo" by (simp add: demo_marked_def)
  then have items: "list_work_items None None (Some ''c1'') ?w =
      (Inr [demo_item ''a'' Approved (Some ''c1''), demo_item ''d'' Completed (Some ''c1''), demo_item ''u'' Running (Some ''c1'')], ?w)"
    using list_work_items_run [OF m2 ok2] demo_rows by simp
  obtain y w' where y: "recover_item demo_stale (demo_item ''u'' Running (Some ''c1'')) ?w = (Inr y, w')"
    using demo_requeues [OF refl ok2 id] by blast
  have rest: "recover_item demo_stale (demo_item k st who) ?w = (Inr None, ?w)" if "st \<in> {Approved, Completed}" for k st who
    using that by (auto simp: recover_item_def recoverable_status_def demo_item_def)
  have c: "cm_client_id (ss_manifest demo_stale) = ''c1''" by (simp add: demo_stale_def demo_client_def)
  have each: "each_proc (recover_item demo_stale)
      [demo_item ''a'' Approved (Some ''c1''), demo_item ''d'' Completed (Some ''c1''), demo_item ''u'' Running (Some ''c1'')] ?w
      = (Inr [None, None, y], w')"
    using y by (simp add: andthen_def rest)
  have "recover_stale_work_items demo_stale ?w = (Inr (map fst (List.map_filter id [None, None, y]),
      map snd (List.map_filter id [None, None, y])), w')"
    unfolding recover_stale_work_items_def c
      andthen_Inr [of "list_work_items _ _ _", OF items] andthen_Inr [of "each_proc _ _", OF each] by simp
  then show ?thesis
    using demo_marks e c by (auto simp: mark_one_stale_def andthen_def)
qed

theorem stale_client_loses_its_work_witness:
  "\<exists>r w'. mark_one_stale (demo_stale, 5) demo = (Inr r, w') \<and> active_leases w' ''c1'' = []
     \<and> free_again (item_of w' ''u'')"
proof -
  obtain r w' where run: "mark_one_stale (demo_stale, 5) demo = (Inr r, w')" using demo_stale_run by blast
  have c: "cm_client_id (ss_manifest demo_stale) = ''c1''" by (simp add: demo_stale_def demo_client_def)
  have u: "demo_item ''u'' Running (Some ''c1'') \<in> set (rows_of_client demo ''c1'')"
    by (simp add: rows_of_client_def demo_def demo_items_def row_of_def demo_item_def)
  have st: "recoverable_status (wi_status (demo_item ''u'' Running (Some ''c1'')))"
    "wi_work_item_id (demo_item ''u'' Running (Some ''c1'')) = ''u''"
    by (simp_all add: demo_item_def recoverable_status_def)
  from stale_client_loses_its_work [OF demo_migrated demo_ok run c] u
  have "active_leases w' ''c1'' = []" and "if recoverable_status (wi_status (demo_item ''u'' Running (Some ''c1'')))
     then free_again (item_of w' (wi_work_item_id (demo_item ''u'' Running (Some ''c1''))))
     else item_of w' (wi_work_item_id (demo_item ''u'' Running (Some ''c1''))) = Some (demo_item ''u'' Running (Some ''c1''))"
    by blast+
  with st run show ?thesis by auto
qed

end
