(* ===== verification/Dashboard.thy ===== *)
theory Dashboard
  imports Json_Text Projection Verify_Runner
begin

text \<open>
  What the HTTP server adds to a dashboard snapshot (the payload functions of
  \<open>vad/server/app.py\<close> and the status functions of \<open>vad/control_plane/plugins.py\<close>): active
  clients, leases, the task board with its columns, proof and terminal streams with secrets
  redacted, plug-ins and governance. Rows are dicts (lists of items) as in the source, which reads
  them with \<open>get\<close>.
\<close>

type_synonym row = "(pystr \<times> json) list"

definition dict_update :: "row \<Rightarrow> row \<Rightarrow> row" where
  "dict_update new d = fold (\<lambda>(k, v). dict_set k v) new d"

definition text_row :: "(pystr \<times> pystr) list \<Rightarrow> row" where
  "text_row kvs = map (\<lambda>(k, v). (k, J_Str v)) kvs"

definition optional_texts :: "(pystr \<times> pystr option) list \<Rightarrow> row" where
  "optional_texts kvs = map (\<lambda>(k, v). (k, opt_json J_Str v)) kvs"

section \<open>Redaction of log texts\<close>

text \<open>
  The first pattern: a keyword in any case, blanks, \<open>:\<close> or \<open>=\<close>, blanks, and at least one character
  that is no comma, semicolon or blank. Each part is delimited by characters the next cannot
  begin with, so the greedy match never goes back.
\<close>

definition secret_keywords :: "pystr list" where
  "secret_keywords =
     [''api_key'', ''api-key'', ''apikey'', ''token'', ''password'', ''secret'', ''private_key'', ''private-key'', ''privatekey'']"

definition keyword_at :: "pystr \<Rightarrow> pystr option" where
  "keyword_at s = find (\<lambda>k. is_prefix_of k (py_lower s)) secret_keywords"

definition value_char :: "char \<Rightarrow> bool" where
  "value_char c = (c \<noteq> CHR '','' \<and> c \<noteq> CHR '';'' \<and> \<not> py_isspace c)"

text \<open>The keyword as it is written, and what follows the whole match.\<close>

definition assignment_at :: "pystr \<Rightarrow> (pystr \<times> pystr) option" where
  "assignment_at s =
     (case keyword_at s of None \<Rightarrow> None
      | Some k \<Rightarrow>
          (case dropWhile py_isspace (drop (length k) s) of
             [] \<Rightarrow> None
           | c # rest \<Rightarrow>
               (let v = dropWhile py_isspace rest in
                if c \<in> {CHR '':'', CHR ''=''} \<and> v \<noteq> [] \<and> value_char (hd v)
                then Some (take (length k) s, dropWhile value_char v) else None)))"

lemma assignment_shorter: "assignment_at s = Some (k, rest) \<Longrightarrow> length rest < length s"
proof -
  assume a: "assignment_at s = Some (k, rest)"
  then obtain k' c t where k: "keyword_at s = Some k'" "dropWhile py_isspace (drop (length k') s) = c # t"
    "rest = dropWhile value_char (dropWhile py_isspace t)"
    by (auto simp: assignment_at_def Let_def split: option.splits list.splits if_splits)
  have "length (c # t) \<le> length (drop (length k') s)" unfolding k(2) [symmetric] by (rule length_dropWhile_le)
  moreover have "length rest \<le> length t"
    unfolding k(3) by (meson le_trans length_dropWhile_le)
  ultimately show ?thesis by simp
qed

function redact_assignments :: "pystr \<Rightarrow> pystr" where
  "redact_assignments s =
     (case s of
        [] \<Rightarrow> []
      | c # cs \<Rightarrow>
          (case assignment_at s of
             Some (k, rest) \<Rightarrow> k @ ''=[REDACTED]'' @ redact_assignments rest
           | None \<Rightarrow> c # redact_assignments cs))"
  by pat_completeness auto
termination
  by (relation "measure length") (auto dest: assignment_shorter)

declare redact_assignments.simps [simp del]

definition key_char_at :: "char \<Rightarrow> bool" where
  "key_char_at c =
     (let n = of_char c :: nat in
      (48 \<le> n \<and> n \<le> 57) \<or> (65 \<le> n \<and> n \<le> 90) \<or> (97 \<le> n \<and> n \<le> 122) \<or> c = CHR ''_'' \<or> c = CHR ''-'')"

text \<open>The second pattern: \<open>sk-\<close> and at least one character of a key.\<close>

function redact_keys :: "pystr \<Rightarrow> pystr" where
  "redact_keys s =
     (case s of
        [] \<Rightarrow> []
      | c # cs \<Rightarrow>
          (let rest = drop 3 s in
           if is_prefix_of ''sk-'' s \<and> rest \<noteq> [] \<and> key_char_at (hd rest)
           then ''secret=[REDACTED]'' @ redact_keys (dropWhile key_char_at rest)
           else c # redact_keys cs))"
  by pat_completeness auto
termination
  by (relation "measure length")
    (auto simp: less_Suc_eq_le intro: le_trans [OF length_dropWhile_le])

declare redact_keys.simps [simp del]

definition redact_log_text :: "json \<Rightarrow> pystr" where
  "redact_log_text v = redact_keys (redact_assignments (if json_truthy v then py_str v else []))"

lemma redact_log_examples:
  "redact_log_text (J_Str ''API_KEY = abc, ok sk-xyz.'') = ''API_KEY=[REDACTED], ok secret=[REDACTED].''"
  "redact_log_text J_Null = []"
  by code_simp+

section \<open>Clients and leases\<close>

fun client_type_value :: "client_type \<Rightarrow> pystr" where
  "client_type_value Codex = ''codex''"
| "client_type_value Claude_Code = ''claude_code''"
| "client_type_value Vs_Code = ''vscode''"
| "client_type_value Antigravity = ''antigravity''"
| "client_type_value Windsurf = ''windsurf''"
| "client_type_value Cursor = ''cursor''"
| "client_type_value Opencode = ''opencode''"
| "client_type_value Generic_Mcp = ''generic_mcp''"
| "client_type_value Other_Client = ''other''"

fun connection_mode_value :: "connection_mode \<Rightarrow> pystr" where
  "connection_mode_value Mcp = ''mcp''"
| "connection_mode_value Plugin = ''plugin''"
| "connection_mode_value Sdk = ''sdk''"
| "connection_mode_value Cli = ''cli''"
| "connection_mode_value Http = ''http''"

fun runtime_status_value :: "runtime_status \<Rightarrow> pystr" where
  "runtime_status_value Rt_Active = ''active''"
| "runtime_status_value Rt_Stale = ''stale''"
| "runtime_status_value Rt_Disconnected = ''disconnected''"

fun utc_if_naive :: "datetime \<Rightarrow> datetime" where
  "utc_if_naive (Naive t) = Aware t 0"
| "utc_if_naive d = d"

definition active_client_row :: "datetime \<Rightarrow> client_status_snapshot \<Rightarrow> row" where
  "active_client_row now s =
     (let m = ss_manifest s; at = map_option utc_if_naive (ss_last_heartbeat_at s) in
      [(''client_id'', J_Str (cm_client_id m)), (''display_name'', J_Str (cm_display_name m)),
       (''client_type'', J_Str (client_type_value (cm_client_type m))),
       (''status'', J_Str (runtime_status_value (ss_status s))),
       (''heartbeat_age_seconds'', opt_json (\<lambda>t. J_Int (max 0 ((instant now - instant t) div usec))) at),
       (''last_heartbeat_at'', opt_json (\<lambda>t. J_Str (isoformat t)) at),
       (''supported_capabilities'', J_List (map J_Str (cm_supported_capabilities m))),
       (''connection_mode'', J_Str (connection_mode_value (cm_connection_mode m))),
       (''trust_state'', J_Str (trust_state_value (cm_trust_state m))),
       (''last_run_id'', opt_json J_Str (ss_last_run_id s)), (''last_task_id'', opt_json J_Str (ss_last_task_id s)),
       (''lost_task_leases'', J_List (map J_Str (ss_lost_task_leases s)))])"

fun lease_board_status :: "lease_status \<Rightarrow> pystr" where
  "lease_board_status Ls_Released = ''passed''"
| "lease_board_status Ls_Expired = ''failed''"
| "lease_board_status Ls_Blocked = ''blocked''"
| "lease_board_status Ls_Active = ''active''"

definition lease_row :: "task_lease \<Rightarrow> row" where
  "lease_row l =
     [(''task_id'', J_Str (lease_task_id l)), (''run_id'', J_Str (lease_run_id l)),
      (''client_id'', J_Str (lease_client_id l)), (''lease_owner'', J_Str (lease_client_id l)),
      (''actor'', J_Str (lease_actor l)), (''role'', J_Str (lease_role l)),
      (''status'', J_Str (lease_status_value (lease_status l))),
      (''board_status'', J_Str (lease_board_status (lease_status l))),
      (''acquired_at'', J_Str (isoformat (lease_acquired_at l))),
      (''expires_at'', J_Str (isoformat (lease_expires_at l))),
      (''release_reason'', opt_json J_Str (lease_release_reason l))]"

section \<open>The task board\<close>

definition governance_json :: "governance \<Rightarrow> json" where
  "governance_json g =
     J_Dict [(''effort_type'', J_Str (gv_effort_type g)), (''mees_estimate'', J_Int (gv_mees_estimate g)),
       (''token_budget'', J_Int (gv_token_budget g)), (''approval_required'', J_Bool (gv_approval_required g)),
       (''live_service_opt_in'', J_Bool (gv_live_service_opt_in g)), (''high_risk'', J_Bool (gv_high_risk g)),
       (''operator_intent_ref'', opt_json J_Str (gv_operator_intent_ref g)),
       (''approval_ref'', opt_json J_Str (gv_approval_ref g))]"

fun work_item_board_status :: "work_item_status \<Rightarrow> pystr" where
  "work_item_board_status Blocked = ''blocked''"
| "work_item_board_status Waiting_For_Human = ''needs_human''"
| "work_item_board_status Approved = ''passed''"
| "work_item_board_status Completed = ''passed''"
| "work_item_board_status Failed = ''failed''"
| "work_item_board_status Cancelled = ''failed''"
| "work_item_board_status _ = ''active''"

definition item_board_row :: "work_item \<Rightarrow> row" where
  "item_board_row i =
     [(''task_id'', J_Str (wi_work_item_id i)), (''work_item_id'', J_Str (wi_work_item_id i)),
      (''run_id'', J_Str (wi_run_id i)), (''client'', opt_json J_Str (wi_assigned_client_id i)),
      (''client_id'', opt_json J_Str (wi_assigned_client_id i)), (''actor'', opt_json J_Str (wi_assigned_client_id i)),
      (''role'', J_Str (wi_role i)), (''status'', J_Str (work_item_board_status (wi_status i))),
      (''work_item_status'', J_Str (work_item_status_value (wi_status i))), (''kind'', J_Str ''work_item''),
      (''summary'', J_Str (wi_title i)), (''description'', J_Str (wi_description i)),
      (''priority'', J_Int (wi_priority i)), (''requested_capability'', opt_json J_Str (wi_requested_capability i)),
      (''governance'', opt_json governance_json (wi_governance i)),
      (''updated_at'', J_Str (isoformat (wi_updated_at i))), (''event_id'', J_Null),
      (''lease_id'', opt_json J_Str (wi_lease_id i)), (''evidence_digest'', opt_json J_Str (wi_evidence_digest i)),
      (''blocked_reason'', opt_json J_Str (wi_blocked_reason i))]"

definition board_states :: "pystr list" where
  "board_states = [''active'', ''blocked'', ''passed'', ''failed'', ''needs_human'']"

definition board_status :: "json \<Rightarrow> pystr \<Rightarrow> pystr" where
  "board_status status fallback =
     (let normalized = py_str (json_or status (J_Str fallback)) in
      if normalized \<in> set board_states then normalized
      else if normalized \<in> {''stale'', ''expired''} then ''failed''
      else if normalized = ''released'' then ''passed''
      else if fallback \<in> set board_states then fallback else ''active'')"

lemma board_status_known: "board_status s f \<in> set board_states"
  by (simp add: board_status_def Let_def) (simp add: board_states_def)

text \<open>\<open>row.get(a) or row.get(b)\<close>, and \<open>row.get(key, other)\<close>.\<close>

definition either :: "pystr \<Rightarrow> pystr \<Rightarrow> row \<Rightarrow> json" where
  "either a b r = json_or (get_or_null a r) (get_or_null b r)"

definition get_else :: "pystr \<Rightarrow> json \<Rightarrow> row \<Rightarrow> json" where
  "get_else key other r = (case dict_get key r of None \<Rightarrow> other | Some v \<Rightarrow> v)"

definition board_row :: "json \<Rightarrow> row \<Rightarrow> row" where
  "board_row task_id r =
     [(''task_id'', task_id), (''run_id'', get_or_null ''run_id'' r), (''client'', either ''client'' ''client_id'' r),
      (''client_id'', get_or_null ''client_id'' r), (''actor'', get_or_null ''actor'' r),
      (''role'', get_or_null ''role'' r), (''status'', get_else ''status'' (J_Str ''active'') r),
      (''work_item_id'', get_or_null ''work_item_id'' r), (''work_item_status'', get_or_null ''work_item_status'' r),
      (''kind'', get_or_null ''kind'' r), (''summary'', get_else ''summary'' (J_Str []) r),
      (''description'', get_or_null ''description'' r), (''priority'', get_or_null ''priority'' r),
      (''requested_capability'', get_or_null ''requested_capability'' r),
      (''governance'', get_or_null ''governance'' r), (''updated_at'', either ''updated_at'' ''created_at'' r),
      (''event_id'', either ''event_id'' ''activity_id'' r), (''lease_id'', get_or_null ''lease_id'' r),
      (''evidence_digest'', get_or_null ''evidence_digest'' r), (''blocked_reason'', get_or_null ''blocked_reason'' r)]"

definition put_board_row :: "row \<Rightarrow> (json \<times> row) list \<Rightarrow> (json \<times> row) list" where
  "put_board_row r rows =
     (let task_id = either ''task_id'' ''activity_id'' r in
      if \<not> json_truthy task_id then rows else dict_set task_id (board_row task_id r) rows)"

definition lease_only_row :: "task_lease \<Rightarrow> row" where
  "lease_only_row l =
     [(''task_id'', J_Str (lease_task_id l)), (''run_id'', J_Str (lease_run_id l)),
      (''client'', J_Str (lease_client_id l)), (''client_id'', J_Str (lease_client_id l)),
      (''actor'', J_Str (lease_actor l)), (''role'', J_Str (lease_role l)),
      (''status'', J_Str (lease_board_status (lease_status l))), (''kind'', J_Str ''task_lease''),
      (''summary'', J_Str (''Task lease held by '' @ lease_client_id l @ ''.'')),
      (''updated_at'', J_Str (isoformat (lease_acquired_at l))), (''event_id'', J_Null)]"

definition attach_lease :: "task_lease \<Rightarrow> row \<Rightarrow> row" where
  "attach_lease l r =
     (let r' = dict_update
        [(''lease_owner'', J_Str (lease_client_id l)), (''lease_status'', J_Str (lease_status_value (lease_status l))),
         (''lease_expires_at'', J_Str (isoformat (lease_expires_at l))), (''lease_actor'', J_Str (lease_actor l)),
         (''lease_role'', J_Str (lease_role l)), (''release_reason'', opt_json J_Str (lease_release_reason l))] r
      in dict_set ''status''
           (J_Str (board_status (get_or_null ''status'' r') (lease_board_status (lease_status l)))) r')"

definition add_lease :: "pystr \<times> task_lease \<Rightarrow> (json \<times> row) list \<Rightarrow> (json \<times> row) list" where
  "add_lease = (\<lambda>(task_id, l) rows.
     dict_set (J_Str task_id)
       (attach_lease l (case dict_get (J_Str task_id) rows of None \<Rightarrow> lease_only_row l | Some r \<Rightarrow> r)) rows)"

text \<open>A work item names its lease by the id of the leased task.\<close>

definition follow_lease :: "(pystr \<times> task_lease) list \<Rightarrow> row \<Rightarrow> row" where
  "follow_lease leases_by_task r =
     (case get_or_null ''lease_id'' r of
        J_Str lease_id \<Rightarrow>
          (if lease_id = [] then r
           else case dict_get lease_id leases_by_task of None \<Rightarrow> r | Some l \<Rightarrow> attach_lease l r)
      | _ \<Rightarrow> r)"

definition column_order :: "row \<Rightarrow> pystr \<times> pystr" where
  "column_order r =
     (py_str (json_or (get_or_null ''run_id'' r) (J_Str [])), py_str (json_or (get_or_null ''task_id'' r) (J_Str [])))"

definition task_board_columns :: "task_lease list \<Rightarrow> row list \<Rightarrow> (pystr \<times> row list) list" where
  "task_board_columns leases task_rows =
     (let leases_by_task = fold (\<lambda>l. dict_set (lease_task_id l) l) leases [];
          rows = map (follow_lease leases_by_task)
                   (map snd (fold add_lease leases_by_task (fold put_board_row task_rows [])))
      in map (\<lambda>status. (status, sort_key column_order
                (filter (\<lambda>r. board_status (get_or_null ''status'' r) ''active'' = status) rows))) board_states)"

section \<open>Proof and terminal streams\<close>

definition same_run_task :: "row \<Rightarrow> row \<Rightarrow> bool" where
  "same_run_task a b =
     (get_or_null ''run_id'' a = get_or_null ''run_id'' b \<and> get_or_null ''task_id'' a = get_or_null ''task_id'' b)"

definition kind_in :: "pystr list \<Rightarrow> row \<Rightarrow> bool" where
  "kind_in kinds r = (get_or_null ''kind'' r \<in> set (map J_Str kinds))"

text \<open>\<open>recovery_by_task\<close>: the last recovery action of the same run and task.\<close>

definition recovery_of :: "row list \<Rightarrow> row \<Rightarrow> row option" where
  "recovery_of events e = find (same_run_task e) (rev (filter (kind_in [''recovery_action'']) events))"

definition new_proof :: "json \<Rightarrow> row \<Rightarrow> row" where
  "new_proof task_id e =
     [(''task_id'', task_id), (''run_id'', get_or_null ''run_id'' e), (''client'', either ''client'' ''client_id'' e),
      (''client_id'', get_or_null ''client_id'' e), (''actor'', get_or_null ''actor'' e),
      (''role'', get_or_null ''role'' e), (''status'', J_Str ''active''), (''started_at'', J_Null),
      (''finished_at'', J_Null), (''summary'', J_Str []), (''evidence_digest'', get_or_null ''evidence_digest'' e),
      (''recovery_event_id'', J_Null), (''recovery_evidence_url'', J_Null)]"

definition finish_proof :: "row list \<Rightarrow> row \<Rightarrow> row \<Rightarrow> row" where
  "finish_proof events e proof =
     (let done = dict_update [(''finished_at'', either ''created_at'' ''updated_at'' e),
                   (''status'', get_else ''status'' (J_Str ''failed'') e)] proof
      in if get_or_null ''status'' e \<noteq> J_Str ''failed'' then done
         else dict_update
           [(''recovery_event_id'',
              (case recovery_of events e of None \<Rightarrow> J_Null | Some r \<Rightarrow> get_or_null ''event_id'' r)),
            (''recovery_evidence_url'',
              (if json_truthy (get_or_null ''run_id'' e)
               then J_Str (''/runs/'' @ py_str (get_or_null ''run_id'' e) @ ''/evidence'') else J_Null))] done)"

definition update_proof :: "row list \<Rightarrow> row \<Rightarrow> row \<Rightarrow> row" where
  "update_proof events e proof =
     (let p = dict_update
        [(''run_id'', get_or_null ''run_id'' e), (''client'', either ''client'' ''client_id'' e),
         (''client_id'', get_or_null ''client_id'' e), (''actor'', get_or_null ''actor'' e),
         (''role'', get_or_null ''role'' e),
         (''summary'', J_Str (redact_log_text (get_else ''summary'' (J_Str []) e))),
         (''evidence_digest'', json_or (get_or_null ''evidence_digest'' e) (get_or_null ''evidence_digest'' proof))] proof
      in if kind_in [''proof_started''] e
         then dict_update [(''started_at'', either ''created_at'' ''updated_at'' e), (''status'', J_Str ''active'')] p
         else finish_proof events e p)"

definition add_proof :: "row list \<Rightarrow> row \<Rightarrow> (json \<times> row) list \<Rightarrow> (json \<times> row) list" where
  "add_proof events e proofs =
     (let task_id = either ''task_id'' ''event_id'' e in
      dict_set task_id
        (update_proof events e (case dict_get task_id proofs of None \<Rightarrow> new_proof task_id e | Some p \<Rightarrow> p)) proofs)"

fun key_text :: "json \<Rightarrow> pystr" where
  "key_text (J_Str s) = s"
| "key_text _ = []"

text \<open>Keys are texts or \<open>None\<close>; sorting \<open>None\<close> among texts raises.\<close>

definition proof_status_payload :: "row list \<Rightarrow> exn + row list" where
  "proof_status_payload events =
     (let proofs = fold (add_proof events) (filter (kind_in [''proof_started'', ''proof_finished'']) events) [] in
      if J_Null \<in> set (map fst proofs) \<and> 2 \<le> length proofs then Inl (TypeError ''not supported between instances'')
      else Inr (map snd (sort_key (\<lambda>p. key_text (fst p)) proofs)))"

definition terminal_kinds :: "pystr list" where
  "terminal_kinds =
     [''proof_started'', ''proof_finished'', ''tool_call_started'', ''tool_call_finished'', ''policy_denied'', ''recovery_action'']"

definition terminal_row :: "row \<Rightarrow> row" where
  "terminal_row e =
     [(''event_id'', either ''event_id'' ''activity_id'' e), (''run_id'', get_or_null ''run_id'' e),
      (''task_id'', get_or_null ''task_id'' e), (''kind'', get_or_null ''kind'' e),
      (''status'', get_or_null ''status'' e), (''client'', either ''client'' ''client_id'' e),
      (''role'', get_or_null ''role'' e), (''created_at'', either ''created_at'' ''updated_at'' e),
      (''summary'', J_Str (redact_log_text (get_else ''summary'' (J_Str []) e)))]"

definition terminal_status_payload :: "row list \<Rightarrow> row list" where
  "terminal_status_payload events = map terminal_row (filter (kind_in terminal_kinds) events)"

definition proof_stream_row :: "proof_stream_record \<Rightarrow> row" where
  "proof_stream_row r =
     [(''record_id'', J_Str (pr_record_id r)), (''run_id'', J_Str (pr_run_id r)), (''task_id'', J_Str (pr_task_id r)),
      (''status'', J_Str (pr_status r)), (''client'', J_Str (pr_client r)), (''actor'', J_Str (pr_actor r)),
      (''role'', J_Str (pr_role r)), (''summary'', J_Str (redact_log_text (J_Str (pr_summary r)))),
      (''created_at'', J_Str (pr_created_at r)), (''client_id'', opt_json J_Str (pr_client_id r)),
      (''started_at'', opt_json J_Str (pr_started_at r)), (''finished_at'', opt_json J_Str (pr_finished_at r)),
      (''evidence_digest'', opt_json J_Str (pr_evidence_digest r)),
      (''recovery_event_id'', opt_json J_Str (pr_recovery_event_id r)),
      (''recovery_evidence_url'', opt_json J_Str (pr_recovery_evidence_url r))]"

definition terminal_stream_row :: "terminal_stream_record \<Rightarrow> row" where
  "terminal_stream_row r =
     [(''record_id'', J_Str (tr_record_id r)), (''run_id'', J_Str (tr_run_id r)), (''task_id'', J_Str (tr_task_id r)),
      (''kind'', J_Str (tr_kind r)), (''status'', J_Str (tr_status r)), (''client'', J_Str (tr_client r)),
      (''role'', J_Str (tr_role r)), (''summary'', J_Str (redact_log_text (J_Str (tr_summary r)))),
      (''created_at'', J_Str (tr_created_at r)), (''event_id'', opt_json J_Str (tr_event_id r)),
      (''evidence_digest'', opt_json J_Str (tr_evidence_digest r))]"

section \<open>Plug-ins\<close>

fun plugin_status_value :: "plugin_status \<Rightarrow> pystr" where
  "plugin_status_value Ps_Installed = ''installed''"
| "plugin_status_value Ps_Available = ''available''"
| "plugin_status_value Ps_Failed = ''failed''"
| "plugin_status_value Ps_Needs_Review = ''needs_review''"

definition status_record_row :: "plugin_status_record \<Rightarrow> row" where
  "status_record_row r =
     [(''plugin_id'', J_Str (ps_plugin_id r)), (''target_client'', J_Str (target_client_value (ps_target_client r))),
      (''status'', J_Str (plugin_status_value (ps_status r))), (''version'', J_Str (ps_version r)),
      (''local_version'', opt_json J_Str (ps_local_version r)),
      (''publication_readiness'', J_Str (ps_publication_readiness r)), (''summary'', J_Str (ps_summary r)),
      (''action_required'', opt_json J_Str (ps_action_required r))]"

definition event_references_plugin :: "control_plane_event \<Rightarrow> pystr \<Rightarrow> bool" where
  "event_references_plugin e plugin_id =
     (if ev_task_id e = Some plugin_id then True
      else (let lowered = py_lower (ev_summary e) in
            contains (py_lower plugin_id) lowered \<or> contains (''plugin '' @ py_lower plugin_id) lowered))"

definition plugin_status_from_event :: "control_plane_event \<Rightarrow> plugin_status \<Rightarrow> plugin_status" where
  "plugin_status_from_event e fallback =
     (if ev_status e = Ev_Failed then Ps_Failed
      else if ev_status e = Ev_Blocked then Ps_Failed
      else if ev_status e = Ev_Needs_Human then Ps_Needs_Review
      else if ev_kind e \<in> {Deployment_Event, Deployment} \<and> ev_status e = Ev_Passed then Ps_Installed
      else if contains ''uninstalled'' (py_lower (ev_summary e)) then Ps_Available
      else if contains ''applied'' (py_lower (ev_summary e)) \<and> ev_status e = Ev_Passed then Ps_Installed
      else fallback)"

definition merge_plugin_event :: "plugin_status \<Rightarrow> control_plane_event \<Rightarrow> row \<Rightarrow> row" where
  "merge_plugin_event fallback e payload =
     (let status = plugin_status_from_event e fallback;
          p = dict_update [(''last_event_id'', J_Str (event_id e)),
                (''last_event_at'', J_Str (isoformat (ev_created_at e))),
                (''event_derived_status'', J_Str (plugin_status_value status))] payload;
          q = (if ev_kind e = Approval_Recorded \<and> ev_status e = Ev_Passed
               then dict_set ''publication_readiness'' (J_Str ''local_ready'') p else p)
      in if ev_status e \<in> {Ev_Failed, Ev_Blocked}
         then dict_update [(''status'', J_Str ''failed''), (''action_required'', J_Str (ev_summary e))] q
         else if ev_status e = Ev_Needs_Human
         then dict_update [(''status'', J_Str ''needs_review''), (''action_required'', J_Str (ev_summary e))] q
         else if status = Ps_Installed then dict_set ''status'' (J_Str ''installed'') q
         else q)"

text \<open>
  Two times of the same sequence number are compared; one with and one without an offset raise.
  A comparison sort compares any two neighbours of its result, so it meets such a pair whenever
  there is one.
\<close>

fun is_naive :: "datetime \<Rightarrow> bool" where
  "is_naive (Naive _) = True"
| "is_naive (Aware _ _) = False"

definition times_clash :: "control_plane_event \<Rightarrow> control_plane_event \<Rightarrow> bool" where
  "times_clash a b = (ev_sequence a = ev_sequence b \<and> is_naive (ev_created_at a) \<noteq> is_naive (ev_created_at b))"

definition order_events :: "control_plane_event list \<Rightarrow> exn + control_plane_event list" where
  "order_events events =
     (if list_ex (\<lambda>a. list_ex (times_clash a) events) events
      then Inl (TypeError ''can't compare offset-naive and offset-aware datetimes'')
      else Inr (sort_key projection_order events))"

definition merge_plugin_record :: "control_plane_event list \<Rightarrow> plugin_inventory_record \<Rightarrow> row" where
  "merge_plugin_record events r =
     fold (merge_plugin_event (pi_dashboard_status r))
       (filter (\<lambda>e. event_references_plugin e (pi_plugin_id r)) events)
       (status_record_row (to_status_record r)
        @ [(''source'', J_Str ''inventory''), (''last_event_id'', J_Null), (''last_event_at'', J_Null),
           (''event_derived_status'', J_Str (plugin_status_value (pi_dashboard_status r)))])"

definition merge_plugin_status_with_events ::
    "plugin_inventory_record list \<Rightarrow> control_plane_event list \<Rightarrow> exn + row list" where
  "merge_plugin_status_with_events inventory events =
     (case order_events events of Inl e \<Rightarrow> Inl e
      | Inr ordered \<Rightarrow> Inr (map (merge_plugin_record ordered) inventory))"

definition seed_plugin_statuses :: "plugin_status_record list" where
  "seed_plugin_statuses =
     [\<lparr>ps_plugin_id = ''vad-codex-local'', ps_target_client = Tc_Codex, ps_status = Ps_Installed,
       ps_version = ''1.0.0'', ps_local_version = Some ''1.0.0'', ps_publication_readiness = ''local_ready'',
       ps_summary = ''Codex local MCP plugin is installed for this workspace.'', ps_action_required = None\<rparr>,
      \<lparr>ps_plugin_id = ''vad-claude-code-local'', ps_target_client = Tc_Claude_Code, ps_status = Ps_Available,
       ps_version = ''1.0.0'', ps_local_version = Some ''1.0.0'', ps_publication_readiness = ''dry_run_ready'',
       ps_summary = ''Claude Code local MCP plugin package is available for dry-run review.'', ps_action_required = None\<rparr>,
      \<lparr>ps_plugin_id = ''vad-vscode-local'', ps_target_client = Tc_Vs_Code, ps_status = Ps_Needs_Review,
       ps_version = ''1.0.0'', ps_local_version = Some ''1.0.0'', ps_publication_readiness = ''needs_operator_review'',
       ps_summary = ''VS Code workspace plugin config requires operator review before install.'',
       ps_action_required = Some ''Review generated workspace settings before applying.''\<rparr>,
      \<lparr>ps_plugin_id = ''vad-cursor-local'', ps_target_client = Tc_Cursor, ps_status = Ps_Failed,
       ps_version = ''1.0.0'', ps_local_version = Some ''1.0.0'', ps_publication_readiness = ''blocked'',
       ps_summary = ''Cursor plugin install check failed during local validation.'',
       ps_action_required = Some ''Inspect dry-run output and retry after config review.''\<rparr>]"

record plugin_payload =
  pl_source :: pystr
  pl_plugins :: "row list"
  pl_status_counts :: "(pystr \<times> nat) list"

definition plugin_payload_of :: "pystr \<Rightarrow> row list \<Rightarrow> plugin_payload" where
  "plugin_payload_of source plugins =
     \<lparr>pl_source = source, pl_plugins = plugins,
      pl_status_counts = sort_key fst (count_values (map (\<lambda>p. py_str (get_or_null ''status'' p)) plugins))\<rparr>"

definition plugin_status_payload :: "bool \<Rightarrow> (world, plugin_payload) proc" where
  "plugin_status_payload configured =
     andthen (if configured then list_plugin_inventory_records None None else ret []) (\<lambda>inventory.
     if inventory = [] then ret (plugin_payload_of ''seeded'' (map status_record_row seed_plugin_statuses))
     else andthen (list_control_plane_events None None) (\<lambda>events.
       if events = []
       then ret (plugin_payload_of ''inventory'' (map (\<lambda>r. status_record_row (to_status_record r)) inventory))
       else andthen (lift_result (merge_plugin_status_with_events inventory events)) (\<lambda>plugins.
         ret (plugin_payload_of ''inventory_events'' plugins))))"

section \<open>Governance\<close>

record governance_summary =
  gs_work_item_count :: nat
  gs_average_mees :: "pystr option"
  gs_token_budget_total :: int
  gs_approval_required_count :: nat
  gs_high_risk_count :: nat
  gs_live_service_opt_in_count :: nat

text \<open>The mean of the estimates is a float rounded to two places; \<open>mean\<close> stands for that arithmetic.\<close>

definition build_governance_dashboard_summary ::
    "(int list \<Rightarrow> pystr) \<Rightarrow> work_item list \<Rightarrow> governance_summary" where
  "build_governance_dashboard_summary mean work_items =
     (let gs = List.map_filter wi_governance work_items in
      if gs = [] then
        \<lparr>gs_work_item_count = 0, gs_average_mees = None, gs_token_budget_total = 0,
         gs_approval_required_count = 0, gs_high_risk_count = 0, gs_live_service_opt_in_count = 0\<rparr>
      else
        \<lparr>gs_work_item_count = length gs, gs_average_mees = Some (mean (map gv_mees_estimate gs)),
         gs_token_budget_total = sum_list (map gv_token_budget gs),
         gs_approval_required_count = length (filter gv_approval_required gs),
         gs_high_risk_count = length (filter gv_high_risk gs),
         gs_live_service_opt_in_count = length (filter gv_live_service_opt_in gs)\<rparr>)"

section \<open>The whole payload\<close>

text \<open>The rows of the two snapshots, as the dicts the source builds for them.\<close>

definition activity_row :: "activity_entry \<Rightarrow> row" where
  "activity_row a =
     [(''activity_id'', J_Str (ae_event_id a)), (''event_id'', J_Str (ae_event_id a)),
      (''run_id'', opt_json J_Str (ae_run_id a)), (''task_id'', opt_json J_Str (ae_task_id a)),
      (''kind'', J_Str (ae_kind a)), (''status'', J_Str (ae_status a)), (''client'', J_Str (ae_client a)),
      (''client_id'', J_Str (ae_client_id a)), (''actor'', J_Str (ae_actor a)), (''role'', J_Str (ae_role a)),
      (''summary'', J_Str (ae_summary a)), (''created_at'', J_Str (ae_created_at a)),
      (''evidence_digest'', opt_json J_Str (ae_evidence_digest a))]"

definition task_row :: "task_entry \<Rightarrow> row" where
  "task_row t =
     [(''task_id'', J_Str (tk_task_id t)), (''run_id'', opt_json J_Str (tk_run_id t)),
      (''client'', J_Str (tk_client t)), (''client_id'', J_Str (tk_client_id t)), (''actor'', J_Str (tk_actor t)),
      (''role'', J_Str (tk_role t)), (''status'', J_Str (tk_status t)), (''kind'', J_Str (tk_kind t)),
      (''summary'', J_Str (tk_summary t)), (''updated_at'', J_Str (tk_updated_at t)),
      (''event_id'', J_Str (tk_event_id t))]"

definition plugin_row :: "plugin_entry \<Rightarrow> row" where
  "plugin_row p =
     [(''client_id'', J_Str (pg_client_id p)), (''connection_id'', J_Str (pg_connection_id p)),
      (''status'', J_Str (pg_status p)), (''last_seen_at'', J_Str (pg_last_seen_at p)),
      (''last_event_id'', J_Str (pg_last_event_id p)), (''role'', J_Str (pg_role p)), (''actor'', J_Str (pg_actor p))]"

definition stored_activity_row :: "dashboard_activity \<Rightarrow> row" where
  "stored_activity_row a =
     [(''activity_id'', J_Str (act_activity_id a)), (''run_id'', J_Str (act_run_id a)),
      (''kind'', J_Str (act_kind a)), (''status'', J_Str (act_status a)), (''client'', J_Str (act_client a)),
      (''actor'', J_Str (act_actor a)), (''role'', J_Str (act_role a)), (''summary'', J_Str (act_summary a)),
      (''created_at'', J_Str (act_created_at a)), (''task_id'', opt_json J_Str (act_task_id a)),
      (''evidence_digest'', opt_json J_Str (act_evidence_digest a)),
      (''policy_decision'', opt_json decision_json (act_policy_decision a)), (''details'', act_details a)]"

datatype snapshot = Stored_Snapshot dashboard_snapshot | Ledger_Snapshot control_plane_snapshot

fun timeline_rows :: "snapshot \<Rightarrow> row list" where
  "timeline_rows (Stored_Snapshot s) = map stored_activity_row (ds_event_timeline s)"
| "timeline_rows (Ledger_Snapshot s) = map activity_row (db_event_timeline (cs_projection s))"

text \<open>\<open>payload.get("task_board") or payload.get("activity")\<close>; a stored snapshot has no task board.\<close>

fun board_source :: "snapshot \<Rightarrow> row list" where
  "board_source (Stored_Snapshot s) = map stored_activity_row (ds_activity s)"
| "board_source (Ledger_Snapshot s) =
     (if db_task_board (cs_projection s) = [] then map activity_row (db_activity (cs_projection s))
      else map task_row (db_task_board (cs_projection s)))"

fun snapshot_plugins :: "snapshot \<Rightarrow> row list" where
  "snapshot_plugins (Stored_Snapshot s) = []"
| "snapshot_plugins (Ledger_Snapshot s) = map plugin_row (db_plugin_status (cs_projection s))"

record dashboard_payload =
  dpy_snapshot :: snapshot
  dpy_active_clients :: "row list"
  dpy_task_leases :: "row list"
  dpy_task_board_columns :: "(pystr \<times> row list) list"
  dpy_proof_status :: "row list"
  dpy_terminal_status :: "row list"
  dpy_governance_summary :: governance_summary
  dpy_run_task_states :: "run_task_state list"
  dpy_plugin_status :: "row list"

definition active_clients_payload :: "(world, row list) proc" where
  "active_clients_payload =
     andthen utcnow (\<lambda>now. andthen list_client_statuses (\<lambda>ss. ret (map (active_client_row now) ss)))"

definition decorate_dashboard_payload ::
    "(int list \<Rightarrow> pystr) \<Rightarrow> snapshot \<Rightarrow> (world, dashboard_payload) proc" where
  "decorate_dashboard_payload mean s =
     andthen active_clients_payload (\<lambda>clients.
     andthen (list_task_leases None None) (\<lambda>leases.
     andthen (list_work_items None None None) (\<lambda>board_items.
     andthen (list_task_leases None None) (\<lambda>board_leases.
     andthen (list_proof_stream_records None) (\<lambda>proof_records.
     andthen (list_terminal_stream_records None) (\<lambda>terminal_records.
     andthen (if proof_records \<noteq> [] then ret (map proof_stream_row proof_records)
              else lift_result (proof_status_payload (timeline_rows s))) (\<lambda>proofs.
     andthen (list_work_items None None None) (\<lambda>items.
     andthen (list_run_task_states None) (\<lambda>states.
     andthen (if snapshot_plugins s \<noteq> [] then ret (snapshot_plugins s)
              else andthen (plugin_status_payload True) (\<lambda>p. ret (pl_plugins p))) (\<lambda>plugins.
     ret \<lparr>dpy_snapshot = s, dpy_active_clients = clients, dpy_task_leases = map lease_row leases,
          dpy_task_board_columns =
            task_board_columns board_leases (board_source s @ map item_board_row board_items),
          dpy_proof_status = proofs,
          dpy_terminal_status =
            (if terminal_records \<noteq> [] then map terminal_stream_row terminal_records
             else terminal_status_payload (timeline_rows s)),
          dpy_governance_summary = build_governance_dashboard_summary mean items,
          dpy_run_task_states = states, dpy_plugin_status = plugins\<rparr>))))))))))"

end
