(* ===== verification/Url.thy ===== *)
theory Url
  imports Prelude
begin

text \<open>
  The functions of \<open>urllib.parse\<close> that the HTTP server calls: \<open>urlparse\<close>, \<open>unquote\<close> and
  \<open>parse_qs\<close>. Decoding percent-encoded bytes as UTF-8 with a replacement character leaves the
  characters of the model, so it is an argument (\<open>decode\<close>), and so is the check of a host in
  brackets (\<open>host_ok\<close>).
\<close>

section \<open>Splitting\<close>

text \<open>\<open>s.partition(c)\<close>: what is before the first separator, and after it if there is one.\<close>

fun partition_at :: "char \<Rightarrow> pystr \<Rightarrow> pystr \<times> pystr option" where
  "partition_at sep [] = ([], None)"
| "partition_at sep (c # cs) =
     (if c = sep then ([], Some cs) else (case partition_at sep cs of (a, b) \<Rightarrow> (c # a, b)))"

definition after_text :: "pystr option \<Rightarrow> pystr" where
  "after_text b = (case b of None \<Rightarrow> [] | Some s \<Rightarrow> s)"

definition ascii_alpha :: "char \<Rightarrow> bool" where
  "ascii_alpha c = (let n = of_char c :: nat in (65 \<le> n \<and> n \<le> 90) \<or> (97 \<le> n \<and> n \<le> 122))"

definition scheme_char :: "char \<Rightarrow> bool" where
  "scheme_char c =
     (let n = of_char c :: nat in ascii_alpha c \<or> (48 \<le> n \<and> n \<le> 57) \<or> c \<in> {CHR ''+'', CHR ''-'', CHR ''.''})"

definition split_scheme :: "pystr \<Rightarrow> pystr \<times> pystr" where
  "split_scheme url =
     (case partition_at (CHR '':'') url of
        (s, Some rest) \<Rightarrow>
          (if s \<noteq> [] \<and> ascii_alpha (hd s) \<and> list_all scheme_char s then (py_lower s, rest) else ([], url))
      | (s, None) \<Rightarrow> ([], url))"

definition netloc_end :: "char \<Rightarrow> bool" where
  "netloc_end c = (c \<in> {CHR ''/'', CHR ''?'', CHR ''#''})"

definition check_netloc :: "(pystr \<Rightarrow> bool) \<Rightarrow> pystr \<Rightarrow> exn + unit" where
  "check_netloc host_ok netloc =
     (if (CHR ''['' \<in> set netloc) \<noteq> (CHR '']'' \<in> set netloc) then Inl (ValueError ''Invalid IPv6 URL'')
      else if CHR ''['' \<in> set netloc
              \<and> \<not> host_ok (fst (partition_at (CHR '']'') (after_text (snd (partition_at (CHR ''['') netloc)))))
      then Inl (ValueError ''Invalid IPv6 URL'')
      else Inr ())"

text \<open>\<open>_splitparams\<close>: the parameters of the last segment.\<close>

definition drop_params :: "pystr \<Rightarrow> pystr" where
  "drop_params url =
     (let last_part = rev (takeWhile (\<lambda>c. c \<noteq> CHR ''/'') (rev url)) in
      take (length url - length last_part) url @ fst (partition_at (CHR '';'') last_part))"

definition uses_params :: "pystr list" where
  "uses_params =
     ['''', ''ftp'', ''hdl'', ''prospero'', ''http'', ''imap'', ''https'', ''shttp'', ''rtsp'', ''rtsps'', ''rtspu'',
      ''sip'', ''sips'', ''mms'', ''sftp'', ''tel'']"

record parsed_url =
  pu_path :: pystr
  pu_query :: pystr

definition url_of_parts :: "pystr \<Rightarrow> pystr \<Rightarrow> parsed_url" where
  "url_of_parts scheme url =
     (let no_fragment = fst (partition_at (CHR ''#'') url) in
      case partition_at (CHR ''?'') no_fragment of
        (path, query) \<Rightarrow>
          \<lparr>pu_path = (if scheme \<in> set uses_params then drop_params path else path), pu_query = after_text query\<rparr>)"

definition clean_url :: "pystr \<Rightarrow> pystr" where
  "clean_url url =
     filter (\<lambda>c. c \<notin> {CHR 0x09, CHR 0x0A, CHR 0x0D}) (dropWhile (\<lambda>c. (of_char c :: nat) \<le> 32) url)"

definition urlparse :: "(pystr \<Rightarrow> bool) \<Rightarrow> pystr \<Rightarrow> exn + parsed_url" where
  "urlparse host_ok raw =
     (case split_scheme (clean_url raw) of
        (scheme, url) \<Rightarrow>
          (if is_prefix_of ''//'' url
           then (let netloc = takeWhile (\<lambda>c. \<not> netloc_end c) (drop 2 url) in
                 case check_netloc host_ok netloc of
                   Inl e \<Rightarrow> Inl e
                 | Inr _ \<Rightarrow> Inr (url_of_parts scheme (drop (2 + length netloc) url)))
           else Inr (url_of_parts scheme url)))"

section \<open>Percent encoding\<close>

definition hex_value :: "char \<Rightarrow> nat option" where
  "hex_value c =
     (let n = of_char c :: nat in
      if 48 \<le> n \<and> n \<le> 57 then Some (n - 48)
      else if 65 \<le> n \<and> n \<le> 70 then Some (n - 55)
      else if 97 \<le> n \<and> n \<le> 102 then Some (n - 87)
      else None)"

fun unquote_to_bytes :: "pystr \<Rightarrow> pystr" where
  "unquote_to_bytes [] = []"
| "unquote_to_bytes (c # cs) =
     (if c = CHR ''%'' then
        (case cs of
           a # b # rest \<Rightarrow>
             (case (hex_value a, hex_value b) of
                (Some x, Some y) \<Rightarrow> char_of (16 * x + y) # unquote_to_bytes rest
              | _ \<Rightarrow> c # unquote_to_bytes cs)
         | _ \<Rightarrow> c # unquote_to_bytes cs)
      else c # unquote_to_bytes cs)"

definition is_ascii :: "char \<Rightarrow> bool" where
  "is_ascii c = ((of_char c :: nat) < 128)"

text \<open>Runs of ASCII characters are decoded, the other characters stay.\<close>

function unquote_runs :: "(pystr \<Rightarrow> pystr) \<Rightarrow> pystr \<Rightarrow> pystr" where
  "unquote_runs decode s =
     (case s of
        [] \<Rightarrow> []
      | c # cs \<Rightarrow>
          (if is_ascii c then decode (unquote_to_bytes (takeWhile is_ascii s)) @ unquote_runs decode (dropWhile is_ascii s)
           else c # unquote_runs decode cs))"
  by pat_completeness auto
termination
  by (relation "measure (\<lambda>(_, s). length s)") (auto simp: less_Suc_eq_le length_dropWhile_le)

declare unquote_runs.simps [simp del]

definition unquote :: "(pystr \<Rightarrow> pystr) \<Rightarrow> pystr \<Rightarrow> pystr" where
  "unquote decode s = (if CHR ''%'' \<notin> set s then s else unquote_runs decode s)"

text \<open>\<open>[unquote(part) for part in path.split("/") if part]\<close>.\<close>

definition url_parts :: "(pystr \<Rightarrow> pystr) \<Rightarrow> pystr \<Rightarrow> pystr list" where
  "url_parts decode path = map (unquote decode) (filter (\<lambda>p. p \<noteq> []) (py_split (CHR ''/'') path))"

section \<open>Queries\<close>

definition unquote_plus :: "(pystr \<Rightarrow> pystr) \<Rightarrow> pystr \<Rightarrow> pystr" where
  "unquote_plus decode s = unquote decode (map (\<lambda>c. if c = CHR ''+'' then CHR '' '' else c) s)"

definition query_items :: "(pystr \<Rightarrow> pystr) \<Rightarrow> pystr \<Rightarrow> (pystr \<times> pystr) list" where
  "query_items decode qs =
     map (\<lambda>(k, v). (unquote_plus decode k, unquote_plus decode v))
       (filter (\<lambda>(k, v). v \<noteq> [])
         (map (\<lambda>s. case partition_at (CHR ''='') s of (k, v) \<Rightarrow> (k, after_text v)) (py_split (CHR ''&'') qs)))"

text \<open>\<open>parse_qs(query).get(name, [None])[0]\<close>.\<close>

definition query_value :: "(pystr \<Rightarrow> pystr) \<Rightarrow> pystr \<Rightarrow> pystr \<Rightarrow> pystr option" where
  "query_value decode name qs = map_option snd (find (\<lambda>kv. fst kv = name) (query_items decode qs))"

text \<open>\<open>path.rstrip("/") or "/"\<close>.\<close>

definition route_path :: "pystr \<Rightarrow> pystr" where
  "route_path path =
     (let p = rev (dropWhile (\<lambda>c. c = CHR ''/'') (rev path)) in if p = [] then ''/'' else p)"

lemma url_examples:
  "urlparse h ''/leases/t%201/renew;v=1/?a=b&c=#x'' = Inr \<lparr>pu_path = ''/leases/t%201/renew;v=1/'', pu_query = ''a=b&c=''\<rparr>"
  "urlparse h ''http://host:80/events;p?run_id=r'' = Inr \<lparr>pu_path = ''/events'', pu_query = ''run_id=r''\<rparr>"
  "urlparse h ''//[x/events'' = Inl (ValueError ''Invalid IPv6 URL'')"
  "url_parts id ''/leases/t%201//a%2Fb%zz'' = [''leases'', ''t 1'', ''a/b%zz'']"
  "query_value id ''run_id'' ''x=1&run_id=&run_id=a+b%3D'' = Some ''a b=''"
  "route_path ''/runs//'' = ''/runs''" "route_path ''///'' = ''/''"
  by code_simp+

end
