(* ===== verification/Http_Api.thy ===== *)
theory Http_Api
  imports Mcp_Adapter Client_Registry Dashboard Url
begin

text \<open>
  The HTTP application (\<open>VADApi\<close> and \<open>EvidenceStore\<close> of \<open>vad/server/app.py\<close>): routing, and one
  response per route on top of the services. A response is a status code and a payload that holds
  the objects the source dumps to JSON. Reading the fields of a request body is pydantic's work and an
  argument; the validators of the package are applied to what it returns.
\<close>

section \<open>The environment\<close>

text \<open>
  A decoder returns \<open>None\<close> for a body pydantic refuses. A field with a clock as its default takes the
  time that is passed to it when the body does not name the field.
\<close>

record api_env =
  api_mcp :: mcp_env
  api_configured :: bool
  api_root :: path
  api_run_names :: "filesystem \<Rightarrow> pystr list"
  api_host_ok :: "pystr \<Rightarrow> bool"
  api_decode :: "pystr \<Rightarrow> pystr"
  api_mean :: "int list \<Rightarrow> pystr"
  api_int_of_float :: "pystr \<Rightarrow> exn + int"
  api_manifest :: "row \<Rightarrow> client_manifest option"
  api_heartbeat :: "datetime option \<Rightarrow> row \<Rightarrow> client_heartbeat option"
  api_acquire :: "row \<Rightarrow> lease_acquire_request option"
  api_renew :: "row \<Rightarrow> lease_renew_request option"
  api_release :: "row \<Rightarrow> lease_release_request option"
  api_check :: "row \<Rightarrow> lease_approval_check option"
  api_work_item :: "datetime option \<Rightarrow> datetime option \<Rightarrow> row \<Rightarrow> work_item option"
  api_approval :: "row \<Rightarrow> approval_request option"
  api_event :: "row \<Rightarrow> event_payload option"
  api_intent :: "datetime option \<Rightarrow> row \<Rightarrow> operator_intent option"
  api_decision :: "json \<Rightarrow> exn + policy_decision"
  api_evidence :: "json \<Rightarrow> exn + run_evidence"

definition api_sha256 :: "api_env \<Rightarrow> pystr \<Rightarrow> pystr" where
  "api_sha256 env = cy_sha256 (en_crypto (api_mcp env))"

datatype api_payload =
    Py_Status pystr
  | Py_Empty
  | Py_Error pystr "(pystr \<times> json) list"
  | Py_Invalid pystr exn
  | Py_Decision policy_decision
  | Py_Runs "(pystr \<times> pystr \<times> pystr) list"
  | Py_Run pystr pystr run_evidence
  | Py_Approvals pystr "approval_event list"
  | Py_Approval approval_event
  | Py_Dashboard dashboard_payload
  | Py_Plugins plugin_payload
  | Py_Ingested ingestion_result
  | Py_Events "control_plane_event list"
  | Py_Rpc json
  | Py_Lease lease_result
  | Py_Leases "task_lease list"
  | Py_Moved transition_result
  | Py_Scheduled scheduler_result
  | Py_Work_Items "work_item list"
  | Py_Work_Item work_item
  | Py_Registered registration_result
  | Py_Clients "client_status_snapshot list"
  | Py_Heartbeat heartbeat_result
  | Py_Stale "stale_recovery_result list"
  | Py_Proposed diff_create_result
  | Py_Proposals "diff_proposal list"
  | Py_Proposal diff_proposal "diff_apply_record list"
  | Py_Applied diff_apply_result
  | Py_Intent operator_intent
  | Py_Intents "operator_intent list"
  | Py_Task_States "run_task_state list"

type_synonym answer = "int \<times> api_payload"

definition not_found :: answer where
  "not_found = (404, Py_Error ''not_found'' [])"

definition missing :: "pystr \<Rightarrow> pystr \<Rightarrow> json \<Rightarrow> answer" where
  "missing name key value = (404, Py_Error name [(key, value)])"

text \<open>\<open>if self.db is None: ... return 403\<close>.\<close>

definition with_db :: "api_env \<Rightarrow> pystr \<Rightarrow> ('s, answer) proc \<Rightarrow> ('s, answer) proc" where
  "with_db env denial m = (if \<not> api_configured env then ret (403, Py_Decision (denied [denial] True)) else m)"

text \<open>\<open>try: ... except ...\<close>: the handler answers some exceptions and lets the others through.\<close>

definition answering :: "(exn \<Rightarrow> 'a option) \<Rightarrow> ('s, 'a) proc \<Rightarrow> ('s, 'a) proc" where
  "answering h m s =
     (case m s of
        (Inl e, s') \<Rightarrow> (case h e of None \<Rightarrow> (Inl e, s') | Some x \<Rightarrow> (Inr x, s'))
      | (Inr x, s') \<Rightarrow> (Inr x, s'))"

fun is_key_error :: "exn \<Rightarrow> bool" where
  "is_key_error (KeyError _) = True"
| "is_key_error _ = False"

fun is_validation_error :: "exn \<Rightarrow> bool" where
  "is_validation_error (ValidationError _) = True"
| "is_validation_error _ = False"

fun is_integrity_error :: "exn \<Rightarrow> bool" where
  "is_integrity_error (IntegrityError _) = True"
| "is_integrity_error _ = False"

fun is_file_not_found :: "exn \<Rightarrow> bool" where
  "is_file_not_found (FileNotFoundError _) = True"
| "is_file_not_found _ = False"

fun is_permission_error :: "exn \<Rightarrow> bool" where
  "is_permission_error (PermissionError _) = True"
| "is_permission_error _ = False"

section \<open>Bodies\<close>

text \<open>
  A value that should be a text and is none is refused by every model that gets it; \<open>not_text\<close>, which
  is longer than the bounds and has line feeds, stands for such a value.
\<close>

definition not_text :: pystr where
  "not_text = replicate 2001 (CHR 0x0A)"

lemma not_text_refused:
  "n \<le> 2000 \<Longrightarrow> \<not> bounded k n not_text" "\<not> safe_text not_text" "\<not> safe_identifier not_text" "\<not> is_digest not_text"
  by (simp_all add: not_text_def bounded_def safe_text_def safe_identifier_def has_any_def control_separators_def
      path_separators_def is_digest_def)

fun text_value :: "json \<Rightarrow> pystr" where
  "text_value (J_Str s) = s"
| "text_value _ = not_text"

text \<open>An optional keyword argument: \<open>null\<close> is \<open>None\<close>.\<close>

definition keyword_text :: "json \<Rightarrow> pystr option" where
  "keyword_text v = (if v = J_Null then None else Some (text_value v))"

definition body_caller :: "row \<Rightarrow> caller" where
  "body_caller body =
     \<lparr>by_actor = text_value (get_else ''actor'' (J_Str ''operator'') body),
      by_role = text_value (get_else ''role'' (J_Str ''operator'') body),
      by_client = text_value (get_else ''client_id'' (J_Str ''control-plane'') body)\<rparr>"

text \<open>\<open>summary or "..."\<close> takes the default for every false value.\<close>

definition body_summary :: "row \<Rightarrow> pystr option" where
  "body_summary body =
     (let v = get_or_null ''summary'' body in if json_truthy v then Some (text_value v) else None)"

definition decoded :: "pystr \<Rightarrow> ('a \<Rightarrow> bool) \<Rightarrow> 'a option \<Rightarrow> exn + 'a" where
  "decoded name valid r =
     (case r of None \<Rightarrow> Inl (ValidationError name)
      | Some x \<Rightarrow> if valid x then Inr x else Inl (ValidationError name))"

definition parsed :: "pystr \<Rightarrow> ('a \<Rightarrow> exn + 'a) \<Rightarrow> 'a option \<Rightarrow> exn + 'a" where
  "parsed name parse r = (case r of None \<Rightarrow> Inl (ValidationError name) | Some x \<Rightarrow> parse x)"

text \<open>The default of a missing time field.\<close>

definition stamp :: "pystr \<Rightarrow> row \<Rightarrow> (world, datetime option) proc" where
  "stamp key body =
     (if key \<in> set (map fst body) then ret None else andthen utcnow (\<lambda>t. ret (Some t)))"

definition read_work_item :: "api_env \<Rightarrow> row \<Rightarrow> (world, work_item) proc" where
  "read_work_item env body =
     andthen (stamp ''created_at'' body) (\<lambda>created.
     andthen (stamp ''updated_at'' body) (\<lambda>updated.
     lift_result (parsed ''WorkItem'' parse_work_item (api_work_item env created updated body))))"

definition read_heartbeat :: "api_env \<Rightarrow> row \<Rightarrow> (world, client_heartbeat) proc" where
  "read_heartbeat env body =
     andthen (stamp ''observed_at'' body) (\<lambda>t.
     lift_result (decoded ''ClientHeartbeat'' valid_heartbeat (api_heartbeat env t body)))"

definition read_intent :: "api_env \<Rightarrow> row \<Rightarrow> (world, operator_intent) proc" where
  "read_intent env body =
     andthen (stamp ''created_at'' body) (\<lambda>t.
     lift_result (parsed ''OperatorIntentRecord'' parse_operator_intent (api_intent env t body)))"

section \<open>Evidence files and runs\<close>

definition resolve_run_path :: "path \<Rightarrow> pystr \<Rightarrow> filesystem \<Rightarrow> exn + path" where
  "resolve_run_path root run_id fs =
     (if run_id = [] \<or> CHR ''/'' \<in> set run_id \<or> CHR 0x5C \<in> set run_id \<or> run_id \<in> {''.'', ''..''}
      then Inl (FileNotFoundError run_id)
      else if CHR 0x00 \<in> set run_id then Inl (ValueError ''embedded null byte'')
      else case resolve fs (root @ [run_id @ ''.json'']) of
             Inl e \<Rightarrow> Inl e
           | Inr path \<Rightarrow>
               (if \<not> is_relative_to path root then Inl (FileNotFoundError run_id)
                else if \<not> is_file fs path then Inl (FileNotFoundError run_id)
                else Inr path))"

definition json_decode_error :: exn where
  "json_decode_error = ValueError ''JSONDecodeError''"

definition loads :: "api_env \<Rightarrow> pystr \<Rightarrow> exn + json" where
  "loads env s = (case en_json (api_mcp env) s of Inl _ \<Rightarrow> Inl json_decode_error | Inr v \<Rightarrow> Inr v)"

fun evidence_data :: "json \<Rightarrow> json" where
  "evidence_data (J_Dict d) = get_else ''evidence'' (J_Dict d) d"
| "evidence_data v = v"

definition read_evidence :: "api_env \<Rightarrow> json \<Rightarrow> exn + run_evidence" where
  "read_evidence env v = (case api_evidence env v of Inl e \<Rightarrow> Inl e | Inr e \<Rightarrow> parse_run_evidence e)"

definition load_run :: "api_env \<Rightarrow> pystr \<Rightarrow> (run_evidence \<times> pystr) io" where
  "load_run env run_id =
     andthen (\<lambda>fs. (resolve_run_path (api_root env) run_id fs, fs)) (\<lambda>path.
     andthen (read_text path) (\<lambda>text.
     andthen (lift_result (loads env text)) (\<lambda>v.
     andthen (lift_result (read_evidence env (evidence_data v))) (\<lambda>e.
     ret (e, run_digest (api_sha256 env) e)))))"

definition skipped_run :: "exn \<Rightarrow> bool" where
  "skipped_run e = (e = json_decode_error \<or> is_validation_error e \<or> is_file_not_found e)"

definition listed_run :: "api_env \<Rightarrow> pystr \<Rightarrow> (pystr \<times> pystr \<times> pystr) list io" where
  "listed_run env name =
     answering (\<lambda>e. if skipped_run e then Some [] else None)
       (andthen (load_run env name) (\<lambda>(e, digest). ret [(re_run_id e, re_final_decision e, digest)]))"

definition list_runs :: "api_env \<Rightarrow> (site, (pystr \<times> pystr \<times> pystr) list) proc" where
  "list_runs env =
     (if api_configured env
      then on_world (andthen (list_run_evidence (api_sha256 env)) (\<lambda>rs. ret (map run_summary rs)))
      else on_files (andthen (reads (\<lambda>fs. if path_exists fs (api_root env) then api_run_names env fs else [])) (\<lambda>names.
           andthen (each_proc (listed_run env) names) (\<lambda>rss. ret (concat rss)))))"

definition run_evidence_of :: "api_env \<Rightarrow> pystr \<Rightarrow> (site, run_evidence \<times> pystr) proc" where
  "run_evidence_of env run_id =
     (if api_configured env
      then on_world (andthen (load_run_evidence (api_sha256 env) run_id) (\<lambda>r.
           ret (sr_evidence r, sr_evidence_digest r)))
      else on_files (load_run env run_id))"

definition run_error :: "pystr \<Rightarrow> exn \<Rightarrow> answer option" where
  "run_error run_id e =
     (if is_file_not_found e \<or> is_key_error e then Some (missing ''run_not_found'' ''run_id'' (J_Str run_id))
      else if is_value_error e then Some (422, Py_Invalid ''invalid_evidence'' e)
      else None)"

text \<open>What is answered once the evidence is loaded, by what follows the run's id in the path.\<close>

definition run_tail :: "api_env \<Rightarrow> pystr \<Rightarrow> pystr list \<Rightarrow> run_evidence \<times> pystr \<Rightarrow> (site, answer) proc" where
  "run_tail env run_id tail ed =
     (if tail = [''evidence''] \<or> tail = [] then ret (200, Py_Run (re_run_id (fst ed)) (snd ed) (fst ed))
      else if tail = [''approvals''] \<and> api_configured env
      then andthen (on_world (list_approval_events (Some run_id))) (\<lambda>as. ret (200, Py_Approvals run_id as))
      else ret not_found)"

definition run_response :: "api_env \<Rightarrow> pystr \<Rightarrow> (site, answer) proc" where
  "run_response env path =
     (case url_parts (api_decode env) path of
        _ # run_id # tail \<Rightarrow>
          (if 1 < length tail then ret not_found
           else andthen (answering (\<lambda>e. map_option Inl (run_error run_id e))
                  (andthen (run_evidence_of env run_id) (\<lambda>ed. ret (Inr ed)))) (\<lambda>loaded.
                case loaded of Inl a \<Rightarrow> ret a | Inr ed \<Rightarrow> run_tail env run_id tail ed))
      | _ \<Rightarrow> ret not_found)"

section \<open>Dashboard, plug-ins, approvals and events\<close>

text \<open>The two dashboard routes answer a value error, which may come from any of the payload's parts.\<close>

definition ledger_error :: "exn \<Rightarrow> answer option" where
  "ledger_error e = (if is_value_error e then Some (422, Py_Invalid ''invalid_control_plane_event_ledger'' e) else None)"

definition dashboard_response :: "api_env \<Rightarrow> (world, answer) proc" where
  "dashboard_response env =
     with_db env ''dashboard persistence is not configured'' (answering ledger_error
       (andthen has_control_plane_events (\<lambda>some.
        andthen (if some
                 then andthen (control_plane_dashboard_snapshot (api_sha256 env) None None) (\<lambda>s. ret (Ledger_Snapshot s))
                 else andthen (dashboard_snapshot_of (api_sha256 env)) (\<lambda>s. ret (Stored_Snapshot s))) (\<lambda>s.
        andthen (decorate_dashboard_payload (api_mean env) s) (\<lambda>p. ret (200, Py_Dashboard p))))))"

definition dashboard_replay_response :: "api_env \<Rightarrow> pystr option \<Rightarrow> (world, answer) proc" where
  "dashboard_replay_response env run_id =
     with_db env ''dashboard persistence is not configured'' (answering ledger_error
       (andthen (replay_dashboard_snapshot (api_sha256 env) run_id None) (\<lambda>s.
        andthen (decorate_dashboard_payload (api_mean env) (Ledger_Snapshot s)) (\<lambda>p. ret (200, Py_Dashboard p)))))"

definition approval_response :: "api_env \<Rightarrow> row \<Rightarrow> (world, answer) proc" where
  "approval_response env body =
     with_db env ''approval storage is not configured'' (answering
       (\<lambda>e. if is_key_error e then Some (missing ''run_not_found'' ''run_id'' (get_or_null ''run_id'' body))
            else if is_validation_error e then Some (400, Py_Invalid ''invalid_approval_request'' e) else None)
       (andthen (lift_result (decoded ''ApprovalRequest'' (\<lambda>_. True) (api_approval env body))) (\<lambda>r.
        andthen (record_approval (api_sha256 env) r) (\<lambda>a. ret (al_status_code a, Py_Approval (al_event a))))))"

definition event_ingestion_response :: "api_env \<Rightarrow> row \<Rightarrow> (world, answer) proc" where
  "event_ingestion_response env body =
     with_db env ''event storage is not configured'' (answering
       (\<lambda>e. if is_validation_error e then Some (400, Py_Invalid ''invalid_control_plane_event'' e)
            else if is_integrity_error e
            then Some (409, Py_Error ''duplicate_control_plane_event'' [(''event_id'', get_or_null ''event_id'' body)])
            else None)
       (andthen (lift_result (decoded ''ControlPlaneEvent'' (\<lambda>_. True) (api_event env body))) (\<lambda>p.
        andthen (ingest p) (\<lambda>r. ret (in_status_code r, Py_Ingested r)))))"

definition events_response :: "api_env \<Rightarrow> (world, answer) proc" where
  "events_response env =
     with_db env ''event storage is not configured''
       (andthen (list_control_plane_events None None) (\<lambda>es. ret (200, Py_Events es)))"

section \<open>Leases\<close>

definition lease_storage :: pystr where
  "lease_storage = ''task lease storage is not configured''"

definition lease_answer :: "lease_result \<Rightarrow> (world, answer) proc" where
  "lease_answer r = ret (lr_status_code r, Py_Lease r)"

definition lease_acquire_response :: "api_env \<Rightarrow> row \<Rightarrow> (world, answer) proc" where
  "lease_acquire_response env body =
     with_db env lease_storage (answering
       (\<lambda>e. if is_key_error e then Some (missing ''client_not_found'' ''client_id'' (get_or_null ''client_id'' body))
            else if is_validation_error e then Some (400, Py_Invalid ''invalid_task_lease'' e) else None)
       (andthen (lift_result (decoded ''TaskLeaseAcquireRequest'' valid_acquire_request (api_acquire env body))) (\<lambda>r.
        andthen (acquire r) lease_answer)))"

definition leases_response :: "api_env \<Rightarrow> (world, answer) proc" where
  "leases_response env =
     with_db env lease_storage (andthen (list_task_leases None None) (\<lambda>ls. ret (200, Py_Leases ls)))"

definition lease_error :: "pystr \<Rightarrow> exn \<Rightarrow> answer option" where
  "lease_error task_id e =
     (if is_key_error e then Some (missing ''task_lease_not_found'' ''task_id'' (J_Str task_id))
      else if is_permission_error e then Some (403, Py_Decision (denied [exn_text e] True))
      else if is_value_error e then Some (400, Py_Invalid ''invalid_task_lease'' e)
      else None)"

definition lease_action :: "api_env \<Rightarrow> pystr \<Rightarrow> pystr \<Rightarrow> row \<Rightarrow> (world, answer) proc" where
  "lease_action env task_id action body =
     (if action = ''renew''
      then andthen (lift_result (decoded ''TaskLeaseRenewRequest'' valid_renew_request (api_renew env body))) (\<lambda>r.
           andthen (renew task_id r) lease_answer)
      else if action = ''release''
      then andthen (lift_result (decoded ''TaskLeaseReleaseRequest'' valid_release_request (api_release env body))) (\<lambda>r.
           andthen (release task_id r) lease_answer)
      else if action = ''expire'' then andthen (expire task_id) lease_answer
      else if action = ''approval-check''
      then andthen (lift_result (decoded ''TaskLeaseApprovalCheck'' valid_approval_check (api_check env body))) (\<lambda>r.
           andthen (check_approval_transition task_id r) (\<lambda>d.
           ret (if allow d then 200 else 403, Py_Decision d)))
      else ret not_found)"

definition lease_action_response :: "api_env \<Rightarrow> pystr \<Rightarrow> row \<Rightarrow> (world, answer) proc" where
  "lease_action_response env path body =
     with_db env lease_storage
       (case url_parts (api_decode env) path of
          [_, task_id, action] \<Rightarrow> answering (lease_error task_id) (lease_action env task_id action body)
        | _ \<Rightarrow> ret not_found)"

section \<open>Work items\<close>

definition item_storage :: pystr where
  "item_storage = ''work item storage is not configured''"

definition item_answer :: "transition_result \<Rightarrow> (world, answer) proc" where
  "item_answer r = ret (tx_status_code r, Py_Moved r)"

text \<open>\<open>WorkItem(**body["work_item"] if "work_item" in body else body)\<close>.\<close>

definition item_body :: "row \<Rightarrow> exn + row" where
  "item_body body =
     (case dict_get ''work_item'' body of
        None \<Rightarrow> Inr body
      | Some (J_Dict d) \<Rightarrow> Inr d
      | Some v \<Rightarrow> Inl (TypeError ''argument after ** must be a mapping''))"

definition work_item_create_response :: "api_env \<Rightarrow> row \<Rightarrow> (world, answer) proc" where
  "work_item_create_response env body =
     with_db env item_storage (answering
       (\<lambda>e. if is_validation_error e then Some (400, Py_Invalid ''invalid_work_item'' e)
            else if is_integrity_error e
            then Some (409, Py_Error ''duplicate_work_item'' [(''work_item_id'', get_or_null ''work_item_id'' body)])
            else None)
       (andthen (lift_result (item_body body)) (\<lambda>d.
        andthen (read_work_item env d) (\<lambda>item.
        andthen (create item (body_caller body) (body_summary body)) item_answer))))"

definition work_item_statuses :: "work_item_status list" where
  "work_item_statuses =
     [Planned, Queued, Assigned, Running, Blocked, Waiting_For_Human, Verifying, Approved, Completed, Failed,
      Cancelled, Requeued]"

definition parse_item_status :: "pystr \<Rightarrow> exn + work_item_status" where
  "parse_item_status s =
     (case find (\<lambda>st. work_item_status_value st = s) work_item_statuses of
        None \<Rightarrow> Inl (ValueError (repr_text s @ '' is not a valid WorkItemStatus'')) | Some st \<Rightarrow> Inr st)"

definition work_items_response ::
    "api_env \<Rightarrow> pystr option \<Rightarrow> pystr option \<Rightarrow> pystr option \<Rightarrow> (world, answer) proc" where
  "work_items_response env run_id status assigned_client_id =
     with_db env item_storage
       (case (if truthy status then map_sum id Some (parse_item_status (the status)) else Inr None) of
          Inl e \<Rightarrow> ret (400, Py_Invalid ''invalid_work_item_status'' e)
        | Inr wanted_status \<Rightarrow>
            andthen (list_work_items run_id wanted_status assigned_client_id) (\<lambda>items. ret (200, Py_Work_Items items)))"

definition work_item_read_response :: "api_env \<Rightarrow> pystr \<Rightarrow> (world, answer) proc" where
  "work_item_read_response env path =
     with_db env item_storage
       (case url_parts (api_decode env) path of
          [_, k] \<Rightarrow>
            answering (\<lambda>e. if is_key_error e then Some (missing ''work_item_not_found'' ''work_item_id'' (J_Str k)) else None)
              (andthen (load_work_item k) (\<lambda>item. ret (200, Py_Work_Item item)))
        | _ \<Rightarrow> ret not_found)"

text \<open>
  \<open>service.block(reason=body.get("reason", "blocked"))\<close>: an explicit \<open>null\<close> reaches the service as
  \<open>None\<close>, which sets no reason and is printed in the summary.
\<close>

definition block_with :: "pystr \<Rightarrow> caller \<Rightarrow> row \<Rightarrow> (world, transition_result) proc" where
  "block_with k c body =
     (let reason = get_else ''reason'' (J_Str ''blocked'') body in
      if reason = J_Null
      then transition k Blocked c no_change (Some (''Work item '' @ k @ '' blocked: None''))
      else block k c (text_value reason))"

definition assign_or_schedule :: "pystr \<Rightarrow> caller \<Rightarrow> row \<Rightarrow> (world, answer) proc" where
  "assign_or_schedule k c body =
     (let assigned = get_or_null ''assigned_client_id'' body in
      if json_truthy assigned
      then andthen (assign k c (text_value assigned) (keyword_text (get_or_null ''lease_id'' body)) None) item_answer
      else andthen (schedule_work_item k c) (\<lambda>r. ret (sd_status_code r, Py_Scheduled r)))"

definition work_item_action :: "pystr \<Rightarrow> pystr \<Rightarrow> row \<Rightarrow> (world, answer) proc" where
  "work_item_action k action body =
     (let c = body_caller body in
      if action = ''assign'' then assign_or_schedule k c body
      else if action = ''block'' then andthen (block_with k c body) item_answer
      else if action = ''complete''
      then andthen (complete k c (keyword_text (get_or_null ''evidence_digest'' body))) item_answer
      else if action = ''fail'' then andthen (fail k c) item_answer
      else if action = ''cancel'' then andthen (cancel k c) item_answer
      else if action = ''requeue'' then andthen (requeue k c None) item_answer
      else ret not_found)"

definition work_item_action_response :: "api_env \<Rightarrow> pystr \<Rightarrow> row \<Rightarrow> (world, answer) proc" where
  "work_item_action_response env path body =
     with_db env item_storage
       (case url_parts (api_decode env) path of
          [_, k, action] \<Rightarrow>
            answering
              (\<lambda>e. if is_key_error e then Some (missing ''work_item_not_found'' ''work_item_id'' (J_Str k))
                   else if is_validation_error e then Some (400, Py_Invalid ''invalid_work_item'' e) else None)
              (work_item_action k action body)
        | _ \<Rightarrow> ret not_found)"

section \<open>Clients\<close>

definition client_storage :: pystr where
  "client_storage = ''client registry storage is not configured''"

definition client_register_response :: "api_env \<Rightarrow> row \<Rightarrow> (world, answer) proc" where
  "client_register_response env body =
     with_db env client_storage (answering
       (\<lambda>e. if is_validation_error e then Some (400, Py_Invalid ''invalid_client_manifest'' e)
            else if is_integrity_error e
            then Some (409, Py_Error ''duplicate_client'' [(''client_id'', get_or_null ''client_id'' body)])
            else None)
       (andthen (lift_result (parsed ''ClientManifest'' parse_client_manifest (api_manifest env body))) (\<lambda>m.
        andthen (register m) (\<lambda>r. ret (201, Py_Registered r)))))"

definition clients_response :: "api_env \<Rightarrow> (world, answer) proc" where
  "clients_response env =
     with_db env client_storage (andthen list_client_statuses (\<lambda>ss. ret (200, Py_Clients ss)))"

definition client_heartbeat_response :: "api_env \<Rightarrow> pystr \<Rightarrow> row \<Rightarrow> (world, answer) proc" where
  "client_heartbeat_response env path body =
     with_db env client_storage
       (case url_parts (api_decode env) path of
          [_, client_id, action] \<Rightarrow>
            (if action \<noteq> ''heartbeat'' then ret not_found
             else answering
               (\<lambda>e. if is_key_error e then Some (missing ''client_not_found'' ''client_id'' (J_Str client_id))
                    else if is_validation_error e then Some (400, Py_Invalid ''invalid_client_heartbeat'' e) else None)
               (andthen (read_heartbeat env (dict_set ''client_id'' (J_Str client_id) body)) (\<lambda>h.
                andthen (heartbeat h) (\<lambda>r. ret (201, Py_Heartbeat r)))))
        | _ \<Rightarrow> ret not_found)"

text \<open>\<open>int(value)\<close> of a JSON value.\<close>

fun int_of_json :: "api_env \<Rightarrow> json \<Rightarrow> exn + int" where
  "int_of_json env (J_Int i) = Inr i"
| "int_of_json env (J_Bool b) = Inr (if b then 1 else 0)"
| "int_of_json env (J_Float r) = api_int_of_float env r"
| "int_of_json env (J_Str s) = (case py_int s of None \<Rightarrow> Inl (ValueError ''invalid literal for int()'') | Some n \<Rightarrow> Inr n)"
| "int_of_json env v = Inl (TypeError ''int() argument must be a string or a real number'')"

definition clients_stale_scan_response :: "api_env \<Rightarrow> row \<Rightarrow> (world, answer) proc" where
  "clients_stale_scan_response env body =
     with_db env client_storage
       (andthen (lift_result (int_of_json env (get_else ''stale_after_seconds'' (J_Int 120) body))) (\<lambda>limit.
        andthen (mark_stale_clients_with_recovery None limit
                   (json_truthy (get_else ''auto_reassign'' (J_Bool False) body))) (\<lambda>rs.
        ret (200, Py_Stale rs))))"

definition client_unregister_response :: "api_env \<Rightarrow> pystr \<Rightarrow> (world, answer) proc" where
  "client_unregister_response env path =
     with_db env client_storage
       (case url_parts (api_decode env) path of
          [_, client_id] \<Rightarrow>
            answering (\<lambda>e. if is_key_error e then Some (missing ''client_not_found'' ''client_id'' (J_Str client_id)) else None)
              (andthen (unregister client_id) (\<lambda>r. ret (200, Py_Registered r)))
        | _ \<Rightarrow> ret not_found)"

section \<open>Diff proposals\<close>

definition diff_storage :: pystr where
  "diff_storage = ''diff proposal storage is not configured''"

fun is_text_value :: "json \<Rightarrow> bool" where
  "is_text_value (J_Str _) = True"
| "is_text_value _ = False"

text \<open>What iterating over \<open>changed_files\<close> yields: the files before the first that is no text.\<close>

fun listed_files :: "json \<Rightarrow> pystr list" where
  "listed_files (J_List xs) = map text_value (takeWhile is_text_value xs)"
| "listed_files (J_Str s) = map (\<lambda>c. [c]) s"
| "listed_files (J_Dict kvs) = map fst kvs"
| "listed_files _ = []"

definition diff_body_of :: "row \<Rightarrow> diff_body" where
  "diff_body_of body =
     (let text = (\<lambda>k. map_option text_value (dict_get k body)) in
      \<lparr>bd_run_id = text ''run_id'', bd_task_id = text ''task_id'', bd_submitted_by = text ''submitted_by'',
       bd_actor = text ''actor'', bd_role = text ''role'', bd_patch_text = text ''patch_text'',
       bd_changed_files = map_option listed_files (dict_get ''changed_files'' body), bd_summary = text ''summary''\<rparr>)"

text \<open>
  Values of other types that make the construction raise something the service does not catch: a patch
  that is no text, files that are not iterable, or a file that is no text after files that are safe.
\<close>

definition uncaught_diff_error :: "row \<Rightarrow> exn option" where
  "uncaught_diff_error body =
     (if \<not> list_all (\<lambda>k. k \<in> set (map fst body)) [''run_id'', ''task_id'', ''patch_text'', ''changed_files'', ''summary'']
      then None
      else if \<not> is_text_value (get_or_null ''patch_text'' body) then Some (AttributeError ''encode'')
      else case get_or_null ''changed_files'' body of
             J_List xs \<Rightarrow>
               (if list_all is_text_value xs then None
                else case normalize_changed_files (listed_files (J_List xs)) of
                       Inl _ \<Rightarrow> None | Inr _ \<Rightarrow> Some (AttributeError ''replace''))
           | J_Str _ \<Rightarrow> None
           | J_Dict _ \<Rightarrow> None
           | _ \<Rightarrow> Some (TypeError ''object is not iterable''))"

definition diff_proposal_create_response :: "api_env \<Rightarrow> row \<Rightarrow> (world, answer) proc" where
  "diff_proposal_create_response env body =
     with_db env diff_storage
       (case uncaught_diff_error body of
          Some e \<Rightarrow> throw e
        | None \<Rightarrow> andthen (create_proposal (api_sha256 env) (diff_body_of body)) (\<lambda>r.
            ret (dc_status_code r, Py_Proposed r)))"

definition diff_proposals_response :: "api_env \<Rightarrow> pystr option \<Rightarrow> pystr option \<Rightarrow> (world, answer) proc" where
  "diff_proposals_response env run_id task_id =
     with_db env diff_storage (andthen (list_proposals run_id task_id) (\<lambda>ps. ret (200, Py_Proposals ps)))"

definition diff_proposal_read_response :: "api_env \<Rightarrow> pystr \<Rightarrow> (world, answer) proc" where
  "diff_proposal_read_response env path =
     with_db env diff_storage
       (case url_parts (api_decode env) path of
          [_, k] \<Rightarrow>
            andthen (answering (\<lambda>e. if is_key_error e then Some None else None)
                      (andthen (read_proposal k) (\<lambda>p. ret (Some p)))) (\<lambda>found.
            case found of
              None \<Rightarrow> ret (missing ''diff_proposal_not_found'' ''proposal_id'' (J_Str k))
            | Some p \<Rightarrow> andthen (list_diff_apply_records (Some k)) (\<lambda>rs. ret (200, Py_Proposal p rs)))
        | _ \<Rightarrow> ret not_found)"

definition missing_decision :: "pystr \<Rightarrow> json" where
  "missing_decision denial = J_Dict [(''allow'', J_Bool False), (''denials'', J_List [J_Str denial])]"

text \<open>\<open>Path(workspace_root)\<close>, relative to the working directory.\<close>

definition body_root :: "api_env \<Rightarrow> row \<Rightarrow> exn + path" where
  "body_root env body =
     (case get_else ''workspace_root'' (J_Str (path_text (api_root env))) body of
        J_Str s \<Rightarrow> Inr (join_path (en_cwd (api_mcp env)) s)
      | v \<Rightarrow> Inl (TypeError ''expected str, bytes or os.PathLike object''))"

text \<open>A root that is no path is only noticed where the approvals let the patch be applied.\<close>

definition apply_at ::
    "api_env \<Rightarrow> pystr \<Rightarrow> exn + path \<Rightarrow> policy_decision \<Rightarrow> policy_decision \<Rightarrow> (site, diff_apply_result) proc" where
  "apply_at env k root verifier guardian =
     (case root of
        Inr r \<Rightarrow> apply_proposal (en_sha256_bytes (api_mcp env)) k r verifier guardian
      | Inl e \<Rightarrow>
          (if approval_blocker verifier guardian \<noteq> None
           then apply_proposal (en_sha256_bytes (api_mcp env)) k [] verifier guardian
           else andthen (on_key_error (andthen (on_world (load_diff_proposal k)) (\<lambda>p. ret (Some p))) (ret None)) (\<lambda>found.
                case found of None \<Rightarrow> ret (proposal_not_found k) | Some p \<Rightarrow> throw e)))"

definition diff_proposal_apply_response :: "api_env \<Rightarrow> pystr \<Rightarrow> row \<Rightarrow> (site, answer) proc" where
  "diff_proposal_apply_response env path body =
     with_db env diff_storage
       (case url_parts (api_decode env) path of
          [_, k, action] \<Rightarrow>
            (if action \<noteq> ''apply'' then ret not_found
             else andthen (lift_result (api_decision env
                    (get_else ''verifier_decision'' (missing_decision ''missing verifier decision'') body))) (\<lambda>verifier.
                  andthen (lift_result (api_decision env
                    (get_else ''release_guardian_decision''
                      (missing_decision ''missing release guardian decision'') body))) (\<lambda>guardian.
                  andthen (apply_at env k (body_root env body) verifier guardian) (\<lambda>r.
                  ret (dx_status_code r, Py_Applied r)))))
        | _ \<Rightarrow> ret not_found)"

section \<open>Operator intents and run task states\<close>

definition intent_storage :: pystr where
  "intent_storage = ''operator intent storage is not configured''"

definition operator_intent_create_response :: "api_env \<Rightarrow> row \<Rightarrow> (world, answer) proc" where
  "operator_intent_create_response env body =
     with_db env intent_storage
       (andthen (answering (\<lambda>e. if is_validation_error e then Some (Inl e) else None)
                  (andthen (read_intent env body) (\<lambda>i. ret (Inr i)))) (\<lambda>r.
        case r of
          Inl e \<Rightarrow> ret (400, Py_Invalid ''invalid_operator_intent'' e)
        | Inr i \<Rightarrow> andthen (save_operator_intent_record i) (\<lambda>saved. ret (201, Py_Intent saved))))"

definition operator_intents_response :: "api_env \<Rightarrow> (world, answer) proc" where
  "operator_intents_response env =
     with_db env intent_storage (andthen list_operator_intent_records (\<lambda>rs. ret (200, Py_Intents rs)))"

definition operator_intent_read_response :: "api_env \<Rightarrow> pystr \<Rightarrow> (world, answer) proc" where
  "operator_intent_read_response env path =
     with_db env intent_storage
       (case url_parts (api_decode env) path of
          [_, k] \<Rightarrow>
            answering (\<lambda>e. if is_key_error e then Some (missing ''operator_intent_not_found'' ''intent_ref'' (J_Str k)) else None)
              (andthen (load_operator_intent_record k) (\<lambda>r. ret (200, Py_Intent r)))
        | _ \<Rightarrow> ret not_found)"

definition run_task_states_response :: "api_env \<Rightarrow> pystr option \<Rightarrow> (world, answer) proc" where
  "run_task_states_response env run_id =
     with_db env ''run task state storage is not configured''
       (andthen (list_run_task_states run_id) (\<lambda>ss. ret (200, Py_Task_States ss)))"

section \<open>Routing\<close>

definition mcp_response_of :: "api_env \<Rightarrow> row \<Rightarrow> (site, answer) proc" where
  "mcp_response_of env body =
     andthen (handle_json_rpc_request (api_mcp env) body) (\<lambda>r.
     ret (case r of None \<Rightarrow> (204, Py_Empty) | Some v \<Rightarrow> (200, Py_Rpc v)))"

fun is_suffix_of :: "pystr \<Rightarrow> pystr \<Rightarrow> bool" where
  "is_suffix_of suffix s = is_prefix_of (rev suffix) (rev s)"

definition route :: "api_env \<Rightarrow> pystr \<Rightarrow> pystr \<Rightarrow> pystr \<Rightarrow> row \<Rightarrow> (site, answer) proc" where
  "route env m path qs body =
     (let q = (\<lambda>name. query_value (api_decode env) name qs) in
      if m = ''GET'' \<and> path = ''/health'' then ret (200, Py_Status ''ok'')
      else if m = ''GET'' \<and> path = ''/ready'' then ret (200, Py_Status ''ready'')
      else if m = ''GET'' \<and> path = ''/runs'' then andthen (list_runs env) (\<lambda>rs. ret (200, Py_Runs rs))
      else if m = ''GET'' \<and> path = ''/dashboard'' then on_world (dashboard_response env)
      else if m = ''GET'' \<and> path = ''/dashboard/replay'' then on_world (dashboard_replay_response env (q ''run_id''))
      else if m = ''GET'' \<and> path = ''/plugins/status''
      then andthen (on_world (plugin_status_payload (api_configured env))) (\<lambda>p. ret (200, Py_Plugins p))
      else if m = ''GET'' \<and> is_prefix_of ''/runs/'' path then run_response env path
      else if m = ''POST'' \<and> path = ''/actions/approve'' then on_world (approval_response env body)
      else if m = ''POST'' \<and> path = ''/events'' then on_world (event_ingestion_response env body)
      else if m = ''GET'' \<and> path = ''/events'' then on_world (events_response env)
      else if m = ''POST'' \<and> path = ''/mcp'' then mcp_response_of env body
      else if path = ''/leases'' \<and> m = ''POST'' then on_world (lease_acquire_response env body)
      else if path = ''/leases'' \<and> m = ''GET'' then on_world (leases_response env)
      else if is_prefix_of ''/leases/'' path \<and> m = ''POST'' then on_world (lease_action_response env path body)
      else if path = ''/work-items'' \<and> m = ''POST'' then on_world (work_item_create_response env body)
      else if path = ''/work-items'' \<and> m = ''GET''
      then on_world (work_items_response env (q ''run_id'') (q ''status'') (q ''assigned_client_id''))
      else if is_prefix_of ''/work-items/'' path \<and> m = ''GET'' then on_world (work_item_read_response env path)
      else if is_prefix_of ''/work-items/'' path \<and> m = ''POST'' then on_world (work_item_action_response env path body)
      else if path = ''/diff-proposals'' \<and> m = ''POST'' then on_world (diff_proposal_create_response env body)
      else if path = ''/diff-proposals'' \<and> m = ''GET''
      then on_world (diff_proposals_response env (q ''run_id'') (q ''task_id''))
      else if is_prefix_of ''/diff-proposals/'' path \<and> m = ''GET'' then on_world (diff_proposal_read_response env path)
      else if is_prefix_of ''/diff-proposals/'' path \<and> is_suffix_of ''/apply'' path \<and> m = ''POST''
      then diff_proposal_apply_response env path body
      else if path = ''/operator-intents'' \<and> m = ''POST'' then on_world (operator_intent_create_response env body)
      else if path = ''/operator-intents'' \<and> m = ''GET'' then on_world (operator_intents_response env)
      else if is_prefix_of ''/operator-intents/'' path \<and> m = ''GET'' then on_world (operator_intent_read_response env path)
      else if path = ''/run-task-states'' \<and> m = ''GET'' then on_world (run_task_states_response env (q ''run_id''))
      else if m = ''POST'' \<and> path = ''/clients/register'' then on_world (client_register_response env body)
      else if m = ''GET'' \<and> path = ''/clients'' then on_world (clients_response env)
      else if m = ''POST'' \<and> path = ''/clients/stale-scan'' then on_world (clients_stale_scan_response env body)
      else if m = ''POST'' \<and> is_prefix_of ''/clients/'' path \<and> is_suffix_of ''/heartbeat'' path
      then on_world (client_heartbeat_response env path body)
      else if m = ''DELETE'' \<and> is_prefix_of ''/clients/'' path then on_world (client_unregister_response env path)
      else ret not_found)"

definition handle :: "api_env \<Rightarrow> pystr \<Rightarrow> pystr \<Rightarrow> row option \<Rightarrow> (site, answer) proc" where
  "handle env m raw_path body =
     andthen (lift_result (urlparse (api_host_ok env) raw_path)) (\<lambda>u.
     route env m (route_path (pu_path u)) (pu_query u) (case body of None \<Rightarrow> [] | Some d \<Rightarrow> d))"

end
