(* ===== verification/Http_Server.thy ===== *)
theory Http_Server
  imports Http_Api
begin

text \<open>
  The request handler around the application (\<open>make_handler\<close> of \<open>vad/server/app.py\<close>): the static
  files of the user interface, the check that some routes are called from the same machine, and the
  request body. A request is the method, the request target as it is sent, the address of the
  client, the \<open>Content-Length\<close> header and the bytes that follow. \<open>http.server\<close> answers other methods
  and malformed requests itself.
\<close>

datatype http_method = Get_Request | Post_Request | Delete_Request

record http_request =
  rq_method :: http_method
  rq_target :: pystr
  rq_host :: pystr
  rq_length :: "pystr option"
  rq_input :: pystr

record server =
  sv_api :: api_env
  sv_ui_root :: "path option"
  sv_guess_type :: "pystr \<Rightarrow> pystr option"

text \<open>What is sent: a payload as JSON, or a file with its content type.\<close>

datatype http_answer = Sent answer | Sent_File pystr pystr

section \<open>Static files\<close>

definition api_prefixes :: "pystr list" where
  "api_prefixes =
     [''/runs'', ''/health'', ''/ready'', ''/actions'', ''/dashboard'', ''/plugins'', ''/events'', ''/clients'', ''/leases'',
      ''/work-items'', ''/diff-proposals'', ''/operator-intents'', ''/run-task-states'', ''/mcp'']"

definition starts_with_any :: "pystr list \<Rightarrow> pystr \<Rightarrow> bool" where
  "starts_with_any prefixes s = list_ex (\<lambda>p. is_prefix_of p s) prefixes"

definition static_name :: "(pystr \<Rightarrow> pystr) \<Rightarrow> pystr \<Rightarrow> pystr" where
  "static_name decode path =
     (if path \<in> {'''', ''/''} then ''index.html''
      else unquote decode (dropWhile (\<lambda>c. c = CHR ''/'') path))"

definition content_type_of :: "(pystr \<Rightarrow> pystr option) \<Rightarrow> pystr \<Rightarrow> pystr" where
  "content_type_of guess name =
     (let t = (case guess name of None \<Rightarrow> ''application/octet-stream''
               | Some t \<Rightarrow> if t = [] then ''application/octet-stream'' else t) in
      if is_prefix_of ''text/'' t \<or> path_suffix name \<in> {''.js'', ''.css''} then t @ ''; charset=utf-8'' else t)"

text \<open>\<open>_send_static_if_available\<close>: \<open>None\<close> leaves the request to the application.\<close>

definition send_static :: "server \<Rightarrow> path \<Rightarrow> pystr \<Rightarrow> http_answer option io" where
  "send_static sv root target =
     andthen (lift_result (urlparse (api_host_ok (sv_api sv)) target)) (\<lambda>u.
     if starts_with_any api_prefixes (pu_path u) then ret None
     else (let name = static_name (api_decode (sv_api sv)) (pu_path u) in
       if CHR 0x00 \<in> set name then throw (ValueError ''embedded null byte'')
       else andthen (\<lambda>fs. (resolve fs (join_path root name), fs)) (\<lambda>candidate.
            if \<not> is_relative_to candidate root then ret (Some (Sent not_found))
            else andthen (reads (\<lambda>fs. is_file fs candidate)) (\<lambda>there.
                 if \<not> there then ret (Some (Sent not_found))
                 else andthen (read_bytes candidate) (\<lambda>b.
                      ret (Some (Sent_File (content_type_of (sv_guess_type sv) (last candidate)) b)))))))"

section \<open>Requests\<close>

definition local_prefixes :: "pystr list" where
  "local_prefixes = [''/events'', ''/mcp'', ''/work-items'', ''/diff-proposals'', ''/operator-intents'']"

definition is_local_request :: "http_request \<Rightarrow> bool" where
  "is_local_request rq = (rq_host rq \<in> {''127.0.0.1'', ''::1'', ''localhost''})"

text \<open>\<open>rfile.read(length)\<close>: a negative length reads all there is.\<close>

definition read_input :: "int \<Rightarrow> pystr \<Rightarrow> pystr" where
  "read_input n bytes = (if n < 0 then bytes else take (nat n) bytes)"

definition read_json_body :: "api_env \<Rightarrow> http_request \<Rightarrow> exn + row" where
  "read_json_body env rq =
     (case py_int (case rq_length rq of None \<Rightarrow> ''0'' | Some v \<Rightarrow> v) of
        None \<Rightarrow> Inl (ValueError ''invalid literal for int()'')
      | Some n \<Rightarrow>
          (if n = 0 then Inr []
           else case utf8_decode (read_input n (rq_input rq)) of
                  None \<Rightarrow> Inl (ValueError ''utf-8 codec cannot decode'')
                | Some text \<Rightarrow>
                    (case loads env text of Inl e \<Rightarrow> Inl e
                     | Inr (J_Dict d) \<Rightarrow> Inr d
                     | Inr v \<Rightarrow> Inr [(''payload'', v)])))"

definition sent :: "(site, answer) proc \<Rightarrow> (site, http_answer) proc" where
  "sent m = andthen m (\<lambda>a. ret (Sent a))"

definition do_get :: "server \<Rightarrow> http_request \<Rightarrow> (site, http_answer) proc" where
  "do_get sv rq =
     andthen (case sv_ui_root sv of None \<Rightarrow> ret None
              | Some root \<Rightarrow> on_files (send_static sv root (rq_target rq))) (\<lambda>static.
     case static of
       Some a \<Rightarrow> ret a
     | None \<Rightarrow> sent (handle (sv_api sv) ''GET'' (rq_target rq) None))"

definition do_post :: "server \<Rightarrow> http_request \<Rightarrow> (site, http_answer) proc" where
  "do_post sv rq =
     (if starts_with_any local_prefixes (rq_target rq) \<and> \<not> is_local_request rq
      then ret (Sent (403, Py_Error ''local_only_route'' []))
      else case read_json_body (sv_api sv) rq of
             Inl e \<Rightarrow> if e = json_decode_error then ret (Sent (400, Py_Invalid ''invalid_json'' e)) else throw e
           | Inr body \<Rightarrow> sent (handle (sv_api sv) ''POST'' (rq_target rq) (Some body)))"

definition do_delete :: "server \<Rightarrow> http_request \<Rightarrow> (site, http_answer) proc" where
  "do_delete sv rq = sent (handle (sv_api sv) ''DELETE'' (rq_target rq) None)"

text \<open>A request of one of the three methods, and a sequence of requests, some of which may raise.\<close>

definition serve_request :: "server \<Rightarrow> http_request \<Rightarrow> (site, http_answer) proc" where
  "serve_request sv rq =
     (case rq_method rq of
        Get_Request \<Rightarrow> do_get sv rq
      | Post_Request \<Rightarrow> do_post sv rq
      | Delete_Request \<Rightarrow> do_delete sv rq)"

definition after_requests :: "server \<Rightarrow> http_request list \<Rightarrow> site \<Rightarrow> site" where
  "after_requests sv rqs s = fold (\<lambda>rq s. snd (serve_request sv rq s)) rqs s"

end
