(* ===== verification/Http_Effects.thy ===== *)
theory Http_Effects
  imports Http_Server
begin

text \<open>
  What HTTP requests do to the database. \<open>server_effects\<close> extends the contract of the control
  plane's services by a law for the tables only the HTTP application writes (approvals and diff
  proposals): the relation must not depend on them. Its lemmas lift the relation to the server's
  state, the database with the file system, and carry it through every route and tool.
\<close>

text \<open>The database but for approvals and diff proposals.\<close>

definition main_tables :: "world \<Rightarrow> world" where
  "main_tables w = w\<lparr>w_approvals := [], w_diffs := [], w_applies := []\<rparr>"

definition at_world :: "(world \<Rightarrow> world \<Rightarrow> bool) \<Rightarrow> site \<Rightarrow> site \<Rightarrow> bool" where
  "at_world R s s' = R (fst s) (fst s')"

locale server_effects = control_plane_effects +
  assumes other_tables: "main_tables w' = main_tables w \<Longrightarrow> R w w'"

sublocale server_effects \<subseteq> site: effect_order "at_world R"
proof
  show "at_world R s s" for s by (simp add: at_world_def R_refl)
  show "at_world R s t \<Longrightarrow> at_world R t u \<Longrightarrow> at_world R s u" for s t u
    unfolding at_world_def by (rule R_trans)
qed

context effect_order
begin

lemma answering:
  assumes "obeys R m"
  shows "obeys R (answering h m)"
proof (rule obeysI)
  fix s
  have "snd (answering h m s) = snd (m s)"
    by (simp add: answering_def split: prod.split sum.split option.split)
  with obeysD [OF assms] show "R s (snd (answering h m s))" by simp
qed

lemma catching:
  assumes "obeys R m"
  shows "obeys R (catching m h)"
proof (rule obeysI)
  fix s
  have "snd (catching m h s) = snd (m s)"
    by (simp add: catching_def split: prod.split sum.split)
  with obeysD [OF assms] show "R s (snd (catching m h s))" by simp
qed

lemma with_db: "obeys R m \<Longrightarrow> obeys R (with_db env denial m)"
  unfolding with_db_def by (intro effect_intros)

lemma case_sum_proc:
  "(\<And>x. obeys R (f x)) \<Longrightarrow> (\<And>y. obeys R (g y)) \<Longrightarrow> obeys R (case v of Inl x \<Rightarrow> f x | Inr y \<Rightarrow> g y)"
  by (cases v) simp_all

lemma case_list_cons:
  "obeys R m \<Longrightarrow> (\<And>x xs. obeys R (n x xs)) \<Longrightarrow> obeys R (case v of [] \<Rightarrow> m | x # xs \<Rightarrow> n x xs)"
  by (cases v) simp_all

lemmas answer_intros = effect_intros answering with_db let_proc case_sum_proc case_list_cons

end

section \<open>The routes that only reach the database\<close>

context server_effects
begin

lemma same_tables:
  assumes "obeys (same_on main_tables) m"
  shows "obeys R m"
  by (rule obeysI) (metis assms other_tables prod.collapse sameD)

lemmas more_reads =
  load_run_evidence_def list_run_evidence_def list_approval_events_def list_dashboard_activity_def
  list_proof_stream_records_def list_terminal_stream_records_def list_plugin_inventory_records_def
  load_diff_proposal_def list_diff_proposals_def list_diff_apply_records_def

lemma record_reads:
  "obeys R (load_run_evidence h k)" "obeys R (list_run_evidence h)" "obeys R (list_approval_events r)"
  "obeys R (list_dashboard_activity r)" "obeys R (list_proof_stream_records r)"
  "obeys R (list_terminal_stream_records r)" "obeys R (list_plugin_inventory_records t v)"
  "obeys R (load_diff_proposal k)" "obeys R (list_diff_proposals r t)" "obeys R (list_diff_apply_records p)"
  unfolding more_reads by (intro reads_effects)+

lemma record_writes:
  "obeys R (save_approval_event a)" "obeys R (save_diff_proposal p)" "obeys R (save_diff_apply_record r)"
  "obeys R (update_diff_proposal_status k st)"
  unfolding save_approval_event_def save_diff_proposal_def save_diff_apply_record_def update_diff_proposal_status_def
  by (intro reads_effects record_reads same_tables sameI;
    auto simp: insert_row_def upsert_row_def main_tables_def writes_def split: option.split)+

lemma utc_text: "obeys R utc_text"
  unfolding utc_text_def by (intro reads_effects)

lemma record_approval: "obeys R (record_approval h r)"
  unfolding record_approval_def by (intro let_proc reads_effects record_reads record_writes utc_text)

lemma snapshots:
  "obeys R (dashboard_snapshot_of h)" "obeys R (control_plane_dashboard_snapshot h r t)"
  "obeys R (replay_dashboard_snapshot h r t)"
  unfolding dashboard_snapshot_of_def replay_dashboard_snapshot_def control_plane_dashboard_snapshot_def
  by (intro reads_effects record_reads list_control_plane_events)+

lemma plugin_status_payload: "obeys R (plugin_status_payload c)"
  unfolding plugin_status_payload_def by (intro reads_effects record_reads list_control_plane_events)

lemma decorate_dashboard_payload: "obeys R (decorate_dashboard_payload mean s)"
  unfolding decorate_dashboard_payload_def active_clients_payload_def
  by (intro reads_effects record_reads store_reads plugin_status_payload)

lemma proposal_of_body: "obeys R (proposal_of_body h b)"
  unfolding proposal_of_body_def by (intro let_proc reads_effects utc_text)

lemma create_proposal: "obeys R (create_proposal h b)"
proof (rule obeysI)
  fix w
  obtain r w' where b: "proposal_of_body h b w = (r, w')" by fastforce
  with obeysD [OF proposal_of_body [of h b], of w] have 1: "R w w'" by simp
  have "obeys R (andthen (save_diff_proposal p) (\<lambda>saved. ret (k saved)))" for p and k :: "_ \<Rightarrow> diff_create_result"
    by (intro reads_effects record_writes)
  then have 2: "R w' (snd (andthen (save_diff_proposal p) (\<lambda>saved. ret (k saved)) w'))"
    for p and k :: "_ \<Rightarrow> diff_create_result" by (rule obeysD)
  show "R w (snd (create_proposal h b w))"
    using 1 R_trans [OF 1 2] by (cases r) (simp_all add: create_proposal_def b)
qed

lemma stamp: "obeys R (stamp key body)"
  unfolding stamp_def by (intro reads_effects)

lemma valid_read_heartbeat: "obeys R (read_heartbeat env body)"
  unfolding read_heartbeat_def by (intro reads_effects stamp)

lemma read_intent: "obeys R (read_intent env body)"
  unfolding read_intent_def by (intro reads_effects stamp)

lemma read_work_item: "obeys R (read_work_item env body)"
  unfolding read_work_item_def by (intro reads_effects stamp)

text \<open>What is read from a body passed the validators.\<close>

lemma read_work_item_valid: "read_work_item env body w = (Inr i, w') \<Longrightarrow> valid_work_item i"
  by (auto simp: read_work_item_def parsed_def elim!: andthen_InrE split: option.splits)

lemma parsed_manifest:
  "parsed n parse_client_manifest r = Inr m \<Longrightarrow> parse_client_manifest m = Inr m"
  by (auto simp: parsed_def dest: parse_client_manifest_idem split: option.splits)

lemma create_read: "obeys R (andthen (read_work_item env d) (\<lambda>i. andthen (create i c s) item_answer))"
  by (rule andthen_when [OF read_work_item])
    (auto simp: item_answer_def dest: read_work_item_valid intro!: reads_effects create)

lemma register_parsed:
  "obeys R (andthen (lift_result (parsed n parse_client_manifest r)) (\<lambda>m. andthen (register m) (\<lambda>x. ret (k x))))"
  by (rule lift_bind) (auto dest: parsed_manifest intro!: reads_effects register)

lemmas route_defs =
  dashboard_response_def dashboard_replay_response_def approval_response_def event_ingestion_response_def
  events_response_def lease_acquire_response_def leases_response_def lease_action_response_def lease_action_def
  lease_answer_def work_item_create_response_def work_items_response_def work_item_read_response_def
  work_item_action_response_def work_item_action_def assign_or_schedule_def block_with_def
  client_register_response_def clients_response_def client_heartbeat_response_def
  clients_stale_scan_response_def client_unregister_response_def diff_proposal_create_response_def
  diff_proposals_response_def diff_proposal_read_response_def list_proposals_def read_proposal_def
  operator_intent_create_response_def operator_intents_response_def operator_intent_read_response_def
  run_task_states_response_def

lemmas service_effects =
  record_reads record_writes record_approval snapshots plugin_status_payload decorate_dashboard_payload
  create_proposal valid_read_heartbeat read_intent create_read register_parsed
  ingest acquire renew release expire check_approval_transition transition wrappers schedule_work_item
  unregister heartbeat mark_stale_clients_with_recovery save_operator_intent_record store_reads

lemma dashboard_routes:
  "obeys R (dashboard_response env)" "obeys R (dashboard_replay_response env r)"
  unfolding route_defs by (intro answer_intros reads_effects service_effects)+

lemma event_routes:
  "obeys R (approval_response env body)" "obeys R (event_ingestion_response env body)" "obeys R (events_response env)"
  unfolding route_defs by (intro answer_intros reads_effects service_effects)+

lemma lease_routes:
  "obeys R (lease_acquire_response env body)" "obeys R (leases_response env)" "obeys R (lease_action_response env p body)"
  unfolding route_defs by (intro answer_intros reads_effects service_effects)+

lemma item_routes:
  "obeys R (work_item_create_response env body)" "obeys R (work_items_response env r st c)"
  "obeys R (work_item_read_response env p)" "obeys R (work_item_action_response env p body)"
  unfolding route_defs by (intro answer_intros reads_effects service_effects create_read | simp only: item_answer_def)+

lemma client_routes:
  "obeys R (client_register_response env body)" "obeys R (clients_response env)"
  "obeys R (client_heartbeat_response env p body)" "obeys R (clients_stale_scan_response env body)"
  "obeys R (client_unregister_response env p)"
  unfolding route_defs by (intro answer_intros reads_effects service_effects register_parsed)+

lemma record_routes:
  "obeys R (diff_proposal_create_response env body)" "obeys R (diff_proposals_response env r t)"
  "obeys R (diff_proposal_read_response env p)" "obeys R (operator_intent_create_response env body)"
  "obeys R (operator_intents_response env)" "obeys R (operator_intent_read_response env p)"
  "obeys R (run_task_states_response env r)"
  unfolding route_defs by (intro answer_intros reads_effects service_effects)+

end

section \<open>The whole state\<close>

context server_effects
begin

lemma on_world:
  assumes "obeys R m"
  shows "obeys (at_world R) (on_world m)"
proof (rule obeysI)
  fix s
  show "at_world R s (snd (on_world m s))"
    using obeysD [OF assms, of "fst s"] by (cases "m (fst s)") (simp add: at_world_def on_world_def)
qed

lemma on_files: "obeys (at_world R) (on_files m)"
  by (rule obeysI) (auto simp: at_world_def on_files_def R_refl split: prod.split)

lemma with_memory: "obeys (at_world R) (with_memory env body)"
  unfolding with_memory_def by (rule on_files)

lemma fresh_id: "obeys (at_world R) fresh_id"
  unfolding fresh_id_def by (intro on_world reads_effects)

lemma timestamp: "obeys (at_world R) timestamp"
  unfolding timestamp_def by (intro on_world utc_text)

lemmas site_intros = site.answer_intros site.catching site.case_prod_proc on_world on_files with_memory fresh_id timestamp

lemma settle_patch: "obeys (at_world R) (settle_patch env args repo e plan a)"
  unfolding settle_patch_def by (intro site_intros)

lemma tools:
  "obeys (at_world R) (handle_validate_eip env args)" "obeys (at_world R) (handle_run_proofs env args)"
  "obeys (at_world R) (handle_retro_analyze env args)" "obeys (at_world R) (handle_query_retrospective env args)"
  "obeys (at_world R) (handle_submit_retrospective env args)" "obeys (at_world R) (handle_repo_assess env args)"
  "obeys (at_world R) (handle_repo_patch env args)" "obeys (at_world R) (handle_repo_run env args)"
  "obeys (at_world R) (handle_sign_verify env args)" "obeys (at_world R) (handle_evidence_inspect env args)"
  "obeys (at_world R) (handle_provider_inventory env args)" "obeys (at_world R) (handle_provider_test env args)"
  "obeys (at_world R) (handle_swarm_status env args)"
  unfolding handle_validate_eip_def handle_run_proofs_def handle_retro_analyze_def handle_query_retrospective_def
    handle_submit_retrospective_def handle_repo_assess_def handle_repo_patch_def handle_repo_run_def repo_patch_like_def
    handle_sign_verify_def handle_evidence_inspect_def handle_provider_inventory_def handle_provider_test_def
    handle_swarm_status_def
  by (intro site_intros settle_patch)+

lemma registered_tool:
  "dict_get tool_name tool_handlers = Some handler \<Longrightarrow> obeys (at_world R) (handler env args)"
  using tools [of env args] by (auto simp: tool_handlers_def dict_get_def split: if_splits)

lemma recording: "(\<And>rc. obeys R (f rc)) \<Longrightarrow> obeys (at_world R) (recording r f)"
  unfolding recording_def by (intro site_intros)

lemma perform_call: "obeys (at_world R) (perform_call env r tool_name args)"
proof (cases "dict_get tool_name tool_handlers")
  case None
  show ?thesis unfolding perform_call_def None option.case by (intro site_intros recording recorder)
next
  case (Some handler)
  show ?thesis unfolding perform_call_def Some option.case
    by (intro site_intros recording recorder registered_tool [OF Some])
qed

lemma handle_tool_call: "obeys (at_world R) (handle_tool_call env tool_name args)"
  unfolding handle_tool_call_def refuse_call_def
  by (intro site_intros recording recorder perform_call)

lemma call_named: "obeys (at_world R) (call_named env name args)"
  unfolding call_named_def
  by (cases name) (auto intro!: site_intros recording recorder handle_tool_call)

lemma handle_json_rpc_request: "obeys (at_world R) (handle_json_rpc_request env request)"
  unfolding handle_json_rpc_request_def by (intro site_intros call_named)

lemma apply_record: "obeys R (apply_record p v g a fs b af bl)"
  unfolding apply_record_def by (intro reads_effects utc_text)

lemma apply_approved: "obeys (at_world R) (apply_approved_diff_proposal h root p v g)"
  unfolding apply_approved_diff_proposal_def
  by (cases "approval_blocker v g") (auto intro!: site_intros apply_record simp: Let_def)

lemma apply_proposal: "obeys (at_world R) (apply_proposal h k root v g)"
  unfolding apply_proposal_def by (intro site_intros apply_approved record_reads record_writes)

lemma diff_proposal_apply_response: "obeys (at_world R) (diff_proposal_apply_response env p body)"
  unfolding diff_proposal_apply_response_def apply_at_def
  by (intro site_intros apply_proposal record_reads)

lemma run_responses: "obeys (at_world R) (list_runs env)" "obeys (at_world R) (run_response env p)"
  unfolding list_runs_def run_response_def run_evidence_of_def run_tail_def
  by (intro site_intros reads_effects record_reads)+

lemma route: "obeys (at_world R) (route env m path qs body)"
  unfolding route_def mcp_response_of_def
  by (intro site_intros reads_effects dashboard_routes event_routes lease_routes item_routes client_routes record_routes
      run_responses diff_proposal_apply_response handle_json_rpc_request plugin_status_payload)

lemma handle: "obeys (at_world R) (handle env m raw body)"
  unfolding handle_def by (intro site_intros route)

lemma methods:
  "obeys (at_world R) (do_get sv rq)" "obeys (at_world R) (do_post sv rq)" "obeys (at_world R) (do_delete sv rq)"
  unfolding do_get_def do_post_def do_delete_def sent_def by (intro site_intros handle)+

lemma serve_request: "obeys (at_world R) (serve_request sv rq)"
  by (cases "rq_method rq") (simp_all add: serve_request_def methods)

lemma after_requests: "R (fst s) (fst (after_requests sv rqs s))"
proof (induction rqs arbitrary: s)
  case Nil
  show ?case by (simp add: after_requests_def R_refl)
next
  case (Cons rq rqs)
  have "R (fst s) (fst (snd (serve_request sv rq s)))"
    using obeysD [OF serve_request] by (simp add: at_world_def)
  from R_trans [OF this Cons.IH] show ?case by (simp add: after_requests_def)
qed

end

end
