(* ===== verification/File_Copies.thy ===== *)
theory File_Copies
  imports Patch_Properties Repo_Tools
begin

text \<open>
  Copying of files as \<open>shutil\<close> does it, and what the operations on link-free paths do to a file
  system: which paths they change, and that they add no links.
\<close>

text \<open>\<open>shutil.copyfile\<close>; \<open>shutil.copy2\<close> copies into a directory. File attributes are not modelled.\<close>

definition copy_file :: "path \<Rightarrow> path \<Rightarrow> unit io" where
  "copy_file source target =
     andthen (reads (\<lambda>fs. path_exists fs target \<and> resolve fs source = resolve fs target)) (\<lambda>same.
     if same then throw (OSError (path_text source @ '' and '' @ path_text target @ '' are the same file''))
     else andthen (read_bytes source) (write_bytes target))"

definition copy2 :: "path \<Rightarrow> path \<Rightarrow> unit io" where
  "copy2 source target =
     andthen (reads (\<lambda>fs. is_dir fs target)) (\<lambda>dir.
     copy_file source (if dir then target @ [last source] else target))"

section \<open>Operations that leave the links alone\<close>

definition same_links :: "filesystem \<Rightarrow> filesystem \<Rightarrow> bool" where
  "same_links fs fs' = (\<forall>q a t. fs' q = Some (Link a t) \<longleftrightarrow> fs q = Some (Link a t))"

lemma same_linksD: "same_links fs fs' \<Longrightarrow> fs' q = Some (Link a t) \<longleftrightarrow> fs q = Some (Link a t)"
  by (simp add: same_links_def)

lemma same_links_refl [simp]: "same_links fs fs"
  by (simp add: same_links_def)

lemma same_links_trans: "same_links fs fs' \<Longrightarrow> same_links fs' fs'' \<Longrightarrow> same_links fs fs''"
  by (simp add: same_links_def)

lemma same_links_real_path:
  assumes "same_links fs fs'"
  shows "real_path n fs' cur ps = real_path n fs cur ps"
  using assms
proof (induction n fs cur ps rule: real_path.induct)
  case (1 n fs cur)
  then show ?case by simp
next
  case (2 n fs cur p ps)
  show ?case
  proof (cases "p = ''..''")
    case True
    with 2 show ?thesis by simp
  next
    case False
    show ?thesis
    proof (cases "\<exists>a t. fs (cur @ [p]) = Some (Link a t)")
      case True
      then obtain a t where "fs (cur @ [p]) = Some (Link a t)" by blast
      moreover from this have "fs' (cur @ [p]) = Some (Link a t)" using same_linksD [OF "2.prems"] by blast
      ultimately show ?thesis using 2 False by (cases n) simp_all
    next
      case noLink: False
      then have "\<nexists>a t. fs' (cur @ [p]) = Some (Link a t)" using same_linksD [OF "2.prems"] by blast
      with noLink 2 False show ?thesis by (auto split: option.splits node.splits)
    qed
  qed
qed

lemma same_links_resolve: "same_links fs fs' \<Longrightarrow> resolve fs' p = resolve fs p"
  by (simp add: resolve_def same_links_real_path)

lemma same_links_link_free: "same_links fs fs' \<Longrightarrow> link_free fs' q = link_free fs q"
  by (simp add: link_free_def same_linksD)

text \<open>A change that only adds directories above and under the roots and files under them.\<close>

definition under_any :: "path set \<Rightarrow> path \<Rightarrow> bool" where
  "under_any roots q = (\<exists>r\<in>roots. is_relative_to q r)"

definition tidy :: "path set \<Rightarrow> filesystem \<Rightarrow> filesystem \<Rightarrow> bool" where
  "tidy roots fs fs' =
     (same_links fs fs' \<and> fs' [] = fs []
      \<and> (\<forall>q. fs' q \<noteq> fs q \<longrightarrow> under_any roots q \<or> (fs q = None \<and> fs' q = Some Directory \<and> (\<exists>r\<in>roots. is_relative_to r q))))"

lemma tidyD:
  assumes "tidy roots fs fs'"
  shows "same_links fs fs'" "fs' [] = fs []"
    "fs' q \<noteq> fs q \<Longrightarrow> under_any roots q \<or> (fs q = None \<and> fs' q = Some Directory \<and> (\<exists>r\<in>roots. is_relative_to r q))"
  using assms by (simp_all add: tidy_def)

lemma tidy_refl [simp]: "tidy roots fs fs"
  by (simp add: tidy_def)

lemma tidy_trans: "tidy roots fs fs' \<Longrightarrow> tidy roots fs' fs'' \<Longrightarrow> tidy roots fs fs''"
  unfolding tidy_def by (metis same_links_trans)

lemma make_dirs_changes:
  "make_dirs p fs = (x, fs') \<Longrightarrow> fs' q \<noteq> fs q \<Longrightarrow> fs q = None \<and> fs' q = Some Directory \<and> is_prefix_of q p"
proof (induction p fs arbitrary: x fs' rule: make_dirs.induct)
  case (1 p fs)
  show ?case
  proof (cases "fs p = None \<and> p \<noteq> []")
    case False
    with 1 show ?thesis by (auto split: option.splits node.splits if_splits)
  next
    case True
    obtain y fs1 where up: "make_dirs (butlast p) fs = (y, fs1)" by fastforce
    have mono: "is_prefix_of q (butlast p) \<Longrightarrow> is_prefix_of q p"
      using True by (metis append_butlast_last_id append_assoc is_prefix_iff)
    have self: "is_prefix_of p p" by (simp add: is_prefix_iff)
    from 1(2) True up have "fs' = fs1 \<or> fs' = fs1(p := Some Directory)" by (auto split: sum.splits)
    then show ?thesis
    proof
      assume "fs' = fs1"
      with 1(1) [OF _ _ up] 1(3) True mono show ?thesis by auto
    next
      assume fs': "fs' = fs1(p := Some Directory)"
      show ?thesis
      proof (cases "q = p")
        case True
        with fs' \<open>fs p = None \<and> p \<noteq> []\<close> self show ?thesis by simp
      next
        case False
        with fs' 1(1) [OF _ _ up] 1(3) True mono show ?thesis by auto
      qed
    qed
  qed
qed

lemma make_dirs_top:
  "make_dirs p fs = (x, fs') \<Longrightarrow> fs [] \<noteq> None \<Longrightarrow> fs' [] = fs []"
  using make_dirs_changes [of p fs x fs' "[]"] by (cases "fs' [] = fs []") auto

lemma prefixes_comparable: "is_prefix_of a c \<Longrightarrow> is_prefix_of b c \<Longrightarrow> is_prefix_of a b \<or> is_prefix_of b a"
  by (auto simp: is_prefix_iff append_eq_append_conv2)

lemma tidy_make_dirs:
  assumes "make_dirs (butlast p) fs = (x, fs')" "fs [] = Some Directory" "under_any roots p"
  shows "tidy roots fs fs'"
proof -
  have changed: "fs q = None \<and> fs' q = Some Directory \<and> is_prefix_of q (butlast p)" if "fs' q \<noteq> fs q" for q
    using make_dirs_changes [OF assms(1) that] .
  have "is_prefix_of q p" if "is_prefix_of q (butlast p)" for q
    using that by (cases "p = []") (simp, metis append_butlast_last_id append_assoc is_prefix_iff)
  then have "under_any roots q \<or> (\<exists>r\<in>roots. is_relative_to r q)" if "fs' q \<noteq> fs q" for q
    using changed [OF that] assms(3) unfolding under_any_def is_relative_to_def by (metis prefixes_comparable)
  moreover have "same_links fs fs'" unfolding same_links_def using changed by (metis node.distinct(5) option.distinct(1) option.inject)
  moreover have "fs' [] = fs []" using make_dirs_top [OF assms(1)] assms(2) by simp
  ultimately show ?thesis unfolding tidy_def using changed by blast
qed

lemma write_target_link_free:
  assumes "write_target fs p = Some q" "link_free fs p"
  shows "q = p"
proof (cases "os_path link_limit fs [] p")
  case (Some q')
  with assms link_free_os_path show ?thesis by (auto simp: write_target_def)
next
  case None
  with assms(1) obtain d where d: "p \<noteq> []" "os_path link_limit fs [] (butlast p) = Some d" "q = d @ [last p]"
    by (auto simp: write_target_def split: list.splits option.splits if_splits)
  from link_free_os_path [OF link_free_butlast [OF assms(2)] d(2)] d show ?thesis by simp
qed

lemma write_bytes_link_free:
  assumes "write_bytes p b fs = (x, fs')" "link_free fs p"
  shows "fs' = fs \<or> (fs' = fs(p := Some (File b)) \<and> fs p \<noteq> Some Directory \<and> x = Inr ())"
  using assms write_target_link_free [of fs p]
  by (auto simp: write_bytes_def split: option.splits if_splits)

lemma link_free_no_link: "link_free fs p \<Longrightarrow> fs [] = Some Directory \<Longrightarrow> fs p \<noteq> Some (Link a t)"
  by (cases "p = []") (auto simp: link_free_def)

lemma tidy_put:
  assumes "link_free fs p" "fs [] = Some Directory" "under_any roots p" "fs p \<noteq> Some Directory" "\<And>a t. v \<noteq> Some (Link a t)"
  shows "tidy roots fs (fs(p := v))"
  using assms link_free_no_link [OF assms(1,2)] by (auto simp: tidy_def same_links_def)

lemma tidy_write_bytes:
  assumes "write_bytes p b fs = (x, fs')" "link_free fs p" "fs [] = Some Directory" "under_any roots p"
  shows "tidy roots fs fs'"
  using write_bytes_link_free [OF assms(1,2)] tidy_put [OF assms(2,3,4), of "Some (File b)"] by auto

lemma tidy_unlink:
  assumes "unlink p fs = (x, fs')" "link_free fs p" "fs [] = Some Directory" "under_any roots p"
  shows "tidy roots fs fs'"
  using assms tidy_put [OF assms(2,3,4), of None] by (auto simp: unlink_def split: option.splits node.splits)

lemma read_bytes_state: "read_bytes p fs = (x, fs') \<Longrightarrow> fs' = fs"
  by (auto simp: read_bytes_def split: option.splits node.splits)

lemma tidy_copy_file:
  assumes "copy_file s p fs = (x, fs')" "link_free fs p" "fs [] = Some Directory" "under_any roots p"
  shows "tidy roots fs fs'"
proof -
  obtain y fs1 where r: "read_bytes s fs = (y, fs1)" by fastforce
  have "fs1 = fs" using read_bytes_state [OF r] .
  with assms r tidy_write_bytes [OF _ assms(2,3,4)] show ?thesis
    by (auto simp: copy_file_def andthen_def split: if_splits sum.splits)
qed

section \<open>File systems where every node has its directories\<close>

lemma rooted_parent:
  assumes "rooted fs" "fs (a @ b) \<noteq> None" "b \<noteq> []"
  shows "fs a = Some Directory"
  using assms(2,3)
proof (induction b rule: rev_induct)
  case Nil
  then show ?case by simp
next
  case (snoc x b)
  then have "fs (a @ b) = Some Directory"
    using assms(1) unfolding rooted_def by (metis append_assoc append_is_Nil_conv butlast_snoc not_Cons_self2)
  with snoc show ?case by (cases "b = []") simp_all
qed

lemma rooted_walk:
  assumes "rooted fs" "link_free fs (cur @ ps)" "fs (cur @ ps) \<noteq> None"
  shows "os_path n fs cur ps = Some (cur @ ps)"
  using assms(2,3)
proof (induction ps arbitrary: cur)
  case Nil
  then show ?case by simp
next
  case (Cons p ps)
  have no: "fs (cur @ [p]) \<noteq> Some (Link a t)" for a t
    using Cons.prems(1) unfolding link_free_def by auto
  have up: "p \<noteq> ''..''" using Cons.prems(1) by (auto simp: link_free_def)
  have rest: "os_path n fs (cur @ [p]) ps = Some ((cur @ [p]) @ ps)" using Cons by simp
  show ?case
  proof (cases "ps = []")
    case True
    with up no Cons.prems(2) show ?thesis by (auto split: option.splits node.splits)
  next
    case False
    with rooted_parent [OF assms(1), of "cur @ [p]" ps] Cons.prems(2) have "fs (cur @ [p]) = Some Directory" by simp
    with up rest show ?thesis by simp
  qed
qed

lemma rooted_os_path:
  assumes "rooted fs" "link_free fs p"
  shows "os_path link_limit fs [] p = (if fs p = None then None else Some p)"
proof (cases "fs p = None")
  case False
  with rooted_walk [OF assms(1), of "[]" p link_limit] assms(2) show ?thesis by simp
next
  case True
  have top: "fs [] = Some Directory" using assms(1) by (simp add: rooted_def)
  have "os_path link_limit fs [] p = None"
  proof (rule ccontr)
    assume "os_path link_limit fs [] p \<noteq> None"
    then obtain q where q: "os_path link_limit fs [] p = Some q" by blast
    from os_path_node [OF q assms(1) top] link_free_os_path [OF assms(2) q] True show False by simp
  qed
  with True show ?thesis by simp
qed

lemma rooted_exists: "rooted fs \<Longrightarrow> link_free fs p \<Longrightarrow> path_exists fs p = (fs p \<noteq> None)"
  by (simp add: path_exists_def rooted_os_path)

lemma rooted_read: "rooted fs \<Longrightarrow> link_free fs p \<Longrightarrow> fs p = Some (File b) \<Longrightarrow> read_bytes p fs = (Inr b, fs)"
  by (simp add: read_bytes_def rooted_os_path)

lemma read_bytes_link_free:
  assumes "read_bytes q fs = (Inr b, fs')" "link_free fs q"
  shows "fs' = fs \<and> fs q = Some (File b)"
  using assms link_free_os_path [OF assms(2)]
  by (auto simp: read_bytes_def split: option.splits node.splits)

lemma rooted_top [simp]: "rooted fs \<Longrightarrow> fs [] = Some Directory"
  by (simp add: rooted_def)

lemma rooted_put:
  assumes "rooted fs" "fs p \<noteq> Some Directory" "p \<noteq> []" "fs (butlast p) = Some Directory"
  shows "rooted (fs(p := Some (File b)))"
proof -
  have "butlast q \<noteq> p" if "fs q \<noteq> None" "q \<noteq> []" for q
    using that assms(1,2) unfolding rooted_def by metis
  moreover have "butlast p \<noteq> p" using assms(3) by (metis append_butlast_last_id not_Cons_self2 self_append_conv)
  ultimately show ?thesis using assms unfolding rooted_def by auto
qed

lemma rooted_remove:
  assumes "rooted fs" "fs p = Some (File b)"
  shows "rooted (fs(p := None))"
proof -
  have "butlast q \<noteq> p" if "fs q \<noteq> None" "q \<noteq> []" for q
    using that assms unfolding rooted_def by (metis node.distinct(1) option.inject)
  moreover have "p \<noteq> []" using assms by (auto simp: rooted_def)
  ultimately show ?thesis using assms unfolding rooted_def by auto
qed

lemma rooted_make_dirs: "make_dirs p fs = (x, fs') \<Longrightarrow> rooted fs \<Longrightarrow> rooted fs' \<and> (x = Inr () \<longrightarrow> fs' p = Some Directory)"
proof (induction p fs arbitrary: x fs' rule: make_dirs.induct)
  case (1 p fs)
  show ?case
  proof (cases "fs p = None \<and> p \<noteq> []")
    case False
    then have "fs' = fs \<and> (x = Inr () \<longrightarrow> fs p = Some Directory)"
      using 1(2) rooted_top [OF 1(3)] by (auto split: option.splits node.splits if_splits)
    with 1(3) show ?thesis by simp
  next
    case True
    obtain y fs1 where up: "make_dirs (butlast p) fs = (y, fs1)" by fastforce
    from 1(1) [OF _ _ up] True 1(3) have one: "rooted fs1" "y = Inr () \<Longrightarrow> fs1 (butlast p) = Some Directory" by auto
    have none: "fs1 p = None \<or> fs1 p = Some Directory"
      using make_dirs_changes [OF up, of p] True by (cases "fs1 p = fs p") auto
    have "rooted (fs1(p := Some Directory))" if "fs1 (butlast p) = Some Directory"
      using that one(1) True unfolding rooted_def by auto
    moreover have "(y = Inr () \<and> x = Inr () \<and> fs' = fs1(p := Some Directory)) \<or> (x \<noteq> Inr () \<and> fs' = fs1)"
      using 1(2) True up by (cases y) auto
    ultimately show ?thesis using one by auto
  qed
qed

lemma make_dirs_there: "fs p = Some Directory \<Longrightarrow> make_dirs p fs = (Inr (), fs)"
  by simp

text \<open>What a write and a copy do that succeed, and when they do.\<close>

lemma rooted_write_Inr:
  assumes "write_bytes p b fs = (Inr (), fs')" "rooted fs" "link_free fs p"
  shows "fs' = fs(p := Some (File b)) \<and> fs p \<noteq> Some Directory \<and> rooted fs'"
proof -
  from assms(1) obtain q where q: "write_target fs p = Some q" "fs q \<noteq> Some Directory" "fs' = fs(q := Some (File b))"
    by (auto simp: write_bytes_def split: option.splits if_splits)
  with write_target_link_free assms(3) have p: "q = p" by blast
  have top: "p \<noteq> []" using q(2) p assms(2) by auto
  have "fs (butlast p) = Some Directory"
  proof (cases "fs p = None")
    case False
    with rooted_parent [OF assms(2), of "butlast p" "[last p]"] top show ?thesis by simp
  next
    case True
    then have "os_path link_limit fs [] p = None" using rooted_os_path [OF assms(2,3)] by simp
    with q(1) top obtain d where "os_path link_limit fs [] (butlast p) = Some d" "fs d = Some Directory"
      by (auto simp: write_target_def split: list.splits option.splits if_splits)
    with link_free_os_path [OF link_free_butlast [OF assms(3)]] show ?thesis by blast
  qed
  with rooted_put [OF assms(2)] q p top show ?thesis by simp
qed

lemma rooted_overwrite:
  assumes "rooted fs" "link_free fs p" "fs p = Some (File c)"
  shows "write_bytes p b fs = (Inr (), fs(p := Some (File b)))"
  using assms by (simp add: write_bytes_def write_target_def rooted_os_path)

lemma rooted_is_dir: "rooted fs \<Longrightarrow> link_free fs p \<Longrightarrow> is_dir fs p = (fs p = Some Directory)"
  by (simp add: is_dir_def rooted_os_path)

lemma rooted_copy_file_Inr:
  assumes "copy_file s p fs = (Inr (), fs')" "rooted fs" "link_free fs s" "link_free fs p"
  shows "\<exists>c. fs s = Some (File c) \<and> fs' = fs(p := Some (File c)) \<and> rooted fs'"
proof -
  from assms(1) obtain c fs1 where "read_bytes s fs = (Inr c, fs1)" "write_bytes p c fs1 = (Inr (), fs')"
    by (auto simp: copy_file_def elim!: andthen_InrE split: if_splits)
  with read_bytes_link_free [OF _ assms(3)] rooted_write_Inr assms(2,4) show ?thesis by metis
qed

lemma rooted_copy2_Inr:
  assumes "copy2 s p fs = (Inr (), fs')" "rooted fs" "link_free fs s" "link_free fs p" "fs p \<noteq> Some Directory"
  shows "\<exists>c. fs s = Some (File c) \<and> fs' = fs(p := Some (File c)) \<and> rooted fs'"
  using assms rooted_copy_file_Inr by (auto simp: copy2_def rooted_is_dir)

lemma rooted_copy2_over:
  assumes "rooted fs" "link_free fs s" "link_free fs p" "s \<noteq> p" "fs s = Some (File c)" "fs p = Some (File c')"
  shows "copy2 s p fs = (Inr (), fs(p := Some (File c)))"
  using assms
  by (simp add: copy2_def copy_file_def rooted_is_dir rooted_exists link_free_resolve rooted_read rooted_overwrite andthen_def)

declare make_dirs.simps [simp del]

end
