(* ===== verification/Http_Properties.thy ===== *)
theory Http_Properties
  imports Http_Effects Mcp_Properties Histories Demo File_Copies
begin

text \<open>
  What holds of the server whatever requests it gets: the database stays consistent and its ledger
  only grows; files are only changed by requests from the same machine; static files come from the
  directory of the user interface.
\<close>

section \<open>Any sequence of requests\<close>

lemma main_fields:
  "w_user_version (main_tables w) = w_user_version w" "w_schema (main_tables w) = w_schema w"
  "w_manifests (main_tables w) = w_manifests w" "w_heartbeats (main_tables w) = w_heartbeats w"
  "w_leases (main_tables w) = w_leases w" "w_work_items (main_tables w) = w_work_items w"
  "w_task_states (main_tables w) = w_task_states w" "w_events (main_tables w) = w_events w"
  by (simp_all add: main_tables_def)

lemma same_main:
  assumes "main_tables w' = main_tables w"
  shows "w_user_version w' = w_user_version w" "w_schema w' = w_schema w" "w_manifests w' = w_manifests w"
    "w_heartbeats w' = w_heartbeats w" "w_leases w' = w_leases w" "w_work_items w' = w_work_items w"
    "w_task_states w' = w_task_states w" "w_events w' = w_events w"
  using assms main_fields [of w] main_fields [of w'] by metis+

lemma same_main_store_ok:
  assumes "main_tables w' = main_tables w"
  shows "store_ok w' = store_ok w"
proof -
  have has: "has_manifest w' = has_manifest w" "has_lease w' = has_lease w"
    by (auto simp: fun_eq_iff has_manifest_def has_lease_def same_main [OF assms])
  moreover have "work_item_fk w' = work_item_fk w"
    by (rule ext) (simp only: work_item_fk_def has)
  ultimately show ?thesis by (simp add: store_ok_parts same_main [OF assms])
qed

interpretation consistent_server: server_effects "keeping store_ok"
proof unfold_locales
  fix w w' assume "main_tables w' = main_tables w"
  from same_main_store_ok [OF this] show "keeping store_ok w w'" by (simp add: keeping_def)
qed

interpretation ledger_server: server_effects ledger_extends
proof unfold_locales
  fix w w' assume "main_tables w' = main_tables w"
  from same_main(8) [OF this] show "ledger_extends w w'" by (simp add: ledger_extends_def)
qed

interpretation history_server: server_effects sound_history
proof unfold_locales
  fix w w' assume same: "main_tables w' = main_tables w"
  have "stored_items w' = stored_items w" by (simp add: stored_items_def same_main(6) [OF same])
  from item_of_cong [OF this] have "items_follow w w'" by (auto simp: items_follow_def intro: item_follows_refl)
  with same_main_store_ok [OF same] show "sound_history w w'" by (simp add: sound_history_def)
qed

text \<open>
  C35: whatever HTTP requests the server gets, static files, tool calls and requests that raise
  included: a consistent database stays consistent, no event of the ledger is changed or removed, and
  every work item is still there with a status that follows the allowed transitions.
\<close>

theorem http_requests_preserve:
  assumes "store_ok (fst s)"
  shows "store_ok (fst (after_requests sv rqs s))
    \<and> (\<exists>es. w_events (fst (after_requests sv rqs s)) = w_events (fst s) @ es)
    \<and> items_follow (fst s) (fst (after_requests sv rqs s))"
  using history_server.after_requests [of s sv rqs] ledger_server.after_requests [of s sv rqs] assms
  by (simp add: sound_history_def ledger_extends_def)

section \<open>Static files\<close>

lemma send_static_file:
  assumes "send_static sv root target fs = (Inr (Some (Sent_File ct b)), fs')"
  obtains p where "fs' = fs" "is_relative_to p root" "link_free fs p" "fs p = Some (File b)"
proof -
  from assms obtain u where u: "urlparse (api_host_ok (sv_api sv)) target = Inr u"
    by (cases "urlparse (api_host_ok (sv_api sv)) target") (auto simp: send_static_def)
  let ?name = "static_name (api_decode (sv_api sv)) (pu_path u)"
  have go: "send_static sv root target fs = andthen (\<lambda>fs. (resolve fs (join_path root ?name), fs)) (\<lambda>candidate.
      if \<not> is_relative_to candidate root then ret (Some (Sent not_found))
      else andthen (reads (\<lambda>fs. is_file fs candidate)) (\<lambda>there.
           if \<not> there then ret (Some (Sent not_found))
           else andthen (read_bytes candidate) (\<lambda>b.
                ret (Some (Sent_File (content_type_of (sv_guess_type sv) (last candidate)) b))))) fs"
    using assms u by (auto simp: send_static_def Let_def split: if_splits)
  obtain p where p: "resolve fs (join_path root ?name) = Inr p"
    using assms unfolding go by (cases "resolve fs (join_path root ?name)") (auto simp: andthen_def)
  with assms have "is_relative_to p root" "read_bytes p fs = (Inr b, fs')"
    unfolding go by (auto simp: andthen_def split: if_splits sum.splits prod.splits)
  with that read_bytes_link_free [OF _ resolve_link_free [OF p]] show thesis
    using resolve_link_free [OF p] by blast
qed

lemma sent_no_file: "sent m s \<noteq> (Inr (Sent_File ct b), s')"
  by (auto simp: sent_def elim!: andthen_InrE)

text \<open>
  C37: a file the server sends for a request lies, after all links are followed, under the directory of
  the user interface and is sent as it is; sending it changes nothing.
\<close>

theorem static_files_confined:
  assumes "serve_request sv rq (w, fs) = (Inr (Sent_File content_type b), s')"
  shows "s' = (w, fs) \<and> (\<exists>root p. sv_ui_root sv = Some root \<and> is_relative_to p root \<and> link_free fs p \<and> fs p = Some (File b))"
proof -
  from assms have get: "do_get sv rq (w, fs) = (Inr (Sent_File content_type b), s')"
    by (cases "rq_method rq")
      (auto simp: serve_request_def do_post_def do_delete_def sent_no_file split: if_splits sum.splits)
  obtain root where root: "sv_ui_root sv = Some root"
    using get by (cases "sv_ui_root sv") (auto simp: do_get_def sent_no_file)
  with get obtain fs' where "send_static sv root (rq_target rq) fs = (Inr (Some (Sent_File content_type b)), fs')" "s' = (w, fs')"
    by (auto simp: do_get_def on_files_def sent_no_file elim!: andthen_InrE split: prod.splits option.splits)
  with root send_static_file show ?thesis by metis
qed

section \<open>Requests from other machines\<close>

lemma load_run_same: "obeys (same_on id) (load_run env k)"
  unfolding load_run_def by (intro frame.effect_intros same_read_text sameI) simp

lemma send_static_same: "obeys (same_on id) (send_static sv root target)"
  unfolding send_static_def
  by (intro frame.answer_intros resolve_same read_bytes_same_files)

lemma runs_kept: "files_kept (list_runs env)" "files_kept (run_response env path)"
  unfolding list_runs_def run_response_def run_evidence_of_def run_tail_def listed_run_def
  by (intro frame.answer_intros frame.case_prod_proc files_on_world on_files_kept load_run_same)+

text \<open>The routes whose answers may change files.\<close>

lemma route_kept:
  assumes "m = ''POST'' \<Longrightarrow> path \<noteq> ''/mcp'' \<and> \<not> is_prefix_of ''/diff-proposals/'' path"
  shows "files_kept (route env m path qs body)"
proof -
  have mcp: "files_kept (if m = ''POST'' \<and> path = ''/mcp'' then mcp_response_of env body else k)"
    if "files_kept k" for k using assms that by auto
  have diff: "files_kept (if is_prefix_of ''/diff-proposals/'' path \<and> is_suffix_of ''/apply'' path \<and> m = ''POST''
      then diff_proposal_apply_response env path body else k)"
    if "files_kept k" for k using assms that by auto
  show ?thesis
    unfolding route_def Let_def
    by (intro mcp diff frame.if_proc frame.ret frame.andthen files_on_world runs_kept)
qed

lemma partition_prefix: "is_prefix_of (fst (partition_at c s)) s"
  by (induction s) (auto split: prod.split)

lemma is_prefix_trans: "is_prefix_of p s \<Longrightarrow> is_prefix_of s t \<Longrightarrow> is_prefix_of p t"
  by (auto simp: is_prefix_iff)

lemma drop_params_prefix: "is_prefix_of (drop_params s) s"
proof -
  let ?t = "takeWhile (\<lambda>c. c \<noteq> CHR ''/'') (rev s)"
  obtain u where u: "rev s = ?t @ u" by (metis takeWhile_dropWhile_id)
  then have s: "s = rev u @ rev ?t" by (metis rev_append rev_rev_ident)
  obtain v where "rev ?t = fst (partition_at (CHR '';'') (rev ?t)) @ v"
    using partition_prefix [of "CHR '';''" "rev ?t"] by (auto simp: is_prefix_iff)
  moreover have "take (length s - length (rev ?t)) s = rev u"
    by (subst s, subst (2) s) (metis append_eq_conv_conj diff_add_inverse2 length_append s)
  ultimately show ?thesis unfolding drop_params_def Let_def is_prefix_iff by (metis append.assoc s)
qed

lemma url_path_prefix: "is_prefix_of (pu_path (url_of_parts scheme url)) url"
proof -
  let ?f = "fst (partition_at (CHR ''#'') url)"
  have "is_prefix_of (pu_path (url_of_parts scheme url)) (fst (partition_at (CHR ''?'') ?f))"
    by (simp add: url_of_parts_def Let_def drop_params_prefix is_prefix_iff split: prod.split)
      (metis drop_params_prefix is_prefix_iff)
  then show ?thesis using is_prefix_trans partition_prefix by meson
qed

lemma route_path_prefix: "route_path p = ''/'' \<or> is_prefix_of (route_path p) p"
proof -
  have "is_prefix_of (rev (dropWhile (\<lambda>c. c = CHR ''/'') (rev p))) p"
    unfolding is_prefix_iff by (metis rev_append rev_rev_ident takeWhile_dropWhile_id)
  then show ?thesis by (simp add: route_path_def Let_def)
qed

text \<open>
  A request target in origin form, as clients send it: it begins with one slash. \<open>http.server\<close>
  separates the parts of a request line at blanks, so a target has none.
\<close>

definition origin_form :: "pystr \<Rightarrow> bool" where
  "origin_form t = (is_prefix_of ''/'' t \<and> \<not> is_prefix_of ''//'' t \<and> list_all (\<lambda>c. \<not> py_isspace c) t)"

lemma clean_url_id:
  assumes "list_all (\<lambda>c. \<not> py_isspace c) t" "32 < (of_char (hd t) :: nat)"
  shows "clean_url t = t"
proof -
  have "c \<notin> {CHR 0x09, CHR 0x0A, CHR 0x0D}" if "c \<in> set t" for c
    using assms(1) that by (auto simp: list_all_iff py_isspace_def)
  then have "filter (\<lambda>c. c \<notin> {CHR 0x09, CHR 0x0A, CHR 0x0D}) t = t" by (simp add: filter_id_conv)
  moreover have "dropWhile (\<lambda>c. (of_char c :: nat) \<le> 32) t = t" using assms(2) by (cases t) auto
  ultimately show ?thesis by (simp only: clean_url_def)
qed

lemma urlparse_origin:
  assumes "origin_form t"
  shows "urlparse host_ok t = Inr (url_of_parts [] t)"
proof -
  obtain s where t: "t = CHR ''/'' # s" using assms by (auto simp: origin_form_def is_prefix_iff)
  have clean: "clean_url t = t"
    using assms by (intro clean_url_id) (simp_all add: origin_form_def t)
  have "split_scheme t = ([], t)"
    by (auto simp: split_scheme_def t ascii_alpha_def split: prod.splits option.splits)
  with assms show ?thesis by (simp add: urlparse_def clean origin_form_def)
qed

lemma origin_form_path:
  assumes "origin_form t" "urlparse host_ok t = Inr u"
  shows "is_prefix_of (pu_path u) t"
  using assms url_path_prefix [of "[]" t] by (auto simp: urlparse_origin)

lemma origin_form_route:
  assumes "origin_form t" "urlparse host_ok t = Inr u" "is_prefix_of p (route_path (pu_path u))" "2 \<le> length p"
  shows "is_prefix_of p t"
proof -
  have "route_path (pu_path u) \<noteq> ''/''" using assms(3,4) by (cases p) (auto simp: is_prefix_iff)
  then have "is_prefix_of (route_path (pu_path u)) (pu_path u)" using route_path_prefix by blast
  then show ?thesis using origin_form_path [OF assms(1,2)] assms(3) is_prefix_trans by blast
qed

text \<open>
  C36: a request from another machine whose target is in origin form changes no file, whatever the
  method, the body and the route.
\<close>

theorem remote_requests_keep_files:
  assumes "\<not> is_local_request rq" "origin_form (rq_target rq)" "serve_request sv rq (w, fs) = (r, (w', fs'))"
  shows "fs' = fs"
proof -
  have handle_kept: "files_kept (handle (sv_api sv) m (rq_target rq) body)"
    if "m = ''POST'' \<Longrightarrow> \<not> starts_with_any local_prefixes (rq_target rq)" for m body
    unfolding handle_def
  proof (rule frame.lift_bind, rule route_kept)
    fix u assume u: "urlparse (api_host_ok (sv_api sv)) (rq_target rq) = Inr u" "m = ''POST''"
    have no: "\<not> is_prefix_of ''/mcp'' (rq_target rq)" "\<not> is_prefix_of ''/diff-proposals'' (rq_target rq)"
      using that [OF u(2)] by (auto simp: starts_with_any_def local_prefixes_def)
    have "\<not> is_prefix_of ''/mcp'' (route_path (pu_path u))"
      using origin_form_route [OF assms(2) u(1), of "''/mcp''"] no(1) by auto
    moreover have "\<not> is_prefix_of ''/diff-proposals'' (route_path (pu_path u))"
      using origin_form_route [OF assms(2) u(1), of "''/diff-proposals''"] no(2) by auto
    ultimately show "route_path (pu_path u) \<noteq> ''/mcp'' \<and> \<not> is_prefix_of ''/diff-proposals/'' (route_path (pu_path u))"
      by (auto simp: is_prefix_iff)
  qed
  have "files_kept (do_get sv rq)" "files_kept (do_delete sv rq)"
    unfolding do_get_def do_delete_def sent_def
    by (intro frame.answer_intros on_files_kept send_static_same handle_kept; simp)+
  moreover have "files_kept (do_post sv rq)"
  proof (cases "starts_with_any local_prefixes (rq_target rq)")
    case True
    with assms(1) show ?thesis by (simp add: do_post_def frame.ret)
  next
    case False
    then show ?thesis unfolding do_post_def sent_def
      by (simp, intro frame.answer_intros handle_kept) simp
  qed
  ultimately have "files_kept (serve_request sv rq)"
    by (cases "rq_method rq") (simp_all add: serve_request_def)
  from sameD [OF this assms(3)] show ?thesis by simp
qed

section \<open>The guard of the local routes\<close>

definition plain_host :: "pystr \<Rightarrow> bool" where
  "plain_host h = list_all (\<lambda>c. \<not> netloc_end c \<and> c \<notin> {CHR ''['', CHR '']''} \<and> \<not> py_isspace c) h"

lemma takeWhile_host: "plain_host h \<Longrightarrow> is_prefix_of ''/'' t \<Longrightarrow> takeWhile (\<lambda>c. \<not> netloc_end c) (h @ t) = h"
  by (induction h) (auto simp: plain_host_def netloc_end_def is_prefix_iff)

lemma urlparse_absolute:
  assumes "origin_form t" "plain_host h"
  shows "urlparse host_ok (''http://'' @ h @ t) = urlparse host_ok t"
proof -
  let ?u = "''http://'' @ h @ t"
  have "list_all (\<lambda>c. \<not> py_isspace c) (h @ t)"
    using assms by (auto simp: origin_form_def plain_host_def list_all_iff)
  then have clean: "clean_url ?u = ?u" by (intro clean_url_id) (simp_all add: py_isspace_def)
  have split: "split_scheme ?u = (''http'', ''//'' @ h @ t)"
    by (simp add: split_scheme_def ascii_alpha_def scheme_char_def py_lower_def py_lower_char_def)
  have host: "takeWhile (\<lambda>c. \<not> netloc_end c) (h @ t) = h"
    by (rule takeWhile_host) (use assms in \<open>simp_all add: origin_form_def\<close>)
  have "CHR ''['' \<notin> set h" "CHR '']'' \<notin> set h" using assms(2) by (auto simp: plain_host_def list_all_iff)
  then have "urlparse host_ok ?u = Inr (url_of_parts ''http'' t)"
    unfolding urlparse_def clean split by (simp add: host check_netloc_def)
  moreover have "url_of_parts ''http'' t = url_of_parts [] t" by (simp add: url_of_parts_def uses_params_def)
  ultimately show ?thesis by (simp add: urlparse_origin [OF assms(1)])
qed

lemma same_body:
  "rq_length r1 = rq_length r2 \<Longrightarrow> rq_input r1 = rq_input r2 \<Longrightarrow> read_json_body env r1 = read_json_body env r2"
  by (simp only: read_json_body_def)

text \<open>
  The check that a route is called from the same machine looks at the target as it is sent, the
  routing at the path in it. A request with an absolute target, which \<open>http.server\<close> passes on,
  is therefore handled for any client as the same request from the machine itself.
\<close>

theorem absolute_target_passes_guard:
  assumes "origin_form t" "plain_host h"
  shows "do_post sv (rq\<lparr>rq_target := ''http://'' @ h @ t\<rparr>) = do_post sv (rq\<lparr>rq_target := t, rq_host := ''127.0.0.1''\<rparr>)"
proof -
  let ?far = "rq\<lparr>rq_target := ''http://'' @ h @ t\<rparr>" and ?near = "rq\<lparr>rq_target := t, rq_host := ''127.0.0.1''\<rparr>"
  have "\<not> starts_with_any local_prefixes (rq_target ?far)"
    by (simp add: starts_with_any_def local_prefixes_def)
  moreover have "is_local_request ?near" by (simp add: is_local_request_def)
  moreover have "read_json_body env ?far = read_json_body env ?near" for env
    by (rule same_body) simp_all
  moreover have "handle env m (rq_target ?far) b = handle env m (rq_target ?near) b" for env m b
    using urlparse_absolute [OF assms, of "api_host_ok env"] unfolding handle_def http_request.simps by simp
  ultimately show ?thesis by (simp only: do_post_def simp_thms if_False)
qed

section \<open>Instances\<close>

definition demo_api :: api_env where
  "demo_api =
     \<lparr>api_mcp = demo_env, api_configured = True, api_root = [''e''], api_run_names = (\<lambda>_. []),
      api_host_ok = (\<lambda>_. True), api_decode = (\<lambda>b. b), api_mean = (\<lambda>_. ''0.0''),
      api_int_of_float = (\<lambda>_. Inr 0), api_manifest = (\<lambda>_. None), api_heartbeat = (\<lambda>_ _. None),
      api_acquire = (\<lambda>_. None), api_renew = (\<lambda>_. None), api_release = (\<lambda>_. None), api_check = (\<lambda>_. None),
      api_work_item = (\<lambda>_ _ _. None), api_approval = (\<lambda>_. None), api_event = (\<lambda>_. None), api_intent = (\<lambda>_ _. None),
      api_decision = (\<lambda>_. Inr (denied [] True)), api_evidence = (\<lambda>_. Inl (ValidationError []))\<rparr>"

definition demo_server :: server where
  "demo_server = \<lparr>sv_api = demo_api, sv_ui_root = Some [''ui''], sv_guess_type = (\<lambda>_. Some ''text/html'')\<rparr>"

definition demo_http :: "http_method \<Rightarrow> pystr \<Rightarrow> pystr \<Rightarrow> http_request" where
  "demo_http m target host = \<lparr>rq_method = m, rq_target = target, rq_host = host, rq_length = None, rq_input = []\<rparr>"

definition demo_ui :: filesystem where
  "demo_ui = [[] \<mapsto> Directory, [''ui''] \<mapsto> Directory, [''ui'', ''index.html''] \<mapsto> File ''page'', [''p''] \<mapsto> File ''private'']"

theorem http_requests_preserve_witness:
  "store_ok (fst (after_requests demo_server [demo_http Delete_Request ''/clients/c1'' ''10.0.0.1''] (demo, demo_ui)))"
  using http_requests_preserve [of "(demo, demo_ui)"] demo_ok by simp

lemma demo_static:
  "fst (send_static demo_server [''ui''] ''/'' demo_ui) = Inr (Some (Sent_File ''text/html; charset=utf-8'' ''page''))"
  by code_simp

lemma demo_page:
  "\<exists>s'. serve_request demo_server (demo_http Get_Request ''/'' ''10.0.0.1'') (demo, demo_ui) =
     (Inr (Sent_File ''text/html; charset=utf-8'' ''page''), s')"
proof -
  have sv: "sv_ui_root demo_server = Some [''ui'']" by (simp add: demo_server_def)
  obtain fs' where run: "send_static demo_server [''ui''] ''/'' demo_ui =
      (Inr (Some (Sent_File ''text/html; charset=utf-8'' ''page'')), fs')"
    using demo_static by (metis prod.collapse)
  show ?thesis
    by (simp add: serve_request_def demo_http_def do_get_def on_files_def andthen_def ret_def run sv)
qed

theorem static_files_confined_witness:
  "\<exists>root p. sv_ui_root demo_server = Some root \<and> is_relative_to p root \<and> demo_ui p = Some (File ''page'')"
  using demo_page static_files_confined by metis

theorem remote_requests_keep_files_witness:
  "snd (snd (serve_request demo_server (demo_http Post_Request ''/diff-proposals/p/apply'' ''10.0.0.1'') (demo, demo_ui))) = demo_ui"
proof -
  let ?rq = "demo_http Post_Request ''/diff-proposals/p/apply'' ''10.0.0.1''"
  obtain r w' fs' where run: "serve_request demo_server ?rq (demo, demo_ui) = (r, (w', fs'))" by (metis prod.exhaust)
  have "\<not> is_local_request ?rq" "origin_form (rq_target ?rq)"
    by (simp_all add: demo_http_def is_local_request_def origin_form_def py_isspace_def)
  from remote_requests_keep_files [OF this run] show ?thesis by (simp add: run)
qed

theorem absolute_target_passes_guard_witness:
  "do_post demo_server (demo_http Post_Request ''http://host:80/mcp'' ''10.0.0.1'') =
     do_post demo_server (demo_http Post_Request ''/mcp'' ''127.0.0.1'')"
proof -
  have "origin_form ''/mcp''" "plain_host ''host:80''"
    by (simp_all add: origin_form_def plain_host_def py_isspace_def netloc_end_def)
  from absolute_target_passes_guard [OF this, of demo_server "demo_http Post_Request [] ''10.0.0.1''"]
  show ?thesis by (simp add: demo_http_def)
qed

end
