(* ===== verification/User_Interface.thy ===== *)
theory User_Interface
  imports Dashboard File_Copies
begin

text \<open>
  The server side of the user interface: the HTML fragments of \<open>vad/ui/render.py\<close> as functions from
  the values of a payload to text, and \<open>vad/ui/build.py\<close>, which copies and checks the static files. A
  fragment that reads a value of the wrong shape raises as Python does. The last section reads the
  markup back and shows that no payload can introduce a tag.
\<close>

section \<open>Texts and rows\<close>

text \<open>\<open>html.escape\<close> with its default of escaping quotes.\<close>

definition html_char :: "char \<Rightarrow> pystr" where
  "html_char c =
     (if c = CHR ''&'' then ''&amp;'' else if c = CHR ''<'' then ''&lt;'' else if c = CHR ''>'' then ''&gt;''
      else if c = CHR 0x22 then ''&quot;'' else if c = CHR 0x27 then ''&#x27;'' else [c])"

definition html_escape :: "pystr \<Rightarrow> pystr" where
  "html_escape s = concat (map html_char s)"

definition shown :: "json \<Rightarrow> pystr" where
  "shown v = html_escape (py_str v)"

text \<open>\<open>html.escape(str(row.get(key, other)))\<close>, and the variants with \<open>or\<close>.\<close>

definition field :: "pystr \<Rightarrow> pystr \<Rightarrow> row \<Rightarrow> pystr" where
  "field key other r = shown (get_else key (J_Str other) r)"

definition field_or :: "pystr \<Rightarrow> pystr \<Rightarrow> row \<Rightarrow> pystr" where
  "field_or key other r = shown (json_or (get_or_null key r) (J_Str other))"

definition either_or :: "pystr \<Rightarrow> pystr \<Rightarrow> pystr \<Rightarrow> row \<Rightarrow> pystr" where
  "either_or a b other r = shown (json_or (either a b r) (J_Str other))"

text \<open>\<open>v.get\<close> needs a dict; a loop takes a list, the keys of a dict or the characters of a text.\<close>

fun as_dict :: "json \<Rightarrow> exn + row" where
  "as_dict (J_Dict d) = Inr d"
| "as_dict v = Inl (AttributeError ''object has no such attribute'')"

fun items_of :: "json \<Rightarrow> exn + json list" where
  "items_of (J_List xs) = Inr xs"
| "items_of (J_Dict kvs) = Inr (map (\<lambda>kv. J_Str (fst kv)) kvs)"
| "items_of (J_Str s) = Inr (map (\<lambda>c. J_Str [c]) s)"
| "items_of v = Inl (TypeError ''object is not iterable'')"

definition then_of :: "exn + 'a \<Rightarrow> ('a \<Rightarrow> exn + 'b) \<Rightarrow> exn + 'b" where
  "then_of m f = (case m of Inl e \<Rightarrow> Inl e | Inr x \<Rightarrow> f x)"

definition each_row :: "(row \<Rightarrow> exn + 'a) \<Rightarrow> json list \<Rightarrow> exn + 'a list" where
  "each_row f = parse_all (\<lambda>v. then_of (as_dict v) f)"

definition empty_note :: "pystr \<Rightarrow> pystr" where
  "empty_note note = ''<p class=\"empty\">'' @ note @ ''</p>''"

text \<open>\<open>if not rows: return note\<close>, then one text per row, and a wrapper around them.\<close>

definition render_rows :: "pystr \<Rightarrow> (row \<Rightarrow> exn + pystr) \<Rightarrow> (pystr list \<Rightarrow> pystr) \<Rightarrow> json \<Rightarrow> exn + pystr" where
  "render_rows note one wrap v =
     (if \<not> json_truthy v then Inr (empty_note note)
      else then_of (items_of v) (\<lambda>xs. then_of (each_row one xs) (\<lambda>ss. Inr (wrap ss))))"

definition in_div :: "pystr \<Rightarrow> pystr list \<Rightarrow> pystr" where
  "in_div name ss = ''<div class=\"'' @ name @ ''\">'' @ concat ss @ ''</div>''"

definition newlines :: "pystr list \<Rightarrow> pystr" where
  "newlines = py_join [CHR 0x0A]"

section \<open>Runs, evidence and approvals\<close>

definition run_row :: "row \<Rightarrow> pystr" where
  "run_row r =
     (let run_id = field ''run_id'' '''' r in
      ''<button class=\"run-row\" data-run-id=\"'' @ run_id @ ''\">'' @ ''<span>'' @ run_id @ ''</span><strong>''
      @ field ''final_decision'' ''unknown'' r @ ''</strong><code>''
      @ html_escape (take 12 (py_str (get_else ''evidence_digest'' (J_Str []) r))) @ ''</code></button>'')"

definition render_run_list :: "json \<Rightarrow> exn + pystr" where
  "render_run_list = render_rows ''No runs recorded.'' (\<lambda>r. Inr (run_row r)) newlines"

definition evidence_detail :: "row \<Rightarrow> row \<Rightarrow> row \<Rightarrow> pystr" where
  "evidence_detail payload evidence agents =
     ''<h2>'' @ shown (get_else ''run_id'' (get_else ''run_id'' (J_Str []) evidence) payload) @ ''</h2>''
     @ ''<dl class=\"evidence-grid\">''
     @ ''<dt>Decision</dt><dd>'' @ field ''final_decision'' ''unknown'' evidence @ ''</dd>''
     @ ''<dt>Builder</dt><dd>'' @ field ''builder'' '''' agents @ ''</dd>''
     @ ''<dt>Verifier</dt><dd>'' @ field ''verifier'' '''' agents @ ''</dd>''
     @ ''<dt>Digest</dt><dd><code>'' @ field ''evidence_digest'' '''' payload @ ''</code></dd>''
     @ ''</dl>''"

definition render_evidence_detail :: "row \<Rightarrow> exn + pystr" where
  "render_evidence_detail payload =
     then_of (as_dict (get_else ''evidence'' (J_Dict []) payload)) (\<lambda>evidence.
     then_of (as_dict (get_else ''agents'' (J_Dict []) evidence)) (\<lambda>agents.
     Inr (evidence_detail payload evidence agents)))"

definition approval_fragment :: "bool \<Rightarrow> json list \<Rightarrow> pystr" where
  "approval_fragment granted why =
     ''<section class=\"approval-result '' @ (if granted then ''allowed'' else ''denied'') @ ''\"><h3>''
     @ (if granted then ''Approved'' else ''Denied'') @ ''</h3><ul>''
     @ concat (map (\<lambda>reason. ''<li>'' @ shown reason @ ''</li>'') why) @ ''</ul></section>''"

definition render_approval_result :: "row \<Rightarrow> exn + pystr" where
  "render_approval_result payload =
     then_of (as_dict (get_else ''approval'' (J_Dict []) payload)) (\<lambda>approval.
     then_of (as_dict (get_else ''decision'' (get_else ''decision'' (J_Dict []) payload) approval)) (\<lambda>decision.
     then_of (items_of (json_or (either ''reasons'' ''denials'' decision) (J_List []))) (\<lambda>why.
     Inr (approval_fragment (json_truthy (get_else ''allow'' (J_Bool False) decision)) why))))"

section \<open>Task board\<close>

definition task_card :: "pystr \<Rightarrow> row \<Rightarrow> pystr" where
  "task_card status r =
     ''<article class=\"task-card '' @ html_escape status @ ''\" data-task-status=\"'' @ html_escape status @ ''\">''
     @ ''<strong>'' @ field ''task_id'' ''task'' r @ ''</strong>''
     @ ''<span>'' @ field ''summary'' '''' r @ ''</span>''
     @ ''<code>'' @ field ''kind'' ''task'' r @ '' / '' @ field ''status'' status r @ ''</code>''
     @ ''<small>Owner ''
     @ shown (json_or (json_or (json_or (get_or_null ''lease_owner'' r) (get_or_null ''client'' r))
                (get_or_null ''client_id'' r)) (J_Str ''unassigned''))
     @ '' / Expires '' @ field_or ''lease_expires_at'' ''no expiry'' r @ ''</small>''
     @ ''</article>''"

definition task_column :: "row \<Rightarrow> pystr \<Rightarrow> exn + pystr" where
  "task_column columns status =
     then_of (render_rows ''No tasks.'' (\<lambda>r. Inr (task_card status r)) concat
                (get_else status (J_List []) columns)) (\<lambda>body.
     Inr (''<section class=\"task-column '' @ html_escape status @ ''\"><h3>'' @ html_escape status @ ''</h3>''
          @ body @ ''</section>''))"

definition render_task_board :: "json \<Rightarrow> exn + pystr" where
  "render_task_board columns =
     then_of (as_dict columns) (\<lambda>d.
     then_of (parse_all (task_column d) board_states) (\<lambda>cs. Inr (in_div ''task-board-grid'' cs)))"

section \<open>Proofs and terminal rows\<close>

definition recovery_link :: "row \<Rightarrow> pystr" where
  "recovery_link r =
     (let recovery = get_or_null ''recovery_evidence_url'' r in
      if json_truthy recovery then ''<a href=\"'' @ shown recovery @ ''\">Recovery evidence</a>'' else [])"

definition proof_row :: "row \<Rightarrow> pystr" where
  "proof_row r =
     (let status = field ''status'' '''' r in
      ''<article class=\"proof-row '' @ status @ ''\" data-proof-status=\"'' @ status @ ''\">''
      @ ''<strong>'' @ field ''task_id'' ''proof'' r @ ''</strong>''
      @ ''<span>'' @ field ''summary'' '''' r @ ''</span>''
      @ ''<code>'' @ status @ '' / '' @ field ''client'' '''' r @ ''</code>''
      @ ''<small>Started '' @ field_or ''started_at'' ''unknown'' r @ '' / Finished '' @ field_or ''finished_at'' ''pending'' r
      @ ''</small>'' @ recovery_link r @ ''</article>'')"

definition render_proof_status :: "json \<Rightarrow> exn + pystr" where
  "render_proof_status =
     render_rows ''No proof events recorded.'' (\<lambda>r. Inr (proof_row r)) (in_div ''proof-status-list'')"

definition terminal_line :: "row \<Rightarrow> pystr" where
  "terminal_line r =
     (let status = field ''status'' '''' r; kind = field ''kind'' '''' r in
      ''<article class=\"terminal-row '' @ status @ ''\" data-terminal-kind=\"'' @ kind @ ''\">''
      @ ''<code>'' @ kind @ '' / '' @ status @ ''</code>''
      @ ''<span>'' @ field ''summary'' '''' r @ ''</span>''
      @ ''<small>'' @ field_or ''created_at'' '''' r @ '' / '' @ field_or ''client'' '''' r @ '' / '' @ field_or ''role'' '''' r
      @ ''</small>'' @ ''</article>'')"

definition render_terminal_status :: "json \<Rightarrow> exn + pystr" where
  "render_terminal_status =
     render_rows ''No terminal status recorded.'' (\<lambda>r. Inr (terminal_line r)) (in_div ''terminal-list'')"

section \<open>Timeline and activity\<close>

record timeline_filter =
  tf_run_id :: "pystr option"
  tf_client :: "pystr option"
  tf_status :: "pystr option"
  tf_kind :: "pystr option"
  tf_role :: "pystr option"

definition no_filter :: timeline_filter where
  "no_filter = \<lparr>tf_run_id = None, tf_client = None, tf_status = None, tf_kind = None, tf_role = None\<rparr>"

definition has_text :: "pystr \<Rightarrow> row \<Rightarrow> pystr \<Rightarrow> bool" where
  "has_text key r s = (get_or_null key r = J_Str s)"

definition row_passes :: "timeline_filter \<Rightarrow> row \<Rightarrow> bool" where
  "row_passes f r =
     (opt_all (has_text ''run_id'' r) (tf_run_id f)
      \<and> opt_all (\<lambda>s. has_text ''client'' r s \<or> has_text ''client_id'' r s) (tf_client f)
      \<and> opt_all (has_text ''status'' r) (tf_status f)
      \<and> opt_all (has_text ''kind'' r) (tf_kind f)
      \<and> opt_all (has_text ''role'' r) (tf_role f))"

text \<open>Without a filter no event is looked at.\<close>

definition event_passes :: "timeline_filter \<Rightarrow> json \<Rightarrow> exn + bool" where
  "event_passes f v =
     (if f = no_filter then Inr True else then_of (as_dict v) (\<lambda>r. Inr (row_passes f r)))"

definition select :: "(json \<Rightarrow> exn + bool) \<Rightarrow> json list \<Rightarrow> exn + json list" where
  "select p xs =
     then_of (parse_all (\<lambda>v. then_of (p v) (\<lambda>b. Inr (b, v))) xs) (\<lambda>ys. Inr (map snd (filter fst ys)))"

definition timeline_row :: "row \<Rightarrow> pystr" where
  "timeline_row r =
     (let kind = field ''kind'' '''' r; status = field ''status'' '''' r in
      ''<article class=\"timeline-row '' @ kind @ '' '' @ status @ ''\" data-event-kind=\"'' @ kind
      @ ''\" data-event-status=\"'' @ status @ ''\">'' @ ''<div>''
      @ ''<strong>'' @ field ''summary'' '''' r @ ''</strong>''
      @ ''<span>'' @ either_or ''created_at'' ''updated_at'' '''' r @ ''</span>'' @ ''</div>''
      @ ''<code>'' @ kind @ '' / '' @ status @ ''</code>''
      @ ''<small>'' @ field_or ''run_id'' ''no-run'' r @ '' / '' @ either_or ''client'' ''client_id'' '''' r @ '' / ''
      @ field_or ''role'' '''' r @ ''</small>'' @ ''</article>'')"

definition render_event_timeline :: "timeline_filter \<Rightarrow> json \<Rightarrow> exn + pystr" where
  "render_event_timeline f events =
     then_of (items_of events) (\<lambda>xs.
     then_of (select (event_passes f) xs) (\<lambda>ys.
     render_rows ''No events match the current filters.'' (\<lambda>r. Inr (timeline_row r)) (in_div ''timeline-list'')
       (J_List ys)))"

definition activity_line :: "row \<Rightarrow> pystr" where
  "activity_line r =
     ''<article class=\"activity-row\">''
     @ ''<strong>'' @ field ''summary'' '''' r @ ''</strong>''
     @ ''<span>'' @ field ''client'' '''' r @ [CHR '' '', CHR 0xB7, CHR '' ''] @ field ''actor'' '''' r
     @ [CHR '' '', CHR 0xB7, CHR '' ''] @ field ''role'' '''' r @ ''</span>''
     @ ''<code>'' @ field ''kind'' '''' r @ '' / '' @ field ''status'' '''' r @ ''</code>'' @ ''</article>''"

definition render_activity_stream :: "json \<Rightarrow> exn + pystr" where
  "render_activity_stream = render_rows ''No activity recorded.'' (\<lambda>r. Inr (activity_line r)) newlines"

definition render_kind_view :: "json \<Rightarrow> pystr \<Rightarrow> exn + pystr" where
  "render_kind_view activity kind =
     then_of (items_of activity) (\<lambda>xs.
     then_of (select (\<lambda>v. then_of (as_dict v) (\<lambda>r. Inr (has_text ''kind'' r kind))) xs) (\<lambda>ys.
     render_activity_stream (J_List ys)))"

text \<open>\<open>item.get("status") in {...}\<close>: a list or a dict has no hash.\<close>

fun is_open_status :: "json \<Rightarrow> exn + bool" where
  "is_open_status (J_List _) = Inl (TypeError ''unhashable type: list'')"
| "is_open_status (J_Dict _) = Inl (TypeError ''unhashable type: dict'')"
| "is_open_status v = Inr (v \<in> {J_Str ''active'', J_Str ''blocked'', J_Str ''needs_human''})"

definition work_line :: "row \<Rightarrow> pystr" where
  "work_line r =
     ''<li><strong>''
     @ shown (json_or (get_or_null ''task_id'' r) (get_else ''activity_id'' (J_Str []) r)) @ ''</strong><span>''
     @ field ''summary'' '''' r @ ''</span><code>'' @ field ''status'' '''' r @ ''</code></li>''"

definition render_work_items :: "json \<Rightarrow> exn + pystr" where
  "render_work_items activity =
     then_of (items_of activity) (\<lambda>xs.
     then_of (select (\<lambda>v. then_of (as_dict v) (\<lambda>r. is_open_status (get_or_null ''status'' r))) xs) (\<lambda>ys.
     render_rows ''No open work items.'' (\<lambda>r. Inr (work_line r))
       (\<lambda>ss. ''<ul class=\"work-items\">'' @ concat ss @ ''</ul>'') (J_List ys)))"

section \<open>Clients, plug-ins and counts\<close>

definition client_card :: "row \<Rightarrow> pystr \<Rightarrow> pystr" where
  "client_card r capabilities =
     (let status = field ''status'' ''disconnected'' r; age = get_or_null ''heartbeat_age_seconds'' r in
      ''<article class=\"client-row '' @ status @ ''\" data-client-status=\"'' @ status @ ''\">'' @ ''<div>''
      @ ''<strong>'' @ shown (json_or (get_or_null ''display_name'' r) (get_else ''client_id'' (J_Str []) r)) @ ''</strong>''
      @ ''<span>'' @ field ''client_type'' '''' r @ '' / '' @ field ''connection_mode'' '''' r @ ''</span>'' @ ''</div>''
      @ ''<code>'' @ status @ ''</code>''
      @ ''<span>'' @ html_escape (if age = J_Null then ''no heartbeat'' else py_str age @ ''s ago'') @ ''</span>''
      @ ''<small>'' @ html_escape capabilities @ ''</small>'' @ ''</article>'')"

definition client_row :: "row \<Rightarrow> exn + pystr" where
  "client_row r =
     then_of (items_of (get_else ''supported_capabilities'' (J_List []) r)) (\<lambda>cs.
     let joined = py_join '', '' (map py_str cs) in
     Inr (client_card r (if joined = [] then ''no capabilities'' else joined)))"

definition render_active_clients :: "json \<Rightarrow> exn + pystr" where
  "render_active_clients = render_rows ''No clients registered.'' client_row (in_div ''client-grid'')"

definition plugin_card :: "row \<Rightarrow> pystr" where
  "plugin_card r =
     (let status = field ''status'' '''' r; action = get_or_null ''action_required'' r in
      ''<article class=\"plugin-status-row '' @ status @ ''\">''
      @ ''<strong>'' @ field ''plugin_id'' '''' r @ ''</strong>''
      @ ''<span>'' @ field ''target_client'' '''' r @ '' / local ''
      @ shown (json_or (get_or_null ''local_version'' r) (get_else ''version'' (J_Str []) r)) @ ''</span>''
      @ ''<code>'' @ status @ ''</code>''
      @ ''<small>Publication '' @ field ''publication_readiness'' ''needs_review'' r @ ''</small>''
      @ ''<p>'' @ field ''summary'' '''' r @ ''</p>''
      @ (if json_truthy action then ''<small>'' @ shown action @ ''</small>'' else []) @ ''</article>'')"

definition render_plugin_status :: "json \<Rightarrow> exn + pystr" where
  "render_plugin_status =
     render_rows ''No plugin status reported.'' (\<lambda>r. Inr (plugin_card r)) (in_div ''plugin-status-grid'')"

definition count_cell :: "pystr \<times> json \<Rightarrow> pystr" where
  "count_cell kv = ''<span><strong>'' @ shown (snd kv) @ ''</strong>'' @ html_escape (fst kv) @ ''</span>''"

definition summary_cards :: "pystr \<Rightarrow> json \<Rightarrow> exn + pystr" where
  "summary_cards title counts =
     then_of (as_dict counts) (\<lambda>d.
     let cells = (if d = [] then ''<span><strong>0</strong>none</span>'' else concat (map count_cell (sort_key fst d)))
     in Inr (''<div class=\"summary-card\"><h2>'' @ html_escape title @ ''</h2>'' @ cells @ ''</div>''))"

section \<open>The dashboard\<close>

definition dashboard_page ::
    "pystr \<Rightarrow> pystr \<Rightarrow> pystr \<Rightarrow> pystr \<Rightarrow> pystr \<Rightarrow> pystr \<Rightarrow> pystr \<Rightarrow> pystr \<Rightarrow> pystr \<Rightarrow> pystr \<Rightarrow> pystr" where
  "dashboard_page status clients active_clients task_board proofs terminal timeline activity work_items plugins =
     ''<section class=\"dashboard-summary\">'' @ status @ clients @ ''</section>''
     @ ''<section><h2>Active Clients</h2>'' @ active_clients @ ''</section>''
     @ ''<section><h2>Task Board</h2>'' @ task_board @ ''</section>''
     @ ''<section class=\"dashboard-grid\"><div><h2>Proofs</h2>'' @ proofs @ ''</div><div><h2>Terminal</h2>'' @ terminal
     @ ''</div></section>''
     @ ''<section><h2>Event Timeline</h2>'' @ timeline @ ''</section>''
     @ ''<section class=\"dashboard-grid\">''
     @ ''<div><h2>Activity</h2>'' @ activity @ ''</div>''
     @ ''<div><h2>Work Items</h2>'' @ work_items @ ''</div>''
     @ ''</section>''
     @ ''<section><h2>Plugins</h2>'' @ plugins @ ''</section>''"

definition render_dashboard :: "row \<Rightarrow> exn + pystr" where
  "render_dashboard payload =
     (let listed = (\<lambda>key. get_else key (J_List []) payload); counted = (\<lambda>key. get_else key (J_Dict []) payload) in
      then_of (summary_cards ''Status'' (counted ''status_counts'')) (\<lambda>status.
      then_of (summary_cards ''Clients'' (counted ''client_counts'')) (\<lambda>clients.
      then_of (render_active_clients (listed ''active_clients'')) (\<lambda>active_clients.
      then_of (render_task_board (counted ''task_board_columns'')) (\<lambda>task_board.
      then_of (render_proof_status (listed ''proof_status'')) (\<lambda>proofs.
      then_of (render_terminal_status (listed ''terminal_status'')) (\<lambda>terminal.
      then_of (render_event_timeline no_filter (get_else ''event_timeline'' (listed ''activity'') payload)) (\<lambda>timeline.
      then_of (render_activity_stream (listed ''activity'')) (\<lambda>activity.
      then_of (render_work_items (listed ''activity'')) (\<lambda>work_items.
      then_of (render_plugin_status (listed ''plugin_status'')) (\<lambda>plugins.
      Inr (dashboard_page status clients active_clients task_board proofs terminal timeline activity work_items plugins))))))))))))"

section \<open>Building the static files\<close>

definition required_files :: "pystr list" where
  "required_files = [''index.html'', ''styles.css'', ''app.js'']"

definition required_mounts :: "pystr list" where
  "required_mounts = [''run-list'', ''evidence-detail'', ''approval-panel'']"

definition check_asset :: "path \<Rightarrow> pystr \<Rightarrow> pystr \<Rightarrow> unit io" where
  "check_asset out index name =
     (if \<not> contains name index then throw (ValueError (''index.html does not reference '' @ name))
      else andthen (reads (\<lambda>fs. is_file fs (out @ [name]))) (\<lambda>there.
           if there then ret () else throw (FileNotFoundError name)))"

definition check_mount :: "pystr \<Rightarrow> pystr \<Rightarrow> unit io" where
  "check_mount index mount =
     (if contains (''id=\"'' @ mount @ ''\"'') index then ret ()
      else throw (ValueError (''index.html is missing '' @ mount)))"

definition validate_build :: "path \<Rightarrow> unit io" where
  "validate_build out =
     andthen (read_text (out @ [''index.html''])) (\<lambda>index.
     andthen (each_proc (check_asset out index) [''styles.css'', ''app.js'']) (\<lambda>_.
     andthen (each_proc (check_mount index) required_mounts) (\<lambda>_. ret ())))"

definition build_ui :: "path \<Rightarrow> path \<Rightarrow> path list io" where
  "build_ui static_root out =
     andthen (reads (\<lambda>fs. filter (\<lambda>name. \<not> is_file fs (static_root @ [name])) required_files)) (\<lambda>absent.
     if absent \<noteq> [] then throw (FileNotFoundError (''missing UI assets: '' @ py_join '', '' absent))
     else andthen (make_dirs out) (\<lambda>_.
          andthen (each_proc (\<lambda>name. andthen (copy_file (static_root @ [name]) (out @ [name])) (\<lambda>_.
                     ret (out @ [name]))) required_files) (\<lambda>copied.
          andthen (validate_build out) (\<lambda>_. ret copied))))"

section \<open>Reading the markup back\<close>

text \<open>
  The tags of a text as a browser separates them: a tag runs from \<open><\<close> to \<open>>\<close>, and between quotes
  neither counts. The contents of attribute values are left out, so that the tags of the templates
  are finitely many: these.
\<close>

datatype html_state = Outside | In_Tag pystr | In_Value pystr

definition template_tags :: "pystr list" where
  "template_tags =
     [''p class=\"\"'', ''/p'', ''button class=\"\" data-run-id=\"\"'', ''/button'', ''span'', ''/span'', ''strong'', ''/strong'',
      ''code'', ''/code'', ''h2'', ''/h2'', ''h3'', ''/h3'', ''dl class=\"\"'', ''/dl'', ''dt'', ''/dt'', ''dd'', ''/dd'',
      ''section'', ''section class=\"\"'', ''/section'', ''ul'', ''ul class=\"\"'', ''/ul'', ''li'', ''/li'', ''div'', ''div class=\"\"'',
      ''/div'', ''small'', ''/small'', ''p'', ''a href=\"\"'', ''/a'', ''article class=\"\"'', ''/article'',
      ''article class=\"\" data-task-status=\"\"'', ''article class=\"\" data-proof-status=\"\"'',
      ''article class=\"\" data-terminal-kind=\"\"'', ''article class=\"\" data-event-kind=\"\" data-event-status=\"\"'',
      ''article class=\"\" data-client-status=\"\"'']"

fun markup :: "html_state \<Rightarrow> pystr \<Rightarrow> html_state option" where
  "markup st [] = Some st"
| "markup Outside (c # s) = markup (if c = CHR ''<'' then In_Tag [] else Outside) s"
| "markup (In_Tag t) (c # s) =
     (if c = CHR ''>'' then (if rev t \<in> set template_tags then markup Outside s else None)
      else markup (if c = CHR 0x22 then In_Value (c # t) else In_Tag (c # t)) s)"
| "markup (In_Value t) (c # s) = markup (if c = CHR 0x22 then In_Tag (c # t) else In_Value t) s"

text \<open>Every tag is one of the templates', and the text ends outside of any tag.\<close>

definition only_template_tags :: "pystr \<Rightarrow> bool" where
  "only_template_tags s = (markup Outside s = Some Outside)"

lemma markup_append: "markup st (a @ b) = Option.bind (markup st a) (\<lambda>st. markup st b)"
  by (induction st a rule: markup.induct) auto

lemma markup_html_char: "markup Outside (html_char c) = Some Outside" "markup (In_Value t) (html_char c) = Some (In_Value t)"
  by (simp_all add: html_char_def)

lemma markup_escape [simp]:
  "markup Outside (html_escape s) = Some Outside" "markup (In_Value t) (html_escape s) = Some (In_Value t)"
  by (induction s) (simp_all add: html_escape_def markup_append markup_html_char)

lemma markup_shown [simp]:
  "markup Outside (shown v) = Some Outside" "markup (In_Value t) (shown v) = Some (In_Value t)"
  by (simp_all add: shown_def)

lemma markup_field [simp]:
  "markup Outside (field k d r) = Some Outside" "markup (In_Value t) (field k d r) = Some (In_Value t)"
  "markup Outside (field_or k d r) = Some Outside" "markup Outside (either_or a b d r) = Some Outside"
  by (simp_all add: field_def field_or_def either_or_def)

lemma only_template_tagsD [simp]: "only_template_tags s \<Longrightarrow> markup Outside s = Some Outside"
  by (simp add: only_template_tags_def)

lemma then_of_Inr: "then_of m f = Inr y \<longleftrightarrow> (\<exists>x. m = Inr x \<and> f x = Inr y)"
  by (auto simp: then_of_def split: sum.splits)

lemma tags_concat: "list_all only_template_tags ss \<Longrightarrow> markup Outside (concat ss) = Some Outside"
  by (induction ss) (simp_all add: markup_append)

lemma tags_newlines: "list_all only_template_tags ss \<Longrightarrow> only_template_tags (newlines ss)"
proof -
  have "markup Outside (py_join sep ss) = Some Outside"
    if "list_all only_template_tags ss" "markup Outside sep = Some Outside" for sep
    using that by (induction sep ss rule: py_join.induct) (simp_all add: markup_append)
  then show "list_all only_template_tags ss \<Longrightarrow> ?thesis" by (simp add: newlines_def only_template_tags_def)
qed

lemma parse_all_each:
  "parse_all f xs = Inr ys \<Longrightarrow> (\<And>x y. f x = Inr y \<Longrightarrow> P y) \<Longrightarrow> list_all P ys"
  by (induction xs arbitrary: ys) (auto split: sum.splits)

text \<open>Each template, with what it fills in left out.\<close>

named_theorems template_tag \<open>the templates have only the listed tags\<close>

lemma empty_note_tags [template_tag]: "markup Outside note = Some Outside \<Longrightarrow> only_template_tags (empty_note note)"
  by (simp add: only_template_tags_def empty_note_def markup_append) (simp add: template_tags_def)

lemma run_row_tags [template_tag]: "only_template_tags (run_row r)"
  by (simp add: only_template_tags_def run_row_def Let_def markup_append) (simp add: template_tags_def)

lemma evidence_detail_tags: "only_template_tags (evidence_detail p e a)"
  by (simp add: only_template_tags_def evidence_detail_def markup_append) (simp add: template_tags_def)

lemma reason_tags: "only_template_tags (''<li>'' @ shown v @ ''</li>'')"
  by (simp add: only_template_tags_def markup_append) (simp add: template_tags_def)

lemma approval_fragment_tags: "only_template_tags (approval_fragment granted why)"
proof -
  have "markup Outside (concat (map (\<lambda>v. ''<li>'' @ shown v @ ''</li>'') why)) = Some Outside"
    by (rule tags_concat) (simp only: list_all_iff set_map ball_simps reason_tags, simp)
  then show ?thesis
    by (simp add: only_template_tags_def approval_fragment_def markup_append) (simp add: template_tags_def)
qed

lemma task_card_tags [template_tag]: "only_template_tags (task_card s r)"
  by (simp add: only_template_tags_def task_card_def markup_append) (simp add: template_tags_def)

lemma recovery_link_tags [simp]: "markup Outside (recovery_link r) = Some Outside"
  by (simp add: recovery_link_def Let_def markup_append) (simp add: template_tags_def)

lemma proof_row_tags [template_tag]: "only_template_tags (proof_row r)"
  by (simp add: only_template_tags_def proof_row_def Let_def markup_append) (simp add: template_tags_def)

lemma terminal_line_tags [template_tag]: "only_template_tags (terminal_line r)"
  by (simp add: only_template_tags_def terminal_line_def Let_def markup_append) (simp add: template_tags_def)

lemma timeline_row_tags [template_tag]: "only_template_tags (timeline_row r)"
  by (simp add: only_template_tags_def timeline_row_def Let_def markup_append) (simp add: template_tags_def)

lemma activity_line_tags [template_tag]: "only_template_tags (activity_line r)"
  by (simp add: only_template_tags_def activity_line_def markup_append) (simp add: template_tags_def)

lemma work_line_tags [template_tag]: "only_template_tags (work_line r)"
  by (simp add: only_template_tags_def work_line_def markup_append) (simp add: template_tags_def)

lemma client_card_tags [template_tag]: "only_template_tags (client_card r c)"
  by (simp add: only_template_tags_def client_card_def Let_def markup_append) (simp add: template_tags_def)

lemma plugin_card_tags [template_tag]: "only_template_tags (plugin_card r)"
  by (simp add: only_template_tags_def plugin_card_def Let_def markup_append) (simp add: template_tags_def)

lemma count_cell_tags: "only_template_tags (count_cell kv)"
  by (simp add: only_template_tags_def count_cell_def markup_append) (simp add: template_tags_def)

lemma summary_cards_tags: "summary_cards title v = Inr s \<Longrightarrow> only_template_tags s"
proof -
  have "markup Outside (concat (map count_cell kvs)) = Some Outside" for kvs
    by (rule tags_concat) (simp add: list_all_iff count_cell_tags)
  then show "summary_cards title v = Inr s \<Longrightarrow> ?thesis"
    by (auto simp: only_template_tags_def summary_cards_def then_of_Inr Let_def markup_append)
      (simp_all add: template_tags_def)
qed

lemma in_div_tags: "list_all only_template_tags ss \<Longrightarrow> markup (In_Value ''\"=ssalc vid'') name = Some (In_Value ''\"=ssalc vid'')
    \<Longrightarrow> only_template_tags (in_div name ss)"
  by (simp add: only_template_tags_def in_div_def markup_append tags_concat) (simp add: template_tags_def)

text \<open>The loops.\<close>

lemma render_rows_tags:
  assumes "render_rows note one wrap v = Inr s" "markup Outside note = Some Outside"
    "\<And>r s. one r = Inr s \<Longrightarrow> only_template_tags s"
    "\<And>ss. list_all only_template_tags ss \<Longrightarrow> only_template_tags (wrap ss)"
  shows "only_template_tags s"
proof (cases "json_truthy v")
  case True
  with assms(1) obtain xs ss where ss: "each_row one xs = Inr ss" "s = wrap ss"
    by (auto simp: render_rows_def then_of_Inr)
  from ss(1) have "list_all only_template_tags ss"
    unfolding each_row_def by (rule parse_all_each) (auto simp: then_of_Inr assms(3))
  with ss(2) assms(4) show ?thesis by simp
next
  case False
  with assms(1,2) show ?thesis by (auto simp: render_rows_def empty_note_tags)
qed

lemma work_list_tags:
  "list_all only_template_tags ss \<Longrightarrow> only_template_tags (''<ul class=\"work-items\">'' @ concat ss @ ''</ul>'')"
  by (simp add: only_template_tags_def markup_append tags_concat) (simp add: template_tags_def)

lemma client_row_tags: "client_row r = Inr s \<Longrightarrow> only_template_tags s"
  by (auto simp: client_row_def then_of_Inr Let_def client_card_tags)

lemma fragments_tags:
  "render_run_list v = Inr s \<Longrightarrow> only_template_tags s"
  "render_proof_status v = Inr s \<Longrightarrow> only_template_tags s"
  "render_terminal_status v = Inr s \<Longrightarrow> only_template_tags s"
  "render_activity_stream v = Inr s \<Longrightarrow> only_template_tags s"
  "render_plugin_status v = Inr s \<Longrightarrow> only_template_tags s"
  "render_active_clients v = Inr s \<Longrightarrow> only_template_tags s"
  unfolding render_run_list_def render_proof_status_def render_terminal_status_def render_activity_stream_def
    render_plugin_status_def render_active_clients_def
  by (erule render_rows_tags; auto simp: template_tag tags_newlines in_div_tags client_row_tags)+

lemma event_timeline_tags: "render_event_timeline f v = Inr s \<Longrightarrow> only_template_tags s"
  unfolding render_event_timeline_def then_of_Inr
  by (elim exE conjE, erule render_rows_tags) (auto simp: template_tag in_div_tags)

lemma kind_view_tags: "render_kind_view v k = Inr s \<Longrightarrow> only_template_tags s"
  by (auto simp: render_kind_view_def then_of_Inr intro: fragments_tags)

lemma work_items_tags: "render_work_items v = Inr s \<Longrightarrow> only_template_tags s"
  unfolding render_work_items_def then_of_Inr
  by (elim exE conjE, erule render_rows_tags, simp, force simp: template_tag, rule work_list_tags)

lemma task_column_tags: "task_column d status = Inr s \<Longrightarrow> only_template_tags s"
proof -
  assume "task_column d status = Inr s"
  then obtain body where body: "render_rows ''No tasks.'' (\<lambda>r. Inr (task_card status r)) concat
      (get_else status (J_List []) d) = Inr body"
    and s: "s = ''<section class=\"task-column '' @ html_escape status @ ''\"><h3>'' @ html_escape status @ ''</h3>''
      @ body @ ''</section>''"
    by (auto simp: task_column_def then_of_Inr)
  have "only_template_tags body"
    using body by (rule render_rows_tags) (auto simp: template_tag tags_concat only_template_tags_def [of "concat _"])
  then show ?thesis
    unfolding s by (simp add: only_template_tags_def markup_append) (simp add: template_tags_def)
qed

lemma task_board_tags: "render_task_board v = Inr s \<Longrightarrow> only_template_tags s"
proof -
  assume "render_task_board v = Inr s"
  then obtain d cs where cs: "parse_all (task_column d) board_states = Inr cs" "s = in_div ''task-board-grid'' cs"
    by (auto simp: render_task_board_def then_of_Inr)
  from cs(1) have "list_all only_template_tags cs" by (rule parse_all_each) (rule task_column_tags)
  then show ?thesis unfolding cs(2) by (rule in_div_tags) simp
qed

lemma dashboard_page_tags:
  assumes "list_all only_template_tags [a, b, c, d, e, f, g, h, i, j]"
  shows "only_template_tags (dashboard_page a b c d e f g h i j)"
  using assms by (simp add: only_template_tags_def dashboard_page_def markup_append) (simp add: template_tags_def)

lemma dashboard_tags: "render_dashboard p = Inr s \<Longrightarrow> only_template_tags s"
  unfolding render_dashboard_def Let_def then_of_Inr
  by (elim exE conjE, drule summary_cards_tags, drule summary_cards_tags, drule fragments_tags, drule task_board_tags,
      drule fragments_tags, drule fragments_tags, drule event_timeline_tags, drule fragments_tags,
      drule work_items_tags, drule fragments_tags) (auto intro!: dashboard_page_tags)

text \<open>
  C38: no payload can add a tag to what the user interface renders. Whatever values the runs, the
  evidence, the approvals, the events and the other parts of a payload hold, every tag of a rendered
  fragment is one of the templates' tags with some attribute values, and the fragment ends outside of
  any tag.
\<close>

theorem rendered_tags_are_templates:
  assumes "Inr page \<in> {render_dashboard payload, render_run_list runs, render_evidence_detail payload,
      render_approval_result payload, render_event_timeline f events, render_kind_view events kind}"
  shows "only_template_tags page"
proof -
  have "render_evidence_detail payload = Inr page \<Longrightarrow> only_template_tags page"
    by (auto simp: render_evidence_detail_def then_of_Inr evidence_detail_tags)
  moreover have "render_approval_result payload = Inr page \<Longrightarrow> only_template_tags page"
    by (auto simp: render_approval_result_def then_of_Inr approval_fragment_tags)
  ultimately show ?thesis
    using assms dashboard_tags fragments_tags(1) event_timeline_tags kind_view_tags by (auto dest!: sym [of "Inr page"])
qed

definition demo_note :: pystr where
  "demo_note = ''<script>alert(\"x\")</script>''"

theorem rendered_tags_are_templates_witness:
  "\<exists>page. render_run_list (J_List [J_Dict [(''run_id'', J_Str demo_note)]]) = Inr page \<and> only_template_tags page"
proof -
  have "\<exists>page. render_run_list (J_List [J_Dict [(''run_id'', J_Str demo_note)]]) = Inr page"
    by (simp add: render_run_list_def render_rows_def then_of_def each_row_def)
  with rendered_tags_are_templates show ?thesis by (metis insertCI)
qed

end
