(* ===== verification/Plugin_Install.thy ===== *)
theory Plugin_Install
  imports Plugin_Inventory Signing Json_Text File_Copies
begin

text \<open>
  The plug-in manifest, its digest and signature, and the installer (\<open>vad/control_plane/plugins.py\<close>):
  the dry run that plans the configuration files, the audit of a plan, and applying, uninstalling and
  rolling back a plan on the file system. Paths are texts where the plan stores them; a relative one
  is resolved from the working directory.
\<close>

definition checked :: "pystr \<Rightarrow> ('a \<Rightarrow> bool) \<Rightarrow> 'a \<Rightarrow> exn + 'a" where
  "checked name valid x = (if valid x then Inr x else Inl (ValidationError name))"

section \<open>Manifests\<close>

definition secret_markers :: "pystr list" where
  "secret_markers = [''api_key'', ''token'', ''password'', ''secret'', ''private_key'', ''sk-'']"

definition looks_secret :: "pystr \<Rightarrow> bool" where
  "looks_secret s = list_ex (\<lambda>m. contains m (py_lower s)) secret_markers"

definition plugin_identifier :: "pystr \<Rightarrow> bool" where
  "plugin_identifier s = (bounded 1 160 s \<and> validate_identifier s)"

text \<open>\<open>^\\d+\\.\\d+\\.\\d+([-.][A-Za-z0-9.]+)?$\<close>: three numbers and an optional suffix.\<close>

definition is_digit :: "char \<Rightarrow> bool" where
  "is_digit c = (CHR ''0'' \<le> c \<and> c \<le> CHR ''9'')"

fun version_numbers :: "nat \<Rightarrow> pystr \<Rightarrow> pystr option" where
  "version_numbers n s =
     (let rest = dropWhile is_digit s in
      if takeWhile is_digit s = [] then None
      else case n of 0 \<Rightarrow> Some rest
           | Suc m \<Rightarrow> (case rest of c # t \<Rightarrow> if c = CHR ''.'' then version_numbers m t else None | [] \<Rightarrow> None))"

definition suffix_char :: "char \<Rightarrow> bool" where
  "suffix_char c =
     (is_digit c \<or> c = CHR ''.'' \<or> (CHR ''a'' \<le> c \<and> c \<le> CHR ''z'') \<or> (CHR ''A'' \<le> c \<and> c \<le> CHR ''Z''))"

definition is_version :: "pystr \<Rightarrow> bool" where
  "is_version s =
     (case version_numbers 2 s of
        None \<Rightarrow> False
      | Some [] \<Rightarrow> True
      | Some (c # t) \<Rightarrow> c \<in> {CHR ''-'', CHR ''.''} \<and> t \<noteq> [] \<and> list_all suffix_char t)"

datatype config_scope = Sc_User | Sc_Workspace | Sc_Project

fun config_scope_value :: "config_scope \<Rightarrow> pystr" where
  "config_scope_value Sc_User = ''user''"
| "config_scope_value Sc_Workspace = ''workspace''"
| "config_scope_value Sc_Project = ''project''"

record plugin_command =
  cmd_executable :: pystr
  cmd_args :: "pystr list"
  cmd_env :: "(pystr \<times> pystr) list"

record config_path =
  cpa_scope :: config_scope
  cpa_path :: pystr
  cpa_required :: bool

record plugin_permission =
  prm_name :: pystr
  prm_reason :: pystr
  prm_high_risk :: bool

record plugin_tool_grant =
  tgr_name :: pystr
  tgr_role :: pystr
  tgr_high_risk :: bool
  tgr_approved_by_default :: bool

record plugin_prompt =
  ppr_prompt_id :: pystr
  ppr_role :: pystr
  ppr_path :: pystr

record plugin_manifest =
  man_plugin_id :: pystr
  man_target_client :: plugin_target_client
  man_version :: pystr
  man_command :: plugin_command
  man_config_paths :: "config_path list"
  man_permissions :: "plugin_permission list"
  man_tools :: "plugin_tool_grant list"
  man_prompts :: "plugin_prompt list"
  man_checksums :: "(pystr \<times> pystr) list"

definition valid_command :: "plugin_command \<Rightarrow> bool" where
  "valid_command c =
     (bounded 1 240 (cmd_executable c) \<and> list_all safe_text (cmd_executable c # cmd_args c)
      \<and> list_all (\<lambda>(k, v). validate_identifier k \<and> safe_text v \<and> \<not> looks_secret k \<and> \<not> looks_secret v) (cmd_env c))"

definition valid_config_path :: "config_path \<Rightarrow> bool" where
  "valid_config_path c =
     (bounded 1 300 (cpa_path c) \<and> validate_relative_path (cpa_path c) \<and> \<not> looks_secret (cpa_path c))"

definition valid_permission :: "plugin_permission \<Rightarrow> bool" where
  "valid_permission p = (plugin_identifier (prm_name p) \<and> bounded 1 300 (prm_reason p) \<and> safe_text (prm_reason p))"

definition valid_tool_grant :: "plugin_tool_grant \<Rightarrow> bool" where
  "valid_tool_grant t =
     (plugin_identifier (tgr_name t) \<and> plugin_identifier (tgr_role t) \<and> \<not> (tgr_approved_by_default t \<and> tgr_high_risk t))"

definition valid_prompt :: "plugin_prompt \<Rightarrow> bool" where
  "valid_prompt p =
     (plugin_identifier (ppr_prompt_id p) \<and> plugin_identifier (ppr_role p)
      \<and> bounded 1 300 (ppr_path p) \<and> validate_relative_path (ppr_path p))"

text \<open>Validation sorts the environment and the checksums by key.\<close>

definition valid_digests :: "(pystr \<times> pystr) list \<Rightarrow> bool" where
  "valid_digests ds = list_all (\<lambda>(path, digest). validate_relative_path path \<and> is_digest digest) ds"

definition parse_plugin_manifest :: "plugin_manifest \<Rightarrow> exn + plugin_manifest" where
  "parse_plugin_manifest m =
     (if plugin_identifier (man_plugin_id m) \<and> is_version (man_version m) \<and> valid_command (man_command m)
         \<and> man_config_paths m \<noteq> [] \<and> list_all valid_config_path (man_config_paths m)
         \<and> list_all valid_permission (man_permissions m) \<and> distinct (map prm_name (man_permissions m))
         \<and> list_all valid_tool_grant (man_tools m) \<and> distinct (map tgr_name (man_tools m))
         \<and> list_all valid_prompt (man_prompts m) \<and> distinct (map ppr_prompt_id (man_prompts m))
         \<and> man_checksums m \<noteq> [] \<and> valid_digests (man_checksums m)
      then Inr (m\<lparr>man_command := (man_command m)\<lparr>cmd_env := sort_key fst (cmd_env (man_command m))\<rparr>,
                 man_checksums := sort_key fst (man_checksums m)\<rparr>)
      else Inl (ValidationError ''VADPluginManifest''))"

section \<open>Digests and signatures\<close>

definition texts_json :: "pystr list \<Rightarrow> json" where
  "texts_json xs = J_List (map J_Str xs)"

definition text_dict :: "(pystr \<times> pystr) list \<Rightarrow> json" where
  "text_dict kvs = J_Dict (map (\<lambda>(k, v). (k, J_Str v)) kvs)"

definition command_json :: "plugin_command \<Rightarrow> json" where
  "command_json c =
     J_Dict [(''executable'', J_Str (cmd_executable c)), (''args'', texts_json (cmd_args c)), (''env'', text_dict (cmd_env c))]"

definition config_path_json :: "config_path \<Rightarrow> json" where
  "config_path_json c =
     J_Dict [(''scope'', J_Str (config_scope_value (cpa_scope c))), (''path'', J_Str (cpa_path c)),
             (''required'', J_Bool (cpa_required c))]"

definition permission_json :: "plugin_permission \<Rightarrow> json" where
  "permission_json p =
     J_Dict [(''name'', J_Str (prm_name p)), (''reason'', J_Str (prm_reason p)), (''high_risk'', J_Bool (prm_high_risk p))]"

definition tool_grant_json :: "plugin_tool_grant \<Rightarrow> json" where
  "tool_grant_json t =
     J_Dict [(''name'', J_Str (tgr_name t)), (''role'', J_Str (tgr_role t)), (''high_risk'', J_Bool (tgr_high_risk t)),
             (''approved_by_default'', J_Bool (tgr_approved_by_default t))]"

definition prompt_json :: "plugin_prompt \<Rightarrow> json" where
  "prompt_json p =
     J_Dict [(''prompt_id'', J_Str (ppr_prompt_id p)), (''role'', J_Str (ppr_role p)), (''path'', J_Str (ppr_path p))]"

definition manifest_json :: "plugin_manifest \<Rightarrow> (pystr \<times> json) list" where
  "manifest_json m =
     [(''plugin_id'', J_Str (man_plugin_id m)), (''target_client'', J_Str (target_client_value (man_target_client m))),
      (''version'', J_Str (man_version m)), (''command'', command_json (man_command m)),
      (''config_paths'', J_List (map config_path_json (man_config_paths m))),
      (''permissions'', J_List (map permission_json (man_permissions m))),
      (''tools'', J_List (map tool_grant_json (man_tools m))),
      (''prompts'', J_List (map prompt_json (man_prompts m))),
      (''checksums'', text_dict (man_checksums m))]"

record artifact_hash =
  ah_plugin_id :: pystr
  ah_version :: pystr
  ah_manifest_digest :: pystr
  ah_artifact_digest :: pystr
  ah_file_digests :: "(pystr \<times> pystr) list"

definition valid_artifact_hash :: "artifact_hash \<Rightarrow> bool" where
  "valid_artifact_hash h =
     (plugin_identifier (ah_plugin_id h) \<and> is_version (ah_version h) \<and> is_digest (ah_manifest_digest h)
      \<and> is_digest (ah_artifact_digest h) \<and> ah_file_digests h \<noteq> [] \<and> valid_digests (ah_file_digests h))"

definition artifact_hash_json :: "artifact_hash \<Rightarrow> (pystr \<times> json) list" where
  "artifact_hash_json h =
     [(''plugin_id'', J_Str (ah_plugin_id h)), (''version'', J_Str (ah_version h)),
      (''manifest_digest'', J_Str (ah_manifest_digest h)), (''artifact_digest'', J_Str (ah_artifact_digest h)),
      (''file_digests'', text_dict (ah_file_digests h))]"

definition compute_plugin_artifact_hash :: "crypto \<Rightarrow> plugin_manifest \<Rightarrow> exn + artifact_hash" where
  "compute_plugin_artifact_hash cy m =
     (let manifest_digest = payload_digest cy (manifest_json m);
          file_digests = sort_key fst (man_checksums m);
          payload = [(''plugin_id'', J_Str (man_plugin_id m)), (''version'', J_Str (man_version m)),
                     (''manifest_digest'', J_Str manifest_digest), (''file_digests'', text_dict file_digests)]
      in checked ''PluginArtifactHash'' valid_artifact_hash
           \<lparr>ah_plugin_id = man_plugin_id m, ah_version = man_version m, ah_manifest_digest = manifest_digest,
            ah_artifact_digest = payload_digest cy payload, ah_file_digests = file_digests\<rparr>)"

definition sign_plugin_artifact_hash :: "crypto \<Rightarrow> pystr \<Rightarrow> local_signer \<Rightarrow> artifact_hash \<Rightarrow> exn + signature_envelope" where
  "sign_plugin_artifact_hash cy now g h = sign_payload cy now g (artifact_hash_json h)"

record artifact_verification =
  av_plugin_id :: pystr
  av_version :: pystr
  av_artifact_digest :: pystr
  av_manifest_digest :: pystr
  av_file_count :: nat
  av_signature_present :: bool
  av_signature_verified :: bool
  av_signer_key_id :: "pystr option"
  av_evidence :: pystr

definition signature_checked ::
    "crypto \<Rightarrow> pystr \<Rightarrow> artifact_hash \<Rightarrow> signature_envelope option \<Rightarrow> local_signer option \<Rightarrow> exn + bool" where
  "signature_checked cy now h signature signer =
     (case (signature, signer) of
        (Some v, Some g) \<Rightarrow> verify_payload cy now g (artifact_hash_json h) v
      | _ \<Rightarrow> Inr False)"

definition verify_plugin_artifact ::
    "crypto \<Rightarrow> pystr \<Rightarrow> signature_envelope option \<Rightarrow> local_signer option \<Rightarrow> plugin_manifest \<Rightarrow> exn + artifact_verification" where
  "verify_plugin_artifact cy now signature signer m =
     (case compute_plugin_artifact_hash cy m of
        Inl e \<Rightarrow> Inl e
      | Inr h \<Rightarrow>
          (case signature_checked cy now h signature signer of
             Inl e \<Rightarrow> Inl e
           | Inr verified \<Rightarrow>
               Inr \<lparr>av_plugin_id = ah_plugin_id h, av_version = ah_version h, av_artifact_digest = ah_artifact_digest h,
                    av_manifest_digest = ah_manifest_digest h, av_file_count = length (ah_file_digests h),
                    av_signature_present = (signature \<noteq> None), av_signature_verified = verified,
                    av_signer_key_id = map_option sn_key_id signature,
                    av_evidence =
                      (if signature = None then ''Plugin artifact digest verified.''
                       else if verified then ''Plugin artifact signature verified.''
                       else ''Plugin artifact signature verification failed.'')\<rparr>))"

section \<open>Roots and paths\<close>

record install_roots =
  rt_workspace :: path
  rt_user :: path

definition root_of :: "install_roots \<Rightarrow> config_scope \<Rightarrow> path" where
  "root_of roots scope = (if scope = Sc_User then rt_user roots else rt_workspace roots)"

definition resolving :: "path \<Rightarrow> path io" where
  "resolving p fs = (resolve fs p, fs)"

text \<open>\<open>(base / text).resolve()\<close>.\<close>

definition resolve_text :: "path \<Rightarrow> pystr \<Rightarrow> path io" where
  "resolve_text base s =
     (if CHR 0x00 \<in> set s then throw (ValueError ''embedded null byte'') else resolving (join_path base s))"

definition resolved_roots :: "path \<Rightarrow> path \<Rightarrow> install_roots io" where
  "resolved_roots workspace_root user_config_root =
     andthen (resolving workspace_root) (\<lambda>w. andthen (resolving user_config_root) (\<lambda>u.
     ret \<lparr>rt_workspace = w, rt_user = u\<rparr>))"

definition path_is_under :: "path \<Rightarrow> path \<Rightarrow> bool io" where
  "path_is_under p root =
     andthen (resolving p) (\<lambda>p'. andthen (resolving root) (\<lambda>root'. ret (is_relative_to p' root')))"

definition resolve_under :: "path \<Rightarrow> pystr \<Rightarrow> pystr \<Rightarrow> path io" where
  "resolve_under root relative label =
     (if \<not> validate_relative_path relative then throw (ValueError (label @ '' must be relative''))
      else andthen (resolve_text root relative) (\<lambda>target.
           if is_relative_to target root then ret target
           else throw (ValueError (label @ '' must stay under '' @ path_text root))))"

section \<open>Dry run\<close>

record install_operation =
  iop_scope :: config_scope
  iop_path :: pystr
  iop_change :: pystr
  iop_content :: "(pystr \<times> json) list"

record rollback_operation =
  rop_action :: pystr
  rop_path :: pystr
  rop_backup_path :: "pystr option"

record installer_dry_run =
  dry_plugin_id :: pystr
  dry_target_client :: plugin_target_client
  dry_version :: pystr
  dry_dry_run :: bool
  dry_writes_performed :: int
  dry_operations :: "install_operation list"
  dry_rollback :: "rollback_operation list"
  dry_artifact :: artifact_verification

definition valid_operation :: "install_operation \<Rightarrow> bool" where
  "valid_operation p = (bounded 1 500 (iop_path p) \<and> bounded 1 300 (iop_change p))"

definition valid_rollback_operation :: "rollback_operation \<Rightarrow> bool" where
  "valid_rollback_operation p = (bounded 1 80 (rop_action p) \<and> bounded 1 500 (rop_path p))"

definition plugin_config_content :: "plugin_manifest \<Rightarrow> artifact_verification \<Rightarrow> (pystr \<times> json) list" where
  "plugin_config_content m a =
     [(''plugin_id'', J_Str (man_plugin_id m)), (''target_client'', J_Str (target_client_value (man_target_client m))),
      (''version'', J_Str (man_version m)), (''command'', command_json (man_command m)),
      (''permissions'', J_List (map permission_json (man_permissions m))),
      (''tools'', J_List (map tool_grant_json (man_tools m))),
      (''prompts'', J_List (map prompt_json (man_prompts m))),
      (''artifact_digest'', J_Str (av_artifact_digest a)), (''manifest_digest'', J_Str (av_manifest_digest a))]"

definition plan_config ::
    "install_roots \<Rightarrow> plugin_manifest \<Rightarrow> artifact_verification \<Rightarrow> config_path \<Rightarrow> (install_operation \<times> rollback_operation) io" where
  "plan_config roots m a c =
     (if cpa_scope c = Sc_Project
      then throw (ValueError ''installer dry-run writes are limited to user and workspace config paths'')
      else andthen (resolve_under (root_of roots (cpa_scope c)) (cpa_path c) ''installer config path'') (\<lambda>target.
           andthen (lift_result (checked ''PluginInstallOperation'' valid_operation
             \<lparr>iop_scope = cpa_scope c, iop_path = path_text target,
              iop_change = ''write '' @ man_plugin_id m @ '' config for '' @ target_client_value (man_target_client m),
              iop_content = plugin_config_content m a\<rparr>)) (\<lambda>operation.
           andthen (lift_result (checked ''PluginRollbackOperation'' valid_rollback_operation
             \<lparr>rop_action = ''restore_or_remove'', rop_path = path_text target,
              rop_backup_path = Some (path_text target @ ''.vad-backup'')\<rparr>)) (\<lambda>rollback.
           ret (operation, rollback)))))"

definition create_plugin_installer_dry_run ::
    "crypto \<Rightarrow> pystr \<Rightarrow> path \<Rightarrow> path \<Rightarrow> signature_envelope option \<Rightarrow> local_signer option \<Rightarrow> plugin_manifest
     \<Rightarrow> installer_dry_run io" where
  "create_plugin_installer_dry_run cy now workspace_root user_config_root signature signer m =
     andthen (resolved_roots workspace_root user_config_root) (\<lambda>roots.
     andthen (lift_result (verify_plugin_artifact cy now signature signer m)) (\<lambda>a.
     andthen (each_proc (plan_config roots m a) (man_config_paths m)) (\<lambda>plan.
     ret \<lparr>dry_plugin_id = man_plugin_id m, dry_target_client = man_target_client m, dry_version = man_version m,
          dry_dry_run = True, dry_writes_performed = 0, dry_operations = map fst plan, dry_rollback = map snd plan,
          dry_artifact = a\<rparr>)))"

section \<open>Security audit\<close>

fun walk_values :: "json \<Rightarrow> json list" where
  "walk_values (J_Dict kvs) = concat (map (\<lambda>(k, v). J_Str k # walk_values v) kvs)"
| "walk_values (J_List xs) = concat (map walk_values xs)"
| "walk_values J_Null = []"
| "walk_values v = [v]"

definition local_hosts :: "pystr list" where
  "local_hosts = [''localhost'', ''127.0.0.1'', ''::1'']"

text \<open>The host runs to the next \<open>/\<close> and, in that, to the next \<open>:\<close>.\<close>

definition endpoint_host :: "pystr \<Rightarrow> pystr" where
  "endpoint_host rest = takeWhile (\<lambda>c. c \<noteq> CHR '':'') (takeWhile (\<lambda>c. c \<noteq> CHR ''/'') rest)"

fun remote_endpoint :: "pystr \<Rightarrow> pystr \<Rightarrow> bool" where
  "remote_endpoint scheme [] = False"
| "remote_endpoint scheme (c # s) =
     ((is_prefix_of scheme (c # s) \<and> endpoint_host (drop (length scheme) (c # s)) \<notin> set local_hosts)
      \<or> remote_endpoint scheme s)"

definition has_non_local_http_endpoint :: "pystr \<Rightarrow> bool" where
  "has_non_local_http_endpoint s =
     list_ex (\<lambda>scheme. remote_endpoint scheme (py_lower s)) [''http://'', ''https://'']"

record audit_finding =
  saf_check :: pystr
  saf_detail :: pystr

definition valid_finding :: "audit_finding \<Rightarrow> bool" where
  "valid_finding f = (plugin_identifier (saf_check f) \<and> bounded 1 300 (saf_detail f) \<and> safe_text (saf_detail f))"

record audit_result =
  sar_plugin_id :: pystr
  sar_passed :: bool
  sar_findings :: "audit_finding list"

definition finding_if :: "bool \<Rightarrow> pystr \<Rightarrow> pystr \<Rightarrow> audit_finding list" where
  "finding_if b check detail = (if b then [\<lparr>saf_check = check, saf_detail = detail\<rparr>] else [])"

definition content_findings :: "pystr \<Rightarrow> pystr \<Rightarrow> audit_finding list" where
  "content_findings what text =
     finding_if (looks_secret text) ''no_secrets'' (what @ '' contains a secret marker'')
     @ finding_if (has_non_local_http_endpoint text) ''no_cloud_default'' (what @ '' contains a non-local HTTP endpoint'')"

definition audit_operation :: "path \<Rightarrow> install_roots \<Rightarrow> install_operation \<Rightarrow> audit_finding list io" where
  "audit_operation cwd roots p =
     andthen (if CHR 0x00 \<in> set (iop_path p) then ret False
              else path_is_under (join_path cwd (iop_path p)) (root_of roots (iop_scope p))) (\<lambda>under.
     ret (finding_if (iop_scope p = Sc_Project) ''guarded_write''
            (''project-scoped write is not allowed for '' @ iop_path p)
          @ finding_if (\<not> under) ''guarded_write''
              (''operation path escapes approved '' @ config_scope_value (iop_scope p) @ '' root'')
          @ concat (map (\<lambda>v. content_findings ''generated config'' (py_str v)) (walk_values (J_Dict (iop_content p))))))"

definition manifest_scan_values :: "plugin_manifest \<Rightarrow> pystr list" where
  "manifest_scan_values m =
     [man_plugin_id m, man_version m, cmd_executable (man_command m)] @ cmd_args (man_command m)
     @ concat (map (\<lambda>(k, v). [k, v]) (cmd_env (man_command m)))
     @ concat (map (\<lambda>p. [prm_name p, prm_reason p]) (man_permissions m))
     @ concat (map (\<lambda>t. [tgr_name t, tgr_role t]) (man_tools m))
     @ concat (map (\<lambda>p. [ppr_prompt_id p, ppr_role p, ppr_path p]) (man_prompts m))
     @ map fst (man_checksums m)"

definition manifest_findings :: "plugin_manifest \<Rightarrow> audit_finding list" where
  "manifest_findings m =
     concat (map (\<lambda>t. finding_if (tgr_high_risk t \<and> tgr_approved_by_default t) ''dangerous_auto_approval''
                    (''high-risk tool '' @ tgr_name t @ '' is approved by default'')) (man_tools m))
     @ concat (map (content_findings ''plugin manifest'') (manifest_scan_values m))"

definition plan_findings :: "plugin_manifest \<Rightarrow> installer_dry_run \<Rightarrow> audit_finding list" where
  "plan_findings m d =
     finding_if (dry_plugin_id d \<noteq> man_plugin_id m) ''artifact_binding'' ''dry-run plugin id does not match manifest''
     @ finding_if (\<not> dry_dry_run d \<or> dry_writes_performed d \<noteq> 0) ''dry_run_only''
         ''plugin audit requires a no-write dry-run plan''"

definition audit_plugin_artifact_security ::
    "path \<Rightarrow> path \<Rightarrow> path \<Rightarrow> plugin_manifest \<Rightarrow> installer_dry_run \<Rightarrow> audit_result io" where
  "audit_plugin_artifact_security cwd workspace_root user_config_root m d =
     andthen (resolved_roots workspace_root user_config_root) (\<lambda>roots.
     andthen (each_proc (audit_operation cwd roots) (dry_operations d)) (\<lambda>fss.
     andthen (lift_result (parse_all (checked ''PluginSecurityAuditFinding'' valid_finding)
                (plan_findings m d @ concat fss @ manifest_findings m))) (\<lambda>findings.
     ret \<lparr>sar_plugin_id = man_plugin_id m, sar_passed = (findings = []), sar_findings = findings\<rparr>)))"

section \<open>Applying, uninstalling and rolling back\<close>

definition approval_given :: "pystr \<Rightarrow> (filesystem, unit) proc" where
  "approval_given approval_ref =
     (if \<not> safe_text approval_ref
      then throw (ValueError ''plugin operation approval must not contain control separators'')
      else if py_strip approval_ref = []
      then throw (ValueError ''plugin operation requires explicit approval evidence'') else ret ())"

definition guarded_operation_path :: "path \<Rightarrow> install_roots \<Rightarrow> install_operation \<Rightarrow> path io" where
  "guarded_operation_path cwd roots p =
     (if iop_scope p = Sc_Project
      then throw (ValueError ''plugin writers are limited to user and workspace config roots'')
      else andthen (resolve_text cwd (iop_path p)) (\<lambda>target.
           andthen (path_is_under target (root_of roots (iop_scope p))) (\<lambda>under.
           if under then ret target
           else throw (ValueError (''plugin operation path escapes approved ''
                  @ config_scope_value (iop_scope p) @ '' root'')))))"

definition guarded_backup_path :: "path \<Rightarrow> install_roots \<Rightarrow> rollback_operation \<Rightarrow> install_operation \<Rightarrow> path io" where
  "guarded_backup_path cwd roots r p =
     (if rop_action r \<noteq> ''restore_or_remove''
      then throw (ValueError (''unsupported plugin rollback action '' @ rop_action r))
      else if rop_path r \<noteq> iop_path p
      then throw (ValueError ''plugin rollback path must match install operation path'')
      else case rop_backup_path r of
             None \<Rightarrow> throw (ValueError ''plugin rollback evidence requires a backup path'')
           | Some s \<Rightarrow>
               andthen (resolve_text cwd s) (\<lambda>backup.
               andthen (path_is_under backup (root_of roots (iop_scope p))) (\<lambda>under.
               if under then ret backup
               else throw (ValueError (''plugin rollback backup path escapes approved ''
                      @ config_scope_value (iop_scope p) @ '' root'')))))"

text \<open>\<open>f"{scope}/{path.resolve().relative_to(root).as_posix()}"\<close>.\<close>

definition relative_text :: "path \<Rightarrow> pystr" where
  "relative_text p = (if p = [] then ''.'' else py_join ''/'' p)"

definition inventory_path :: "install_roots \<Rightarrow> config_scope \<Rightarrow> path \<Rightarrow> pystr io" where
  "inventory_path roots scope p =
     andthen (resolving p) (\<lambda>q.
     if is_relative_to q (root_of roots scope)
     then ret (config_scope_value scope @ ''/'' @ relative_text (drop (length (root_of roots scope)) q))
     else throw (ValueError (path_text q @ '' is not in the subpath of '' @ path_text (root_of roots scope))))"

definition canonical_json_bytes :: "(pystr \<times> json) list \<Rightarrow> pystr" where
  "canonical_json_bytes content = utf8_encode (dumps_pretty True (J_Dict content)) @ [CHR 0x0A]"

record operation_result =
  opr_plugin_id :: pystr
  opr_target_client :: plugin_target_client
  opr_version :: pystr
  opr_operation :: pystr
  opr_status :: pystr
  opr_writes_performed :: nat
  opr_applied_config_hashes :: "(pystr \<times> pystr) list"
  opr_backup_paths :: "pystr list"
  opr_inventory :: plugin_inventory_record
  opr_evidence :: pystr

definition valid_operation_result :: "operation_result \<Rightarrow> bool" where
  "valid_operation_result r =
     (plugin_identifier (opr_plugin_id r) \<and> valid_digests (opr_applied_config_hashes r) \<and> list_all safe_text (opr_backup_paths r)
      \<and> bounded 1 300 (opr_evidence r) \<and> safe_text (opr_evidence r))"

definition check_apply_pair :: "path \<Rightarrow> install_roots \<Rightarrow> install_operation \<times> rollback_operation \<Rightarrow> unit io" where
  "check_apply_pair cwd roots pr =
     andthen (guarded_operation_path cwd roots (fst pr)) (\<lambda>_.
     andthen (guarded_backup_path cwd roots (snd pr) (fst pr)) (\<lambda>_. ret ()))"

definition plan_pairs :: "installer_dry_run \<Rightarrow> (install_operation \<times> rollback_operation) list" where
  "plan_pairs d = zip (dry_operations d) (dry_rollback d)"

definition check_apply_plan :: "path \<Rightarrow> install_roots \<Rightarrow> installer_dry_run \<Rightarrow> unit io" where
  "check_apply_plan cwd roots d =
     (if \<not> dry_dry_run d \<or> dry_writes_performed d \<noteq> 0
      then throw (ValueError ''plugin apply requires a no-write dry-run plan'')
      else if length (dry_operations d) \<noteq> length (dry_rollback d)
      then throw (ValueError ''plugin apply requires rollback evidence for every operation'')
      else andthen (each_proc (check_apply_pair cwd roots) (plan_pairs d)) (\<lambda>_. ret ()))"

text \<open>One operation of the plan: the path and digest that are written, and the backup if there is one.\<close>

definition back_up :: "install_roots \<Rightarrow> config_scope \<Rightarrow> path \<Rightarrow> path \<Rightarrow> pystr list io" where
  "back_up roots scope target backup =
     andthen (reads (\<lambda>fs. path_exists fs target)) (\<lambda>there.
     if \<not> there then ret []
     else andthen (make_dirs (butlast backup)) (\<lambda>_.
          andthen (copy2 target backup) (\<lambda>_.
          andthen (inventory_path roots scope backup) (\<lambda>b. ret [b]))))"

definition apply_pair ::
    "(pystr \<Rightarrow> pystr) \<Rightarrow> path \<Rightarrow> install_roots \<Rightarrow> install_operation \<times> rollback_operation
     \<Rightarrow> ((pystr \<times> pystr) \<times> pystr list) io" where
  "apply_pair sha cwd roots pr =
     (let scope = iop_scope (fst pr); payload = canonical_json_bytes (iop_content (fst pr)) in
      andthen (guarded_operation_path cwd roots (fst pr)) (\<lambda>target.
      andthen (guarded_backup_path cwd roots (snd pr) (fst pr)) (\<lambda>backup.
      andthen (make_dirs (butlast target)) (\<lambda>_.
      andthen (back_up roots scope target backup) (\<lambda>saved.
      andthen (write_bytes target payload) (\<lambda>_.
      andthen (inventory_path roots scope target) (\<lambda>key.
      ret ((key, sha payload), saved))))))))"

definition applied_inventory :: "installer_dry_run \<Rightarrow> (pystr \<times> pystr) list \<Rightarrow> pystr list \<Rightarrow> plugin_inventory_record" where
  "applied_inventory d hashes backups =
     \<lparr>pi_plugin_id = dry_plugin_id d, pi_target_client = dry_target_client d, pi_version = dry_version d,
      pi_review_state = Rv_Approved, pi_applied_config_hashes = hashes, pi_backup_paths = backups,
      pi_uninstall_status = ''available'', pi_rollback_status = ''ready'', pi_dashboard_status = Ps_Installed,
      pi_publication_readiness = ''local_ready'',
      pi_summary = dry_plugin_id d @ '' applied to local '' @ target_client_value (dry_target_client d) @ '' configuration.'',
      pi_action_required = None, pi_artifact_digest = Some (av_artifact_digest (dry_artifact d)),
      pi_manifest_digest = Some (av_manifest_digest (dry_artifact d))\<rparr>"

definition apply_plugin_installer_plan ::
    "(pystr \<Rightarrow> pystr) \<Rightarrow> path \<Rightarrow> path \<Rightarrow> path \<Rightarrow> pystr \<Rightarrow> installer_dry_run \<Rightarrow> operation_result io" where
  "apply_plugin_installer_plan sha cwd workspace_root user_config_root approval_ref d =
     andthen (approval_given approval_ref) (\<lambda>_.
     andthen (resolved_roots workspace_root user_config_root) (\<lambda>roots.
     andthen (check_apply_plan cwd roots d) (\<lambda>_.
     andthen (each_proc (apply_pair sha cwd roots) (plan_pairs d)) (\<lambda>applied.
     let hashes = fold (\<lambda>(k, v). dict_set k v) (map fst applied) []; backups = concat (map snd applied) in
     andthen (lift_result (parse_plugin_inventory_record (applied_inventory d hashes backups))) (\<lambda>inventory.
     lift_result (checked ''PluginOperationResult'' valid_operation_result
       \<lparr>opr_plugin_id = dry_plugin_id d, opr_target_client = dry_target_client d, opr_version = dry_version d,
        opr_operation = ''apply'', opr_status = ''applied'', opr_writes_performed = length applied,
        opr_applied_config_hashes = sort_key fst hashes, opr_backup_paths = backups, opr_inventory = inventory,
        opr_evidence = ''Applied reviewed plugin dry-run with approval '' @ approval_ref @ ''.''\<rparr>))))))"

definition digest_differs :: "pystr option \<Rightarrow> pystr \<Rightarrow> bool" where
  "digest_differs recorded digest = (recorded \<notin> {None, Some [], Some digest})"

definition check_inventory :: "installer_dry_run \<Rightarrow> plugin_inventory_record \<Rightarrow> unit io" where
  "check_inventory d r =
     (if pi_plugin_id r \<noteq> dry_plugin_id d then throw (ValueError ''plugin inventory does not match dry-run plugin id'')
      else if pi_target_client r \<noteq> dry_target_client d
      then throw (ValueError ''plugin inventory does not match dry-run target client'')
      else if pi_version r \<noteq> dry_version d then throw (ValueError ''plugin inventory does not match dry-run version'')
      else if digest_differs (pi_artifact_digest r) (av_artifact_digest (dry_artifact d))
      then throw (ValueError ''plugin inventory does not match dry-run artifact digest'')
      else if digest_differs (pi_manifest_digest r) (av_manifest_digest (dry_artifact d))
      then throw (ValueError ''plugin inventory does not match dry-run manifest digest'')
      else ret ())"

definition expected_digest :: "plugin_inventory_record \<Rightarrow> pystr \<Rightarrow> pystr io" where
  "expected_digest r key =
     (case dict_get key (pi_applied_config_hashes r) of
        None \<Rightarrow> throw (ValueError (''inventory is missing applied hash for '' @ key))
      | Some h \<Rightarrow> ret h)"

text \<open>A file that is there must be the one that was applied; the result says whether it is there.\<close>

definition undrifted :: "(pystr \<Rightarrow> pystr) \<Rightarrow> pystr \<Rightarrow> pystr \<Rightarrow> path \<Rightarrow> bool io" where
  "undrifted sha key expected target =
     andthen (reads (\<lambda>fs. path_exists fs target)) (\<lambda>there.
     if \<not> there then ret False
     else andthen (read_bytes target) (\<lambda>b.
          if sha b \<noteq> expected then throw (ValueError (''installed plugin config drifted at '' @ key)) else ret True))"

definition uninstall_one ::
    "(pystr \<Rightarrow> pystr) \<Rightarrow> path \<Rightarrow> install_roots \<Rightarrow> plugin_inventory_record \<Rightarrow> install_operation \<Rightarrow> nat io" where
  "uninstall_one sha cwd roots r p =
     andthen (guarded_operation_path cwd roots p) (\<lambda>target.
     andthen (inventory_path roots (iop_scope p) target) (\<lambda>key.
     andthen (expected_digest r key) (\<lambda>expected.
     andthen (undrifted sha key expected target) (\<lambda>there.
     if there then andthen (unlink target) (\<lambda>_. ret 1) else ret 0))))"

definition removed_inventory :: "installer_dry_run \<Rightarrow> plugin_inventory_record \<Rightarrow> plugin_inventory_record" where
  "removed_inventory d r =
     r\<lparr>pi_applied_config_hashes := [], pi_uninstall_status := ''uninstalled'', pi_dashboard_status := Ps_Available,
       pi_publication_readiness := ''dry_run_ready'',
       pi_summary := dry_plugin_id d @ '' uninstalled from local '' @ target_client_value (dry_target_client d) @ '' configuration.'',
       pi_action_required := Some ''Review dry-run output before applying again.''\<rparr>"

definition uninstall_plugin_installation ::
    "(pystr \<Rightarrow> pystr) \<Rightarrow> path \<Rightarrow> path \<Rightarrow> path \<Rightarrow> pystr \<Rightarrow> installer_dry_run \<Rightarrow> plugin_inventory_record
     \<Rightarrow> operation_result io" where
  "uninstall_plugin_installation sha cwd workspace_root user_config_root approval_ref d r =
     andthen (approval_given approval_ref) (\<lambda>_.
     andthen (resolved_roots workspace_root user_config_root) (\<lambda>roots.
     andthen (check_inventory d r) (\<lambda>_.
     andthen (each_proc (uninstall_one sha cwd roots r) (dry_operations d)) (\<lambda>ns.
     lift_result (checked ''PluginOperationResult'' valid_operation_result
       \<lparr>opr_plugin_id = dry_plugin_id d, opr_target_client = dry_target_client d, opr_version = dry_version d,
        opr_operation = ''uninstall'', opr_status = ''uninstalled'', opr_writes_performed = sum_list ns,
        opr_applied_config_hashes = [], opr_backup_paths = pi_backup_paths r, opr_inventory = removed_inventory d r,
        opr_evidence = ''Removed applied plugin config with approval '' @ approval_ref @ ''.''\<rparr>)))))"

text \<open>Rolling back one operation: the backup is copied back, or the file is removed.\<close>

definition put_back :: "path \<Rightarrow> path \<Rightarrow> bool \<Rightarrow> unit io" where
  "put_back target backup there =
     andthen (reads (\<lambda>fs. path_exists fs backup)) (\<lambda>saved.
     if saved then andthen (make_dirs (butlast target)) (\<lambda>_. copy2 backup target)
     else if there then unlink target else ret ())"

definition rollback_pair ::
    "(pystr \<Rightarrow> pystr) \<Rightarrow> path \<Rightarrow> install_roots \<Rightarrow> plugin_inventory_record
     \<Rightarrow> install_operation \<times> rollback_operation \<Rightarrow> unit io" where
  "rollback_pair sha cwd roots r pr =
     andthen (guarded_operation_path cwd roots (fst pr)) (\<lambda>target.
     andthen (guarded_backup_path cwd roots (snd pr) (fst pr)) (\<lambda>backup.
     andthen (inventory_path roots (iop_scope (fst pr)) target) (\<lambda>key.
     andthen (expected_digest r key) (\<lambda>expected.
     andthen (undrifted sha key expected target) (\<lambda>there.
     put_back target backup there)))))"

definition rolled_back_inventory :: "installer_dry_run \<Rightarrow> plugin_inventory_record \<Rightarrow> plugin_inventory_record" where
  "rolled_back_inventory d r =
     r\<lparr>pi_applied_config_hashes := [], pi_rollback_status := ''rolled_back'', pi_dashboard_status := Ps_Available,
       pi_publication_readiness := ''dry_run_ready'',
       pi_summary := dry_plugin_id d @ '' rolled back for local '' @ target_client_value (dry_target_client d) @ '' configuration.'',
       pi_action_required := Some ''Review dry-run output before applying again.''\<rparr>"

definition rollback_plugin_installation ::
    "(pystr \<Rightarrow> pystr) \<Rightarrow> path \<Rightarrow> path \<Rightarrow> path \<Rightarrow> pystr \<Rightarrow> installer_dry_run \<Rightarrow> plugin_inventory_record
     \<Rightarrow> operation_result io" where
  "rollback_plugin_installation sha cwd workspace_root user_config_root approval_ref d r =
     andthen (approval_given approval_ref) (\<lambda>_.
     andthen (resolved_roots workspace_root user_config_root) (\<lambda>roots.
     andthen (check_inventory d r) (\<lambda>_.
     andthen (each_proc (rollback_pair sha cwd roots r) (plan_pairs d)) (\<lambda>rs.
     lift_result (checked ''PluginOperationResult'' valid_operation_result
       \<lparr>opr_plugin_id = dry_plugin_id d, opr_target_client = dry_target_client d, opr_version = dry_version d,
        opr_operation = ''rollback'', opr_status = ''rolled_back'', opr_writes_performed = length rs,
        opr_applied_config_hashes = [], opr_backup_paths = pi_backup_paths r, opr_inventory = rolled_back_inventory d r,
        opr_evidence = ''Rolled back plugin config with approval '' @ approval_ref @ ''.''\<rparr>)))))"

end
