(* ===== verification/Plugin_Properties.thy ===== *)
theory Plugin_Properties
  imports Plugin_Install
begin

text \<open>
  What the plug-in installer does to the file system: it changes nothing outside the two roots, and
  rolling back what was applied restores the configuration files.
\<close>

section \<open>Steps that only depend on the links\<close>

text \<open>
  No operation of the installer adds or removes a link, so every path resolves as it did at the
  start. The targets, backups and inventory keys of a plan are therefore those of the first file system.
\<close>

definition target_path :: "filesystem \<Rightarrow> path \<Rightarrow> install_roots \<Rightarrow> install_operation \<Rightarrow> exn + path" where
  "target_path fs cwd roots p = fst (guarded_operation_path cwd roots p fs)"

definition backup_path :: "filesystem \<Rightarrow> path \<Rightarrow> install_roots \<Rightarrow> rollback_operation \<Rightarrow> install_operation \<Rightarrow> exn + path" where
  "backup_path fs cwd roots r p = fst (guarded_backup_path cwd roots r p fs)"

definition inventory_key :: "filesystem \<Rightarrow> install_roots \<Rightarrow> config_scope \<Rightarrow> path \<Rightarrow> exn + pystr" where
  "inventory_key fs roots scope p = fst (inventory_path roots scope p fs)"

definition static :: "filesystem \<Rightarrow> 'a io \<Rightarrow> bool" where
  "static fs0 m = (\<forall>fs. same_links fs0 fs \<longrightarrow> m fs = (fst (m fs0), fs))"

lemma staticD: "static fs0 m \<Longrightarrow> same_links fs0 fs \<Longrightarrow> m fs = (fst (m fs0), fs)"
  unfolding static_def by blast

lemma static_pure: "static fs0 (ret x)" "static fs0 (throw e)" "static fs0 (lift_result r)" "static fs0 (resolving p)"
proof -
  show "static fs0 (resolving p)"
    unfolding static_def resolving_def by (clarify, drule same_links_resolve [where p = p], simp)
qed (simp_all add: static_def)

lemma static_andthen:
  assumes "static fs0 m" "\<And>x. static fs0 (f x)"
  shows "static fs0 (andthen m f)"
  unfolding static_def
proof (intro allI impI)
  fix fs assume fs: "same_links fs0 fs"
  obtain x where x: "m fs0 = (x, fs0)" "m fs = (x, fs)"
    using staticD [OF assms(1) fs] staticD [OF assms(1) same_links_refl] by (metis fst_conv)
  have "f y fs = (fst (f y fs0), fs)" for y by (rule staticD [OF assms(2) fs])
  with x show "andthen m f fs = (fst (andthen m f fs0), fs)" by (cases x) (simp_all add: andthen_def)
qed

lemma static_if: "static fs0 m \<Longrightarrow> static fs0 m' \<Longrightarrow> static fs0 (if b then m else m')"
  by simp

lemma static_option: "static fs0 m \<Longrightarrow> (\<And>x. static fs0 (f x)) \<Longrightarrow> static fs0 (case v of None \<Rightarrow> m | Some x \<Rightarrow> f x)"
  by (cases v) simp_all

lemmas static_intros = static_pure static_andthen static_if static_option

lemma static_steps:
  "static fs0 (path_is_under p q)" "static fs0 (resolve_text p s)" "static fs0 (guarded_operation_path cwd roots op)"
  "static fs0 (guarded_backup_path cwd roots r op)" "static fs0 (inventory_path roots scope p)"
  "static fs0 (resolved_roots p q)"
  unfolding path_is_under_def resolve_text_def guarded_operation_path_def guarded_backup_path_def inventory_path_def
    resolved_roots_def
  by (intro static_intros)+

lemma static_runs:
  assumes "same_links fs0 fs"
  shows "guarded_operation_path cwd roots p fs = (target_path fs0 cwd roots p, fs)"
    "guarded_backup_path cwd roots r p fs = (backup_path fs0 cwd roots r p, fs)"
    "inventory_path roots scope q fs = (inventory_key fs0 roots scope q, fs)"
    "resolved_roots w u fs = (fst (resolved_roots w u fs0), fs)"
  unfolding target_path_def backup_path_def inventory_key_def
  by (rule staticD [OF static_steps(3) assms] staticD [OF static_steps(4) assms] staticD [OF static_steps(5) assms]
      staticD [OF static_steps(6) assms])+

lemma path_is_under_Inr:
  "fst (path_is_under p r fs) = Inr True \<Longrightarrow> link_free fs p \<Longrightarrow> link_free fs r \<Longrightarrow> is_relative_to p r"
  by (auto simp: path_is_under_def andthen_def resolving_def link_free_resolve)

lemma target_path_Inr:
  assumes "target_path fs cwd roots p = Inr t" "link_free fs (root_of roots (iop_scope p))"
  shows "link_free fs t" "is_relative_to t (root_of roots (iop_scope p))" "resolve fs (join_path cwd (iop_path p)) = Inr t"
proof -
  from assms(1) have t: "resolve fs (join_path cwd (iop_path p)) = Inr t"
    "fst (path_is_under t (root_of roots (iop_scope p)) fs) = Inr True"
    by (auto simp: target_path_def guarded_operation_path_def resolve_text_def resolving_def andthen_def
        split: if_splits sum.splits prod.splits)
  show "link_free fs t" by (rule resolve_link_free [OF t(1)])
  with t(2) assms(2) show "is_relative_to t (root_of roots (iop_scope p))" by (intro path_is_under_Inr)
  show "resolve fs (join_path cwd (iop_path p)) = Inr t" by (rule t(1))
qed

lemma backup_path_Inr:
  assumes "backup_path fs cwd roots r p = Inr b" "link_free fs (root_of roots (iop_scope p))"
  shows "link_free fs b" "is_relative_to b (root_of roots (iop_scope p))"
    "\<exists>s. rop_backup_path r = Some s \<and> resolve fs (join_path cwd s) = Inr b"
proof -
  from assms(1) obtain s where t: "rop_backup_path r = Some s" "resolve fs (join_path cwd s) = Inr b"
    "fst (path_is_under b (root_of roots (iop_scope p)) fs) = Inr True"
    by (auto simp: backup_path_def guarded_backup_path_def resolve_text_def resolving_def andthen_def
        split: if_splits sum.splits prod.splits option.splits)
  show "link_free fs b" by (rule resolve_link_free [OF t(2)])
  with t(3) assms(2) show "is_relative_to b (root_of roots (iop_scope p))" by (intro path_is_under_Inr)
  show "\<exists>s. rop_backup_path r = Some s \<and> resolve fs (join_path cwd s) = Inr b" using t by blast
qed

section \<open>Confinement\<close>

text \<open>From every file system with the links of the first one, only tidy changes are made.\<close>

definition careful :: "filesystem \<Rightarrow> path set \<Rightarrow> 'a io \<Rightarrow> bool" where
  "careful fs0 roots m =
     (\<forall>fs x fs'. same_links fs0 fs \<longrightarrow> fs [] = Some Directory \<longrightarrow> m fs = (x, fs') \<longrightarrow> tidy roots fs fs')"

lemma carefulI:
  "(\<And>fs x fs'. same_links fs0 fs \<Longrightarrow> fs [] = Some Directory \<Longrightarrow> m fs = (x, fs') \<Longrightarrow> tidy roots fs fs') \<Longrightarrow> careful fs0 roots m"
  by (simp add: careful_def)

lemma carefulD:
  "careful fs0 roots m \<Longrightarrow> same_links fs0 fs \<Longrightarrow> fs [] = Some Directory \<Longrightarrow> m fs = (x, fs') \<Longrightarrow> tidy roots fs fs'"
  by (simp add: careful_def)

lemma careful_pure:
  "careful fs0 roots (ret x)" "careful fs0 roots (throw e)" "careful fs0 roots (reads f)" "careful fs0 roots (lift_result r)"
  by (auto intro!: carefulI)

lemma careful_andthen:
  assumes "careful fs0 roots m" "\<And>x. careful fs0 roots (f x)"
  shows "careful fs0 roots (andthen m f)"
proof (rule carefulI)
  fix fs x fs' assume fs: "same_links fs0 fs" "fs [] = Some Directory" and run: "andthen m f fs = (x, fs')"
  obtain y fs1 where m: "m fs = (y, fs1)" by fastforce
  note one = carefulD [OF assms(1) fs m]
  have "same_links fs0 fs1" "fs1 [] = Some Directory"
    using tidyD(1,2) [OF one] fs same_links_trans by metis+
  then have "tidy roots fs1 fs'" if "y = Inr z" for z
    using carefulD [OF assms(2)] run m that by (simp add: andthen_def)
  with run m one show "tidy roots fs fs'" by (cases y) (auto simp: andthen_def intro: tidy_trans)
qed

lemma careful_static:
  assumes "\<And>fs. same_links fs0 fs \<Longrightarrow> m fs = (y, fs)" "\<And>x. y = Inr x \<Longrightarrow> careful fs0 roots (f x)"
  shows "careful fs0 roots (andthen m f)"
  using assms by (auto simp: careful_def andthen_def split: sum.splits)

lemma careful_if: "careful fs0 roots m \<Longrightarrow> careful fs0 roots m' \<Longrightarrow> careful fs0 roots (if b then m else m')"
  by simp

lemma careful_each: "(\<And>x. x \<in> set xs \<Longrightarrow> careful fs0 roots (f x)) \<Longrightarrow> careful fs0 roots (each_proc f xs)"
  by (induction xs) (auto intro!: careful_pure careful_andthen)

lemma careful_read: "careful fs0 roots (read_bytes p)"
  by (auto intro!: carefulI dest: read_bytes_state)

lemma careful_writes:
  assumes "link_free fs0 p" "under_any roots p"
  shows "careful fs0 roots (write_bytes p b)" "careful fs0 roots (unlink p)" "careful fs0 roots (make_dirs (butlast p))"
    "careful fs0 roots (copy_file s p)"
  using assms same_links_link_free
  by (auto intro!: carefulI intro: tidy_write_bytes tidy_unlink tidy_make_dirs tidy_copy_file)

lemma careful_copy2:
  assumes "link_free fs0 p" "under_any roots p" "link_free fs0 (p @ [last s])"
  shows "careful fs0 roots (copy2 s p)"
proof -
  have "under_any roots (p @ [last s])"
    using assms(2) unfolding under_any_def is_relative_to_def by (metis append_assoc is_prefix_iff)
  then show ?thesis
    unfolding copy2_def using assms by (intro careful_andthen careful_pure) (simp add: careful_writes)
qed

text \<open>
  \<open>copy2\<close> copies into a target that is a directory; no link may be waiting there. The paths a plan names
  are those of its operations and of its backups.
\<close>

definition plan_paths :: "installer_dry_run \<Rightarrow> pystr set" where
  "plan_paths d = set (map iop_path (dry_operations d)) \<union> set (List.map_filter rop_backup_path (dry_rollback d))"

definition no_trap :: "filesystem \<Rightarrow> path \<Rightarrow> installer_dry_run \<Rightarrow> bool" where
  "no_trap fs cwd d =
     (\<forall>s\<in>plan_paths d. \<forall>p x. resolve fs (join_path cwd s) = Inr p \<longrightarrow> (\<forall>a t. fs (p @ [x]) \<noteq> Some (Link a t)))"

lemma no_trap_free:
  assumes "no_trap fs cwd d" "s \<in> plan_paths d" "resolve fs (join_path cwd s) = Inr p" "x \<noteq> ''..''"
  shows "link_free fs (p @ [x])"
  using assms resolve_link_free [OF assms(3)] unfolding no_trap_def by (intro link_free_snoc) blast+

definition both_roots :: "install_roots \<Rightarrow> path set" where
  "both_roots roots = {rt_workspace roots, rt_user roots}"

lemma root_of_both: "root_of roots scope \<in> both_roots roots"
  by (simp add: root_of_def both_roots_def)

lemma under_root: "is_relative_to p (root_of roots scope) \<Longrightarrow> under_any (both_roots roots) p"
  unfolding under_any_def using root_of_both by blast

lemma careful_target:
  assumes "link_free fs0 (root_of roots (iop_scope p))" "no_trap fs0 cwd d" "p \<in> set (dry_operations d)"
    "\<And>t. link_free fs0 t \<Longrightarrow> under_any (both_roots roots) t \<Longrightarrow> (\<And>x. x \<noteq> ''..'' \<Longrightarrow> link_free fs0 (t @ [x]))
       \<Longrightarrow> careful fs0 rs (f t)"
  shows "careful fs0 rs (andthen (guarded_operation_path cwd roots p) f)"
proof (rule careful_static [OF static_runs(1)])
  fix t assume t: "target_path fs0 cwd roots p = Inr t"
  note tt = target_path_Inr [OF t assms(1)]
  have "iop_path p \<in> plan_paths d" using assms(3) by (auto simp: plan_paths_def)
  from no_trap_free [OF assms(2) this tt(3)] tt(1) under_root [OF tt(2)] show "careful fs0 rs (f t)" by (intro assms(4))
qed

lemma careful_backup:
  assumes "link_free fs0 (root_of roots (iop_scope p))" "no_trap fs0 cwd d" "r \<in> set (dry_rollback d)"
    "\<And>b. link_free fs0 b \<Longrightarrow> under_any (both_roots roots) b \<Longrightarrow> (\<And>x. x \<noteq> ''..'' \<Longrightarrow> link_free fs0 (b @ [x]))
       \<Longrightarrow> careful fs0 rs (f b)"
  shows "careful fs0 rs (andthen (guarded_backup_path cwd roots r p) f)"
proof (rule careful_static [OF static_runs(2)])
  fix b assume b: "backup_path fs0 cwd roots r p = Inr b"
  note bb = backup_path_Inr [OF b assms(1)]
  from bb(3) obtain s where s: "rop_backup_path r = Some s" "resolve fs0 (join_path cwd s) = Inr b" by blast
  have "s \<in> plan_paths d" using assms(3) s(1) by (force simp: plan_paths_def List.map_filter_def)
  from no_trap_free [OF assms(2) this s(2)] bb(1) under_root [OF bb(2)] show "careful fs0 rs (f b)" by (intro assms(4))
qed

lemma careful_key: "(\<And>k. careful fs0 rs (f k)) \<Longrightarrow> careful fs0 rs (andthen (inventory_path roots scope p) f)"
  by (rule careful_static [OF static_runs(3)])

lemma careful_expected: "careful fs0 rs (expected_digest r key)"
  by (auto simp: expected_digest_def intro: careful_pure split: option.split)

lemma careful_undrifted: "careful fs0 rs (undrifted sha key h p)"
  unfolding undrifted_def by (intro careful_andthen careful_pure careful_if careful_read)

lemma link_free_last: "link_free fs p \<Longrightarrow> p \<noteq> [] \<Longrightarrow> last p \<noteq> ''..''"
  unfolding link_free_def by (metis last_in_set)

text \<open>The root directory is no file, so it is never copied.\<close>

lemma careful_copy_saved:
  assumes "link_free fs0 s" "link_free fs0 p" "under_any rs p" "\<And>x. x \<noteq> ''..'' \<Longrightarrow> link_free fs0 (p @ [x])"
  shows "careful fs0 rs (copy2 s p)"
proof (cases "s = []")
  case False
  with careful_copy2 [OF assms(2,3)] assms(4) link_free_last [OF assms(1)] show ?thesis by blast
next
  case True
  show ?thesis
  proof (rule carefulI)
    fix fs x fs' assume fs: "fs [] = Some Directory" and run: "copy2 s p fs = (x, fs')"
    have "read_bytes [] fs = (Inl (os_error ''[Errno 21] Is a directory'' []), fs)" using fs by (simp add: read_bytes_def)
    then have "copy_file [] q fs = (y, fs1) \<Longrightarrow> fs1 = fs" for q y fs1
      by (auto simp: copy_file_def andthen_def split: if_splits)
    with run True have "fs' = fs" by (auto simp: copy2_def)
    then show "tidy rs fs fs'" by simp
  qed
qed

lemma plan_pairs_mem:
  "pr \<in> set (plan_pairs d) \<Longrightarrow> fst pr \<in> set (dry_operations d) \<and> snd pr \<in> set (dry_rollback d)"
  by (cases pr) (auto simp: plan_pairs_def dest: set_zip_leftD set_zip_rightD)

lemmas careful_intros =
  careful_target careful_backup careful_key careful_expected careful_undrifted careful_if careful_pure careful_writes
  careful_copy_saved careful_andthen

lemma careful_pairs:
  assumes "\<And>scope. link_free fs0 (root_of roots scope)" "no_trap fs0 cwd d" "pr \<in> set (plan_pairs d)"
  shows "careful fs0 (both_roots roots) (apply_pair sha cwd roots pr)"
    "careful fs0 (both_roots roots) (rollback_pair sha cwd roots r pr)"
proof -
  have mem: "fst pr \<in> set (dry_operations d)" "snd pr \<in> set (dry_rollback d)" using plan_pairs_mem [OF assms(3)] by auto
  show "careful fs0 (both_roots roots) (apply_pair sha cwd roots pr)"
    "careful fs0 (both_roots roots) (rollback_pair sha cwd roots r pr)"
    unfolding apply_pair_def rollback_pair_def Let_def back_up_def put_back_def
    by (rule careful_intros assms(1,2) mem | blast)+
qed

lemma careful_uninstall_one:
  assumes "\<And>scope. link_free fs0 (root_of roots scope)" "no_trap fs0 cwd d" "p \<in> set (dry_operations d)"
  shows "careful fs0 (both_roots roots) (uninstall_one sha cwd roots r p)"
  unfolding uninstall_one_def by (rule careful_intros assms | blast)+

lemma resolved_roots_Inr:
  assumes "fst (resolved_roots w u fs) = Inr roots"
  shows "resolve fs w = Inr (rt_workspace roots)" "resolve fs u = Inr (rt_user roots)" "link_free fs (root_of roots scope)"
proof -
  show *: "resolve fs w = Inr (rt_workspace roots)" "resolve fs u = Inr (rt_user roots)"
    using assms by (auto simp: resolved_roots_def resolving_def andthen_def split: sum.splits)
  then show "link_free fs (root_of roots scope)" by (auto simp: root_of_def intro: resolve_link_free)
qed

lemma careful_roots:
  assumes "\<And>roots. fst (resolved_roots w u fs0) = Inr roots \<Longrightarrow> careful fs0 rs (f roots)"
  shows "careful fs0 rs (andthen (resolved_roots w u) f)"
  by (rule careful_static [OF static_runs(4)], assumption, rule assms)

lemma careful_checks: "careful fs0 rs (approval_given ref)" "careful fs0 rs (check_inventory d r)"
  unfolding approval_given_def check_inventory_def by (intro careful_if careful_pure)+

lemma careful_check_plan: "careful fs0 rs (check_apply_plan cwd roots d)"
proof -
  have "careful fs0 rs (check_apply_pair cwd roots pr)" for pr
    unfolding check_apply_pair_def
    by (intro careful_static [OF static_runs(1)] careful_static [OF static_runs(2)] careful_pure)
  then show ?thesis unfolding check_apply_plan_def by (intro careful_if careful_pure careful_andthen careful_each)
qed

lemma careful_installer:
  assumes "no_trap fs0 cwd d" "\<And>roots. fst (resolved_roots w u fs0) = Inr roots \<Longrightarrow> both_roots roots = rs"
  shows "careful fs0 rs (apply_plugin_installer_plan sha cwd w u ref d)"
    "careful fs0 rs (uninstall_plugin_installation sha cwd w u ref d r)"
    "careful fs0 rs (rollback_plugin_installation sha cwd w u ref d r)"
proof -
  have pairs: "careful fs0 rs (apply_pair sha cwd roots pr)" "careful fs0 rs (rollback_pair sha cwd roots r pr)"
    if "fst (resolved_roots w u fs0) = Inr roots" "pr \<in> set (plan_pairs d)" for roots pr
    using careful_pairs [OF resolved_roots_Inr(3) [OF that(1)] assms(1) that(2)] assms(2) [OF that(1)] by simp_all
  have one: "careful fs0 rs (uninstall_one sha cwd roots r p)"
    if "fst (resolved_roots w u fs0) = Inr roots" "p \<in> set (dry_operations d)" for roots p
    using careful_uninstall_one [OF resolved_roots_Inr(3) [OF that(1)] assms(1) that(2)] assms(2) [OF that(1)] by simp
  note steps = careful_checks careful_check_plan careful_roots careful_each careful_pure pairs one careful_andthen
  show "careful fs0 rs (apply_plugin_installer_plan sha cwd w u ref d)"
    "careful fs0 rs (uninstall_plugin_installation sha cwd w u ref d r)"
    "careful fs0 rs (rollback_plugin_installation sha cwd w u ref d r)"
    unfolding apply_plugin_installer_plan_def uninstall_plugin_installation_def rollback_plugin_installation_def Let_def
    by (rule steps | assumption)+
qed

text \<open>
  C40: applying, uninstalling or rolling back a plug-in plan, whatever paths the plan names and
  whether or not the operation succeeds, changes only files under the resolved workspace and user roots, and
  above them adds at most directories; provided that no file or backup of the plan is a directory
  with a link in it.
\<close>

theorem plugin_installer_confined:
  assumes "fs [] = Some Directory" "no_trap fs cwd d" "resolve fs workspace = Inr w" "resolve fs user = Inr u"
    "(result, fs') \<in> {apply_plugin_installer_plan sha cwd workspace user ref d fs,
       uninstall_plugin_installation sha cwd workspace user ref d r fs,
       rollback_plugin_installation sha cwd workspace user ref d r fs}"
  shows "fs' q = fs q \<or> is_relative_to q w \<or> is_relative_to q u
    \<or> (fs q = None \<and> fs' q = Some Directory \<and> (is_relative_to w q \<or> is_relative_to u q))"
proof -
  have "both_roots roots = {w, u}" if "fst (resolved_roots workspace user fs) = Inr roots" for roots
    using resolved_roots_Inr(1,2) [OF that] assms(3,4) by (simp add: both_roots_def)
  note careful = careful_installer [OF assms(2) this]
  from assms(5) have "tidy {w, u} fs fs'"
    by (auto intro: carefulD [OF careful(1) same_links_refl assms(1)] carefulD [OF careful(2) same_links_refl assms(1)]
        carefulD [OF careful(3) same_links_refl assms(1)] dest: sym)
  from tidyD(3) [OF this, of q] show ?thesis by (auto simp: under_any_def)
qed

section \<open>Rolling back what was applied\<close>

text \<open>What applying one operation does to its target and its backup.\<close>

definition applied_one :: "path \<Rightarrow> path \<Rightarrow> pystr \<Rightarrow> filesystem \<Rightarrow> filesystem \<Rightarrow> bool" where
  "applied_one t b payload fs fs' =
     (rooted fs' \<and> same_links fs fs' \<and> fs' t = Some (File payload)
      \<and> (\<forall>q. q \<notin> {t, b} \<longrightarrow> fs' q = fs q \<or> (fs q = None \<and> fs' q = Some Directory))
      \<and> (case fs t of None \<Rightarrow> fs' b = fs b \<or> (fs b = None \<and> fs' b = Some Directory)
         | Some v \<Rightarrow> fs' b = Some v \<and> (\<exists>c. v = File c)))"

lemma make_dirs_parent:
  assumes "make_dirs (butlast p) fs = (x, fs')" "rooted fs"
  shows "fs' p = fs p" "fs' q = fs q \<or> (fs q = None \<and> fs' q = Some Directory)"
proof -
  have "\<not> is_prefix_of p (butlast p)" if "p \<noteq> []"
  proof
    assume "is_prefix_of p (butlast p)"
    then obtain u where "butlast p = p @ u" by (auto simp: is_prefix_iff)
    then have "length p - 1 = length p + length u" by (metis length_append length_butlast)
    with that show False by (cases p) auto
  qed
  with make_dirs_changes [OF assms(1), of p] rooted_top [OF assms(2)] show "fs' p = fs p" by (cases "p = []") auto
  show "fs' q = fs q \<or> (fs q = None \<and> fs' q = Some Directory)" using make_dirs_changes [OF assms(1), of q] by auto
qed

lemma make_dirs_links: "make_dirs p fs = (x, fs') \<Longrightarrow> same_links fs fs'"
  unfolding same_links_def using make_dirs_changes by (metis node.distinct(5) option.distinct(1) option.inject)

lemma put_links:
  "link_free fs p \<Longrightarrow> rooted fs \<Longrightarrow> (\<And>a t. v \<noteq> Some (Link a t)) \<Longrightarrow> same_links fs (fs(p := v))"
  using link_free_no_link [of fs p] rooted_top [of fs] by (auto simp: same_links_def)

text \<open>The backup of an existing target: a copy of it, unless the backup is a directory.\<close>

lemma back_up_Inr:
  assumes "back_up roots scope t b fs = (Inr saved, fs')" "rooted fs" "link_free fs t" "link_free fs b"
    "fs' b \<noteq> Some Directory" "t \<noteq> b"
  shows "rooted fs' \<and> same_links fs fs' \<and> fs' t = fs t \<and> (\<forall>q. q \<noteq> b \<longrightarrow> fs' q = fs q \<or> (fs q = None \<and> fs' q = Some Directory))
    \<and> (case fs t of None \<Rightarrow> fs' b = fs b | Some v \<Rightarrow> fs' b = Some v \<and> (\<exists>c. v = File c))"
proof (cases "fs t = None")
  case True
  with assms show ?thesis by (auto simp: back_up_def rooted_exists andthen_def)
next
  case False
  then have "path_exists fs t" using rooted_exists assms(2,3) by blast
  with assms(1) obtain fs1 fs2 key where run: "make_dirs (butlast b) fs = (Inr (), fs1)" "copy2 t b fs1 = (Inr (), fs2)"
    and last: "inventory_path roots scope b fs2 = (Inr key, fs')"
    by (auto simp: back_up_def elim!: andthen_InrE)
  have fs': "fs' = fs2"
    using last static_runs(3) [OF same_links_refl, of roots scope b fs2] by simp
  note one = make_dirs_parent [OF run(1) assms(2)] make_dirs_links [OF run(1)]
  have r1: "rooted fs1" using rooted_make_dirs [OF run(1) assms(2)] by simp
  have free: "link_free fs1 t" "link_free fs1 b" using same_links_link_free [OF one(3)] assms(3,4) by simp_all
  have "fs1 b \<noteq> Some Directory"
  proof
    assume dir: "fs1 b = Some Directory"
    then have "is_dir fs1 b" using rooted_is_dir [OF r1 free(2)] by simp
    with run(2) have "copy_file t (b @ [last t]) fs1 = (Inr (), fs2)" by (simp add: copy2_def)
    then obtain c where "write_bytes (b @ [last t]) c fs1 = (Inr (), fs2)"
      by (auto simp: copy_file_def dest: read_bytes_state elim!: andthen_InrE split: if_splits)
    then have "fs2 b = Some Directory" using dir
      by (auto simp: write_bytes_def split: option.splits if_splits)
    with assms(5) fs' show False by simp
  qed
  from rooted_copy2_Inr [OF run(2) r1 free this] obtain c where
    c: "fs1 t = Some (File c)" "fs2 = fs1(b := Some (File c))" "rooted fs2" by blast
  have t: "fs t = Some (File c)" using c(1) one(2) [of t] False by auto
  have "same_links fs fs2"
    using one(3) put_links [OF free(2) r1] unfolding c(2) by (blast intro: same_links_trans)
  with c t one assms(6) show ?thesis by (auto simp: fs')
qed

lemma apply_pair_Inr:
  assumes "apply_pair sha cwd roots pr fs = (Inr ((k, h), saved), fs')" "rooted fs" "same_links fs0 fs"
    "link_free fs0 (root_of roots (iop_scope (fst pr)))"
    "target_path fs0 cwd roots (fst pr) = Inr t" "backup_path fs0 cwd roots (snd pr) (fst pr) = Inr b"
    "fs' b \<noteq> Some Directory" "t \<noteq> b"
  shows "applied_one t b (canonical_json_bytes (iop_content (fst pr))) fs fs'
    \<and> inventory_key fs0 roots (iop_scope (fst pr)) t = Inr k \<and> h = sha (canonical_json_bytes (iop_content (fst pr)))"
proof -
  let ?payload = "canonical_json_bytes (iop_content (fst pr))" and ?scope = "iop_scope (fst pr)"
  have free: "link_free fs t" "link_free fs b"
    using target_path_Inr(1) [OF assms(5,4)] backup_path_Inr(1) [OF assms(6,4)] same_links_link_free [OF assms(3)] by simp_all
  from assms(1) static_runs(1,2) [OF assms(3)] assms(5,6)
  have "andthen (make_dirs (butlast t)) (\<lambda>_. andthen (back_up roots ?scope t b) (\<lambda>saved.
      andthen (write_bytes t ?payload) (\<lambda>_. andthen (inventory_path roots ?scope t) (\<lambda>key.
      ret ((key, sha ?payload), saved))))) fs = (Inr ((k, h), saved), fs')"
    by (simp add: apply_pair_def Let_def andthen_def)
  then obtain fs1 fs2 fs3 where run: "make_dirs (butlast t) fs = (Inr (), fs1)"
    "back_up roots ?scope t b fs1 = (Inr saved, fs2)" "write_bytes t ?payload fs2 = (Inr (), fs3)"
    and last: "inventory_path roots ?scope t fs3 = (Inr k, fs')" "h = sha ?payload"
    by (auto elim!: andthen_InrE)
  note one = make_dirs_parent [OF run(1) assms(2)] make_dirs_links [OF run(1)]
  have r1: "rooted fs1" using rooted_make_dirs [OF run(1) assms(2)] by simp
  have free1: "link_free fs1 t" "link_free fs1 b" using same_links_link_free [OF one(3)] free by simp_all
  have fs': "fs' = fs3" using last(1) static_runs(3) [OF same_links_refl, of roots ?scope t fs3] by simp
  have "fs2 b \<noteq> Some Directory"
    using run(3) assms(7) unfolding fs' by (auto simp: write_bytes_def split: option.splits if_splits)
  note saved = back_up_Inr [OF run(2) r1 free1 this assms(8)]
  have "link_free fs2 t" using saved same_links_link_free free1(1) by blast
  from rooted_write_Inr [OF run(3) _ this] saved have put: "fs3 = fs2(t := Some (File ?payload))" "rooted fs3" by auto
  have links: "same_links fs fs3"
    using one(3) saved put_links [OF \<open>link_free fs2 t\<close>] unfolding put(1) by (blast intro: same_links_trans)
  have key: "inventory_key fs0 roots ?scope t = Inr k"
    using last(1) static_runs(3) [OF same_links_trans [OF assms(3) links], of roots ?scope t] by simp
  have other: "fs3 q = fs q \<or> (fs q = None \<and> fs3 q = Some Directory)" if "q \<notin> {t, b}" for q
    using that one(2) [of q] saved put(1) by auto
  have "case fs t of None \<Rightarrow> fs3 b = fs b \<or> (fs b = None \<and> fs3 b = Some Directory)
      | Some v \<Rightarrow> fs3 b = Some v \<and> (\<exists>c. v = File c)"
    using saved one(1) one(2) [of b] assms(8) put(1) by (auto split: option.splits)
  with put links other key last(2) show ?thesis by (auto simp: applied_one_def fs')
qed

text \<open>A directory stays one.\<close>

lemma dir_stays_basic:
  "obeys (keeping (\<lambda>fs. fs b = Some Directory)) (make_dirs p)"
  "obeys (keeping (\<lambda>fs. fs b = Some Directory)) (read_bytes p)"
  "obeys (keeping (\<lambda>fs. fs b = Some Directory)) (write_bytes p c)"
  "obeys (keeping (\<lambda>fs. fs b = Some Directory)) (resolving p)"
proof -
  show "obeys (keeping (\<lambda>fs. fs b = Some Directory)) (make_dirs p)"
  proof (rule keepingI)
    fix fs :: filesystem assume dir: "fs b = Some Directory"
    then show "snd (make_dirs p fs) b = Some Directory"
      using make_dirs_changes [of p fs "fst (make_dirs p fs)" "snd (make_dirs p fs)" b] by fastforce
  qed
  show "obeys (keeping (\<lambda>fs. fs b = Some Directory)) (write_bytes p c)"
    by (rule keepingI) (auto simp: write_bytes_def split: option.split)
  show "obeys (keeping (\<lambda>fs. fs b = Some Directory)) (read_bytes p)"
    by (rule keepingI) (metis prod.collapse read_bytes_state)
  show "obeys (keeping (\<lambda>fs. fs b = Some Directory)) (resolving p)"
    by (rule keepingI) (simp add: resolving_def)
qed

lemma dir_stays:
  "obeys (keeping (\<lambda>fs. fs b = Some Directory)) (each_proc (apply_pair sha cwd roots) prs)"
  unfolding apply_pair_def back_up_def copy2_def copy_file_def guarded_operation_path_def guarded_backup_path_def
    inventory_path_def path_is_under_def resolve_text_def Let_def
  by (intro invariant.effect_intros dir_stays_basic)

text \<open>The targets, backups and keys of a plan, as they resolve in the file system it is applied to.\<close>

definition target_of_pair :: "filesystem \<Rightarrow> path \<Rightarrow> install_roots \<Rightarrow> install_operation \<times> rollback_operation \<Rightarrow> path" where
  "target_of_pair fs cwd roots pr = (case target_path fs cwd roots (fst pr) of Inr t \<Rightarrow> t | Inl _ \<Rightarrow> [])"

definition backup_of_pair :: "filesystem \<Rightarrow> path \<Rightarrow> install_roots \<Rightarrow> install_operation \<times> rollback_operation \<Rightarrow> path" where
  "backup_of_pair fs cwd roots pr = (case backup_path fs cwd roots (snd pr) (fst pr) of Inr b \<Rightarrow> b | Inl _ \<Rightarrow> [])"

definition key_of_pair :: "filesystem \<Rightarrow> path \<Rightarrow> install_roots \<Rightarrow> install_operation \<times> rollback_operation \<Rightarrow> pystr" where
  "key_of_pair fs cwd roots pr =
     (case inventory_key fs roots (iop_scope (fst pr)) (target_of_pair fs cwd roots pr) of Inr k \<Rightarrow> k | Inl _ \<Rightarrow> [])"

definition pair_content :: "install_operation \<times> rollback_operation \<Rightarrow> pystr" where
  "pair_content pr = canonical_json_bytes (iop_content (fst pr))"

definition saved_one :: "path \<Rightarrow> path \<Rightarrow> pystr \<Rightarrow> filesystem \<Rightarrow> filesystem \<Rightarrow> bool" where
  "saved_one t b content fs fs' =
     (fs' t = Some (File content)
      \<and> (case fs t of None \<Rightarrow> fs' b = fs b | Some v \<Rightarrow> fs' b = Some v \<and> (\<exists>c. v = File c)))"

lemma apply_pair_paths:
  assumes "apply_pair sha cwd roots pr fs = (Inr x, fs')" "same_links fs0 fs"
  shows "target_path fs0 cwd roots (fst pr) = Inr (target_of_pair fs0 cwd roots pr)"
    "backup_path fs0 cwd roots (snd pr) (fst pr) = Inr (backup_of_pair fs0 cwd roots pr)"
  using assms(1) static_runs(1,2) [OF assms(2)]
  by (auto simp: apply_pair_def Let_def andthen_def target_of_pair_def backup_of_pair_def split: sum.splits)

definition made_dir :: "filesystem \<Rightarrow> filesystem \<Rightarrow> path \<Rightarrow> bool" where
  "made_dir fs fs' q = (fs' q = fs q \<or> (fs q = None \<and> fs' q = Some Directory))"

lemma saved_one_earlier:
  assumes "saved_one t b c fs1 fs'" "made_dir fs fs1 t" "made_dir fs fs1 b" "fs' b \<noteq> Some Directory"
  shows "saved_one t b c fs fs'"
  using assms by (auto simp: saved_one_def made_dir_def split: option.splits)

lemma saved_one_later:
  assumes "applied_one t b c fs fs1" "made_dir fs1 fs' t" "made_dir fs1 fs' b" "fs' b \<noteq> Some Directory"
  shows "saved_one t b c fs fs'"
  using assms by (auto simp: saved_one_def applied_one_def made_dir_def split: option.splits)

definition resolved_pair :: "filesystem \<Rightarrow> path \<Rightarrow> install_roots \<Rightarrow> install_operation \<times> rollback_operation \<Rightarrow> bool" where
  "resolved_pair fs cwd roots pr =
     (target_path fs cwd roots (fst pr) = Inr (target_of_pair fs cwd roots pr)
      \<and> backup_path fs cwd roots (snd pr) (fst pr) = Inr (backup_of_pair fs cwd roots pr)
      \<and> inventory_key fs roots (iop_scope (fst pr)) (target_of_pair fs cwd roots pr) = Inr (key_of_pair fs cwd roots pr))"

definition pair_paths :: "filesystem \<Rightarrow> path \<Rightarrow> install_roots \<Rightarrow> (install_operation \<times> rollback_operation) list \<Rightarrow> path list" where
  "pair_paths fs cwd roots prs = map (target_of_pair fs cwd roots) prs @ map (backup_of_pair fs cwd roots) prs"

lemma pair_paths_Cons:
  assumes "distinct (pair_paths fs cwd roots (pr # prs))"
  shows "target_of_pair fs cwd roots pr \<noteq> backup_of_pair fs cwd roots pr"
    "target_of_pair fs cwd roots pr \<notin> set (pair_paths fs cwd roots prs)"
    "backup_of_pair fs cwd roots pr \<notin> set (pair_paths fs cwd roots prs)"
    "distinct (pair_paths fs cwd roots prs)"
  using assms by (auto simp: pair_paths_def)

lemma pair_paths_mem:
  "p \<in> set prs \<Longrightarrow> target_of_pair fs cwd roots p \<in> set (pair_paths fs cwd roots prs)"
  "p \<in> set prs \<Longrightarrow> backup_of_pair fs cwd roots p \<in> set (pair_paths fs cwd roots prs)"
  by (auto simp: pair_paths_def)

lemma apply_pairs_Inr:
  assumes "each_proc (apply_pair sha cwd roots) prs fs = (Inr applied, fs')" "rooted fs" "same_links fs0 fs"
    "\<And>scope. link_free fs0 (root_of roots scope)" "distinct (pair_paths fs0 cwd roots prs)"
    "\<forall>pr\<in>set prs. fs' (backup_of_pair fs0 cwd roots pr) \<noteq> Some Directory"
  shows "rooted fs' \<and> same_links fs fs'
    \<and> map fst applied = map (\<lambda>pr. (key_of_pair fs0 cwd roots pr, sha (pair_content pr))) prs
    \<and> list_all (resolved_pair fs0 cwd roots) prs
    \<and> list_all (\<lambda>pr. saved_one (target_of_pair fs0 cwd roots pr) (backup_of_pair fs0 cwd roots pr) (pair_content pr) fs fs') prs
    \<and> (\<forall>q. q \<notin> set (pair_paths fs0 cwd roots prs) \<longrightarrow> made_dir fs fs' q)"
  using assms(1,2,3,5,6)
proof (induction prs arbitrary: fs applied)
  case Nil
  then show ?case by (simp add: made_dir_def)
next
  case (Cons pr prs)
  let ?t = "target_of_pair fs0 cwd roots" and ?b = "backup_of_pair fs0 cwd roots"
  from Cons.prems(1) obtain k h saved fs1 rest where run: "apply_pair sha cwd roots pr fs = (Inr ((k, h), saved), fs1)"
    "each_proc (apply_pair sha cwd roots) prs fs1 = (Inr rest, fs')" "applied = ((k, h), saved) # rest"
    by (auto elim!: andthen_InrE)
  note paths = apply_pair_paths [OF run(1) Cons.prems(3)]
  note mine = pair_paths_Cons [OF Cons.prems(4)]
  have no_dir: "fs' (?b p) \<noteq> Some Directory" if "p \<in> set (pr # prs)" for p using Cons.prems(5) that by blast
  have "fs1 (?b pr) \<noteq> Some Directory"
    using keepingD [OF dir_stays [of "?b pr"] _ run(2)] no_dir [of pr] by auto
  then have one: "applied_one (?t pr) (?b pr) (pair_content pr) fs fs1"
    "inventory_key fs0 roots (iop_scope (fst pr)) (?t pr) = Inr k" "h = sha (pair_content pr)"
    using apply_pair_Inr [OF run(1) Cons.prems(2,3) assms(4) paths _ mine(1)] by (simp_all add: pair_content_def)
  have r1: "rooted fs1" and links1: "same_links fs fs1" using one(1) by (simp_all add: applied_one_def)
  have k: "k = key_of_pair fs0 cwd roots pr" using one(2) by (simp add: key_of_pair_def)
  have "\<forall>p\<in>set prs. fs' (?b p) \<noteq> Some Directory" using no_dir by simp
  note IH = Cons.IH [OF run(2) r1 same_links_trans [OF Cons.prems(3) links1] mine(4) this]
  have first: "made_dir fs fs1 q" if "q \<notin> {?t pr, ?b pr}" for q
    using one(1) that by (auto simp: applied_one_def made_dir_def)
  have later: "made_dir fs1 fs' q" if "q \<notin> set (pair_paths fs0 cwd roots prs)" for q
    using IH that by blast
  have "saved_one (?t pr) (?b pr) (pair_content pr) fs fs'"
    by (rule saved_one_later [OF one(1) later later no_dir]) (use mine in simp_all)
  moreover have "saved_one (?t p) (?b p) (pair_content p) fs fs'" if "p \<in> set prs" for p
  proof (rule saved_one_earlier)
    show "saved_one (?t p) (?b p) (pair_content p) fs1 fs'" using IH that by (simp only: list_all_iff)
    show "made_dir fs fs1 (?t p)" "made_dir fs fs1 (?b p)"
      using mine(2,3) pair_paths_mem [OF that, of fs0 cwd roots] by (metis empty_iff first insert_iff)+
    show "fs' (?b p) \<noteq> Some Directory" using no_dir that by simp
  qed
  moreover have "made_dir fs fs' q" if "q \<notin> set (pair_paths fs0 cwd roots (pr # prs))" for q
    using first [of q] later [of q] that by (auto simp: made_dir_def pair_paths_def)
  moreover have "same_links fs fs'" using IH links1 same_links_trans by blast
  moreover have "resolved_pair fs0 cwd roots pr" using paths one(2) k by (simp add: resolved_pair_def)
  ultimately show ?case using IH run(3) one(3) k by (simp add: list_all_iff)
qed

text \<open>Rolling back one operation puts the contents of its backup, or nothing, at its target.\<close>

lemma rollback_pair_run:
  assumes "rooted fs" "same_links fs0 fs" "link_free fs0 (root_of roots (iop_scope (fst pr)))"
    "target_path fs0 cwd roots (fst pr) = Inr t" "backup_path fs0 cwd roots (snd pr) (fst pr) = Inr b"
    "inventory_key fs0 roots (iop_scope (fst pr)) t = Inr k" "dict_get k (pi_applied_config_hashes r) = Some (sha content)"
    "fs t = Some (File content)" "fs b = None \<or> (\<exists>c. fs b = Some (File c))" "t \<noteq> b"
  shows "rollback_pair sha cwd roots r pr fs = (Inr (), fs(t := fs b))" "rooted (fs(t := fs b))" "same_links fs (fs(t := fs b))"
proof -
  have free: "link_free fs t" "link_free fs b"
    using target_path_Inr(1) [OF assms(4,3)] backup_path_Inr(1) [OF assms(5,3)] same_links_link_free [OF assms(2)] by simp_all
  have top: "t \<noteq> []" using assms(1,8) by auto
  have parent: "fs (butlast t) = Some Directory"
    using rooted_parent [OF assms(1), of "butlast t" "[last t]"] assms(8) top by simp
  have here: "undrifted sha k (sha content) t fs = (Inr True, fs)"
    using assms(1,8) free(1) by (simp add: undrifted_def andthen_def rooted_exists rooted_read)
  have "put_back t b True fs = (Inr (), fs(t := fs b))"
  proof (cases "fs b")
    case None
    with assms(1,8) free(2) show ?thesis by (simp add: put_back_def rooted_exists unlink_def)
  next
    case (Some v)
    with assms(9) obtain c where "fs b = Some (File c)" by auto
    with rooted_copy2_over [OF assms(1) free(2,1) _ this assms(8)] assms(1,10) free(2) parent show ?thesis
      by (simp add: put_back_def rooted_exists andthen_def make_dirs_there)
  qed
  with here show "rollback_pair sha cwd roots r pr fs = (Inr (), fs(t := fs b))"
    using static_runs(1,2,3) [OF assms(2)] assms(4,5,6,7)
    by (simp add: rollback_pair_def andthen_def expected_digest_def)
  show "rooted (fs(t := fs b))"
    using assms(9) rooted_remove [OF assms(1,8)] rooted_put [OF assms(1) _ top parent] assms(8) by auto
  show "same_links fs (fs(t := fs b))"
    using assms(9) by (intro put_links [OF free(1) assms(1)]) auto
qed

lemma rollback_pairs_run:
  assumes "rooted fs" "same_links fs0 fs" "\<And>scope. link_free fs0 (root_of roots scope)"
    "distinct (pair_paths fs0 cwd roots prs)" "list_all (resolved_pair fs0 cwd roots) prs"
    "\<forall>pr\<in>set prs. dict_get (key_of_pair fs0 cwd roots pr) (pi_applied_config_hashes r) = Some (sha (pair_content pr))"
    "\<forall>pr\<in>set prs. fs (target_of_pair fs0 cwd roots pr) = Some (File (pair_content pr))"
    "\<forall>pr\<in>set prs. fs (backup_of_pair fs0 cwd roots pr) = None \<or> (\<exists>c. fs (backup_of_pair fs0 cwd roots pr) = Some (File c))"
  shows "\<exists>rs fs'. each_proc (rollback_pair sha cwd roots r) prs fs = (Inr rs, fs')
    \<and> (\<forall>pr\<in>set prs. fs' (target_of_pair fs0 cwd roots pr) = fs (backup_of_pair fs0 cwd roots pr))
    \<and> (\<forall>q. q \<notin> set (map (target_of_pair fs0 cwd roots) prs) \<longrightarrow> fs' q = fs q)"
  using assms(1,2,4-)
proof (induction prs arbitrary: fs)
  case Nil
  then show ?case by simp
next
  case (Cons pr prs)
  let ?t = "target_of_pair fs0 cwd roots" and ?b = "backup_of_pair fs0 cwd roots"
  let ?fs1 = "fs(?t pr := fs (?b pr))"
  note mine = pair_paths_Cons [OF Cons.prems(3)]
  have first: "rollback_pair sha cwd roots r pr fs = (Inr (), ?fs1)" "rooted ?fs1" "same_links fs ?fs1"
    using rollback_pair_run [OF Cons.prems(1,2) assms(3), where pr = pr and t = "?t pr" and b = "?b pr" and
        content = "pair_content pr" and cwd = cwd and r = r and sha = sha]
      Cons.prems(4-) mine(1) by (simp_all add: resolved_pair_def)
  have keep: "?fs1 (?t p) = fs (?t p)" "?fs1 (?b p) = fs (?b p)" if "p \<in> set prs" for p
    using mine(2) pair_paths_mem [OF that, of fs0 cwd roots] by auto
  have "\<forall>p\<in>set prs. ?fs1 (?t p) = Some (File (pair_content p))"
    "\<forall>p\<in>set prs. ?fs1 (?b p) = None \<or> (\<exists>c. ?fs1 (?b p) = Some (File c))"
    using Cons.prems(6,7) keep by auto
  note now = this
  have "list_all (resolved_pair fs0 cwd roots) prs"
    "\<forall>p\<in>set prs. dict_get (key_of_pair fs0 cwd roots p) (pi_applied_config_hashes r) = Some (sha (pair_content p))"
    using Cons.prems(4,5) by simp_all
  from Cons.IH [OF first(2) same_links_trans [OF Cons.prems(2) first(3)] mine(4) this now]
  obtain rs fs' where rs: "each_proc (rollback_pair sha cwd roots r) prs ?fs1 = (Inr rs, fs')"
    "\<forall>p\<in>set prs. fs' (?t p) = ?fs1 (?b p)" "\<forall>q. q \<notin> set (map ?t prs) \<longrightarrow> fs' q = ?fs1 q" by blast
  have run: "each_proc (rollback_pair sha cwd roots r) (pr # prs) fs = (Inr (() # rs), fs')"
    using first(1) rs(1) by (simp add: andthen_def)
  have "fs' (?t pr) = fs (?b pr)" using rs(3) mine(2) by (simp add: pair_paths_def)
  then have "fs' (?t p) = fs (?b p)" if "p \<in> set (pr # prs)" for p
    using that rs(2) keep(2) by auto
  moreover have "fs' q = fs q" if "q \<notin> set (map ?t (pr # prs))" for q
    using that rs(3) by simp
  ultimately show ?case using run by blast
qed

lemma dict_set_new: "k \<notin> fst ` set d \<Longrightarrow> dict_set k v d = d @ [(k, v)]"
  by (induction d) auto

lemma fold_dict_set_new:
  "distinct (map fst (d @ kvs)) \<Longrightarrow> fold (\<lambda>(k, v). dict_set k v) kvs d = d @ kvs"
proof (induction kvs arbitrary: d)
  case (Cons kv kvs)
  have "dict_set (fst kv) (snd kv) d = d @ [kv]" using Cons.prems by (subst dict_set_new) auto
  with Cons.IH [of "d @ [kv]"] Cons.prems show ?case by (simp add: split_beta)
qed simp

lemma dict_get_sorted: "distinct (map fst d) \<Longrightarrow> dict_get k (sort_key fst d) = dict_get k (d :: ('k::linorder \<times> 'v) list)"
proof -
  assume d: "distinct (map fst d)"
  have "mset (map fst (sort_key fst d)) = mset (map fst d)" by simp
  then have "distinct (map fst (sort_key fst d))" using d by (metis mset_eq_imp_distinct_iff)
  with d have "map_of (sort_key fst d) = map_of d" by (simp add: map_of_inject_set)
  then show ?thesis by (simp add: dict_get_def)
qed

lemma approval_given_Inr:
  "approval_given ref fs = (Inr (), fs') \<Longrightarrow> approval_given ref = ret () \<and> safe_text ref \<and> fs' = fs"
  by (auto simp: approval_given_def split: if_splits)

lemma static_each: "(\<And>x. static fs0 (f x)) \<Longrightarrow> static fs0 (each_proc f xs)"
proof (induction xs)
  case Nil
  show ?case by (simp add: static_def)
next
  case (Cons x xs)
  then show ?case using static_pure(1) unfolding each_proc.simps by (intro static_andthen) blast+
qed

lemma static_check_plan: "static fs0 (check_apply_plan cwd roots d)"
  unfolding check_apply_plan_def check_apply_pair_def by (intro static_intros static_each static_steps)

lemma apply_plan_Inr:
  assumes "apply_plugin_installer_plan sha cwd workspace user ref d fs = (Inr res, fs')"
    "resolve fs workspace = Inr (rt_workspace roots)" "resolve fs user = Inr (rt_user roots)"
  obtains applied where "each_proc (apply_pair sha cwd roots) (plan_pairs d) fs = (Inr applied, fs')"
    "opr_inventory res = (applied_inventory d (fold (\<lambda>(k, v). dict_set k v) (map fst applied) []) (concat (map snd applied)))
       \<lparr>pi_applied_config_hashes := sort_key fst (fold (\<lambda>(k, v). dict_set k v) (map fst applied) [])\<rparr>"
    "approval_given ref = ret ()" "plugin_identifier (dry_plugin_id d)" "list_all safe_text (concat (map snd applied))"
    "bounded 1 300 (''Applied reviewed plugin dry-run with approval '' @ ref @ ''.'')" "safe_text ref"
proof -
  let ?hashes = "\<lambda>applied. fold (\<lambda>(k, v). dict_set k v) (map fst applied) []"
  let ?backups = "\<lambda>applied. concat (map snd applied)"
  have roots: "resolved_roots workspace user fs = (Inr roots, fs)"
    using assms(2,3) by (simp add: resolved_roots_def resolving_def andthen_def)
  from assms(1) obtain fs0 roots' fs1 fs2 applied fs3 inventory where steps:
    "approval_given ref fs = (Inr (), fs0)" "resolved_roots workspace user fs0 = (Inr roots', fs1)"
    "check_apply_plan cwd roots' d fs1 = (Inr (), fs2)"
    "each_proc (apply_pair sha cwd roots') (plan_pairs d) fs2 = (Inr applied, fs3)"
    "parse_plugin_inventory_record (applied_inventory d (?hashes applied) (?backups applied)) = Inr inventory"
    "checked ''PluginOperationResult'' valid_operation_result
       \<lparr>opr_plugin_id = dry_plugin_id d, opr_target_client = dry_target_client d, opr_version = dry_version d,
        opr_operation = ''apply'', opr_status = ''applied'', opr_writes_performed = length applied,
        opr_applied_config_hashes = sort_key fst (?hashes applied), opr_backup_paths = ?backups applied,
        opr_inventory = inventory,
        opr_evidence = ''Applied reviewed plugin dry-run with approval '' @ ref @ ''.''\<rparr> = Inr res" "fs' = fs3"
    unfolding apply_plugin_installer_plan_def Let_def
    by (elim andthen_InrE) (auto simp: lift_result_def)
  note given = approval_given_Inr [OF steps(1)]
  have same: "fs0 = fs" "roots' = roots" "fs1 = fs" using given steps(2) roots by simp_all
  have "fs2 = fs"
    using staticD [OF static_check_plan same_links_refl, of cwd roots d fs] steps(3) same by (metis snd_conv)
  show thesis
  proof (rule that)
    show "each_proc (apply_pair sha cwd roots) (plan_pairs d) fs = (Inr applied, fs')"
      using steps(4,7) same \<open>fs2 = fs\<close> by simp
    show "approval_given ref = ret ()" "safe_text ref" using given by auto
    show "opr_inventory res = (applied_inventory d (?hashes applied) (?backups applied))
       \<lparr>pi_applied_config_hashes := sort_key fst (?hashes applied)\<rparr>"
      using steps(5,6) by (auto simp: parse_plugin_inventory_record_def checked_def applied_inventory_def split: if_splits)
    show "plugin_identifier (dry_plugin_id d)" "list_all safe_text (?backups applied)"
      "bounded 1 300 (''Applied reviewed plugin dry-run with approval '' @ ref @ ''.'')"
      using steps(6) by (simp_all add: checked_def valid_operation_result_def split: if_splits)
  qed
qed

lemma rollback_plan_run:
  assumes "approval_given ref = ret ()" "fst (resolved_roots workspace user fs0) = Inr roots" "same_links fs0 fs"
    "check_inventory d r = ret ()" "each_proc (rollback_pair sha cwd roots r) (plan_pairs d) fs = (Inr rs, fs')"
    "plugin_identifier (dry_plugin_id d)" "list_all safe_text (pi_backup_paths r)" "safe_text ref"
    "bounded 1 300 (''Applied reviewed plugin dry-run with approval '' @ ref @ ''.'')"
  shows "\<exists>res. rollback_plugin_installation sha cwd workspace user ref d r fs = (Inr res, fs')"
proof -
  have "bounded 1 300 (''Rolled back plugin config with approval '' @ ref @ ''.'')"
    using assms(9) by (simp add: bounded_def)
  moreover have "safe_text (''Rolled back plugin config with approval '' @ ref @ ''.'')"
    using assms(8) by (simp add: safe_text_def has_any_def control_separators_def)
  ultimately show ?thesis
    using assms static_runs(4) [OF assms(3), of workspace user]
    by (simp add: rollback_plugin_installation_def andthen_def checked_def valid_operation_result_def valid_digests_def)
qed

text \<open>
  C39: rolling back a plug-in installation with the inventory that applying it returned
  succeeds and undoes it: every path other than the backups holds what it held before the plan was applied, or
  is a directory that was made for the plan. The plan must name each file and backup once, a
  backup must not already be there for a file that is not, and none may be a directory.
\<close>

theorem rollback_restores_configs:
  assumes "rooted fs" "resolve fs workspace = Inr (rt_workspace roots)" "resolve fs user = Inr (rt_user roots)"
    "distinct (pair_paths fs cwd roots (plan_pairs d))" "distinct (map (key_of_pair fs cwd roots) (plan_pairs d))"
    "\<forall>pr\<in>set (plan_pairs d). fs (target_of_pair fs cwd roots pr) = None \<longrightarrow> fs (backup_of_pair fs cwd roots pr) = None"
    "apply_plugin_installer_plan sha cwd workspace user ref d fs = (Inr res, fs1)"
    "\<forall>pr\<in>set (plan_pairs d). fs1 (backup_of_pair fs cwd roots pr) \<noteq> Some Directory"
  shows "\<exists>res' fs2. rollback_plugin_installation sha cwd workspace user ref d (opr_inventory res) fs1 = (Inr res', fs2)
    \<and> (\<forall>q. q \<notin> backup_of_pair fs cwd roots ` set (plan_pairs d) \<longrightarrow> fs2 q = fs q \<or> (fs q = None \<and> fs2 q = Some Directory))"
proof -
  let ?prs = "plan_pairs d" and ?t = "target_of_pair fs cwd roots" and ?b = "backup_of_pair fs cwd roots"
  have free: "link_free fs (root_of roots scope)" for scope
    using assms(2,3) by (auto simp: root_of_def intro: resolve_link_free)
  obtain applied where run: "each_proc (apply_pair sha cwd roots) ?prs fs = (Inr applied, fs1)"
    and inv: "opr_inventory res = (applied_inventory d (fold (\<lambda>(k, v). dict_set k v) (map fst applied) []) (concat (map snd applied)))
       \<lparr>pi_applied_config_hashes := sort_key fst (fold (\<lambda>(k, v). dict_set k v) (map fst applied) [])\<rparr>"
    and ok: "approval_given ref = ret ()" "plugin_identifier (dry_plugin_id d)" "list_all safe_text (concat (map snd applied))"
      "bounded 1 300 (''Applied reviewed plugin dry-run with approval '' @ ref @ ''.'')" "safe_text ref"
    by (rule apply_plan_Inr [OF assms(7,2,3)])
  note all_applied = apply_pairs_Inr [OF run assms(1) same_links_refl free assms(4,8)]
  have keys: "map fst applied = map (\<lambda>pr. (key_of_pair fs cwd roots pr, sha (pair_content pr))) ?prs" using all_applied by blast
  then have "distinct (map fst (map fst applied))" using assms(5) by (simp add: comp_def)
  then have hashes: "dict_get k (pi_applied_config_hashes (opr_inventory res)) = map_of (map fst applied) k" for k
    unfolding inv using fold_dict_set_new [of "[]" "map fst applied"] dict_get_sorted [of "map fst applied" k]
    by (simp add: dict_get_def)
  have expected: "\<forall>pr\<in>set ?prs. dict_get (key_of_pair fs cwd roots pr) (pi_applied_config_hashes (opr_inventory res))
      = Some (sha (pair_content pr))"
    using \<open>distinct (map fst (map fst applied))\<close> unfolding hashes keys by (auto intro!: map_of_is_SomeI)
  have saved: "saved_one (?t pr) (?b pr) (pair_content pr) fs fs1" if "pr \<in> set ?prs" for pr
    using all_applied that by (simp add: list_all_iff)
  have kept: "fs1 (?b pr) = fs (?t pr) \<and> (fs (?t pr) = None \<or> (\<exists>c. fs (?t pr) = Some (File c)))" if "pr \<in> set ?prs" for pr
    using saved [OF that] assms(6) that by (auto simp: saved_one_def split: option.splits)
  have "\<exists>rs fs2. each_proc (rollback_pair sha cwd roots (opr_inventory res)) ?prs fs1 = (Inr rs, fs2)
    \<and> (\<forall>pr\<in>set ?prs. fs2 (?t pr) = fs1 (?b pr)) \<and> (\<forall>q. q \<notin> set (map ?t ?prs) \<longrightarrow> fs2 q = fs1 q)"
  proof (rule rollback_pairs_run)
    show "rooted fs1" "same_links fs fs1" "list_all (resolved_pair fs cwd roots) ?prs" using all_applied by blast+
    show "\<forall>pr\<in>set ?prs. fs1 (?t pr) = Some (File (pair_content pr))" using saved by (simp add: saved_one_def)
    show "\<forall>pr\<in>set ?prs. fs1 (?b pr) = None \<or> (\<exists>c. fs1 (?b pr) = Some (File c))" using kept by auto
  qed (use free assms(4) expected in auto)
  then obtain rs fs2 where undo: "each_proc (rollback_pair sha cwd roots (opr_inventory res)) ?prs fs1 = (Inr rs, fs2)"
    "\<forall>pr\<in>set ?prs. fs2 (?t pr) = fs1 (?b pr)" "\<forall>q. q \<notin> set (map ?t ?prs) \<longrightarrow> fs2 q = fs1 q" by blast
  have "check_inventory d (opr_inventory res) = ret ()"
    by (simp add: inv check_inventory_def applied_inventory_def digest_differs_def)
  moreover have "fst (resolved_roots workspace user fs) = Inr roots"
    using assms(2,3) by (simp add: resolved_roots_def resolving_def andthen_def)
  moreover have "list_all safe_text (pi_backup_paths (opr_inventory res))" using ok(3) by (simp add: inv applied_inventory_def)
  ultimately obtain res' where "rollback_plugin_installation sha cwd workspace user ref d (opr_inventory res) fs1 = (Inr res', fs2)"
    using rollback_plan_run [OF ok(1) _ _ _ undo(1) ok(2)] all_applied ok(4,5) by blast
  moreover have "fs2 q = fs q \<or> (fs q = None \<and> fs2 q = Some Directory)" if "q \<notin> ?b ` set ?prs" for q
  proof (cases "q \<in> ?t ` set ?prs")
    case True
    with undo(2) kept show ?thesis by auto
  next
    case False
    with that have "q \<notin> set (pair_paths fs cwd roots ?prs)" by (simp add: pair_paths_def)
    with all_applied undo(3) False show ?thesis by (simp add: made_dir_def)
  qed
  ultimately show ?thesis by blast
qed

section \<open>Instances\<close>

definition demo_digest :: pystr where
  "demo_digest = replicate 64 (CHR ''a'')"

definition demo_disk :: filesystem where
  "demo_disk = [[] \<mapsto> Directory, [''w''] \<mapsto> Directory, [''u''] \<mapsto> Directory, [''w'', ''c''] \<mapsto> File ''old'']"

definition demo_installer_plan :: installer_dry_run where
  "demo_installer_plan =
     \<lparr>dry_plugin_id = ''vad'', dry_target_client = Tc_Codex, dry_version = ''1.0.0'', dry_dry_run = True,
      dry_writes_performed = 0,
      dry_operations = [\<lparr>iop_scope = Sc_Workspace, iop_path = ''/w/c'', iop_change = ''write'', iop_content = []\<rparr>],
      dry_rollback = [\<lparr>rop_action = ''restore_or_remove'', rop_path = ''/w/c'', rop_backup_path = Some ''/w/c.bak''\<rparr>],
      dry_artifact =
        \<lparr>av_plugin_id = ''vad'', av_version = ''1.0.0'', av_artifact_digest = demo_digest, av_manifest_digest = demo_digest,
         av_file_count = 1, av_signature_present = False, av_signature_verified = False, av_signer_key_id = None,
         av_evidence = ''Plugin artifact digest verified.''\<rparr>\<rparr>"

definition demo_apply :: "operation_result io" where
  "demo_apply = apply_plugin_installer_plan (\<lambda>_. demo_digest) [] [''w''] [''u''] ''ok'' demo_installer_plan"

lemma demo_apply_runs:
  "\<not> isl (fst (demo_apply demo_disk))" "snd (demo_apply demo_disk) [''w'', ''c.bak''] = Some (File ''old'')"
  "snd (demo_apply demo_disk) [''w'', ''c''] \<noteq> Some (File ''old'')"
  by code_simp+

definition demo_roots :: install_roots where
  "demo_roots = \<lparr>rt_workspace = [''w''], rt_user = [''u'']\<rparr>"

lemma demo_plan_paths:
  "pair_paths demo_disk [] demo_roots (plan_pairs demo_installer_plan) = [[''w'', ''c''], [''w'', ''c.bak'']]"
  "list_all (\<lambda>pr. demo_disk (target_of_pair demo_disk [] demo_roots pr) \<noteq> None
      \<and> backup_of_pair demo_disk [] demo_roots pr = [''w'', ''c.bak'']) (plan_pairs demo_installer_plan)"
  "length (plan_pairs demo_installer_plan) = 1" "resolve demo_disk [''w''] = Inr [''w'']" "resolve demo_disk [''u''] = Inr [''u'']"
  by code_simp+

lemma demo_disk_rooted: "rooted demo_disk"
  by (auto simp: rooted_def demo_disk_def)

lemma demo_no_trap: "no_trap demo_disk cwd d"
  by (auto simp: no_trap_def demo_disk_def)

theorem plugin_installer_confined_witness:
  "snd (demo_apply demo_disk) [''x''] = demo_disk [''x'']"
proof -
  obtain r fs where run: "demo_apply demo_disk = (r, fs)" by fastforce
  have "fs [''x''] = demo_disk [''x''] \<or> is_relative_to [''x''] [''w''] \<or> is_relative_to [''x''] [''u'']
    \<or> (demo_disk [''x''] = None \<and> fs [''x''] = Some Directory \<and> (is_relative_to [''w''] [''x''] \<or> is_relative_to [''u''] [''x'']))"
    by (rule plugin_installer_confined [OF rooted_top [OF demo_disk_rooted] demo_no_trap demo_plan_paths(4,5), where
          cwd = "[]" and result = r and sha = "\<lambda>_. demo_digest" and ref = "''ok''" and d = demo_installer_plan and
          r = "applied_inventory demo_installer_plan [] []"])
      (use run in \<open>simp add: demo_apply_def\<close>)
  then show ?thesis by (simp add: run is_relative_to_def)
qed

theorem rollback_restores_configs_witness:
  "\<exists>res fs1 res' fs2. demo_apply demo_disk = (Inr res, fs1) \<and> fs1 [''w'', ''c''] \<noteq> Some (File ''old'')
    \<and> rollback_plugin_installation (\<lambda>_. demo_digest) [] [''w''] [''u''] ''ok'' demo_installer_plan (opr_inventory res) fs1
      = (Inr res', fs2) \<and> fs2 [''w'', ''c''] = Some (File ''old'')"
proof -
  obtain res fs1 where run: "demo_apply demo_disk = (Inr res, fs1)"
    using demo_apply_runs(1) by (cases "demo_apply demo_disk"; cases "fst (demo_apply demo_disk)") auto
  have paths: "distinct (pair_paths demo_disk [] demo_roots (plan_pairs demo_installer_plan))"
    "distinct (map (key_of_pair demo_disk [] demo_roots) (plan_pairs demo_installer_plan))"
    using demo_plan_paths(1,3) by (auto simp: length_Suc_conv)
  have kept: "\<forall>pr\<in>set (plan_pairs demo_installer_plan). backup_of_pair demo_disk [] demo_roots pr = [''w'', ''c.bak'']
      \<and> demo_disk (target_of_pair demo_disk [] demo_roots pr) \<noteq> None"
    using demo_plan_paths(2) by (simp add: list_all_iff)
  have "\<exists>res' fs2. rollback_plugin_installation (\<lambda>_. demo_digest) [] [''w''] [''u''] ''ok'' demo_installer_plan (opr_inventory res) fs1
      = (Inr res', fs2)
    \<and> (\<forall>q. q \<notin> backup_of_pair demo_disk [] demo_roots ` set (plan_pairs demo_installer_plan)
         \<longrightarrow> fs2 q = demo_disk q \<or> (demo_disk q = None \<and> fs2 q = Some Directory))"
  proof (rule rollback_restores_configs [OF demo_disk_rooted _ _ paths _ run [unfolded demo_apply_def]])
    show "resolve demo_disk [''w''] = Inr (rt_workspace demo_roots)" "resolve demo_disk [''u''] = Inr (rt_user demo_roots)"
      using demo_plan_paths(4,5) by (simp_all add: demo_roots_def)
    show "\<forall>pr\<in>set (plan_pairs demo_installer_plan). demo_disk (target_of_pair demo_disk [] demo_roots pr) = None
        \<longrightarrow> demo_disk (backup_of_pair demo_disk [] demo_roots pr) = None"
      using kept by blast
    show "\<forall>pr\<in>set (plan_pairs demo_installer_plan). fs1 (backup_of_pair demo_disk [] demo_roots pr) \<noteq> Some Directory"
      using kept demo_apply_runs(2) run by simp
  qed
  moreover have "[''w'', ''c''] \<notin> backup_of_pair demo_disk [] demo_roots ` set (plan_pairs demo_installer_plan)"
    using kept by auto
  moreover have "demo_disk [''w'', ''c''] = Some (File ''old'')" by (simp add: demo_disk_def)
  ultimately show ?thesis using run demo_apply_runs(3) by force
qed

text \<open>
  Two ways an installation goes wrong. The approval reference is not checked for its length before the
  files are written, and the evidence made of it is: a long one raises when the plan is already
  applied, and no inventory is returned. And a backup an earlier installation left behind is
  copied to a file that was not there before.
\<close>

lemma long_approval_writes_then_raises:
  "let run = apply_plugin_installer_plan (\<lambda>_. demo_digest) [] [''w''] [''u''] (replicate 300 (CHR ''x'')) demo_installer_plan
     demo_disk in isl (fst run) \<and> snd run [''w'', ''c''] \<noteq> demo_disk [''w'', ''c'']"
  by code_simp

definition demo_left_over :: filesystem where
  "demo_left_over = demo_disk([''w'', ''c''] := None, [''w'', ''c.bak''] := Some (File ''older''))"

lemma left_over_backup_is_restored:
  "case demo_apply demo_left_over of
     (Inr res, fs) \<Rightarrow>
       snd (rollback_plugin_installation (\<lambda>_. demo_digest) [] [''w''] [''u''] ''ok'' demo_installer_plan (opr_inventory res) fs)
         [''w'', ''c''] = Some (File ''older'')
   | _ \<Rightarrow> False"
  by code_simp

end
