(* ===== verification/Cost_Router.thy ===== *)
theory Cost_Router
  imports Router Policy_Engine Py_Float
begin

text \<open>
  Routing by cost (\<open>vad/router/routing.py\<close>, \<open>budget.py\<close>, \<open>providers/base.py\<close>): the candidates in
  the order of their price, the policy on their tier, the budget of a loop. Floats are their
  \<open>repr\<close>; the one sum, \<open>spent + estimated_cost\<close>, is the parameter \<open>add\<close>, of which nothing is
  assumed. The estimate is \<open>(1000 / 1000) * cost\<close>, which is the cost. Costs are not \<open>nan\<close>.
\<close>

section \<open>Models and budgets\<close>

record model_info =
  mi_name :: pystr
  mi_tier :: pystr
  mi_cost_per_1k_tokens :: pystr
  mi_max_tokens :: int

record route_request =
  rq_task :: pystr
  rq_max_budget :: pystr
  rq_max_depth :: int
  rq_risk_tier :: pystr
  rq_purpose :: pystr
  rq_current_depth :: int
  rq_metadata :: "(pystr \<times> pystr) list"

text \<open>\<open>DummyProvider\<close>.\<close>

definition dummy_models :: "(pystr \<times> model_info) list" where
  "dummy_models =
     [(''expensive-model'', \<lparr>mi_name = ''expensive-model'', mi_tier = ''tier2'', mi_cost_per_1k_tokens = ''0.1'', mi_max_tokens = 8192\<rparr>),
      (''cheap-model'', \<lparr>mi_name = ''cheap-model'', mi_tier = ''tier1'', mi_cost_per_1k_tokens = ''0.01'', mi_max_tokens = 4096\<rparr>)]"

definition get_model :: "pystr \<Rightarrow> model_info option" where
  "get_model name = dict_get name dummy_models"

definition list_models :: "model_info list" where
  "list_models = map snd dummy_models"

record budget_manager =
  bm_max_budget :: pystr
  bm_max_depth :: int
  bm_spent :: pystr
  bm_current_depth :: int

definition new_budget_manager :: "pystr \<Rightarrow> int \<Rightarrow> budget_manager" where
  "new_budget_manager max_budget max_depth =
     \<lparr>bm_max_budget = max_budget, bm_max_depth = max_depth, bm_spent = ''0.0'', bm_current_depth = 0\<rparr>"

definition charge :: "(pystr \<Rightarrow> pystr \<Rightarrow> pystr) \<Rightarrow> pystr \<Rightarrow> (budget_manager, unit) proc" where
  "charge add amount b =
     (let b' = b\<lparr>bm_spent := add (bm_spent b) amount\<rparr> in
      if float_less (bm_max_budget b') (bm_spent b') then (Inl (ValueError ''Token budget exhausted''), b') else (Inr (), b'))"

definition increment_depth :: "(budget_manager, unit) proc" where
  "increment_depth b =
     (let b' = b\<lparr>bm_current_depth := bm_current_depth b + 1\<rparr> in
      if bm_max_depth b' < bm_current_depth b' then (Inl (ValueError ''Loop depth exhausted''), b') else (Inr (), b'))"

section \<open>The router\<close>

record route_decision =
  rd_selected_model :: pystr
  rd_selected_tier :: pystr
  rd_estimated_tokens :: int
  rd_estimated_cost :: pystr
  rd_reason :: pystr

record route_event =
  rv_event :: pystr
  rv_selected_model :: "pystr option"
  rv_selected_tier :: "pystr option"
  rv_estimated_tokens :: int
  rv_estimated_cost :: pystr
  rv_reason :: pystr
  rv_policy_decision :: "policy_decision option"

record route_log =
  rt_log :: "(pystr \<times> pystr) list"
  rt_decisions :: "route_decision list"
  rt_evidence_events :: "route_event list"

text \<open>\<open>Field(ge=0)\<close> of a float; \<open>nan\<close> does not pass it.\<close>

definition not_negative :: "pystr \<Rightarrow> bool" where
  "not_negative c = (float_less ''0.0'' c \<or> float_equal ''0.0'' c)"

definition parse_route_decision :: "route_decision \<Rightarrow> exn + route_decision" where
  "parse_route_decision d =
     (if 0 \<le> rd_estimated_tokens d \<and> not_negative (rd_estimated_cost d) then Inr d
      else Inl (ValidationError ''RouteDecision''))"

definition parse_route_event :: "route_event \<Rightarrow> exn + route_event" where
  "parse_route_event e =
     (if 0 \<le> rv_estimated_tokens e \<and> not_negative (rv_estimated_cost e) then Inr e
      else Inl (ValidationError ''RouteEvidenceEvent''))"

definition float_at_most :: "pystr \<Rightarrow> pystr \<Rightarrow> bool" where
  "float_at_most a b = (float_less a b \<or> float_equal a b)"

text \<open>\<open>sorted(models, key=cost, reverse=..)\<close>; equal costs keep their order in both directions.\<close>

fun insert_model :: "bool \<Rightarrow> model_info \<Rightarrow> model_info list \<Rightarrow> model_info list" where
  "insert_model descending m [] = [m]"
| "insert_model descending m (n # ns) =
     (if (if descending then float_less (mi_cost_per_1k_tokens m) (mi_cost_per_1k_tokens n)
          else float_less (mi_cost_per_1k_tokens n) (mi_cost_per_1k_tokens m))
      then n # insert_model descending m ns else m # n # ns)"

definition sorted_models :: "bool \<Rightarrow> model_info list \<Rightarrow> model_info list" where
  "sorted_models descending ms = foldr (insert_model descending) ms []"

definition needs_verifier_tier :: "route_request \<Rightarrow> bool" where
  "needs_verifier_tier q = (rq_risk_tier q = ''high'' \<or> rq_purpose q = ''verification'')"

definition ordered_candidates :: "model_info list \<Rightarrow> route_request \<Rightarrow> model_info list" where
  "ordered_candidates models q =
     (if needs_verifier_tier q then sorted_models True (filter (\<lambda>m. mi_tier m = ''tier2'') models)
      else if rq_purpose q = ''formatting'' then sorted_models False models
      else sorted_models True models)"

definition route_reason :: "route_request \<Rightarrow> nat \<Rightarrow> pystr" where
  "route_reason q index =
     (if needs_verifier_tier q then ''verifier-approved tier required''
      else if rq_purpose q = ''formatting'' then ''low-risk formatting uses cheapest allowed tier''
      else if index = 0 then ''within budget'' else ''fallback due to budget'')"

type_synonym routing = "route_log \<times> budget_manager"

definition on_budget :: "(budget_manager, 'a) proc \<Rightarrow> (routing, 'a) proc" where
  "on_budget m s = (case m (snd s) of (r, b) \<Rightarrow> (r, (fst s, b)))"

definition on_log :: "(route_log \<Rightarrow> route_log) \<Rightarrow> (routing, unit) proc" where
  "on_log f = writes (\<lambda>(l, b). (f l, b))"

definition add_event :: "route_event \<Rightarrow> (routing, unit) proc" where
  "add_event e =
     andthen (lift_result (parse_route_event e))
       (\<lambda>e. on_log (\<lambda>l. l\<lparr>rt_evidence_events := rt_evidence_events l @ [e]\<rparr>))"

definition route_denied_event :: "model_info \<Rightarrow> policy_decision \<Rightarrow> route_event" where
  "route_denied_event m d =
     \<lparr>rv_event = ''route_denied'', rv_selected_model = Some (mi_name m), rv_selected_tier = Some (mi_tier m),
      rv_estimated_tokens = 0, rv_estimated_cost = ''0.0'', rv_reason = ''model tier denied by policy'',
      rv_policy_decision = Some d\<rparr>"

definition select_model ::
    "(pystr \<Rightarrow> pystr \<Rightarrow> pystr) \<Rightarrow> route_request \<Rightarrow> nat \<Rightarrow> model_info \<Rightarrow> policy_decision \<Rightarrow> (routing, pystr) proc" where
  "select_model add q index m d =
     andthen (on_budget (charge add (mi_cost_per_1k_tokens m))) (\<lambda>_.
     andthen (on_log (\<lambda>l. l\<lparr>rt_log := rt_log l @ [(''route'', mi_name m)]\<rparr>)) (\<lambda>_.
     andthen (lift_result (parse_route_decision
         \<lparr>rd_selected_model = mi_name m, rd_selected_tier = mi_tier m, rd_estimated_tokens = 1000,
          rd_estimated_cost = mi_cost_per_1k_tokens m, rd_reason = route_reason q index\<rparr>)) (\<lambda>rd.
     andthen (on_log (\<lambda>l. l\<lparr>rt_decisions := rt_decisions l @ [rd]\<rparr>)) (\<lambda>_.
     andthen (add_event
         \<lparr>rv_event = ''route_decision'', rv_selected_model = Some (mi_name m), rv_selected_tier = Some (mi_tier m),
          rv_estimated_tokens = 1000, rv_estimated_cost = mi_cost_per_1k_tokens m, rv_reason = route_reason q index,
          rv_policy_decision = Some d\<rparr>) (\<lambda>_.
     ret (mi_name m))))))"

fun try_models ::
    "(pystr \<Rightarrow> pystr \<Rightarrow> pystr) \<Rightarrow> engine \<Rightarrow> pystr \<Rightarrow> route_request \<Rightarrow> nat \<Rightarrow> model_info list \<Rightarrow> (routing, pystr) proc" where
  "try_models add ev path q index [] =
     andthen (add_event
         \<lparr>rv_event = ''route_exhausted'', rv_selected_model = None, rv_selected_tier = None, rv_estimated_tokens = 0,
          rv_estimated_cost = ''0.0'', rv_reason = ''Token budget exhausted'', rv_policy_decision = None\<rparr>)
       (\<lambda>_. throw (ValueError ''Token budget exhausted''))"
| "try_models add ev path q index (m # ms) =
     andthen (lift_result (evaluate_decision ev path
         [(''action'', J_Str ''use_model''), (''model_tier'', J_Str (mi_tier m))])) (\<lambda>d.
     if \<not> allow d
     then andthen (add_event (route_denied_event m d)) (\<lambda>_. try_models add ev path q (Suc index) ms)
     else (\<lambda>s. if float_at_most (add (bm_spent (snd s)) (mi_cost_per_1k_tokens m)) (bm_max_budget (snd s))
               then select_model add q index m d s
               else try_models add ev path q (Suc index) ms s))"

definition route_model ::
    "(pystr \<Rightarrow> pystr \<Rightarrow> pystr) \<Rightarrow> engine \<Rightarrow> pystr \<Rightarrow> model_info list \<Rightarrow> route_request \<Rightarrow> (routing, pystr) proc" where
  "route_model add ev path models q =
     andthen (on_budget increment_depth) (\<lambda>_.
       (case ordered_candidates models q of
          [] \<Rightarrow> throw (ValueError ''No registered models available'')
        | ms \<Rightarrow> try_models add ev path q 0 ms))"

section \<open>Comparing costs\<close>

lemma decimal_less_at:
  assumes "lo \<le> snd a" "lo \<le> snd b"
  shows "decimal_less a b \<longleftrightarrow> fst a * 10 ^ nat (snd a - lo) < fst b * 10 ^ nat (snd b - lo)"
proof -
  let ?l = "min (snd a) (snd b)"
  have "nat (snd a - lo) = nat (snd a - ?l) + nat (?l - lo)" "nat (snd b - lo) = nat (snd b - ?l) + nat (?l - lo)"
    using assms by auto
  then show ?thesis by (simp add: decimal_less_def Let_def power_add mult.assoc [symmetric])
qed

lemma decimal_not_less_trans:
  assumes "\<not> decimal_less b a" "\<not> decimal_less c b"
  shows "\<not> decimal_less c a"
proof -
  define v where "v x = fst x * (10::int) ^ nat (snd x - min (snd a) (min (snd b) (snd c)))" for x :: "int \<times> int"
  have "decimal_less x y \<longleftrightarrow> v x < v y" if "x \<in> {a, b, c}" "y \<in> {a, b, c}" for x y
    unfolding v_def by (rule decimal_less_at) (use that in auto)
  then show ?thesis using assms by simp
qed

lemma decimal_less_asym: "decimal_less a b \<Longrightarrow> \<not> decimal_less b a"
  using decimal_less_at [of "min (snd a) (snd b)" a b] decimal_less_at [of "min (snd a) (snd b)" b a] by linarith

lemma float_not_less_trans:
  assumes "b \<noteq> ''nan''" "\<not> float_less b a" "\<not> float_less c b"
  shows "\<not> float_less c a"
proof
  assume "float_less c a"
  with assms show False
    using decimal_not_less_trans [of "float_parts b" "float_parts a" "float_parts c"]
    unfolding float_less_def by auto
qed

lemma float_less_asym: "float_less a b \<Longrightarrow> \<not> float_less b a"
  using decimal_less_asym [of "float_parts a" "float_parts b"] unfolding float_less_def by auto

lemma float_at_most_not_less: "float_at_most a b \<Longrightarrow> \<not> float_less b a"
proof -
  have zeros: "\<not> float_less ''0.0'' ''-0.0''" "\<not> float_less ''-0.0'' ''0.0''" by code_simp+
  show "float_at_most a b \<Longrightarrow> \<not> float_less b a"
    using zeros float_less_asym [of a b] by (auto simp: float_at_most_def float_equal_def)
qed

definition in_order :: "bool \<Rightarrow> model_info \<Rightarrow> model_info \<Rightarrow> bool" where
  "in_order descending m n =
     (if descending then \<not> float_less (mi_cost_per_1k_tokens m) (mi_cost_per_1k_tokens n)
      else \<not> float_less (mi_cost_per_1k_tokens n) (mi_cost_per_1k_tokens m))"

lemma in_order_trans:
  "mi_cost_per_1k_tokens n \<noteq> ''nan'' \<Longrightarrow> in_order d m n \<Longrightarrow> in_order d n k \<Longrightarrow> in_order d m k"
  using float_not_less_trans [of "mi_cost_per_1k_tokens n"] by (auto simp: in_order_def split: if_splits)

lemma set_insert_model [simp]: "set (insert_model d m ns) = insert m (set ns)"
  by (induction ns) auto

lemma insert_model_sorted:
  assumes "\<forall>n\<in>set (m # ns). mi_cost_per_1k_tokens n \<noteq> ''nan''" "sorted_wrt (in_order d) ns"
  shows "sorted_wrt (in_order d) (insert_model d m ns)"
  using assms
proof (induction ns)
  case (Cons n ns)
  show ?case
  proof (cases "if d then float_less (mi_cost_per_1k_tokens m) (mi_cost_per_1k_tokens n)
          else float_less (mi_cost_per_1k_tokens n) (mi_cost_per_1k_tokens m)")
    case True
    then have "in_order d n m" using float_less_asym by (auto simp: in_order_def split: if_splits)
    with True Cons show ?thesis by (auto split: if_splits)
  next
    case False
    then have mn: "in_order d m n" by (simp add: in_order_def split: if_splits)
    have "in_order d m k" if "k \<in> set ns" for k
      using in_order_trans [OF _ mn, of k] that Cons.prems by auto
    with False mn Cons.prems show ?thesis by (simp split: if_splits)
  qed
qed simp

lemma sorted_models_sorted:
  assumes "\<forall>n\<in>set ns. mi_cost_per_1k_tokens n \<noteq> ''nan''"
  shows "sorted_wrt (in_order d) (sorted_models d ns) \<and> set (sorted_models d ns) = set ns"
  using assms by (induction ns) (simp_all add: sorted_models_def insert_model_sorted)

section \<open>What the router picks\<close>

text \<open>A model the policy and the budget let the request use.\<close>

definition affordable :: "(pystr \<Rightarrow> pystr \<Rightarrow> pystr) \<Rightarrow> budget_manager \<Rightarrow> model_info \<Rightarrow> bool" where
  "affordable add b m =
     (mi_tier m \<in> {''tier1'', ''tier2''} \<and> float_at_most (add (bm_spent b) (mi_cost_per_1k_tokens m)) (bm_max_budget b))"

definition acceptable ::
    "(pystr \<Rightarrow> pystr \<Rightarrow> pystr) \<Rightarrow> budget_manager \<Rightarrow> model_info list \<Rightarrow> route_request \<Rightarrow> model_info \<Rightarrow> bool" where
  "acceptable add b models q m =
     (m \<in> set models \<and> affordable add b m \<and> (needs_verifier_tier q \<longrightarrow> mi_tier m = ''tier2''))"

definition cheapest_first :: "route_request \<Rightarrow> bool" where
  "cheapest_first q = (rq_purpose q = ''formatting'' \<and> \<not> needs_verifier_tier q)"

lemma rego_decides: "\<exists>d. evaluate_decision rego_engine path input = Inr d"
proof -
  have "\<exists>ds. collect_denials rego_engine path input qs = Inr ds" for qs
    by (induction qs) (auto simp: rego_engine_def Let_def)
  then obtain ds where "collect_denials rego_engine path input deny_queries = Inr ds" by blast
  then show ?thesis by (cases ds) (auto simp: evaluate_decision_def rego_engine_def Let_def)
qed

lemma tier_decision:
  "\<exists>d. evaluate_decision rego_engine path [(''action'', J_Str ''use_model''), (''model_tier'', J_Str t)] = Inr d
     \<and> (allow d \<longleftrightarrow> t \<in> {''tier1'', ''tier2''})"
proof -
  let ?i = "[(''action'', J_Str ''use_model''), (''model_tier'', J_Str t)]"
  have "rego_allow ?i \<longleftrightarrow> t \<in> {''tier1'', ''tier2''}"
    by (auto simp: rego_allow_def is_text_def one_of_def dict_get_def holds_field_def is_not_text_def)
  then show ?thesis using rego_decides [of path ?i] rego_decision_allow [of path ?i] by auto
qed

lemma add_event_run:
  "not_negative (rv_estimated_cost e) \<Longrightarrow> 0 \<le> rv_estimated_tokens e \<Longrightarrow>
   add_event e (l, b) = (Inr (), (l\<lparr>rt_evidence_events := rt_evidence_events l @ [e]\<rparr>, b))"
  by (simp add: add_event_def parse_route_event_def on_log_def)

lemma zero_not_negative [simp]: "not_negative ''0.0''"
  by code_simp

lemma select_model_run:
  assumes "not_negative (mi_cost_per_1k_tokens m)"
    "float_at_most (add (bm_spent b) (mi_cost_per_1k_tokens m)) (bm_max_budget b)"
  shows "\<exists>l'. select_model add q index m d (l, b) = (Inr (mi_name m), (l', b\<lparr>bm_spent := add (bm_spent b) (mi_cost_per_1k_tokens m)\<rparr>))
    \<and> rt_log l' = rt_log l @ [(''route'', mi_name m)]"
  using assms float_at_most_not_less [OF assms(2)]
  by (simp add: select_model_def on_budget_def charge_def Let_def on_log_def parse_route_decision_def add_event_run andthen_def)

lemma try_models_run:
  assumes "\<forall>m\<in>set ms. not_negative (mi_cost_per_1k_tokens m)"
  shows "\<exists>l'. try_models add rego_engine path q index ms (l, b) =
     (case find (affordable add b) ms of
        None \<Rightarrow> (Inl (ValueError ''Token budget exhausted''), (l', b))
      | Some m \<Rightarrow> (Inr (mi_name m), (l', b\<lparr>bm_spent := add (bm_spent b) (mi_cost_per_1k_tokens m)\<rparr>)))
     \<and> rt_log l' = rt_log l @ (case find (affordable add b) ms of None \<Rightarrow> [] | Some m \<Rightarrow> [(''route'', mi_name m)])"
  using assms
proof (induction ms arbitrary: index l)
  case Nil
  show ?case by (simp add: add_event_run andthen_def)
next
  case (Cons m ms)
  obtain d where d: "evaluate_decision rego_engine path [(''action'', J_Str ''use_model''), (''model_tier'', J_Str (mi_tier m))] = Inr d"
    "allow d \<longleftrightarrow> mi_tier m \<in> {''tier1'', ''tier2''}"
    using tier_decision by blast
  note IH = Cons.IH [of "Suc index"]
  consider "\<not> allow d" | "allow d" "affordable add b m" | "allow d" "\<not> affordable add b m" by blast
  then show ?case
  proof cases
    case 1
    with d IH [of "l\<lparr>rt_evidence_events := rt_evidence_events l @ [route_denied_event m d]\<rparr>"] Cons.prems show ?thesis
      by (simp add: add_event_run andthen_def affordable_def route_denied_event_def)
  next
    case 2
    then show ?thesis using d select_model_run [of m add b q index d l] Cons.prems by (simp add: affordable_def)
  next
    case 3
    then show ?thesis using d IH [of l] Cons.prems by (simp add: affordable_def)
  qed
qed

lemma find_first:
  "find P xs = Some x \<Longrightarrow> sorted_wrt R xs \<Longrightarrow> P x \<and> x \<in> set xs \<and> (\<forall>y\<in>set xs. P y \<longrightarrow> y = x \<or> R x y)"
  by (induction xs) (auto split: if_splits)

lemma ordered_candidates_sorted:
  assumes "\<forall>m\<in>set models. mi_cost_per_1k_tokens m \<noteq> ''nan''"
  shows "sorted_wrt (in_order (\<not> cheapest_first q)) (ordered_candidates models q)
    \<and> set (ordered_candidates models q) = {m \<in> set models. needs_verifier_tier q \<longrightarrow> mi_tier m = ''tier2''}"
  using sorted_models_sorted [of models] sorted_models_sorted [of "filter (\<lambda>m. mi_tier m = ''tier2'') models"] assms
  by (auto simp: ordered_candidates_def cheapest_first_def)

lemma not_negative_not_nan: "not_negative c \<Longrightarrow> c \<noteq> ''nan''"
  by (auto simp: not_negative_def float_less_def float_equal_def)

text \<open>
  C34: within the depth of the loop and with costs that are not negative, the router under the
  shipped policy picks a model exactly when there is one the policy and the budget allow; it is
  then the cheapest of them for formatting, the most expensive of them otherwise and of the
  verifier tier where that is required, and its cost is charged. Otherwise it raises and charges
  nothing.
\<close>

theorem route_picks_best:
  assumes "bm_current_depth b < bm_max_depth b" "\<forall>m\<in>set models. not_negative (mi_cost_per_1k_tokens m)"
  shows "case route_model add rego_engine path models q (l, b) of (r, (l', b')) \<Rightarrow>
    (if \<exists>m. acceptable add b models q m
     then \<exists>m. r = Inr (mi_name m) \<and> acceptable add b models q m
       \<and> (\<forall>n. acceptable add b models q n \<longrightarrow>
             \<not> (if cheapest_first q then float_less (mi_cost_per_1k_tokens n) (mi_cost_per_1k_tokens m)
                else float_less (mi_cost_per_1k_tokens m) (mi_cost_per_1k_tokens n)))
       \<and> b' = b\<lparr>bm_current_depth := bm_current_depth b + 1, bm_spent := add (bm_spent b) (mi_cost_per_1k_tokens m)\<rparr>
       \<and> rt_log l' = rt_log l @ [(''route'', mi_name m)]
     else (\<exists>e. r = Inl (ValueError e)) \<and> b' = b\<lparr>bm_current_depth := bm_current_depth b + 1\<rparr> \<and> rt_log l' = rt_log l)"
proof -
  let ?ms = "ordered_candidates models q" and ?b = "b\<lparr>bm_current_depth := bm_current_depth b + 1\<rparr>"
  have ms: "sorted_wrt (in_order (\<not> cheapest_first q)) ?ms"
    "set ?ms = {m \<in> set models. needs_verifier_tier q \<longrightarrow> mi_tier m = ''tier2''}"
    using ordered_candidates_sorted [of models q] assms(2) not_negative_not_nan by blast+
  have acc: "acceptable add b models q m \<longleftrightarrow> m \<in> set ?ms \<and> affordable add ?b m" for m
    by (auto simp: acceptable_def affordable_def ms(2))
  have "\<forall>m\<in>set ?ms. not_negative (mi_cost_per_1k_tokens m)" using assms(2) ms(2) by blast
  from try_models_run [OF this, of add path q 0 l ?b] obtain l' where
    "try_models add rego_engine path q 0 ?ms (l, ?b) =
     (case find (affordable add ?b) ?ms of
        None \<Rightarrow> (Inl (ValueError ''Token budget exhausted''), (l', ?b))
      | Some m \<Rightarrow> (Inr (mi_name m), (l', ?b\<lparr>bm_spent := add (bm_spent ?b) (mi_cost_per_1k_tokens m)\<rparr>)))"
    "rt_log l' = rt_log l @ (case find (affordable add ?b) ?ms of None \<Rightarrow> [] | Some m \<Rightarrow> [(''route'', mi_name m)])"
    by (elim exE conjE)
  note run = this
  have start: "route_model add rego_engine path models q (l, b) =
      (if ?ms = [] then (Inl (ValueError ''No registered models available''), (l, ?b))
       else try_models add rego_engine path q 0 ?ms (l, ?b))"
    using assms(1) by (simp add: route_model_def andthen_def on_budget_def increment_depth_def Let_def split: list.split)
  show ?thesis
  proof (cases "find (affordable add ?b) ?ms")
    case None
    then have "\<nexists>m. acceptable add b models q m" by (auto simp: find_None_iff acc)
    then show ?thesis using start run None by simp
  next
    case (Some m)
    note best = find_first [OF Some ms(1)]
    then have "?ms \<noteq> []" by auto
    moreover have "\<not> (if cheapest_first q then float_less (mi_cost_per_1k_tokens n) (mi_cost_per_1k_tokens m)
                else float_less (mi_cost_per_1k_tokens m) (mi_cost_per_1k_tokens n))"
      if "acceptable add b models q n" for n
      using best that by (cases "n = m") (auto simp: acc in_order_def split: if_splits)
    ultimately show ?thesis using start run Some best acc by auto
  qed
qed

definition demo_add :: "pystr \<Rightarrow> pystr \<Rightarrow> pystr" where
  "demo_add a b = (if a = ''0.0'' then b else ''inf'')"

definition demo_route_request :: route_request where
  "demo_route_request = \<lparr>rq_task = ''t'', rq_max_budget = ''0.05'', rq_max_depth = 3, rq_risk_tier = ''low'', rq_purpose = ''general'',
      rq_current_depth = 0, rq_metadata = []\<rparr>"

lemma route_picks_best_witness:
  "fst (route_model demo_add rego_engine ''p'' list_models demo_route_request
     (\<lparr>rt_log = [], rt_decisions = [], rt_evidence_events = []\<rparr>, new_budget_manager ''0.05'' 3)) = Inr ''cheap-model''"
proof -
  let ?b = "new_budget_manager ''0.05'' 3" and ?l = "\<lparr>rt_log = [], rt_decisions = [], rt_evidence_events = []\<rparr>"
  have start: "bm_current_depth ?b < bm_max_depth ?b" "\<forall>m\<in>set list_models. not_negative (mi_cost_per_1k_tokens m)"
    by code_simp+
  have affordable: "map (acceptable demo_add ?b list_models demo_route_request) list_models = [False, True]" by code_simp
  then have one: "acceptable demo_add ?b list_models demo_route_request m \<longleftrightarrow> m = list_models ! 1" for m
    by (auto simp: acceptable_def list_models_def dummy_models_def)
  have name: "mi_name (list_models ! 1) = ''cheap-model''" by code_simp
  show ?thesis using route_picks_best [OF start, of demo_add demo_route_request ?l "''p''"]
    by (auto simp: one name [simplified] split: prod.splits)
qed

end
