(* ===== verification/Provenance.thy ===== *)
theory Provenance
  imports Recorder Signing Cost_Router File_Copies Json_Text
begin

text \<open>
  Agent cards (\<open>vad/agents/card.py\<close>), the provenance record of a build (\<open>evidence/provenance.py\<close>),
  messages between agents (\<open>adapters/a2a.py\<close>) and the signature records of the evidence recorder.
  The policy engine, SHA-256, the clock and fresh identifiers are parameters; the output directory
  is a canonical path.
\<close>

section \<open>Agent cards\<close>

record builder_card =
  bc_name :: pystr
  bc_description :: pystr
  bc_tools :: "pystr list"
  bc_model_tier :: pystr
  bc_memory_scope :: pystr
  bc_builder :: pystr
  bc_approver :: pystr

definition card_dict :: "builder_card \<Rightarrow> json" where
  "card_dict c = J_Dict
     [(''name'', J_Str (bc_name c)), (''description'', J_Str (bc_description c)),
      (''capabilities'', J_Dict
         [(''tools'', J_List (map J_Str (bc_tools c))), (''model_tier'', J_Str (bc_model_tier c)),
          (''memory_scope'', J_Str (bc_memory_scope c))]),
      (''builder'', J_Str (bc_builder c)), (''approver'', J_Str (bc_approver c))]"

section \<open>Provenance\<close>

definition build_input :: "builder_card \<Rightarrow> policy_input" where
  "build_input c = [(''action'', J_Str ''build''), (''builder'', J_Str (bc_builder c)), (''approver'', J_Str (bc_approver c))]"

definition self_approval_query :: pystr where
  "self_approval_query = ''data.vad.policy.deny_builder_self_approval''"

definition provenance_data :: "pystr \<Rightarrow> builder_card \<Rightarrow> json \<Rightarrow> pystr option \<Rightarrow> json" where
  "provenance_data now c is_allowed linked = J_Dict
     [(''timestamp'', J_Str now), (''agent_card'', card_dict c),
      (''policy_decisions'', J_Dict [(''build_allowed'', is_allowed)]),
      (''linked_evidence_digest'', opt_json J_Str linked)]"

definition provenance_record :: "pystr \<Rightarrow> pystr option \<Rightarrow> json \<Rightarrow> json" where
  "provenance_record digest linked data = J_Dict
     [(''digest'', J_Str digest), (''linked_evidence_digest'', opt_json J_Str linked), (''bundle_data'', data)]"

definition provenance_path :: "path \<Rightarrow> pystr \<Rightarrow> path" where
  "provenance_path output_dir digest = output_dir @ [''provenance_'' @ digest @ ''.json'']"

text \<open>\<open>emit\<close>; the evidence of a run is its JSON value.\<close>

definition emit_provenance ::
    "(pystr \<Rightarrow> pystr) \<Rightarrow> engine \<Rightarrow> pystr \<Rightarrow> path \<Rightarrow> pystr \<Rightarrow> builder_card \<Rightarrow> json option \<Rightarrow> path io" where
  "emit_provenance sha256 ev policy_path output_dir now c run_evidence =
     andthen (lift_result (ev policy_path self_approval_query (build_input c))) (\<lambda>is_denied.
     if json_truthy is_denied
     then throw (ValueError (''Build failed: Builder '' @ bc_builder c @ '' cannot self-approve.''))
     else
       andthen (lift_result (ev policy_path allow_query (build_input c))) (\<lambda>is_allowed.
       if \<not> json_truthy is_allowed then throw (ValueError ''Build failed: Policy denies build.'')
       else
         let linked = map_option (compute_hash sha256) run_evidence;
             data = provenance_data now c is_allowed linked;
             digest = compute_hash sha256 data;
             target = provenance_path output_dir digest in
         andthen (reads (\<lambda>fs. path_exists fs output_dir)) (\<lambda>there.
         andthen (if there then ret () else make_dirs output_dir) (\<lambda>_.
         andthen (write_text target (dumps_pretty False (provenance_record digest linked data))) (\<lambda>_.
         ret target)))))"

section \<open>Messages between agents\<close>

record a2a_message =
  am_message_id :: pystr
  am_sender :: pystr
  am_receiver :: pystr
  am_action :: pystr
  am_payload :: "(pystr \<times> json) list"
  am_created_at :: pystr

definition parse_a2a_message :: "a2a_message \<Rightarrow> exn + a2a_message" where
  "parse_a2a_message m =
     (if am_sender m \<noteq> [] \<and> am_receiver m \<noteq> [] \<and> am_action m \<noteq> [] then Inr m
      else Inl (ValidationError ''A2AMessage''))"

definition a2a_message_json :: "a2a_message \<Rightarrow> json" where
  "a2a_message_json m = J_Dict
     [(''message_id'', J_Str (am_message_id m)), (''sender'', J_Str (am_sender m)), (''receiver'', J_Str (am_receiver m)),
      (''action'', J_Str (am_action m)), (''payload'', J_Dict (am_payload m)), (''created_at'', J_Str (am_created_at m))]"

record a2a_adapter =
  a2_sent_messages :: "a2a_message list"
  a2_evidence :: "json list"

definition delegation_input :: "a2a_message \<Rightarrow> policy_input" where
  "delegation_input m =
     [(''action'', J_Str ''delegate''),
      (''capability'', (case dict_get ''capability'' (am_payload m) of None \<Rightarrow> J_Str (am_action m) | Some v \<Rightarrow> v)),
      (''sender'', J_Str (am_sender m)), (''receiver'', J_Str (am_receiver m))]"

definition send_event :: "a2a_message \<Rightarrow> policy_decision \<Rightarrow> json" where
  "send_event m d = J_Dict
     [(''event'', J_Str ''a2a_send''), (''message'', a2a_message_json m), (''policy_decision'', decision_json d)]"

definition send_a2a :: "engine \<Rightarrow> pystr \<Rightarrow> a2a_message \<Rightarrow> (a2a_adapter, (pystr \<times> json) list) proc" where
  "send_a2a ev policy_path m =
     andthen (lift_result (evaluate_decision ev policy_path (delegation_input m))) (\<lambda>d.
     andthen (writes (\<lambda>a. a\<lparr>a2_evidence := a2_evidence a @ [send_event m d]\<rparr>)) (\<lambda>_.
     if \<not> allow d then ret [(''sent'', J_Bool False), (''evidence'', send_event m d)]
     else andthen (writes (\<lambda>a. a\<lparr>a2_sent_messages := a2_sent_messages a @ [m]\<rparr>)) (\<lambda>_.
          ret [(''sent'', J_Bool True), (''message_id'', J_Str (am_message_id m)), (''evidence'', send_event m d)])))"

definition send_a2a_text ::
    "engine \<Rightarrow> pystr \<Rightarrow> pystr \<Rightarrow> pystr \<Rightarrow> pystr \<Rightarrow> pystr \<Rightarrow> (a2a_adapter, unit) proc" where
  "send_a2a_text ev policy_path message_id now agent_id message =
     andthen (lift_result (parse_a2a_message
       \<lparr>am_message_id = message_id, am_sender = ''local'', am_receiver = agent_id, am_action = ''message'',
        am_payload = [(''message'', J_Str message)], am_created_at = now\<rparr>)) (\<lambda>m.
     andthen (send_a2a ev policy_path m) (\<lambda>_. ret ()))"

section \<open>Signature records\<close>

text \<open>\<open>create_signed_evidence\<close> and \<open>create_signature_verification_evidence\<close>; \<open>created_at\<close> is its ISO text.\<close>

fun signature_algorithm_value :: "signature_algorithm \<Rightarrow> pystr" where
  "signature_algorithm_value Ed25519 = ''ed25519''"
| "signature_algorithm_value Hmac_Sha256 = ''hmac-sha256''"

record signature_evidence =
  sz_key_id :: pystr
  sz_algorithm :: pystr
  sz_payload_digest :: pystr
  sz_created_at :: pystr

record signed_evidence =
  sd_payload :: "(pystr \<times> json) list"
  sd_signature :: signature_evidence

definition create_signed_evidence :: "(pystr \<times> json) list \<Rightarrow> signature_envelope \<Rightarrow> signed_evidence" where
  "create_signed_evidence payload v =
     \<lparr>sd_payload = payload,
      sd_signature = \<lparr>sz_key_id = sn_key_id v, sz_algorithm = signature_algorithm_value (sn_algorithm v),
        sz_payload_digest = sn_payload_digest v, sz_created_at = sn_created_at v\<rparr>\<rparr>"

definition signed_payload_hash :: "(pystr \<Rightarrow> pystr) \<Rightarrow> signed_evidence \<Rightarrow> pystr" where
  "signed_payload_hash sha256 s = compute_hash sha256 (J_Dict (sd_payload s))"

record signature_verification_evidence =
  sx_key_id :: pystr
  sx_payload_digest :: pystr
  sx_verified :: bool
  sx_denial :: "pystr option"

definition create_signature_verification_evidence ::
    "signature_envelope \<Rightarrow> bool \<Rightarrow> pystr option \<Rightarrow> signature_verification_evidence" where
  "create_signature_verification_evidence v verified denial =
     \<lparr>sx_key_id = sn_key_id v, sx_payload_digest = sn_payload_digest v, sx_verified = verified, sx_denial = denial\<rparr>"

section \<open>Facts\<close>

lemma build_decided:
  "rego_engine p self_approval_query (build_input c) = Inr (if bc_builder c = bc_approver c then J_Bool True else J_Null)"
  "rego_engine p allow_query (build_input c) = Inr (J_Bool (bc_builder c \<noteq> bc_approver c))"
  by (auto simp: rego_engine_def self_approval_query_def allow_query_def build_input_def rego_deny_builder_self_approval_def
      rego_allow_def is_text_def dict_get_def rego_forbidden_capability_def one_of_def is_not_text_def Let_def)

text \<open>Nobody records a build of their own that they approved themselves, and a refusal writes nothing.\<close>

lemma self_approval_refused:
  "bc_builder c = bc_approver c \<Longrightarrow>
   emit_provenance sha256 rego_engine p output_dir now c e fs =
     (Inl (ValueError (''Build failed: Builder '' @ bc_builder c @ '' cannot self-approve.'')), fs)"
  by (simp add: emit_provenance_def build_decided)

text \<open>
  With another approver the record is in the file whose name is its digest, and the digest is that
  of the recorded data, which names the digest of the linked run.
\<close>

lemma write_new_file:
  assumes "rooted fs" "link_free fs d" "fs d = Some Directory" "fs (d @ [x]) = None" "x \<noteq> ''..''"
  shows "write_bytes (d @ [x]) b fs = (Inr (), fs(d @ [x] \<mapsto> File b))"
proof -
  have "link_free fs (d @ [x])" using link_free_snoc [OF assms(2,5)] assms(4) by simp
  then have none: "os_path link_limit fs [] (d @ [x]) = None" using rooted_os_path [OF assms(1)] assms(4) by simp
  obtain y ys where e: "d @ [x] = y # ys" by (cases "d @ [x]") auto
  have parts: "butlast (y # ys) = d" "last (y # ys) = x" unfolding e [symmetric] by simp_all
  have "write_target fs (y # ys) = Some (y # ys)"
    unfolding write_target_def using none rooted_os_path [OF assms(1,2)] assms(3-5)
    by (simp add: parts e del: os_path.simps butlast.simps last.simps)
  then show ?thesis using assms(4) by (simp add: write_bytes_def e)
qed

lemma provenance_emitted:
  fixes e :: "json option" and sha256 :: "pystr \<Rightarrow> pystr" and now :: pystr and c :: builder_card and output_dir :: path
  defines "linked \<equiv> map_option (compute_hash sha256) e"
  defines "data \<equiv> provenance_data now c (J_Bool True) linked"
  defines "target \<equiv> provenance_path output_dir (compute_hash sha256 data)"
  assumes "bc_builder c \<noteq> bc_approver c" "rooted fs" "link_free fs output_dir" "fs output_dir = Some Directory"
    "fs target = None"
  shows "emit_provenance sha256 rego_engine p output_dir now c e fs =
    (Inr target, fs(target \<mapsto> File (utf8_encode (dumps_pretty False (provenance_record (compute_hash sha256 data) linked data)))))"
proof -
  have "path_exists fs output_dir" using rooted_exists [OF assms(5,6)] assms(7) by simp
  moreover have "write_bytes target b fs = (Inr (), fs(target \<mapsto> File b))" for b
    using write_new_file [OF assms(5,6,7)] assms(8) by (simp add: target_def provenance_path_def)
  ultimately show ?thesis using assms(4)
    by (simp add: emit_provenance_def build_decided Let_def linked_def [symmetric] data_def [symmetric]
        target_def [symmetric] write_text_def andthen_def)
qed

text \<open>A message is sent exactly when its capability is neither the shell nor the network.\<close>

lemma delegation_allowed:
  "rego_allow (delegation_input m) \<longleftrightarrow>
     dict_get ''capability'' (delegation_input m) \<notin> {Some (J_Str ''shell''), Some (J_Str ''network'')}"
  by (simp add: rego_allow_def is_text_def delegation_input_def dict_get_def rego_forbidden_capability_def one_of_def)

lemma a2a_sent_iff:
  "\<exists>d. evaluate_decision rego_engine p (delegation_input m) = Inr d
     \<and> send_a2a rego_engine p m a =
        (Inr (if allow d then [(''sent'', J_Bool True), (''message_id'', J_Str (am_message_id m)), (''evidence'', send_event m d)]
              else [(''sent'', J_Bool False), (''evidence'', send_event m d)]),
         a\<lparr>a2_evidence := a2_evidence a @ [send_event m d],
           a2_sent_messages := a2_sent_messages a @ (if allow d then [m] else [])\<rparr>)
     \<and> (allow d \<longleftrightarrow> dict_get ''capability'' (delegation_input m) \<notin> {Some (J_Str ''shell''), Some (J_Str ''network'')})"
  using rego_decides [of p "delegation_input m"] rego_decision_allow [of p "delegation_input m"]
  by (auto simp: send_a2a_def delegation_allowed)

end
