(* ===== verification/Cli.thy ===== *)
theory Cli
  imports Mcp_Adapter Ask Effort Loop
begin

text \<open>
  The command line (\<open>vad/cli.py\<close>): what a command reads, writes and prints, and its exit status. A
  command runs on a terminal: the ledger and the files, standard output and standard error. It
  returns the status it passes to \<open>sys.exit\<close>, zero when it returns; an exception it does not handle
  ends the process with a traceback and status 1 (\<open>exit_status\<close>). Paths are absolute. Parsing YAML
  and JSON and reading a value into a model are parameters, as in the MCP server; \<open>yaml.safe_dump\<close>
  is another. This theory holds the commands on contracts, asks, evidence, effort and signatures.
\<close>

section \<open>The terminal\<close>

record console =
  tm_site :: site
  tm_stdout :: pystr
  tm_stderr :: pystr

type_synonym 'a cli = "(console, 'a) proc"

record cli_env =
  ce_mcp :: mcp_env
  ce_yaml_dump :: "json \<Rightarrow> pystr"
  ce_assessment :: "json \<Rightarrow> exn + ask_assessment"
  ce_run_evidence :: "json \<Rightarrow> exn + run_evidence"
  ce_git :: "pystr list \<Rightarrow> (int \<times> pystr) option"

definition on_site :: "(site, 'a) proc \<Rightarrow> 'a cli" where
  "on_site m t = (case m (tm_site t) of (r, s) \<Rightarrow> (r, t\<lparr>tm_site := s\<rparr>))"

definition cli_files :: "'a io \<Rightarrow> 'a cli" where
  "cli_files m = on_site (on_files m)"

definition out_text :: "pystr \<Rightarrow> unit cli" where
  "out_text s = writes (\<lambda>t. t\<lparr>tm_stdout := tm_stdout t @ s\<rparr>)"

definition print_line :: "pystr \<Rightarrow> unit cli" where
  "print_line s = out_text (s @ [CHR 0x0A])"

definition print_error :: "pystr \<Rightarrow> unit cli" where
  "print_error s = writes (\<lambda>t. t\<lparr>tm_stderr := tm_stderr t @ s @ [CHR 0x0A]\<rparr>)"

definition fail_with :: "pystr \<Rightarrow> int cli" where
  "fail_with message = andthen (print_error message) (\<lambda>_. ret 1)"

text \<open>\<open>try: m; except ..: h\<close>; \<open>h\<close> is undefined for what is not caught. \<open>sys.exit\<close> passes through.\<close>

definition handling :: "'a cli \<Rightarrow> (exn \<Rightarrow> 'a cli option) \<Rightarrow> 'a cli" where
  "handling m h t =
     (case m t of
        (Inl e, t') \<Rightarrow> (case h e of None \<Rightarrow> (Inl e, t') | Some k \<Rightarrow> k t')
      | (Inr x, t') \<Rightarrow> (Inr x, t'))"

fun rejected_value :: "exn \<Rightarrow> bool" where
  "rejected_value (ValidationError _) = True"
| "rejected_value _ = False"

definition exit_status :: "int cli \<Rightarrow> console \<Rightarrow> int \<times> console" where
  "exit_status m t = (case m t of (Inl e, t') \<Rightarrow> (1, t') | (Inr code, t') \<Rightarrow> (code, t'))"

section \<open>Input and output\<close>

definition cli_load :: "cli_env \<Rightarrow> path \<Rightarrow> json cli" where
  "cli_load env p = cli_files (load_structured_file (ce_mcp env) p)"

definition cli_eip :: "cli_env \<Rightarrow> path \<Rightarrow> eip cli" where
  "cli_eip env p = andthen (cli_load env p) (\<lambda>v. lift_result (decode_eip (ce_mcp env) v))"

definition cli_plan :: "cli_env \<Rightarrow> path \<Rightarrow> proof_plan cli" where
  "cli_plan env p = andthen (cli_load env p) (\<lambda>v. lift_result (decode_plan (ce_mcp env) v))"

definition file_there :: "path \<Rightarrow> bool cli" where
  "file_there p = reads (\<lambda>t. path_exists (snd (tm_site t)) p)"

text \<open>The first file that is missing ends the command.\<close>

fun needing :: "path list \<Rightarrow> int cli \<Rightarrow> int cli" where
  "needing [] m = m"
| "needing (p # ps) m =
     andthen (file_there p) (\<lambda>there. if \<not> there then fail_with (''File '' @ path_text p @ '' not found.'') else needing ps m)"

definition write_or_print_text :: "pystr \<Rightarrow> path option \<Rightarrow> unit cli" where
  "write_or_print_text output out = (case out of None \<Rightarrow> out_text output | Some p \<Rightarrow> cli_files (write_text p output))"

definition write_or_print_json :: "json \<Rightarrow> path option \<Rightarrow> unit cli" where
  "write_or_print_json payload out = write_or_print_text (dumps_pretty False payload @ [CHR 0x0A]) out"

text \<open>A command that refuses to overwrite its output.\<close>

definition unless_overwriting :: "path option \<Rightarrow> bool \<Rightarrow> int cli \<Rightarrow> int cli" where
  "unless_overwriting out force m =
     (case out of None \<Rightarrow> m
      | Some p \<Rightarrow> andthen (file_there p) (\<lambda>there.
          if there \<and> \<not> force
          then fail_with (''File '' @ path_text p @ '' already exists. Use --force to overwrite.'') else m))"

section \<open>Contracts\<close>

definition template_eip :: "pystr \<Rightarrow> eip" where
  "template_eip name =
     \<lparr>eip_version = ''1.0.0'', eip_name = name,
      eip_goal = \<lparr>gl_description = ''Describe the intended outcome for '' @ name @ ''.'',
                  gl_success_criteria = [''Define at least one executable success criterion.'']\<rparr>,
      eip_non_goals = [], eip_risk_tier = Risk_Low, eip_autonomy_tier = Assisted, eip_scope_boundaries = [],
      eip_invariants = \<lparr>in_security = [], in_performance = [], in_functional = []\<rparr>,
      eip_constraints = \<lparr>co_security = [], co_privacy = [], co_operational = []\<rparr>,
      eip_proof_obligations = [],
      eip_tool_permissions = \<lparr>tp_allowed = [''pytest''], tp_denied = [''network'']\<rparr>,
      eip_memory_requirements = [],
      eip_model_budget = \<lparr>mb_max_tokens = 10000, mb_max_cost = ''1.0'', mb_max_loop_depth = 3\<rparr>,
      eip_release_requirements = \<lparr>rl_required = False, rl_strategy = None, rl_gates = []\<rparr>,
      eip_telemetry_requirements = \<lparr>tl_required = False, tl_signals = []\<rparr>\<rparr>"

definition init_command :: "cli_env \<Rightarrow> pystr \<Rightarrow> path \<Rightarrow> path option \<Rightarrow> bool \<Rightarrow> int cli" where
  "init_command env name out from_assessment force =
     unless_overwriting (Some out) force
       (andthen
          (case from_assessment of
             None \<Rightarrow> lift_result (parse_eip (template_eip name))
           | Some p \<Rightarrow>
               andthen (cli_load env p) (\<lambda>v.
               andthen (lift_result (case ce_assessment env v of Inl e \<Rightarrow> Inl e | Inr a \<Rightarrow> parse_assessment a)) (\<lambda>a.
               lift_result (eip_from_assessment name a)))) (\<lambda>e.
        andthen (cli_files (make_dirs (butlast out))) (\<lambda>_.
        andthen (cli_files (write_text out (ce_yaml_dump env (normalize_eip e)))) (\<lambda>_.
        andthen (print_line (''Created EIP template at '' @ path_text out)) (\<lambda>_. ret 0)))))"

definition on_invalid :: "pystr \<Rightarrow> pystr \<Rightarrow> exn \<Rightarrow> int cli option" where
  "on_invalid invalid_message other_message e =
     Some (if rejected_value e
           then andthen (print_error invalid_message) (\<lambda>_. fail_with (exn_text e))
           else fail_with (other_message @ '': '' @ exn_text e))"

definition validate_command :: "cli_env \<Rightarrow> path \<Rightarrow> int cli" where
  "validate_command env file =
     needing [file] (handling
       (andthen (cli_eip env file) (\<lambda>_. andthen (print_line ''EIP is valid.'') (\<lambda>_. ret 0)))
       (on_invalid ''EIP validation failed:'' ''Error loading file''))"

fun change_json :: "eip_change \<Rightarrow> json" where
  "change_json (Added p new) =
     J_Dict [(''kind'', J_Str ''added''), (''path'', J_Str p), (''old'', J_Null), (''new'', new)]"
| "change_json (Removed p old) =
     J_Dict [(''kind'', J_Str ''removed''), (''path'', J_Str p), (''old'', old), (''new'', J_Null)]"
| "change_json (Changed p old new) =
     J_Dict [(''kind'', J_Str ''changed''), (''path'', J_Str p), (''old'', old), (''new'', new)]"

definition diff_command :: "cli_env \<Rightarrow> path \<Rightarrow> path \<Rightarrow> bool \<Rightarrow> int cli" where
  "diff_command env old_file new_file as_json =
     needing [old_file, new_file] (handling
       (andthen (cli_eip env old_file) (\<lambda>old.
        andthen (cli_eip env new_file) (\<lambda>new.
        let changes = diff_eips old new in
        andthen (if as_json
                 then print_line (dumps_pretty False (J_Dict [(''changes'', J_List (map change_json changes))]))
                 else out_text (format_diff py_str changes)) (\<lambda>_.
        ret 0))))
       (on_invalid ''EIP diff failed:'' ''Error diffing files''))"

definition normalize_command :: "cli_env \<Rightarrow> path \<Rightarrow> path option \<Rightarrow> bool \<Rightarrow> bool \<Rightarrow> int cli" where
  "normalize_command env file out as_json force =
     needing [file] (handling
       (andthen (cli_eip env file) (\<lambda>e.
        let v = normalize_eip e;
            output = (if as_json then dumps_pretty False v @ [CHR 0x0A] else ce_yaml_dump env v) in
        unless_overwriting out force (andthen (write_or_print_text output out) (\<lambda>_. ret 0))))
       (on_invalid ''EIP normalization failed:'' ''Error normalizing file''))"

section \<open>Asks and proofs\<close>

fun effort_type_value :: "effort_type \<Rightarrow> pystr" where
  "effort_type_value Bugfix = ''bugfix''"
| "effort_type_value Feature = ''feature''"
| "effort_type_value Refactor = ''refactor''"
| "effort_type_value Greenfield = ''greenfield''"
| "effort_type_value Test = ''test''"
| "effort_type_value Migration = ''migration''"

definition assessment_json :: "ask_assessment \<Rightarrow> json" where
  "assessment_json a = J_Dict
     [(''summary'', J_Str (aa_summary a)), (''ambiguity_score'', J_Int (aa_ambiguity_score a)),
      (''risk_tier'', J_Str (risk_tier_value (aa_risk_tier a))),
      (''autonomy_tier'', J_Str (autonomy_tier_value (aa_autonomy_tier a))),
      (''effort_type'', J_Str (effort_type_value (aa_effort_type a))),
      (''required_proof_kinds'', json_texts (aa_required_proof_kinds a)), (''tool_needs'', json_texts (aa_tool_needs a)),
      (''memory_needs'', json_texts (aa_memory_needs a)), (''model_tier'', J_Str (aa_model_tier a)),
      (''budget'', J_Float (aa_budget a)), (''token_budget'', J_Int (aa_token_budget a)),
      (''loop_depth'', J_Int (aa_loop_depth a)), (''release_needed'', J_Bool (aa_release_needed a)),
      (''telemetry_needed'', J_Bool (aa_telemetry_needed a)),
      (''clarification_questions'', json_texts (aa_clarification_questions a)),
      (''mees_budget'', J_Dict
         [(''minimum_score'', J_Int (mees_minimum_score (aa_mees_budget a))),
          (''max_changed_files'', J_Int (mees_max_changed_files (aa_mees_budget a))),
          (''allow_new_dependencies'', J_Bool (mees_allow_new_dependencies (aa_mees_budget a))),
          (''requires_justification'', J_Bool (mees_requires_justification (aa_mees_budget a)))])]"

definition ask_assess_command :: "path \<Rightarrow> path option \<Rightarrow> bool \<Rightarrow> int cli" where
  "ask_assess_command file out as_json =
     needing [file]
       (andthen (cli_files (read_text file)) (\<lambda>text.
        andthen (lift_result (assess_ask text)) (\<lambda>a.
        let output = dumps_pretty False (assessment_json a) @ [CHR 0x0A] in
        andthen
          (case out of
             Some p \<Rightarrow> cli_files (write_text p output)
           | None \<Rightarrow>
               (if as_json then out_text output
                else out_text (concat (map (\<lambda>l. l @ [CHR 0x0A])
                  ([''Summary: '' @ aa_summary a, ''Risk: '' @ risk_tier_value (aa_risk_tier a),
                    ''Autonomy: '' @ autonomy_tier_value (aa_autonomy_tier a),
                    ''Effort: '' @ effort_type_value (aa_effort_type a)]
                   @ (if aa_clarification_questions a = [] then []
                      else ''Clarification questions:'' # map (\<lambda>q. ''- '' @ q) (aa_clarification_questions a))))))) (\<lambda>_.
        ret 0))))"

definition plan_json :: "proof_plan \<Rightarrow> json" where
  "plan_json p = J_Dict
     [(''schema_version'', J_Str (pp_schema_version p)), (''eip_version'', J_Str (pp_eip_version p)),
      (''eip_digest'', J_Str (pp_eip_digest p)),
      (''mappings'', J_List (map (\<lambda>m. J_Dict [(''obligation_id'', J_Str (pm_obligation_id m)),
         (''test_command'', J_Str (pm_test_command m))]) (pp_mappings p))),
      (''required_manual_gates'', json_texts (pp_required_manual_gates p))]"

definition on_value_error :: "pystr \<Rightarrow> exn \<Rightarrow> int cli option" where
  "on_value_error message e = (if is_value_error e then Some (fail_with (message @ '': '' @ exn_text e)) else None)"

definition proof_map_command :: "cli_env \<Rightarrow> path \<Rightarrow> path option \<Rightarrow> bool \<Rightarrow> int cli" where
  "proof_map_command env file out force =
     needing [file] (handling
       (andthen (cli_eip env file) (\<lambda>e.
        andthen (lift_result (map_proofs (cy_sha256 (en_crypto (ce_mcp env))) e)) (\<lambda>plan.
        unless_overwriting out force
          (andthen (write_or_print_text (ce_yaml_dump env (plan_json plan)) out) (\<lambda>_. ret 0)))))
       (on_value_error ''Proof mapping failed''))"

section \<open>Evidence and effort\<close>

definition verification_summary :: "run_evidence \<Rightarrow> pystr" where
  "verification_summary e =
     (case re_verification e of None \<Rightarrow> ''not_run'' | Some v \<Rightarrow> if ve_passed v then ''passed'' else ''failed'')"

text \<open>A recorded hash that is not a text differs from every digest.\<close>

definition evidence_inspect_command :: "cli_env \<Rightarrow> path \<Rightarrow> int cli" where
  "evidence_inspect_command env file =
     needing [file] (handling
       (andthen (cli_load env file) (\<lambda>payload.
        let (data, expected) =
              (case payload of
                 J_Dict d \<Rightarrow> ((case dict_get ''evidence'' d of None \<Rightarrow> payload | Some v \<Rightarrow> v), get_or_null ''evidence_hash'' d)
               | _ \<Rightarrow> (payload, J_Null)) in
        andthen (lift_result (case ce_run_evidence env data of Inl e \<Rightarrow> Inl e | Inr e \<Rightarrow> parse_run_evidence e)) (\<lambda>e.
        let digest = run_digest (cy_sha256 (en_crypto (ce_mcp env))) e in
        if json_truthy expected \<and> expected \<noteq> J_Str digest then fail_with ''Evidence tamper check failed.''
        else andthen (out_text (concat (map (\<lambda>l. l @ [CHR 0x0A])
               [''Run: '' @ re_run_id e, ''Decision: '' @ re_final_decision e, ''Hash: '' @ digest,
                ''Verification: '' @ verification_summary e,
                ''MEES: '' @ show_int (ef_mees (re_effort e)) @ '' ('' @ ef_policy (re_effort e) @ '')'',
                ''Token budget: '' @ show_int (te_budget (re_tokens e))]))) (\<lambda>_. ret 0))))
       (\<lambda>e. Some (fail_with ((if rejected_value e then ''Evidence validation failed: ''
                             else ''Error inspecting evidence: '') @ exn_text e))))"

text \<open>\<open>EffortType(value)\<close>.\<close>

definition effort_kinds :: "effort_kind list" where
  "effort_kinds = [Ek_Bugfix, Ek_Feature, Ek_Refactor, Ek_Greenfield, Ek_Test, Ek_Migration]"

definition effort_kind_named :: "pystr \<Rightarrow> exn + effort_kind" where
  "effort_kind_named s =
     (case find (\<lambda>k. effort_kind_value k = s) effort_kinds of
        None \<Rightarrow> Inl (ValueError (s @ '' is not a valid EffortType'')) | Some k \<Rightarrow> Inr k)"

definition score_json :: "effort_score \<Rightarrow> (pystr \<times> json) list" where
  "score_json s =
     [(''effort_type'', J_Str (effort_kind_value (es_effort_type s))), (''score'', J_Int (es_score s)),
      (''policy'', J_Str (es_policy s)),
      (''penalties'', J_Dict
         [(''complexity'', J_Int (pn_complexity (es_penalties s))),
          (''maintainability'', J_Int (pn_maintainability (es_penalties s))), (''diff'', J_Int (pn_diff (es_penalties s))),
          (''spread'', J_Int (pn_spread (es_penalties s))), (''dependency'', J_Int (pn_dependency (es_penalties s))),
          (''novelty'', J_Int (pn_novelty (es_penalties s))), (''risk'', J_Int (pn_risk (es_penalties s)))]),
      (''warnings'', json_texts (es_warnings s)), (''requires_human'', J_Bool (es_requires_human s))]"

definition effort_payload :: "effort_score \<Rightarrow> diff_metrics \<Rightarrow> json" where
  "effort_payload s m = J_Dict (score_json s @
     [(''metrics'', J_Dict
         [(''changed_files'', J_Int (dm_changed_files m)), (''insertions'', J_Int (dm_insertions m)),
          (''deletions'', J_Int (dm_deletions m)),
          (''dependency_files_changed'', J_Int (dm_dependency_files_changed m))])])"

definition effort_status :: "bool \<Rightarrow> effort_score \<Rightarrow> int" where
  "effort_status warn_only s =
     (if \<not> warn_only \<and> es_policy s = ''block'' then 1 else if \<not> warn_only \<and> es_policy s = ''warn'' then 2 else 0)"

definition effort_score_command :: "cli_env \<Rightarrow> pystr \<Rightarrow> pystr \<Rightarrow> pystr \<Rightarrow> bool \<Rightarrow> bool \<Rightarrow> int cli" where
  "effort_score_command env before after effort_type readable warn_only =
     handling
       (andthen (lift_result (collect_git_diff_metrics before after (ce_git env))) (\<lambda>m.
        let d = penalties_from_diff_metrics m;
            quality = quality_metrics_from_supplied None None None;
            p = penalties_from_quality_metrics quality in
        andthen (lift_result (effort_kind_named effort_type)) (\<lambda>kind.
        andthen (lift_result (score_effort kind
            (Some (no_penalties\<lparr>pn_complexity := pn_complexity p, pn_maintainability := pn_maintainability p,
               pn_diff := pn_diff d, pn_spread := pn_spread d, pn_dependency := pn_dependency d\<rparr>))
            (Some (dm_warnings m @ qm_warnings quality)))) (\<lambda>s.
        andthen
          (if readable
           then out_text (concat (map (\<lambda>l. l @ [CHR 0x0A])
             [''MEES: '' @ show_int (es_score s) @ '' ('' @ es_policy s @ '')'',
              ''Effort: '' @ effort_kind_value (es_effort_type s),
              ''Changed files: '' @ show_int (dm_changed_files m), ''Line delta: '' @ show_int (line_delta m)]))
           else print_line (dumps_pretty False (effort_payload s m))) (\<lambda>_.
        ret (effort_status warn_only s))))))
       (on_value_error ''Effort scoring failed'')"

text \<open>The store of \<open>eip retro\<close> has no file.\<close>

definition retro_command :: "cli_env \<Rightarrow> path \<Rightarrow> int cli" where
  "retro_command env file =
     needing [file] (handling
       (andthen (cli_load env file) (\<lambda>data.
        andthen (on_site fresh_id) (\<lambda>k.
        andthen (on_site (with_memory ((ce_mcp env)\<lparr>en_memory_file := None\<rparr>)
          (retro_analyze (en_redactor (ce_mcp env)) k data))) (\<lambda>answer.
        andthen (print_line ''Retro analysis complete.'') (\<lambda>_.
        andthen (print_line (''Learnings: '' @ py_str (get_or_null ''learning'' answer))) (\<lambda>_. ret 0))))))
       (\<lambda>e. Some (fail_with (''Error processing retro analysis: '' @ exn_text e))))"

section \<open>The loop\<close>

definition loop_result_json :: "loop_result \<Rightarrow> json" where
  "loop_result_json r = J_Dict
     [(''final_decision'', J_Str (loop_status_value (lr_final_decision r))),
      (''state'', J_Dict [(''status'', J_Str (loop_status_value (ls_status (lr_state r)))),
         (''history'', json_texts (map loop_status_value (ls_history (lr_state r))))]),
      (''evidence'', run_evidence_json (lr_evidence r))]"

text \<open>\<open>VADOrchestrator()\<close> with its defaults.\<close>

definition default_orchestrator :: "mcp_env \<Rightarrow> pystr \<Rightarrow> pystr \<Rightarrow> orchestrator" where
  "default_orchestrator env run_id now =
     \<lparr>oc_policy_path = ''policies/vad.rego'', oc_engine = en_engine env, oc_spawn = en_spawn env,
      oc_sha256 = cy_sha256 (en_crypto env), oc_effort_score = None, oc_effort_metrics = None,
      oc_effort_justification = None, oc_dependency_approval = False, oc_release_metrics = [(''health'', ''1.0'')],
      oc_provider = None, oc_provider_model = None, oc_run_id = run_id, oc_now = now\<rparr>"

definition loop_run_command ::
    "cli_env \<Rightarrow> path \<Rightarrow> path \<Rightarrow> pystr \<Rightarrow> pystr \<Rightarrow> path option \<Rightarrow> int cli" where
  "loop_run_command env eip_file proof_plan_file builder verifier out =
     needing [eip_file, proof_plan_file] (handling
       (andthen (cli_eip env eip_file) (\<lambda>e.
        andthen (cli_plan env proof_plan_file) (\<lambda>plan.
        andthen (on_site fresh_id) (\<lambda>run_id.
        andthen (on_site timestamp) (\<lambda>now.
        andthen (lift_result (fst (run_loop (default_orchestrator (ce_mcp env) run_id now) e plan builder verifier
            \<lparr>rm_flags = [], rm_gates = []\<rparr>))) (\<lambda>r.
        andthen (write_or_print_json (loop_result_json r) out) (\<lambda>_.
        ret (if lr_final_decision r \<noteq> Lo_Passed then 1 else 0))))))))
       (\<lambda>e. if rejected_value e then Some (fail_with (''Loop run failed: '' @ exn_text e)) else None))"

section \<open>Signatures\<close>

definition envelope_json :: "signature_envelope \<Rightarrow> json" where
  "envelope_json v = J_Dict
     [(''schema_version'', J_Str (sn_schema_version v)), (''payload_digest'', J_Str (sn_payload_digest v)),
      (''key_id'', J_Str (sn_key_id v)),
      (''algorithm'', J_Str (case sn_algorithm v of Ed25519 \<Rightarrow> ''ed25519'' | Hmac_Sha256 \<Rightarrow> ''hmac-sha256'')),
      (''signature'', J_Str (sn_signature v)), (''created_at'', J_Str (sn_created_at v))]"

text \<open>\<open>sign_payload\<close> of any value; on a dict it is \<open>Signing.sign_payload\<close>.\<close>

definition sign_value :: "crypto \<Rightarrow> pystr \<Rightarrow> local_signer \<Rightarrow> json \<Rightarrow> exn + signature_envelope" where
  "sign_value cy now g payload =
     (let digest = compute_hash (cy_sha256 cy) payload in
      parse_envelope
        \<lparr>sn_schema_version = ''1.0.0'', sn_payload_digest = digest, sn_key_id = lg_key_id g,
         sn_algorithm = Hmac_Sha256, sn_signature = b64_encode (cy_hmac cy (lg_secret g) digest), sn_created_at = now\<rparr>)"

lemma sign_value_dict: "sign_value cy now g (J_Dict payload) = sign_payload cy now g payload"
  by (simp add: sign_value_def sign_payload_def payload_digest_def)

definition sign_evidence_command :: "cli_env \<Rightarrow> path \<Rightarrow> pystr \<Rightarrow> path \<Rightarrow> path option \<Rightarrow> int cli" where
  "sign_evidence_command env evidence_file key_id secret_file out =
     needing [evidence_file, secret_file]
       (andthen (cli_load env evidence_file) (\<lambda>payload.
        andthen (cli_files (read_bytes secret_file)) (\<lambda>secret.
        andthen (lift_result (new_signer key_id secret)) (\<lambda>signer.
        andthen (on_site timestamp) (\<lambda>now.
        andthen (lift_result (sign_value (en_crypto (ce_mcp env)) now signer payload)) (\<lambda>envelope.
        andthen (write_or_print_json (J_Dict [(''payload'', payload), (''signature'', envelope_json envelope)]) out) (\<lambda>_.
        ret 0)))))))"

fun is_lookup_or_value_error :: "exn \<Rightarrow> bool" where
  "is_lookup_or_value_error (KeyError _) = True"
| "is_lookup_or_value_error (TypeError _) = True"
| "is_lookup_or_value_error e = is_value_error e"

definition sign_verify_command :: "cli_env \<Rightarrow> path \<Rightarrow> path \<Rightarrow> path option \<Rightarrow> int cli" where
  "sign_verify_command env signed_file secret_file out =
     needing [signed_file, secret_file] (handling
       (andthen (cli_load env signed_file) (\<lambda>signed.
        andthen (lift_result (json_at ''signature'' signed)) (\<lambda>s.
        andthen (lift_result (case en_envelope (ce_mcp env) s of Inl e \<Rightarrow> Inl e | Inr v \<Rightarrow> parse_envelope v)) (\<lambda>envelope.
        andthen (cli_files (read_bytes secret_file)) (\<lambda>secret.
        andthen (lift_result (new_signer (sn_key_id envelope) secret)) (\<lambda>signer.
        andthen (lift_result (json_at ''payload'' signed)) (\<lambda>payload.
        andthen (on_site timestamp) (\<lambda>now.
        andthen (lift_result (verify_value (en_crypto (ce_mcp env)) now signer payload envelope)) (\<lambda>verified.
        andthen (write_or_print_json (J_Dict
            [(''verified'', J_Bool verified), (''key_id'', J_Str (sn_key_id envelope)),
             (''payload_digest'', J_Str (sn_payload_digest envelope))]) out) (\<lambda>_.
        ret (if verified then 0 else 1)))))))))))
       (\<lambda>e. if is_lookup_or_value_error e then Some (fail_with (''Signature verification failed: '' @ exn_text e)) else None))"

end
