(* ===== verification/Cli_Repo.thy ===== *)
theory Cli_Repo
  imports Cli Patch_Plan Mcp_Properties
begin

text \<open>
  The commands on a repository (\<open>repo assess\<close>, \<open>repo patch\<close>, \<open>repo run\<close> of \<open>vad/cli.py\<close>), and what
  they leave behind: the files are as before unless the patch passed every check, with one exception
  that \<open>repo_run_outcomes\<close> names.
\<close>

section \<open>Commands\<close>

definition repo_assess_command :: "cli_env \<Rightarrow> path \<Rightarrow> int cli" where
  "repo_assess_command env p =
     handling
       (andthen (cli_files (assess_repository (en_spawn (ce_mcp env)) (en_walk (ce_mcp env)) p)) (\<lambda>i.
        andthen (print_line (dumps_pretty False (intake_json i))) (\<lambda>_. ret 0)))
       (on_value_error ''Repository assessment failed'')"

definition text_or :: "pystr option \<Rightarrow> pystr option \<Rightarrow> pystr option" where
  "text_or a b = (if given a then a else b)"

definition cli_patch_payload ::
    "mcp_env \<Rightarrow> patch_apply_result \<Rightarrow> policy_decision \<Rightarrow> verifier_report option \<Rightarrow> rollback_result option \<Rightarrow> json" where
  "cli_patch_payload env a d verification undo = J_Dict
     [(''applied'', J_Bool (pa_applied a)), (''changed_files'', json_texts (pa_changed_files a)),
      (''journal'', opt_json (\<lambda>j. journal_json (journal_to_evidence (en_sha256_bytes env) j undo)) (pa_journal a)),
      (''dependency_decision'', decision_json d), (''verification'', opt_json report_json verification),
      (''rolled_back'', J_Bool (case undo of None \<Rightarrow> False | Some r \<Rightarrow> rb_rolled_back r)),
      (''blocker'', opt_json J_Str (text_or (pa_blocker a) (case undo of None \<Rightarrow> None | Some r \<Rightarrow> rb_blocker r)))]"

definition plan_to_json :: "patch_plan \<Rightarrow> json" where
  "plan_to_json p = J_Dict
     [(''eip_name'', J_Str (pl_eip_name p)), (''scope_boundaries'', json_texts (pl_scope_boundaries p)),
      (''allowed_files'', json_texts (pl_allowed_files p)),
      (''proof_commands'', J_List (map (\<lambda>c. J_Dict [(''ecosystem'', J_Str (dv_ecosystem c)),
         (''command'', json_texts (dv_command c)), (''reason'', J_Str (dv_reason c))]) (pl_proof_commands p))),
      (''mees_estimate'', J_Int (pl_mees_estimate p)), (''blocker'', opt_json J_Str (pl_blocker p))]"

definition repo_run_payload ::
    "mcp_env \<Rightarrow> repository_intake \<Rightarrow> ask_assessment \<Rightarrow> patch_plan \<Rightarrow> patch_apply_result \<Rightarrow> policy_decision
     \<Rightarrow> verifier_report option \<Rightarrow> rollback_result option \<Rightarrow> json" where
  "repo_run_payload env i a plan applied d verification undo = J_Dict
     [(''decision'', J_Str (case verification of Some r \<Rightarrow> if vp_passed r then ''passed'' else ''blocked'' | None \<Rightarrow> ''blocked'')),
      (''intake'', intake_json i), (''assessment'', assessment_json a), (''patch_plan'', plan_to_json plan),
      (''patch'', cli_patch_payload env applied d verification undo)]"

text \<open>The end of a command that reports a payload and a status.\<close>

definition reporting :: "json \<Rightarrow> path option \<Rightarrow> int \<Rightarrow> int cli" where
  "reporting payload out code = andthen (write_or_print_json payload out) (\<lambda>_. ret code)"

text \<open>Rolling back, then reporting.\<close>

definition undoing :: "patch_apply_result \<Rightarrow> (rollback_result option \<Rightarrow> json) \<Rightarrow> path option \<Rightarrow> int cli" where
  "undoing a payload out =
     andthen (cli_files (undo_patch a)) (\<lambda>undo. reporting (payload undo) out 1)"

text \<open>\<open>VerifierRunner(eip, plan, cwd).run()\<close>, and the way back when it does not pass.\<close>

definition prove_or_undo ::
    "mcp_env \<Rightarrow> path \<Rightarrow> eip \<Rightarrow> proof_plan \<Rightarrow> patch_apply_result \<Rightarrow> (verifier_report option \<Rightarrow> rollback_result option \<Rightarrow> json)
     \<Rightarrow> path option \<Rightarrow> int cli" where
  "prove_or_undo env repo e plan a payload out =
     andthen (cli_files (\<lambda>fs. (resolve fs repo, fs))) (\<lambda>cwd.
     andthen (on_site timestamp) (\<lambda>now.
     let report = run_verifier (cy_sha256 (en_crypto env)) (en_engine env) (en_spawn env) default_guard
           (Some (path_text cwd)) now e plan in
     if \<not> vp_passed report then undoing a (payload (Some report)) out
     else reporting (payload (Some report) None) out 0))"

record patch_options =
  po_patch :: path
  po_out :: "path option"
  po_allow_dirty :: bool
  po_approve_dependencies :: bool

definition repo_patch_command :: "cli_env \<Rightarrow> path \<Rightarrow> path \<Rightarrow> path \<Rightarrow> patch_options \<Rightarrow> int cli" where
  "repo_patch_command env repo eip_file proof_plan_file opts =
     (let mcp = ce_mcp env; out = po_out opts in
      needing [eip_file, proof_plan_file, po_patch opts] (handling
        (andthen (cli_files (inspect_git_state (en_spawn mcp) (en_walk mcp) repo (po_allow_dirty opts))) (\<lambda>git.
         if \<not> gs_autonomous_patch_allowed git
         then fail_with (''Repository patch blocked: '' @ (case gs_blocker git of None \<Rightarrow> ''None'' | Some b \<Rightarrow> b))
         else
           andthen (cli_eip env eip_file) (\<lambda>e.
           andthen (cli_plan env proof_plan_file) (\<lambda>plan.
           andthen (cli_files (read_text (po_patch opts))) (\<lambda>patch.
           andthen (cli_files (apply_unified_diff repo patch)) (\<lambda>a.
           if \<not> pa_applied a
           then fail_with (''Repository patch failed: '' @ (case pa_blocker a of None \<Rightarrow> ''None'' | Some b \<Rightarrow> b))
           else
             let d = dependency_decision
                   (assess_dependency_changes (pa_changed_files a) (po_approve_dependencies opts));
                 payload = cli_patch_payload mcp a d in
             if \<not> allow d then undoing a (payload None) out
             else prove_or_undo mcp repo e plan a payload out))))))
        (on_value_error ''Repository patch failed'')))"

text \<open>\<open>_scope_from_paths\<close>: the first components of the changed files.\<close>

definition scope_from_paths :: "pystr list \<Rightarrow> pystr list" where
  "scope_from_paths paths =
     (let scopes = sorted_set (map (\<lambda>p. hd (py_split (CHR ''/'') (forward_slashes p))) (filter (\<lambda>p. p \<noteq> []) paths)) in
      if scopes = [] then [''.''] else scopes)"

definition run_scope :: "pystr list option \<Rightarrow> pystr list \<Rightarrow> pystr list" where
  "run_scope scope changed_files =
     (case scope of Some (b # bs) \<Rightarrow> b # bs | _ \<Rightarrow> scope_from_paths changed_files)"

definition path_name :: "path \<Rightarrow> pystr" where
  "path_name p = (if p = [] then [] else last p)"

definition blocked_json :: "pystr \<Rightarrow> pystr option \<Rightarrow> (pystr \<times> json) list \<Rightarrow> json" where
  "blocked_json decision blocker rest =
     J_Dict ([(''decision'', J_Str decision), (''blocker'', opt_json J_Str blocker)] @ rest)"

definition json_loads :: "mcp_env \<Rightarrow> pystr \<Rightarrow> json option" where
  "json_loads env t = (case en_json env t of Inl _ \<Rightarrow> None | Inr v \<Rightarrow> Some v)"

definition discovered_plan :: "(pystr \<Rightarrow> pystr) \<Rightarrow> eip \<Rightarrow> proof_discovery \<Rightarrow> proof_plan" where
  "discovered_plan sha256 e discovery =
     \<lparr>pp_schema_version = ''1.0.0'', pp_eip_version = eip_version e, pp_eip_digest = compute_eip_digest sha256 e,
      pp_mappings = map (\<lambda>o'. \<lparr>pm_obligation_id = po_id o',
         pm_test_command = py_join '' '' (dv_command (hd (pd_commands discovery)))\<rparr>) (eip_proof_obligations e),
      pp_required_manual_gates = []\<rparr>"

text \<open>
  What follows the applied patch. The contract is made of the assessment, \<open>model_copy\<close> does not
  validate the scope, and a patch plan out of scope raises.
\<close>

definition settle_run ::
    "mcp_env \<Rightarrow> path \<Rightarrow> pystr list option \<Rightarrow> patch_options \<Rightarrow> repository_intake \<Rightarrow> ask_assessment \<Rightarrow> proof_discovery
     \<Rightarrow> patch_apply_result \<Rightarrow> int cli" where
  "settle_run mcp repo scope opts i assessment discovery a =
     (let out = po_out opts in
      andthen (lift_result (eip_from_assessment (path_name repo) assessment)) (\<lambda>e0.
      let e = e0\<lparr>eip_scope_boundaries := run_scope scope (pa_changed_files a)\<rparr> in
      andthen (lift_result (build_patch_plan e (pa_changed_files a) (pd_commands discovery)
          (mees_minimum_score (aa_mees_budget assessment)))) (\<lambda>plan.
      let d = dependency_decision
            (assess_dependency_changes (pa_changed_files a) (po_approve_dependencies opts));
          payload = repo_run_payload mcp i assessment plan a d in
      if given (pl_blocker plan) \<or> \<not> allow d then undoing a (payload None) out
      else andthen (lift_result (parse_proof_plan (discovered_plan (cy_sha256 (en_crypto mcp)) e discovery))) (\<lambda>proofs.
           prove_or_undo mcp repo e proofs a payload out))))"

definition repo_run_command :: "cli_env \<Rightarrow> path \<Rightarrow> path \<Rightarrow> pystr list option \<Rightarrow> patch_options \<Rightarrow> int cli" where
  "repo_run_command env repo ask_file scope opts =
     (let mcp = ce_mcp env; out = po_out opts in
      needing [ask_file, po_patch opts] (handling
        (andthen (cli_files (assess_repository (en_spawn mcp) (en_walk mcp) repo)) (\<lambda>i.
         andthen (cli_files (inspect_git_state (en_spawn mcp) (en_walk mcp) repo (po_allow_dirty opts))) (\<lambda>git.
         if \<not> gs_autonomous_patch_allowed git
         then reporting (blocked_json ''blocked'' (gs_blocker git) []) out 1
         else
           andthen (cli_files (read_text ask_file)) (\<lambda>ask.
           andthen (lift_result (assess_ask ask)) (\<lambda>assessment.
           let context = [(''assessment'', assessment_json assessment), (''intake'', intake_json i)] in
           if blocks_autonomous_execution assessment
           then reporting (blocked_json ''blocked''
                  (Some ''ask assessment requires human clarification or manual autonomy'') context) out 1
           else
             andthen (cli_files (discover_proof_commands (json_loads mcp) repo)) (\<lambda>discovery.
             if pd_commands discovery = [] then reporting (blocked_json ''blocked'' (pd_blocker discovery) context) out 1
             else
               andthen (cli_files (read_text (po_patch opts))) (\<lambda>patch.
               andthen (cli_files (apply_unified_diff repo patch)) (\<lambda>a.
               if \<not> pa_applied a then reporting (blocked_json ''failed'' (pa_blocker a) []) out 1
               else settle_run mcp repo scope opts i assessment discovery a))))))))
        (on_value_error ''Repository run failed'')))"

section \<open>Running a command\<close>

definition files_of :: "console \<Rightarrow> filesystem" where
  "files_of t = snd (tm_site t)"

lemma files_of_streams [simp]:
  "files_of (t\<lparr>tm_stdout := x\<rparr>) = files_of t" "files_of (t\<lparr>tm_stderr := x\<rparr>) = files_of t"
  by (simp_all add: files_of_def)

lemma cli_then:
  assumes "obeys (same_on id) m"
  shows "andthen (cli_files m) k t = (case fst (m (files_of t)) of Inl e \<Rightarrow> (Inl e, t) | Inr x \<Rightarrow> k x t)"
  using on_files_same [OF assms, of "tm_site t"] by (simp add: andthen_def cli_files_def on_site_def files_of_def)

lemma reporting_run: "reporting payload None code t = (Inr code, t\<lparr>tm_stdout := tm_stdout t @ dumps_pretty False payload @ [CHR 0x0A]\<rparr>)"
  by (simp add: reporting_def write_or_print_json_def write_or_print_text_def out_text_def)

lemma fail_with_run: "fail_with m t = (Inr 1, t\<lparr>tm_stderr := tm_stderr t @ m @ [CHR 0x0A]\<rparr>)"
  by (simp add: fail_with_def print_error_def)

lemma handled_exit:
  "exit_status (handling m (on_value_error msg)) t =
     (case m t of (Inr code, t') \<Rightarrow> (code, t')
      | (Inl e, t') \<Rightarrow> (1, if is_value_error e then t'\<lparr>tm_stderr := tm_stderr t' @ msg @ '': '' @ exn_text e @ [CHR 0x0A]\<rparr> else t'))"
  by (simp add: exit_status_def handling_def on_value_error_def fail_with_run split: prod.splits sum.splits)

lemma file_there_run: "file_there p t = (Inr (path_exists (files_of t) p), t)"
  by (simp add: file_there_def files_of_def)

lemma timestamp_cli: "\<exists>now t'. on_site timestamp t = (Inr now, t') \<and> files_of t' = files_of t"
proof -
  obtain now w' where "timestamp (fst (tm_site t), snd (tm_site t)) = (Inr now, (w', snd (tm_site t)))"
    using timestamp_run by blast
  then show ?thesis by (auto simp: on_site_def files_of_def)
qed

lemma undoing_run:
  assumes "apply_unified_diff repo patch fs = (Inr a, fs')" "pa_applied a" "rooted fs" "files_of t = fs'"
  shows "\<exists>t'. undoing a payload None t = (Inr 1, t') \<and> files_of t' = fs"
proof -
  obtain r where "on_files (undo_patch a) (fst (tm_site t), fs') = (Inr r, (fst (tm_site t), fs))"
    using undo_applied [OF assms(1-3)] by blast
  then have "cli_files (undo_patch a) t = (Inr r, t\<lparr>tm_site := (fst (tm_site t), fs)\<rparr>)"
    using assms(4) by (simp add: cli_files_def on_site_def files_of_def prod_eq_iff split: prod.split) (metis prod.collapse)
  then show ?thesis by (simp add: undoing_def andthen_def reporting_run files_of_def)
qed

text \<open>The verifier passes in the patched repository.\<close>

definition proofs_pass :: "mcp_env \<Rightarrow> path \<Rightarrow> eip \<Rightarrow> proof_plan \<Rightarrow> filesystem \<Rightarrow> bool" where
  "proofs_pass env repo e plan fs =
     (\<exists>cwd now. resolve fs repo = Inr cwd
        \<and> vp_passed (run_verifier (cy_sha256 (en_crypto env)) (en_engine env) (en_spawn env) default_guard
             (Some (path_text cwd)) now e plan))"

lemma prove_or_undo_run:
  assumes a: "apply_unified_diff repo patch fs = (Inr a, fs')" "pa_applied a" "rooted fs" and t: "files_of t = fs'"
  shows "\<exists>t'. prove_or_undo env repo e plan a payload None t =
      (Inr (if proofs_pass env repo e plan fs' then 0 else 1), t')
    \<and> files_of t' = (if proofs_pass env repo e plan fs' then fs' else fs)"
proof -
  obtain cwd where cwd: "resolve fs' repo = Inr cwd" using applied_resolve [OF a(1,2)] by blast
  obtain now t1 where now: "on_site timestamp t = (Inr now, t1)" "files_of t1 = fs'" using timestamp_cli t by blast
  have passed: "vp_passed (run_verifier h ev spawn g c u e plan) = vp_passed (run_verifier h ev spawn g c u' e plan)"
    for h ev spawn g c u u' by (simp add: run_verifier_def Let_def split: prod.splits)
  let ?r = "run_verifier (cy_sha256 (en_crypto env)) (en_engine env) (en_spawn env) default_guard (Some (path_text cwd)) now e plan"
  have pass: "proofs_pass env repo e plan fs' \<longleftrightarrow> vp_passed ?r"
    unfolding proofs_pass_def cwd by (auto intro: passed [THEN iffD1])
  have run: "prove_or_undo env repo e plan a payload None t =
      (if \<not> vp_passed ?r then undoing a (payload (Some ?r)) None else reporting (payload (Some ?r) None) None 0) t1"
    using now(1) t by (simp add: prove_or_undo_def cli_then [OF resolve_same] cwd Let_def) (simp add: andthen_def)
  obtain t2 where t2: "undoing a (payload (Some ?r)) None t1 = (Inr 1, t2)" "files_of t2 = fs"
    using undoing_run [OF a now(2)] by blast
  show ?thesis using run t2 now(2) by (simp add: pass reporting_run)
qed

section \<open>What \<open>repo run\<close> leaves behind\<close>

text \<open>An ask that does not block becomes a contract whose obligations have distinct names.\<close>

lemma assessed_contract:
  assumes "\<not> blocks_autonomous_execution (assessed ask)"
  shows "\<exists>e. eip_from_assessment name (assessed ask) = Inr e \<and> distinct (map po_id (eip_proof_obligations e))"
proof -
  let ?a = "assessed ask"
  obtain os where os: "obligations_from (aa_summary ?a) 1 (aa_required_proof_kinds ?a) = Inr os"
    "map po_id os = map (\<lambda>n. ''po-'' @ show_nat n) [1..<1 + length (aa_required_proof_kinds ?a)]"
    using obligations_from_known [OF known_kinds] unfolding assessed_simps by metis
  have "aa_autonomy_tier ?a \<noteq> Manual" using assms by (simp add: blocks_autonomous_execution_def)
  moreover have "valid_eip (contract_of name ?a os)"
    using assessed_telemetry [of ask] assessed_budget [of ask]
    by (simp add: contract_of_def valid_eip_def semantic_version_def all_digits_def)
  ultimately have "eip_from_assessment name ?a = Inr (contract_of name ?a os)"
    unfolding eip_from_assessment_def os(1) by (simp only: sum.case parse_eip_def if_True if_False)
  moreover have "distinct (map po_id (eip_proof_obligations (contract_of name ?a os)))"
    unfolding contract_of_def by (simp add: os(2) distinct_map inj_on_def)
  ultimately show ?thesis by blast
qed

text \<open>The contract of a run, and its patch plan; both are computed after the patch was applied.\<close>

definition run_contract :: "path \<Rightarrow> pystr list option \<Rightarrow> pystr \<Rightarrow> patch_apply_result \<Rightarrow> eip \<Rightarrow> bool" where
  "run_contract repo scope ask a e =
     (\<exists>e0. eip_from_assessment (path_name repo) (assessed ask) = Inr e0
        \<and> e = e0\<lparr>eip_scope_boundaries := run_scope scope (pa_changed_files a)\<rparr>)"

definition run_plan :: "eip \<Rightarrow> pystr \<Rightarrow> proof_discovery \<Rightarrow> patch_apply_result \<Rightarrow> exn + patch_plan" where
  "run_plan e ask discovery a =
     build_patch_plan e (pa_changed_files a) (pd_commands discovery) (mees_minimum_score (aa_mees_budget (assessed ask)))"

definition run_kept ::
    "mcp_env \<Rightarrow> path \<Rightarrow> patch_options \<Rightarrow> pystr \<Rightarrow> proof_discovery \<Rightarrow> eip \<Rightarrow> patch_apply_result \<Rightarrow> filesystem \<Rightarrow> bool" where
  "run_kept env repo opts ask discovery e a fs' =
     ((\<exists>plan. run_plan e ask discovery a = Inr plan \<and> \<not> given (pl_blocker plan))
      \<and> (po_approve_dependencies opts \<or> list_all (\<lambda>p. dependency_ecosystem p = None) (pa_changed_files a))
      \<and> proofs_pass env repo e (discovered_plan (cy_sha256 (en_crypto env)) e discovery) fs')"

lemma settle_run_run:
  assumes a: "apply_unified_diff repo patch fs = (Inr a, fs')" "pa_applied a" "rooted fs"
    and t: "files_of t = fs'" and out: "po_out opts = None"
    and ask: "\<not> blocks_autonomous_execution (assessed ask)" and e: "run_contract repo scope ask a e"
  shows "\<exists>r t'. settle_run env repo scope opts i (assessed ask) discovery a t = (r, t')
    \<and> (case run_plan e ask discovery a of
         Inl x \<Rightarrow> r = Inl x \<and> files_of t' = fs'
       | Inr plan \<Rightarrow> r = Inr (if run_kept env repo opts ask discovery e a fs' then 0 else 1)
           \<and> files_of t' = (if run_kept env repo opts ask discovery e a fs' then fs' else fs))"
proof -
  obtain e0 where e0: "eip_from_assessment (path_name repo) (assessed ask) = Inr e0"
    "e = e0\<lparr>eip_scope_boundaries := run_scope scope (pa_changed_files a)\<rparr>"
    using e unfolding run_contract_def by blast
  have ids: "parse_proof_plan (discovered_plan h e discovery) = Inr (discovered_plan h e discovery)" for h
    using assessed_contract [OF ask, of "path_name repo"] e0
    by (auto simp: parse_proof_plan_def discovered_plan_def comp_def)
  let ?d = "dependency_decision (assess_dependency_changes (pa_changed_files a) (po_approve_dependencies opts))"
  show ?thesis
  proof (cases "run_plan e ask discovery a")
    case (Inl x)
    then show ?thesis using e0 t by (simp add: settle_run_def Let_def run_plan_def)
  next
    case (Inr plan)
    let ?payload = "repo_run_payload env i (assessed ask) plan a ?d"
    obtain t1 where t1: "undoing a (?payload None) None t = (Inr 1, t1)" "files_of t1 = fs"
      using undoing_run [OF a t] by blast
    let ?proofs = "discovered_plan (cy_sha256 (en_crypto env)) e discovery"
    obtain t2 where t2: "prove_or_undo env repo e ?proofs a ?payload None t =
        (Inr (if proofs_pass env repo e ?proofs fs' then 0 else 1), t2)"
      "files_of t2 = (if proofs_pass env repo e ?proofs fs' then fs' else fs)"
      using prove_or_undo_run [OF a t] by blast
    have "settle_run env repo scope opts i (assessed ask) discovery a t =
        (if given (pl_blocker plan) \<or> \<not> allow ?d then undoing a (?payload None) None t
         else prove_or_undo env repo e ?proofs a ?payload None t)"
      using e0 Inr ids out by (simp add: settle_run_def Let_def run_plan_def)
    then show ?thesis using t1 t2 Inr by (auto simp: run_kept_def dependency_decision_allow)
  qed
qed

text \<open>The checks before the patch is applied.\<close>

definition run_ready ::
    "cli_env \<Rightarrow> path \<Rightarrow> path \<Rightarrow> patch_options \<Rightarrow> filesystem \<Rightarrow> pystr \<Rightarrow> proof_discovery \<Rightarrow> pystr \<Rightarrow> bool" where
  "run_ready env repo ask_file opts fs ask discovery patch =
     (let mcp = ce_mcp env in
      path_exists fs ask_file \<and> path_exists fs (po_patch opts)
      \<and> (\<exists>i. fst (assess_repository (en_spawn mcp) (en_walk mcp) repo fs) = Inr i)
      \<and> (\<exists>git. fst (inspect_git_state (en_spawn mcp) (en_walk mcp) repo (po_allow_dirty opts) fs) = Inr git
           \<and> gs_autonomous_patch_allowed git)
      \<and> fst (read_text ask_file fs) = Inr ask \<and> \<not> blocks_autonomous_execution (assessed ask)
      \<and> fst (discover_proof_commands (json_loads mcp) repo fs) = Inr discovery \<and> pd_commands discovery \<noteq> []
      \<and> fst (read_text (po_patch opts) fs) = Inr patch)"

lemma run_ready_unique:
  "run_ready env repo ask_file opts fs ask discovery patch \<Longrightarrow> run_ready env repo ask_file opts fs ask' discovery' patch' \<Longrightarrow>
     ask' = ask \<and> discovery' = discovery \<and> patch' = patch"
  unfolding run_ready_def Let_def by fastforce

lemma node_test_same: "obeys (same_on id) (node_test_command loads root)"
proof (rule sameI)
  fix fs
  have read: "snd (read_text p fs) = fs" for p using sameD [OF same_read_text, of p fs] by (metis id_apply prod.collapse)
  show "id (snd (node_test_command loads root fs)) = id fs"
    using read [of "root @ [''package.json'']"]
    by (auto simp: node_test_command_def andthen_def split: prod.split sum.split option.split json.split)
qed

lemma discover_same: "obeys (same_on id) (discover_proof_commands loads p)"
  unfolding discover_proof_commands_def Let_def
  by (intro frame.effect_intros resolve_same node_test_same)

lemmas run_steps =
  cli_then [OF assess_same] cli_then [OF git_state_same] cli_then [OF same_read_text] cli_then [OF discover_same]

lemma needing_run:
  "exit_status (needing ps m) t =
     (case find (\<lambda>p. \<not> path_exists (files_of t) p) ps of
        None \<Rightarrow> exit_status m t
      | Some p \<Rightarrow> (1, t\<lparr>tm_stderr := tm_stderr t @ ''File '' @ path_text p @ '' not found.'' @ [CHR 0x0A]\<rparr>))"
  by (induction ps) (simp_all add: exit_status_def andthen_def file_there_run fail_with_run)

declare needing.simps [simp del]

lemma repo_run_refused:
  assumes "po_out opts = None" "\<And>ask discovery patch. \<not> run_ready env repo ask_file opts (files_of t) ask discovery patch"
  shows "\<exists>t'. exit_status (repo_run_command env repo ask_file scope opts) t = (1, t') \<and> files_of t' = files_of t"
proof (cases "path_exists (files_of t) ask_file \<and> path_exists (files_of t) (po_patch opts)")
  case False
  then show ?thesis by (auto simp: repo_run_command_def Let_def needing_run)
next
  case True
  with assms show ?thesis
    unfolding run_ready_def
    by (fastforce simp: repo_run_command_def Let_def needing_run handled_exit run_steps reporting_run
        split: sum.split)
qed

definition settle_after_apply ::
    "mcp_env \<Rightarrow> path \<Rightarrow> pystr list option \<Rightarrow> patch_options \<Rightarrow> repository_intake \<Rightarrow> ask_assessment \<Rightarrow> proof_discovery
     \<Rightarrow> pystr \<Rightarrow> int cli" where
  "settle_after_apply env repo scope opts i assessment discovery patch =
     andthen (cli_files (apply_unified_diff repo patch)) (\<lambda>a.
       if \<not> pa_applied a then reporting (blocked_json ''failed'' (pa_blocker a) []) (po_out opts) 1
       else settle_run env repo scope opts i assessment discovery a)"

lemma repo_run_admitted:
  assumes "run_ready env repo ask_file opts (files_of t) ask discovery patch"
  shows "\<exists>i. exit_status (repo_run_command env repo ask_file scope opts) t =
    exit_status (handling (settle_after_apply (ce_mcp env) repo scope opts i (assessed ask) discovery patch)
      (on_value_error ''Repository run failed'')) t"
  using assms unfolding run_ready_def Let_def
  by (auto simp: repo_run_command_def Let_def needing_run handled_exit run_steps settle_after_apply_def)

definition run_goes_through ::
    "cli_env \<Rightarrow> path \<Rightarrow> path \<Rightarrow> pystr list option \<Rightarrow> patch_options \<Rightarrow> filesystem \<Rightarrow> filesystem \<Rightarrow> bool" where
  "run_goes_through env repo ask_file scope opts fs fs' =
     (\<exists>ask discovery patch a e. run_ready env repo ask_file opts fs ask discovery patch
        \<and> apply_unified_diff repo patch fs = (Inr a, fs') \<and> pa_applied a \<and> run_contract repo scope ask a e
        \<and> run_kept (ce_mcp env) repo opts ask discovery e a fs')"

definition run_abandoned ::
    "cli_env \<Rightarrow> path \<Rightarrow> path \<Rightarrow> pystr list option \<Rightarrow> patch_options \<Rightarrow> filesystem \<Rightarrow> filesystem \<Rightarrow> bool" where
  "run_abandoned env repo ask_file scope opts fs fs' =
     (\<exists>ask discovery patch a e x. run_ready env repo ask_file opts fs ask discovery patch
        \<and> apply_unified_diff repo patch fs = (Inr a, fs') \<and> pa_applied a \<and> run_contract repo scope ask a e
        \<and> run_plan e ask discovery a = Inl x)"

lemma run_contract_unique: "run_contract repo scope ask a e \<Longrightarrow> run_contract repo scope ask a e' \<Longrightarrow> e' = e"
  by (auto simp: run_contract_def)

text \<open>Every section of the patch names a path that can be opened.\<close>

definition targets_present :: "path \<Rightarrow> pystr \<Rightarrow> filesystem \<Rightarrow> bool" where
  "targets_present repo patch fs =
     (\<forall>rp fp. resolve fs repo = Inr rp \<and> fp \<in> set (parse_unified_diff patch) \<longrightarrow>
        path_exists fs (rp @ path_parts (fp_path fp)))"

lemma settled_run:
  assumes fs: "rooted (files_of t)" "po_out opts = None"
    and present: "targets_present repo patch (files_of t)"
    and ask: "\<not> blocks_autonomous_execution (assessed ask)"
  shows "\<exists>r t'. settle_after_apply env repo scope opts i (assessed ask) discovery patch t = (r, t')
    \<and> ((\<exists>a e. apply_unified_diff repo patch (files_of t) = (Inr a, files_of t') \<and> pa_applied a
           \<and> run_contract repo scope ask a e
           \<and> (r = Inr 0 \<and> run_kept env repo opts ask discovery e a (files_of t')
              \<or> (\<exists>x. r = Inl x \<and> run_plan e ask discovery a = Inl x)))
      \<or> (r \<noteq> Inr 1 \<longrightarrow> isl r) \<and> files_of t' = files_of t
         \<and> (\<forall>a e fs'. apply_unified_diff repo patch (files_of t) = (Inr a, fs') \<longrightarrow> pa_applied a \<longrightarrow>
              run_contract repo scope ask a e \<longrightarrow>
              \<not> run_kept env repo opts ask discovery e a fs' \<and> (\<exists>plan. run_plan e ask discovery a = Inr plan)))"
proof -
  obtain r fs' where run: "apply_unified_diff repo patch (files_of t) = (r, fs')" by fastforce
  let ?t = "t\<lparr>tm_site := (fst (tm_site t), fs')\<rparr>"
  have step: "cli_files (apply_unified_diff repo patch) t = (r, ?t)"
    using run by (simp add: cli_files_def on_site_def on_files_def files_of_def)
  show ?thesis
  proof (cases "\<exists>a. r = Inr a \<and> pa_applied a")
    case True
    then obtain a where a: "r = Inr a" "pa_applied a" by blast
    obtain e where e: "run_contract repo scope ask a e"
      using assessed_contract [OF ask, of "path_name repo"] unfolding run_contract_def by blast
    have "files_of ?t = fs'" by (simp add: files_of_def)
    from settle_run_run [OF run [unfolded a(1)] a(2) fs(1) this fs(2) ask e, of env i discovery]
    obtain r2 t2 where r2: "settle_run env repo scope opts i (assessed ask) discovery a ?t = (r2, t2)"
      "case run_plan e ask discovery a of
         Inl x \<Rightarrow> r2 = Inl x \<and> files_of t2 = fs'
       | Inr plan \<Rightarrow> r2 = Inr (if run_kept env repo opts ask discovery e a fs' then 0 else 1)
           \<and> files_of t2 = (if run_kept env repo opts ask discovery e a fs' then fs' else files_of t)" by blast
    have all: "settle_after_apply env repo scope opts i (assessed ask) discovery patch t = (r2, t2)"
      using step a r2(1) by (simp add: settle_after_apply_def andthen_def)
    show ?thesis
    proof (cases "(\<exists>x. run_plan e ask discovery a = Inl x) \<or> run_kept env repo opts ask discovery e a fs'")
      case True
      with r2(2) have "files_of t2 = fs'" "r2 = Inr 0 \<and> run_kept env repo opts ask discovery e a fs'
          \<or> (\<exists>x. r2 = Inl x \<and> run_plan e ask discovery a = Inl x)"
        by (auto simp: run_kept_def)
      then have "apply_unified_diff repo patch (files_of t) = (Inr a, files_of t2) \<and> pa_applied a
          \<and> run_contract repo scope ask a e
          \<and> (r2 = Inr 0 \<and> run_kept env repo opts ask discovery e a (files_of t2)
             \<or> (\<exists>x. r2 = Inl x \<and> run_plan e ask discovery a = Inl x))"
        using run a e by simp
      then have "\<exists>a e. apply_unified_diff repo patch (files_of t) = (Inr a, files_of t2) \<and> pa_applied a
          \<and> run_contract repo scope ask a e
          \<and> (r2 = Inr 0 \<and> run_kept env repo opts ask discovery e a (files_of t2)
             \<or> (\<exists>x. r2 = Inl x \<and> run_plan e ask discovery a = Inl x))"
        by (intro exI)
      from conjI [OF all disjI1 [OF this]] show ?thesis by (intro exI)
    next
      case False
      then obtain plan where plan: "run_plan e ask discovery a = Inr plan" by (cases "run_plan e ask discovery a") auto
      with False r2(2) have "r2 = Inr 1" "files_of t2 = files_of t" by simp_all
      moreover have "\<not> run_kept env repo opts ask discovery e' a' fs'' \<and> (\<exists>plan. run_plan e' ask discovery a' = Inr plan)"
        if "apply_unified_diff repo patch (files_of t) = (Inr a', fs'')" "run_contract repo scope ask a' e'" for a' e' fs''
        using False that run a(1) run_contract_unique [OF e] plan by auto
      ultimately have "(r2 \<noteq> Inr 1 \<longrightarrow> isl r2) \<and> files_of t2 = files_of t
         \<and> (\<forall>a e fs'. apply_unified_diff repo patch (files_of t) = (Inr a, fs') \<longrightarrow> pa_applied a \<longrightarrow>
              run_contract repo scope ask a e \<longrightarrow>
              \<not> run_kept env repo opts ask discovery e a fs' \<and> (\<exists>plan. run_plan e ask discovery a = Inr plan))"
        by simp
      from conjI [OF all disjI2 [OF this]] show ?thesis by (intro exI)
    qed
  next
    case False
    have "fs' = files_of t" by (intro stopped_patch [OF run]) (use False present in \<open>auto simp: targets_present_def\<close>)
    moreover have "(case r of Inl x \<Rightarrow> True | Inr a \<Rightarrow> \<not> pa_applied a)" using False by (cases r) auto
    ultimately have "\<exists>r2 t2. settle_after_apply env repo scope opts i (assessed ask) discovery patch t = (r2, t2)
        \<and> (r2 \<noteq> Inr 1 \<longrightarrow> isl r2) \<and> files_of t2 = files_of t"
      using step fs(2) by (cases r) (auto simp: settle_after_apply_def andthen_def reporting_run files_of_def)
    moreover have "\<not> pa_applied a" if "apply_unified_diff repo patch (files_of t) = (Inr a, fs'')" for a fs''
      using False that run by auto
    ultimately show ?thesis by blast
  qed
qed


section \<open>Examples\<close>

definition cli_demo :: cli_env where
  "cli_demo =
     \<lparr>ce_mcp = demo_env, ce_yaml_dump = (\<lambda>_. []), ce_assessment = (\<lambda>_. Inl (ValidationError [])),
      ce_run_evidence = (\<lambda>_. Inl (ValidationError [])), ce_git = (\<lambda>_. None)\<rparr>"

definition cli_repo :: filesystem where
  "cli_repo = demo_repo([''w'', ''tests''] \<mapsto> Directory, [''ask''] \<mapsto> File ''Tests in the parser must pass.'')"

definition cli_options :: patch_options where
  "cli_options = \<lparr>po_patch = [''d''], po_out = None, po_allow_dirty = False, po_approve_dependencies = False\<rparr>"

definition cli_terminal :: console where
  "cli_terminal = \<lparr>tm_site = (fst demo_site, cli_repo), tm_stdout = [], tm_stderr = []\<rparr>"

lemma cli_repo_ready:
  "rooted (files_of cli_terminal)" "po_out cli_options = None"
  "fst (read_text (po_patch cli_options) (files_of cli_terminal)) = Inr patch \<Longrightarrow>
     targets_present [''w''] patch (files_of cli_terminal)"
proof -
  show "rooted (files_of cli_terminal)"
    by (auto simp: files_of_def cli_terminal_def cli_repo_def rooted_def demo_repo_def demo_files_def)
  show "po_out cli_options = None" by (simp add: cli_options_def)
  have "fst (read_text (po_patch cli_options) (files_of cli_terminal)) = Inr demo_patch"
    "resolve (files_of cli_terminal) [''w''] = Inr [''w'']"
    "list_all (\<lambda>fp. path_exists (files_of cli_terminal) ([''w''] @ path_parts (fp_path fp))) (parse_unified_diff demo_patch)"
    by code_simp+
  then show "fst (read_text (po_patch cli_options) (files_of cli_terminal)) = Inr patch \<Longrightarrow>
     targets_present [''w''] patch (files_of cli_terminal)"
    by (auto simp: targets_present_def list_all_iff)
qed

definition cli_discovery :: proof_discovery where
  "cli_discovery =
     \<lparr>pd_root = ''/w'', pd_commands = [\<lparr>dv_ecosystem = ''python'', dv_command = [''pytest''],
        dv_reason = ''Python test directory or pytest config detected''\<rparr>], pd_blocker = None\<rparr>"

lemma cli_run_ready:
  "run_ready cli_demo [''w''] [''ask''] cli_options cli_repo ''Tests in the parser must pass.'' cli_discovery demo_patch"
proof -
  have "path_exists cli_repo [''ask''] \<and> path_exists cli_repo (po_patch cli_options)"
    "fst (read_text [''ask''] cli_repo) = Inr ''Tests in the parser must pass.''"
    "\<not> blocks_autonomous_execution (assessed ''Tests in the parser must pass.'')"
    "fst (discover_proof_commands (json_loads (ce_mcp cli_demo)) [''w''] cli_repo) = Inr cli_discovery"
    "fst (read_text (po_patch cli_options) cli_repo) = Inr demo_patch"
    "pd_commands cli_discovery \<noteq> []"
    "(case fst (assess_repository (en_spawn (ce_mcp cli_demo)) (en_walk (ce_mcp cli_demo)) [''w''] cli_repo) of
        Inl e \<Rightarrow> False | Inr i \<Rightarrow> True)"
    "(case fst (inspect_git_state (en_spawn (ce_mcp cli_demo)) (en_walk (ce_mcp cli_demo)) [''w'']
          (po_allow_dirty cli_options) cli_repo) of
        Inl e \<Rightarrow> False | Inr git \<Rightarrow> gs_autonomous_patch_allowed git)"
    by code_simp+
  then show ?thesis unfolding run_ready_def Let_def by (auto split: sum.splits)
qed

lemma cli_applied:
  obtains a fs' where "apply_unified_diff [''w''] demo_patch cli_repo = (Inr a, fs')" "pa_applied a"
    "pa_changed_files a = [''f'', ''link'']" "resolve fs' [''w''] = Inr [''w'']" "fs' [''w'', ''f''] \<noteq> cli_repo [''w'', ''f'']"
proof -
  have "(case fst (apply_unified_diff [''w''] demo_patch cli_repo) of Inl e \<Rightarrow> False
      | Inr a \<Rightarrow> pa_applied a \<and> pa_changed_files a = [''f'', ''link''])"
    "resolve (snd (apply_unified_diff [''w''] demo_patch cli_repo)) [''w''] = Inr [''w'']"
    "snd (apply_unified_diff [''w''] demo_patch cli_repo) [''w'', ''f''] \<noteq> cli_repo [''w'', ''f'']"
    by code_simp+
  then show thesis using that
    by (cases "apply_unified_diff [''w''] demo_patch cli_repo") (auto split: sum.splits)
qed

definition cli_contract :: "pystr list option \<Rightarrow> eip" where
  "cli_contract scope =
     (case eip_from_assessment ''w'' (assessed ''Tests in the parser must pass.'') of
        Inl x \<Rightarrow> template_eip [] | Inr e \<Rightarrow> e\<lparr>eip_scope_boundaries := run_scope scope [''f'', ''link'']\<rparr>)"

lemma cli_contract_made: "pa_changed_files a = [''f'', ''link''] \<Longrightarrow> run_contract [''w''] scope ''Tests in the parser must pass.'' a (cli_contract scope)"
proof -
  have "\<not> isl (eip_from_assessment ''w'' (assessed ''Tests in the parser must pass.''))" by code_simp
  then show "pa_changed_files a = [''f'', ''link''] \<Longrightarrow> ?thesis"
    by (cases "eip_from_assessment ''w'' (assessed ''Tests in the parser must pass.'')")
      (simp_all add: run_contract_def cli_contract_def path_name_def)
qed

definition cli_plan_of :: "pystr list option \<Rightarrow> exn + patch_plan" where
  "cli_plan_of scope =
     build_patch_plan (cli_contract scope) [''f'', ''link''] (pd_commands cli_discovery)
       (mees_minimum_score (aa_mees_budget (assessed ''Tests in the parser must pass.'')))"

lemma cli_checks:
  "(case cli_plan_of None of Inl x \<Rightarrow> False | Inr plan \<Rightarrow> \<not> given (pl_blocker plan))"
  "isl (cli_plan_of (Some [''src'']))"
  "list_all (\<lambda>p. dependency_ecosystem p = None) [''f'', ''link'']"
  "vp_passed (run_verifier (cy_sha256 (en_crypto demo_env)) (en_engine demo_env) (en_spawn demo_env) default_guard
     (Some (path_text [''w''])) [] (cli_contract None)
     (discovered_plan (cy_sha256 (en_crypto demo_env)) (cli_contract None) cli_discovery))"
  by code_simp+


text \<open>
  A scope that does not hold the patched files ends the run after the patch was applied, and
  nothing rolls it back.
\<close>

lemma refused_scope_is_abandoned:
  "\<exists>fs'. run_abandoned cli_demo [''w''] [''ask''] (Some [''src'']) cli_options cli_repo fs' \<and> fs' [''w'', ''f''] \<noteq> cli_repo [''w'', ''f'']"
proof -
  obtain a fs' where a: "apply_unified_diff [''w''] demo_patch cli_repo = (Inr a, fs')" "pa_applied a"
    "pa_changed_files a = [''f'', ''link'']" "fs' [''w'', ''f''] \<noteq> cli_repo [''w'', ''f'']" by (rule cli_applied)
  have "\<exists>x. run_plan (cli_contract (Some [''src''])) ''Tests in the parser must pass.'' cli_discovery a = Inl x"
    using cli_checks(2) a(3) by (auto simp: run_plan_def cli_plan_of_def isl_def)
  then show ?thesis
    using cli_run_ready a(1,2,4) cli_contract_made [OF a(3)] unfolding run_abandoned_def by blast
qed

section \<open>The scope of \<open>repo patch\<close>\<close>

lemma cli_load_same: "obeys (same_on id) (load_structured_file env p)"
  unfolding load_structured_file_def by (intro frame.effect_intros same_read_text)

lemma repo_patch_keeps:
  assumes fs: "rooted (files_of t)" "po_out opts = None"
    and there: "list_all (path_exists (files_of t)) [eip_file, proof_plan_file, po_patch opts]"
    and git: "fst (inspect_git_state (en_spawn (ce_mcp env)) (en_walk (ce_mcp env)) repo (po_allow_dirty opts) (files_of t)) = Inr git"
      "gs_autonomous_patch_allowed git"
    and e: "fst (load_structured_file (ce_mcp env) eip_file (files_of t)) = Inr v" "decode_eip (ce_mcp env) v = Inr e"
    and plan: "fst (load_structured_file (ce_mcp env) proof_plan_file (files_of t)) = Inr u" "decode_plan (ce_mcp env) u = Inr plan"
    and a: "fst (read_text (po_patch opts) (files_of t)) = Inr patch" "apply_unified_diff repo patch (files_of t) = (Inr a, fs')"
      "pa_applied a"
    and ok: "po_approve_dependencies opts \<or> list_all (\<lambda>p. dependency_ecosystem p = None) (pa_changed_files a)"
      "proofs_pass (ce_mcp env) repo e plan fs'"
  shows "\<exists>t'. exit_status (repo_patch_command env repo eip_file proof_plan_file opts) t = (0, t') \<and> files_of t' = fs'"
proof -
  let ?t = "t\<lparr>tm_site := (fst (tm_site t), fs')\<rparr>"
  have step: "cli_files (apply_unified_diff repo patch) t = (Inr a, ?t)"
    using a(2) by (simp add: cli_files_def on_site_def on_files_def files_of_def)
  let ?d = "dependency_decision (assess_dependency_changes (pa_changed_files a) (po_approve_dependencies opts))"
  have "files_of ?t = fs'" by (simp add: files_of_def)
  from prove_or_undo_run [OF a(2,3) fs(1) this, of "ce_mcp env" e plan "cli_patch_payload (ce_mcp env) a ?d"] ok(2)
  obtain t' where t': "prove_or_undo (ce_mcp env) repo e plan a (cli_patch_payload (ce_mcp env) a ?d) None ?t = (Inr 0, t')"
    "files_of t' = fs'" by auto
  have "allow ?d" using ok(1) by (simp add: dependency_decision_allow)
  then have "exit_status (repo_patch_command env repo eip_file proof_plan_file opts) t = (0, t')"
    using there git e plan a(1,3) fs(2) step t'(1)
    by (simp add: repo_patch_command_def Let_def needing_run handled_exit run_steps cli_eip_def cli_plan_def cli_load_def
        andthen_assoc cli_then [OF cli_load_same] andthen_Inr)
  then show ?thesis using t'(2) by blast
qed

text \<open>Here the scope of the contract is \<open>src\<close>, and the patch that is kept changes \<open>f\<close>.\<close>

lemma patch_out_of_scope_kept:
  "eip_scope_boundaries (demo_eip [''src'']) = [''src'']"
  "\<exists>t'. exit_status (repo_patch_command cli_demo [''w''] [''c''] [''c''] cli_options) cli_terminal = (0, t')
     \<and> files_of t' [''w'', ''f''] \<noteq> cli_repo [''w'', ''f'']"
proof -
  show "eip_scope_boundaries (demo_eip [''src'']) = [''src'']" by code_simp
  obtain a fs' where a: "apply_unified_diff [''w''] demo_patch cli_repo = (Inr a, fs')" "pa_applied a"
    "pa_changed_files a = [''f'', ''link'']" "resolve fs' [''w''] = Inr [''w'']" "fs' [''w'', ''f''] \<noteq> cli_repo [''w'', ''f'']"
    by (rule cli_applied)
  have files: "files_of cli_terminal = cli_repo" by (simp add: files_of_def cli_terminal_def)
  have "list_all (path_exists cli_repo) [[''c''], [''c''], po_patch cli_options]"
    "fst (inspect_git_state (en_spawn (ce_mcp cli_demo)) (en_walk (ce_mcp cli_demo)) [''w''] (po_allow_dirty cli_options) cli_repo) =
       Inr \<lparr>gs_root = ''/w'', gs_branch = None, gs_base_revision = Some [], gs_dirty_state = Clean,
            gs_autonomous_patch_allowed = True, gs_blocker = None\<rparr>"
    "fst (load_structured_file (ce_mcp cli_demo) [''c''] cli_repo) = Inr (J_Str ''c'')"
    "decode_eip (ce_mcp cli_demo) (J_Str ''c'') = Inr (demo_eip [''src''])"
    "decode_plan (ce_mcp cli_demo) (J_Str ''c'') = Inr demo_plan"
    "fst (read_text (po_patch cli_options) cli_repo) = Inr demo_patch"
    "list_all (\<lambda>p. dependency_ecosystem p = None) [''f'', ''link'']"
    by code_simp+
  note run = this
  have "proofs_pass (ce_mcp cli_demo) [''w''] (demo_eip [''src'']) demo_plan fs'"
    using demo_runs(2) a(4) by (auto simp: proofs_pass_def cli_demo_def)
  with repo_patch_keeps [of cli_terminal cli_options "[''c'']" "[''c'']" cli_demo "[''w'']", unfolded files,
      OF cli_repo_ready(1) [unfolded files] cli_repo_ready(2) run(1,2) _ run(3,4,3,5,6) a(1,2)] a(3,5) run(7)
  show "\<exists>t'. exit_status (repo_patch_command cli_demo [''w''] [''c''] [''c''] cli_options) cli_terminal = (0, t')
     \<and> files_of t' [''w'', ''f''] \<noteq> cli_repo [''w'', ''f'']" by auto
qed

end
