(* ===== verification/Spec2Isabelle.thy ===== *)
theory Spec2Isabelle
  imports Schema Approvals Projection Lifecycle Diff_Apply Ask Loop_Properties Swarm_Properties Deploy Patch_Plan Mcp_Properties
    Recovery_Properties Http_Properties User_Interface Plugin_Properties Provenance Cli_Repo
begin

text \<open>
  A model of the VAD development loop and its local control plane (the Python package
  \<open>src/vad\<close>), in the order the package is built up. Agents register with a small server,
  lease tasks, ingest events and move work items; a loop turns an ask into a contract (EIP), the
  contract into a proof plan, runs the plan through a policy and an execution guard, and records
  evidence. Around them: the HTTP server and its user interface, an MCP server for the agents'
  tools, patching of repositories, a plug-in installer, a swarm, deployments, memory and feedback.

  \<^bold>\<open>Conventions.\<close> Text is \<open>pystr\<close>, a list of characters with code points below 256; bytes are
  such texts too. A pydantic model is a \<open>record\<close> with a predicate \<open>valid_..\<close> for its validators and
  a \<open>parse_..\<close> that raises \<open>ValidationError\<close>; an enum is a \<open>datatype\<close>. A dict is the list of its
  items (\<open>dict_get\<close>, \<open>dict_set\<close>), a float its \<open>repr\<close> (\<open>Py_Float\<close> compares them; a sum or a mean of
  floats is a parameter). A function that may raise returns \<open>exn + 'a\<close>; an operation on a state
  is a \<open>proc\<close>, which returns the state also when it raises, since nothing rolls back what was
  committed. Clocks, \<open>uuid4\<close>, SHA-256, HMAC, \<open>opa\<close>, subprocesses, git, JSON and YAML parsers, the
  reading of JSON into a model by pydantic and model providers are arguments of the definitions
  that use them.

  \<^bold>\<open>Foundations.\<close>
  \<^item> \<open>Prelude\<close>: text, exceptions, \<open>proc\<close> and the locale \<open>effect_order\<close>, which lifts a relation
    between the states before and after through sequencing, handlers and loops.
  \<^item> \<open>Py_Time\<close> (\<open>datetime\<close>), \<open>Py_Float\<close>, \<open>Json\<close> and \<open>Json_Text\<close> (\<open>json.dumps\<close>, \<open>repr\<close>), \<open>Url\<close>
    (\<open>urllib.parse\<close>), \<open>Files\<close> (a file system with links and \<open>pathlib\<close> on it; at most 40 links are
    followed, as on Linux), \<open>File_Copies\<close> (\<open>shutil.copy2\<close>), \<open>Sql_Table\<close> (a SQLite table and the
    locale \<open>entity_table\<close>).

  \<^bold>\<open>Control plane\<close> (\<open>control_plane/\<close>, \<open>server/\<close>).
  \<^item> \<open>Cp_Events\<close>, \<open>Cp_Clients\<close>, \<open>Cp_Leases\<close>, \<open>Cp_Work_Items\<close>: the models of the same modules.
  \<^item> \<open>Schema\<close>: the ten migrations of \<open>server/db/store.py\<close> as data. \<open>Store_Base\<close>, \<open>Store\<close>,
    \<open>Store_Records\<close>: the database and the methods of \<open>ServerStore\<close>.
  \<^item> \<open>Event_Service\<close>, \<open>Lease_Service\<close>, \<open>Work_Item_Service\<close>, \<open>Client_Registry\<close>, \<open>Approvals\<close>:
    the services of \<open>server/api/\<close>; \<open>Sdk\<close>, \<open>Mcp_Gateway\<close>: their clients \<open>control_plane/sdk.py\<close> and
    \<open>mcp_gateway.py\<close>; \<open>Projection\<close>, \<open>Lifecycle\<close>, \<open>Plugin_Inventory\<close>: the modules of these names.
  \<^item> \<open>Store_Effects\<close> states, as locales over \<open>effect_order\<close>, what a relation must satisfy statement
    by statement so that every operation obeys it. It is interpreted for the store invariant
    (\<open>Store_Invariant\<close>) and for the histories of ledger, items and leases (\<open>Histories\<close>);
    \<open>Commands\<close> collects every request into one type and defines reachable databases.
    \<open>Event_Facts\<close>, \<open>Lease_Facts\<close> compute what an operation does; \<open>Demo\<close> is a small database for
    the instances. The theorems are in \<open>Lease_Properties\<close>, \<open>Work_Item_Properties\<close>,
    \<open>Scheduler_Properties\<close>, \<open>Recovery_Properties\<close> and below.

  \<^bold>\<open>HTTP server and user interface\<close> (\<open>server/app.py\<close>, \<open>ui/\<close>).
  \<^item> \<open>Http_Api\<close>: one response per route over the services, with the exceptions it answers;
    \<open>Dashboard\<close>: what it adds to a snapshot; \<open>Http_Server\<close>: the handler, which serves static files,
    keeps routes that change files to requests from the same machine and decodes the body.
    \<open>Http_Effects\<close> extends the locales of \<open>Store_Effects\<close> by the requests, so that
    \<open>Http_Properties\<close> gets consistency and the histories for the server from the interpretations
    at hand; it also confines static files and remote requests.
  \<^item> \<open>User_Interface\<close>: every fragment of \<open>ui/render.py\<close> as a text over the values of a payload, the
    build of the static files, and a proof by a scanner that the tags of a fragment are those of
    the templates, whatever the values.

  \<^bold>\<open>Agents' tools\<close> (\<open>adapters/mcp.py\<close>, \<open>memory/\<close>, \<open>feedback/\<close>).
  \<^item> \<open>Mcp_Adapter\<close>: the JSON-RPC server, authorisation and recording of calls, the thirteen tools.
    \<open>Mcp_Properties\<close>: a patch goes all the way or changes nothing; files change only with authority.
  \<^item> \<open>Memory\<close>: entries, the store and its file, the gateway with its redactor; \<open>Feedback\<close>:
    proposals and the contract the approved ones give.

  \<^bold>\<open>Repository tools\<close> (\<open>repo/\<close>, \<open>guards/filesystem.py\<close>).
  \<^item> \<open>Patch_Apply\<close>: path guard, journal, diff parser, hunks, planning and writing;
    \<open>Patch_Properties\<close>: hunks against a declarative reading, all or nothing, confinement, rollback.
  \<^item> \<open>Repo_Tools\<close>: intake, git state, dependency changes, discovery of proof commands;
    \<open>Patch_Plan\<close>: patch plans and their scope, whose string comparison means the comparison of
    path components.
  \<^item> \<open>Diff_Workflow\<close>, \<open>Diff_Apply\<close>: proposals, approvals and their application.

  \<^bold>\<open>Plug-ins\<close> (\<open>control_plane/plugins.py\<close>).
  \<^item> \<open>Plugin_Install\<close>: manifests, artifact digests, dry run, security audit, and the installer, which
    applies, uninstalls and rolls back a plan on the file system; \<open>Plugin_Properties\<close>: it stays
    under its two roots, and rolling back restores the configuration files.

  \<^bold>\<open>The loop\<close> (\<open>contracts/\<close>, \<open>ask/\<close>, \<open>proof/\<close>, \<open>policy/\<close>, \<open>guards/\<close>, \<open>verify/\<close>, \<open>effort/\<close>, \<open>release/\<close>,
  \<open>router/\<close>, \<open>evidence/\<close>, \<open>loop/\<close>).
  \<^item> \<open>Contracts\<close> (contract, normal form, diff), \<open>Proof_Plan\<close>, \<open>Ask\<close>, \<open>Effort\<close>, \<open>Evidence\<close>,
    \<open>Release\<close>, \<open>Router\<close> (token budgets, redaction, drift), \<open>Cost_Router\<close> (candidates by price,
    policy on their tier, budget).
  \<^item> \<open>Policy_Engine\<close>: the engine against an arbitrary \<open>opa\<close>, and \<open>rego_engine\<close>, what \<open>opa\<close> answers for
    the shipped \<open>policies/vad.rego\<close>. \<open>Guards\<close>, \<open>Verify_Runner\<close>: guarded processes and the runner.
  \<^item> \<open>Recorder\<close>, \<open>Loop\<close>, \<open>Loop_Properties\<close>: evidence, the state machine and the whole run, with
    its outcome as a table (\<open>loop_decision\<close>).

  \<^bold>\<open>Around it.\<close>
  \<^item> \<open>Swarm\<close>, \<open>Swarm_Properties\<close> (\<open>swarm/\<close>): the task graph and its cycle check, transport,
    coordinator. \<open>drain\<close> bounds the rounds by the number of tasks, which \<open>drain_run\<close> shows is
    enough.
  \<^item> \<open>Signing\<close>, \<open>Deploy\<close> (\<open>signing/\<close>, \<open>deploy/\<close>): envelopes, signers, plans, the fake provider and
    its rollback, attestations.

  \<^bold>\<open>Not modelled.\<close> Argument parsing and printing (\<open>cli.py\<close>); the demonstration data and the start of
  a server (\<open>server/fixtures.py\<close>, \<open>server/serve.py\<close>); the generators of the editor plug-ins, which are
  constant texts; telemetry exporters and the OpenAI SDK, which only move data in and out; the
  signed provenance record and the agent-to-agent envelope. Proof commands are assumed not to
  write files and the memory file to have a canonical path; the tools of the MCP server and the
  HTTP server share one ledger. HTTP payloads are typed: the JSON text of a response is left to
  \<open>json.dumps\<close>. Concurrent writers of the database file, attributes and permissions of files, and
  code points above 255 (and so the replacement character of a lenient decoder) are outside the
  model.
\<close>

section \<open>The whole control plane\<close>



text \<open>
  C2: the life of a work item. Whatever requests are processed on a consistent database, an
  item is never removed; its status only moves along the allowed transitions; its run,
  priority, creation time and governance never change; and once it is completed or cancelled
  its status is final.
\<close>

lemma status_steps_final:
  assumes "(s, t) \<in> status_step\<^sup>*" "s \<in> {Completed, Cancelled}"
  shows "t = s"
  using assms by (induction rule: rtrancl_induct) (auto simp: status_step_def)

theorem work_item_history:
  assumes "list_all well_formed cs" "store_ok w" "item_of w k = Some i"
  shows "\<exists>j. item_of (after_commands cs w) k = Some j \<and> (wi_status i, wi_status j) \<in> status_step\<^sup>*
    \<and> wi_run_id j = wi_run_id i \<and> wi_priority j = wi_priority i \<and> wi_created_at j = wi_created_at i
    \<and> wi_governance j = wi_governance i
    \<and> (wi_status i \<in> {Completed, Cancelled} \<longrightarrow> wi_status j = wi_status i)"
proof -
  have "items_follow w (after_commands cs w)"
    using history.command_steps [OF assms(1), of w] assms(2) by (simp add: sound_history_def)
  with assms(3) obtain j where "item_of (after_commands cs w) k = Some j" "item_follows i j"
    unfolding items_follow_def by blast
  then show ?thesis using status_steps_final by (fastforce simp: item_follows_def)
qed

theorem work_item_history_witness:
  "\<exists>j. item_of (after_commands [Move ''d'' Running demo_caller no_change None, Unregister ''c1''] demo) ''d'' = Some j
     \<and> wi_status j = Completed"
proof -
  have st: "wi_status (demo_item ''d'' Completed (Some ''c1'')) = Completed" by (simp add: demo_item_def)
  have "list_all well_formed [Move ''d'' Running demo_caller no_change None, Unregister ''c1'']" by simp
  from work_item_history [OF this demo_ok demo_item_of(4)] show ?thesis unfolding st by blast
qed

end
